(* ===== verification/JsBase.thy ===== *)
theory JsBase
  imports Complex_Main "HOL-Library.Sublist" "HOL-Library.Multiset"
begin

text \<open>
  Prelude of the development: what the models of all components share.

  \<^item> the values the TypeScript code throws (\<open>err\<close>) and the result type \<open>'a res\<close> of code that
    can throw, with its bind;
  \<^item> the operations of JavaScript's \<open>String.prototype\<close> the code uses, on HOL strings. A HOL
    \<open>char\<close> is one 8-bit code, so the model covers JavaScript strings whose UTF-16 code units
    are all below 256 (Latin-1); upper-casing the two Latin-1 letters whose upper case lies
    outside of Latin-1 (codes 181 and 255) leaves them as they are;
  \<^item> insertion-ordered \<open>Map\<close> and \<open>Set\<close> as association lists and duplicate-free lists;
  \<^item> the theorem collections \<open>res_simps\<close> and \<open>js_defs\<close>.
\<close>

named_theorems res_simps "rewrite rules for the result type"
named_theorems js_defs "definitions of the string operations, for evaluation"

section \<open>Errors and results\<close>

text \<open>\<open>AppError\<close> of shared/utils/errors.ts: a message with an optional status and code.\<close>

record AppError =
  ae_message :: string
  ae_status :: "nat option"
  ae_code :: "string option"

definition app_error :: "string \<Rightarrow> nat \<Rightarrow> string \<Rightarrow> AppError" where
  "app_error msg st code = \<lparr>ae_message = msg, ae_status = Some st, ae_code = Some code\<rparr>"

text \<open>What a \<open>throw\<close> can carry: an \<open>AppError\<close>, an error of the database server, or any
  other \<open>Error\<close> with its message.\<close>

datatype pg_error =
    UniqueViolation string
  | MoreExpressionsThanColumns string
  | BindMismatch nat nat
  | RlsViolation string
  | TxAborted
  | AmbiguousColumn string
  | UndefinedObject string
  | InvalidInput string
  | CheckViolation string

datatype err = App AppError | Pg pg_error | Js string

type_synonym 'a res = "err + 'a"

abbreviation ok :: "'a \<Rightarrow> 'a res" where "ok \<equiv> Inr"

definition throw :: "string \<Rightarrow> nat \<Rightarrow> string \<Rightarrow> 'a res" where
  "throw msg st code = Inl (App (app_error msg st code))"

definition res_bind :: "'a res \<Rightarrow> ('a \<Rightarrow> 'b res) \<Rightarrow> 'b res" where
  "res_bind m f = (case m of Inl e \<Rightarrow> Inl e | Inr x \<Rightarrow> f x)"

lemma res_bind_simps [simp, res_simps]:
  "res_bind (Inl e) f = Inl e" "res_bind (Inr x) f = f x"
  by (simp_all add: res_bind_def)

lemma res_bind_ok_iff [res_simps]:
  "res_bind m f = Inr y \<longleftrightarrow> (\<exists>x. m = Inr x \<and> f x = Inr y)"
  by (cases m) auto

lemma res_bind_error_iff:
  "res_bind m f = Inl e \<longleftrightarrow> m = Inl e \<or> (\<exists>x. m = Inr x \<and> f x = Inl e)"
  by (cases m) auto

lemma throw_neq_ok [simp, res_simps]: "throw m s c \<noteq> Inr x" "Inr x \<noteq> throw m s c"
  by (simp_all add: throw_def)

definition is_ok :: "'a res \<Rightarrow> bool" where
  "is_ok r = (case r of Inl _ \<Rightarrow> False | Inr _ \<Rightarrow> True)"

definition err_code :: "err \<Rightarrow> string option" where
  "err_code e = (case e of App a \<Rightarrow> ae_code a | Pg _ \<Rightarrow> None | Js _ \<Rightarrow> None)"

text \<open>The code of the \<open>AppError\<close> a computation ends in, if it does.\<close>

definition fails_with :: "'a res \<Rightarrow> string \<Rightarrow> bool" where
  "fails_with r code = (case r of Inl e \<Rightarrow> err_code e = Some code | Inr _ \<Rightarrow> False)"

lemma fails_with_throw [simp]: "fails_with (throw m s c) code \<longleftrightarrow> c = code"
  by (simp add: fails_with_def throw_def err_code_def app_error_def)

lemma fails_with_ok [simp]: "\<not> fails_with (Inr x) code"
  by (simp add: fails_with_def)

lemma is_ok_simps [simp]: "is_ok (Inr x)" "\<not> is_ok (Inl e)" "\<not> is_ok (throw m s c)"
  by (simp_all add: is_ok_def throw_def)

lemma is_ok_iff: "is_ok r \<longleftrightarrow> (\<exists>x. r = Inr x)"
  by (cases r) auto

text \<open>A loop body that can throw, run over a list with an accumulator.\<close>

fun res_fold :: "('a \<Rightarrow> 's \<Rightarrow> 's res) \<Rightarrow> 'a list \<Rightarrow> 's \<Rightarrow> 's res" where
  "res_fold f [] s = Inr s"
| "res_fold f (x # xs) s = res_bind (f x s) (res_fold f xs)"

lemma res_fold_append:
  "res_fold f (xs @ ys) s = res_bind (res_fold f xs s) (res_fold f ys)"
proof (induction xs arbitrary: s)
  case (Cons x xs)
  then show ?case by (cases "f x s") auto
qed simp

lemma res_fold_invariant:
  assumes "res_fold f xs s = Inr t" and "P s"
    and "\<And>x u v. x \<in> set xs \<Longrightarrow> P u \<Longrightarrow> f x u = Inr v \<Longrightarrow> P v"
  shows "P t"
  using assms
proof (induction xs arbitrary: s)
  case (Cons x xs)
  then obtain u where "f x s = Inr u" "res_fold f xs u = Inr t"
    by (auto simp: res_bind_ok_iff)
  with Cons show ?case by (meson list.set_intros)
qed simp

fun res_map :: "('a \<Rightarrow> 'b res) \<Rightarrow> 'a list \<Rightarrow> 'b list res" where
  "res_map f [] = ok []"
| "res_map f (x # xs) = res_bind (f x) (\<lambda>y. res_bind (res_map f xs) (\<lambda>ys. ok (y # ys)))"

lemma res_map_ok_length: "res_map f xs = Inr ys \<Longrightarrow> length ys = length xs"
  by (induction xs arbitrary: ys) (auto simp: res_bind_ok_iff)

lemma res_map_ok_set: "res_map f xs = Inr ys \<Longrightarrow> y \<in> set ys \<Longrightarrow> \<exists>x \<in> set xs. f x = Inr y"
  by (induction xs arbitrary: ys) (auto simp: res_bind_ok_iff)

section \<open>Characters\<close>

abbreviation code :: "char \<Rightarrow> nat" where "code c \<equiv> of_char c"

definition between :: "nat \<Rightarrow> nat \<Rightarrow> char \<Rightarrow> bool" where
  "between lo hi c \<longleftrightarrow> lo \<le> code c \<and> code c \<le> hi"

definition is_digit :: "char \<Rightarrow> bool" where "is_digit c = between 48 57 c"
definition is_upper :: "char \<Rightarrow> bool" where "is_upper c = between 65 90 c"
definition is_lower :: "char \<Rightarrow> bool" where "is_lower c = between 97 122 c"
definition is_alpha :: "char \<Rightarrow> bool" where "is_alpha c \<longleftrightarrow> is_upper c \<or> is_lower c"

text \<open>\<open>\w\<close> and \<open>\s\<close> of a regular expression (and what \<open>trim\<close> removes).\<close>

definition is_word :: "char \<Rightarrow> bool" where
  "is_word c \<longleftrightarrow> is_alpha c \<or> is_digit c \<or> c = CHR ''_''"

definition is_ws :: "char \<Rightarrow> bool" where
  "is_ws c \<longleftrightarrow> between 9 13 c \<or> code c = 32 \<or> code c = 160"

definition lower_char :: "char \<Rightarrow> char" where
  "lower_char c =
     (if is_upper c \<or> (between 192 222 c \<and> code c \<noteq> 215) then char_of (code c + 32) else c)"

definition upper_chars :: "char \<Rightarrow> string" where
  "upper_chars c =
     (if is_lower c \<or> (between 224 254 c \<and> code c \<noteq> 247) then [char_of (code c - 32)]
      else if code c = 223 then ''SS'' else [c])"

lemmas [js_defs] = between_def is_digit_def is_upper_def is_lower_def is_alpha_def is_word_def
  is_ws_def lower_char_def upper_chars_def

section \<open>String operations\<close>

definition toLowerCase :: "string \<Rightarrow> string" where "toLowerCase s = map lower_char s"
definition toUpperCase :: "string \<Rightarrow> string" where "toUpperCase s = concat (map upper_chars s)"

definition js_trim :: "string \<Rightarrow> string" where
  "js_trim s = rev (dropWhile is_ws (rev (dropWhile is_ws s)))"

definition startsWith :: "string \<Rightarrow> string \<Rightarrow> bool" where
  "startsWith s p \<longleftrightarrow> take (length p) s = p"

definition endsWith :: "string \<Rightarrow> string \<Rightarrow> bool" where
  "endsWith s p \<longleftrightarrow> length p \<le> length s \<and> drop (length s - length p) s = p"

text \<open>\<open>s.indexOf(pat)\<close>; \<open>None\<close> stands for -1.\<close>

fun find_from :: "string \<Rightarrow> string \<Rightarrow> nat option" where
  "find_from pat s =
     (if startsWith s pat then Some 0
      else (case s of [] \<Rightarrow> None | _ # t \<Rightarrow> map_option Suc (find_from pat t)))"

declare find_from.simps [simp del]

definition indexOf :: "string \<Rightarrow> string \<Rightarrow> nat \<Rightarrow> nat option" where
  "indexOf s pat i = map_option ((+) i) (find_from pat (drop i s))"

definition js_includes :: "string \<Rightarrow> string \<Rightarrow> bool" where
  "js_includes s pat \<longleftrightarrow> find_from pat s \<noteq> None"

definition slice :: "string \<Rightarrow> nat \<Rightarrow> nat \<Rightarrow> string" where
  "slice s a b = take (b - a) (drop a s)"

text \<open>\<open>s.split(sep)\<close> for a non-empty separator: one piece more than there are separators.\<close>

function js_split :: "string \<Rightarrow> string \<Rightarrow> string list" where
  "js_split s sep =
     (case find_from sep s of
        None \<Rightarrow> [s]
      | Some i \<Rightarrow> if sep = [] then [s]
                 else take i s # js_split (drop (i + length sep) s) sep)"
  by pat_completeness auto
termination
proof (relation "measure (\<lambda>(s, sep). length s)", goal_cases)
  case (2 s sep i)
  have bound: "find_from p t = Some j \<Longrightarrow> j + length p \<le> length t" for p t j
  proof (induction t arbitrary: j)
    case Nil
    then show ?case by (subst (asm) find_from.simps) (auto simp: startsWith_def split: if_splits)
  next
    case (Cons c t)
    show ?case
    proof (cases "startsWith (c # t) p")
      case True
      have "length (take (length p) (c # t)) = length p"
        using True by (simp add: startsWith_def)
      then have "length p \<le> length (c # t)" by (simp only: length_take min_def split: if_splits)
      moreover have "j = 0" using Cons.prems True by (subst (asm) find_from.simps) simp
      ultimately show ?thesis by simp
    next
      case False
      then obtain k where "find_from p t = Some k" "j = Suc k"
        using Cons.prems by (subst (asm) find_from.simps) auto
      then show ?thesis using Cons.IH by simp
    qed
  qed
  from 2 bound [of sep s i] show ?case by (cases sep) auto
qed simp

declare js_split.simps [simp del]

fun js_join :: "string \<Rightarrow> string list \<Rightarrow> string" where
  "js_join sep [] = []"
| "js_join sep [x] = x"
| "js_join sep (x # y # xs) = x @ sep @ js_join sep (y # xs)"

text \<open>\<open>s.replace(/c/g, r)\<close> for a single character.\<close>

definition replace_char :: "char \<Rightarrow> string \<Rightarrow> string \<Rightarrow> string" where
  "replace_char c r s = concat (map (\<lambda>x. if x = c then r else [x]) s)"

text \<open>The truthiness of a string and of an optional string.\<close>

definition truthy :: "string option \<Rightarrow> bool" where
  "truthy s = (case s of None \<Rightarrow> False | Some x \<Rightarrow> x \<noteq> [])"

lemma truthy_simps [simp]: "\<not> truthy None" "truthy (Some x) \<longleftrightarrow> x \<noteq> []"
  by (simp_all add: truthy_def)

text \<open>The decimal digits of a non-negative integer.\<close>

function digits_of :: "int \<Rightarrow> string" where
  "digits_of n =
     (if n < 10 then [char_of (48 + nat n)]
      else digits_of (n div 10) @ [char_of (48 + nat (n mod 10))])"
  by pat_completeness auto
termination
  by (relation "measure nat") auto

declare digits_of.simps [simp del]

lemmas [js_defs] = toLowerCase_def toUpperCase_def js_trim_def startsWith_def endsWith_def
  find_from.simps indexOf_def js_includes_def slice_def js_split.simps replace_char_def
  digits_of.simps

section \<open>Ordered sets and maps\<close>

text \<open>\<open>Array.from(new Set(xs))\<close>: the first occurrence of each element, in order.\<close>

fun uniq_acc :: "'a list \<Rightarrow> 'a list \<Rightarrow> 'a list" where
  "uniq_acc seen [] = []"
| "uniq_acc seen (x # xs) =
     (if x \<in> set seen then uniq_acc seen xs else x # uniq_acc (x # seen) xs)"

definition uniq :: "'a list \<Rightarrow> 'a list" where "uniq xs = uniq_acc [] xs"

lemma set_uniq_acc: "set (uniq_acc seen xs) = set xs - set seen"
  by (induction xs arbitrary: seen) auto

lemma set_uniq [simp]: "set (uniq xs) = set xs"
  by (simp add: uniq_def set_uniq_acc)

lemma distinct_uniq_acc: "distinct (uniq_acc seen xs)"
  by (induction xs arbitrary: seen) (auto simp: set_uniq_acc)

lemma distinct_uniq [simp]: "distinct (uniq xs)"
  by (simp add: uniq_def distinct_uniq_acc)

lemma uniq_acc_id: "distinct xs \<Longrightarrow> set xs \<inter> set seen = {} \<Longrightarrow> uniq_acc seen xs = xs"
  by (induction xs arbitrary: seen) auto

lemma uniq_distinct [simp]: "distinct xs \<Longrightarrow> uniq xs = xs"
  by (simp add: uniq_def uniq_acc_id)

text \<open>A JavaScript \<open>Map\<close>: \<open>set\<close> overwrites in place or appends, so the order is that of the
  first insertion of each key.\<close>

type_synonym ('k, 'v) jsmap = "('k \<times> 'v) list"

fun map_set :: "'k \<Rightarrow> 'v \<Rightarrow> ('k, 'v) jsmap \<Rightarrow> ('k, 'v) jsmap" where
  "map_set k v [] = [(k, v)]"
| "map_set k v ((k', v') # m) = (if k' = k then (k, v) # m else (k', v') # map_set k v m)"

lemma map_of_map_set [simp]: "map_of (map_set k v m) = (map_of m)(k \<mapsto> v)"
  by (induction m) (auto simp: fun_eq_iff)

lemma map_set_new: "name \<notin> fst ` set m \<Longrightarrow> map_set name v m = m @ [(name, v)]"
  by (induction name v m rule: map_set.induct) auto

lemma keys_map_set: "set (map fst (map_set k v m)) = insert k (set (map fst m))"
  by (induction k v m rule: map_set.induct) auto

lemma distinct_map_set: "distinct (map fst m) \<Longrightarrow> distinct (map fst (map_set k v m))"
proof (induction m)
  case (Cons p m)
  obtain k' v' where p: "p = (k', v')" by fastforce
  show ?case
  proof (cases "k' = k")
    case True
    then show ?thesis using Cons.prems by (simp add: p)
  next
    case False
    then have "k' \<notin> set (map fst (map_set k v m))"
      using Cons.prems by (simp only: keys_map_set) (simp add: p)
    then show ?thesis using False Cons by (simp add: p)
  qed
qed simp

lemma values_map_set: "set (map snd (map_set k v m)) \<subseteq> insert v (set (map snd m))"
  by (induction k v m rule: map_set.induct) auto

section \<open>Facts about the string operations\<close>

lemma startsWith_iff: "startsWith s p \<longleftrightarrow> (\<exists>t. s = p @ t)"
proof
  assume "startsWith s p"
  then have "s = p @ drop (length p) s"
    unfolding startsWith_def by (metis append_take_drop_id)
  then show "\<exists>t. s = p @ t" ..
qed (auto simp: startsWith_def)

lemma find_from_Some:
  "find_from p s = Some i \<Longrightarrow> \<exists>t. s = take i s @ p @ t \<and> length (take i s) = i"
proof (induction s arbitrary: i)
  case Nil
  then show ?case
    by (subst (asm) find_from.simps) (auto simp: startsWith_iff split: if_splits)
next
  case (Cons c s)
  show ?case
  proof (cases "startsWith (c # s) p")
    case True
    then have "i = 0" using Cons.prems by (subst (asm) find_from.simps) simp
    then show ?thesis using True by (simp add: startsWith_iff)
  next
    case False
    then obtain k where k: "find_from p s = Some k" "i = Suc k"
      using Cons.prems by (subst (asm) find_from.simps) auto
    with Cons.IH obtain t where "s = take k s @ p @ t" "length (take k s) = k" by blast
    then show ?thesis using k(2) by auto
  qed
qed

lemma find_from_None: "find_from p s = None \<longleftrightarrow> \<not> (\<exists>a b. s = a @ p @ b)"
proof (induction s)
  case Nil
  then show ?case by (subst find_from.simps) (auto simp: startsWith_iff)
next
  case (Cons c s)
  have "(\<exists>a b. c # s = a @ p @ b) \<longleftrightarrow> startsWith (c # s) p \<or> (\<exists>a b. s = a @ p @ b)"
    (is "?l \<longleftrightarrow> ?r")
  proof
    assume ?l
    then obtain a b where ab: "c # s = a @ p @ b" by blast
    show ?r
    proof (cases a)
      case Nil
      then show ?thesis using ab by (auto simp: startsWith_iff)
    next
      case (Cons d a')
      then show ?thesis using ab by auto
    qed
  next
    assume ?r
    then show ?l
    proof
      assume "startsWith (c # s) p"
      then show ?l by (metis append_Nil startsWith_iff)
    next
      assume "\<exists>a b. s = a @ p @ b"
      then show ?l by (metis append_Cons)
    qed
  qed
  then show ?case
    using Cons by (subst find_from.simps) auto
qed

lemma js_includes_iff: "js_includes s p \<longleftrightarrow> (\<exists>a b. s = a @ p @ b)"
  by (simp add: js_includes_def find_from_None)

lemma js_includes_sublist: "js_includes s p \<longleftrightarrow> sublist p s"
  by (auto simp: js_includes_iff sublist_def)

lemma js_includes_trans: "js_includes s t \<Longrightarrow> js_includes t u \<Longrightarrow> js_includes s u"
  by (metis js_includes_sublist sublist_order.order_trans)

lemma toLowerCase_append [simp]: "toLowerCase (a @ b) = toLowerCase a @ toLowerCase b"
  by (simp add: toLowerCase_def)

lemma js_includes_lower: "js_includes s p \<Longrightarrow> js_includes (toLowerCase s) (toLowerCase p)"
  unfolding js_includes_iff by (metis toLowerCase_append)

lemma replace_char_append [simp]: "replace_char c r (a @ b) = replace_char c r a @ replace_char c r b"
  by (simp add: replace_char_def)

lemma replace_char_Nil [simp]: "replace_char c r [] = []"
  by (simp add: replace_char_def)

lemma replace_char_absent: "c \<notin> set r \<Longrightarrow> c \<notin> set (replace_char c r s)"
  by (auto simp: replace_char_def)

text \<open>Splitting at a single character.\<close>

lemma find_from_single:
  "find_from [c] s = (if c \<in> set s then Some (length (takeWhile (\<lambda>x. x \<noteq> c) s)) else None)"
  by (induction s) (subst find_from.simps; simp add: startsWith_def)+

lemma js_split_absent: "c \<notin> set s \<Longrightarrow> js_split s [c] = [s]"
  by (subst js_split.simps) (simp add: find_from_single)

lemma js_split_Cons:
  assumes "c \<notin> set a"
  shows "js_split (a @ c # b) [c] = a # js_split b [c]"
proof -
  have "takeWhile (\<lambda>x. x \<noteq> c) (a @ c # b) = a"
    using assms by (induction a) auto
  then show ?thesis by (subst js_split.simps) (simp add: find_from_single)
qed

lemma split_at_first: "c \<in> set s \<Longrightarrow> \<exists>a b. s = a @ c # b \<and> c \<notin> set a"
  by (metis split_list_first)

lemma js_split_snoc:
  "c \<notin> set b \<Longrightarrow> js_split (s @ c # b) [c] = js_split s [c] @ [b]"
proof (induction "length s" arbitrary: s rule: less_induct)
  case less
  show ?case
  proof (cases "c \<in> set s")
    case True
    then obtain a t where s: "s = a @ c # t" and a: "c \<notin> set a" using split_at_first by metis
    have "js_split (t @ c # b) [c] = js_split t [c] @ [b]" using less by (simp add: s)
    then show ?thesis using a by (simp add: s js_split_Cons)
  next
    case False
    then show ?thesis using less.prems by (simp add: js_split_Cons js_split_absent)
  qed
qed

lemma js_split_not_Nil [simp]: "js_split s sep \<noteq> []"
  by (subst js_split.simps) (simp split: option.split)

lemma js_join_split: "js_join [c] (js_split s [c]) = s"
proof (induction "length s" arbitrary: s rule: less_induct)
  case less
  show ?case
  proof (cases "c \<in> set s")
    case True
    then obtain a t where s: "s = a @ c # t" and a: "c \<notin> set a" using split_at_first by metis
    have IH: "js_join [c] (js_split t [c]) = t" using less by (simp add: s)
    obtain x xs where xs: "js_split t [c] = x # xs" by (cases "js_split t [c]") auto
    show ?thesis using IH a by (simp add: s js_split_Cons xs)
  next
    case False
    then show ?thesis by (simp add: js_split_absent)
  qed
qed

section \<open>Decimal digits\<close>

lemma code_char_of [simp]: "n < 256 \<Longrightarrow> code (char_of n) = n"
  by simp

lemma digit_char [simp]: "0 \<le> n \<Longrightarrow> n < 10 \<Longrightarrow> is_digit (char_of (48 + nat n))"
  by (simp add: is_digit_def between_def)

lemma digits_of_digits: "0 \<le> n \<Longrightarrow> list_all is_digit (digits_of n)"
proof (induction n rule: digits_of.induct)
  case (1 n)
  then show ?case by (subst digits_of.simps) simp
qed

lemma digits_of_not_Nil [simp]: "digits_of n \<noteq> []"
  by (subst digits_of.simps) simp

section \<open>Sorting with a comparator\<close>

text \<open>\<open>Array.prototype.sort\<close> is stable; for a consistent comparator its result is unique, and
  insertion sort computes it.\<close>

fun insort_cmp :: "('a \<Rightarrow> 'a \<Rightarrow> bool) \<Rightarrow> 'a \<Rightarrow> 'a list \<Rightarrow> 'a list" where
  "insort_cmp le x [] = [x]"
| "insort_cmp le x (y # ys) = (if le x y then x # y # ys else y # insort_cmp le x ys)"

text \<open>\<open>le a b\<close> says that the comparator gives a number that is not positive.\<close>

definition js_sort :: "('a \<Rightarrow> 'a \<Rightarrow> bool) \<Rightarrow> 'a list \<Rightarrow> 'a list" where
  "js_sort le xs = foldr (insort_cmp le) xs []"

locale comparator =
  fixes le :: "'a \<Rightarrow> 'a \<Rightarrow> bool"
  assumes total: "le a b \<or> le b a"
    and trans: "le a b \<Longrightarrow> le b c \<Longrightarrow> le a c"
begin

lemma set_insort: "set (insort_cmp le x ys) = insert x (set ys)"
  by (induction ys) auto

lemma sorted_insort: "sorted_wrt le ys \<Longrightarrow> sorted_wrt le (insort_cmp le x ys)"
proof (induction ys)
  case (Cons y ys)
  have "le y x" if "\<not> le x y" using total that by blast
  then show ?case using Cons by (auto simp: set_insort intro: trans)
qed simp

lemma sorted_sort: "sorted_wrt le (js_sort le xs)"
  unfolding js_sort_def by (induction xs) (auto intro: sorted_insort)

end

lemma mset_insort_cmp: "mset (insort_cmp le x ys) = add_mset x (mset ys)"
  by (induction ys) auto

lemma mset_js_sort [simp]: "mset (js_sort le xs) = mset xs"
  unfolding js_sort_def by (induction xs) (auto simp: mset_insort_cmp)

lemma set_js_sort [simp]: "set (js_sort le xs) = set xs"
  by (metis mset_js_sort set_mset_mset)

lemma length_js_sort [simp]: "length (js_sort le xs) = length xs"
  by (metis mset_js_sort size_mset)

lemma distinct_map_js_sort: "distinct (map f (js_sort le xs)) \<longleftrightarrow> distinct (map f xs)"
  by (rule mset_eq_imp_distinct_iff) simp

end
