(* ===== verification/JsNumber.thy ===== *)
theory JsNumber
  imports JsBase "HOL-Library.Log_Nat"
begin

text \<open>
  JavaScript numbers: IEEE 754 doubles with round-to-nearest-even, as exact rationals.

  \<open>jsnum\<close> is a double: a rational (a value the rounding function \<open>rnd\<close> produces), an infinity
  or NaN; the two zeros are one value, because nothing the code does tells them apart. Every
  arithmetic operation is the exact operation followed by \<open>rnd\<close>. Then the conversions the code
  uses: \<open>Number(s)\<close>, \<open>Number.parseInt(s, 10)\<close>, \<open>x.toFixed(f)\<close>, \<open>String(x)\<close>.
\<close>

section \<open>Rounding to the nearest double\<close>

definition round_half_even :: "rat \<Rightarrow> int" where
  "round_half_even q =
     (let f = \<lfloor>q\<rfloor>; d = q - of_int f
      in if d < 1 / 2 then f else if d > 1 / 2 then f + 1 else if even f then f else f + 1)"

text \<open>\<open>\<lfloor>log2 a\<rfloor>\<close> of a positive rational.\<close>

definition ilog2 :: "rat \<Rightarrow> int" where
  "ilog2 a =
     (let (n, d) = quotient_of a; e = bitlen n - bitlen d
      in if 2 powi e \<le> a then e else e - 1)"

text \<open>53 significant bits, subnormals below \<open>2^-1022\<close>, overflow from \<open>2^1024\<close> on: a mantissa of
  at most \<open>2^53\<close> times \<open>2^k\<close> reaches it iff \<open>k > 971\<close>, or \<open>k = 971\<close> and the mantissa is \<open>2^53\<close>.\<close>

datatype jsnum = Fin rat | PosInf | NegInf | NaN

definition quantum :: "rat \<Rightarrow> int" where
  "quantum a = max (ilog2 a - 52) (- 1074)"

definition rnd :: "rat \<Rightarrow> jsnum" where
  "rnd q =
     (if q = 0 then Fin 0
      else let k = quantum \<bar>q\<bar>; m = round_half_even (\<bar>q\<bar> / 2 powi k)
           in if k > 971 \<or> (k = 971 \<and> m \<ge> 9007199254740992) then (if q > 0 then PosInf else NegInf)
              else Fin (sgn q * (of_int m * 2 powi k)))"

section \<open>Arithmetic and comparison\<close>

definition isFinite :: "jsnum \<Rightarrow> bool" where
  "isFinite x = (case x of Fin _ \<Rightarrow> True | _ \<Rightarrow> False)"

fun jneg :: "jsnum \<Rightarrow> jsnum" where
  "jneg (Fin a) = Fin (- a)" | "jneg PosInf = NegInf" | "jneg NegInf = PosInf" | "jneg NaN = NaN"

fun jadd :: "jsnum \<Rightarrow> jsnum \<Rightarrow> jsnum" where
  "jadd (Fin a) (Fin b) = rnd (a + b)"
| "jadd (Fin _) y = y"
| "jadd x (Fin _) = x"
| "jadd PosInf PosInf = PosInf"
| "jadd NegInf NegInf = NegInf"
| "jadd _ _ = NaN"

definition jsub :: "jsnum \<Rightarrow> jsnum \<Rightarrow> jsnum" where "jsub x y = jadd x (jneg y)"

definition jinf :: "rat \<Rightarrow> jsnum" where
  "jinf s = (if s > 0 then PosInf else if s < 0 then NegInf else NaN)"

fun jmul :: "jsnum \<Rightarrow> jsnum \<Rightarrow> jsnum" where
  "jmul (Fin a) (Fin b) = rnd (a * b)"
| "jmul NaN _ = NaN"
| "jmul _ NaN = NaN"
| "jmul (Fin a) PosInf = jinf a"
| "jmul (Fin a) NegInf = jinf (- a)"
| "jmul PosInf (Fin b) = jinf b"
| "jmul NegInf (Fin b) = jinf (- b)"
| "jmul PosInf PosInf = PosInf"
| "jmul NegInf NegInf = PosInf"
| "jmul _ _ = NegInf"

fun jabs :: "jsnum \<Rightarrow> jsnum" where
  "jabs (Fin a) = Fin \<bar>a\<bar>" | "jabs PosInf = PosInf" | "jabs NegInf = PosInf" | "jabs NaN = NaN"

text \<open>\<open>x > y\<close>; every comparison with NaN is false.\<close>

fun jgt :: "jsnum \<Rightarrow> jsnum \<Rightarrow> bool" where
  "jgt (Fin a) (Fin b) = (a > b)"
| "jgt NaN _ = False"
| "jgt _ NaN = False"
| "jgt (Fin _) PosInf = False"
| "jgt (Fin _) NegInf = True"
| "jgt PosInf PosInf = False"
| "jgt PosInf _ = True"
| "jgt NegInf _ = False"

definition jge :: "jsnum \<Rightarrow> jsnum \<Rightarrow> bool" where
  "jge x y \<longleftrightarrow> jgt x y \<or> (x = y \<and> x \<noteq> NaN)"

text \<open>A numeric literal of the source: the double nearest to it.\<close>

abbreviation lit :: "rat \<Rightarrow> jsnum" where "lit q \<equiv> rnd q"

section \<open>Parsing\<close>

definition digits_val :: "string \<Rightarrow> int" where
  "digits_val s = foldl (\<lambda>a c. 10 * a + (int (code c) - 48)) 0 s"

definition exp_part :: "string \<Rightarrow> int option" where
  "exp_part s =
     (case s of
        [] \<Rightarrow> Some 0
      | c # t \<Rightarrow>
          if c = CHR ''e'' \<or> c = CHR ''E'' then
            (let (sg, ds) = (case t of
                CHR ''+'' # u \<Rightarrow> (1, u) | CHR ''-'' # u \<Rightarrow> (- 1, u) | _ \<Rightarrow> (1, t))
             in if ds \<noteq> [] \<and> list_all is_digit ds then Some (sg * digits_val ds) else None)
          else None)"

definition decimal_part :: "string \<Rightarrow> rat option" where
  "decimal_part s =
     (let ip = takeWhile is_digit s; r = dropWhile is_digit s;
          (fp, r') = (case r of
             CHR ''.'' # t \<Rightarrow> (takeWhile is_digit t, dropWhile is_digit t) | _ \<Rightarrow> ([], r))
      in if ip = [] \<and> fp = [] then None
         else map_option
           (\<lambda>e. of_int (digits_val (ip @ fp)) * 10 powi (e - int (length fp))) (exp_part r'))"

definition radix_digit :: "char \<Rightarrow> nat" where
  "radix_digit c =
     (if is_digit c then code c - 48 else if is_upper c then code c - 55
      else if is_lower c then code c - 87 else 99)"

definition radix_part :: "nat \<Rightarrow> string \<Rightarrow> jsnum" where
  "radix_part r s =
     (if s \<noteq> [] \<and> list_all (\<lambda>c. radix_digit c < r) s
      then rnd (of_int (foldl (\<lambda>a c. int r * a + int (radix_digit c)) 0 s)) else NaN)"

text \<open>\<open>Number(s)\<close>.\<close>

definition unsigned_number :: "string \<Rightarrow> jsnum" where
  "unsigned_number s =
     (if s = ''Infinity'' then PosInf
      else (case decimal_part s of None \<Rightarrow> NaN | Some q \<Rightarrow> rnd q))"

definition js_Number :: "string \<Rightarrow> jsnum" where
  "js_Number s =
     (let t = js_trim s
      in if t = [] then Fin 0
         else if startsWith (toLowerCase t) ''0x'' then radix_part 16 (drop 2 t)
         else if startsWith (toLowerCase t) ''0o'' then radix_part 8 (drop 2 t)
         else if startsWith (toLowerCase t) ''0b'' then radix_part 2 (drop 2 t)
         else if startsWith t ''+'' then unsigned_number (drop 1 t)
         else if startsWith t ''-'' then jneg (unsigned_number (drop 1 t))
         else unsigned_number t)"

text \<open>\<open>Number.parseInt(s, 10)\<close>: white space, a sign, then the longest run of digits.\<close>

definition js_parseInt :: "string \<Rightarrow> jsnum" where
  "js_parseInt s =
     (let t = dropWhile is_ws s;
          (sg, u) = (if startsWith t ''+'' then (1, drop 1 t)
                     else if startsWith t ''-'' then (- 1, drop 1 t) else (1, t));
          ds = takeWhile is_digit u
      in if ds = [] then NaN else rnd (of_int (sg * digits_val ds)))"

section \<open>Printing\<close>

text \<open>\<open>10^(n-1) \<le> x < 10^n\<close> for positive \<open>x\<close>.\<close>

definition dec_exp :: "rat \<Rightarrow> int" where
  "dec_exp x =
     (if x \<ge> 1 then int (length (digits_of \<lfloor>x\<rfloor>))
      else 1 - int (length (digits_of (\<lceil>1 / x\<rceil> - 1))))"

text \<open>The shortest decimal that reads back as \<open>x\<close>: digits \<open>s\<close>, how many, and the exponent.\<close>

definition try_digits :: "rat \<Rightarrow> int \<Rightarrow> nat \<Rightarrow> (int \<times> nat \<times> int) option" where
  "try_digits x n k =
     (let sc = 10 powi (n - int k); lo = \<lfloor>x / sc\<rfloor>; hi = \<lceil>x / sc\<rceil>;
          near = (if x / sc - of_int lo \<le> of_int hi - x / sc then [lo, hi] else [hi, lo]);
          good = filter (\<lambda>s. rnd (of_int s * sc) = Fin x) near
      in case good of
           [] \<Rightarrow> None
         | s # _ \<Rightarrow> Some (if s = 10 ^ k then (1, 1, n + 1) else (s, k, n)))"

text \<open>At most 17 digits are ever needed.\<close>

fun shortest_from :: "rat \<Rightarrow> int \<Rightarrow> nat \<Rightarrow> nat \<Rightarrow> int \<times> nat \<times> int" where
  "shortest_from x n k 0 = (1, 1, 1)"
| "shortest_from x n k (Suc fuel) =
     (case try_digits x n k of Some r \<Rightarrow> r | None \<Rightarrow> shortest_from x n (Suc k) fuel)"

definition shortest :: "rat \<Rightarrow> int \<times> nat \<times> int" where
  "shortest x = shortest_from x (dec_exp x) 1 17"

definition pos_to_string :: "rat \<Rightarrow> string" where
  "pos_to_string x =
     (let (s, k, n) = shortest x; ds = digits_of s;
          ex = (if n - 1 \<ge> 0 then ''+'' @ digits_of (n - 1) else ''-'' @ digits_of (1 - n))
      in if int k \<le> n \<and> n \<le> 21 then ds @ replicate (nat n - k) (CHR ''0'')
         else if 0 < n \<and> n \<le> 21 then take (nat n) ds @ ''.'' @ drop (nat n) ds
         else if - 6 < n \<and> n \<le> 0 then ''0.'' @ replicate (nat (- n)) (CHR ''0'') @ ds
         else if k = 1 then ds @ ''e'' @ ex
         else take 1 ds @ ''.'' @ drop 1 ds @ ''e'' @ ex)"

fun num_to_string :: "jsnum \<Rightarrow> string" where
  "num_to_string NaN = ''NaN''"
| "num_to_string PosInf = ''Infinity''"
| "num_to_string NegInf = ''-Infinity''"
| "num_to_string (Fin x) =
     (if x = 0 then ''0'' else if x < 0 then ''-'' @ pos_to_string (- x) else pos_to_string x)"

text \<open>\<open>x.toFixed(f)\<close>: the integer nearest to \<open>x * 10^f\<close>, the larger one on a tie.\<close>

definition fixed_digits :: "rat \<Rightarrow> nat \<Rightarrow> string" where
  "fixed_digits x f =
     (let n = \<lfloor>x * 10 ^ f + 1 / 2\<rfloor>; m = digits_of n;
          m' = replicate (f + 1 - length m) (CHR ''0'') @ m
      in if f = 0 then m else take (length m' - f) m' @ ''.'' @ drop (length m' - f) m')"

fun toFixed :: "jsnum \<Rightarrow> nat \<Rightarrow> string" where
  "toFixed (Fin x) f =
     (if \<bar>x\<bar> \<ge> 10 ^ 21 then num_to_string (Fin x)
      else if x < 0 then ''-'' @ fixed_digits (- x) f else fixed_digits x f)"
| "toFixed x f = num_to_string x"

section \<open>Facts about rounding\<close>

lemma bitlen_bounds':
  "n > 0 \<Longrightarrow> (2::rat) powi (bitlen n - 1) \<le> of_int n \<and> (of_int n :: rat) < 2 powi (bitlen n)"
proof -
  assume n: "n > 0"
  have p: "bitlen n \<ge> 1" using n bitlen_nonneg [of n] bitlen_eq_zero_iff [of n] by linarith
  have "(2::int) ^ nat (bitlen n - 1) \<le> n \<and> n < 2 ^ nat (bitlen n)"
    using bitlen_bounds [OF n] by simp
  then have "(2::rat) ^ nat (bitlen n - 1) \<le> of_int n \<and> (of_int n :: rat) < 2 ^ nat (bitlen n)"
    by (metis of_int_le_iff of_int_less_iff of_int_numeral of_int_power)
  then show ?thesis using p by (simp add: power_int_def)
qed

lemma ilog2_bounds:
  assumes "a > 0"
  shows "2 powi (ilog2 a) \<le> a" "a < 2 powi (ilog2 a + 1)"
proof -
  obtain n d where q: "quotient_of a = (n, d)" by fastforce
  have d: "d > 0" using quotient_of_denom_pos [OF q] .
  have a: "a = of_int n / of_int d" using quotient_of_div [OF q] .
  have n: "n > 0" using assms d a by (simp add: zero_less_divide_iff)
  let ?e = "bitlen n - bitlen d"
  have bn: "2 powi (bitlen n - 1) \<le> rat_of_int n" "rat_of_int n < 2 powi (bitlen n)"
    using bitlen_bounds' [OF n] by auto
  have bd: "2 powi (bitlen d - 1) \<le> rat_of_int d" "rat_of_int d < 2 powi (bitlen d)"
    using bitlen_bounds' [OF d] by auto
  have d': "rat_of_int d > 0" using d by simp
  have up: "a < 2 powi (?e + 1)"
  proof -
    have "2 powi (?e + 1) * 2 powi (bitlen d - 1) = (2::rat) powi (bitlen n)"
      by (simp flip: power_int_add)
    moreover have "2 powi (?e + 1) * 2 powi (bitlen d - 1) \<le> 2 powi (?e + 1) * rat_of_int d"
      by (rule mult_left_mono [OF bd(1)]) simp
    ultimately have "rat_of_int n < 2 powi (?e + 1) * rat_of_int d" using bn(2) by linarith
    then show ?thesis using d' by (simp add: a pos_divide_less_eq)
  qed
  have lo: "2 powi (?e - 1) \<le> a"
  proof -
    have "2 powi (?e - 1) * 2 powi (bitlen d) = (2::rat) powi (bitlen n - 1)"
      by (simp flip: power_int_add)
    moreover have "2 powi (?e - 1) * rat_of_int d \<le> 2 powi (?e - 1) * 2 powi (bitlen d)"
      by (rule mult_left_mono) (use bd(2) in simp_all)
    ultimately have "2 powi (?e - 1) * rat_of_int d \<le> rat_of_int n" using bn(1) by linarith
    then show ?thesis using d' by (simp add: a pos_le_divide_eq)
  qed
  show "2 powi (ilog2 a) \<le> a" using lo by (simp add: ilog2_def q Let_def)
  show "a < 2 powi (ilog2 a + 1)" using up by (auto simp: ilog2_def q Let_def)
qed

lemma round_half_even_of_int [simp]: "round_half_even (of_int i) = i"
  by (simp add: round_half_even_def Let_def)

lemma round_half_even_error: "\<bar>of_int (round_half_even q) - q\<bar> \<le> 1 / 2"
proof -
  have "of_int \<lfloor>q\<rfloor> \<le> q" "q < of_int \<lfloor>q\<rfloor> + 1" by linarith+
  then show ?thesis
    unfolding round_half_even_def Let_def abs_if by (simp split: if_splits) linarith?
qed

lemma two_powi_pos [simp]: "(2::rat) powi k > 0"
  by (simp add: zero_less_power_int)

text \<open>An integer of at most 53 bits is a double.\<close>

lemma rnd_of_int:
  assumes "\<bar>m\<bar> < 2 ^ 53"
  shows "rnd (of_int m) = Fin (of_int m)"
proof (cases "m = 0")
  case False
  let ?a = "\<bar>rat_of_int m\<bar>"
  have a: "?a > 0" using False by simp
  have "\<bar>m\<bar> \<le> 2 ^ 53 - 1" using assms by simp
  then have a53: "?a < 2 powi 53" by (simp flip: of_int_abs)
  have "2 powi (ilog2 ?a) < (2::rat) powi 53"
    using ilog2_bounds(1) [OF a] a53 by linarith
  then have "ilog2 ?a < 53"
    by (meson linorder_not_less one_le_numeral power_int_increasing)
  then have k: "quantum ?a \<le> 0" by (simp add: quantum_def)
  define j where "j = nat (- quantum ?a)"
  have kj: "quantum ?a = - int j" using k by (simp add: j_def)
  have "?a / 2 powi (quantum ?a) = of_int (\<bar>m\<bar> * 2 ^ j)"
    by (simp add: kj power_int_minus divide_inverse)
  then have v: "of_int (round_half_even (?a / 2 powi (quantum ?a))) * 2 powi (quantum ?a) = ?a"
    by (simp only: round_half_even_of_int) (simp add: kj power_int_minus)
  have s: "sgn (rat_of_int m) * ?a = of_int m" by (simp add: sgn_if abs_if)
  show ?thesis
    unfolding rnd_def Let_def v using False k s by simp
qed (simp add: rnd_def)

lemma rnd_of_nat: "n < 2 ^ 53 \<Longrightarrow> rnd (of_nat n) = Fin (of_nat n)"
  using rnd_of_int [of "int n"] by simp

lemma rnd_zero [simp]: "rnd 0 = Fin 0"
  by (simp add: rnd_def)

text \<open>A result of rounding that is an integer stays one: \<open>parseInt\<close> returns integers.\<close>

lemma rnd_int_is_int:
  assumes "rnd (of_int m) = Fin v"
  shows "v \<in> \<int>"
proof (cases "\<bar>m\<bar> < 2 ^ 53")
  case True
  then show ?thesis using assms by (auto simp: rnd_of_int)
next
  case False
  let ?a = "\<bar>rat_of_int m\<bar>"
  have m0: "m \<noteq> 0" using False by auto
  have a: "?a > 0" using m0 by simp
  have "2 ^ 53 \<le> \<bar>m\<bar>" using False by simp
  then have "rat_of_int (2 ^ 53) \<le> rat_of_int \<bar>m\<bar>" by (simp only: of_int_le_iff)
  then have a53: "2 powi 53 \<le> ?a" by simp
  then have "2 powi 53 < (2::rat) powi (ilog2 ?a + 1)"
    using ilog2_bounds(2) [OF a] by linarith
  then have "53 < ilog2 ?a + 1"
    by (meson linorder_not_less one_le_numeral power_int_increasing)
  then have k: "quantum ?a \<ge> 0" by (simp add: quantum_def)
  then have p: "2 powi (quantum ?a) = rat_of_int (2 ^ nat (quantum ?a))"
    by (simp add: power_int_def)
  have "v = sgn (rat_of_int m) * (of_int (round_half_even (?a / 2 powi quantum ?a)) * 2 powi quantum ?a)"
    using assms m0 by (simp add: rnd_def Let_def split: if_splits)
  moreover have "sgn (rat_of_int m) = of_int (sgn m)" by (simp add: sgn_if)
  ultimately show ?thesis unfolding p by simp
qed

text \<open>Printing a non-negative integer and reading it back.\<close>

lemma digits_val_snoc: "digits_val (s @ [c]) = 10 * digits_val s + (int (code c) - 48)"
  by (simp add: digits_val_def)

lemma digits_val_Nil [simp]: "digits_val [] = 0"
  by (simp add: digits_val_def)

lemma digits_val_single: "0 \<le> n \<Longrightarrow> n < 10 \<Longrightarrow> digits_val [char_of (48 + nat n)] = n"
  by (simp add: digits_val_def)

lemma digits_val_of: "0 \<le> n \<Longrightarrow> digits_val (digits_of n) = n"
proof (induction n rule: digits_of.induct)
  case (1 n)
  then show ?case
    by (subst digits_of.simps) (simp add: digits_val_single digits_val_snoc)
qed

lemma digit_not_ws: "is_digit c \<Longrightarrow> \<not> is_ws c"
  by (auto simp: is_digit_def is_ws_def between_def)

lemma js_parseInt_int: "js_parseInt v = Fin q \<Longrightarrow> q \<in> \<int>"
proof -
  assume q: "js_parseInt v = Fin q"
  have "js_parseInt v = NaN \<or> (\<exists>m. js_parseInt v = rnd (of_int m))"
    unfolding js_parseInt_def Let_def by (simp only: split: if_split prod.split) blast
  then obtain m where "rnd (of_int m) = Fin q" using q by auto
  then show "q \<in> \<int>" by (rule rnd_int_is_int)
qed

lemma js_parseInt_digits:
  assumes "s \<noteq> []" "list_all is_digit s"
  shows "js_parseInt s = rnd (of_int (digits_val s))"
proof -
  obtain c t where s: "s = c # t" using assms(1) by (cases s) auto
  then have c: "is_digit c" using assms(2) by simp
  have w: "dropWhile is_ws (c # t) = c # t" using c by (simp add: digit_not_ws)
  have n: "c \<noteq> CHR ''+''" "c \<noteq> CHR ''-''"
    using c by (auto simp: is_digit_def between_def)
  have sg: "\<not> startsWith (c # t) ''+''" "\<not> startsWith (c # t) ''-''"
    using n by (simp_all add: startsWith_def)
  have d: "takeWhile is_digit (c # t) = c # t"
    using assms(2) by (simp only: s takeWhile_eq_all_conv list_all_iff)
  show ?thesis
    unfolding js_parseInt_def Let_def s w using sg by (simp add: d del: takeWhile.simps)
qed

lemma js_parseInt_of:
  "0 \<le> n \<Longrightarrow> n < 2 ^ 53 \<Longrightarrow> js_parseInt (digits_of n) = Fin (of_int n)"
  by (simp add: js_parseInt_digits digits_of_digits digits_val_of rnd_of_int)

text \<open>How an index prints in a message.\<close>

definition idx_str :: "int \<Rightarrow> string" where
  "idx_str i = (if 0 \<le> i \<and> i < 2 ^ 53 then digits_of i else num_to_string (Fin (of_int i)))"

end
