(* ===== verification/Db.thy ===== *)
theory Db
  imports JsNumber JsRegex
begin

text \<open>
  db/pg.ts, db/tenantContext.ts and core/audit/auditService.ts on a model of the database session.

  A computation of the code that talks to the database is a function from the world to a world and
  a result (\<open>'a io\<close>). The world holds the tables, the state of the one open session (open
  transaction, its transaction-local settings, the snapshot for a rollback), the audit table
  (written over a connection of its own, so a rollback does not touch it), the statements issued
  and the number of UUIDs drawn.

  Of the server the model has: the comparison of column, expression and parameter counts of an
  INSERT; the aborted state of a failed transaction; UNIQUE constraints and primary keys of the
  migrations; forced row level security (rows of other tenants are invisible, writes outside of the
  current tenant fail), with the current tenant read from the setting \<open>app.tenant_id\<close>;
  \<open>set_config(..., true)\<close>, which lasts until the end of the transaction and, without an open
  transaction, only for its own statement. Column types, NOT NULL, defaults and concurrent
  transactions are not modelled. Identifiers are compared as texts (canonical UUIDs).
\<close>

section \<open>Request context\<close>

datatype Role = USER | ADMIN | DEALERADMIN | DEVELOPER

record RequestContext =
  cx_requestId :: "string option"
  cx_userId :: "string option"
  cx_tenantId :: "string option"
  cx_role :: "Role option"
  cx_ip :: "string option"
  cx_userAgent :: "string option"

section \<open>The world\<close>

datatype sqlval = SNull | SText string | SNum jsnum | SInt int | SBool bool | SArr "string list" | SBytes string

text \<open>A metadata value as \<open>typeof\<close> sees it.\<close>

datatype jsv = VNull | VBool bool | VNum jsnum | VStr string | VOther

record AuditEvent =
  ev_action :: string
  ev_objectType :: string
  ev_objectId :: "string option"
  ev_metadata :: "(string \<times> jsv) list option"

record AuditRow =
  ar_id :: string
  ar_tenant :: string
  ar_user :: string
  ar_request :: string
  ar_event :: AuditEvent

type_synonym row = "(string \<times> sqlval) list"

record World =
  w_tables :: "string \<Rightarrow> row list"
  w_inTx :: bool
  w_failed :: bool
  w_gucs :: "(string \<times> string) list"
  w_saved :: "string \<Rightarrow> row list"
  w_audit :: "AuditRow list"
  w_trace :: "string list"
  w_drawn :: nat

type_synonym 'a io = "World \<Rightarrow> World \<times> 'a res"

definition ret :: "'a \<Rightarrow> 'a io" where "ret x w = (w, Inr x)"
definition raise :: "err \<Rightarrow> 'a io" where "raise e w = (w, Inl e)"
definition lift :: "'a res \<Rightarrow> 'a io" where "lift r w = (w, r)"
definition bind :: "'a io \<Rightarrow> ('a \<Rightarrow> 'b io) \<Rightarrow> 'b io" where
  "bind m f w = (case m w of (w', r) \<Rightarrow> (case r of Inl e \<Rightarrow> (w', Inl e) | Inr x \<Rightarrow> f x w'))"
definition io_throw :: "string \<Rightarrow> nat \<Rightarrow> string \<Rightarrow> 'a io" where
  "io_throw msg st errCode = lift (throw msg st errCode)"

fun io_each :: "('a \<Rightarrow> unit io) \<Rightarrow> 'a list \<Rightarrow> unit io" where
  "io_each f [] = ret ()"
| "io_each f (x # xs) = bind (f x) (\<lambda>_. io_each f xs)"

fun io_map :: "('a \<Rightarrow> 'b io) \<Rightarrow> 'a list \<Rightarrow> 'b list io" where
  "io_map f [] = ret []"
| "io_map f (x # xs) = bind (f x) (\<lambda>y. bind (io_map f xs) (\<lambda>ys. ret (y # ys)))"

text \<open>\<open>randomUUID()\<close>: the next element of a given stream.\<close>

definition draw_uuid :: "(nat \<Rightarrow> string) \<Rightarrow> string io" where
  "draw_uuid uuid w = (w\<lparr>w_drawn := w_drawn w + 1\<rparr>, Inr (uuid (w_drawn w)))"

section \<open>The server\<close>

definition rls_tables :: "string list" where
  "rls_tables =
     [''app.documents'', ''app.repair_orders'', ''app.ro_deterministic_v2'', ''app.ro_labor_lines'',
      ''app.ro_parts_lines'', ''app.chunks'', ''app.embeddings'', ''app.pii_vault'',
      ''chat.conversations'', ''chat.messages'']"

definition unique_keys :: "string \<Rightarrow> string list list" where
  "unique_keys t =
     (if t = ''app.documents'' then [[''doc_id''], [''tenant_id'', ''sha256'']]
      else if t = ''app.repair_orders'' then [[''ro_id''], [''tenant_id'', ''ro_number'']]
      else if t = ''app.ro_deterministic_v2'' then [[''ro_id'']]
      else if t = ''app.ro_labor_lines'' then [[''labor_id''], [''tenant_id'', ''ro_id'', ''labor_index'']]
      else if t = ''app.ro_parts_lines'' then [[''part_line_id''], [''tenant_id'', ''ro_id'', ''labor_index'', ''part_index'']]
      else if t = ''app.chunks'' then [[''chunk_id''], [''tenant_id'', ''ro_id'', ''chunk_index'']]
      else if t = ''app.embeddings'' then [[''embedding_id'']]
      else if t = ''app.pii_vault'' then [[''tenant_id'', ''ro_id'']]
      else if t = ''chat.conversations'' then [[''conversation_id'']]
      else if t = ''chat.messages'' then [[''message_id'']]
      else [])"

definition col :: "row \<Rightarrow> string \<Rightarrow> sqlval" where
  "col r c = (case map_of r c of None \<Rightarrow> SNull | Some v \<Rightarrow> v)"

definition current_tenant :: "World \<Rightarrow> string option" where
  "current_tenant w = (case map_of (w_gucs w) ''app.tenant_id'' of None \<Rightarrow> None | Some t \<Rightarrow> if t = [] then None else Some t)"

definition row_allowed :: "World \<Rightarrow> string \<Rightarrow> row \<Rightarrow> bool" where
  "row_allowed w t r \<longleftrightarrow>
     t \<notin> set rls_tables \<or>
     (case current_tenant w of None \<Rightarrow> False | Some tid \<Rightarrow> col r ''tenant_id'' = SText tid)"

definition visible :: "World \<Rightarrow> string \<Rightarrow> row list" where
  "visible w t = filter (row_allowed w t) (w_tables w t)"

text \<open>A failing statement aborts the open transaction.\<close>

definition fail_stmt :: "pg_error \<Rightarrow> World \<Rightarrow> World \<times> 'a res" where
  "fail_stmt e w = (w\<lparr>w_failed := w_inTx w\<rparr>, Inl (Pg e))"

definition guard_tx :: "'a io \<Rightarrow> 'a io" where
  "guard_tx m w = (if w_failed w then (w, Inl (Pg TxAborted)) else m w)"

definition db_select :: "string \<Rightarrow> (row \<Rightarrow> bool) \<Rightarrow> row list io" where
  "db_select t p = guard_tx (\<lambda>w. (w, Inr (filter p (visible w t))))"

definition noted :: "string \<Rightarrow> World \<Rightarrow> World" where
  "noted t w = w\<lparr>w_trace := w_trace w @ [t]\<rparr>"

definition same_key :: "string list \<Rightarrow> row \<Rightarrow> row \<Rightarrow> bool" where
  "same_key k r s \<longleftrightarrow> list_all (\<lambda>c. col r c \<noteq> SNull \<and> col r c = col s c) k"

text \<open>\<open>INSERT INTO t (cols) VALUES ($1, ..., $n)\<close> with the parameters; \<open>up\<close> is the conflict key of
  an \<open>ON CONFLICT ... DO UPDATE\<close> clause, which overwrites the row with that key and fails when row
  level security hides that row.\<close>

definition db_insert :: "string \<Rightarrow> string list \<Rightarrow> nat \<Rightarrow> sqlval list \<Rightarrow> string list option \<Rightarrow> unit io" where
  "db_insert t cols placeholders params up = guard_tx (\<lambda>w0.
     let w = noted t w0
     in if length cols < placeholders then fail_stmt (MoreExpressionsThanColumns t) w
        else if length params \<noteq> placeholders then fail_stmt (BindMismatch (length params) placeholders) w
        else
          let r = zip cols params; old = w_tables w t
          in if \<not> row_allowed w t r then fail_stmt (RlsViolation t) w
             else (case up of
                 Some k \<Rightarrow>
                   if list_ex (\<lambda>s. same_key k r s \<and> \<not> row_allowed w t s) old then fail_stmt (RlsViolation t) w
                   else if list_ex (same_key k r) old
                   then (w\<lparr>w_tables := (w_tables w)(t := map (\<lambda>s. if same_key k r s then r else s) old)\<rparr>, Inr ())
                   else (w\<lparr>w_tables := (w_tables w)(t := old @ [r])\<rparr>, Inr ())
               | None \<Rightarrow>
                   if list_ex (\<lambda>k. list_ex (same_key k r) old) (unique_keys t)
                   then fail_stmt (UniqueViolation t) w
                   else (w\<lparr>w_tables := (w_tables w)(t := old @ [r])\<rparr>, Inr ())))"

definition db_update :: "string \<Rightarrow> (row \<Rightarrow> bool) \<Rightarrow> (row \<Rightarrow> row) \<Rightarrow> nat io" where
  "db_update t p f = guard_tx (\<lambda>w0.
     let w = noted t w0; old = w_tables w t; hit = (\<lambda>r. row_allowed w t r \<and> p r)
     in if list_ex (\<lambda>r. hit r \<and> \<not> row_allowed w t (f r)) old then fail_stmt (RlsViolation t) w
        else (w\<lparr>w_tables := (w_tables w)(t := map (\<lambda>r. if hit r then f r else r) old)\<rparr>, Inr (length (filter hit old))))"

definition db_delete :: "string \<Rightarrow> (row \<Rightarrow> bool) \<Rightarrow> nat io" where
  "db_delete t p = guard_tx (\<lambda>w0.
     let w = noted t w0; old = w_tables w t; hit = (\<lambda>r. row_allowed w t r \<and> p r)
     in (w\<lparr>w_tables := (w_tables w)(t := filter (\<lambda>r. \<not> hit r) old)\<rparr>, Inr (length (filter hit old))))"

definition set_cols :: "(string \<times> sqlval) list \<Rightarrow> row \<Rightarrow> row" where
  "set_cols kv r = fold (\<lambda>(k, v) r. map_set k v r) kv r"

definition set_config :: "string \<Rightarrow> string \<Rightarrow> unit io" where
  "set_config name v = guard_tx (\<lambda>w.
     (if w_inTx w then w\<lparr>w_gucs := (name, v) # w_gucs w\<rparr> else w, Inr ()))"

definition tx_begin :: "unit io" where
  "tx_begin w = (w\<lparr>w_inTx := True, w_failed := False, w_saved := w_tables w\<rparr>, Inr ())"

definition tx_rollback :: "unit io" where
  "tx_rollback w =
     (w\<lparr>w_tables := w_saved w, w_inTx := False, w_failed := False, w_gucs := []\<rparr>, Inr ())"

text \<open>COMMIT of an aborted transaction rolls back.\<close>

definition tx_commit :: "unit io" where
  "tx_commit w =
     (if w_failed w then tx_rollback w else (w\<lparr>w_inTx := False, w_gucs := []\<rparr>, Inr ()))"

section \<open>tenantContext.ts and pg.ts\<close>

definition is_hex :: "char \<Rightarrow> bool" where
  "is_hex c \<longleftrightarrow> is_digit c \<or> between 65 70 c \<or> between 97 102 c"

definition hex_run :: "nat \<Rightarrow> string \<Rightarrow> bool" where
  "hex_run n s \<longleftrightarrow> length s = n \<and> list_all is_hex s"

text \<open>\<open>/^[0-9a-f]{8}-[0-9a-f]{4}-[0-9a-f]{4}-[0-9a-f]{4}-[0-9a-f]{12}$/i\<close>\<close>

definition isUuid :: "string \<Rightarrow> bool" where
  "isUuid v =
     (case js_split v ''-'' of
        [a, b, c, d, e] \<Rightarrow> hex_run 8 a \<and> hex_run 4 b \<and> hex_run 4 c \<and> hex_run 4 d \<and> hex_run 12 e
      | _ \<Rightarrow> False)"

definition withTenantContext :: "string \<Rightarrow> 'a io \<Rightarrow> 'a io" where
  "withTenantContext tenantId fn =
     (let normalized = js_trim tenantId
      in if normalized \<noteq> [] \<and> \<not> isUuid normalized then io_throw ''Invalid tenant context'' 400 ''TENANT_INVALID''
         else bind (set_config ''app.tenant_id'' normalized) (\<lambda>_. fn))"

definition role_name :: "Role \<Rightarrow> string" where
  "role_name r = (case r of USER \<Rightarrow> ''USER'' | ADMIN \<Rightarrow> ''ADMIN'' | DEALERADMIN \<Rightarrow> ''DEALERADMIN'' | DEVELOPER \<Rightarrow> ''DEVELOPER'')"

definition ensureContext :: "RequestContext \<Rightarrow> unit res" where
  "ensureContext ctx =
     (if \<not> truthy (cx_requestId ctx) \<or> \<not> truthy (cx_userId ctx) \<or> cx_role ctx = None
      then throw ''RLS context incomplete'' 400 ''RLS_CONTEXT_MISSING''
      else if \<not> truthy (cx_tenantId ctx) \<and> cx_role ctx \<noteq> Some DEVELOPER
      then throw ''RLS context incomplete'' 400 ''RLS_CONTEXT_MISSING''
      else ok ())"

definition str_or_empty :: "string option \<Rightarrow> string" where
  "str_or_empty v = (case v of None \<Rightarrow> [] | Some x \<Rightarrow> x)"

definition setRlsContext :: "RequestContext \<Rightarrow> unit io" where
  "setRlsContext ctx =
     bind (set_config ''app.request_id'' (str_or_empty (cx_requestId ctx))) (\<lambda>_.
     bind (set_config ''app.user_id'' (str_or_empty (cx_userId ctx))) (\<lambda>_.
       set_config ''app.role'' (case cx_role ctx of None \<Rightarrow> [] | Some r \<Rightarrow> role_name r)))"

text \<open>\<open>pool.connect()\<close> of \<open>withRequestContext\<close> gives a session without a transaction. The pool is there: \<open>loadEnv\<close> lets no
  process start without DATABASE_URL, so the check that ends in DB_NOT_CONFIGURED is left out.\<close>

definition withRequestContext :: "RequestContext \<Rightarrow> 'a io \<Rightarrow> 'a io" where
  "withRequestContext ctx fn =
     bind (lift (ensureContext ctx)) (\<lambda>_.
     bind (setRlsContext ctx) (\<lambda>_.
       withTenantContext (str_or_empty (cx_tenantId ctx)) fn))"

definition runWithTransaction :: "RequestContext \<Rightarrow> 'a io \<Rightarrow> 'a io" where
  "runWithTransaction ctx fn =
     bind (lift (ensureContext ctx)) (\<lambda>_. \<lambda>w.
       case (bind tx_begin (\<lambda>_. bind (setRlsContext ctx) (\<lambda>_.
               bind (withTenantContext (str_or_empty (cx_tenantId ctx)) fn) (\<lambda>result.
               bind tx_commit (\<lambda>_. ret result))))) w of
         (w', Inr x) \<Rightarrow> (w', Inr x)
       | (w', Inl e) \<Rightarrow> bind tx_rollback (\<lambda>_. raise e) w')"

section \<open>auditService.ts\<close>

definition sanitizeMetadata :: "(string \<times> jsv) list option \<Rightarrow> (string \<times> jsv) list option" where
  "sanitizeMetadata md =
     (case md of None \<Rightarrow> None
      | Some kvs \<Rightarrow>
          let safe = concat (map (\<lambda>(k, v). case v of
              VStr s \<Rightarrow> [(k, VStr (slice s 0 256))] | VNum n \<Rightarrow> [(k, VNum n)] | VBool b \<Rightarrow> [(k, VBool b)] | _ \<Rightarrow> []) kvs)
          in if safe = [] then None else Some safe)"

definition hasRlsContext :: "RequestContext \<Rightarrow> bool" where
  "hasRlsContext ctx \<longleftrightarrow>
     truthy (cx_tenantId ctx) \<and> truthy (cx_userId ctx) \<and> truthy (cx_requestId ctx) \<and> cx_role ctx \<noteq> None"

text \<open>The row the INSERT of \<open>auditLog\<close> writes: the metadata column is the sanitized metadata.\<close>

definition audit_row :: "string \<Rightarrow> RequestContext \<Rightarrow> AuditEvent \<Rightarrow> AuditRow" where
  "audit_row auditId ctx ev =
     \<lparr>ar_id = auditId, ar_tenant = str_or_empty (cx_tenantId ctx), ar_user = str_or_empty (cx_userId ctx),
      ar_request = str_or_empty (cx_requestId ctx), ar_event = ev\<lparr>ev_metadata := sanitizeMetadata (ev_metadata ev)\<rparr>\<rparr>"

text \<open>\<open>auditLog\<close> runs over a connection of its own and swallows every error; \<open>accepts\<close> is whether
  the server takes the row.\<close>

definition auditLog :: "(nat \<Rightarrow> string) \<Rightarrow> (AuditRow \<Rightarrow> bool) \<Rightarrow> RequestContext \<Rightarrow> AuditEvent \<Rightarrow> unit io" where
  "auditLog uuid accepts ctx ev w =
     (if \<not> hasRlsContext ctx then (w, Inr ())
      else
        let t = js_trim (str_or_empty (cx_tenantId ctx))
        in if t \<noteq> [] \<and> \<not> isUuid t then (w, Inr ())
           else
             let row = audit_row (uuid (w_drawn w)) ctx ev; w1 = w\<lparr>w_drawn := w_drawn w + 1\<rparr>
             in (if accepts row then w1\<lparr>w_audit := w_audit w1 @ [row]\<rparr> else w1, Inr ()))"

end
