(* ===== verification/LineItems.thy ===== *)
theory LineItems
  imports JsNumber JsRegex
begin

text \<open>
  services/ingest/lineItemIndexing.ts and services/ingest/roSchemaV2Fields.ts: the field names of
  schema V2, the index suffixes of line item fields and the contiguity check.

  An index is the double \<open>parseInt\<close> returns for a string of digits; such a double is an integer
  (lemma \<open>rnd_int_is_int\<close>), so the model keeps it as an \<open>int\<close>. The constant sets are lists without
  repetition in the insertion order of the source. \<open>l_keys\<close> and \<open>p_keys\<close> are the names of the
  properties a line object has, in the order of their first assignment.
\<close>

section \<open>Schema\<close>

record IndexedField =
  if_raw :: string
  if_base :: string
  if_laborIndex :: "int option"
  if_partIndex :: "int option"
  if_isIndexed :: bool

record LaborLine =
  l_laborIndex :: int
  l_laborLineNumber :: "int option"
  l_opCode :: "string option"
  l_laborType :: "string option"
  l_skillLevel :: "string option"
  l_flatRateHours :: "rat option"
  l_actualHours :: "rat option"
  l_laborRate :: "rat option"
  l_laborExtendedAmount :: "rat option"
  l_technicianId :: "string option"
  l_keys :: "string list"

record PartLine =
  p_laborIndex :: int
  p_partIndex :: int
  p_partLineNumber :: "int option"
  p_partNumber :: "string option"
  p_partQuantity :: "rat option"
  p_partUnitPrice :: "rat option"
  p_partExtendedPrice :: "rat option"
  p_partSource :: "string option"
  p_backorderFlag :: "string option"
  p_keys :: "string list"

definition LABOR_BASE_FIELDS :: "string list" where
  "LABOR_BASE_FIELDS =
     [''LABOR_LINE_NUMBER'', ''OP_CODE'', ''OP_DESCRIPTION'', ''LABOR_TYPE'', ''SKILL_LEVEL'',
      ''FLAT_RATE_HOURS'', ''ACTUAL_HOURS'', ''LABOR_RATE'', ''LABOR_EXTENDED_AMOUNT'',
      ''TECHNICIAN_ID'', ''TECHNICIAN_NOTES'']"

definition PART_BASE_FIELDS :: "string list" where
  "PART_BASE_FIELDS =
     [''PART_LINE_NUMBER'', ''PART_NUMBER'', ''PART_DESCRIPTION'', ''PART_QUANTITY'',
      ''PART_UNIT_PRICE'', ''PART_EXTENDED_PRICE'', ''PART_SOURCE'', ''BACKORDER_FLAG'']"

definition LINE_ITEM_BASE_FIELDS :: "string list" where
  "LINE_ITEM_BASE_FIELDS = LABOR_BASE_FIELDS @ PART_BASE_FIELDS"

definition PII_FIELDS :: "string list" where
  "PII_FIELDS =
     [''CUSTOMER_FIRST_NAME'', ''CUSTOMER_LAST_NAME'', ''CUSTOMER_PHONE'', ''CUSTOMER_EMAIL'',
      ''CUSTOMER_ADDRESS_LINE1'', ''CUSTOMER_ADDRESS_CITY'', ''CUSTOMER_ADDRESS_STATE'',
      ''CUSTOMER_ADDRESS_POSTAL'', ''VIN'', ''LICENSE_PLATE'']"

definition DETERMINISTIC_FIELDS :: "string list" where
  "DETERMINISTIC_FIELDS =
     [''RO_NUMBER'', ''RO_STATUS'', ''OPEN_TIMESTAMP'', ''CLOSE_TIMESTAMP'', ''WRITEUP_TIMESTAMP'',
      ''PROMISED_TIMESTAMP'', ''ADVISOR_ID'', ''SERVICE_LANE'', ''DEPARTMENT_CODE'', ''WAITER_FLAG'',
      ''LOANER_FLAG'', ''WARRANTY_FLAG'', ''FLEET_FLAG'', ''INTERNAL_RO_FLAG'', ''CUSTOMER_TYPE'',
      ''PREFERRED_CONTACT_METHOD'', ''MARKETING_OPT_IN'', ''VEHICLE_YEAR'', ''VEHICLE_MAKE'',
      ''VEHICLE_MODEL'', ''VEHICLE_TRIM'', ''VEHICLE_ENGINE'', ''VEHICLE_TRANSMISSION'',
      ''VEHICLE_DRIVETRAIN'', ''ODOMETER_IN'', ''ODOMETER_OUT'', ''VEHICLE_COLOR'',
      ''VEHICLE_PRODUCTION_DATE'', ''LABOR_LINE_NUMBER'', ''OP_CODE'', ''LABOR_TYPE'', ''SKILL_LEVEL'',
      ''FLAT_RATE_HOURS'', ''ACTUAL_HOURS'', ''LABOR_RATE'', ''LABOR_EXTENDED_AMOUNT'',
      ''TECHNICIAN_ID'', ''PART_LINE_NUMBER'', ''PART_NUMBER'', ''PART_QUANTITY'', ''PART_UNIT_PRICE'',
      ''PART_EXTENDED_PRICE'', ''PART_SOURCE'', ''BACKORDER_FLAG'', ''LABOR_TOTAL'', ''PARTS_TOTAL'',
      ''SHOP_FEES'', ''ENVIRONMENTAL_FEES'', ''DISCOUNT_TOTAL'', ''TAX_TOTAL'', ''GRAND_TOTAL'',
      ''PAYMENT_METHOD'', ''INVOICE_NUMBER'', ''CREATED_BY_SYSTEM'', ''INGEST_TIMESTAMP'',
      ''TENANT_ID'', ''SOURCE_SYSTEM'']"

definition SEMANTIC_FIELDS :: "string list" where
  "SEMANTIC_FIELDS =
     [''CUSTOMER_COMPLAINT'', ''ADDITIONAL_SYMPTOMS'', ''CUSTOMER_REQUESTS'', ''OP_DESCRIPTION'',
      ''TECHNICIAN_NOTES'', ''CAUSE'', ''CORRECTION'', ''PART_DESCRIPTION'', ''ADVISOR_NOTES'',
      ''INTERNAL_COMMENTS'', ''QC_NOTES'']"

lemmas schema_sets = LABOR_BASE_FIELDS_def PART_BASE_FIELDS_def LINE_ITEM_BASE_FIELDS_def
  PII_FIELDS_def DETERMINISTIC_FIELDS_def SEMANTIC_FIELDS_def

section \<open>Index suffixes\<close>

definition isNumericSegment :: "string \<Rightarrow> bool" where
  "isNumericSegment v \<longleftrightarrow> v \<noteq> [] \<and> list_all is_digit v"

definition parseIndex :: "string \<Rightarrow> string \<Rightarrow> int res" where
  "parseIndex value field =
     (case js_parseInt value of
        Fin q \<Rightarrow>
          if q \<le> 0 then throw (''Invalid index in field '' @ field) 400 ''INDEX_INVALID'' else ok \<lfloor>q\<rfloor>
      | _ \<Rightarrow> throw (''Invalid index in field '' @ field) 400 ''INDEX_INVALID'')"

definition parseIndexedFieldName :: "string \<Rightarrow> IndexedField res" where
  "parseIndexedFieldName name =
     (let parts = js_split name ''_'';
          plain = \<lparr>if_raw = name, if_base = name, if_laborIndex = None, if_partIndex = None,
                   if_isIndexed = False\<rparr>
      in if length parts < 2 then ok plain
         else
           let last1 = parts ! (length parts - 1); secondLast = parts ! (length parts - 2)
           in if isNumericSegment last1 \<and> isNumericSegment secondLast then
                res_bind (parseIndex secondLast name) (\<lambda>li.
                res_bind (parseIndex last1 name) (\<lambda>pidx.
                  ok \<lparr>if_raw = name, if_base = js_join ''_'' (take (length parts - 2) parts),
                      if_laborIndex = Some li, if_partIndex = Some pidx, if_isIndexed = True\<rparr>))
              else if isNumericSegment last1 then
                res_bind (parseIndex last1 name) (\<lambda>li.
                  ok \<lparr>if_raw = name, if_base = js_join ''_'' (take (length parts - 1) parts),
                      if_laborIndex = Some li, if_partIndex = None, if_isIndexed = True\<rparr>)
              else ok plain)"

text \<open>The loop of \<open>ensureContiguousIndices\<close>, from position \<open>i\<close> of the sorted indices on.\<close>

fun contiguous_from :: "int \<Rightarrow> string \<Rightarrow> int list \<Rightarrow> unit res" where
  "contiguous_from i label [] = ok ()"
| "contiguous_from i label (x # xs) =
     (if x \<noteq> i + 1
      then throw (''Non-contiguous '' @ label @ '' indices: expected '' @ digits_of (i + 1)) 400 ''INDEX_GAP''
      else contiguous_from (i + 1) label xs)"

definition ensureContiguousIndices :: "int list \<Rightarrow> string \<Rightarrow> unit res" where
  "ensureContiguousIndices indices label =
     (if indices = [] then ok () else contiguous_from 0 label (sort (uniq indices)))"

section \<open>Contiguity\<close>

lemma contiguous_from_ok:
  "sorted xs \<Longrightarrow> distinct xs \<Longrightarrow>
     is_ok (contiguous_from i l xs) \<longleftrightarrow> set xs = {i + 1..i + int (length xs)}"
proof (induction xs arbitrary: i)
  case (Cons x xs)
  show ?case
  proof (cases "x = i + 1")
    case True
    have eq: "set (x # xs) = {i + 1..i + int (length (x # xs))} \<longleftrightarrow>
          set xs = {i + 1 + 1..i + 1 + int (length xs)}"
    proof
      assume a: "set (x # xs) = {i + 1..i + int (length (x # xs))}"
      have "set xs = set (x # xs) - {x}" using Cons.prems by auto
      also have "\<dots> = {i + 1..i + int (length (x # xs))} - {x}" by (simp only: a)
      also have "\<dots> = {i + 1 + 1..i + 1 + int (length xs)}" by (auto simp: True)
      finally show "set xs = {i + 1 + 1..i + 1 + int (length xs)}" .
    next
      assume "set xs = {i + 1 + 1..i + 1 + int (length xs)}"
      then show "set (x # xs) = {i + 1..i + int (length (x # xs))}" by (auto simp: True)
    qed
    have "is_ok (contiguous_from (i + 1) l xs) \<longleftrightarrow> set xs = {i + 1 + 1..i + 1 + int (length xs)}"
      using Cons.prems by (intro Cons.IH) auto
    moreover have "contiguous_from i l (x # xs) = contiguous_from (i + 1) l xs" using True by simp
    ultimately show ?thesis by (simp only: eq)
  next
    case False
    have "set (x # xs) \<noteq> {i + 1..i + int (length (x # xs))}"
    proof
      assume a: "set (x # xs) = {i + 1..i + int (length (x # xs))}"
      then have "i + 1 \<in> set (x # xs)" "x \<in> {i + 1..i + int (length (x # xs))}" by auto
      then have "x \<le> i + 1" "i + 1 \<le> x" using Cons.prems(1) by auto
      then show False using False by simp
    qed
    then show ?thesis using False by simp
  qed
qed simp

lemma contiguous_from_error: "\<not> is_ok (contiguous_from i l xs) \<Longrightarrow> fails_with (contiguous_from i l xs) ''INDEX_GAP''"
  by (induction i l xs rule: contiguous_from.induct) (auto split: if_splits)

lemma ensureContiguous_iff:
  "is_ok (ensureContiguousIndices xs l) \<longleftrightarrow> (\<exists>n. set xs = {1..int n})"
proof (cases "xs = []")
  case True
  then have "set xs = {1..int 0}" by simp
  then have "\<exists>n. set xs = {1..int n}" by (rule exI)
  moreover have "is_ok (ensureContiguousIndices xs l)" using True by (simp add: ensureContiguousIndices_def)
  ultimately show ?thesis by (simp only:)
next
  case False
  have "(\<exists>n. set xs = {1..int n}) \<longleftrightarrow> set xs = {1..int (card (set xs))}"
  proof
    assume "\<exists>n. set xs = {1..int n}"
    then obtain n where n: "set xs = {1..int n}" ..
    then have "card (set xs) = n" by simp
    then show "set xs = {1..int (card (set xs))}" using n by simp
  qed (rule exI)
  also have "card (set xs) = length (uniq xs)" by (metis distinct_card distinct_uniq set_uniq)
  finally show ?thesis
    using False contiguous_from_ok [of "sort (uniq xs)" 0 l] by (simp add: ensureContiguousIndices_def)
qed

lemma ensureContiguous_error:
  "\<not> is_ok (ensureContiguousIndices xs l) \<Longrightarrow> fails_with (ensureContiguousIndices xs l) ''INDEX_GAP''"
  unfolding ensureContiguousIndices_def by (auto intro: contiguous_from_error split: if_splits)

section \<open>Names and indices\<close>

lemma parseIndex_of: "0 < n \<Longrightarrow> n < 2 ^ 53 \<Longrightarrow> parseIndex (digits_of n) f = ok n"
  by (simp add: parseIndex_def js_parseInt_of)

lemma digits_no_underscore: "0 \<le> n \<Longrightarrow> CHR ''_'' \<notin> set (digits_of n)"
  using digits_of_digits [of n] by (auto simp: list_all_iff is_digit_def between_def)

lemma numeric_digits [simp]: "0 \<le> n \<Longrightarrow> isNumericSegment (digits_of n)"
  by (simp add: isNumericSegment_def digits_of_digits)

definition last_segment :: "string \<Rightarrow> string" where
  "last_segment s = last (js_split s ''_'')"

lemma parse_plain:
  "\<not> isNumericSegment (last_segment s) \<Longrightarrow>
     parseIndexedFieldName s = ok \<lparr>if_raw = s, if_base = s, if_laborIndex = None, if_partIndex = None,
                                   if_isIndexed = False\<rparr>"
  by (simp add: parseIndexedFieldName_def Let_def last_segment_def last_conv_nth)

lemma parse_labor:
  assumes "\<not> isNumericSegment (last_segment b)" "0 < l" "l < 2 ^ 53"
  shows "parseIndexedFieldName (b @ ''_'' @ digits_of l) =
     ok \<lparr>if_raw = b @ ''_'' @ digits_of l, if_base = b, if_laborIndex = Some l, if_partIndex = None,
         if_isIndexed = True\<rparr>"
proof -
  have sp: "js_split (b @ ''_'' @ digits_of l) ''_'' = js_split b ''_'' @ [digits_of l]"
    using assms(2) by (simp add: js_split_snoc digits_no_underscore)
  have n: "js_split b ''_'' ! (length (js_split b ''_'') - 1) = last_segment b"
    by (simp add: last_segment_def last_conv_nth)
  have len: "length (js_split b ''_'') > 0" by simp
  show ?thesis
    unfolding parseIndexedFieldName_def Let_def sp
    using assms n len by (simp add: nth_append parseIndex_of js_join_split del: length_greater_0_conv)
qed

lemma parse_part:
  assumes "0 < l" "l < 2 ^ 53" "0 < p" "p < 2 ^ 53"
  shows "parseIndexedFieldName (b @ ''_'' @ digits_of l @ ''_'' @ digits_of p) =
     ok \<lparr>if_raw = b @ ''_'' @ digits_of l @ ''_'' @ digits_of p, if_base = b, if_laborIndex = Some l,
         if_partIndex = Some p, if_isIndexed = True\<rparr>"
proof -
  have sp: "js_split (b @ ''_'' @ digits_of l @ ''_'' @ digits_of p) ''_'' =
      js_split b ''_'' @ [digits_of l, digits_of p]"
    using js_split_snoc [of "CHR ''_''" "digits_of p" "b @ ''_'' @ digits_of l"] assms
    by (simp add: js_split_snoc digits_no_underscore)
  have len: "length (js_split b ''_'') > 0" by simp
  show ?thesis
    unfolding parseIndexedFieldName_def Let_def sp
    using assms len by (simp add: nth_append parseIndex_of js_join_split del: length_greater_0_conv)
qed

text \<open>A name that is not indexed is its own base; an indexed one has a positive labor index.\<close>

lemma parseIndex_pos: "parseIndex v f = Inr i \<Longrightarrow> 0 < i"
proof -
  assume a: "parseIndex v f = Inr i"
  then obtain q where q: "js_parseInt v = Fin q" "\<not> q \<le> 0" "i = \<lfloor>q\<rfloor>"
    by (auto simp: parseIndex_def split: jsnum.splits if_splits)
  have "q \<in> \<int>" by (rule js_parseInt_int [OF q(1)])
  then show ?thesis using q by (auto elim!: Ints_cases)
qed

lemma parse_cases:
  assumes "parseIndexedFieldName s = Inr f"
  shows "\<not> if_isIndexed f \<and> if_base f = s \<and> if_laborIndex f = None \<and> if_partIndex f = None \<or>
     if_isIndexed f \<and> (\<exists>l > 0. if_laborIndex f = Some l) \<and> (\<forall>p. if_partIndex f = Some p \<longrightarrow> 0 < p)"
  using assms unfolding parseIndexedFieldName_def Let_def
  by (auto simp: res_bind_ok_iff dest: parseIndex_pos split: if_splits)

section \<open>Properties\<close>

text \<open>\<open>ensureContiguousIndices\<close> accepts exactly the lists whose elements are the numbers 1 to n
  for some n, in any order and with repetitions, and otherwise ends in \<open>INDEX_GAP\<close>.\<close>

theorem contiguous_indices_characterised:
  "(is_ok (ensureContiguousIndices xs l) \<longleftrightarrow> (\<exists>n. set xs = {1..int n})) \<and>
   (is_ok (ensureContiguousIndices xs l) \<or> fails_with (ensureContiguousIndices xs l) ''INDEX_GAP'')"
  using ensureContiguous_iff [of xs l] ensureContiguous_error [of xs l] by blast

text \<open>C14: round trip of indexed field names. A base name followed by the decimal digits of one or two
  positive indices is parsed back into the base and the indices (with one index the base itself
  must not end in a numeric segment); a name whose last segment is not numeric is its own base.\<close>

theorem indexed_name_roundtrip:
  assumes "0 < l" and "l < 2 ^ 53" and "0 < p" and "p < 2 ^ 53"
    and "\<not> isNumericSegment (last (js_split b ''_''))"
  shows "parseIndexedFieldName b = ok \<lparr>if_raw = b, if_base = b, if_laborIndex = None,
           if_partIndex = None, if_isIndexed = False\<rparr> \<and>
    parseIndexedFieldName (b @ ''_'' @ digits_of l) = ok \<lparr>if_raw = b @ ''_'' @ digits_of l, if_base = b,
           if_laborIndex = Some l, if_partIndex = None, if_isIndexed = True\<rparr> \<and>
    parseIndexedFieldName (b @ ''_'' @ digits_of l @ ''_'' @ digits_of p) =
      ok \<lparr>if_raw = b @ ''_'' @ digits_of l @ ''_'' @ digits_of p, if_base = b,
           if_laborIndex = Some l, if_partIndex = Some p, if_isIndexed = True\<rparr>"
proof -
  have b: "\<not> isNumericSegment (last_segment b)" using assms(5) by (simp add: last_segment_def)
  show ?thesis using parse_plain [OF b] parse_labor [OF b assms(1,2)] parse_part [OF assms(1-4)] by blast
qed

theorem indexed_name_witness:
  "parseIndexedFieldName (''PART_NUMBER'' @ ''_'' @ digits_of 2 @ ''_'' @ digits_of 11) =
     ok \<lparr>if_raw = ''PART_NUMBER'' @ ''_'' @ digits_of 2 @ ''_'' @ digits_of 11, if_base = ''PART_NUMBER'',
         if_laborIndex = Some 2, if_partIndex = Some 11, if_isIndexed = True\<rparr>"
proof -
  have "\<not> isNumericSegment (last (js_split ''PART_NUMBER'' ''_''))" by code_simp
  from indexed_name_roundtrip [of 2 11, OF _ _ _ _ this] show ?thesis by simp
qed

end
