(* ===== verification/Levenshtein.thy ===== *)
theory Levenshtein
  imports LineItems
begin

text \<open>
  The error message for unknown XML fields (xmlFieldRouting.ts): the edit distance between field
  names, computed by filling a matrix, and the choice of the closest names of the schema.

  The matrix is a list of rows. The lemmas show that the loops compute the recursive edit
  distance, and that this is the least number of insertions, deletions and substitutions.
\<close>

section \<open>The matrix\<close>

definition mat_get :: "nat list list \<Rightarrow> nat \<Rightarrow> nat \<Rightarrow> nat" where
  "mat_get m i j = m ! i ! j"

definition mat_set :: "nat list list \<Rightarrow> nat \<Rightarrow> nat \<Rightarrow> nat \<Rightarrow> nat list list" where
  "mat_set m i j v = m[i := (m ! i)[j := v]]"

definition lev_init :: "nat \<Rightarrow> nat \<Rightarrow> nat list list" where
  "lev_init rows cols =
     (let m = replicate rows (replicate cols 0);
          m = fold (\<lambda>i m. mat_set m i 0 i) [0..<rows] m
      in fold (\<lambda>j m. mat_set m 0 j j) [0..<cols] m)"

definition lev_cell :: "string \<Rightarrow> string \<Rightarrow> nat \<Rightarrow> nat \<Rightarrow> nat list list \<Rightarrow> nat list list" where
  "lev_cell l r i j m =
     (let cost = (if l ! (i - 1) = r ! (j - 1) then 0 else 1)
      in mat_set m i j
           (min (min (mat_get m (i - 1) j + 1) (mat_get m i (j - 1) + 1)) (mat_get m (i - 1) (j - 1) + cost)))"

definition levenshteinDistance :: "string \<Rightarrow> string \<Rightarrow> nat" where
  "levenshteinDistance left right =
     (if left = right then 0
      else if left = [] then length right
      else if right = [] then length left
      else
        let rows = length left + 1; cols = length right + 1;
            m = fold (\<lambda>i m. fold (\<lambda>j m. lev_cell left right i j m) [1..<cols] m) [1..<rows] (lev_init rows cols)
        in mat_get m (rows - 1) (cols - 1))"

section \<open>Closest names\<close>

text \<open>\<open>localeCompare\<close> on names of upper-case letters, digits and underscores: the root collation
  sorts the underscore before the digits and the digits before the letters.\<close>

definition collate :: "char \<Rightarrow> nat" where
  "collate c = (if c = CHR ''_'' then 0 else code c)"

fun localeLE :: "string \<Rightarrow> string \<Rightarrow> bool" where
  "localeLE [] ys = True"
| "localeLE (x # xs) [] = False"
| "localeLE (x # xs) (y # ys) = (collate x < collate y \<or> x = y \<and> localeLE xs ys)"

definition KNOWN_FIELDS :: "string list" where
  "KNOWN_FIELDS = uniq (PII_FIELDS @ DETERMINISTIC_FIELDS @ SEMANTIC_FIELDS)"

definition closestSchemaMatches :: "string list \<Rightarrow> nat \<Rightarrow> string list res" where
  "closestSchemaMatches unknownFields limit =
     (if unknownFields = [] then ok []
      else res_bind (res_map (\<lambda>f. res_bind (parseIndexedFieldName f) (\<lambda>i. ok (if_base i))) unknownFields) (\<lambda>bases.
        let scored = map (\<lambda>c. (c, Min (set (map (\<lambda>b. levenshteinDistance b c) bases)))) KNOWN_FIELDS
        in ok (map fst (take limit
             (js_sort (\<lambda>a b. snd a < snd b \<or> snd a = snd b \<and> localeLE (fst a) (fst b)) scored)))))"

definition buildUnknownFieldError :: "string list \<Rightarrow> AppError res" where
  "buildUnknownFieldError unknownFields =
     (let un = uniq unknownFields
      in res_bind (closestSchemaMatches un 5) (\<lambda>matches.
           ok (app_error
             (''Unknown XML field'' @ (if length un > 1 then ''s'' else '''') @ '': '' @ js_join '', '' un @
              ''. field not in Schema V2 allow-list.'' @
              (if matches \<noteq> [] then '' Closest matches: '' @ js_join '', '' matches @ ''.'' else ''''))
             400 ''XML_FIELD_UNKNOWN'')))"

section \<open>The loops compute the recursive distance\<close>

text \<open>The edit distance of two words read from their ends.\<close>

fun edist :: "'a list \<Rightarrow> 'a list \<Rightarrow> nat" where
  "edist [] ys = length ys"
| "edist xs [] = length xs"
| "edist (x # xs) (y # ys) =
     min (min (edist xs (y # ys) + 1) (edist (x # xs) ys + 1)) (edist xs ys + (if x = y then 0 else 1))"

definition pdist :: "string \<Rightarrow> string \<Rightarrow> nat \<Rightarrow> nat \<Rightarrow> nat" where
  "pdist l r i j = edist (rev (take i l)) (rev (take j r))"

lemma edist_Nil2 [simp]: "edist xs [] = length xs"
  by (cases xs) auto

lemma pdist_zero: "i \<le> length l \<Longrightarrow> pdist l r i 0 = i" "j \<le> length r \<Longrightarrow> pdist l r 0 j = j"
  by (auto simp: pdist_def)

lemma pdist_Suc:
  "i < length l \<Longrightarrow> j < length r \<Longrightarrow> pdist l r (Suc i) (Suc j) =
     min (min (pdist l r i (Suc j) + 1) (pdist l r (Suc i) j + 1)) (pdist l r i j + (if l ! i = r ! j then 0 else 1))"
  by (simp add: pdist_def take_Suc_conv_app_nth)

definition mat_dim :: "nat \<Rightarrow> nat \<Rightarrow> nat list list \<Rightarrow> bool" where
  "mat_dim rows cols m \<longleftrightarrow> length m = rows \<and> (\<forall>x \<in> set m. length x = cols)"

lemma mat_dim_set [simp]: "mat_dim rows cols m \<Longrightarrow> i < rows \<Longrightarrow> mat_dim rows cols (mat_set m i j v)"
  by (auto simp: mat_dim_def mat_set_def dest!: set_update_subset_insert [THEN subsetD])

lemma mat_get_set:
  "mat_dim rows cols m \<Longrightarrow> i < rows \<Longrightarrow> j < cols \<Longrightarrow>
     mat_get (mat_set m i j v) a b = (if a = i \<and> b = j then v else mat_get m a b)"
  by (auto simp: mat_dim_def mat_set_def mat_get_def nth_list_update)

lemma col_init:
  "n \<le> rows \<Longrightarrow> 0 < cols \<Longrightarrow> mat_dim rows cols m \<Longrightarrow>
     mat_dim rows cols (fold (\<lambda>i m. mat_set m i 0 i) [0..<n] m) \<and>
     (\<forall>a < n. mat_get (fold (\<lambda>i m. mat_set m i 0 i) [0..<n] m) a 0 = a)"
proof (induction n)
  case (Suc n)
  then show ?case by (auto simp: mat_get_set [where rows = rows and cols = cols] less_Suc_eq)
qed simp

lemma row_init:
  "n \<le> cols \<Longrightarrow> 0 < rows \<Longrightarrow> mat_dim rows cols m \<Longrightarrow> (\<forall>a < rows. mat_get m a 0 = a) \<Longrightarrow>
     mat_dim rows cols (fold (\<lambda>j m. mat_set m 0 j j) [0..<n] m) \<and>
     (\<forall>b < n. mat_get (fold (\<lambda>j m. mat_set m 0 j j) [0..<n] m) 0 b = b) \<and>
     (\<forall>a < rows. mat_get (fold (\<lambda>j m. mat_set m 0 j j) [0..<n] m) a 0 = a)"
proof (induction n)
  case (Suc n)
  then show ?case by (auto simp: mat_get_set [where rows = rows and cols = cols] less_Suc_eq)
qed simp

lemma lev_init_ok:
  assumes "0 < rows" "0 < cols"
  shows "mat_dim rows cols (lev_init rows cols)"
    and "a < rows \<Longrightarrow> mat_get (lev_init rows cols) a 0 = a"
    and "b < cols \<Longrightarrow> mat_get (lev_init rows cols) 0 b = b"
proof -
  let ?z = "replicate rows (replicate cols (0::nat))"
  let ?m = "fold (\<lambda>i m. mat_set m i 0 i) [0..<rows] ?z"
  have "mat_dim rows cols ?z" by (auto simp: mat_dim_def)
  then have c: "mat_dim rows cols ?m \<and> (\<forall>a < rows. mat_get ?m a 0 = a)"
    using assms col_init [of rows rows cols ?z] by blast
  show "mat_dim rows cols (lev_init rows cols)"
    "a < rows \<Longrightarrow> mat_get (lev_init rows cols) a 0 = a"
    "b < cols \<Longrightarrow> mat_get (lev_init rows cols) 0 b = b"
    using row_init [of cols cols rows ?m] c assms by (auto simp: lev_init_def Let_def)
qed

text \<open>The cells before row \<open>i\<close>, column \<open>j\<close> in the order of the loops hold their distances.\<close>

definition lev_inv :: "string \<Rightarrow> string \<Rightarrow> nat \<Rightarrow> nat \<Rightarrow> nat list list \<Rightarrow> bool" where
  "lev_inv l r i j m \<longleftrightarrow>
     mat_dim (length l + 1) (length r + 1) m \<and>
     (\<forall>a \<le> length l. \<forall>b \<le> length r. a = 0 \<or> b = 0 \<or> a < i \<or> (a = i \<and> b < j) \<longrightarrow> mat_get m a b = pdist l r a b)"

lemma lev_cell_inv:
  assumes "lev_inv l r i j m" "1 \<le> i" "i \<le> length l" "1 \<le> j" "j \<le> length r"
  shows "lev_inv l r i (Suc j) (lev_cell l r i j m)"
proof -
  obtain i' j' where ij: "i = Suc i'" "j = Suc j'" using assms by (metis Suc_le_D One_nat_def)
  have "mat_get m i' (Suc j') = pdist l r i' (Suc j')" "mat_get m (Suc i') j' = pdist l r (Suc i') j'"
    "mat_get m i' j' = pdist l r i' j'"
    using assms by (auto simp: lev_inv_def ij)
  then have c: "lev_cell l r i j m = mat_set m i j (pdist l r i j)"
    using assms by (simp add: lev_cell_def ij pdist_Suc)
  have d: "mat_dim (length l + 1) (length r + 1) m" using assms(1) by (simp add: lev_inv_def)
  have g: "mat_get (mat_set m i j v) a b = (if a = i \<and> b = j then v else mat_get m a b)" for v a b
    using assms by (intro mat_get_set [OF d]) auto
  have d': "mat_dim (length l + 1) (length r + 1) (mat_set m i j (pdist l r i j))"
    using mat_dim_set [OF d] assms(3) by simp
  have "mat_get (mat_set m i j (pdist l r i j)) a b = pdist l r a b"
    if "a \<le> length l" "b \<le> length r" "a = 0 \<or> b = 0 \<or> a < i \<or> (a = i \<and> b < Suc j)" for a b
    using assms that unfolding g by (auto simp: lev_inv_def less_Suc_eq)
  with d' show ?thesis unfolding c lev_inv_def by blast
qed

lemma lev_row_inv:
  assumes "lev_inv l r i 1 m" "1 \<le> i" "i \<le> length l" "n \<le> length r"
  shows "lev_inv l r i (Suc n) (fold (\<lambda>j m. lev_cell l r i j m) [1..<Suc n] m)"
  using assms(4)
proof (induction n)
  case (Suc n)
  then show ?case using assms(2,3) lev_cell_inv [of l r i "Suc n"] by simp
qed (use assms(1) in simp)

lemma lev_all_inv:
  assumes "lev_inv l r 1 1 m" "n \<le> length l"
  shows "lev_inv l r (Suc n) 1
    (fold (\<lambda>i m. fold (\<lambda>j m. lev_cell l r i j m) [1..<Suc (length r)] m) [1..<Suc n] m)"
  using assms(2)
proof (induction n)
  case (Suc n)
  let ?m = "fold (\<lambda>i m. fold (\<lambda>j m. lev_cell l r i j m) [1..<Suc (length r)] m) [1..<Suc n] m"
  have "lev_inv l r (Suc n) 1 ?m" using Suc by simp
  then have "lev_inv l r (Suc n) (Suc (length r)) (fold (\<lambda>j m. lev_cell l r (Suc n) j m) [1..<Suc (length r)] ?m)"
    using Suc.prems by (intro lev_row_inv) auto
  then have "lev_inv l r (Suc (Suc n)) 1 (fold (\<lambda>j m. lev_cell l r (Suc n) j m) [1..<Suc (length r)] ?m)"
    by (fastforce simp: lev_inv_def less_Suc_eq)
  then show ?case by simp
qed (use assms(1) in simp)

lemma edist_same [simp]: "edist xs xs = 0"
  by (induction xs) auto

lemma levenshtein_edist: "levenshteinDistance l r = edist (rev l) (rev r)"
proof -
  have "lev_inv l r 1 1 (lev_init (length l + 1) (length r + 1))"
    using lev_init_ok [of "length l + 1" "length r + 1"]
    by (auto simp: lev_inv_def pdist_zero less_Suc_eq_le)
  from lev_all_inv [OF this, of "length l"]
  have "mat_get (fold (\<lambda>i m. fold (\<lambda>j m. lev_cell l r i j m) [1..<Suc (length r)] m) [1..<Suc (length l)]
      (lev_init (length l + 1) (length r + 1))) (length l) (length r) = pdist l r (length l) (length r)"
    by (simp add: lev_inv_def)
  then show ?thesis
    unfolding levenshteinDistance_def Let_def by (auto simp: pdist_def)
qed

section \<open>The distance is the least number of edits\<close>

text \<open>\<open>edits xs ys n\<close>: \<open>n\<close> insertions, deletions and substitutions turn \<open>xs\<close> into \<open>ys\<close>.\<close>

inductive edits :: "'a list \<Rightarrow> 'a list \<Rightarrow> nat \<Rightarrow> bool" where
  edits_empty: "edits [] [] 0"
| keep: "edits xs ys n \<Longrightarrow> edits (xs @ [x]) (ys @ [x]) n"
| deletion: "edits xs ys n \<Longrightarrow> edits (xs @ [x]) ys (Suc n)"
| insertion: "edits xs ys n \<Longrightarrow> edits xs (ys @ [y]) (Suc n)"
| substitution: "edits xs ys n \<Longrightarrow> edits (xs @ [x]) (ys @ [y]) (Suc n)"

lemma edits_Nil1: "edits [] ys (length ys)"
  by (induction ys rule: rev_induct) (auto intro: edits.intros)

lemma edits_Nil2: "edits xs [] (length xs)"
  by (induction xs rule: rev_induct) (auto intro: edits.intros)

lemma edist_edits: "edits (rev xs) (rev ys) (edist xs ys)"
proof (induction xs ys rule: edist.induct)
  case (1 ys)
  then show ?case using edits_Nil1 [of "rev ys"] by simp
next
  case (2 x xs)
  then show ?case using edits_Nil2 [of "rev (x # xs)"] by simp
next
  case (3 x xs y ys)
  then show ?case by (auto simp: min_def intro: edits.intros)
qed

lemma edist_step:
  "edist (x # xs) ys \<le> Suc (edist xs ys)" "edist xs (y # ys) \<le> Suc (edist xs ys)"
  by (cases ys; cases xs; simp)+

lemma edist_subst: "edist (x # xs) (y # ys) \<le> Suc (edist xs ys)" "edist (x # xs) (x # ys) \<le> edist xs ys"
  by (simp_all add: min_le_iff_disj)

lemma edits_edist: "edits xs ys n \<Longrightarrow> edist (rev xs) (rev ys) \<le> n"
proof (induction rule: edits.induct)
  case (keep xs ys n x)
  then show ?case using edist_subst(2) [of x "rev xs" "rev ys"] by (simp del: edist.simps)
next
  case (deletion xs ys n x)
  then show ?case using edist_step(1) [of x "rev xs" "rev ys"] by simp
next
  case (insertion xs ys n y)
  then show ?case using edist_step(2) [of "rev xs" y "rev ys"] by simp
next
  case (substitution xs ys n x y)
  then show ?case using edist_subst(1) [of x "rev xs" y "rev ys"] by (simp del: edist.simps)
qed simp

lemma edist_least: "edist (rev xs) (rev ys) = (LEAST n. edits xs ys n)"
  by (rule Least_equality [symmetric]) (use edist_edits [of "rev xs" "rev ys"] in simp, rule edits_edist)

section \<open>Properties\<close>

text \<open>C12: the matrix loops of \<open>levenshteinDistance\<close> compute the edit distance: the result is the least
  number of insertions, deletions and substitutions that turn the first name into the second.\<close>

theorem levenshtein_is_least_edit_count:
  "levenshteinDistance left right = (LEAST n. edits left right n)"
  by (simp only: levenshtein_edist edist_least)

end
