(* ===== verification/XmlRouting.thy ===== *)
theory XmlRouting
  imports Levenshtein
begin

text \<open>
  services/ingest/xmlFieldRouting.ts, the routing half: the flat fields of a repair order's XML
  are extracted, classified as PII, deterministic or semantic, and collected in three payloads.

  A payload is a record with one optional field per property of the TypeScript type; numbers that
  \<open>toNumber\<close> accepted are finite doubles and kept as rationals, those of \<open>toInt\<close> as integers. The
  local variables of \<open>routeXmlToPayloads\<close> are the record \<open>RouteState\<close>, its loop body is
  \<open>route_leaf\<close>. The keys of the two line maps are the indices themselves: the code's string
  \<open>labor_part\<close> determines the pair, because a double prints differently from every other.
  The lists \<open>d_keys\<close>, \<open>l_keys\<close> and \<open>p_keys\<close> hold the names of the properties an object has, in the
  order of their first assignment, which is the order \<open>JSON.stringify\<close> prints them in.
\<close>

section \<open>Fields\<close>

record SemanticEntry =
  e_path :: string
  e_text :: string
  e_laborIndex :: "int option"
  e_partIndex :: "int option"

record DeterministicPayload =
  d_roNumber :: "string option"
  d_roStatus :: "string option"
  d_openTimestamp :: "string option"
  d_closeTimestamp :: "string option"
  d_writeupTimestamp :: "string option"
  d_promisedTimestamp :: "string option"
  d_advisorId :: "string option"
  d_serviceLane :: "string option"
  d_departmentCode :: "string option"
  d_waiterFlag :: "string option"
  d_loanerFlag :: "string option"
  d_warrantyFlag :: "string option"
  d_fleetFlag :: "string option"
  d_internalRoFlag :: "string option"
  d_customerType :: "string option"
  d_preferredContactMethod :: "string option"
  d_marketingOptIn :: "string option"
  d_vehicleYear :: "int option"
  d_vehicleMake :: "string option"
  d_vehicleModel :: "string option"
  d_vehicleTrim :: "string option"
  d_vehicleEngine :: "string option"
  d_vehicleTransmission :: "string option"
  d_vehicleDrivetrain :: "string option"
  d_odometerIn :: "int option"
  d_odometerOut :: "int option"
  d_vehicleColor :: "string option"
  d_vehicleProductionDate :: "string option"
  d_laborTotal :: "rat option"
  d_partsTotal :: "rat option"
  d_shopFees :: "rat option"
  d_environmentalFees :: "rat option"
  d_discountTotal :: "rat option"
  d_taxTotal :: "rat option"
  d_grandTotal :: "rat option"
  d_paymentMethod :: "string option"
  d_invoiceNumber :: "string option"
  d_createdBySystem :: "string option"
  d_ingestTimestamp :: "string option"
  d_tenantId :: "string option"
  d_sourceSystem :: "string option"
  d_laborLines :: "LaborLine list"
  d_partLines :: "PartLine list"
  d_keys :: "string list"

record Address =
  a_line1 :: "string option"
  a_line2 :: "string option"
  a_city :: "string option"
  a_state :: "string option"
  a_zip :: "string option"

record PiiPayload =
  pp_customerName :: "string option"
  pp_emails :: "string list option"
  pp_phones :: "string list option"
  pp_vins :: "string list option"
  pp_licensePlates :: "string list option"
  pp_paymentMethods :: "string list option"
  pp_address :: "Address option"

record RoutedPayloads =
  rp_pii :: "PiiPayload option"
  rp_det :: DeterministicPayload
  rp_sem :: "SemanticEntry list"

definition normalizeTag :: "string \<Rightarrow> string" where
  "normalizeTag v = toUpperCase (js_trim v)"

text \<open>\<open><([A-Za-z0-9_]+)>([\\s\\S]*?)</\\1>\<close>\<close>

definition field_rx :: rx where
  "field_rx =
     rx_seq [chr (CHR ''<''), RGrp 1 (rx_plus (RCls is_word)), chr (CHR ''>''),
             RGrp 2 (RStar False rx_any), str ''</'', RRef 1, chr (CHR ''>'')]"

definition entry :: "string \<Rightarrow> string \<Rightarrow> SemanticEntry" where
  "entry p t = \<lparr>e_path = p, e_text = t, e_laborIndex = None, e_partIndex = None\<rparr>"

definition grp :: "caps \<Rightarrow> nat \<Rightarrow> string" where
  "grp c k = (case group c k of None \<Rightarrow> [] | Some x \<Rightarrow> x)"

text \<open>One match of the field expression, as the loop of \<open>extractFlatFields\<close> treats it.\<close>

definition flat_field :: "string \<times> caps \<Rightarrow> SemanticEntry res" where
  "flat_field m =
     (let name = normalizeTag (grp (snd m) 1); value = js_trim (grp (snd m) 2)
      in if CHR ''<'' \<in> set value
         then throw (''Nested XML detected in field '' @ name) 400 ''XML_NESTING''
         else ok (entry name value))"

definition extractFlatFields :: "string \<Rightarrow> SemanticEntry list res" where
  "extractFlatFields xml =
     (case rx_match field_rx xml of
        None \<Rightarrow> throw ''Invalid XML: missing root element'' 400 ''XML_INVALID''
      | Some (w, c) \<Rightarrow>
          let content = grp c 2; ms = rx_matches field_rx content
          in res_bind (res_map flat_field ms) (\<lambda>results.
               if sum_list (map (length \<circ> fst) ms) = 0 \<and> \<not> list_all is_ws content
               then throw ''No valid flat fields detected'' 400 ''XML_INVALID''
               else ok results))"

definition toNumber :: "string \<Rightarrow> string \<Rightarrow> rat res" where
  "toNumber value field =
     (case js_Number (replace_char (CHR '','') [] value) of
        Fin q \<Rightarrow> ok q
      | _ \<Rightarrow> throw (''Invalid numeric value for '' @ field) 400 ''NUMBER_INVALID'')"

definition toInt :: "string \<Rightarrow> string \<Rightarrow> int res" where
  "toInt value field =
     (case js_parseInt value of
        Fin q \<Rightarrow> ok \<lfloor>q\<rfloor>
      | _ \<Rightarrow> throw (''Invalid integer value for '' @ field) 400 ''NUMBER_INVALID'')"

definition isPiiField :: "string \<Rightarrow> bool" where "isPiiField f \<longleftrightarrow> f \<in> set PII_FIELDS"
definition isDeterministicField :: "string \<Rightarrow> bool" where "isDeterministicField f \<longleftrightarrow> f \<in> set DETERMINISTIC_FIELDS"
definition isSemanticField :: "string \<Rightarrow> bool" where "isSemanticField f \<longleftrightarrow> f \<in> set SEMANTIC_FIELDS"

section \<open>Setters\<close>

definition add_key :: "string \<Rightarrow> string list \<Rightarrow> string list" where
  "add_key k ks = (if k \<in> set ks then ks else ks @ [k])"

definition initDeterministicPayload :: DeterministicPayload where
  "initDeterministicPayload =
     \<lparr>d_roNumber = None, d_roStatus = None, d_openTimestamp = None, d_closeTimestamp = None,
      d_writeupTimestamp = None, d_promisedTimestamp = None, d_advisorId = None, d_serviceLane = None,
      d_departmentCode = None, d_waiterFlag = None, d_loanerFlag = None, d_warrantyFlag = None,
      d_fleetFlag = None, d_internalRoFlag = None, d_customerType = None, d_preferredContactMethod = None,
      d_marketingOptIn = None, d_vehicleYear = None, d_vehicleMake = None, d_vehicleModel = None,
      d_vehicleTrim = None, d_vehicleEngine = None, d_vehicleTransmission = None, d_vehicleDrivetrain = None,
      d_odometerIn = None, d_odometerOut = None, d_vehicleColor = None, d_vehicleProductionDate = None,
      d_laborTotal = None, d_partsTotal = None, d_shopFees = None, d_environmentalFees = None,
      d_discountTotal = None, d_taxTotal = None, d_grandTotal = None, d_paymentMethod = None,
      d_invoiceNumber = None, d_createdBySystem = None, d_ingestTimestamp = None, d_tenantId = None,
      d_sourceSystem = None,
      d_laborLines = [], d_partLines = [], d_keys = [''laborLines'', ''partLines'']\<rparr>"

definition setDeterministicField :: "DeterministicPayload \<Rightarrow> string \<Rightarrow> string \<Rightarrow> DeterministicPayload res" where
  "setDeterministicField v field text =
     (if field = ''RO_NUMBER'' then ok (v\<lparr>d_roNumber := Some text, d_keys := add_key ''roNumber'' (d_keys v)\<rparr>)
      else if field = ''RO_STATUS'' then ok (v\<lparr>d_roStatus := Some text, d_keys := add_key ''roStatus'' (d_keys v)\<rparr>)
      else if field = ''OPEN_TIMESTAMP'' then ok (v\<lparr>d_openTimestamp := Some text, d_keys := add_key ''openTimestamp'' (d_keys v)\<rparr>)
      else if field = ''CLOSE_TIMESTAMP'' then ok (v\<lparr>d_closeTimestamp := Some text, d_keys := add_key ''closeTimestamp'' (d_keys v)\<rparr>)
      else if field = ''WRITEUP_TIMESTAMP'' then ok (v\<lparr>d_writeupTimestamp := Some text, d_keys := add_key ''writeupTimestamp'' (d_keys v)\<rparr>)
      else if field = ''PROMISED_TIMESTAMP'' then ok (v\<lparr>d_promisedTimestamp := Some text, d_keys := add_key ''promisedTimestamp'' (d_keys v)\<rparr>)
      else if field = ''ADVISOR_ID'' then ok (v\<lparr>d_advisorId := Some text, d_keys := add_key ''advisorId'' (d_keys v)\<rparr>)
      else if field = ''SERVICE_LANE'' then ok (v\<lparr>d_serviceLane := Some text, d_keys := add_key ''serviceLane'' (d_keys v)\<rparr>)
      else if field = ''DEPARTMENT_CODE'' then ok (v\<lparr>d_departmentCode := Some text, d_keys := add_key ''departmentCode'' (d_keys v)\<rparr>)
      else if field = ''WAITER_FLAG'' then ok (v\<lparr>d_waiterFlag := Some text, d_keys := add_key ''waiterFlag'' (d_keys v)\<rparr>)
      else if field = ''LOANER_FLAG'' then ok (v\<lparr>d_loanerFlag := Some text, d_keys := add_key ''loanerFlag'' (d_keys v)\<rparr>)
      else if field = ''WARRANTY_FLAG'' then ok (v\<lparr>d_warrantyFlag := Some text, d_keys := add_key ''warrantyFlag'' (d_keys v)\<rparr>)
      else if field = ''FLEET_FLAG'' then ok (v\<lparr>d_fleetFlag := Some text, d_keys := add_key ''fleetFlag'' (d_keys v)\<rparr>)
      else if field = ''INTERNAL_RO_FLAG'' then ok (v\<lparr>d_internalRoFlag := Some text, d_keys := add_key ''internalRoFlag'' (d_keys v)\<rparr>)
      else if field = ''CUSTOMER_TYPE'' then ok (v\<lparr>d_customerType := Some text, d_keys := add_key ''customerType'' (d_keys v)\<rparr>)
      else if field = ''PREFERRED_CONTACT_METHOD'' then ok (v\<lparr>d_preferredContactMethod := Some text, d_keys := add_key ''preferredContactMethod'' (d_keys v)\<rparr>)
      else if field = ''MARKETING_OPT_IN'' then ok (v\<lparr>d_marketingOptIn := Some text, d_keys := add_key ''marketingOptIn'' (d_keys v)\<rparr>)
      else if field = ''VEHICLE_YEAR'' then res_bind (toInt text field) (\<lambda>x. ok (v\<lparr>d_vehicleYear := Some x, d_keys := add_key ''vehicleYear'' (d_keys v)\<rparr>))
      else if field = ''VEHICLE_MAKE'' then ok (v\<lparr>d_vehicleMake := Some text, d_keys := add_key ''vehicleMake'' (d_keys v)\<rparr>)
      else if field = ''VEHICLE_MODEL'' then ok (v\<lparr>d_vehicleModel := Some text, d_keys := add_key ''vehicleModel'' (d_keys v)\<rparr>)
      else if field = ''VEHICLE_TRIM'' then ok (v\<lparr>d_vehicleTrim := Some text, d_keys := add_key ''vehicleTrim'' (d_keys v)\<rparr>)
      else if field = ''VEHICLE_ENGINE'' then ok (v\<lparr>d_vehicleEngine := Some text, d_keys := add_key ''vehicleEngine'' (d_keys v)\<rparr>)
      else if field = ''VEHICLE_TRANSMISSION'' then ok (v\<lparr>d_vehicleTransmission := Some text, d_keys := add_key ''vehicleTransmission'' (d_keys v)\<rparr>)
      else if field = ''VEHICLE_DRIVETRAIN'' then ok (v\<lparr>d_vehicleDrivetrain := Some text, d_keys := add_key ''vehicleDrivetrain'' (d_keys v)\<rparr>)
      else if field = ''ODOMETER_IN'' then res_bind (toInt text field) (\<lambda>x. ok (v\<lparr>d_odometerIn := Some x, d_keys := add_key ''odometerIn'' (d_keys v)\<rparr>))
      else if field = ''ODOMETER_OUT'' then res_bind (toInt text field) (\<lambda>x. ok (v\<lparr>d_odometerOut := Some x, d_keys := add_key ''odometerOut'' (d_keys v)\<rparr>))
      else if field = ''VEHICLE_COLOR'' then ok (v\<lparr>d_vehicleColor := Some text, d_keys := add_key ''vehicleColor'' (d_keys v)\<rparr>)
      else if field = ''VEHICLE_PRODUCTION_DATE'' then ok (v\<lparr>d_vehicleProductionDate := Some text, d_keys := add_key ''vehicleProductionDate'' (d_keys v)\<rparr>)
      else if field = ''LABOR_TOTAL'' then res_bind (toNumber text field) (\<lambda>x. ok (v\<lparr>d_laborTotal := Some x, d_keys := add_key ''laborTotal'' (d_keys v)\<rparr>))
      else if field = ''PARTS_TOTAL'' then res_bind (toNumber text field) (\<lambda>x. ok (v\<lparr>d_partsTotal := Some x, d_keys := add_key ''partsTotal'' (d_keys v)\<rparr>))
      else if field = ''SHOP_FEES'' then res_bind (toNumber text field) (\<lambda>x. ok (v\<lparr>d_shopFees := Some x, d_keys := add_key ''shopFees'' (d_keys v)\<rparr>))
      else if field = ''ENVIRONMENTAL_FEES'' then res_bind (toNumber text field) (\<lambda>x. ok (v\<lparr>d_environmentalFees := Some x, d_keys := add_key ''environmentalFees'' (d_keys v)\<rparr>))
      else if field = ''DISCOUNT_TOTAL'' then res_bind (toNumber text field) (\<lambda>x. ok (v\<lparr>d_discountTotal := Some x, d_keys := add_key ''discountTotal'' (d_keys v)\<rparr>))
      else if field = ''TAX_TOTAL'' then res_bind (toNumber text field) (\<lambda>x. ok (v\<lparr>d_taxTotal := Some x, d_keys := add_key ''taxTotal'' (d_keys v)\<rparr>))
      else if field = ''GRAND_TOTAL'' then res_bind (toNumber text field) (\<lambda>x. ok (v\<lparr>d_grandTotal := Some x, d_keys := add_key ''grandTotal'' (d_keys v)\<rparr>))
      else if field = ''PAYMENT_METHOD'' then ok (v\<lparr>d_paymentMethod := Some text, d_keys := add_key ''paymentMethod'' (d_keys v)\<rparr>)
      else if field = ''INVOICE_NUMBER'' then ok (v\<lparr>d_invoiceNumber := Some text, d_keys := add_key ''invoiceNumber'' (d_keys v)\<rparr>)
      else if field = ''CREATED_BY_SYSTEM'' then ok (v\<lparr>d_createdBySystem := Some text, d_keys := add_key ''createdBySystem'' (d_keys v)\<rparr>)
      else if field = ''INGEST_TIMESTAMP'' then ok (v\<lparr>d_ingestTimestamp := Some text, d_keys := add_key ''ingestTimestamp'' (d_keys v)\<rparr>)
      else if field = ''TENANT_ID'' then ok (v\<lparr>d_tenantId := Some text, d_keys := add_key ''tenantId'' (d_keys v)\<rparr>)
      else if field = ''SOURCE_SYSTEM'' then ok (v\<lparr>d_sourceSystem := Some text, d_keys := add_key ''sourceSystem'' (d_keys v)\<rparr>)
      else ok v)"

definition initPiiPayload :: PiiPayload where
  "initPiiPayload =
     \<lparr>pp_customerName = None, pp_emails = None, pp_phones = None, pp_vins = None,
      pp_licensePlates = None, pp_paymentMethods = None, pp_address = None\<rparr>"

definition add_name :: "string option \<Rightarrow> string \<Rightarrow> string" where
  "add_name old text = (if truthy old then js_trim (the old @ '' '' @ text) else text)"

definition append_value :: "string list option \<Rightarrow> string \<Rightarrow> string list" where
  "append_value old text = (case old of None \<Rightarrow> [text] | Some xs \<Rightarrow> xs @ [text])"

definition the_address :: "PiiPayload \<Rightarrow> Address" where
  "the_address v =
     (case pp_address v of
        None \<Rightarrow> \<lparr>a_line1 = None, a_line2 = None, a_city = None, a_state = None, a_zip = None\<rparr>
      | Some a \<Rightarrow> a)"

definition setPiiField :: "PiiPayload \<Rightarrow> string \<Rightarrow> string \<Rightarrow> PiiPayload" where
  "setPiiField v field text =
     (if field = ''CUSTOMER_FIRST_NAME'' then v\<lparr>pp_customerName := Some (add_name (pp_customerName v) text)\<rparr>
      else if field = ''CUSTOMER_LAST_NAME'' then v\<lparr>pp_customerName := Some (add_name (pp_customerName v) text)\<rparr>
      else if field = ''CUSTOMER_EMAIL'' then v\<lparr>pp_emails := Some (append_value (pp_emails v) text)\<rparr>
      else if field = ''CUSTOMER_PHONE'' then v\<lparr>pp_phones := Some (append_value (pp_phones v) text)\<rparr>
      else if field = ''VIN'' then v\<lparr>pp_vins := Some (append_value (pp_vins v) text)\<rparr>
      else if field = ''LICENSE_PLATE'' then v\<lparr>pp_licensePlates := Some (append_value (pp_licensePlates v) text)\<rparr>
      else if field = ''CUSTOMER_ADDRESS_LINE1'' then v\<lparr>pp_address := Some ((the_address v)\<lparr>a_line1 := Some text\<rparr>)\<rparr>
      else if field = ''CUSTOMER_ADDRESS_CITY'' then v\<lparr>pp_address := Some ((the_address v)\<lparr>a_city := Some text\<rparr>)\<rparr>
      else if field = ''CUSTOMER_ADDRESS_STATE'' then v\<lparr>pp_address := Some ((the_address v)\<lparr>a_state := Some text\<rparr>)\<rparr>
      else if field = ''CUSTOMER_ADDRESS_POSTAL'' then v\<lparr>pp_address := Some ((the_address v)\<lparr>a_zip := Some text\<rparr>)\<rparr>
      else v)"

definition setLaborLineField :: "LaborLine \<Rightarrow> string \<Rightarrow> string \<Rightarrow> string \<Rightarrow> LaborLine res" where
  "setLaborLineField v field text raw =
     (if field = ''LABOR_LINE_NUMBER'' then res_bind (toInt text raw) (\<lambda>x. ok (v\<lparr>l_laborLineNumber := Some x, l_keys := add_key ''laborLineNumber'' (l_keys v)\<rparr>))
      else if field = ''OP_CODE'' then ok (v\<lparr>l_opCode := Some text, l_keys := add_key ''opCode'' (l_keys v)\<rparr>)
      else if field = ''LABOR_TYPE'' then ok (v\<lparr>l_laborType := Some text, l_keys := add_key ''laborType'' (l_keys v)\<rparr>)
      else if field = ''SKILL_LEVEL'' then ok (v\<lparr>l_skillLevel := Some text, l_keys := add_key ''skillLevel'' (l_keys v)\<rparr>)
      else if field = ''FLAT_RATE_HOURS'' then res_bind (toNumber text raw) (\<lambda>x. ok (v\<lparr>l_flatRateHours := Some x, l_keys := add_key ''flatRateHours'' (l_keys v)\<rparr>))
      else if field = ''ACTUAL_HOURS'' then res_bind (toNumber text raw) (\<lambda>x. ok (v\<lparr>l_actualHours := Some x, l_keys := add_key ''actualHours'' (l_keys v)\<rparr>))
      else if field = ''LABOR_RATE'' then res_bind (toNumber text raw) (\<lambda>x. ok (v\<lparr>l_laborRate := Some x, l_keys := add_key ''laborRate'' (l_keys v)\<rparr>))
      else if field = ''LABOR_EXTENDED_AMOUNT'' then res_bind (toNumber text raw) (\<lambda>x. ok (v\<lparr>l_laborExtendedAmount := Some x, l_keys := add_key ''laborExtendedAmount'' (l_keys v)\<rparr>))
      else if field = ''TECHNICIAN_ID'' then ok (v\<lparr>l_technicianId := Some text, l_keys := add_key ''technicianId'' (l_keys v)\<rparr>)
      else ok v)"

definition setPartLineField :: "PartLine \<Rightarrow> string \<Rightarrow> string \<Rightarrow> string \<Rightarrow> PartLine res" where
  "setPartLineField v field text raw =
     (if field = ''PART_LINE_NUMBER'' then res_bind (toInt text raw) (\<lambda>x. ok (v\<lparr>p_partLineNumber := Some x, p_keys := add_key ''partLineNumber'' (p_keys v)\<rparr>))
      else if field = ''PART_NUMBER'' then ok (v\<lparr>p_partNumber := Some text, p_keys := add_key ''partNumber'' (p_keys v)\<rparr>)
      else if field = ''PART_QUANTITY'' then res_bind (toNumber text raw) (\<lambda>x. ok (v\<lparr>p_partQuantity := Some x, p_keys := add_key ''partQuantity'' (p_keys v)\<rparr>))
      else if field = ''PART_UNIT_PRICE'' then res_bind (toNumber text raw) (\<lambda>x. ok (v\<lparr>p_partUnitPrice := Some x, p_keys := add_key ''partUnitPrice'' (p_keys v)\<rparr>))
      else if field = ''PART_EXTENDED_PRICE'' then res_bind (toNumber text raw) (\<lambda>x. ok (v\<lparr>p_partExtendedPrice := Some x, p_keys := add_key ''partExtendedPrice'' (p_keys v)\<rparr>))
      else if field = ''PART_SOURCE'' then ok (v\<lparr>p_partSource := Some text, p_keys := add_key ''partSource'' (p_keys v)\<rparr>)
      else if field = ''BACKORDER_FLAG'' then ok (v\<lparr>p_backorderFlag := Some text, p_keys := add_key ''backorderFlag'' (p_keys v)\<rparr>)
      else ok v)"

section \<open>Routing\<close>

record RouteState =
  rs_pii :: PiiPayload
  rs_det :: DeterministicPayload
  rs_sem :: "SemanticEntry list"
  rs_seen :: "string list"
  rs_labor :: "(int, LaborLine) jsmap"
  rs_part :: "(int \<times> int, PartLine) jsmap"
  rs_unknown :: "string list"

definition init_route :: RouteState where
  "init_route =
     \<lparr>rs_pii = initPiiPayload, rs_det = initDeterministicPayload, rs_sem = [], rs_seen = [],
      rs_labor = [], rs_part = [], rs_unknown = []\<rparr>"

definition new_labor :: "int \<Rightarrow> LaborLine" where
  "new_labor l =
     \<lparr>l_laborIndex = l, l_laborLineNumber = None, l_opCode = None, l_laborType = None,
      l_skillLevel = None, l_flatRateHours = None, l_actualHours = None, l_laborRate = None,
      l_laborExtendedAmount = None, l_technicianId = None, l_keys = [''laborIndex'']\<rparr>"

definition new_part :: "int \<Rightarrow> int \<Rightarrow> PartLine" where
  "new_part l p =
     \<lparr>p_laborIndex = l, p_partIndex = p, p_partLineNumber = None, p_partNumber = None,
      p_partQuantity = None, p_partUnitPrice = None, p_partExtendedPrice = None,
      p_partSource = None, p_backorderFlag = None,
      p_keys = [''laborIndex'', ''partIndex'']\<rparr>"

text \<open>The branch of an indexed field with a part index.\<close>

definition route_part :: "string \<Rightarrow> string \<Rightarrow> string \<Rightarrow> int \<Rightarrow> int \<Rightarrow> RouteState \<Rightarrow> RouteState res" where
  "route_part field base text l p st =
     (if base \<notin> set PART_BASE_FIELDS
      then throw (''Part index used on non-part field '' @ base) 400 ''PART_INDEX_INVALID''
      else
        let line = (case map_of (rs_part st) (l, p) of None \<Rightarrow> new_part l p | Some x \<Rightarrow> x)
        in if isDeterministicField base then
             res_bind (setPartLineField line base text field) (\<lambda>line'.
               ok (st\<lparr>rs_part := map_set (l, p) line' (rs_part st)\<rparr>))
           else
             ok (st\<lparr>rs_sem := rs_sem st @ [\<lparr>e_path = field, e_text = text, e_laborIndex = Some l, e_partIndex = Some p\<rparr>],
                    rs_part := map_set (l, p) line (rs_part st)\<rparr>))"

definition route_labor :: "string \<Rightarrow> string \<Rightarrow> string \<Rightarrow> int \<Rightarrow> RouteState \<Rightarrow> RouteState res" where
  "route_labor field base text l st =
     (if base \<notin> set LABOR_BASE_FIELDS
      then throw (''Labor index used on non-labor field '' @ base) 400 ''LABOR_INDEX_INVALID''
      else
        let line = (case map_of (rs_labor st) l of None \<Rightarrow> new_labor l | Some x \<Rightarrow> x)
        in if isDeterministicField base then
             res_bind (setLaborLineField line base text field) (\<lambda>line'.
               ok (st\<lparr>rs_labor := map_set l line' (rs_labor st)\<rparr>))
           else
             ok (st\<lparr>rs_sem := rs_sem st @ [\<lparr>e_path = field, e_text = text, e_laborIndex = Some l, e_partIndex = None\<rparr>],
                    rs_labor := map_set l line (rs_labor st)\<rparr>))"

definition route_leaf :: "SemanticEntry \<Rightarrow> RouteState \<Rightarrow> RouteState res" where
  "route_leaf leaf st0 =
     (let field = e_path leaf
      in if field \<in> set (rs_seen st0)
         then throw (''Duplicate XML element name: '' @ field) 400 ''XML_DUPLICATE_FIELD''
         else
           let st = st0\<lparr>rs_seen := rs_seen st0 @ [field]\<rparr>
           in res_bind (parseIndexedFieldName field) (\<lambda>ix.
                let base = if_base ix
                in if \<not> (isPiiField base \<or> isDeterministicField base \<or> isSemanticField base)
                   then ok (st\<lparr>rs_unknown := rs_unknown st @ [field]\<rparr>)
                   else if isPiiField base then
                     (if if_isIndexed ix
                      then throw (''Indexed PII field not allowed: '' @ field) 400 ''PII_INDEXED''
                      else ok (st\<lparr>rs_pii := setPiiField (rs_pii st) base (e_text leaf)\<rparr>))
                   else if if_isIndexed ix then
                     (if \<not> isDeterministicField base \<and> \<not> isSemanticField base
                      then throw (''Unclassified indexed field: '' @ field) 400 ''INDEXED_FIELD_UNKNOWN''
                      else if base \<notin> set LINE_ITEM_BASE_FIELDS
                      then throw (''Indexed field not allowed for base '' @ base) 400 ''INDEXED_BASE_INVALID''
                      else (case (if_partIndex ix, if_laborIndex ix) of
                          (Some p, Some l) \<Rightarrow> route_part field base (e_text leaf) l p st
                        | (None, Some l) \<Rightarrow> route_labor field base (e_text leaf) l st
                        | _ \<Rightarrow> ok st))
                   else if base \<in> set LINE_ITEM_BASE_FIELDS
                   then throw (''Line item field requires index suffix: '' @ field) 400 ''INDEX_REQUIRED''
                   else if isDeterministicField base then
                     res_bind (setDeterministicField (rs_det st) base (e_text leaf)) (\<lambda>d. ok (st\<lparr>rs_det := d\<rparr>))
                   else ok (st\<lparr>rs_sem := rs_sem st @ [leaf]\<rparr>)))"

definition labor_le :: "LaborLine \<Rightarrow> LaborLine \<Rightarrow> bool" where
  "labor_le a b \<longleftrightarrow> l_laborIndex a \<le> l_laborIndex b"

definition part_le :: "PartLine \<Rightarrow> PartLine \<Rightarrow> bool" where
  "part_le a b \<longleftrightarrow>
     (if p_laborIndex a \<noteq> p_laborIndex b then p_laborIndex a \<le> p_laborIndex b
      else p_partIndex a \<le> p_partIndex b)"

text \<open>What follows the loop.\<close>

definition route_finish :: "RouteState \<Rightarrow> RoutedPayloads res" where
  "route_finish st =
     (if rs_unknown st \<noteq> [] then res_bind (buildUnknownFieldError (rs_unknown st)) (\<lambda>e. Inl (App e))
      else ok \<lparr>rp_pii = (if rs_pii st = initPiiPayload then None else Some (rs_pii st)),
               rp_det = (rs_det st)\<lparr>d_laborLines := js_sort labor_le (map snd (rs_labor st)),
                                  d_partLines := js_sort part_le (map snd (rs_part st))\<rparr>,
               rp_sem = rs_sem st\<rparr>)"

definition routeXmlToPayloads :: "string \<Rightarrow> RoutedPayloads res" where
  "routeXmlToPayloads xml =
     res_bind (extractFlatFields xml) (\<lambda>leaves.
     res_bind (res_fold route_leaf leaves init_route) route_finish)"

definition assertNoPiiInSemantic :: "SemanticEntry list \<Rightarrow> unit res" where
  "assertNoPiiInSemantic sem =
     res_bind (res_map (\<lambda>e. res_bind (parseIndexedFieldName (e_path e)) (\<lambda>i. ok (isPiiField (if_base i)))) sem)
       (\<lambda>flags. if True \<in> set flags then throw ''PII path routed to semantic payload'' 400 ''PII_ROUTE_VIOLATION''
               else ok ())"

end
