(* ===== verification/XmlValidate.thy ===== *)
theory XmlValidate
  imports XmlRouting
begin

text \<open>
  services/ingest/xmlFieldRouting.ts, the second half: validation of the routed payloads and the
  semantic XML that is redacted and embedded. Amounts are finite doubles; sums, products and the
  comparison with the tolerance are the rounded operations of \<open>JsNumber\<close>.
\<close>

section \<open>Validation\<close>

definition LABOR_RATE_FIXED :: jsnum where "LABOR_RATE_FIXED = Fin 275"
definition HOURS_MAX :: rat where "HOURS_MAX = 20"
definition TOTAL_TOLERANCE :: jsnum where "TOTAL_TOLERANCE = lit (1 / 100)"

text \<open>\<open>if (cond) throw ...\<close>\<close>

definition reject_if :: "bool \<Rightarrow> string \<Rightarrow> string \<Rightarrow> unit res" where
  "reject_if c msg errCode = (if c then throw msg 400 errCode else ok ())"

text \<open>\<open>Math.abs(x - y) > TOTAL_TOLERANCE\<close>\<close>

definition off_by :: "jsnum \<Rightarrow> jsnum \<Rightarrow> bool" where
  "off_by x y = jgt (jabs (jsub x y)) TOTAL_TOLERANCE"

definition validateRoNumber :: "string \<Rightarrow> unit res" where
  "validateRoNumber roNumber =
     (if \<not> (length roNumber = 7 \<and> list_all is_digit roNumber)
      then throw ''RO_NUMBER must be numeric and 7 digits'' 400 ''RO_NUMBER_INVALID''
      else if jgt (Fin 6920000) (js_parseInt roNumber)
      then throw ''RO_NUMBER below allowed range'' 400 ''RO_NUMBER_RANGE''
      else ok ())"

text \<open>The map from a labor index to the part indices that refer to it.\<close>

definition collect_part :: "int list \<Rightarrow> PartLine \<Rightarrow> (int, int list) jsmap \<Rightarrow> (int, int list) jsmap res" where
  "collect_part labors part m =
     (if p_laborIndex part \<notin> set labors
      then throw (''Orphaned part line for labor '' @ idx_str (p_laborIndex part)) 400 ''PART_ORPHANED''
      else
        let old = (case map_of m (p_laborIndex part) of None \<Rightarrow> [] | Some xs \<Rightarrow> xs)
        in ok (map_set (p_laborIndex part) (old @ [p_partIndex part]) m))"

definition check_group :: "int \<times> int list \<Rightarrow> unit \<Rightarrow> unit res" where
  "check_group g u = ensureContiguousIndices (snd g) (''part for labor '' @ idx_str (fst g))"

definition part_refs :: "SemanticEntry list \<Rightarrow> (int \<times> int) list" where
  "part_refs sem =
     concat (map (\<lambda>e. case (e_laborIndex e, e_partIndex e) of
                        (Some l, Some p) \<Rightarrow> if l \<noteq> 0 \<and> p \<noteq> 0 then [(l, p)] else []
                      | _ \<Rightarrow> []) sem)"

definition check_ref :: "PartLine list \<Rightarrow> int \<times> int \<Rightarrow> unit \<Rightarrow> unit res" where
  "check_ref parts ref u =
     reject_if (ref \<notin> set (map (\<lambda>x. (p_laborIndex x, p_partIndex x)) parts))
       (''Part description without deterministic line '' @ idx_str (fst ref) @ ''_'' @ idx_str (snd ref))
       ''PART_DESCRIPTION_ORPHANED''"

text \<open>One iteration over the labor lines; the accumulator is \<open>laborTotals\<close>.\<close>

definition check_labor :: "LaborLine \<Rightarrow> rat list \<Rightarrow> rat list res" where
  "check_labor labor totals =
     (let i = idx_str (l_laborIndex labor)
      in case l_actualHours labor of
           None \<Rightarrow> throw (''Invalid ACTUAL_HOURS for labor '' @ i) 400 ''HOURS_INVALID''
         | Some h \<Rightarrow>
             if h = 0 \<or> h \<le> 0 \<or> h > HOURS_MAX
             then throw (''Invalid ACTUAL_HOURS for labor '' @ i) 400 ''HOURS_INVALID''
             else (case l_laborRate labor of
                 None \<Rightarrow> throw (''LABOR_RATE missing for labor '' @ i) 400 ''LABOR_RATE_MISSING''
               | Some r \<Rightarrow>
                   if off_by (Fin r) LABOR_RATE_FIXED
                   then throw (''LABOR_RATE must be '' @ toFixed LABOR_RATE_FIXED 2) 400 ''LABOR_RATE_INVALID''
                   else (case l_laborExtendedAmount labor of
                       None \<Rightarrow> throw (''LABOR_EXTENDED_AMOUNT missing for labor '' @ i) 400 ''LABOR_EXTENDED_MISSING''
                     | Some x \<Rightarrow>
                         if off_by (Fin x) (jmul (Fin h) LABOR_RATE_FIXED)
                         then throw (''LABOR_EXTENDED_AMOUNT mismatch for labor '' @ i) 400 ''LABOR_EXTENDED_INVALID''
                         else ok (totals @ [x]))))"

definition check_part :: "PartLine \<Rightarrow> rat list \<Rightarrow> rat list res" where
  "check_part part totals =
     (let i = idx_str (p_laborIndex part) @ ''_'' @ idx_str (p_partIndex part)
      in case p_partExtendedPrice part of
           None \<Rightarrow> throw (''PART_EXTENDED_PRICE missing for part '' @ i) 400 ''PART_EXTENDED_MISSING''
         | Some x \<Rightarrow>
             (case (p_partQuantity part, p_partUnitPrice part) of
                (Some q, Some u) \<Rightarrow>
                  if off_by (Fin x) (jmul (Fin q) (Fin u))
                  then throw (''PART_EXTENDED_PRICE mismatch for part '' @ i) 400 ''PART_EXTENDED_INVALID''
                  else ok (totals @ [x])
              | _ \<Rightarrow> throw (''PART_QUANTITY or PART_UNIT_PRICE missing for part '' @ i) 400 ''PART_COMPONENT_MISSING''))"

definition sum_totals :: "rat list \<Rightarrow> jsnum" where
  "sum_totals xs = foldl (\<lambda>s v. jadd s (Fin v)) (Fin 0) xs"

definition need :: "rat option \<Rightarrow> string \<Rightarrow> rat res" where
  "need v name = (case v of None \<Rightarrow> throw (name @ '' missing'') 400 (name @ ''_MISSING'') | Some x \<Rightarrow> ok x)"

definition check_totals :: "DeterministicPayload \<Rightarrow> rat list \<Rightarrow> rat list \<Rightarrow> unit res" where
  "check_totals det laborTotals partTotals =
     (let labor = sum_totals laborTotals; parts = sum_totals partTotals
      in res_bind (need (d_laborTotal det) ''LABOR_TOTAL'') (\<lambda>lt.
         res_bind (reject_if (off_by (Fin lt) labor) ''LABOR_TOTAL mismatch'' ''LABOR_TOTAL_INVALID'') (\<lambda>_.
         res_bind (need (d_partsTotal det) ''PARTS_TOTAL'') (\<lambda>pt.
         res_bind (reject_if (off_by (Fin pt) parts) ''PARTS_TOTAL mismatch'' ''PARTS_TOTAL_INVALID'') (\<lambda>_.
         res_bind (need (d_shopFees det) ''SHOP_FEES'') (\<lambda>shop.
         res_bind (need (d_environmentalFees det) ''ENVIRONMENTAL_FEES'') (\<lambda>env.
         res_bind (need (d_taxTotal det) ''TAX_TOTAL'') (\<lambda>tax.
         res_bind (need (d_discountTotal det) ''DISCOUNT_TOTAL'') (\<lambda>disc.
           let grand = jsub (jadd (jadd (jadd (jadd labor parts) (Fin shop)) (Fin env)) (Fin tax)) (Fin disc)
           in res_bind (need (d_grandTotal det) ''GRAND_TOTAL'') (\<lambda>gt.
              reject_if (off_by (Fin gt) grand) ''GRAND_TOTAL mismatch'' ''GRAND_TOTAL_INVALID''))))))))))"

definition validateLineItems :: "DeterministicPayload \<Rightarrow> SemanticEntry list \<Rightarrow> unit res" where
  "validateLineItems det sem =
     (if d_laborLines det = [] then throw ''At least one labor line is required'' 400 ''LABOR_MISSING''
      else
        let labors = map l_laborIndex (d_laborLines det)
        in res_bind (ensureContiguousIndices labors ''labor'') (\<lambda>_.
           res_bind (res_fold (collect_part labors) (d_partLines det) []) (\<lambda>groups.
           res_bind (res_fold check_group groups ()) (\<lambda>_.
           res_bind (res_fold (check_ref (d_partLines det)) (part_refs sem) ()) (\<lambda>_.
           res_bind (res_fold check_labor (d_laborLines det) []) (\<lambda>laborTotals.
           res_bind (res_fold check_part (d_partLines det) []) (\<lambda>partTotals.
             check_totals det laborTotals partTotals)))))))"

definition first_vin :: "PiiPayload option \<Rightarrow> string option" where
  "first_vin pii =
     (case pii of None \<Rightarrow> None
      | Some v \<Rightarrow> (case pp_vins v of None \<Rightarrow> None | Some vins \<Rightarrow> (case vins of [] \<Rightarrow> None | x # _ \<Rightarrow> Some x)))"

definition validation_error :: "string list \<Rightarrow> unit res" where
  "validation_error errors =
     (if errors = [] then ok ()
      else throw (''Ingest validation failed: '' @ js_join '', '' errors) 400 ''INGEST_VALIDATION'')"

definition validateRoutedPayloads ::
  "DeterministicPayload \<Rightarrow> PiiPayload option \<Rightarrow> SemanticEntry list \<Rightarrow> bool \<Rightarrow> unit res" where
  "validateRoutedPayloads det pii sem piiEnabled =
     res_bind (validation_error
       (if \<not> truthy (d_roNumber det) \<or> \<not> truthy (d_roStatus det) \<or> \<not> truthy (d_openTimestamp det)
        then [''missing required deterministic fields''] else [])) (\<lambda>_.
     res_bind (validateRoNumber (the (d_roNumber det))) (\<lambda>_.
     res_bind (validateLineItems det sem) (\<lambda>_.
       validation_error
         ((if \<not> truthy (first_vin pii) then [''missing required vin''] else []) @
          (if piiEnabled \<and> pii = None then [''pii payload missing''] else []) @
          (if \<not> list_ex (\<lambda>e. e_path e = ''CUSTOMER_COMPLAINT'') sem then [''missing customer complaint''] else []) @
          (if sem = [] then [''semantic payload empty''] else [])))))"

section \<open>Semantic XML\<close>

definition escape_text :: "string \<Rightarrow> string" where
  "escape_text s = replace_char (CHR ''>'') ''&gt;'' (replace_char (CHR ''<'') ''&lt;'' s)"

definition field_line :: "SemanticEntry \<Rightarrow> string" where
  "field_line e = ''  <field path='' @ [CHR 0x22] @ e_path e @ [CHR 0x22] @ ''>'' @ escape_text (e_text e) @ ''</field>''"

definition newline :: string where "newline = [CHR 0x0A]"

definition buildSemanticXml :: "SemanticEntry list \<Rightarrow> string" where
  "buildSemanticXml entries = js_join newline ([''<semantic>''] @ map field_line entries @ [''</semantic>''])"

text \<open>The loop of \<open>stripXmlTags\<close>, on the part of the text from \<open>idx\<close> on.\<close>

function stripXmlTags :: "string \<Rightarrow> string" where
  "stripXmlTags s =
     (case find_from ''<'' s of
        None \<Rightarrow> s
      | Some i \<Rightarrow> take i s @
          (case find_from ''>'' (drop i s) of
             None \<Rightarrow> []
           | Some j \<Rightarrow> stripXmlTags (drop (i + j + 1) s)))"
  by pat_completeness auto
termination
proof (relation "measure length", goal_cases)
  case (2 s i j)
  have "i < length s"
  proof (rule ccontr)
    assume "\<not> i < length s"
    then have "drop i s = []" by simp
    then show False using 2(2) by (simp add: find_from_single)
  qed
  then show ?case by simp
qed simp

declare stripXmlTags.simps [simp del]

end
