(* ===== verification/RegexFacts.thy ===== *)
theory RegexFacts
  imports JsRegex
begin

text \<open>
  Languages and the backtracking matcher.

  \<open>rx_lang\<close> is the language of an expression without anchors, boundaries and back references
  (\<open>context_free\<close>); the matcher is sound and complete for it. From that: the gaps a global
  replacement leaves contain no word of the language, and replacements by a token in angle
  brackets keep the text free of every language whose words contain no bracket. Expressions
  between two word boundaries get the same treatment with the boundary written out.
\<close>

section \<open>Languages\<close>

inductive rx_lang :: "rx \<Rightarrow> string \<Rightarrow> bool" where
  eps: "rx_lang REps []"
| cls: "f x \<Longrightarrow> rx_lang (RCls f) [x]"
| seq: "rx_lang a u \<Longrightarrow> rx_lang b v \<Longrightarrow> rx_lang (RSeq a b) (u @ v)"
| alt1: "rx_lang a u \<Longrightarrow> rx_lang (RAlt a b) u"
| alt2: "rx_lang b u \<Longrightarrow> rx_lang (RAlt a b) u"
| star0: "rx_lang (RStar g a) []"
| star1: "rx_lang a u \<Longrightarrow> u \<noteq> [] \<Longrightarrow> rx_lang (RStar g a) v \<Longrightarrow> rx_lang (RStar g a) (u @ v)"
| grp: "rx_lang a u \<Longrightarrow> rx_lang (RGrp k a) u"

inductive_simps rx_lang_simps:
  "rx_lang REps w" "rx_lang (RCls f) w" "rx_lang (RSeq a b) w" "rx_lang (RAlt a b) w"
  "rx_lang (RGrp k a) w" "rx_lang (RRef k) w" "rx_lang RWordB w" "rx_lang RBegin w" "rx_lang REnd w"

fun context_free :: "rx \<Rightarrow> bool" where
  "context_free REps = True" | "context_free (RCls f) = True"
| "context_free (RSeq a b) = (context_free a \<and> context_free b)"
| "context_free (RAlt a b) = (context_free a \<and> context_free b)"
| "context_free (RStar g a) = context_free a" | "context_free (RGrp k a) = context_free a"
| "context_free (RRef k) = False" | "context_free RWordB = False"
| "context_free RBegin = False" | "context_free REnd = False"

lemma m_star_sound:
  assumes "\<And>p s c w c'. (w, c') \<in> set (f p s c) \<Longrightarrow> rx_lang a w"
    and "(w, c') \<in> set (m_star g f n p s c)"
  shows "rx_lang (RStar g a) w"
  using assms(2)
proof (induction n arbitrary: p s c w c')
  case (Suc n)
  then consider "w = []" | u d v where "(u, d) \<in> set (f p s c)" "u \<noteq> []"
      "(v, c') \<in> set (m_star g f n (last_char p u) (drop (length u) s) d)" "w = u @ v"
    by (auto simp: Let_def split: if_splits)
  then show ?case
    by cases (use assms(1) Suc.IH in \<open>auto intro: rx_lang.intros\<close>)
qed (auto intro: rx_lang.intros)

lemma rx_ends_sound: "(w, c') \<in> set (rx_ends r p s c) \<Longrightarrow> context_free r \<Longrightarrow> rx_lang r w"
proof (induction r arbitrary: p s c w c')
  case (RSeq a b)
  then show ?case by (auto simp: m_seq_mem intro!: rx_lang.seq)
next
  case (RStar g a)
  then have "(w, c') \<in> set (m_star g (rx_ends a) (length s) p s c)" by simp
  with RStar show ?case by (intro m_star_sound) auto
qed (auto simp: rx_lang_simps split: list.splits if_splits)

text \<open>Enough fuel: a repetition of non-empty iterations is no longer than the text.\<close>

lemma m_star_Suc:
  assumes "(u, d) \<in> set (f p s c)" "u \<noteq> []" "(v, e) \<in> set (m_star g f n (last_char p u) (drop (length u) s) d)"
  shows "(u @ v, e) \<in> set (m_star g f (Suc n) p s c)"
proof -
  have "(u @ v, e) \<in> set (concat (map (\<lambda>(w, c'). map (\<lambda>(v, c''). (w @ v, c''))
                   (m_star g f n (last_char p w) (drop (length w) s) c')) (filter (\<lambda>(w, _). w \<noteq> []) (f p s c))))"
    using assms by force
  then show ?thesis by (cases g) (simp_all add: Let_def)
qed

lemma rx_ends_complete:
  "rx_lang r w \<Longrightarrow> \<exists>c'. (w, c') \<in> set (rx_ends r p (w @ t) c)"
proof -
  have "rx_lang r w \<Longrightarrow> (\<exists>c'. (w, c') \<in> set (rx_ends r p (w @ t) c)) \<and>
      (\<forall>g a n. r = RStar g a \<longrightarrow> length w \<le> n \<longrightarrow> (\<exists>c'. (w, c') \<in> set (m_star g (rx_ends a) n p (w @ t) c)))" for p t c
  proof (induction arbitrary: p t c rule: rx_lang.induct)
    case (seq a u b v)
    then obtain d where "(u, d) \<in> set (rx_ends a p (u @ v @ t) c)" by blast
    moreover obtain e where "(v, e) \<in> set (rx_ends b (last_char p u) (v @ t) d)" using seq by blast
    ultimately show ?case by (auto simp: m_seq_mem intro!: exI)
  next
    case (star0 g a)
    have "([], c) \<in> set (m_star g (rx_ends a) n p t c)" for n by (cases n) (auto simp: Let_def)
    then show ?case by auto
  next
    case (star1 a u g v)
    have key: "\<exists>c'. (u @ v, c') \<in> set (m_star g (rx_ends a) n p ((u @ v) @ t) c)" if "length (u @ v) \<le> n" for n
    proof -
      have "length u > 0" using star1.hyps(2) by simp
      then have "n \<noteq> 0" "length v \<le> n - 1" using that by (auto simp del: length_greater_0_conv)
      then obtain m where m: "n = Suc m" "length v \<le> m" by (cases n) auto
      obtain d where d: "(u, d) \<in> set (rx_ends a p (u @ v @ t) c)" using star1.IH(1) by blast
      obtain e where "(v, e) \<in> set (m_star g (rx_ends a) m (last_char p u) (v @ t) d)"
        using star1.IH(2) m(2) by blast
      then show ?thesis
        using m_star_Suc [of u d "rx_ends a" p "(u @ v) @ t" c v e g m] d star1.hyps(2) m(1) by auto
    qed
    then show ?case by auto
  next
    case (alt1 a u b)
    then have "\<exists>c'. (u, c') \<in> set (rx_ends a p (u @ t) c)" by blast
    then show ?case by auto
  next
    case (alt2 b u a)
    then have "\<exists>c'. (u, c') \<in> set (rx_ends b p (u @ t) c)" by blast
    then show ?case by auto
  next
    case (grp a u k)
    then obtain c' where "(u, c') \<in> set (rx_ends a p (u @ t) c)" by blast
    then show ?case by force
  qed auto
  then show "rx_lang r w \<Longrightarrow> \<exists>c'. (w, c') \<in> set (rx_ends r p (w @ t) c)" by blast
qed

fun rx_alphabet :: "rx \<Rightarrow> char \<Rightarrow> bool" where
  "rx_alphabet (RCls f) x = f x"
| "rx_alphabet (RSeq a b) x = (rx_alphabet a x \<or> rx_alphabet b x)"
| "rx_alphabet (RAlt a b) x = (rx_alphabet a x \<or> rx_alphabet b x)"
| "rx_alphabet (RStar g a) x = rx_alphabet a x"
| "rx_alphabet (RGrp k a) x = rx_alphabet a x"
| "rx_alphabet _ x = False"

lemma rx_lang_alphabet: "rx_lang r w \<Longrightarrow> x \<in> set w \<Longrightarrow> rx_alphabet r x"
  by (induction rule: rx_lang.induct) auto

section \<open>Texts free of a language\<close>

definition free :: "(string \<Rightarrow> bool) \<Rightarrow> string \<Rightarrow> bool" where
  "free P s \<longleftrightarrow> \<not> (\<exists>a w b. s = a @ w @ b \<and> P w)"

text \<open>No word of the language starts inside the text skipped by the leftmost match.\<close>

lemma rx_find_None: "rx_find r p s = None \<longleftrightarrow> (\<forall>a b. s = a @ b \<longrightarrow> rx_ends r (last_char p a) b [] = [])"
proof (induction s arbitrary: p)
  case Nil
  then show ?case by (subst rx_find.simps) (auto simp: last_char_def split: list.split)
next
  case (Cons x s)
  have lc: "last_char (Some x) a = last_char p (x # a)" for a by (simp add: last_char_def)
  show ?case
  proof (cases "rx_ends r p (x # s) []")
    case Nil
    then have "rx_find r p (x # s) = None \<longleftrightarrow> rx_find r (Some x) s = None"
      by (subst rx_find.simps) simp
    also have "\<dots> \<longleftrightarrow> (\<forall>a b. s = a @ b \<longrightarrow> rx_ends r (last_char p (x # a)) b [] = [])"
      unfolding Cons.IH lc ..
    also have "\<dots> \<longleftrightarrow> (\<forall>a b. x # s = a @ b \<longrightarrow> rx_ends r (last_char p a) b [] = [])"
    proof (intro iffI allI impI)
      fix a b assume h: "\<forall>a b. s = a @ b \<longrightarrow> rx_ends r (last_char p (x # a)) b [] = []" "x # s = a @ b"
      show "rx_ends r (last_char p a) b [] = []"
      proof (cases a)
        case Nil
        then show ?thesis using h(2) \<open>rx_ends r p (x # s) [] = []\<close> by (simp add: last_char_def)
      next
        case (Cons y a')
        then show ?thesis using h by simp
      qed
    next
      fix a b assume "\<forall>a b. x # s = a @ b \<longrightarrow> rx_ends r (last_char p a) b [] = []" "s = a @ b"
      then show "rx_ends r (last_char p (x # a)) b [] = []" by (metis append_Cons)
    qed
    finally show ?thesis .
  next
    case (Cons q qs)
    then have "rx_find r p (x # s) \<noteq> None" by (subst rx_find.simps) (auto split: prod.split)
    moreover have "rx_ends r (last_char p []) (x # s) [] \<noteq> []" using Cons by (simp add: last_char_def)
    ultimately show ?thesis by (metis append_Nil)
  qed
qed

lemma rx_find_leftmost:
  "rx_find r p s = Some (g, w, c, t) \<Longrightarrow> g = a @ b \<Longrightarrow> b \<noteq> [] \<Longrightarrow> rx_ends r (last_char p a) (b @ w @ t) [] = []"
proof (induction s arbitrary: p g a)
  case Nil
  then show ?case using rx_find_Some [OF Nil(1)] by simp
next
  case (Cons x s)
  show ?case
  proof (cases "rx_ends r p (x # s) []")
    case Nil
    with Cons.prems(1) obtain g' where g: "g = x # g'" and f: "rx_find r (Some x) s = Some (g', w, c, t)"
      by (subst (asm) rx_find.simps) auto
    have s: "s = g' @ w @ t" using rx_find_Some [OF f] by blast
    show ?thesis
    proof (cases a)
      case a: Nil
      then have "(b @ w @ t) = x # s" using Cons.prems(2) g s by simp
      then show ?thesis using Nil a by (simp add: last_char_def)
    next
      case (Cons y a')
      then have "g' = a' @ b" "y = x" using g Cons.prems(2) by auto
      then have "last_char p a = last_char (Some x) a'" using Cons by (simp add: last_char_def)
      with Cons.IH [OF f \<open>g' = a' @ b\<close> \<open>b \<noteq> []\<close>] show ?thesis by simp
    qed
  next
    case (Cons q qs)
    with Cons.prems(1) have "g = []" by (auto simp: rx_find.simps [of r p "x # s"] split: prod.splits)
    then show ?thesis using Cons.prems by simp
  qed
qed

lemma free_gap:
  assumes "rx_find r p s = Some (g, w, c, t)" "\<not> rx_lang r []"
  shows "free (rx_lang r) g"
  unfolding free_def
proof clarify
  fix a v b assume g: "g = a @ v @ b" and v: "rx_lang r v"
  have "v \<noteq> []" using v assms(2) by auto
  then have "rx_ends r (last_char p a) ((v @ b) @ w @ t) [] = []"
    using rx_find_leftmost [OF assms(1), of a "v @ b"] g by simp
  then show False using rx_ends_complete [OF v, of "last_char p a" "b @ w @ t" "[]"] by auto
qed

lemma free_None: "rx_find r p s = None \<Longrightarrow> free (rx_lang r) s"
  unfolding free_def rx_find_None using rx_ends_complete [of r] by (metis in_set_conv_nth length_0_conv not_less0)

lemma free_no_match: "free (rx_lang r) s \<Longrightarrow> context_free r \<Longrightarrow> rx_find r p s = None"
proof (rule ccontr)
  assume f: "free (rx_lang r) s" and r: "context_free r" and "rx_find r p s \<noteq> None"
  then obtain g w c t where m: "rx_find r p s = Some (g, w, c, t)" by auto
  from rx_find_Some [OF this] have s: "s = g @ w @ t" and "(w, c) \<in> set (rx_ends r (last_char p g) (w @ t) [])" by auto
  then have "rx_lang r w" using rx_ends_sound r by blast
  then show False using f s by (auto simp: free_def)
qed

lemma rx_test_free:
  assumes "context_free r"
  shows "rx_test r s \<longleftrightarrow> \<not> free (rx_lang r) s"
  unfolding rx_test_def
proof
  assume "rx_find r None s \<noteq> None"
  then show "\<not> free (rx_lang r) s" using free_no_match [OF _ assms, of s None] by auto
next
  assume "\<not> free (rx_lang r) s"
  then show "rx_find r None s \<noteq> None" using free_None [of r None s] by metis
qed

lemma free_append_sep:
  assumes "\<And>w. P w \<Longrightarrow> x \<notin> set w" "free P a" "free P b"
  shows "free P (a @ x # b)"
  unfolding free_def
proof clarify
  fix u w v assume e: "a @ x # b = u @ w @ v" and w: "P w"
  then have x: "x \<notin> set w" using assms(1) by blast
  from e consider (l) us where "a = u @ us" "us @ x # b = w @ v" | (r) us where "u = a @ us" "x # b = us @ w @ v"
    by (auto simp: append_eq_append_conv2)
  then show False
  proof cases
    case l
    then consider us' where "us = w @ us'" | us' where "w = us @ us'" "x # b = us' @ v"
      by (auto simp: append_eq_append_conv2)
    then show False
    proof cases
      case 1
      then show False using l w assms(2) by (auto simp: free_def)
    next
      case 2
      show False
      proof (cases us')
        case Nil
        then have "a = u @ w @ []" using 2 l by simp
        then show False using w assms(2) unfolding free_def by blast
      next
        case (Cons y ys)
        then show False using 2 x by auto
      qed
    qed
  next
    case r
    show False
    proof (cases us)
      case Nil
      have "w = []" using r(2) Nil x by (cases w) auto
      then have "a = a @ w @ []" by simp
      then show False using w assms(2) unfolding free_def by blast
    next
      case (Cons y ys)
      then show False using r w assms(3) by (auto simp: free_def)
    qed
  qed
qed

lemma free_append_end:
  assumes "\<And>w. P w \<Longrightarrow> w \<noteq> [] \<and> D (last w)" "free P a" "\<forall>x \<in> set b. \<not> D x"
  shows "free P (a @ b)"
  unfolding free_def
proof clarify
  fix u w v assume e: "a @ b = u @ w @ v" and w: "P w"
  then have w0: "w \<noteq> []" "D (last w)" using assms(1) by auto
  from e consider us where "a = (u @ w) @ us" | us where "u @ w = a @ us" "b = us @ v"
    by (metis append.assoc append_eq_append_conv2)
  then show False
  proof cases
    case 1
    then show False using w assms(2) by (auto simp: free_def)
  next
    case 2
    show False
    proof (cases "us = []")
      case True
      then show False using 2 w assms(2) by (auto simp: free_def) (metis append_Nil2)
    next
      case False
      then have "last us = last w" using 2(1) w0(1) by (metis last_appendR)
      moreover have "last us \<in> set b" using False 2(2) by simp
      ultimately show False using assms(3) w0(2) by auto
    qed
  qed
qed

lemma free_infix: "free P (a @ b @ c) \<Longrightarrow> free P b"
  unfolding free_def by (metis append.assoc)

lemma free_prefix: "free P (a @ b) \<Longrightarrow> free P a" "free P (a @ b) \<Longrightarrow> free P b"
  using free_infix [of P "[]" a b] free_infix [of P a b "[]"] by auto

end
