(* ===== verification/Redaction.thy ===== *)
theory Redaction
  imports XmlRouting RegexFacts
begin

text \<open>
  services/ingest/redact.ts (redaction of the XML's PII elements and of the semantic text, the
  leak check, the redacted line item texts), services/retrieval/redactPii.ts and
  services/retrieval/xmlToText.ts (what is shown and embedded on the retrieval side).
\<close>

section \<open>redact.ts: elements\<close>

lemma indexOf_ge: "indexOf s p i = Some j \<Longrightarrow> i \<le> j"
  by (auto simp: indexOf_def)

function redact_tag_from :: "string \<Rightarrow> string \<Rightarrow> string \<Rightarrow> string \<Rightarrow> string \<Rightarrow> nat \<Rightarrow> string" where
  "redact_tag_from xml lower openPrefix closeTag token idx =
     (if idx < length lower then
        (case indexOf lower openPrefix idx of
           None \<Rightarrow> drop idx xml
         | Some start \<Rightarrow>
             (case indexOf lower ''>'' start of
                None \<Rightarrow> drop idx xml
              | Some openEnd \<Rightarrow>
                  (case indexOf lower closeTag (openEnd + 1) of
                     None \<Rightarrow> drop idx xml
                   | Some closeIdx \<Rightarrow>
                       slice xml idx (openEnd + 1) @ token @
                       slice xml closeIdx (closeIdx + length closeTag) @
                       redact_tag_from xml lower openPrefix closeTag token (closeIdx + length closeTag))))
      else [])"
  by pat_completeness auto
termination
  by (relation "measure (\<lambda>(xml, lower, openPrefix, closeTag, token, idx). length lower - idx)")
    (auto dest!: indexOf_ge)

declare redact_tag_from.simps [simp del]

definition redactTagValues :: "string \<Rightarrow> string \<Rightarrow> string \<Rightarrow> string" where
  "redactTagValues xml tagName token =
     redact_tag_from xml (toLowerCase xml) (''<'' @ toLowerCase tagName) (''</'' @ toLowerCase tagName @ ''>'') token 0"

definition tagAliases :: "string list \<Rightarrow> string list" where
  "tagAliases names = concat (map (\<lambda>n. [n, toLowerCase n]) names)"

definition redactPii :: "string \<Rightarrow> string" where
  "redactPii xml =
     (let run = (\<lambda>(tags, token) s. fold (\<lambda>tag s. redactTagValues s tag token) (tagAliases tags) s)
      in fold run
        [([''customer_name'', ''customerName'', ''customer'', ''CUSTOMER_FIRST_NAME'', ''CUSTOMER_LAST_NAME''], ''[REDACTED_NAME]''),
         ([''email'', ''email_address'', ''emailAddress'', ''CUSTOMER_EMAIL''], ''[REDACTED_EMAIL]''),
         ([''phone'', ''phone_number'', ''phoneNumber'', ''phones'', ''CUSTOMER_PHONE''], ''[REDACTED_PHONE]''),
         ([''vin'', ''vehicle_vin'', ''vehicleVin'', ''VIN''], ''[REDACTED_VIN]''),
         ([''license_plate'', ''licensePlate'', ''plate'', ''LICENSE_PLATE''], ''[REDACTED_LICENSE]''),
         ([''payment_method'', ''paymentMethod'', ''PAYMENT_METHOD''], ''[REDACTED_PAYMENT]''),
         ([''address'', ''address_line1'', ''addressLine1'', ''address_line2'', ''addressLine2'', ''CUSTOMER_ADDRESS_LINE1''], ''[REDACTED_ADDRESS]''),
         ([''address_city'', ''addressCity'', ''city'', ''CUSTOMER_ADDRESS_CITY''], ''[REDACTED_CITY]''),
         ([''address_state'', ''addressState'', ''state'', ''CUSTOMER_ADDRESS_STATE''], ''[REDACTED_STATE]''),
         ([''address_zip'', ''addressZip'', ''zip'', ''postal_code'', ''postalCode'', ''CUSTOMER_ADDRESS_POSTAL''], ''[REDACTED_ZIP]'')]
        xml)"

section \<open>redact.ts: text\<close>

abbreviation alnum :: "char \<Rightarrow> bool" where "alnum c \<equiv> is_alpha c \<or> is_digit c"

text \<open>\<open>/[A-Z0-9._%+-]+@[A-Z0-9.-]+\.[A-Z]{2,}/gi\<close>\<close>

definition EMAIL_REGEX :: rx where
  "EMAIL_REGEX =
     rx_seq [rx_plus (RCls (\<lambda>c. alnum c \<or> c \<in> set ''._%+-'')), chr (CHR ''@''),
             rx_plus (RCls (\<lambda>c. alnum c \<or> c \<in> set ''.-'')), chr (CHR ''.''), rx_min 2 (RCls is_alpha)]"

text \<open>\<open>/(\+?\d[\d\s().-]{8,}\d)/g\<close>\<close>

definition PHONE_REGEX :: rx where
  "PHONE_REGEX =
     RGrp 1 (rx_seq [rx_opt (chr (CHR ''+'')), rx_digit,
                     rx_min 8 (RCls (\<lambda>c. is_digit c \<or> is_ws c \<or> c \<in> set ''().-'')), rx_digit])"

text \<open>\<open>[0-9A-HJ-NPR-Z]\<close> under the i flag.\<close>

definition vin_char :: "char \<Rightarrow> bool" where
  "vin_char c \<longleftrightarrow> alnum c \<and> c \<notin> set ''IOQioq''"

definition word_bounded :: "rx \<Rightarrow> rx" where "word_bounded a = rx_seq [RWordB, a, RWordB]"

definition VIN_REGEX :: rx where "VIN_REGEX = word_bounded (rx_times 17 (RCls vin_char))"

definition name_char :: "char \<Rightarrow> bool" where "name_char c \<longleftrightarrow> is_alpha c \<or> c = CHR 0x27 \<or> c = CHR ''-''"

definition role_rx :: rx where
  "role_rx = rx_alt (map str_i [''customer'', ''advisor'', ''technician'', ''owner'', ''driver''])"

definition PERSON_REGEX :: rx where
  "PERSON_REGEX =
     word_bounded (RSeq (RGrp 1 role_rx)
       (rx_seq [rx_plus rx_ws, rx_min 2 (RCls name_char), rx_opt (RSeq (rx_plus rx_ws) (rx_min 2 (RCls name_char)))]))"

definition address_char :: "char \<Rightarrow> bool" where
  "address_char c \<longleftrightarrow> alnum c \<or> c = CHR 0x27 \<or> c = CHR ''-'' \<or> is_ws c"

definition address_rx :: "string list \<Rightarrow> rx" where
  "address_rx words =
     word_bounded (rx_seq [RGrp 1 (rx_alt (map str_i words)), rx_plus rx_ws, rx_min 3 (RCls address_char)])"

definition ADDRESS_REGEX :: rx where
  "ADDRESS_REGEX =
     address_rx [''address'', ''street'', ''st.'', ''avenue'', ''ave.'', ''road'', ''rd.'', ''boulevard'', ''blvd.'',
                 ''lane'', ''ln.'', ''drive'', ''dr.'', ''court'', ''ct.'']"

definition const_token :: "string \<Rightarrow> string \<Rightarrow> caps \<Rightarrow> string" where "const_token t w c = t"
definition person_token :: "string \<Rightarrow> caps \<Rightarrow> string" where "person_token w c = grp c 1 @ '' <PERSON>''"

definition redactSemanticText :: "string \<Rightarrow> string" where
  "redactSemanticText text =
     (let r = rx_replace_all EMAIL_REGEX (const_token ''<EMAIL>'') text;
          r = rx_replace_all PHONE_REGEX (const_token ''<PHONE>'') r;
          r = rx_replace_all VIN_REGEX (const_token ''<VIN>'') r;
          r = rx_replace_all PERSON_REGEX person_token r
      in rx_replace_all ADDRESS_REGEX (const_token ''<ADDRESS>'') r)"

definition assertNoRawPii :: "string \<Rightarrow> unit res" where
  "assertNoRawPii text =
     (let hits = (if rx_test EMAIL_REGEX text then [''EMAIL''] else []) @
                 (if rx_test PHONE_REGEX text then [''PHONE''] else []) @
                 (if rx_test VIN_REGEX text then [''VIN''] else [])
      in if hits \<noteq> [] then throw (''PII_LEAKAGE_DETECTED: '' @ js_join ''|'' hits) 400 ''PII_LEAKAGE_DETECTED''
         else ok ())"

record LaborRedaction =
  lr_opDescription :: "string option"
  lr_technicianNotes :: "string option"

record LineItemSemanticRedactions =
  red_labor :: "(int, LaborRedaction) jsmap"
  red_parts :: "(int \<times> int, string) jsmap"

definition old_labor :: "LineItemSemanticRedactions \<Rightarrow> int \<Rightarrow> LaborRedaction" where
  "old_labor r l = (case map_of (red_labor r) l of
     None \<Rightarrow> \<lparr>lr_opDescription = None, lr_technicianNotes = None\<rparr> | Some x \<Rightarrow> x)"

definition redact_entry :: "SemanticEntry \<Rightarrow> LineItemSemanticRedactions \<Rightarrow> LineItemSemanticRedactions res" where
  "redact_entry e r =
     res_bind (parseIndexedFieldName (e_path e)) (\<lambda>ix.
       if \<not> if_isIndexed ix then ok r
       else
         let base = if_base ix; redacted = redactSemanticText (e_text e)
         in res_bind (assertNoRawPii redacted) (\<lambda>_.
              case (if_laborIndex ix, if_partIndex ix) of
                (Some l, p) \<Rightarrow>
                  if base = ''OP_DESCRIPTION''
                  then ok (r\<lparr>red_labor := map_set l ((old_labor r l)\<lparr>lr_opDescription := Some redacted\<rparr>) (red_labor r)\<rparr>)
                  else if base = ''TECHNICIAN_NOTES''
                  then ok (r\<lparr>red_labor := map_set l ((old_labor r l)\<lparr>lr_technicianNotes := Some redacted\<rparr>) (red_labor r)\<rparr>)
                  else (case p of
                      Some q \<Rightarrow> if base = ''PART_DESCRIPTION'' then ok (r\<lparr>red_parts := map_set (l, q) redacted (red_parts r)\<rparr>) else ok r
                    | None \<Rightarrow> ok r)
              | (None, _) \<Rightarrow> ok r))"

definition buildLineItemSemanticRedactions :: "SemanticEntry list \<Rightarrow> LineItemSemanticRedactions res" where
  "buildLineItemSemanticRedactions sem = res_fold redact_entry sem \<lparr>red_labor = [], red_parts = []\<rparr>"

section \<open>retrieval/redactPii.ts\<close>

text \<open>\<open>/\b(last\s+name|name)\s+[a-zA-Z'-]{2,}\b/gi\<close>; inside a match the first word of at least two
  name characters is replaced.\<close>

definition NAME_REGEX :: rx where
  "NAME_REGEX =
     word_bounded (rx_seq [RGrp 1 (RAlt (rx_seq [str_i ''last'', rx_plus rx_ws, str_i ''name'']) (str_i ''name'')),
                           rx_plus rx_ws, rx_min 2 (RCls name_char)])"

definition name_token :: "string \<Rightarrow> caps \<Rightarrow> string" where
  "name_token w c = rx_replace_first (word_bounded (rx_min 2 (RCls name_char))) (const_token ''<PERSON>'') w"

definition redactPII_retrieval :: "string \<Rightarrow> string" where
  "redactPII_retrieval input =
     (let r = rx_replace_all EMAIL_REGEX (const_token ''<EMAIL>'') input;
          r = rx_replace_all PHONE_REGEX (const_token ''<PHONE>'') r;
          r = rx_replace_all VIN_REGEX (const_token ''<VIN>'') r;
          r = rx_replace_all NAME_REGEX name_token r
      in rx_replace_all (address_rx [''address'', ''street'', ''st.'', ''avenue'', ''ave.'', ''road'', ''rd.''])
           (const_token ''<ADDRESS>'') r)"

section \<open>retrieval/xmlToText.ts\<close>

definition replace_text :: "string \<Rightarrow> string \<Rightarrow> string \<Rightarrow> string" where
  "replace_text old new s = js_join new (js_split s old)"

definition decodeEntities :: "string \<Rightarrow> string" where
  "decodeEntities input =
     replace_text ''&#39;'' [CHR 0x27] (replace_text ''&quot;'' [CHR 0x22]
       (replace_text ''&amp;'' ''&'' (replace_text ''&gt;'' ''>'' (replace_text ''&lt;'' ''<'' input))))"

definition gap_space :: "string \<Rightarrow> string" where
  "gap_space r = (if r \<noteq> [] \<and> \<not> endsWith r '' '' then r @ '' '' else r)"

fun text_loop :: "string \<Rightarrow> bool \<Rightarrow> string \<Rightarrow> string" where
  "text_loop r inTag [] = r"
| "text_loop r inTag (ch # xs) =
     (if ch = CHR ''<'' then text_loop (gap_space r) True xs
      else if ch = CHR ''>'' then text_loop (gap_space r) False xs
      else if \<not> inTag then text_loop (r @ [ch]) inTag xs
      else text_loop r inTag xs)"

definition collapse_ws :: "string \<Rightarrow> string" where
  "collapse_ws s = rx_replace_all (rx_plus rx_ws) (const_token '' '') s"

definition xmlToText :: "string \<Rightarrow> string" where
  "xmlToText xml = js_trim (collapse_ws (decodeEntities (text_loop [] False xml)))"

end
