(* ===== verification/PiiVault.thy ===== *)
theory PiiVault
  imports Db XmlValidate Redaction
begin

text \<open>
  services/pii (piiExtract.ts, piiHash.ts, piiEncrypt.ts, piiVault.ts), ingest/customerIdentity.ts and
  services/tenant: hashes of the PII values, the key ring and the sealed payload, the vault row, the
  lookup of a customer by hashes and the settings of a tenant.

  The primitives of Node's crypto module, base64, \<open>JSON.stringify\<close> and \<open>JSON.parse\<close> on a PII payload
  and the process environment are arguments.
\<close>

section \<open>piiExtract.ts\<close>

function extract_tag_from :: "string \<Rightarrow> string \<Rightarrow> string \<Rightarrow> string \<Rightarrow> nat \<Rightarrow> string list" where
  "extract_tag_from xml lower openPrefix closeTag idx =
     (if idx < length lower then
        (case indexOf lower openPrefix idx of
           None \<Rightarrow> []
         | Some start \<Rightarrow>
             (case indexOf lower ''>'' start of
                None \<Rightarrow> []
              | Some openEnd \<Rightarrow>
                  (case indexOf lower closeTag (openEnd + 1) of
                     None \<Rightarrow> []
                   | Some closeIdx \<Rightarrow>
                       (let cleaned = js_trim (stripXmlTags (slice xml (openEnd + 1) closeIdx))
                        in (if cleaned \<noteq> [] then [cleaned] else []) @
                           extract_tag_from xml lower openPrefix closeTag (closeIdx + length closeTag)))))
      else [])"
  by pat_completeness auto
termination
  by (relation "measure (\<lambda>(xml, lower, openPrefix, closeTag, idx). length lower - idx)")
    (auto dest!: indexOf_ge)

declare extract_tag_from.simps [simp del]

definition extractTagValues :: "string \<Rightarrow> string \<Rightarrow> string list" where
  "extractTagValues xml tagName =
     extract_tag_from xml (toLowerCase xml) (''<'' @ toLowerCase tagName) (''</'' @ toLowerCase tagName @ ''>'') 0"

definition unique_values :: "string list \<Rightarrow> string list" where
  "unique_values vs = uniq (filter (\<lambda>v. v \<noteq> []) (map js_trim vs))"

definition tag_values :: "string \<Rightarrow> string list \<Rightarrow> string list" where
  "tag_values xml tags = unique_values (concat (map (extractTagValues xml) (tagAliases tags)))"

definition first_of :: "'a list \<Rightarrow> 'a option" where
  "first_of xs = (case xs of [] \<Rightarrow> None | x # _ \<Rightarrow> Some x)"

definition some_list :: "'a list \<Rightarrow> 'a list option" where
  "some_list xs = (if xs = [] then None else Some xs)"

definition extractPii :: "string \<Rightarrow> PiiPayload option" where
  "extractPii xml =
     (let line1 = first_of (tag_values xml [''address'', ''address_line1'', ''addressLine1'']);
          line2 = first_of (tag_values xml [''address_line2'', ''addressLine2'']);
          city = first_of (tag_values xml [''address_city'', ''addressCity'', ''city'']);
          state = first_of (tag_values xml [''address_state'', ''addressState'', ''state'']);
          zp = first_of (tag_values xml [''address_zip'', ''addressZip'', ''zip'', ''postal_code'', ''postalCode'']);
          payload =
            \<lparr>pp_customerName = first_of (tag_values xml [''customer_name'', ''customerName'', ''customer'']),
             pp_emails = some_list (tag_values xml [''email'', ''email_address'', ''emailAddress'']),
             pp_phones = some_list (tag_values xml [''phone'', ''phone_number'', ''phoneNumber'', ''phones'']),
             pp_vins = some_list (tag_values xml [''vin'', ''vehicle_vin'', ''vehicleVin'']),
             pp_licensePlates = some_list (tag_values xml [''license_plate'', ''licensePlate'', ''plate'']),
             pp_paymentMethods = some_list (tag_values xml [''payment_method'', ''paymentMethod'']),
             pp_address =
               (if line1 = None \<and> line2 = None \<and> city = None \<and> state = None \<and> zp = None then None
                else Some \<lparr>a_line1 = line1, a_line2 = line2, a_city = city, a_state = state, a_zip = zp\<rparr>)\<rparr>
      in if payload = initPiiPayload then None else Some payload)"

section \<open>piiHash.ts\<close>

definition normalizeValue :: "string \<Rightarrow> string" where "normalizeValue v = toLowerCase (js_trim v)"
definition normalizePhone :: "string \<Rightarrow> string" where "normalizePhone v = filter is_digit v"
definition normalizeVin :: "string \<Rightarrow> string" where "normalizeVin v = toUpperCase (filter (\<lambda>c. \<not> is_ws c) v)"
definition normalizeLicensePlate :: "string \<Rightarrow> string" where
  "normalizeLicensePlate v = toUpperCase (filter (\<lambda>c. \<not> is_ws c) v)"

type_synonym env = "string \<Rightarrow> string option"

definition getHashKey :: "env \<Rightarrow> string" where
  "getHashKey env =
     (case env ''PII_HASH_KEY'' of Some k \<Rightarrow> k
      | None \<Rightarrow> (case env ''PII_VAULT_KEY'' of Some k \<Rightarrow> k | None \<Rightarrow> []))"

definition hashValue :: "(string \<Rightarrow> string \<Rightarrow> string) \<Rightarrow> env \<Rightarrow> string \<Rightarrow> string res" where
  "hashValue hmac env value =
     (if getHashKey env = [] then Inl (Js ''PII hash key not configured'') else ok (hmac (getHashKey env) value))"

record PiiHashes =
  ph_name :: "string option"
  ph_emails :: "string list"
  ph_phones :: "string list"
  ph_vins :: "string list"
  ph_plates :: "string list"
  ph_address :: "string option"

definition list_or_empty :: "'a list option \<Rightarrow> 'a list" where
  "list_or_empty v = (case v of None \<Rightarrow> [] | Some xs \<Rightarrow> xs)"

definition address_parts :: "Address option \<Rightarrow> string list" where
  "address_parts a =
     (case a of None \<Rightarrow> []
      | Some x \<Rightarrow> filter (\<lambda>p. p \<noteq> [])
          (map (\<lambda>p. js_trim (str_or_empty p)) [a_line1 x, a_line2 x, a_city x, a_state x, a_zip x]))"

definition opt_hash :: "(string \<Rightarrow> string res) \<Rightarrow> string option \<Rightarrow> string option res" where
  "opt_hash h v = (case v of None \<Rightarrow> ok None | Some x \<Rightarrow> res_bind (h x) (\<lambda>y. ok (Some y)))"

definition buildPiiHashes :: "(string \<Rightarrow> string \<Rightarrow> string) \<Rightarrow> env \<Rightarrow> PiiPayload \<Rightarrow> PiiHashes res" where
  "buildPiiHashes hmac env p =
     (let h = hashValue hmac env
      in res_bind (opt_hash (\<lambda>v. h (normalizeValue v)) (if truthy (pp_customerName p) then pp_customerName p else None)) (\<lambda>nameHash.
         res_bind (res_map (\<lambda>v. h (normalizeValue v)) (list_or_empty (pp_emails p))) (\<lambda>emails.
         res_bind (res_map (\<lambda>v. if normalizePhone v \<noteq> [] then h (normalizePhone v) else ok []) (list_or_empty (pp_phones p))) (\<lambda>phones.
         res_bind (res_map (\<lambda>v. h (normalizeVin v)) (list_or_empty (pp_vins p))) (\<lambda>vins.
         res_bind (res_map (\<lambda>v. h (normalizeLicensePlate v)) (list_or_empty (pp_licensePlates p))) (\<lambda>plates.
         res_bind (opt_hash (\<lambda>v. h (normalizeValue v))
                     (if address_parts (pp_address p) = [] then None else Some (js_join ''|'' (address_parts (pp_address p))))) (\<lambda>addr.
           ok \<lparr>ph_name = nameHash, ph_emails = emails, ph_phones = filter (\<lambda>x. x \<noteq> []) phones, ph_vins = vins,
               ph_plates = plates, ph_address = addr\<rparr>)))))))"

section \<open>piiEncrypt.ts\<close>

record KeyRing =
  kr_active :: string
  kr_keys :: "(string, string) jsmap"

definition ring_entry :: "(string \<Rightarrow> string) \<Rightarrow> string \<Rightarrow> (string, string) jsmap \<Rightarrow> (string, string) jsmap" where
  "ring_entry b64 e m =
     (case js_split e '':'' of
        k # v # _ \<Rightarrow> if k = [] \<or> v = [] then m else map_set k (b64 v) m
      | _ \<Rightarrow> m)"

definition parseKeyRing :: "(string \<Rightarrow> string) \<Rightarrow> env \<Rightarrow> string \<Rightarrow> string option \<Rightarrow> KeyRing res" where
  "parseKeyRing b64 env ringValue activeOverride =
     (let legacyRef = str_or_empty (env ''PII_KEY_ID''); legacyMaterial = str_or_empty (env ''PII_KEY_MATERIAL'');
          active = (case activeOverride of Some a \<Rightarrow> a
                    | None \<Rightarrow> (case env ''PII_ACTIVE_KEY'' of Some a \<Rightarrow> a | None \<Rightarrow> legacyRef));
          keys = (if ringValue \<noteq> [] then
                    fold (ring_entry b64) (filter (\<lambda>e. e \<noteq> []) (map js_trim (js_split ringValue '',''))) []
                  else if legacyRef \<noteq> [] \<and> legacyMaterial \<noteq> [] then [(legacyRef, b64 legacyMaterial)]
                  else [])
      in if active = [] \<or> keys = [] then throw ''PII key ring not configured'' 500 ''PII_KEY_MISSING''
         else ok \<lparr>kr_active = active, kr_keys = keys\<rparr>)"

definition loadKeyRing :: "(string \<Rightarrow> string) \<Rightarrow> env \<Rightarrow> (string \<Rightarrow> string res) \<Rightarrow> KeyRing res" where
  "loadKeyRing b64 env secret =
     (if truthy (env ''PII_KEY_RING_SECRET'')
      then res_bind (secret (the (env ''PII_KEY_RING_SECRET''))) (\<lambda>v. parseKeyRing b64 env v (env ''PII_ACTIVE_KEY''))
      else parseKeyRing b64 env (str_or_empty (env ''PII_KEY_RING'')) (env ''PII_ACTIVE_KEY''))"

text \<open>The module keeps the first ring it could load.\<close>

definition getKeyRing :: "KeyRing option \<Rightarrow> KeyRing res \<Rightarrow> KeyRing option \<times> KeyRing res" where
  "getKeyRing cached load =
     (case cached of Some r \<Rightarrow> (cached, ok r)
      | None \<Rightarrow> (case load of Inr r \<Rightarrow> (Some r, ok r) | Inl e \<Rightarrow> (None, Inl e)))"

definition assertKey :: "string option \<Rightarrow> string res" where
  "assertKey key =
     (case key of None \<Rightarrow> throw ''PII key not found'' 500 ''PII_KEY_NOT_FOUND''
      | Some k \<Rightarrow> if length k \<noteq> 32 then throw ''PII key length invalid'' 500 ''PII_KEY_INVALID'' else ok k)"

record Sealed =
  se_keyRef :: string
  se_nonce :: string
  se_ciphertext :: string

text \<open>AES-256-GCM: \<open>seal key nonce plaintext\<close> gives the ciphertext and the tag.\<close>

definition encryptPiiPayload ::
  "(string \<Rightarrow> string \<Rightarrow> string \<Rightarrow> string \<times> string) \<Rightarrow> (PiiPayload \<Rightarrow> string) \<Rightarrow> KeyRing \<Rightarrow> string \<Rightarrow> PiiPayload \<Rightarrow> Sealed res" where
  "encryptPiiPayload seal json ring nonce payload =
     res_bind (assertKey (map_of (kr_keys ring) (kr_active ring))) (\<lambda>key.
       let (c, tag) = seal key nonce (json payload)
       in ok \<lparr>se_keyRef = kr_active ring, se_nonce = nonce, se_ciphertext = c @ tag\<rparr>)"

definition decryptPiiPayload ::
  "(string \<Rightarrow> string \<Rightarrow> string \<Rightarrow> string \<Rightarrow> string res) \<Rightarrow> (string \<Rightarrow> PiiPayload res) \<Rightarrow> KeyRing \<Rightarrow> Sealed \<Rightarrow> PiiPayload res" where
  "decryptPiiPayload unseal parse ring s =
     res_bind (assertKey (map_of (kr_keys ring) (se_keyRef s))) (\<lambda>key.
       let ct = se_ciphertext s; n = length ct
       in if n \<le> 16 then throw ''PII ciphertext invalid'' 500 ''PII_DECRYPT_FAIL''
          else res_bind (unseal key (se_nonce s) (take (n - 16) ct) (drop (n - 16) ct)) parse)"

section \<open>piiVault.ts\<close>

definition vault_roles :: "Role list" where "vault_roles = [ADMIN, DEALERADMIN, DEVELOPER]"

definition assertAdminWrite :: "RequestContext \<Rightarrow> unit res" where
  "assertAdminWrite ctx =
     (case cx_role ctx of
        Some r \<Rightarrow> if r \<noteq> ADMIN \<and> r \<noteq> DEALERADMIN \<and> r \<noteq> DEVELOPER
                  then throw ''PII write role denied'' 403 ''PII_ROLE_DENIED'' else ok ()
      | None \<Rightarrow> throw ''PII write role denied'' 403 ''PII_ROLE_DENIED'')"

definition sql_text :: "string option \<Rightarrow> sqlval" where
  "sql_text v = (case v of None \<Rightarrow> SNull | Some x \<Rightarrow> SText x)"

definition sql_array :: "string list \<Rightarrow> sqlval" where
  "sql_array xs = (if xs = [] then SNull else SArr xs)"

definition writePiiVaultRecord ::
  "RequestContext \<Rightarrow> string \<Rightarrow> string \<Rightarrow> Sealed \<Rightarrow> PiiHashes \<Rightarrow> unit io" where
  "writePiiVaultRecord ctx roId customerUuid s h =
     bind (lift (assertAdminWrite ctx)) (\<lambda>_.
       db_insert ''app.pii_vault''
         [''tenant_id'', ''ro_id'', ''customer_id'', ''customer_uuid'', ''key_ref'', ''nonce'', ''ciphertext'', ''name_hash'',
          ''email_hashes'', ''phone_hashes'', ''vin_hashes'', ''license_plate_hashes'', ''address_hash''] 13
         [sql_text (cx_tenantId ctx), SText roId, SText customerUuid, SText customerUuid, SText (se_keyRef s),
          SBytes (se_nonce s), SBytes (se_ciphertext s), sql_text (ph_name h), sql_array (ph_emails h),
          sql_array (ph_phones h), sql_array (ph_vins h), sql_array (ph_plates h), sql_text (ph_address h)]
         (Some [''tenant_id'', ''ro_id'']))"

definition eq_any :: "sqlval \<Rightarrow> string list \<Rightarrow> bool" where
  "eq_any v xs = (case v of SText x \<Rightarrow> x \<in> set xs | _ \<Rightarrow> False)"

definition overlaps :: "sqlval \<Rightarrow> string list \<Rightarrow> bool" where
  "overlaps v xs = (case v of SArr ys \<Rightarrow> list_ex (\<lambda>y. y \<in> set xs) ys | _ \<Rightarrow> False)"

definition hash_match :: "RequestContext \<Rightarrow> string list \<Rightarrow> row \<Rightarrow> bool" where
  "hash_match ctx hashes r \<longleftrightarrow>
     col r ''tenant_id'' = SText (str_or_empty (cx_tenantId ctx)) \<and>
     (col r ''customer_uuid'' \<noteq> SNull \<or> col r ''customer_id'' \<noteq> SNull) \<and>
     (eq_any (col r ''name_hash'') hashes \<or> overlaps (col r ''email_hashes'') hashes \<or>
      overlaps (col r ''phone_hashes'') hashes \<or> overlaps (col r ''vin_hashes'') hashes \<or>
      overlaps (col r ''license_plate_hashes'') hashes \<or> eq_any (col r ''address_hash'') hashes)"

definition as_text :: "sqlval \<Rightarrow> string option" where
  "as_text v = (case v of SText x \<Rightarrow> Some x | _ \<Rightarrow> None)"

text \<open>The query has LIMIT 1 and no order; the model takes the first row of the table.\<close>

definition findCustomerUuidByHashes :: "RequestContext \<Rightarrow> string list \<Rightarrow> string option io" where
  "findCustomerUuidByHashes ctx hashes =
     (if hashes = [] then ret None
      else bind (db_select ''app.pii_vault'' (hash_match ctx hashes)) (\<lambda>rows.
        ret (case rows of [] \<Rightarrow> None
             | r # _ \<Rightarrow> (case as_text (col r ''customer_uuid'') of Some u \<Rightarrow> Some u | None \<Rightarrow> as_text (col r ''customer_id'')))))"

section \<open>customerIdentity.ts\<close>

record CustomerIdentity =
  ci_customerUuid :: string
  ci_hashes :: "string list"
  ci_parts :: PiiHashes

definition opt_list :: "'a option \<Rightarrow> 'a list" where
  "opt_list v = (case v of None \<Rightarrow> [] | Some x \<Rightarrow> [x])"

definition hash_list :: "PiiHashes \<Rightarrow> string list" where
  "hash_list h =
     filter (\<lambda>x. x \<noteq> []) (opt_list (ph_name h) @ ph_emails h @ ph_phones h @ ph_vins h @ ph_plates h @ opt_list (ph_address h))"

definition resolveCustomerIdentity ::
  "(nat \<Rightarrow> string) \<Rightarrow> (string \<Rightarrow> string \<Rightarrow> string) \<Rightarrow> env \<Rightarrow> RequestContext \<Rightarrow> PiiPayload option \<Rightarrow> CustomerIdentity io" where
  "resolveCustomerIdentity uuid hmac env ctx pii =
     (case pii of
        None \<Rightarrow> io_throw ''PII payload missing for customer identity'' 400 ''CUSTOMER_IDENTITY_MISSING''
      | Some p \<Rightarrow>
          bind (lift (buildPiiHashes hmac env p)) (\<lambda>h.
            if hash_list h = [] then io_throw ''Insufficient PII for customer identity'' 400 ''CUSTOMER_IDENTITY_EMPTY''
            else bind (findCustomerUuidByHashes ctx (hash_list h)) (\<lambda>existing.
                 bind (case existing of Some u \<Rightarrow> ret u | None \<Rightarrow> draw_uuid uuid) (\<lambda>u.
                   ret \<lparr>ci_customerUuid = u, ci_hashes = hash_list h, ci_parts = h\<rparr>))))"

section \<open>services/tenant\<close>

definition truthy_sql :: "sqlval \<Rightarrow> bool" where
  "truthy_sql v = (case v of SBool b \<Rightarrow> b | _ \<Rightarrow> False)"

definition isTenantPiiEnabled :: "RequestContext \<Rightarrow> bool io" where
  "isTenantPiiEnabled ctx =
     bind (db_select ''app.tenants'' (\<lambda>r. col r ''tenant_id'' = sql_text (cx_tenantId ctx))) (\<lambda>rows.
       case rows of [] \<Rightarrow> io_throw ''Tenant not found'' 404 ''TENANT_NOT_FOUND''
       | r # _ \<Rightarrow> ret (truthy_sql (col r ''pii_enabled'')))"

definition group_setting :: "string \<Rightarrow> bool io" where
  "group_setting groupId =
     bind (db_select ''app.group_settings'' (\<lambda>r. col r ''group_id'' = SText groupId)) (\<lambda>rows.
       ret (case rows of [] \<Rightarrow> False | r # _ \<Rightarrow> truthy_sql (col r ''auto_ingest_enabled'')))"

definition resolveAutoIngestEnabled :: "string \<Rightarrow> string \<Rightarrow> bool io" where
  "resolveAutoIngestEnabled groupId tenantId =
     bind (db_select ''app.tenant_settings'' (\<lambda>r. col r ''tenant_id'' = SText tenantId)) (\<lambda>rows.
       case rows of
         [] \<Rightarrow> group_setting groupId
       | r # _ \<Rightarrow>
           if col r ''auto_ingest_enabled'' \<noteq> SNull then ret (truthy_sql (col r ''auto_ingest_enabled''))
           else group_setting (str_or_empty (as_text (col r ''group_id''))))"

end
