(* ===== verification/Store.thy ===== *)
theory Store
  imports PiiVault
begin

text \<open>
  services/ingest/store.ts and the small helpers of the pipeline: chunk.ts, embed.ts, validate.ts.

  Each statement of store.ts is a \<open>db_insert\<close>, \<open>db_update\<close> or \<open>db_delete\<close> with the columns, the number
  of placeholders and the parameters of the source. A document hash is stored as the bytes its hex
  digits denote; the model keeps the hex text (the decoding is injective on digests).
\<close>

section \<open>chunk.ts\<close>

definition CHUNK_SIZE :: nat where "CHUNK_SIZE = 800"

record Chunk =
  c_id :: string
  c_text :: string
  c_index :: nat

function chunks_from :: "nat \<Rightarrow> string \<Rightarrow> Chunk list" where
  "chunks_from idx text =
     (if text = [] then []
      else
        let piece = take CHUNK_SIZE text; rest = drop CHUNK_SIZE text
        in if js_trim piece = [] then chunks_from idx rest
           else \<lparr>c_id = digits_of (int idx), c_text = piece, c_index = idx\<rparr> # chunks_from (idx + 1) rest)"
  by pat_completeness auto
termination
  by (relation "measure (\<lambda>(idx, text). length text)") (auto simp: CHUNK_SIZE_def)

declare chunks_from.simps [simp del]

definition chunkText :: "string \<Rightarrow> Chunk list" where "chunkText text = chunks_from 0 text"

section \<open>embed.ts\<close>

text \<open>What one call of the embedding service can give.\<close>

datatype EmbedReply =
    NetworkError
  | HttpError nat string string   \<comment> \<open>status, status text, body\<close>
  | BodyUnreadable
  | NoEmbedding
  | Embedding "jsnum list"

definition embed_once :: "EmbedReply \<Rightarrow> jsnum list res" where
  "embed_once r =
     (case r of
        NetworkError \<Rightarrow> Inl (Js ''fetch failed'')
      | HttpError st stText body \<Rightarrow>
          throw (''Embedding service unavailable: '' @ digits_of (int st) @ '' '' @ stText @
                 (if body \<noteq> [] then '' - '' @ slice body 0 200 else [])) 503 ''EMBED_FAIL''
      | BodyUnreadable \<Rightarrow> Inl (Js ''invalid json'')
      | NoEmbedding \<Rightarrow> throw ''Embedding response malformed'' 502 ''EMBED_FAIL''
      | Embedding v \<Rightarrow> ok v)"

text \<open>The loop with \<open>n\<close> attempts left, \<open>attempt\<close> made.\<close>

fun embed_from :: "(string \<Rightarrow> nat \<Rightarrow> EmbedReply) \<Rightarrow> string \<Rightarrow> nat \<Rightarrow> nat \<Rightarrow> jsnum list res" where
  "embed_from service text attempt 0 = throw ''Embedding service unavailable'' 503 ''EMBED_FAIL''"
| "embed_from service text attempt (Suc n) =
     (case embed_once (service text attempt) of
        Inr v \<Rightarrow> ok v
      | Inl err \<Rightarrow>
          if n = 0 then
            (case err of App e \<Rightarrow> Inl (App e)
             | _ \<Rightarrow> throw ''Embedding service unavailable'' 503 ''EMBED_FAIL'')
          else embed_from service text (attempt + 1) n)"

definition embedText :: "(string \<Rightarrow> nat \<Rightarrow> EmbedReply) \<Rightarrow> string \<Rightarrow> jsnum list res" where
  "embedText service text = embed_from service text 0 2"

record EmbeddedChunk =
  ec_chunkId :: string
  ec_embedding :: "jsnum list"

definition embedChunks :: "(string \<Rightarrow> nat \<Rightarrow> EmbedReply) \<Rightarrow> Chunk list \<Rightarrow> EmbeddedChunk list res" where
  "embedChunks service chunks =
     res_map (\<lambda>c. res_bind (embedText service (c_text c)) (\<lambda>v. ok \<lparr>ec_chunkId = c_id c, ec_embedding = v\<rparr>)) chunks"

section \<open>validate.ts\<close>

text \<open>From the last dot on, or nothing.\<close>

definition getExtension :: "string \<Rightarrow> string" where
  "getExtension filename =
     (if CHR ''.'' \<notin> set filename then []
      else toLowerCase (CHR ''.'' # rev (takeWhile (\<lambda>c. c \<noteq> CHR ''.'') (rev filename))))"

definition validateFileType :: "string \<Rightarrow> unit res" where
  "validateFileType filename =
     (if getExtension filename \<noteq> ''.xml'' then throw ''Unsupported file type'' 400 ''UNSUPPORTED_FILE'' else ok ())"

section \<open>store.ts\<close>

definition sql_int :: "int option \<Rightarrow> sqlval" where
  "sql_int v = (case v of None \<Rightarrow> SNull | Some x \<Rightarrow> SInt x)"

definition sql_num :: "rat option \<Rightarrow> sqlval" where
  "sql_num v = (case v of None \<Rightarrow> SNull | Some x \<Rightarrow> SNum (Fin x))"

definition assertVaultWriteConfirmed :: "bool \<Rightarrow> unit res" where
  "assertVaultWriteConfirmed confirmed =
     (if \<not> confirmed then throw ''PII vault write required before deterministic persistence'' 400 ''PII_VAULT_REQUIRED''
      else ok ())"

definition ensureChunkTables :: "(string \<Rightarrow> bool) \<Rightarrow> unit io" where
  "ensureChunkTables has_table =
     guard_tx (lift
       (if \<not> has_table ''app.chunks'' then throw ''chunks table missing'' 500 ''SCHEMA_MISSING''
        else if \<not> has_table ''app.embeddings'' then throw ''embeddings table missing'' 500 ''SCHEMA_MISSING''
        else ok ()))"

definition storeDocument ::
  "(nat \<Rightarrow> string) \<Rightarrow> RequestContext \<Rightarrow> string \<Rightarrow> string \<Rightarrow> string \<Rightarrow> string \<Rightarrow> string io" where
  "storeDocument uuid ctx filename mimeType sha256Hash storagePath =
     bind (draw_uuid uuid) (\<lambda>docId.
     bind (db_insert ''app.documents''
             [''doc_id'', ''tenant_id'', ''filename'', ''mime_type'', ''sha256'', ''storage_path'', ''created_by''] 7
             [SText docId, sql_text (cx_tenantId ctx), SText filename, SText mimeType, SBytes sha256Hash,
              SText storagePath, sql_text (cx_userId ctx)] None) (\<lambda>_.
       ret docId))"

definition storeRepairOrder :: "RequestContext \<Rightarrow> string \<Rightarrow> string \<Rightarrow> string \<Rightarrow> string \<Rightarrow> bool \<Rightarrow> string io" where
  "storeRepairOrder ctx docId roNumber customerUuid roId confirmed =
     bind (lift (assertVaultWriteConfirmed confirmed)) (\<lambda>_.
     bind (db_insert ''app.repair_orders'' [''ro_id'', ''tenant_id'', ''doc_id'', ''ro_number'', ''customer_uuid''] 5
             [SText roId, sql_text (cx_tenantId ctx), SText docId, SText roNumber, SText customerUuid] None) (\<lambda>_.
       ret roId))"

definition check_redacted :: "string option \<Rightarrow> unit res" where
  "check_redacted v = (if truthy v then assertNoRawPii (the v) else ok ())"

definition insert_labor ::
  "(nat \<Rightarrow> string) \<Rightarrow> RequestContext \<Rightarrow> string \<Rightarrow> LineItemSemanticRedactions \<Rightarrow> LaborLine \<Rightarrow> unit io" where
  "insert_labor uuid ctx roId red l =
     (let r = old_labor red (l_laborIndex l)
      in bind (lift (check_redacted (lr_opDescription r))) (\<lambda>_.
         bind (lift (check_redacted (lr_technicianNotes r))) (\<lambda>_.
         bind (draw_uuid uuid) (\<lambda>laborId.
           db_insert ''app.ro_labor_lines''
             [''labor_id'', ''tenant_id'', ''ro_id'', ''labor_index'', ''labor_line_number'', ''op_code'', ''labor_type'', ''skill_level'',
              ''flat_rate_hours'', ''actual_hours'', ''labor_rate'', ''labor_extended_amount'', ''technician_id'', ''technician_code'',
              ''op_description'', ''technician_notes''] 16
             [SText laborId, sql_text (cx_tenantId ctx), SText roId, SInt (l_laborIndex l), sql_int (l_laborLineNumber l),
              sql_text (l_opCode l), sql_text (l_laborType l), sql_text (l_skillLevel l), sql_num (l_flatRateHours l),
              sql_num (l_actualHours l), sql_num (l_laborRate l), sql_num (l_laborExtendedAmount l),
              sql_text (l_technicianId l), sql_text (l_technicianId l), sql_text (lr_opDescription r),
              sql_text (lr_technicianNotes r)] None))))"

definition insert_part ::
  "(nat \<Rightarrow> string) \<Rightarrow> RequestContext \<Rightarrow> string \<Rightarrow> LineItemSemanticRedactions \<Rightarrow> PartLine \<Rightarrow> unit io" where
  "insert_part uuid ctx roId red p =
     (let r = map_of (red_parts red) (p_laborIndex p, p_partIndex p)
      in bind (lift (check_redacted r)) (\<lambda>_.
         bind (draw_uuid uuid) (\<lambda>partId.
           db_insert ''app.ro_parts_lines''
             [''part_line_id'', ''tenant_id'', ''ro_id'', ''labor_index'', ''part_index'', ''part_line_number'', ''part_number'',
              ''quantity'', ''unit_price'', ''line_total'', ''part_source'', ''backorder_flag'', ''part_description''] 13
             [SText partId, sql_text (cx_tenantId ctx), SText roId, SInt (p_laborIndex p), SInt (p_partIndex p),
              sql_int (p_partLineNumber p), sql_text (p_partNumber p), sql_num (p_partQuantity p), sql_num (p_partUnitPrice p),
              sql_num (p_partExtendedPrice p), sql_text (p_partSource p), sql_text (p_backorderFlag p), sql_text r] None)))"

text \<open>The INSERT into \<open>ro_deterministic_v2\<close>: its column list, its 62 placeholders and its parameters.\<close>

definition det_columns :: "string list" where
  "det_columns =
      [''ro_id'', ''tenant_id'', ''customer_uuid'', ''ro_number'', ''ro_status'',
       ''open_timestamp'', ''close_timestamp'', ''writeup_timestamp'', ''promised_timestamp'', ''advisor_id'',
       ''service_lane'', ''department_code'', ''waiter_flag'', ''loaner_flag'', ''warranty_flag'',
       ''fleet_flag'', ''internal_ro_flag'', ''customer_type'', ''preferred_contact_method'', ''marketing_opt_in'',
       ''vehicle_year'', ''vehicle_make'', ''vehicle_model'', ''vehicle_trim'', ''vehicle_engine'',
       ''vehicle_transmission'', ''vehicle_drivetrain'', ''odometer_in'', ''odometer_out'', ''vehicle_color'',
       ''vehicle_production_date'', ''labor_line_number'', ''op_code'', ''labor_type'', ''skill_level'',
       ''flat_rate_hours'', ''actual_hours'', ''labor_rate'', ''labor_extended_amount'', ''technician_id'',
       ''part_line_number'', ''part_number'', ''part_quantity'', ''part_unit_price'', ''part_extended_price'',
       ''part_source'', ''backorder_flag'', ''labor_total'', ''parts_total'', ''shop_fees'',
       ''environmental_fees'', ''discount_total'', ''tax_total'', ''grand_total'', ''payment_method'',
       ''invoice_number'', ''created_by_system'', ''ingest_timestamp'', ''tenant_id_source'', ''source_system'']"

definition det_placeholders :: nat where "det_placeholders = 62"

definition det_params :: "RequestContext \<Rightarrow> string \<Rightarrow> string \<Rightarrow> DeterministicPayload \<Rightarrow> sqlval list" where
  "det_params ctx roId customerUuid p =
      [SText roId, sql_text (cx_tenantId ctx), SText customerUuid,
       sql_text (d_roNumber p), sql_text (d_roStatus p), sql_text (d_openTimestamp p),
       sql_text (d_closeTimestamp p), sql_text (d_writeupTimestamp p), sql_text (d_promisedTimestamp p),
       sql_text (d_advisorId p), sql_text (d_serviceLane p), sql_text (d_departmentCode p),
       sql_text (d_waiterFlag p), sql_text (d_loanerFlag p), sql_text (d_warrantyFlag p),
       sql_text (d_fleetFlag p), sql_text (d_internalRoFlag p), sql_text (d_customerType p),
       sql_text (d_preferredContactMethod p), sql_text (d_marketingOptIn p), sql_int (d_vehicleYear p),
       sql_text (d_vehicleMake p), sql_text (d_vehicleModel p), sql_text (d_vehicleTrim p),
       sql_text (d_vehicleEngine p), sql_text (d_vehicleTransmission p), sql_text (d_vehicleDrivetrain p),
       sql_int (d_odometerIn p), sql_int (d_odometerOut p), sql_text (d_vehicleColor p),
       sql_text (d_vehicleProductionDate p)] @
      replicate 15 SNull @
      [sql_num (d_laborTotal p), sql_num (d_partsTotal p), sql_num (d_shopFees p),
       sql_num (d_environmentalFees p), sql_num (d_discountTotal p), sql_num (d_taxTotal p),
       sql_num (d_grandTotal p), sql_text (d_paymentMethod p), sql_text (d_invoiceNumber p),
       sql_text (d_createdBySystem p), sql_text (d_ingestTimestamp p), sql_text (d_tenantId p),
       sql_text (d_sourceSystem p)]"

definition insert_deterministic :: "RequestContext \<Rightarrow> string \<Rightarrow> string \<Rightarrow> DeterministicPayload \<Rightarrow> unit io" where
  "insert_deterministic ctx roId customerUuid p =
     db_insert ''app.ro_deterministic_v2'' det_columns det_placeholders (det_params ctx roId customerUuid p) (Some [''ro_id''])"

definition of_ro :: "RequestContext \<Rightarrow> string \<Rightarrow> row \<Rightarrow> bool" where
  "of_ro ctx roId r \<longleftrightarrow>
     cx_tenantId ctx \<noteq> None \<and> col r ''tenant_id'' = sql_text (cx_tenantId ctx) \<and> col r ''ro_id'' = SText roId"

definition storeRepairOrderDetails ::
  "(nat \<Rightarrow> string) \<Rightarrow> RequestContext \<Rightarrow> string \<Rightarrow> DeterministicPayload \<Rightarrow> string \<Rightarrow> bool \<Rightarrow>
   LineItemSemanticRedactions \<Rightarrow> unit io" where
  "storeRepairOrderDetails uuid ctx roId payload customerUuid confirmed red =
     bind (lift (assertVaultWriteConfirmed confirmed)) (\<lambda>_.
     bind (db_update ''app.repair_orders'' (of_ro ctx roId)
             (set_cols [(''ro_status'', sql_text (d_roStatus payload)), (''open_timestamp'', sql_text (d_openTimestamp payload)),
                        (''close_timestamp'', sql_text (d_closeTimestamp payload))])) (\<lambda>_.
     bind (db_delete ''app.ro_labor_lines'' (of_ro ctx roId)) (\<lambda>_.
     bind (db_delete ''app.ro_parts_lines'' (of_ro ctx roId)) (\<lambda>_.
     bind (io_each (insert_labor uuid ctx roId red) (d_laborLines payload)) (\<lambda>_.
     bind (io_each (insert_part uuid ctx roId red) (d_partLines payload)) (\<lambda>_.
       insert_deterministic ctx roId customerUuid payload))))))"

definition insert_chunk ::
  "(nat \<Rightarrow> string) \<Rightarrow> RequestContext \<Rightarrow> string \<Rightarrow> EmbeddedChunk list \<Rightarrow> Chunk \<Rightarrow> unit io" where
  "insert_chunk uuid ctx roId embeddings c =
     bind (draw_uuid uuid) (\<lambda>chunkId.
     bind (db_insert ''app.chunks'' [''chunk_id'', ''tenant_id'', ''ro_id'', ''chunk_text'', ''chunk_index''] 5
             [SText chunkId, sql_text (cx_tenantId ctx), SText roId, SText (c_text c), SInt (int (c_index c))] None) (\<lambda>_.
       case find (\<lambda>e. ec_chunkId e = c_id c) embeddings of
         None \<Rightarrow> ret ()
       | Some e \<Rightarrow>
           bind (draw_uuid uuid) (\<lambda>embeddingId.
             db_insert ''app.embeddings'' [''embedding_id'', ''tenant_id'', ''chunk_id'', ''embedding''] 4
               [SText embeddingId, sql_text (cx_tenantId ctx), SText chunkId,
                SText (''['' @ js_join '','' (map num_to_string (ec_embedding e)) @ '']'')] None)))"

definition storeChunksAndEmbeddings ::
  "(nat \<Rightarrow> string) \<Rightarrow> RequestContext \<Rightarrow> string \<Rightarrow> Chunk list \<Rightarrow> EmbeddedChunk list \<Rightarrow> unit io" where
  "storeChunksAndEmbeddings uuid ctx roId chunks embeddings = io_each (insert_chunk uuid ctx roId embeddings) chunks"

end
