(* ===== verification/Pipeline.thy ===== *)
theory Pipeline
  imports Store
begin

text \<open>
  services/ingest/ingestPipeline.ts and routes/ingestFromStorage.ts: one repair order from its XML to
  the vault, the deterministic tables, the chunks and the embeddings, in one transaction; and the
  request handler around it.

  The services the pipeline relies on (UUIDs, SHA-256, HMAC, AES-GCM, the embedding endpoint, the
  audit table, the catalog of tables, the process environment) are the fields of \<open>Deps\<close>. The file
  is the text its bytes decode to.
\<close>

section \<open>JSON of the deterministic payload\<close>

definition hex_digit :: "nat \<Rightarrow> char" where
  "hex_digit n = (if n < 10 then char_of (48 + n) else char_of (87 + n))"

definition json_char :: "char \<Rightarrow> string" where
  "json_char c =
     (let n = code c
      in if n = 34 then [CHR 0x5C, CHR 0x22] else if n = 92 then [CHR 0x5C, CHR 0x5C]
         else if n = 8 then CHR 0x5C # ''b'' else if n = 9 then CHR 0x5C # ''t'' else if n = 10 then CHR 0x5C # ''n''
         else if n = 12 then CHR 0x5C # ''f'' else if n = 13 then CHR 0x5C # ''r''
         else if n < 32 then CHR 0x5C # ''u00'' @ [hex_digit (n div 16), hex_digit (n mod 16)]
         else [c])"

definition json_string :: "string \<Rightarrow> string" where
  "json_string s = CHR 0x22 # concat (map json_char s) @ [CHR 0x22]"

definition json_num :: "rat \<Rightarrow> string" where "json_num q = num_to_string (Fin q)"
definition json_int :: "int \<Rightarrow> string" where "json_int i = num_to_string (Fin (of_int i))"

definition json_prop :: "(string \<times> string option) list \<Rightarrow> string \<Rightarrow> string list" where
  "json_prop props k =
     (case map_of props k of Some (Some v) \<Rightarrow> [json_string k @ '':'' @ v] | _ \<Rightarrow> [])"

text \<open>The properties in the order \<open>keys\<close> of their creation.\<close>

definition json_object :: "string list \<Rightarrow> (string \<times> string option) list \<Rightarrow> string" where
  "json_object keys props = ''{'' @ js_join '','' (concat (map (json_prop props) keys)) @ ''}''"

definition json_array :: "string list \<Rightarrow> string" where
  "json_array xs = ''['' @ js_join '','' xs @ '']''"

definition labor_json :: "LaborLine \<Rightarrow> string" where
  "labor_json l = json_object (l_keys l)
     [(''laborIndex'', Some (json_int (l_laborIndex l))),
      (''laborLineNumber'', map_option json_int (l_laborLineNumber l)),
      (''opCode'', map_option json_string (l_opCode l)),
      (''laborType'', map_option json_string (l_laborType l)),
      (''skillLevel'', map_option json_string (l_skillLevel l)),
      (''flatRateHours'', map_option json_num (l_flatRateHours l)),
      (''actualHours'', map_option json_num (l_actualHours l)),
      (''laborRate'', map_option json_num (l_laborRate l)),
      (''laborExtendedAmount'', map_option json_num (l_laborExtendedAmount l)),
      (''technicianId'', map_option json_string (l_technicianId l))]"

definition part_json :: "PartLine \<Rightarrow> string" where
  "part_json p = json_object (p_keys p)
     [(''laborIndex'', Some (json_int (p_laborIndex p))),
      (''partIndex'', Some (json_int (p_partIndex p))),
      (''partLineNumber'', map_option json_int (p_partLineNumber p)),
      (''partNumber'', map_option json_string (p_partNumber p)),
      (''partQuantity'', map_option json_num (p_partQuantity p)),
      (''partUnitPrice'', map_option json_num (p_partUnitPrice p)),
      (''partExtendedPrice'', map_option json_num (p_partExtendedPrice p)),
      (''partSource'', map_option json_string (p_partSource p)),
      (''backorderFlag'', map_option json_string (p_backorderFlag p))]"

definition det_json :: "DeterministicPayload \<Rightarrow> string" where
  "det_json p = json_object (d_keys p)
     [(''laborLines'', Some (json_array (map labor_json (d_laborLines p)))),
      (''partLines'', Some (json_array (map part_json (d_partLines p)))),
      (''roNumber'', map_option json_string (d_roNumber p)),
      (''roStatus'', map_option json_string (d_roStatus p)),
      (''openTimestamp'', map_option json_string (d_openTimestamp p)),
      (''closeTimestamp'', map_option json_string (d_closeTimestamp p)),
      (''writeupTimestamp'', map_option json_string (d_writeupTimestamp p)),
      (''promisedTimestamp'', map_option json_string (d_promisedTimestamp p)),
      (''advisorId'', map_option json_string (d_advisorId p)),
      (''serviceLane'', map_option json_string (d_serviceLane p)),
      (''departmentCode'', map_option json_string (d_departmentCode p)),
      (''waiterFlag'', map_option json_string (d_waiterFlag p)),
      (''loanerFlag'', map_option json_string (d_loanerFlag p)),
      (''warrantyFlag'', map_option json_string (d_warrantyFlag p)),
      (''fleetFlag'', map_option json_string (d_fleetFlag p)),
      (''internalRoFlag'', map_option json_string (d_internalRoFlag p)),
      (''customerType'', map_option json_string (d_customerType p)),
      (''preferredContactMethod'', map_option json_string (d_preferredContactMethod p)),
      (''marketingOptIn'', map_option json_string (d_marketingOptIn p)),
      (''vehicleYear'', map_option json_int (d_vehicleYear p)),
      (''vehicleMake'', map_option json_string (d_vehicleMake p)),
      (''vehicleModel'', map_option json_string (d_vehicleModel p)),
      (''vehicleTrim'', map_option json_string (d_vehicleTrim p)),
      (''vehicleEngine'', map_option json_string (d_vehicleEngine p)),
      (''vehicleTransmission'', map_option json_string (d_vehicleTransmission p)),
      (''vehicleDrivetrain'', map_option json_string (d_vehicleDrivetrain p)),
      (''odometerIn'', map_option json_int (d_odometerIn p)),
      (''odometerOut'', map_option json_int (d_odometerOut p)),
      (''vehicleColor'', map_option json_string (d_vehicleColor p)),
      (''vehicleProductionDate'', map_option json_string (d_vehicleProductionDate p)),
      (''laborTotal'', map_option json_num (d_laborTotal p)),
      (''partsTotal'', map_option json_num (d_partsTotal p)),
      (''shopFees'', map_option json_num (d_shopFees p)),
      (''environmentalFees'', map_option json_num (d_environmentalFees p)),
      (''discountTotal'', map_option json_num (d_discountTotal p)),
      (''taxTotal'', map_option json_num (d_taxTotal p)),
      (''grandTotal'', map_option json_num (d_grandTotal p)),
      (''paymentMethod'', map_option json_string (d_paymentMethod p)),
      (''invoiceNumber'', map_option json_string (d_invoiceNumber p)),
      (''createdBySystem'', map_option json_string (d_createdBySystem p)),
      (''ingestTimestamp'', map_option json_string (d_ingestTimestamp p)),
      (''tenantId'', map_option json_string (d_tenantId p)),
      (''sourceSystem'', map_option json_string (d_sourceSystem p))]"

section \<open>Leak checks\<close>

definition flattenPiiValues :: "PiiPayload option \<Rightarrow> string list" where
  "flattenPiiValues pii =
     (case pii of None \<Rightarrow> []
      | Some p \<Rightarrow>
          filter (\<lambda>v. v \<noteq> [])
            (opt_list (pp_customerName p) @ list_or_empty (pp_emails p) @ list_or_empty (pp_phones p) @
             list_or_empty (pp_vins p) @ list_or_empty (pp_licensePlates p) @ list_or_empty (pp_paymentMethods p) @
             (case pp_address p of None \<Rightarrow> []
              | Some a \<Rightarrow> opt_list (a_line1 a) @ opt_list (a_line2 a) @ opt_list (a_city a) @ opt_list (a_state a) @ opt_list (a_zip a))))"

definition leaks :: "string \<Rightarrow> PiiPayload option \<Rightarrow> bool" where
  "leaks haystack pii \<longleftrightarrow> list_ex (\<lambda>v. js_includes haystack (toLowerCase v)) (flattenPiiValues pii)"

definition assertSemanticRedaction :: "PiiPayload option \<Rightarrow> string \<Rightarrow> unit res" where
  "assertSemanticRedaction pii redactedText =
     (if leaks (toLowerCase redactedText) pii
      then throw ''PII detected in semantic payload after redaction'' 400 ''PII_SEMANTIC_LEAK'' else ok ())"

definition assertNoPiiInDeterministic :: "PiiPayload option \<Rightarrow> DeterministicPayload \<Rightarrow> unit res" where
  "assertNoPiiInDeterministic pii payload =
     (if pii = None then ok ()
      else if leaks (toLowerCase (det_json payload)) pii
      then throw ''PII detected in deterministic payload'' 400 ''PII_DETERMINISTIC_LEAK'' else ok ())"

definition assertNoCustomerUuidInSemantic :: "string \<Rightarrow> string \<Rightarrow> unit res" where
  "assertNoCustomerUuidInSemantic semanticText customerUuid =
     (if js_includes (toLowerCase semanticText) (toLowerCase customerUuid)
      then throw ''customer_uuid leaked into semantic payload'' 400 ''CUSTOMER_UUID_SEMANTIC_LEAK'' else ok ())"

section \<open>The pipeline\<close>

record Deps =
  dp_uuid :: "nat \<Rightarrow> string"
  dp_sha256 :: "string \<Rightarrow> string"
  dp_hmac :: "string \<Rightarrow> string \<Rightarrow> string"
  dp_seal :: "string \<Rightarrow> string \<Rightarrow> string \<Rightarrow> string \<times> string"
  dp_nonce :: string
  dp_json :: "PiiPayload \<Rightarrow> string"
  dp_ring :: "KeyRing res"
  dp_embed :: "string \<Rightarrow> nat \<Rightarrow> EmbedReply"
  dp_accepts :: "AuditRow \<Rightarrow> bool"
  dp_has_table :: "string \<Rightarrow> bool"
  dp_env :: env

record IngestInput =
  in_filename :: string
  in_file :: string
  in_mimeType :: "string option"
  in_roNumber :: "string option"

definition extractText :: "string \<Rightarrow> string" where "extractText file = file"

definition event :: "string \<Rightarrow> string \<Rightarrow> string option \<Rightarrow> (string \<times> jsv) list \<Rightarrow> AuditEvent" where
  "event action otype oid md = \<lparr>ev_action = action, ev_objectType = otype, ev_objectId = oid, ev_metadata = Some md\<rparr>"

text \<open>Everything up to the first write: parsing, routing, validation, the customer's identity and the
  checks. The result is the routed payloads, the identity and the number.\<close>

definition prepare ::
  "Deps \<Rightarrow> RequestContext \<Rightarrow> IngestInput \<Rightarrow> (RoutedPayloads \<times> PiiPayload \<times> CustomerIdentity \<times> string) io" where
  "prepare d ctx input =
     bind (lift (routeXmlToPayloads (extractText (in_file input)))) (\<lambda>routed.
     bind (lift (assertNoPiiInSemantic (rp_sem routed))) (\<lambda>_.
     bind (isTenantPiiEnabled ctx) (\<lambda>piiEnabled.
     bind (lift (validateRoutedPayloads (rp_det routed) (rp_pii routed) (rp_sem routed) piiEnabled)) (\<lambda>_.
     bind (resolveCustomerIdentity (dp_uuid d) (dp_hmac d) (dp_env d) ctx (rp_pii routed)) (\<lambda>ident.
     bind (lift (assertNoPiiInDeterministic (rp_pii routed) (rp_det routed))) (\<lambda>_.
       if ci_customerUuid ident = [] then io_throw ''customer_uuid missing'' 400 ''CUSTOMER_IDENTITY_MISSING''
       else if truthy (in_roNumber input) \<and> truthy (d_roNumber (rp_det routed)) \<and> d_roNumber (rp_det routed) \<noteq> in_roNumber input
       then io_throw ''RO number mismatch between payload and request'' 400 ''RO_NUMBER_MISMATCH''
       else
         let roNumber = (case in_roNumber input of Some n \<Rightarrow> Some n | None \<Rightarrow> d_roNumber (rp_det routed))
         in if \<not> truthy roNumber then io_throw ''RO number missing'' 400 ''RO_NUMBER_MISSING''
            else if \<not> piiEnabled then io_throw ''PII vaulting must be enabled for ingest'' 400 ''PII_DISABLED''
            else (case rp_pii routed of
                None \<Rightarrow> io_throw ''PII payload missing'' 400 ''PII_MISSING''
              | Some pii \<Rightarrow> ret (routed, pii, ident, the roNumber))))))))"

text \<open>The vault write with its audit entries.\<close>

definition vault_write :: "Deps \<Rightarrow> RequestContext \<Rightarrow> IngestInput \<Rightarrow> PiiPayload \<Rightarrow> CustomerIdentity \<Rightarrow> string \<Rightarrow> unit io" where
  "vault_write d ctx input pii ident roId =
     bind (lift (res_bind (dp_ring d) (\<lambda>ring. encryptPiiPayload (dp_seal d) (dp_json d) ring (dp_nonce d) pii))) (\<lambda>sealed.
     bind (writePiiVaultRecord ctx roId (ci_customerUuid ident) sealed (ci_parts ident)) (\<lambda>_.
     bind (auditLog (dp_uuid d) (dp_accepts d) ctx (event ''PII_WRITE'' ''pii_vault'' (Some roId) [(''fields'', VOther)])) (\<lambda>_.
       auditLog (dp_uuid d) (dp_accepts d) ctx
         (event ''UPLOAD_DOC'' ''document'' (Some (slice (dp_sha256 d (in_file input)) 0 12)) [(''filename'', VStr (in_filename input))]))))"

text \<open>The deterministic tables.\<close>

definition store_rows ::
  "Deps \<Rightarrow> RequestContext \<Rightarrow> IngestInput \<Rightarrow> RoutedPayloads \<Rightarrow> CustomerIdentity \<Rightarrow> string \<Rightarrow> string \<Rightarrow> unit io" where
  "store_rows d ctx input routed ident roId roNumber =
     (let digest = dp_sha256 d (in_file input)
      in bind (ensureChunkTables (dp_has_table d)) (\<lambda>_.
         bind (storeDocument (dp_uuid d) ctx (in_filename input)
                 (case in_mimeType input of Some m \<Rightarrow> m | None \<Rightarrow> ''application/octet-stream'') digest
                 (''ingest/'' @ str_or_empty (cx_tenantId ctx) @ ''/'' @ digest)) (\<lambda>docId.
         bind (storeRepairOrder ctx docId roNumber (ci_customerUuid ident) roId True) (\<lambda>_.
         bind (lift (buildLineItemSemanticRedactions (rp_sem routed))) (\<lambda>red.
           storeRepairOrderDetails (dp_uuid d) ctx roId (rp_det routed) (ci_customerUuid ident) True red)))))"

text \<open>Redaction, chunks and embeddings.\<close>

definition store_semantics :: "Deps \<Rightarrow> RequestContext \<Rightarrow> RoutedPayloads \<Rightarrow> CustomerIdentity \<Rightarrow> string \<Rightarrow> unit io" where
  "store_semantics d ctx routed ident roId =
     (let redactedText = redactSemanticText (stripXmlTags (buildSemanticXml (rp_sem routed)))
      in bind (lift (assertSemanticRedaction (rp_pii routed) redactedText)) (\<lambda>_.
         bind (lift (assertNoRawPii redactedText)) (\<lambda>_.
         bind (lift (assertNoCustomerUuidInSemantic redactedText (ci_customerUuid ident))) (\<lambda>_.
           let chunks = chunkText redactedText
           in bind (lift (embedChunks (dp_embed d) chunks)) (\<lambda>embeddings.
              bind (storeChunksAndEmbeddings (dp_uuid d) ctx roId chunks embeddings) (\<lambda>_.
                auditLog (dp_uuid d) (dp_accepts d) ctx
                  (event ''INGEST_COMPLETE'' ''repair_order'' (Some roId)
                     [(''chunks'', VNum (Fin (of_nat (length chunks))))])))))))"

definition pipeline_body :: "Deps \<Rightarrow> RequestContext \<Rightarrow> IngestInput \<Rightarrow> unit io" where
  "pipeline_body d ctx input =
     bind (prepare d ctx input) (\<lambda>(routed, pii, ident, roNumber).
     bind (draw_uuid (dp_uuid d)) (\<lambda>roId.
     bind (vault_write d ctx input pii ident roId) (\<lambda>_.
     bind (store_rows d ctx input routed ident roId roNumber) (\<lambda>_.
       store_semantics d ctx routed ident roId))))"

definition runIngestPipeline :: "Deps \<Rightarrow> RequestContext \<Rightarrow> IngestInput \<Rightarrow> unit io" where
  "runIngestPipeline d ctx input = runWithTransaction ctx (pipeline_body d ctx input)"

section \<open>routes/ingestFromStorage.ts\<close>

text \<open>What \<open>new URL\<close>, \<open>stat\<close> and \<open>readFile\<close> say about a storage URI.\<close>

datatype UriStatus =
    BadUrl
  | OtherProtocol
  | StatFails
  | NotAFile
  | FileAt nat string "string option"   \<comment> \<open>size, base name, contents unless the read fails\<close>

definition readFileFromStorageUri :: "(string \<Rightarrow> UriStatus) \<Rightarrow> nat \<Rightarrow> string \<Rightarrow> (string \<times> string) res" where
  "readFileFromStorageUri fs maxUpload uri =
     (case fs uri of
        BadUrl \<Rightarrow> throw ''Invalid storage_uri'' 400 ''BAD_STORAGE_URI''
      | OtherProtocol \<Rightarrow> throw ''Unsupported storage_uri protocol'' 400 ''BAD_STORAGE_URI''
      | StatFails \<Rightarrow> Inl (Js ''stat'')
      | NotAFile \<Rightarrow> throw ''Storage reference is not a file'' 400 ''BAD_STORAGE_URI''
      | FileAt sz name contents \<Rightarrow>
          if sz > maxUpload then throw ''Upload too large'' 413 ''FILE_TOO_LARGE''
          else (case contents of None \<Rightarrow> Inl (Js ''read'') | Some c \<Rightarrow> ok (c, name)))"

record Response =
  rs_status :: nat
  rs_error :: "string option"
  rs_message :: "string option"
  rs_detail :: "err option"   \<comment> \<open>the error whose message is sent outside of production\<close>

definition err_response :: "nat \<Rightarrow> string option \<Rightarrow> string \<Rightarrow> Response" where
  "err_response st c msg = \<lparr>rs_status = st, rs_error = c, rs_message = Some msg, rs_detail = None\<rparr>"

text \<open>\<open>err instanceof AppError ? err : new AppError(msg, { status })\<close>\<close>

definition as_app :: "err \<Rightarrow> string \<Rightarrow> nat \<Rightarrow> AppError" where
  "as_app e msg st = (case e of App a \<Rightarrow> a | _ \<Rightarrow> \<lparr>ae_message = msg, ae_status = Some st, ae_code = None\<rparr>)"

definition app_response :: "AppError \<Rightarrow> nat \<Rightarrow> Response" where
  "app_response a dflt = err_response (case ae_status a of Some s \<Rightarrow> s | None \<Rightarrow> dflt) (ae_code a) (ae_message a)"

record IngestBody =
  ib_tenant_id :: "string option"
  ib_storage_uri :: "string option"

text \<open>The mapping of a failed pipeline run to status, code and message.\<close>

definition ingest_status :: "err \<Rightarrow> nat" where
  "ingest_status e =
     (if err_code e = Some ''EMBED_FAIL'' then 503
      else (case e of App a \<Rightarrow> (case ae_status a of Some s \<Rightarrow> if s \<noteq> 0 then s else 500 | None \<Rightarrow> 500) | _ \<Rightarrow> 500))"

definition ingest_code :: "err \<Rightarrow> string" where
  "ingest_code e = (if truthy (err_code e) then the (err_code e) else ''INGEST_ERROR'')"

definition ingest_message :: "err \<Rightarrow> string" where
  "ingest_message e =
     (if err_code e = Some ''EMBED_FAIL'' then ''Embedding unavailable''
      else (case e of App a \<Rightarrow> ae_message a | _ \<Rightarrow> ''Ingestion failed''))"

definition ingest_stage :: "err \<Rightarrow> string" where
  "ingest_stage e =
     (if err_code e = Some ''EMBED_FAIL'' then ''embed''
      else if err_code e = Some ''PII_DETECTED'' then ''pii_detected'' else ''unknown'')"

definition ingest_failed :: "Deps \<Rightarrow> RequestContext \<Rightarrow> string \<Rightarrow> string \<Rightarrow> unit io" where
  "ingest_failed d ctx reason stage =
     auditLog (dp_uuid d) (dp_accepts d) ctx
       (event ''INGEST_FAILED'' ''repair_order'' (cx_requestId ctx) [(''reason'', VStr reason), (''stage'', VStr stage)])"

definition ingestFromStorageHandler ::
  "Deps \<Rightarrow> (string \<Rightarrow> UriStatus) \<Rightarrow> nat \<Rightarrow> bool \<Rightarrow> RequestContext \<Rightarrow> IngestBody \<Rightarrow> Response io" where
  "ingestFromStorageHandler d fs maxUpload production ctx body =
     (if \<not> hasRlsContext ctx then ret (err_response 400 (Some ''CTX_MISSING'') ''Missing request context'')
      else if cx_role ctx \<notin> {Some ADMIN, Some DEALERADMIN, Some DEVELOPER}
      then ret (err_response 403 (Some ''ADMIN_ONLY'') ''Admin role required'')
      else if \<not> truthy (ib_tenant_id body) \<or> \<not> truthy (ib_storage_uri body)
      then ret (err_response 400 (Some ''BAD_REQUEST'') ''tenant_id and storage_uri are required'')
      else if ib_tenant_id body \<noteq> cx_tenantId ctx
      then ret (err_response 403 (Some ''TENANT_MISMATCH'') ''tenant_id mismatch'')
      else (case readFileFromStorageUri fs maxUpload (the (ib_storage_uri body)) of
          Inl e \<Rightarrow>
            (let a = as_app e ''Failed to read storage URI'' 400
             in bind (if ae_code a = Some ''FILE_TOO_LARGE'' then ingest_failed d ctx ''file_too_large'' ''validate'' else ret ()) (\<lambda>_.
                  ret (app_response a 400)))
        | Inr (contents, filename) \<Rightarrow>
            (case validateFileType filename of
               Inl e \<Rightarrow> bind (ingest_failed d ctx ''invalid_file_type'' ''validate'') (\<lambda>_.
                          ret (app_response (as_app e ''Invalid file type'' 400) 400))
             | Inr _ \<Rightarrow>
                 (\<lambda>w. case runIngestPipeline d ctx
                          \<lparr>in_filename = filename, in_file = contents, in_mimeType = Some ''application/xml'', in_roNumber = None\<rparr> w of
                     (w', Inr _) \<Rightarrow> (w', Inr \<lparr>rs_status = 201, rs_error = None, rs_message = None, rs_detail = None\<rparr>)
                   | (w', Inl e) \<Rightarrow>
                       bind (ingest_failed d ctx (slice (ingest_message e) 0 120) (ingest_stage e)) (\<lambda>_.
                         ret ((err_response (ingest_status e) (Some (ingest_code e)) (ingest_message e))
                                \<lparr>rs_detail := if production then None else Some e\<rparr>)) w'))))"

end
