(* ===== verification/DbFacts.thy ===== *)
theory DbFacts
  imports Db
begin

text \<open>
  Computations that keep inside of the transaction and the tenant: \<open>contained m\<close> says that \<open>m\<close> does not
  touch the session's settings and snapshot and changes no row that row level security hides from
  the current tenant. All statements are contained and composition preserves it, so a transaction
  is atomic and cannot touch another tenant's rows.
\<close>

section \<open>Composition\<close>

lemma bind_ok: "bind m f w = (w', Inr y) \<longleftrightarrow> (\<exists>w1 x. m w = (w1, Inr x) \<and> f x w1 = (w', Inr y))"
  by (auto simp: bind_def split: prod.splits sum.splits)

lemma lift_simps [simp]: "lift (Inr x) w = (w, Inr x)" "lift (Inl e) w = (w, Inl e)"
  by (simp_all add: lift_def)

lemma bind_lift_ok [simp]: "bind (lift (Inr x)) f = f x"
  by (rule ext) (simp add: bind_def)

lemma fst_bind: "fst (bind m f w) = (case snd (m w) of Inl e \<Rightarrow> fst (m w) | Inr x \<Rightarrow> fst (f x (fst (m w))))"
  by (simp add: bind_def split: prod.split sum.split)

lemma snd_bind: "snd (bind m f w) = (case snd (m w) of Inl e \<Rightarrow> Inl e | Inr x \<Rightarrow> snd (f x (fst (m w))))"
  by (simp add: bind_def split: prod.split sum.split)

text \<open>A property of steps that doing nothing has and that one step after the other has if both have it: loops of such steps
  have it.\<close>

locale step_property =
  fixes P :: "unit io \<Rightarrow> bool"
  assumes holds_for_nothing: "P (ret ())"
    and holds_in_sequence: "P m \<Longrightarrow> P m' \<Longrightarrow> P (bind m (\<lambda>_. m'))"
begin

lemma holds_for_loops: "(\<And>x. P (f x)) \<Longrightarrow> P (io_each f xs)"
  by (induction xs) (auto intro: holds_for_nothing holds_in_sequence)

end

definition others :: "World \<Rightarrow> string \<Rightarrow> row list" where
  "others w t = filter (\<lambda>r. \<not> row_allowed w t r) (w_tables w t)"

definition contained :: "'a io \<Rightarrow> bool" where
  "contained m \<longleftrightarrow>
     (\<forall>w. w_gucs (fst (m w)) = w_gucs w \<and> w_inTx (fst (m w)) = w_inTx w \<and> w_saved (fst (m w)) = w_saved w \<and>
          (\<forall>t. others (fst (m w)) t = others w t))"

lemma containedI:
  "(\<And>w. w_gucs (fst (m w)) = w_gucs w \<and> w_inTx (fst (m w)) = w_inTx w \<and> w_saved (fst (m w)) = w_saved w \<and>
          (\<forall>t. others (fst (m w)) t = others w t)) \<Longrightarrow> contained m"
  unfolding contained_def by blast

lemma contained_bind [intro]: "contained m \<Longrightarrow> (\<And>x. contained (f x)) \<Longrightarrow> contained (bind m f)"
  unfolding contained_def fst_bind by (simp split: sum.split)

lemma contained_pure [simp, intro]: "contained (ret x)" "contained (raise e)" "contained (lift r)" "contained (io_throw a b c)"
  by (simp_all add: contained_def ret_def raise_def lift_def io_throw_def)

definition allowed_in :: "(string \<times> string) list \<Rightarrow> string \<Rightarrow> row \<Rightarrow> bool" where
  "allowed_in gucs t r \<longleftrightarrow>
     t \<notin> set rls_tables \<or>
     (case map_of gucs ''app.tenant_id'' of None \<Rightarrow> False | Some tid \<Rightarrow> tid \<noteq> [] \<and> col r ''tenant_id'' = SText tid)"

lemma row_allowed_in: "row_allowed w t r = allowed_in (w_gucs w) t r"
  by (auto simp: row_allowed_def allowed_in_def current_tenant_def split: option.split)

lemma others_in: "others w t = filter (\<lambda>r. \<not> allowed_in (w_gucs w) t r) (w_tables w t)"
  by (simp add: others_def row_allowed_in)

lemma contained_draw [simp, intro]: "contained (draw_uuid u)"
  by (rule containedI) (simp add: draw_uuid_def others_in)

lemma contained_guard [intro]: "contained m \<Longrightarrow> contained (guard_tx m)"
  by (simp add: contained_def guard_tx_def)

lemma contained_select [simp, intro]: "contained (db_select t p)"
  by (rule containedI) (simp add: db_select_def guard_tx_def)

lemma noted_simps [simp]:
  "w_tables (noted t w) = w_tables w" "w_gucs (noted t w) = w_gucs w" "w_inTx (noted t w) = w_inTx w"
  "w_saved (noted t w) = w_saved w" "w_trace (noted t w) = w_trace w @ [t]"
  "w_failed (noted t w) = w_failed w" "w_audit (noted t w) = w_audit w"
  by (simp_all add: noted_def)

lemma fail_simps [simp]:
  "w_tables (fst (fail_stmt e w)) = w_tables w" "w_gucs (fst (fail_stmt e w)) = w_gucs w"
  "w_inTx (fst (fail_stmt e w)) = w_inTx w" "w_saved (fst (fail_stmt e w)) = w_saved w"
  "w_trace (fst (fail_stmt e w)) = w_trace w" "snd (fail_stmt e w) = Inl (Pg e)" "w_audit (fst (fail_stmt e w)) = w_audit w"
  by (simp_all add: fail_stmt_def)

lemma filter_map_hidden:
  "(\<And>r. r \<in> set rs \<Longrightarrow> h r \<Longrightarrow> P r \<and> P (g r)) \<Longrightarrow>
     filter (\<lambda>r. \<not> P r) (map (\<lambda>r. if h r then g r else r) rs) = filter (\<lambda>r. \<not> P r) rs"
  by (induction rs) auto

text \<open>A statement either leaves the tables alone or replaces one table by rows that agree on what is
  hidden.\<close>

lemma contained_stmt:
  assumes "\<And>w. w_gucs (fst (m w)) = w_gucs w \<and> w_inTx (fst (m w)) = w_inTx w \<and> w_saved (fst (m w)) = w_saved w \<and>
    (w_tables (fst (m w)) = w_tables w \<or>
     (\<exists>rows. w_tables (fst (m w)) = (w_tables w)(t := rows) \<and>
        filter (\<lambda>r. \<not> allowed_in (w_gucs w) t r) rows = filter (\<lambda>r. \<not> allowed_in (w_gucs w) t r) (w_tables w t)))"
  shows "contained m"
proof (rule containedI)
  fix w :: World
  have "others (fst (m w)) t' = others w t'" for t'
    using assms [of w] by (auto simp: others_in)
  then show "w_gucs (fst (m w)) = w_gucs w \<and> w_inTx (fst (m w)) = w_inTx w \<and> w_saved (fst (m w)) = w_saved w \<and>
      (\<forall>t. others (fst (m w)) t = others w t)"
    using assms [of w] by blast
qed

lemma contained_insert [simp, intro]: "contained (db_insert t cols n params up)"
proof (rule contained_stmt [where t = t])
  fix w :: World
  let ?r = "zip cols params" and ?A = "allowed_in (w_gucs w) t"
  have h: "filter (\<lambda>s. \<not> ?A s) (map (\<lambda>s. if same_key k ?r s then ?r else s) (w_tables w t)) = filter (\<lambda>s. \<not> ?A s) (w_tables w t)"
    if "?A ?r" "\<not> list_ex (\<lambda>s. same_key k ?r s \<and> \<not> ?A s) (w_tables w t)" for k
    using that by (intro filter_map_hidden) (auto simp: list_ex_iff)
  show "w_gucs (fst (db_insert t cols n params up w)) = w_gucs w \<and> w_inTx (fst (db_insert t cols n params up w)) = w_inTx w \<and>
    w_saved (fst (db_insert t cols n params up w)) = w_saved w \<and>
    (w_tables (fst (db_insert t cols n params up w)) = w_tables w \<or>
     (\<exists>rows. w_tables (fst (db_insert t cols n params up w)) = (w_tables w)(t := rows) \<and>
        filter (\<lambda>r. \<not> ?A r) rows = filter (\<lambda>r. \<not> ?A r) (w_tables w t)))"
    by (cases up) (auto simp: db_insert_def guard_tx_def Let_def row_allowed_in h)
qed

lemma contained_update [simp, intro]: "contained (db_update t p f)"
proof (rule contained_stmt [where t = t])
  fix w :: World
  let ?A = "allowed_in (w_gucs w) t"
  have h: "filter (\<lambda>s. \<not> ?A s) (map (\<lambda>r. if ?A r \<and> p r then f r else r) (w_tables w t)) = filter (\<lambda>s. \<not> ?A s) (w_tables w t)"
    if "\<not> list_ex (\<lambda>r. (?A r \<and> p r) \<and> \<not> ?A (f r)) (w_tables w t)"
    using that by (intro filter_map_hidden) (auto simp: list_ex_iff)
  show "w_gucs (fst (db_update t p f w)) = w_gucs w \<and> w_inTx (fst (db_update t p f w)) = w_inTx w \<and>
    w_saved (fst (db_update t p f w)) = w_saved w \<and>
    (w_tables (fst (db_update t p f w)) = w_tables w \<or>
     (\<exists>rows. w_tables (fst (db_update t p f w)) = (w_tables w)(t := rows) \<and>
        filter (\<lambda>r. \<not> ?A r) rows = filter (\<lambda>r. \<not> ?A r) (w_tables w t)))"
    using h by (auto simp: db_update_def guard_tx_def Let_def row_allowed_in)
qed

lemma contained_delete [simp, intro]: "contained (db_delete t p)"
proof (rule contained_stmt [where t = t])
  fix w :: World
  let ?A = "allowed_in (w_gucs w) t"
  have "filter (\<lambda>s. \<not> ?A s) (filter (\<lambda>r. ?A r \<longrightarrow> \<not> p r) (w_tables w t)) = filter (\<lambda>s. \<not> ?A s) (w_tables w t)"
    by (auto intro!: filter_cong)
  then show "w_gucs (fst (db_delete t p w)) = w_gucs w \<and> w_inTx (fst (db_delete t p w)) = w_inTx w \<and>
    w_saved (fst (db_delete t p w)) = w_saved w \<and>
    (w_tables (fst (db_delete t p w)) = w_tables w \<or>
     (\<exists>rows. w_tables (fst (db_delete t p w)) = (w_tables w)(t := rows) \<and>
        filter (\<lambda>r. \<not> ?A r) rows = filter (\<lambda>r. \<not> ?A r) (w_tables w t)))"
    by (auto simp: db_delete_def guard_tx_def Let_def row_allowed_in)
qed

lemma contained_audit [simp, intro]: "contained (auditLog u acc ctx ev)"
  by (rule containedI) (auto simp: auditLog_def Let_def others_in)

interpretation contained_steps: step_property contained
  by unfold_locales auto

lemma contained_each [intro]: "(\<And>x. contained (f x)) \<Longrightarrow> contained (io_each f xs)"
  by (rule contained_steps.holds_for_loops)

lemma contained_map [intro]: "(\<And>x. contained (f x)) \<Longrightarrow> contained (io_map f xs)"
  by (induction xs) auto

lemma contained_if [intro]: "contained a \<Longrightarrow> contained b \<Longrightarrow> contained (if c then a else b)"
  by simp

section \<open>What a statement that succeeds has done\<close>

lemma select_ok: "db_select t p w = (w', Inr rows) \<Longrightarrow> w' = w \<and> rows = filter p (visible w t)"
  by (auto simp: db_select_def guard_tx_def split: if_splits)

lemma insert_result:
  assumes "db_insert t cols n params None w = (w', Inr u)"
  shows "w_tables w' = (w_tables w)(t := w_tables w t @ [zip cols params]) \<and> w_failed w' = w_failed w"
  using assms by (auto simp: db_insert_def guard_tx_def Let_def fail_stmt_def split: if_splits)

lemma update_result:
  assumes "db_update t p f w = (w', Inr n)"
  shows "\<exists>hit. w_tables w' = (w_tables w)(t := map (\<lambda>r. if hit r then f r else r) (w_tables w t)) \<and> w_failed w' = w_failed w"
  using assms by (auto simp: db_update_def guard_tx_def Let_def fail_stmt_def split: if_splits)

lemma delete_result:
  assumes "db_delete t p w = (w', Inr n)"
  shows "w_tables w' = (w_tables w)(t := filter (\<lambda>r. \<not> (allowed_in (w_gucs w) t r \<and> p r)) (w_tables w t)) \<and>
    w_gucs w' = w_gucs w \<and> w_failed w' = w_failed w"
  using assms by (auto simp: db_delete_def guard_tx_def Let_def row_allowed_in split: if_splits)

section \<open>Transactions\<close>

lemma set_config_in_tx:
  "w_inTx w \<Longrightarrow> \<not> w_failed w \<Longrightarrow> set_config k v w = (w\<lparr>w_gucs := (k, v) # w_gucs w\<rparr>, Inr ())"
  by (simp add: set_config_def guard_tx_def)

lemma set_config_no_tx: "\<not> w_inTx w \<Longrightarrow> \<not> w_failed w \<Longrightarrow> set_config k v w = (w, Inr ())"
  by (simp add: set_config_def guard_tx_def)

text \<open>The world in which the body of a transaction of the given context starts.\<close>

definition tx_world :: "RequestContext \<Rightarrow> World \<Rightarrow> World" where
  "tx_world ctx w =
     w\<lparr>w_inTx := True, w_failed := False, w_saved := w_tables w,
       w_gucs := [(''app.tenant_id'', js_trim (str_or_empty (cx_tenantId ctx))),
                  (''app.role'', case cx_role ctx of None \<Rightarrow> [] | Some r \<Rightarrow> role_name r),
                  (''app.user_id'', str_or_empty (cx_userId ctx)),
                  (''app.request_id'', str_or_empty (cx_requestId ctx))] @ w_gucs w\<rparr>"

definition tenant_ok :: "RequestContext \<Rightarrow> bool" where
  "tenant_ok ctx \<longleftrightarrow> (let t = js_trim (str_or_empty (cx_tenantId ctx)) in t = [] \<or> isUuid t)"

lemma setRlsContext_tx:
  assumes "w_inTx w" "\<not> w_failed w"
  shows "setRlsContext ctx w =
    (w\<lparr>w_gucs := [(''app.role'', case cx_role ctx of None \<Rightarrow> [] | Some r \<Rightarrow> role_name r),
                 (''app.user_id'', str_or_empty (cx_userId ctx)),
                 (''app.request_id'', str_or_empty (cx_requestId ctx))] @ w_gucs w\<rparr>, Inr ())"
  using assms by (simp add: setRlsContext_def bind_def set_config_in_tx)

lemma run_tx:
  assumes "ensureContext ctx = Inr ()"
  shows "runWithTransaction ctx fn w =
    (if tenant_ok ctx
     then (case fn (tx_world ctx w) of
             (w', Inr x) \<Rightarrow> (fst (tx_commit w'), Inr x)
           | (w', Inl e) \<Rightarrow> (fst (tx_rollback w'), Inl e))
     else (w\<lparr>w_inTx := False, w_failed := False, w_saved := w_tables w, w_gucs := []\<rparr>,
           throw ''Invalid tenant context'' 400 ''TENANT_INVALID''))"
  using assms
  by (auto simp: runWithTransaction_def bind_def tx_begin_def setRlsContext_tx withTenantContext_def Let_def
      tenant_ok_def io_throw_def lift_def throw_def set_config_in_tx tx_world_def tx_commit_def tx_rollback_def
      ret_def raise_def split: prod.split sum.split)

lemma contained_atomic:
  assumes "contained fn" "snd (runWithTransaction ctx fn w) = Inl e"
  shows "w_tables (fst (runWithTransaction ctx fn w)) = w_tables w"
proof (cases "ensureContext ctx")
  case (Inl x)
  then show ?thesis by (simp add: runWithTransaction_def bind_def)
next
  case (Inr u)
  then have c: "ensureContext ctx = Inr ()" by simp
  have s: "w_saved (fst (fn (tx_world ctx w))) = w_tables w"
    using assms(1) by (simp add: contained_def tx_world_def)
  show ?thesis
    using assms(2) s unfolding run_tx [OF c]
    by (auto simp: tx_rollback_def split: prod.splits sum.splits if_splits)
qed

end
