(* ===== verification/RedactionFacts.thy ===== *)
theory RedactionFacts
  imports Redaction
begin

text \<open>
  The redacted text passes the leak check: no e-mail address, phone number or VIN is left after
  the five replacements of \<open>redactSemanticText\<close>. E-mail addresses and phone numbers are languages
  (\<open>free\<close>); a VIN is a run of 17 characters between word boundaries (\<open>vin_free\<close>), where a
  replacement next to it can move a boundary.
\<close>

section \<open>Infixes around a separator\<close>

lemma infix_sep:
  assumes "a @ x # b = u @ w @ v" "x \<notin> set w" "w \<noteq> []"
  shows "(\<exists>us. a = u @ w @ us \<and> v = us @ x # b) \<or> (\<exists>us. u = a @ x # us \<and> b = us @ w @ v)"
proof -
  from assms(1) consider (l) us where "a = u @ us" "us @ x # b = w @ v" | (r) us where "u = a @ us" "x # b = us @ w @ v"
    by (auto simp: append_eq_append_conv2)
  then show ?thesis
  proof cases
    case l
    then consider us' where "us = w @ us'" "v = us' @ x # b" | us' where "w = us @ us'" "x # b = us' @ v"
      by (auto simp: append_eq_append_conv2)
    then show ?thesis
    proof cases
      case 1
      then show ?thesis using l by auto
    next
      case 2
      have "us' = []"
      proof (cases us')
        case (Cons y ys)
        then show ?thesis using 2 assms(2) by auto
      qed
      then show ?thesis using 2 l by auto
    qed
  next
    case r
    have "us \<noteq> []" using r(2) assms(2,3) by (cases w) auto
    then show ?thesis using r by (cases us) auto
  qed
qed

section \<open>Runs of seventeen\<close>

definition vin_free :: "char option \<Rightarrow> string \<Rightarrow> bool" where
  "vin_free p s \<longleftrightarrow>
     (\<forall>a w b. s = a @ w @ b \<longrightarrow> length w = 17 \<longrightarrow> list_all vin_char w \<longrightarrow>
        word_at (last_char p a) \<or> word_at (head_char b))"

lemma vin_freeI:
  "(\<And>a w b. s = a @ w @ b \<Longrightarrow> length w = 17 \<Longrightarrow> list_all vin_char w \<Longrightarrow>
      word_at (last_char p a) \<or> word_at (head_char b)) \<Longrightarrow> vin_free p s"
  unfolding vin_free_def by blast

lemma vin_freeD:
  "vin_free p (a @ w @ b) \<Longrightarrow> length w = 17 \<Longrightarrow> list_all vin_char w \<Longrightarrow>
     word_at (last_char p a) \<or> word_at (head_char b)"
  unfolding vin_free_def by blast

lemma vin_word: "vin_char c \<Longrightarrow> is_word c"
  by (auto simp: vin_char_def is_word_def)

lemma vin_run_word: "list_all vin_char w \<Longrightarrow> length w = 17 \<Longrightarrow>
    w \<noteq> [] \<and> is_word (hd w) \<and> is_word (last w)"
  by (cases w) (auto simp: list_all_iff intro!: vin_word)

lemma word_at_simps [simp]: "\<not> word_at None" "word_at (Some c) \<longleftrightarrow> is_word c"
  by (simp_all add: word_at_def)

lemma head_char_simps [simp]: "head_char [] = None" "head_char (c # s) = Some c"
  by (simp_all add: head_char_def)

lemma head_char_append: "a \<noteq> [] \<Longrightarrow> head_char (a @ b) = head_char a"
  by (cases a) auto

lemma last_char_simps [simp]: "last_char p [] = p" "last_char p (a @ [c]) = Some c" "last_char p (a @ c # d) = last_char (Some c) d"
  by (auto simp: last_char_def)

lemma vin_free_short: "length s < 17 \<Longrightarrow> vin_free p s"
  by (rule vin_freeI) auto

lemma vin_free_sep:
  assumes "\<not> is_word x"
  shows "vin_free p (a @ x # b) \<longleftrightarrow> vin_free p a \<and> vin_free (Some x) b"
proof (intro iffI conjI)
  assume l: "vin_free p (a @ x # b)"
  show "vin_free p a"
  proof (rule vin_freeI)
    fix u w v assume "a = u @ w @ v" and w: "length w = 17" "list_all vin_char w"
    then have "word_at (last_char p u) \<or> word_at (head_char (v @ x # b))"
      using vin_freeD [of p u w "v @ x # b"] l by simp
    then show "word_at (last_char p u) \<or> word_at (head_char v)" using assms by (cases v) auto
  qed
  show "vin_free (Some x) b"
  proof (rule vin_freeI)
    fix u w v assume "b = u @ w @ v" and w: "length w = 17" "list_all vin_char w"
    then show "word_at (last_char (Some x) u) \<or> word_at (head_char v)"
      using vin_freeD [of p "a @ x # u" w v] l by simp
  qed
next
  assume r: "vin_free p a \<and> vin_free (Some x) b"
  show "vin_free p (a @ x # b)"
  proof (rule vin_freeI)
    fix u w v assume e: "a @ x # b = u @ w @ v" and w: "length w = 17" "list_all vin_char w"
    have "x \<notin> set w" "w \<noteq> []" using w assms vin_word by (auto simp: list_all_iff)
    from infix_sep [OF e this]
    show "word_at (last_char p u) \<or> word_at (head_char v)"
    proof (elim disjE exE conjE)
      fix us assume a: "a = u @ w @ us" and v: "v = us @ x # b"
      have "word_at (last_char p u) \<or> word_at (head_char us)" using r a w vin_freeD by blast
      then show ?thesis using v by (cases us) auto
    next
      fix us assume u: "u = a @ x # us" and b: "b = us @ w @ v"
      have "word_at (last_char (Some x) us) \<or> word_at (head_char v)" using r b w vin_freeD by blast
      then show ?thesis using u by simp
    qed
  qed
qed

lemma vin_recontext:
  assumes "vin_free p s" "word_at (head_char s) \<Longrightarrow> word_at p \<Longrightarrow> word_at p'"
  shows "vin_free p' s"
proof (rule vin_freeI)
  fix u w v assume e: "s = u @ w @ v" and w: "length w = 17" "list_all vin_char w"
  then have "word_at (last_char p u) \<or> word_at (head_char v)" using assms(1) vin_freeD by blast
  moreover have "word_at (head_char s)" if "u = []"
    using that e vin_run_word [OF w(2,1)] by (cases w) auto
  ultimately show "word_at (last_char p' u) \<or> word_at (head_char v)"
    using assms(2) by (auto simp: last_char_def split: if_splits)
qed

lemma vin_free_gap:
  assumes "vin_free p (g @ r)" "word_at (last_char p g) \<noteq> word_at (head_char r)"
  shows "vin_free p g"
proof (rule vin_freeI)
  fix u w v assume e: "g = u @ w @ v" and w: "length w = 17" "list_all vin_char w"
  have d: "word_at (last_char p u) \<or> word_at (head_char (v @ r))"
    using vin_freeD [of p u w "v @ r"] assms(1) e w by simp
  show "word_at (last_char p u) \<or> word_at (head_char v)"
  proof (cases v)
    case Nil
    then have "word_at (last_char p g)" using e vin_run_word [OF w(2,1)] by (auto simp: last_char_def)
    then show ?thesis using d assms(2) Nil by simp
  qed (use d in auto)
qed

lemma vin_free_suffix: "vin_free p (a @ t) \<Longrightarrow> vin_free (last_char p a) t"
proof (rule vin_freeI)
  fix u w v assume f: "vin_free p (a @ t)" and e: "t = u @ w @ v" and w: "length w = 17" "list_all vin_char w"
  have "word_at (last_char p (a @ u)) \<or> word_at (head_char v)"
    using vin_freeD [of p "a @ u" w v] f e w by simp
  moreover have "last_char p (a @ u) = last_char (last_char p a) u" by (simp add: last_char_def)
  ultimately show "word_at (last_char (last_char p a) u) \<or> word_at (head_char v)" by simp
qed

section \<open>Matches between word boundaries\<close>

lemma word_bounded_ends:
  "(w, c') \<in> set (rx_ends (word_bounded a) p s c) \<longleftrightarrow>
     word_at p \<noteq> word_at (head_char s) \<and> (w, c') \<in> set (rx_ends a p s c) \<and>
     word_at (last_char p w) \<noteq> word_at (head_char (drop (length w) s))"
  by (auto simp: word_bounded_def m_seq_def last_char_def)

lemma times_ends:
  "(w, c') \<in> set (rx_ends (rx_times n (RCls f)) p s c) \<longleftrightarrow>
     c' = c \<and> n \<le> length s \<and> w = take n s \<and> list_all f w"
proof (induction n arbitrary: p s c w c')
  case (Suc n)
  show ?case
  proof (cases s)
    case (Cons x xs)
    show ?thesis
      by (cases w) (auto simp: Cons m_seq_mem Suc.IH)
  qed (simp add: m_seq_def)
qed auto

lemma vin_ends:
  "(w, c') \<in> set (rx_ends VIN_REGEX p (w @ t) c) \<longleftrightarrow>
     c' = c \<and> length w = 17 \<and> list_all vin_char w \<and> \<not> word_at p \<and> \<not> word_at (head_char t)"
proof -
  have l: "17 \<le> length (w @ t) \<and> w = take 17 (w @ t) \<longleftrightarrow> length w = 17"
  proof
    assume a: "17 \<le> length (w @ t) \<and> w = take 17 (w @ t)"
    then have "length w = min (length (w @ t)) 17" by (metis length_take)
    then show "length w = 17" using a by linarith
  qed simp
  have b: "word_at (head_char (w @ t))" "word_at (last_char p w)" if "length w = 17" "list_all vin_char w"
    using vin_run_word [OF that(2,1)] by (cases w; simp add: last_char_def)+
  show ?thesis
    unfolding VIN_REGEX_def word_bounded_ends times_ends using l b by auto
qed

lemma vin_free_test: "vin_free None s \<Longrightarrow> \<not> rx_test VIN_REGEX s"
proof
  assume f: "vin_free None s" and "rx_test VIN_REGEX s"
  then obtain g w c t where m: "rx_find VIN_REGEX None s = Some (g, w, c, t)" by (auto simp: rx_test_def)
  then have s: "s = g @ w @ t" and "(w, c) \<in> set (rx_ends VIN_REGEX (last_char None g) (w @ t) [])"
    using rx_find_Some [OF m] by auto
  then show False using f vin_freeD unfolding vin_ends by blast
qed

lemma vin_gap_own:
  assumes m: "rx_find VIN_REGEX p s = Some (g, w, c, t)"
  shows "vin_free p g"
proof (rule vin_freeI)
  fix u v b assume e: "g = u @ v @ b" and v: "length v = 17" "list_all vin_char v"
  have s: "s = g @ w @ t" and me: "(w, c) \<in> set (rx_ends VIN_REGEX (last_char p g) (w @ t) [])"
    using rx_find_Some [OF m] by auto
  have w: "length w = 17" "list_all vin_char w" "\<not> word_at (last_char p g)" using me by (auto simp: vin_ends)
  have "rx_ends VIN_REGEX (last_char p u) ((v @ b) @ w @ t) [] = []"
    using e v(1) by (intro rx_find_leftmost [OF m]) auto
  then have "\<not> (v, []) \<in> set (rx_ends VIN_REGEX (last_char p u) (v @ b @ w @ t) [])" by simp
  then have "word_at (last_char p u) \<or> word_at (head_char (b @ w @ t))" using v by (auto simp: vin_ends)
  moreover have "b \<noteq> []"
    using w(3) e vin_run_word [OF v(2,1)] by (auto simp: last_char_def split: if_splits)
  ultimately show "word_at (last_char p u) \<or> word_at (head_char b)" by (simp add: head_char_append)
qed

lemma vin_none: "rx_find VIN_REGEX p s = None \<Longrightarrow> vin_free p s"
proof (rule vin_freeI)
  fix u v b assume n: "rx_find VIN_REGEX p s = None" and e: "s = u @ v @ b" and v: "length v = 17" "list_all vin_char v"
  then have "rx_ends VIN_REGEX (last_char p u) (v @ b) [] = []" by (simp add: rx_find_None)
  then have "\<not> (v, []) \<in> set (rx_ends VIN_REGEX (last_char p u) (v @ b) [])" by simp
  then show "word_at (last_char p u) \<or> word_at (head_char b)" using v by (auto simp: vin_ends)
qed

section \<open>Replacement by a token in angle brackets\<close>

lemma angle_not_word [simp]: "\<not> is_word (CHR ''<'')" "\<not> is_word (CHR ''>'')" "\<not> is_word (CHR '' '')"
  by (simp_all add: is_word_def is_alpha_def is_upper_def is_lower_def is_digit_def between_def)

lemma vin_replace_own:
  assumes "word_at (head_char s) \<Longrightarrow> word_at p \<Longrightarrow> word_at p'"
  shows "vin_free p' (rx_replace_from VIN_REGEX (const_token ''<VIN>'') p s)"
  using assms
proof (induction "length s" arbitrary: s p p' rule: less_induct)
  case less
  show ?case
  proof (cases "rx_find VIN_REGEX p s")
    case None
    have "vin_free p' s" by (rule vin_recontext [OF vin_none [OF None] less.prems])
    then show ?thesis using None by (subst rx_replace_from.simps) simp
  next
    case (Some q)
    obtain g w c t where q: "q = (g, w, c, t)" by (cases q)
    have m: "rx_find VIN_REGEX p s = Some (g, w, c, t)" using Some q by simp
    have s: "s = g @ w @ t" and me: "(w, c) \<in> set (rx_ends VIN_REGEX (last_char p g) (w @ t) [])"
      using rx_find_Some [OF m] by auto
    have w: "length w = 17" "list_all vin_char w" "\<not> word_at (head_char t)"
      using me by (auto simp: vin_ends)
    have w0: "w \<noteq> []" using w(1) by auto
    have g: "vin_free p' g"
    proof (cases "g = []")
      case True
      then show ?thesis by (simp add: vin_free_short)
    next
      case False
      then have "head_char s = head_char g" by (simp add: s head_char_append)
      then show ?thesis using vin_gap_own [OF m] less.prems vin_recontext by metis
    qed
    have "vin_free (Some (CHR ''>'')) (rx_replace_from VIN_REGEX (const_token ''<VIN>'') (Some (last w)) t)"
      using w(1,3) s by (intro less.hyps) auto
    then have "vin_free p' (g @ CHR ''<'' # ''VIN'' @ CHR ''>'' #
        rx_replace_from VIN_REGEX (const_token ''<VIN>'') (Some (last w)) t)"
      using g by (simp only: vin_free_sep [OF angle_not_word(1)] vin_free_sep [OF angle_not_word(2)])
        (simp add: vin_free_short)
    then show ?thesis using m w0 by (subst rx_replace_from.simps) (simp add: const_token_def)
  qed
qed

text \<open>What the other replacements put in: text \<open>u\<close>, then a token. The text is empty or a short word
  of the match followed by a blank.\<close>

definition token_prefix :: "string \<Rightarrow> string \<Rightarrow> bool" where
  "token_prefix u w \<longleftrightarrow>
     u = [] \<or> (\<exists>role. u = role @ '' '' \<and> role \<noteq> [] \<and> length role < 17 \<and> is_word (hd role) \<and>
               list_all is_alpha role \<and> (\<exists>r. w = role @ r))"

definition good_token :: "rx \<Rightarrow> (string \<Rightarrow> caps \<Rightarrow> string) \<Rightarrow> string \<Rightarrow> bool" where
  "good_token r f m \<longleftrightarrow>
     (\<forall>q w t c. (w, c) \<in> set (rx_ends r q (w @ t) []) \<longrightarrow>
        w \<noteq> [] \<and> (\<exists>u. f w c = u @ CHR ''<'' # m @ [CHR ''>''] \<and> token_prefix u w))"

lemma good_tokenD:
  assumes "good_token r f m" "rx_find r p s = Some (g, w, c, t)"
  obtains u where "w \<noteq> []" "f w c = u @ CHR ''<'' # m @ [CHR ''>'']" "token_prefix u w" "s = g @ w @ t"
proof -
  have "(w, c) \<in> set (rx_ends r (last_char p g) (w @ t) [])" "s = g @ w @ t"
    using rx_find_Some [OF assms(2)] by auto
  then show thesis using assms(1) that unfolding good_token_def by fastforce
qed

lemma vin_replace_other:
  assumes r: "r = word_bounded a" and tok: "good_token r f m" and m: "length m < 17"
    and "vin_free p s" and "word_at (head_char s) \<Longrightarrow> word_at p \<Longrightarrow> word_at p'"
  shows "vin_free p' (rx_replace_from r f p s)"
  using assms(4,5)
proof (induction "length s" arbitrary: s p p' rule: less_induct)
  case less
  show ?case
  proof (cases "rx_find r p s")
    case None
    have "vin_free p' s" by (rule vin_recontext [OF less.prems])
    then show ?thesis using None by (subst rx_replace_from.simps) simp
  next
    case (Some q)
    obtain g w c t where q: "q = (g, w, c, t)" by (cases q)
    have fnd: "rx_find r p s = Some (g, w, c, t)" using Some q by simp
    from good_tokenD [OF tok this] obtain u where w0: "w \<noteq> []" and f: "f w c = u @ CHR ''<'' # m @ [CHR ''>'']"
      and u: "token_prefix u w" and s: "s = g @ w @ t" by blast
    have "(w, c) \<in> set (rx_ends r (last_char p g) (w @ t) [])" using rx_find_Some [OF fnd] by auto
    then have b: "word_at (last_char p g) \<noteq> word_at (head_char (w @ t))"
      "word_at (last_char (last_char p g) w) \<noteq> word_at (head_char t)"
      unfolding r word_bounded_ends by auto
    have g: "vin_free p' g"
    proof (cases "g = []")
      case False
      then have "head_char s = head_char g" by (simp add: s head_char_append)
      moreover have "vin_free p g" using less.prems(1) b(1) vin_free_gap s by blast
      ultimately show ?thesis using less.prems(2) vin_recontext by metis
    qed (simp add: vin_free_short)
    have gu: "vin_free p' (g @ u)"
    proof (cases "u = []")
      case False
      then obtain role rest where role: "u = role @ '' ''" "role \<noteq> []" "length role < 17" "is_word (hd role)" "w = role @ rest"
        using u by (auto simp: token_prefix_def)
      have lg: "\<not> word_at (last_char p g)" using b(1) role by (cases role) auto
      have "vin_free p' (g @ role)"
      proof (cases g rule: rev_cases)
        case (snoc g1 y)
        then have "\<not> is_word y" using lg by simp
        then show ?thesis using g role(3) by (simp add: snoc vin_free_sep vin_free_short)
      qed (use role in \<open>simp add: vin_free_short\<close>)
      then have "vin_free p' ((g @ role) @ CHR '' '' # [])"
        by (simp only: vin_free_sep [OF angle_not_word(3)]) (simp add: vin_free_short)
      then show ?thesis by (simp add: role(1))
    qed (use g in simp)
    have "vin_free (Some (last w)) t"
      using vin_free_suffix [of p "g @ w" t] less.prems(1) s w0 by (simp add: last_char_def)
    moreover have "\<not> is_word (last w)" if "word_at (head_char t)"
      using b(2) w0 that by (simp add: last_char_def)
    ultimately have "vin_free (Some (CHR ''>'')) (rx_replace_from r f (Some (last w)) t)"
      using w0 s by (intro less.hyps) auto
    then have "vin_free p' ((g @ u) @ CHR ''<'' # m @ CHR ''>'' # rx_replace_from r f (Some (last w)) t)"
      using gu m by (simp only: vin_free_sep [OF angle_not_word(1)] vin_free_sep [OF angle_not_word(2)])
        (simp add: vin_free_short)
    then show ?thesis using fnd w0 f by (subst rx_replace_from.simps) simp
  qed
qed

text \<open>A language whose words contain neither an angle bracket nor a blank at the end survives.\<close>

definition apart :: "(string \<Rightarrow> bool) \<Rightarrow> bool" where
  "apart P \<longleftrightarrow> (\<forall>w. P w \<longrightarrow> w \<noteq> [] \<and> CHR ''<'' \<notin> set w \<and> CHR ''>'' \<notin> set w)"

lemma free_token:
  assumes "apart P" "free P g" "free P m" "free P t"
  shows "free P (g @ CHR ''<'' # m @ CHR ''>'' # t)"
proof (rule free_append_sep)
  show "free P (m @ CHR ''>'' # t)"
    by (rule free_append_sep) (use assms in \<open>auto simp: apart_def\<close>)
qed (use assms in \<open>auto simp: apart_def\<close>)

lemma free_replace_own:
  assumes "apart (rx_lang r)" "free (rx_lang r) m" "tok = CHR ''<'' # m @ [CHR ''>'']" "context_free r"
  shows "free (rx_lang r) (rx_replace_from r (const_token tok) p s)"
proof (induction "length s" arbitrary: s p rule: less_induct)
  case less
  show ?case
  proof (cases "rx_find r p s")
    case None
    then show ?thesis using free_None [OF None] by (subst rx_replace_from.simps) simp
  next
    case (Some q)
    obtain g w c t where q: "q = (g, w, c, t)" by (cases q)
    have m: "rx_find r p s = Some (g, w, c, t)" using Some q by simp
    have s: "s = g @ w @ t" and "(w, c) \<in> set (rx_ends r (last_char p g) (w @ t) [])"
      using rx_find_Some [OF m] by auto
    then have w: "w \<noteq> []" using rx_ends_sound assms(1,4) by (auto simp: apart_def)
    have "\<not> rx_lang r []" using assms(1) by (auto simp: apart_def)
    then have g: "free (rx_lang r) g" using free_gap [OF m] by blast
    have "free (rx_lang r) (rx_replace_from r (const_token tok) (Some (last w)) t)"
      using w s by (intro less.hyps) auto
    then have "free (rx_lang r) (g @ CHR ''<'' # m @ CHR ''>'' # rx_replace_from r (const_token tok) (Some (last w)) t)"
      using free_token assms g by blast
    then show ?thesis using m w by (subst rx_replace_from.simps) (simp add: const_token_def assms(3))
  qed
qed

lemma free_replace_other:
  assumes "apart P" "free P m" and tok: "good_token r f m"
    and role: "\<And>x role. free P (x @ role) \<Longrightarrow> list_all is_alpha role \<Longrightarrow> free P (x @ role @ '' '')"
    and "free P s"
  shows "free P (rx_replace_from r f p s)"
  using assms(5)
proof (induction "length s" arbitrary: s p rule: less_induct)
  case less
  show ?case
  proof (cases "rx_find r p s")
    case None
    then show ?thesis using less.prems by (subst rx_replace_from.simps) simp
  next
    case (Some q)
    obtain g w c t where q: "q = (g, w, c, t)" by (cases q)
    have fnd: "rx_find r p s = Some (g, w, c, t)" using Some q by simp
    from good_tokenD [OF tok this] obtain u where w0: "w \<noteq> []" and f: "f w c = u @ CHR ''<'' # m @ [CHR ''>'']"
      and u: "token_prefix u w" and s: "s = g @ w @ t" by blast
    have gw: "free P (g @ w)" "free P t" using free_prefix [of P "g @ w" t] less.prems s by auto
    have gu: "free P (g @ u)"
    proof (cases "u = []")
      case True
      then show ?thesis using free_prefix(1) gw(1) by simp
    next
      case False
      then obtain ro rest where ro: "u = ro @ '' ''" "list_all is_alpha ro" "w = ro @ rest"
        using u by (auto simp: token_prefix_def)
      then have "free P (g @ ro)" using free_prefix(1) [of P "g @ ro" rest] gw(1) by simp
      then show ?thesis using role ro by simp
    qed
    have "free P (rx_replace_from r f (Some (last w)) t)"
      using w0 s gw(2) by (intro less.hyps) auto
    then have "free P ((g @ u) @ CHR ''<'' # m @ CHR ''>'' # rx_replace_from r f (Some (last w)) t)"
      using free_token assms(1,2) gu by blast
    then show ?thesis using fnd w0 f by (subst rx_replace_from.simps) simp
  qed
qed

section \<open>The five expressions\<close>

lemma context_free_email [simp]: "context_free EMAIL_REGEX" by code_simp
lemma context_free_phone [simp]: "context_free PHONE_REGEX" by code_simp

lemma email_alphabet: "\<not> rx_alphabet EMAIL_REGEX (CHR ''<'')" "\<not> rx_alphabet EMAIL_REGEX (CHR ''>'')"
    "\<not> rx_alphabet EMAIL_REGEX (CHR '' '')"
  by code_simp+

lemma phone_alphabet: "\<not> rx_alphabet PHONE_REGEX (CHR ''<'')" "\<not> rx_alphabet PHONE_REGEX (CHR ''>'')"
  by code_simp+

lemma email_not_empty: "\<not> rx_lang EMAIL_REGEX []"
  by (simp add: EMAIL_REGEX_def rx_plus_def chr_def rx_lang_simps)

lemma phone_last: "rx_lang PHONE_REGEX w \<Longrightarrow> w \<noteq> [] \<and> is_digit (last w)"
  by (auto simp: PHONE_REGEX_def rx_min_def rx_lang_simps)

lemma email_apart: "apart (rx_lang EMAIL_REGEX)"
  unfolding apart_def using email_not_empty rx_lang_alphabet [of EMAIL_REGEX] email_alphabet by metis

lemma phone_apart: "apart (rx_lang PHONE_REGEX)"
  unfolding apart_def using phone_last rx_lang_alphabet [of PHONE_REGEX] phone_alphabet by metis

lemma free_by_test: "context_free r \<Longrightarrow> \<not> rx_test r s \<Longrightarrow> free (rx_lang r) s"
  by (simp add: rx_test_free)

lemma tokens_free:
  "free (rx_lang EMAIL_REGEX) ''EMAIL''" "free (rx_lang EMAIL_REGEX) ''PHONE''" "free (rx_lang EMAIL_REGEX) ''VIN''"
  "free (rx_lang EMAIL_REGEX) ''PERSON''" "free (rx_lang EMAIL_REGEX) ''ADDRESS''"
  "free (rx_lang PHONE_REGEX) ''PHONE''" "free (rx_lang PHONE_REGEX) ''VIN''"
  "free (rx_lang PHONE_REGEX) ''PERSON''" "free (rx_lang PHONE_REGEX) ''ADDRESS''"
  by (rule free_by_test; code_simp)+

lemma email_role:
  assumes "free (rx_lang EMAIL_REGEX) (x @ ro)" "list_all is_alpha ro"
  shows "free (rx_lang EMAIL_REGEX) (x @ ro @ '' '')"
proof -
  have "free (rx_lang EMAIL_REGEX) []" by (rule free_by_test) code_simp+
  then have "free (rx_lang EMAIL_REGEX) ((x @ ro) @ CHR '' '' # [])"
    using assms(1) rx_lang_alphabet [of EMAIL_REGEX] email_alphabet(3) by (intro free_append_sep) metis+
  then show ?thesis by simp
qed

lemma phone_role:
  assumes "free (rx_lang PHONE_REGEX) (x @ ro)" "list_all is_alpha ro"
  shows "free (rx_lang PHONE_REGEX) (x @ ro @ '' '')"
proof -
  have d: "\<forall>x \<in> set '' ''. \<not> is_digit x" by code_simp
  have "free (rx_lang PHONE_REGEX) ((x @ ro) @ '' '')"
    by (rule free_append_end [where D = is_digit, OF phone_last assms(1) d])
  then show ?thesis by simp
qed

text \<open>The tokens of each replacement.\<close>

lemma const_good:
  assumes "\<And>q w t c. (w, c) \<in> set (rx_ends r q (w @ t) []) \<Longrightarrow> w \<noteq> []"
  shows "good_token r (const_token (CHR ''<'' # m @ [CHR ''>''])) m"
  unfolding good_token_def using assms by (fastforce simp: const_token_def token_prefix_def)

lemma vin_good: "good_token VIN_REGEX (const_token ''<VIN>'') ''VIN''"
proof -
  have "good_token VIN_REGEX (const_token (CHR ''<'' # ''VIN'' @ [CHR ''>''])) ''VIN''"
    by (rule const_good) (auto simp: vin_ends)
  then show ?thesis by simp
qed

lemma phone_good: "good_token PHONE_REGEX (const_token ''<PHONE>'') ''PHONE''"
proof -
  have "w \<noteq> []" if "(w, c) \<in> set (rx_ends PHONE_REGEX q (w @ t) [])" for w c q t
    using rx_ends_sound [OF that context_free_phone] phone_last by blast
  then have "good_token PHONE_REGEX (const_token (CHR ''<'' # ''PHONE'' @ [CHR ''>''])) ''PHONE''"
    by (rule const_good)
  then show ?thesis by simp
qed

lemma wb_nonempty:
  "(w, c) \<in> set (rx_ends (word_bounded a) q (w @ t) d) \<Longrightarrow> (\<And>p s c c'. ([], c') \<notin> set (rx_ends a p s c)) \<Longrightarrow> w \<noteq> []"
  unfolding word_bounded_ends by (cases w) auto

lemma str_i_ends: "(w, c') \<in> set (rx_ends (str_i x) p s c) \<Longrightarrow>
    c' = c \<and> length w = length x \<and> map ascii_lower w = map ascii_lower x"
proof (induction x arbitrary: p s c w)
  case Nil
  then show ?case by (simp add: str_i_def)
next
  case (Cons y ys)
  show ?case
  proof (cases ys)
    case Nil
    then show ?thesis using Cons.prems by (auto simp: str_i_def chr_i_def split: list.splits if_splits)
  next
    case (Cons z zs)
    then have "str_i (y # ys) = RSeq (chr_i y) (str_i ys)" by (simp add: str_i_def)
    then obtain u d v where uv: "(u, d) \<in> set (rx_ends (chr_i y) p s c)" "w = u @ v"
      "(v, c') \<in> set (rx_ends (str_i ys) (last_char p u) (drop (length u) s) d)"
      using Cons.prems by (auto simp: m_seq_mem)
    from Cons.IH [OF uv(3)] uv(1,2) show ?thesis by (auto simp: chr_i_def split: list.splits if_splits)
  qed
qed

lemma rx_alt_ends: "(w, c') \<in> set (rx_ends (rx_alt rs) p s c) \<Longrightarrow> \<exists>r \<in> set rs. (w, c') \<in> set (rx_ends r p s c)"
  by (induction rs rule: rx_alt.induct) (auto split: list.splits)

lemma role_ends:
  assumes "(w, c') \<in> set (rx_ends role_rx p s c)"
  shows "c' = c \<and> w \<noteq> [] \<and> length w < 17 \<and> list_all is_alpha w"
proof -
  obtain x where x: "x \<in> set [''customer'', ''advisor'', ''technician'', ''owner'', ''driver'']"
    "(w, c') \<in> set (rx_ends (str_i x) p s c)"
    using rx_alt_ends [OF assms [unfolded role_rx_def]] by auto
  from str_i_ends [OF x(2)] have w: "c' = c" "length w = length x" "map ascii_lower w = map ascii_lower x" by auto
  have low: "map ascii_lower x = x" "list_all is_lower x" "x \<noteq> []" "length x < 17"
  proof -
    have "list_all (\<lambda>x. map ascii_lower x = x \<and> list_all is_lower x \<and> x \<noteq> [] \<and> length x < 17)
        [''customer'', ''advisor'', ''technician'', ''owner'', ''driver'']" by code_simp
    then show "map ascii_lower x = x" "list_all is_lower x" "x \<noteq> []" "length x < 17"
      using x(1) by (auto simp: list_all_iff)
  qed
  have "is_alpha c" if "c \<in> set w" for c
  proof -
    have "ascii_lower c \<in> set x" using that w(3) low(1) by (metis image_eqI list.set_map)
    then have "is_lower (ascii_lower c)" using low(2) by (simp add: list_all_iff)
    then show ?thesis by (auto simp: ascii_lower_def is_alpha_def split: if_splits)
  qed
  then show ?thesis using w low by (auto simp: list_all_iff)
qed

lemma alpha_word: "is_alpha c \<Longrightarrow> is_word c"
  by (simp add: is_word_def)

text \<open>Group 1 of the person expression is a prefix of the match.\<close>

fun no_groups :: "rx \<Rightarrow> bool" where
  "no_groups (RGrp k a) = False"
| "no_groups (RSeq a b) = (no_groups a \<and> no_groups b)"
| "no_groups (RAlt a b) = (no_groups a \<and> no_groups b)"
| "no_groups (RStar g a) = no_groups a"
| "no_groups _ = True"

lemma m_star_caps:
  assumes "\<And>p s c w c'. (w, c') \<in> set (f p s c) \<Longrightarrow> c' = c"
    and "(w, c') \<in> set (m_star g f n p s c)"
  shows "c' = c"
  using assms(2)
proof (induction n arbitrary: p s c w c')
  case (Suc n)
  then consider "c' = c" | u d v where "(u, d) \<in> set (f p s c)"
      "(v, c') \<in> set (m_star g f n (last_char p u) (drop (length u) s) d)"
    by (auto simp: Let_def split: if_splits)
  then show ?case
  proof cases
    case 2
    from assms(1) [OF 2(1)] Suc.IH [OF 2(2)] show ?thesis by simp
  qed
qed simp

lemma no_groups_caps: "(w, c') \<in> set (rx_ends r p s c) \<Longrightarrow> no_groups r \<Longrightarrow> c' = c"
proof (induction r arbitrary: p s c w c')
  case (RSeq a b)
  then obtain u d v where "(u, d) \<in> set (rx_ends a p s c)"
    "(v, c') \<in> set (rx_ends b (last_char p u) (drop (length u) s) d)"
    by (auto simp: m_seq_mem)
  then show ?case using RSeq by fastforce
next
  case (RStar g a)
  have "(w, c') \<in> set (m_star g (rx_ends a) (length s) p s c)" using RStar.prems by simp
  then show ?case by (rule m_star_caps [rotated]) (use RStar in auto)
qed (auto simp: Let_def split: list.splits if_splits)

lemma person_match:
  assumes "(w, c) \<in> set (rx_ends PERSON_REGEX q (w @ t) [])"
  shows "\<exists>ro rest. w = ro @ rest \<and> grp c 1 = ro \<and> ro \<noteq> [] \<and> length ro < 17 \<and> list_all is_alpha ro"
proof -
  let ?rest = "rx_seq [rx_plus rx_ws, rx_min 2 (RCls name_char), rx_opt (RSeq (rx_plus rx_ws) (rx_min 2 (RCls name_char)))]"
  have ng: "no_groups ?rest" by (simp add: rx_plus_def rx_min_def rx_opt_def numeral_2_eq_2)
  from assms obtain u d v where *: "(u, d) \<in> set (rx_ends (RGrp 1 role_rx) q (w @ t) [])"
    "(v, c) \<in> set (rx_ends ?rest (last_char q u) (drop (length u) (w @ t)) d)" "w = u @ v"
    unfolding PERSON_REGEX_def word_bounded_ends by (auto simp only: rx_ends.simps(3) m_seq_mem)
  from *(1) obtain d' where d: "d = (1, u) # d'" and ro: "(u, d') \<in> set (rx_ends role_rx q (w @ t) [])"
    by auto
  have "c = d" using no_groups_caps [OF *(2) ng] .
  then have "grp c 1 = u" by (simp add: d grp_def group_def)
  then show ?thesis using role_ends [OF ro] *(3) by blast
qed

lemma person_good: "good_token PERSON_REGEX person_token ''PERSON''"
  unfolding good_token_def
proof (intro allI impI)
  fix q w t c assume m: "(w, c) \<in> set (rx_ends PERSON_REGEX q (w @ t) [])"
  from person_match [OF m] obtain ro rest where ro: "w = ro @ rest" "grp c 1 = ro" "ro \<noteq> []" "length ro < 17" "list_all is_alpha ro"
    by blast
  have "is_word (hd ro)" using ro(3,5) by (cases ro) (auto intro: alpha_word)
  then have "token_prefix (ro @ '' '') w" using ro unfolding token_prefix_def by blast
  moreover have "person_token w c = (ro @ '' '') @ CHR ''<'' # ''PERSON'' @ [CHR ''>'']"
    using ro(2) by (simp add: person_token_def)
  ultimately show "w \<noteq> [] \<and> (\<exists>u. person_token w c = u @ CHR ''<'' # ''PERSON'' @ [CHR ''>''] \<and> token_prefix u w)"
    using ro(1,3) by blast
qed

lemma plus_nonempty: "(u, d) \<in> set (rx_ends (rx_plus (RCls f)) p s c) \<Longrightarrow> u \<noteq> []"
  by (auto simp: rx_plus_def m_seq_mem split: list.splits if_splits)

lemma address_good: "good_token ADDRESS_REGEX (const_token ''<ADDRESS>'') ''ADDRESS''"
proof -
  have "w \<noteq> []" if m: "(w, c) \<in> set (rx_ends ADDRESS_REGEX q (w @ t) [])" for w c q t
  proof -
    let ?pre = "RGrp 1 (rx_alt (map str_i [''address'', ''street'', ''st.'', ''avenue'', ''ave.'', ''road'', ''rd.'', ''boulevard'', ''blvd.'',
                 ''lane'', ''ln.'', ''drive'', ''dr.'', ''court'', ''ct.'']))"
    have "(w, c) \<in> set (rx_ends (RSeq ?pre (RSeq (rx_plus rx_ws) (rx_min 3 (RCls address_char)))) q (w @ t) [])"
      using m unfolding ADDRESS_REGEX_def address_rx_def word_bounded_ends rx_seq.simps by blast
    then obtain x e y where y: "(y, c) \<in> set (rx_ends (RSeq (rx_plus rx_ws) (rx_min 3 (RCls address_char))) (last_char q x) (drop (length x) (w @ t)) e)"
      "w = x @ y"
      unfolding rx_ends.simps(3) [of ?pre] m_seq_mem by blast
    then obtain u d where "(u, d) \<in> set (rx_ends (rx_plus rx_ws) (last_char q x) (drop (length x) (w @ t)) e)" "\<exists>v. y = u @ v"
      unfolding rx_ends.simps(3) [of "rx_plus rx_ws"] m_seq_mem by blast
    moreover from this(1) have "u \<noteq> []" by (rule plus_nonempty)
    ultimately show ?thesis using y(2) by auto
  qed
  then have "good_token ADDRESS_REGEX (const_token (CHR ''<'' # ''ADDRESS'' @ [CHR ''>''])) ''ADDRESS''"
    by (rule const_good)
  then show ?thesis by simp
qed

section \<open>Properties\<close>

lemma redacted_free:
  "free (rx_lang EMAIL_REGEX) (redactSemanticText s)"
  "free (rx_lang PHONE_REGEX) (redactSemanticText s)"
  "vin_free None (redactSemanticText s)"
proof -
  let ?e = "rx_replace_all EMAIL_REGEX (const_token ''<EMAIL>'') s"
  let ?p = "rx_replace_all PHONE_REGEX (const_token ''<PHONE>'') ?e"
  let ?v = "rx_replace_all VIN_REGEX (const_token ''<VIN>'') ?p"
  let ?n = "rx_replace_all PERSON_REGEX person_token ?v"
  have s: "redactSemanticText s = rx_replace_all ADDRESS_REGEX (const_token ''<ADDRESS>'') ?n"
    by (simp add: redactSemanticText_def)
  have "free (rx_lang EMAIL_REGEX) ?e"
    unfolding rx_replace_all_def by (rule free_replace_own [OF email_apart tokens_free(1)]) simp_all
  then have "free (rx_lang EMAIL_REGEX) ?p" unfolding rx_replace_all_def
    by (rule free_replace_other [OF email_apart tokens_free(2) phone_good, rotated]) (erule (1) email_role)
  then have "free (rx_lang EMAIL_REGEX) ?v" unfolding rx_replace_all_def
    by (rule free_replace_other [OF email_apart tokens_free(3) vin_good, rotated]) (erule (1) email_role)
  then have "free (rx_lang EMAIL_REGEX) ?n" unfolding rx_replace_all_def
    by (rule free_replace_other [OF email_apart tokens_free(4) person_good, rotated]) (erule (1) email_role)
  then show "free (rx_lang EMAIL_REGEX) (redactSemanticText s)" unfolding s rx_replace_all_def
    by (rule free_replace_other [OF email_apart tokens_free(5) address_good, rotated]) (erule (1) email_role)
  have "free (rx_lang PHONE_REGEX) ?p"
    unfolding rx_replace_all_def by (rule free_replace_own [OF phone_apart tokens_free(6)]) simp_all
  then have "free (rx_lang PHONE_REGEX) ?v" unfolding rx_replace_all_def
    by (rule free_replace_other [OF phone_apart tokens_free(7) vin_good, rotated]) (erule (1) phone_role)
  then have "free (rx_lang PHONE_REGEX) ?n" unfolding rx_replace_all_def
    by (rule free_replace_other [OF phone_apart tokens_free(8) person_good, rotated]) (erule (1) phone_role)
  then show "free (rx_lang PHONE_REGEX) (redactSemanticText s)" unfolding s rx_replace_all_def
    by (rule free_replace_other [OF phone_apart tokens_free(9) address_good, rotated]) (erule (1) phone_role)
  have "vin_free None ?v" unfolding rx_replace_all_def by (rule vin_replace_own)
  then have "vin_free None ?n" unfolding rx_replace_all_def
    by (rule vin_replace_other [OF PERSON_REGEX_def person_good, rotated]) simp_all
  then show "vin_free None (redactSemanticText s)" unfolding s rx_replace_all_def
    by (rule vin_replace_other [OF ADDRESS_REGEX_def [unfolded address_rx_def] address_good, rotated]) simp_all
qed

text \<open>C3: redaction is complete for the leak check. Whatever the semantic text is, what
  \<open>redactSemanticText\<close> returns contains no e-mail address, no phone number and no VIN that
  \<open>assertNoRawPii\<close> would find, so the check never rejects a redacted text.\<close>

theorem redacted_text_passes_leak_check: "assertNoRawPii (redactSemanticText s) = ok ()"
  using redacted_free [of s] vin_free_test by (simp add: assertNoRawPii_def rx_test_free)

text \<open>The leak check is exact for the two context-free patterns: it rejects a text iff some infix of
  it is an e-mail address or a phone number of the pattern, or the VIN expression matches.\<close>

theorem leak_check_characterised:
  "fails_with (assertNoRawPii s) ''PII_LEAKAGE_DETECTED'' \<longleftrightarrow>
     (\<exists>a w b. s = a @ w @ b \<and> (rx_lang EMAIL_REGEX w \<or> rx_lang PHONE_REGEX w)) \<or> rx_test VIN_REGEX s"
proof -
  have f: "(\<not> free P s \<or> \<not> free Q s) \<longleftrightarrow> (\<exists>a w b. s = a @ w @ b \<and> (P w \<or> Q w))" for P Q
    unfolding free_def by blast
  show ?thesis
    unfolding f [symmetric] by (simp add: assertNoRawPii_def rx_test_free)
qed

text \<open>On the retrieval side a name is not redacted: \<open>redactPII\<close> replaces the first word of the match,
  which is the word \<open>name\<close> (or \<open>last\<close>) that introduces the name, and keeps the name itself.\<close>

theorem retrieval_redaction_keeps_the_name:
  "redactPII_retrieval ''name John'' = ''<PERSON> John'' \<and>
   redactPII_retrieval ''last name Doe'' = ''<PERSON> name Doe''"
  by (rule conjI; code_simp)

section \<open>Elements and line items\<close>

lemma find_lt_absent: "CHR ''<'' \<notin> set b \<Longrightarrow> find_from (CHR ''<'' # p) b = None"
  by (auto simp: find_from_None)

lemma find_lt: "CHR ''<'' \<notin> set a \<Longrightarrow> find_from (CHR ''<'' # p) (a @ CHR ''<'' # p @ r) = Some (length a)"
proof (induction a)
  case Nil
  then show ?case by (subst find_from.simps) (simp add: startsWith_def)
next
  case (Cons x a)
  then have "x \<noteq> CHR ''<''" by auto
  then show ?case using Cons by (subst find_from.simps) (simp add: startsWith_def)
qed

lemma code_lower:
  "code (lower_char c) = (if is_upper c \<or> (between 192 222 c \<and> code c \<noteq> 215) then code c + 32 else code c)"
  by (auto simp: lower_char_def is_upper_def between_def)

lemma lower_char_angle: "lower_char c = CHR ''<'' \<longleftrightarrow> c = CHR ''<''" "lower_char c = CHR ''>'' \<longleftrightarrow> c = CHR ''>''"
proof -
  have e: "d = d' \<longleftrightarrow> code d = code d'" for d d' :: char by simp
  show "lower_char c = CHR ''<'' \<longleftrightarrow> c = CHR ''<''" "lower_char c = CHR ''>'' \<longleftrightarrow> c = CHR ''>''"
    unfolding e code_lower by (auto simp: is_upper_def between_def simp del: of_char_eq_iff)
qed

lemma lower_no_angle: "CHR ''<'' \<notin> set s \<Longrightarrow> CHR ''<'' \<notin> set (toLowerCase s)"
    "CHR ''>'' \<notin> set s \<Longrightarrow> CHR ''>'' \<notin> set (toLowerCase s)"
  by (auto simp: toLowerCase_def) (metis lower_char_angle)+

lemma lower_length [simp]: "length (toLowerCase s) = length s"
  by (simp add: toLowerCase_def)

lemma lower_angles: "toLowerCase (CHR ''<'' # s) = CHR ''<'' # toLowerCase s"
    "toLowerCase (CHR ''>'' # s) = CHR ''>'' # toLowerCase s" "toLowerCase (CHR ''/'' # s) = CHR ''/'' # toLowerCase s"
proof -
  have "lower_char (CHR ''<'') = CHR ''<''" "lower_char (CHR ''>'') = CHR ''>''" "lower_char (CHR ''/'') = CHR ''/''" by code_simp+
  then show "toLowerCase (CHR ''<'' # s) = CHR ''<'' # toLowerCase s"
    "toLowerCase (CHR ''>'' # s) = CHR ''>'' # toLowerCase s" "toLowerCase (CHR ''/'' # s) = CHR ''/'' # toLowerCase s"
    by (simp_all add: toLowerCase_def)
qed

lemma takeWhile_hit_aux: "c \<notin> set a \<Longrightarrow> length (takeWhile (\<lambda>x. x \<noteq> c) (a @ c # b)) = length a"
  by (induction a) auto

text \<open>The content of an element with a redacted tag is replaced by the token, whatever it is and in
  whatever case the tag is written; the text around it and the tags themselves stay.\<close>

theorem element_content_is_replaced:
  assumes "CHR ''<'' \<notin> set a" "CHR ''<'' \<notin> set v" "CHR ''<'' \<notin> set b" "CHR ''>'' \<notin> set tag"
    "toLowerCase tag = toLowerCase tagName"
  shows "redactTagValues (a @ ''<'' @ tag @ ''>'' @ v @ ''</'' @ tag @ ''>'' @ b) tagName token =
           a @ ''<'' @ tag @ ''>'' @ token @ ''</'' @ tag @ ''>'' @ b"
proof -
  let ?l = "toLowerCase tag" and ?a = "toLowerCase a" and ?v = "toLowerCase v" and ?b = "toLowerCase b"
  let ?xml = "a @ ''<'' @ tag @ ''>'' @ v @ ''</'' @ tag @ ''>'' @ b"
  let ?close = "CHR ''<'' # CHR ''/'' # ?l @ ''>''"
  have low: "toLowerCase ?xml = ?a @ CHR ''<'' # ?l @ CHR ''>'' # ?v @ CHR ''<'' # CHR ''/'' # ?l @ CHR ''>'' # ?b"
    (is "_ = ?low") by (simp add: lower_angles)
  have 1: "indexOf ?low (CHR ''<'' # ?l) 0 = Some (length a)"
    using find_lt [of ?a ?l "CHR ''>'' # ?v @ CHR ''<'' # CHR ''/'' # ?l @ CHR ''>'' # ?b"] lower_no_angle(1) [OF assms(1)]
    by (simp add: indexOf_def)
  have "find_from ''>'' (CHR ''<'' # ?l @ CHR ''>'' # ?v @ CHR ''<'' # CHR ''/'' # ?l @ CHR ''>'' # ?b) = Some (Suc (length tag))"
    using lower_no_angle(2) [OF assms(4)]
      takeWhile_hit_aux [of "CHR ''>''" "CHR ''<'' # ?l" "?v @ CHR ''<'' # CHR ''/'' # ?l @ CHR ''>'' # ?b"]
    by (simp add: find_from_single)
  then have 2: "indexOf ?low ''>'' (length a) = Some (length a + Suc (length tag))"
    by (simp add: indexOf_def)
  have "find_from ?close (?v @ CHR ''<'' # (CHR ''/'' # ?l @ ''>'') @ ?b) = Some (length v)"
    using find_lt [of ?v "CHR ''/'' # ?l @ ''>''" ?b] lower_no_angle(1) [OF assms(2)] by simp
  then have 3: "indexOf ?low ?close (length a + Suc (length tag) + 1) = Some (length a + length tag + 2 + length v)"
    by (simp add: indexOf_def)
  let ?stop = "length a + length tag + 2 + length v + length ?close"
  have d: "drop ?stop ?low = ?b" "drop ?stop ?xml = b"
    using append_eq_conv_conj [of "?a @ CHR ''<'' # ?l @ CHR ''>'' # ?v @ CHR ''<'' # CHR ''/'' # ?l @ ''>''" ?b ?low]
      append_eq_conv_conj [of "a @ ''<'' @ tag @ ''>'' @ v @ ''</'' @ tag @ ''>''" b ?xml]
    by (simp_all add: algebra_simps numeral_eq_Suc)
  have 4: "indexOf ?low (CHR ''<'' # ?l) ?stop = None"
    unfolding indexOf_def d(1) using find_lt_absent [of ?b ?l] lower_no_angle(1) [OF assms(3)] by simp
  have rest: "redact_tag_from ?xml ?low (CHR ''<'' # ?l) ?close token ?stop = b"
    by (subst redact_tag_from.simps) (simp only: 4 option.case d(2), use d in simp)
  have sl: "slice ?xml 0 (length a + Suc (length tag) + 1) = a @ ''<'' @ tag @ ''>''"
    "slice ?xml (length a + length tag + 2 + length v) ?stop = ''</'' @ tag @ ''>''"
    by (simp_all add: slice_def numeral_eq_Suc)
  have "0 < length ?low" by simp
  then have "redact_tag_from ?xml ?low (CHR ''<'' # ?l) ?close token 0 =
      (a @ ''<'' @ tag @ ''>'') @ token @ (''</'' @ tag @ ''>'') @ b"
    by (subst redact_tag_from.simps) (simp only: if_True 1 2 3 option.case rest sl)
  then show ?thesis
    unfolding redactTagValues_def assms(5) [symmetric] low by simp
qed

theorem element_witness:
  "redactTagValues (''x '' @ ''<'' @ ''VIN'' @ ''>'' @ ''123'' @ ''</'' @ ''VIN'' @ ''>'' @ '' y'') ''vin'' ''[REDACTED_VIN]'' =
     ''x '' @ ''<'' @ ''VIN'' @ ''>'' @ ''[REDACTED_VIN]'' @ ''</'' @ ''VIN'' @ ''>'' @ '' y''"
  by (rule element_content_is_replaced) (simp, simp, simp, simp, code_simp)

text \<open>The redaction of line item texts fails only when a field name does not parse, never because of
  the texts.\<close>

theorem line_item_redaction_ok:
  "is_ok (buildLineItemSemanticRedactions sem) \<longleftrightarrow> (\<forall>e \<in> set sem. is_ok (parseIndexedFieldName (e_path e)))"
proof -
  have a: "assertNoRawPii (redactSemanticText s) = ok ()" for s
    using redacted_free [of s] vin_free_test by (simp add: assertNoRawPii_def rx_test_free)
  have s: "is_ok (redact_entry e r) \<longleftrightarrow> is_ok (parseIndexedFieldName (e_path e))" for e r
    by (cases "parseIndexedFieldName (e_path e)") (auto simp: redact_entry_def Let_def a split: option.split)
  have "is_ok (res_fold redact_entry xs r) \<longleftrightarrow> (\<forall>e \<in> set xs. is_ok (parseIndexedFieldName (e_path e)))" for xs r
  proof (induction xs arbitrary: r)
    case (Cons e xs)
    then show ?case using s [of e r] by (cases "redact_entry e r") auto
  qed simp
  then show ?thesis by (simp add: buildLineItemSemanticRedactions_def)
qed

theorem line_item_witness:
  "is_ok (buildLineItemSemanticRedactions [entry ''OP_DESCRIPTION_1'' ''call bob@x.com''])"
  unfolding line_item_redaction_ok by code_simp

end
