(* ===== verification/XmlRoutingFacts.thy ===== *)
theory XmlRoutingFacts
  imports XmlRouting
begin

text \<open>
  What the routing of xmlFieldRouting.ts guarantees: an elimination rule for one successful step,
  the invariant of the routing state, and the properties of the payloads that come out.
\<close>

section \<open>One step\<close>

definition see :: "string \<Rightarrow> RouteState \<Rightarrow> RouteState" where
  "see f st = st\<lparr>rs_seen := rs_seen st @ [f]\<rparr>"

lemma see_simps [simp]:
  "rs_pii (see f st) = rs_pii st" "rs_det (see f st) = rs_det st" "rs_sem (see f st) = rs_sem st"
  "rs_seen (see f st) = rs_seen st @ [f]" "rs_labor (see f st) = rs_labor st"
  "rs_part (see f st) = rs_part st" "rs_unknown (see f st) = rs_unknown st"
  by (simp_all add: see_def)

lemma classes_disjoint:
  "isPiiField b \<Longrightarrow> \<not> isDeterministicField b" "isPiiField b \<Longrightarrow> \<not> isSemanticField b"
  "isSemanticField b \<Longrightarrow> \<not> isDeterministicField b"
proof -
  have "set PII_FIELDS \<inter> set DETERMINISTIC_FIELDS = {}" "set PII_FIELDS \<inter> set SEMANTIC_FIELDS = {}"
    "set SEMANTIC_FIELDS \<inter> set DETERMINISTIC_FIELDS = {}"
    by code_simp+
  then show "isPiiField b \<Longrightarrow> \<not> isDeterministicField b" "isPiiField b \<Longrightarrow> \<not> isSemanticField b"
    "isSemanticField b \<Longrightarrow> \<not> isDeterministicField b"
    unfolding isPiiField_def isDeterministicField_def isSemanticField_def by blast+
qed

definition known :: "string \<Rightarrow> bool" where
  "known b \<longleftrightarrow> isPiiField b \<or> isDeterministicField b \<or> isSemanticField b"

lemma route_leaf_cases:
  assumes "route_leaf leaf st0 = Inr st'"
  obtains (unknown) ix where "e_path leaf \<notin> set (rs_seen st0)" "parseIndexedFieldName (e_path leaf) = Inr ix"
      "\<not> known (if_base ix)" "st' = (see (e_path leaf) st0)\<lparr>rs_unknown := rs_unknown st0 @ [e_path leaf]\<rparr>"
  | (pii) ix where "e_path leaf \<notin> set (rs_seen st0)" "parseIndexedFieldName (e_path leaf) = Inr ix"
      "isPiiField (if_base ix)" "\<not> if_isIndexed ix"
      "st' = (see (e_path leaf) st0)\<lparr>rs_pii := setPiiField (rs_pii st0) (if_base ix) (e_text leaf)\<rparr>"
  | (part) ix l p where "e_path leaf \<notin> set (rs_seen st0)" "parseIndexedFieldName (e_path leaf) = Inr ix"
      "known (if_base ix)" "\<not> isPiiField (if_base ix)" "if_isIndexed ix" "if_base ix \<in> set LINE_ITEM_BASE_FIELDS"
      "if_laborIndex ix = Some l" "if_partIndex ix = Some p"
      "route_part (e_path leaf) (if_base ix) (e_text leaf) l p (see (e_path leaf) st0) = Inr st'"
  | (labor) ix l where "e_path leaf \<notin> set (rs_seen st0)" "parseIndexedFieldName (e_path leaf) = Inr ix"
      "known (if_base ix)" "\<not> isPiiField (if_base ix)" "if_isIndexed ix" "if_base ix \<in> set LINE_ITEM_BASE_FIELDS"
      "if_laborIndex ix = Some l" "if_partIndex ix = None"
      "route_labor (e_path leaf) (if_base ix) (e_text leaf) l (see (e_path leaf) st0) = Inr st'"
  | (det) ix d where "e_path leaf \<notin> set (rs_seen st0)" "parseIndexedFieldName (e_path leaf) = Inr ix"
      "isDeterministicField (if_base ix)" "\<not> isPiiField (if_base ix)" "\<not> if_isIndexed ix"
      "if_base ix \<notin> set LINE_ITEM_BASE_FIELDS"
      "setDeterministicField (rs_det st0) (if_base ix) (e_text leaf) = Inr d"
      "st' = (see (e_path leaf) st0)\<lparr>rs_det := d\<rparr>"
  | (sem) ix where "e_path leaf \<notin> set (rs_seen st0)" "parseIndexedFieldName (e_path leaf) = Inr ix"
      "isSemanticField (if_base ix)" "\<not> isDeterministicField (if_base ix)" "\<not> isPiiField (if_base ix)"
      "\<not> if_isIndexed ix" "if_base ix \<notin> set LINE_ITEM_BASE_FIELDS"
      "st' = (see (e_path leaf) st0)\<lparr>rs_sem := rs_sem st0 @ [leaf]\<rparr>"
proof -
  let ?st = "see (e_path leaf) st0"
  have seen: "e_path leaf \<notin> set (rs_seen st0)"
    using assms by (auto simp: route_leaf_def Let_def split: if_splits)
  then obtain ix where ix: "parseIndexedFieldName (e_path leaf) = Inr ix"
    using assms by (auto simp: route_leaf_def Let_def res_bind_ok_iff)
  note body = assms [unfolded route_leaf_def Let_def ix if_not_P [OF seen] res_bind_simps, folded see_def known_def, simplified]
  note idx = parse_cases [OF ix]
  show thesis
  proof (cases "known (if_base ix)")
    case False
    then show ?thesis using body seen ix by (intro unknown) auto
  next
    case k: True
    show ?thesis
    proof (cases "isPiiField (if_base ix)")
      case True
      then show ?thesis using body seen ix k by (intro pii) (auto split: if_splits)
    next
      case np: False
      show ?thesis
      proof (cases "if_isIndexed ix")
        case True
        with idx obtain l where l: "if_laborIndex ix = Some l" by auto
        have li: "if_base ix \<in> set LINE_ITEM_BASE_FIELDS"
          using body k np True by (auto split: if_splits)
        show ?thesis
        proof (cases "if_partIndex ix")
          case None
          then show ?thesis using body seen ix k np True li l by (intro labor) (auto split: if_splits)
        next
          case (Some p)
          then show ?thesis using body seen ix k np True li l by (intro part) (auto split: if_splits)
        qed
      next
        case ni: False
        have nli: "if_base ix \<notin> set LINE_ITEM_BASE_FIELDS"
          using body k np ni by (auto split: if_splits)
        show ?thesis
        proof (cases "isDeterministicField (if_base ix)")
          case True
          then show ?thesis using body seen ix k np ni nli that(5) by (auto simp: res_bind_ok_iff)
        next
          case False
          then show ?thesis using body seen ix k np ni nli by (intro sem) (auto simp: known_def)
        qed
      qed
    qed
  qed
qed

section \<open>The line maps\<close>

lemma map_set_all: "\<forall>q \<in> set m. P q \<Longrightarrow> P (k, v) \<Longrightarrow> \<forall>q \<in> set (map_set k v m). P q"
  by (induction k v m rule: map_set.induct) auto

lemma labor_field_index: "setLaborLineField v f t r = Inr v' \<Longrightarrow> l_laborIndex v' = l_laborIndex v"
  unfolding setLaborLineField_def by (auto simp: res_bind_ok_iff split: if_splits)

lemma part_field_index:
  "setPartLineField v f t r = Inr v' \<Longrightarrow> p_laborIndex v' = p_laborIndex v \<and> p_partIndex v' = p_partIndex v"
  unfolding setPartLineField_def by (auto simp: res_bind_ok_iff split: if_splits)

definition labor_keyed :: "RouteState \<Rightarrow> bool" where
  "labor_keyed st \<longleftrightarrow> distinct (map fst (rs_labor st)) \<and> (\<forall>q \<in> set (rs_labor st). l_laborIndex (snd q) = fst q)"

definition part_keyed :: "RouteState \<Rightarrow> bool" where
  "part_keyed st \<longleftrightarrow>
     distinct (map fst (rs_part st)) \<and>
     (\<forall>q \<in> set (rs_part st). (p_laborIndex (snd q), p_partIndex (snd q)) = fst q)"

text \<open>An indexed field touches one line and perhaps adds one semantic entry.\<close>

lemma route_labor_effect:
  assumes "route_labor f b t l st = Inr st'" "labor_keyed st"
  obtains line where "l_laborIndex line = l"
    "st' = st\<lparr>rs_labor := map_set l line (rs_labor st)\<rparr> \<and> isDeterministicField b \<or>
     st' = st\<lparr>rs_sem := rs_sem st @ [\<lparr>e_path = f, e_text = t, e_laborIndex = Some l, e_partIndex = None\<rparr>],
             rs_labor := map_set l line (rs_labor st)\<rparr> \<and> \<not> isDeterministicField b"
proof -
  let ?line = "case map_of (rs_labor st) l of None \<Rightarrow> new_labor l | Some x \<Rightarrow> x"
  have line: "l_laborIndex ?line = l"
    using assms(2) by (auto simp: labor_keyed_def new_labor_def split: option.split dest!: map_of_SomeD)
  show thesis
  proof (cases "isDeterministicField b")
    case True
    then obtain line' where "setLaborLineField ?line b t f = Inr line'"
      "st' = st\<lparr>rs_labor := map_set l line' (rs_labor st)\<rparr>"
      using assms(1) by (auto simp: route_labor_def Let_def res_bind_ok_iff split: if_splits)
    then show ?thesis using that [of line'] line True labor_field_index by auto
  next
    case False
    then show ?thesis
      using that [of ?line] line assms(1) by (simp add: route_labor_def Let_def split: if_splits)
  qed
qed

lemma route_part_effect:
  assumes "route_part f b t l p st = Inr st'" "part_keyed st"
  obtains line where "p_laborIndex line = l" "p_partIndex line = p"
    "st' = st\<lparr>rs_part := map_set (l, p) line (rs_part st)\<rparr> \<and> isDeterministicField b \<or>
     st' = st\<lparr>rs_sem := rs_sem st @ [\<lparr>e_path = f, e_text = t, e_laborIndex = Some l, e_partIndex = Some p\<rparr>],
             rs_part := map_set (l, p) line (rs_part st)\<rparr> \<and> \<not> isDeterministicField b"
proof -
  let ?line = "case map_of (rs_part st) (l, p) of None \<Rightarrow> new_part l p | Some x \<Rightarrow> x"
  have line: "p_laborIndex ?line = l \<and> p_partIndex ?line = p"
    using assms(2) by (auto simp: part_keyed_def new_part_def split: option.split dest!: map_of_SomeD)
  show thesis
  proof (cases "isDeterministicField b")
    case True
    then obtain line' where "setPartLineField ?line b t f = Inr line'"
      "st' = st\<lparr>rs_part := map_set (l, p) line' (rs_part st)\<rparr>"
      using assms(1) by (auto simp: route_part_def Let_def res_bind_ok_iff split: if_splits)
    then show ?thesis using that [of line'] line True part_field_index by auto
  next
    case False
    then show ?thesis
      using that [of ?line] line assms(1) by (simp add: route_part_def Let_def split: if_splits)
  qed
qed

section \<open>The routing invariant\<close>

definition semantic_entry :: "SemanticEntry list \<Rightarrow> SemanticEntry \<Rightarrow> bool" where
  "semantic_entry leaves e \<longleftrightarrow>
     (\<exists>leaf \<in> set leaves. e_path e = e_path leaf \<and> e_text e = e_text leaf) \<and>
     (\<exists>ix. parseIndexedFieldName (e_path e) = Inr ix \<and> isSemanticField (if_base ix))"

lemma semantic_entryI:
  "leaf \<in> set leaves \<Longrightarrow> parseIndexedFieldName (e_path leaf) = Inr ix \<Longrightarrow> isSemanticField (if_base ix) \<Longrightarrow>
     e_path e = e_path leaf \<Longrightarrow> e_text e = e_text leaf \<Longrightarrow> semantic_entry leaves e"
  unfolding semantic_entry_def by auto

definition route_inv :: "SemanticEntry list \<Rightarrow> RouteState \<Rightarrow> bool" where
  "route_inv leaves st \<longleftrightarrow> labor_keyed st \<and> part_keyed st \<and> (\<forall>e \<in> set (rs_sem st). semantic_entry leaves e)"

lemma route_inv_init: "route_inv leaves init_route"
  by (simp add: route_inv_def labor_keyed_def part_keyed_def init_route_def)

lemma route_inv_step:
  assumes "route_leaf leaf st = Inr st'" "route_inv leaves st" "leaf \<in> set leaves"
  shows "route_inv leaves st'"
  using assms(1)
proof (cases rule: route_leaf_cases)
  case (part ix l p)
  have "part_keyed (see (e_path leaf) st)" using assms(2) by (simp add: route_inv_def part_keyed_def)
  with part(9) obtain line where line: "p_laborIndex line = l" "p_partIndex line = p"
    and st': "st' = (see (e_path leaf) st)\<lparr>rs_part := map_set (l, p) line (rs_part st)\<rparr> \<or>
      st' = (see (e_path leaf) st)\<lparr>rs_sem := rs_sem st @
          [\<lparr>e_path = e_path leaf, e_text = e_text leaf, e_laborIndex = Some l, e_partIndex = Some p\<rparr>],
        rs_part := map_set (l, p) line (rs_part st)\<rparr> \<and> \<not> isDeterministicField (if_base ix)"
    by (rule route_part_effect) auto
  have "part_keyed (st'\<lparr>rs_sem := x\<rparr>)" for x
    using assms(2) st' map_set_all [of "rs_part st" "\<lambda>q. (p_laborIndex (snd q), p_partIndex (snd q)) = fst q" "(l, p)" line] line
    by (auto simp: route_inv_def part_keyed_def distinct_map_set)
  then have "part_keyed st'" by (simp add: part_keyed_def)
  moreover have "labor_keyed st'" using st' assms(2) by (auto simp: route_inv_def labor_keyed_def)
  ultimately show ?thesis
    using st' assms(2) part(3,4) by (auto simp: route_inv_def known_def semantic_entryI [OF assms(3) part(2)])
next
  case (labor ix l)
  have "labor_keyed (see (e_path leaf) st)" using assms(2) by (simp add: route_inv_def labor_keyed_def)
  with labor(9) obtain line where line: "l_laborIndex line = l"
    and st': "st' = (see (e_path leaf) st)\<lparr>rs_labor := map_set l line (rs_labor st)\<rparr> \<or>
      st' = (see (e_path leaf) st)\<lparr>rs_sem := rs_sem st @
          [\<lparr>e_path = e_path leaf, e_text = e_text leaf, e_laborIndex = Some l, e_partIndex = None\<rparr>],
        rs_labor := map_set l line (rs_labor st)\<rparr> \<and> \<not> isDeterministicField (if_base ix)"
    by (rule route_labor_effect) auto
  have "labor_keyed (st'\<lparr>rs_sem := x\<rparr>)" for x
    using assms(2) st' map_set_all [of "rs_labor st" "\<lambda>q. l_laborIndex (snd q) = fst q" l line] line
    by (auto simp: route_inv_def labor_keyed_def distinct_map_set)
  then have "labor_keyed st'" by (simp add: labor_keyed_def)
  moreover have "part_keyed st'" using st' assms(2) by (auto simp: route_inv_def part_keyed_def)
  ultimately show ?thesis
    using st' assms(2) labor(3,4) by (auto simp: route_inv_def known_def semantic_entryI [OF assms(3) labor(2)])
qed (use assms(2,3) in \<open>auto simp: route_inv_def labor_keyed_def part_keyed_def intro: semantic_entryI\<close>)

lemma route_inv_all:
  "res_fold route_leaf leaves init_route = Inr st \<Longrightarrow> route_inv leaves st"
  by (rule res_fold_invariant [where P = "route_inv leaves" and s = init_route])
    (auto intro: route_inv_step route_inv_init)

text \<open>The fields seen, and those that are not in the schema.\<close>

definition unknown_path :: "string \<Rightarrow> bool" where
  "unknown_path f \<longleftrightarrow> (case parseIndexedFieldName f of Inl _ \<Rightarrow> False | Inr ix \<Rightarrow> \<not> known (if_base ix))"

lemma route_part_frame:
  "route_part f b t l p st = Inr st' \<Longrightarrow>
     rs_seen st' = rs_seen st \<and> rs_unknown st' = rs_unknown st \<and> rs_pii st' = rs_pii st \<and> rs_det st' = rs_det st"
  by (auto simp: route_part_def Let_def res_bind_ok_iff split: if_splits)

lemma route_labor_frame:
  "route_labor f b t l st = Inr st' \<Longrightarrow>
     rs_seen st' = rs_seen st \<and> rs_unknown st' = rs_unknown st \<and> rs_pii st' = rs_pii st \<and> rs_det st' = rs_det st"
  by (auto simp: route_labor_def Let_def res_bind_ok_iff split: if_splits)

lemma route_leaf_seen:
  assumes "route_leaf leaf st = Inr st'"
  shows "e_path leaf \<notin> set (rs_seen st)" "rs_seen st' = rs_seen st @ [e_path leaf]"
    "rs_unknown st' = rs_unknown st @ filter unknown_path [e_path leaf]"
  using assms
  by (cases rule: route_leaf_cases;
      auto simp: unknown_path_def known_def dest: route_part_frame route_labor_frame)+

lemma route_seen_all:
  "res_fold route_leaf leaves st = Inr st' \<Longrightarrow> distinct (rs_seen st) \<Longrightarrow>
     distinct (rs_seen st') \<and> rs_seen st' = rs_seen st @ map e_path leaves \<and>
     rs_unknown st' = rs_unknown st @ filter unknown_path (map e_path leaves)"
proof (induction leaves arbitrary: st)
  case (Cons leaf leaves)
  then obtain u where u: "route_leaf leaf st = Inr u" "res_fold route_leaf leaves u = Inr st'"
    by (auto simp: res_bind_ok_iff)
  with Cons.prems(2) have "distinct (rs_seen u)" by (simp add: route_leaf_seen)
  from Cons.IH [OF u(2) this] have d: "distinct (rs_seen st')"
    and e: "rs_seen st' = rs_seen u @ map e_path leaves"
      "rs_unknown st' = rs_unknown u @ filter unknown_path (map e_path leaves)" by blast+
  have "rs_unknown st' = rs_unknown st @ filter unknown_path (map e_path (leaf # leaves))"
    unfolding e(2) route_leaf_seen(3) [OF u(1)] by simp
  moreover have "rs_seen st' = rs_seen st @ map e_path (leaf # leaves)"
    unfolding e(1) route_leaf_seen(2) [OF u(1)] by simp
  ultimately show ?case using d by blast
qed simp

lemma route_parsed:
  "res_fold route_leaf leaves st = Inr st' \<Longrightarrow> leaf \<in> set leaves \<Longrightarrow>
     \<exists>ix. parseIndexedFieldName (e_path leaf) = Inr ix"
proof (induction leaves arbitrary: st)
  case (Cons a leaves)
  then obtain u where u: "route_leaf a st = Inr u" "res_fold route_leaf leaves u = Inr st'"
    by (auto simp: res_bind_ok_iff)
  from u(1) have "\<exists>ix. parseIndexedFieldName (e_path a) = Inr ix"
    by (cases rule: route_leaf_cases) auto
  then show ?case using Cons u(2) by auto
qed simp

section \<open>What comes out\<close>

lemma route_ok_elim:
  assumes "routeXmlToPayloads xml = Inr r"
  obtains leaves st where "extractFlatFields xml = Inr leaves" "res_fold route_leaf leaves init_route = Inr st"
    "rs_unknown st = []" "rp_sem r = rs_sem st"
    "rp_det r = (rs_det st)\<lparr>d_laborLines := js_sort labor_le (map snd (rs_labor st)),
                           d_partLines := js_sort part_le (map snd (rs_part st))\<rparr>"
proof -
  from assms obtain leaves st where l: "extractFlatFields xml = Inr leaves"
    "res_fold route_leaf leaves init_route = Inr st" "route_finish st = Inr r"
    by (auto simp: routeXmlToPayloads_def res_bind_ok_iff)
  then have "rs_unknown st = []" by (auto simp: route_finish_def res_bind_ok_iff split: if_splits)
  then show thesis using that [OF l(1,2)] l(3) by (auto simp: route_finish_def)
qed

lemma semantic_not_pii: "semantic_entry leaves e \<Longrightarrow> parseIndexedFieldName (e_path e) = Inr ix \<Longrightarrow> \<not> isPiiField (if_base ix)"
  by (auto simp: semantic_entry_def classes_disjoint)

lemma assertNoPii_ok:
  assumes "\<forall>e \<in> set es. semantic_entry leaves e"
  shows "assertNoPiiInSemantic es = Inr ()"
proof -
  let ?f = "\<lambda>e. res_bind (parseIndexedFieldName (e_path e)) (\<lambda>i. ok (isPiiField (if_base i)))"
  have "\<exists>flags. res_map ?f es = Inr flags \<and> True \<notin> set flags"
    using assms
  proof (induction es)
    case (Cons e es)
    then obtain flags where "res_map ?f es = Inr flags" "True \<notin> set flags" by auto
    moreover obtain ix where "parseIndexedFieldName (e_path e) = Inr ix"
      using Cons.prems by (auto simp: semantic_entry_def)
    ultimately show ?case using Cons.prems semantic_not_pii [of leaves e ix] by simp
  qed simp
  then show ?thesis by (auto simp: assertNoPiiInSemantic_def)
qed

interpretation labor_order: comparator labor_le
  by unfold_locales (auto simp: labor_le_def)

interpretation part_order: comparator part_le
  by unfold_locales (auto simp: part_le_def split: if_splits)

text \<open>Distinct keys make the sorted lines strictly increasing.\<close>

lemma labor_lines_sorted:
  assumes "labor_keyed st"
  shows "sorted_wrt (\<lambda>a b. l_laborIndex a < l_laborIndex b) (js_sort labor_le (map snd (rs_labor st)))"
proof -
  have "map l_laborIndex (map snd (rs_labor st)) = map fst (rs_labor st)"
    using assms by (auto simp: labor_keyed_def)
  then have "distinct (map l_laborIndex (js_sort labor_le (map snd (rs_labor st))))"
    using assms unfolding distinct_map_js_sort labor_keyed_def by metis
  moreover have "sorted_wrt (\<lambda>a b. l_laborIndex a \<le> l_laborIndex b) (js_sort labor_le (map snd (rs_labor st)))"
    using labor_order.sorted_sort [of "map snd (rs_labor st)"] unfolding labor_le_def .
  ultimately have "sorted_wrt (<) (map l_laborIndex (js_sort labor_le (map snd (rs_labor st))))"
    unfolding strict_sorted_iff sorted_map by blast
  then show ?thesis by (simp add: sorted_wrt_map)
qed

definition part_less :: "PartLine \<Rightarrow> PartLine \<Rightarrow> bool" where
  "part_less a b \<longleftrightarrow>
     p_laborIndex a < p_laborIndex b \<or> (p_laborIndex a = p_laborIndex b \<and> p_partIndex a < p_partIndex b)"

lemma part_lines_sorted:
  assumes "part_keyed st"
  shows "sorted_wrt part_less (js_sort part_le (map snd (rs_part st)))"
proof -
  let ?k = "\<lambda>v. (p_laborIndex v, p_partIndex v)" and ?s = "js_sort part_le (map snd (rs_part st))"
  have "map ?k (map snd (rs_part st)) = map fst (rs_part st)"
    using assms by (auto simp: part_keyed_def)
  then have d: "distinct (map ?k ?s)"
    using assms unfolding distinct_map_js_sort part_keyed_def by metis
  have "sorted_wrt part_less xs" if "sorted_wrt part_le xs" "distinct (map ?k xs)" for xs
    using that by (induction xs) (auto simp: part_le_def part_less_def image_iff split: if_splits, fastforce+)
  then show ?thesis using d part_order.sorted_sort by blast
qed

section \<open>PII does not reach the other payloads\<close>

definition erase :: "RouteState \<Rightarrow> RouteState" where "erase st = st\<lparr>rs_pii := initPiiPayload\<rparr>"

definition erased :: "RouteState res \<Rightarrow> RouteState res" where
  "erased r = (case r of Inl e \<Rightarrow> Inl e | Inr st \<Rightarrow> Inr (erase st))"

lemma erased_simps [simp]: "erased (Inl e) = Inl e" "erased (Inr st) = Inr (erase st)" "erased (throw m s c) = throw m s c"
  by (simp_all add: erased_def throw_def)

lemma erased_bind: "(\<And>x. erased (f x) = erased (g x)) \<Longrightarrow> erased (res_bind m f) = erased (res_bind m g)"
  by (cases m) auto

lemma erase_fields [simp]:
  "rs_det (erase st) = rs_det st" "rs_sem (erase st) = rs_sem st" "rs_seen (erase st) = rs_seen st"
  "rs_labor (erase st) = rs_labor st" "rs_part (erase st) = rs_part st" "rs_unknown (erase st) = rs_unknown st"
  by (simp_all add: erase_def)

lemma route_part_erase: "erased (route_part f b t l p (erase st\<lparr>rs_seen := s\<rparr>)) = erased (route_part f b t l p (st\<lparr>rs_seen := s\<rparr>))"
  by (simp add: route_part_def Let_def erase_def erased_bind split: option.split)

lemma route_labor_erase: "erased (route_labor f b t l (erase st\<lparr>rs_seen := s\<rparr>)) = erased (route_labor f b t l (st\<lparr>rs_seen := s\<rparr>))"
  by (simp add: route_labor_def Let_def erase_def erased_bind split: option.split)

lemma route_leaf_erase: "erased (route_leaf leaf (erase st)) = erased (route_leaf leaf st)"
  unfolding route_leaf_def Let_def
  by (auto simp: route_part_erase route_labor_erase split: option.split intro!: erased_bind)
    (simp_all add: erase_def)

lemma route_leaf_pii_text:
  assumes "\<And>ix. parseIndexedFieldName (e_path leaf) = Inr ix \<Longrightarrow> isPiiField (if_base ix)"
  shows "erased (route_leaf (leaf\<lparr>e_text := t\<rparr>) st) = erased (route_leaf leaf st)"
proof (cases "parseIndexedFieldName (e_path leaf)")
  case (Inr ix)
  then show ?thesis using assms by (auto simp: route_leaf_def Let_def erase_def)
qed (simp add: route_leaf_def Let_def)

definition pii_path :: "string \<Rightarrow> bool" where
  "pii_path f = (case parseIndexedFieldName f of Inl _ \<Rightarrow> False | Inr ix \<Rightarrow> isPiiField (if_base ix))"

text \<open>Two lists of fields that differ in the text of PII fields only.\<close>

definition same_but_pii :: "SemanticEntry list \<Rightarrow> SemanticEntry list \<Rightarrow> bool" where
  "same_but_pii = list_all2 (\<lambda>a b. b = a \<or> (pii_path (e_path a) \<and> b = a\<lparr>e_text := e_text b\<rparr>))"

lemma route_fold_pii:
  "same_but_pii ls ls' \<Longrightarrow> erase st = erase st' \<Longrightarrow>
     erased (res_fold route_leaf ls st) = erased (res_fold route_leaf ls' st')"
proof (induction ls arbitrary: ls' st st')
  case (Cons a ls)
  then obtain b bs where b: "ls' = b # bs" "same_but_pii ls bs"
    "b = a \<or> (pii_path (e_path a) \<and> b = a\<lparr>e_text := e_text b\<rparr>)"
    by (auto simp: same_but_pii_def list_all2_Cons1)
  have "erased (route_leaf a st) = erased (route_leaf a st')"
    by (metis route_leaf_erase Cons.prems(2))
  also have "\<dots> = erased (route_leaf b st')"
    using b(3)
  proof
    assume p: "pii_path (e_path a) \<and> b = a\<lparr>e_text := e_text b\<rparr>"
    have "isPiiField (if_base ix)" if "parseIndexedFieldName (e_path a) = Inr ix" for ix
      using p that by (simp add: pii_path_def)
    from route_leaf_pii_text [OF this, of a] show ?thesis using p by metis
  qed simp
  finally have e: "erased (route_leaf a st) = erased (route_leaf b st')" .
  show ?case
  proof (cases "route_leaf a st")
    case (Inl x)
    then have "route_leaf b st' = Inl x" using e by (cases "route_leaf b st'") auto
    then show ?thesis using Inl b(1) by simp
  next
    case (Inr u)
    then obtain u' where "route_leaf b st' = Inr u'" "erase u = erase u'"
      using e by (cases "route_leaf b st'") auto
    then show ?thesis using Inr b(1) Cons.IH [OF b(2)] by simp
  qed
qed (auto simp: same_but_pii_def)

definition non_pii_part :: "RoutedPayloads res \<Rightarrow> (DeterministicPayload \<times> SemanticEntry list) res" where
  "non_pii_part r = (case r of Inl e \<Rightarrow> Inl e | Inr p \<Rightarrow> Inr (rp_det p, rp_sem p))"

lemma non_pii_finish: "erase st = erase st' \<Longrightarrow> non_pii_part (route_finish st) = non_pii_part (route_finish st')"
proof -
  assume e: "erase st = erase st'"
  have "rs_det st = rs_det st'" "rs_sem st = rs_sem st'" "rs_labor st = rs_labor st'"
    "rs_part st = rs_part st'" "rs_unknown st = rs_unknown st'"
    by (metis e erase_fields)+
  then show ?thesis by (simp add: route_finish_def non_pii_part_def split: sum.split)
qed

lemma fold_each: "res_fold f xs s = Inr t \<Longrightarrow> x \<in> set xs \<Longrightarrow> \<exists>u v. f x u = Inr v"
  by (induction xs arbitrary: s) (auto simp: res_bind_ok_iff)

section \<open>Properties\<close>

text \<open>C10: separation of PII. When routing succeeds, every semantic entry is the path and the text of
  one extracted field whose base name is classified semantic, hence neither PII nor deterministic,
  and the check \<open>assertNoPiiInSemantic\<close> that the pipeline runs on the semantic payload passes.\<close>

theorem semantic_payload_has_no_pii:
  assumes "routeXmlToPayloads xml = Inr r" and "extractFlatFields xml = Inr leaves"
  shows "assertNoPiiInSemantic (rp_sem r) = Inr () \<and>
    (\<forall>e \<in> set (rp_sem r). (\<exists>leaf \<in> set leaves. e_path e = e_path leaf \<and> e_text e = e_text leaf) \<and>
       (\<exists>ix. parseIndexedFieldName (e_path e) = Inr ix \<and> isSemanticField (if_base ix) \<and>
             \<not> isPiiField (if_base ix) \<and> \<not> isDeterministicField (if_base ix)))"
proof -
  from assms(1) obtain leaves' st where l: "extractFlatFields xml = Inr leaves'"
    "res_fold route_leaf leaves' init_route = Inr st" "rp_sem r = rs_sem st"
    by (rule route_ok_elim)
  then have "res_fold route_leaf leaves init_route = Inr st" using assms(2) by simp
  then have inv: "\<forall>e \<in> set (rp_sem r). semantic_entry leaves e"
    using route_inv_all [of leaves st] l(3) by (simp add: route_inv_def)
  then have "assertNoPiiInSemantic (rp_sem r) = Inr ()" by (rule assertNoPii_ok)
  moreover have "(\<exists>leaf \<in> set leaves. e_path e = e_path leaf \<and> e_text e = e_text leaf) \<and>
       (\<exists>ix. parseIndexedFieldName (e_path e) = Inr ix \<and> isSemanticField (if_base ix) \<and>
             \<not> isPiiField (if_base ix) \<and> \<not> isDeterministicField (if_base ix))" if "e \<in> set (rp_sem r)" for e
  proof -
    have "semantic_entry leaves e" using inv that by blast
    then obtain leaf ix where *: "leaf \<in> set leaves" "e_path e = e_path leaf" "e_text e = e_text leaf"
      "parseIndexedFieldName (e_path e) = Inr ix" "isSemanticField (if_base ix)"
      unfolding semantic_entry_def by blast
    have "\<not> isPiiField (if_base ix)" "\<not> isDeterministicField (if_base ix)"
      using *(5) classes_disjoint(2) [of "if_base ix"] classes_disjoint(3) [of "if_base ix"] by auto
    with * show ?thesis by blast
  qed
  ultimately show ?thesis by blast
qed

text \<open>C1: the text of PII fields does not flow into the payloads that are stored in clear or embedded.
  Two documents whose extracted fields differ in the text of PII fields only are both rejected with
  the same error or give the same deterministic and semantic payload.\<close>

theorem pii_text_does_not_flow:
  assumes "extractFlatFields x = Inr ls" and "extractFlatFields y = Inr ls'" and "same_but_pii ls ls'"
  shows "non_pii_part (routeXmlToPayloads x) = non_pii_part (routeXmlToPayloads y)"
proof -
  have e: "erased (res_fold route_leaf ls init_route) = erased (res_fold route_leaf ls' init_route)"
    using assms(3) by (rule route_fold_pii) simp
  show ?thesis
  proof (cases "res_fold route_leaf ls init_route")
    case (Inl err)
    then have "res_fold route_leaf ls' init_route = Inl err"
      using e by (cases "res_fold route_leaf ls' init_route") auto
    then show ?thesis using Inl assms by (simp add: routeXmlToPayloads_def)
  next
    case (Inr u)
    then obtain u' where "res_fold route_leaf ls' init_route = Inr u'" "erase u = erase u'"
      using e by (cases "res_fold route_leaf ls' init_route") auto
    then show ?thesis using Inr assms(1,2) non_pii_finish [of u u'] by (simp add: routeXmlToPayloads_def)
  qed
qed

text \<open>C18: the schema is an allow-list. Routing succeeds only if no field name occurs twice, every
  name parses and its base is a field of schema V2; PII fields carry no index and line item fields
  are indexed.\<close>

theorem routed_fields_are_in_schema:
  assumes "routeXmlToPayloads xml = Inr r"
  shows "\<exists>leaves. extractFlatFields xml = Inr leaves \<and> distinct (map e_path leaves) \<and>
    (\<forall>leaf \<in> set leaves. \<exists>ix. parseIndexedFieldName (e_path leaf) = Inr ix \<and>
       if_base ix \<in> set KNOWN_FIELDS \<and> (isPiiField (if_base ix) \<longrightarrow> \<not> if_isIndexed ix) \<and>
       (if_isIndexed ix \<longleftrightarrow> if_base ix \<in> set LINE_ITEM_BASE_FIELDS))"
proof -
  from assms obtain leaves st where l: "extractFlatFields xml = Inr leaves"
    "res_fold route_leaf leaves init_route = Inr st" "rs_unknown st = []"
    by (rule route_ok_elim)
  have s: "distinct (map e_path leaves)" "filter unknown_path (map e_path leaves) = []"
    using route_seen_all [OF l(2)] l(3) by (auto simp: init_route_def)
  have pii_not_line: "isPiiField b \<Longrightarrow> b \<notin> set LINE_ITEM_BASE_FIELDS" for b
  proof -
    have "set PII_FIELDS \<inter> set LINE_ITEM_BASE_FIELDS = {}" by code_simp
    then show "isPiiField b \<Longrightarrow> b \<notin> set LINE_ITEM_BASE_FIELDS" by (auto simp: isPiiField_def)
  qed
  have "\<exists>ix. parseIndexedFieldName (e_path leaf) = Inr ix \<and> if_base ix \<in> set KNOWN_FIELDS \<and>
       (isPiiField (if_base ix) \<longrightarrow> \<not> if_isIndexed ix) \<and>
       (if_isIndexed ix \<longleftrightarrow> if_base ix \<in> set LINE_ITEM_BASE_FIELDS)" if leaf: "leaf \<in> set leaves" for leaf
  proof -
    have k: "\<not> unknown_path (e_path leaf)" using s(2) leaf by (simp add: filter_empty_conv)
    have known_iff: "known b \<longleftrightarrow> b \<in> set KNOWN_FIELDS" for b
      by (auto simp: known_def KNOWN_FIELDS_def isPiiField_def isDeterministicField_def isSemanticField_def)
    obtain u v where "route_leaf leaf u = Inr v" using fold_each [OF l(2) leaf] by blast
    then have "\<exists>ix. parseIndexedFieldName (e_path leaf) = Inr ix \<and> known (if_base ix) \<and>
       (isPiiField (if_base ix) \<longrightarrow> \<not> if_isIndexed ix) \<and>
       (if_isIndexed ix \<longleftrightarrow> if_base ix \<in> set LINE_ITEM_BASE_FIELDS)"
      by (cases rule: route_leaf_cases) (use k pii_not_line in \<open>auto simp: unknown_path_def known_def\<close>)
    then show ?thesis by (simp only: known_iff)
  qed
  then show ?thesis using l(1) s(1) by blast
qed

text \<open>The line items of the deterministic payload are in increasing order of their indices and no
  index, or pair of a labor index and a part index, occurs twice.\<close>

theorem routed_lines_are_sorted:
  assumes "routeXmlToPayloads xml = Inr r"
  shows "sorted_wrt (\<lambda>a b. l_laborIndex a < l_laborIndex b) (d_laborLines (rp_det r)) \<and>
         sorted_wrt (\<lambda>a b. p_laborIndex a < p_laborIndex b \<or>
            (p_laborIndex a = p_laborIndex b \<and> p_partIndex a < p_partIndex b)) (d_partLines (rp_det r))"
proof -
  from assms obtain leaves st where l: "res_fold route_leaf leaves init_route = Inr st"
    "rp_det r = (rs_det st)\<lparr>d_laborLines := js_sort labor_le (map snd (rs_labor st)),
                           d_partLines := js_sort part_le (map snd (rs_part st))\<rparr>"
    by (rule route_ok_elim)
  have inv: "labor_keyed st" "part_keyed st" using route_inv_all [OF l(1)] by (auto simp: route_inv_def)
  show ?thesis
    using labor_lines_sorted [OF inv(1)] part_lines_sorted [OF inv(2)] l(2) by (simp add: part_less_def [abs_def])
qed

text \<open>An indexed cause or correction is always rejected. The classes list \<open>CAUSE\<close> and \<open>CORRECTION\<close>
  as semantic fields, but neither is a line item base, so a document with \<open>CAUSE_n\<close> or
  \<open>CORRECTION_n\<close>, which is what the synthetic generator emits for each labor line, cannot be routed.\<close>

theorem indexed_cause_is_rejected:
  assumes "extractFlatFields xml = Inr leaves" and "leaf \<in> set leaves" and "0 < n" and "n < 2 ^ 53"
    and "e_path leaf = ''CAUSE'' @ ''_'' @ digits_of n \<or> e_path leaf = ''CORRECTION'' @ ''_'' @ digits_of n"
  shows "\<not> is_ok (routeXmlToPayloads xml)"
proof
  assume "is_ok (routeXmlToPayloads xml)"
  then obtain r where "routeXmlToPayloads xml = Inr r" by (auto simp: is_ok_iff)
  then obtain leaves' st where "extractFlatFields xml = Inr leaves'"
    "res_fold route_leaf leaves' init_route = Inr st"
    by (rule route_ok_elim)
  then have "res_fold route_leaf leaves init_route = Inr st" using assms(1) by simp
  then obtain u v where v: "route_leaf leaf u = Inr v" using fold_each assms(2) by metis
  have plain: "\<not> isNumericSegment (last_segment ''CAUSE'')" "\<not> isNumericSegment (last_segment ''CORRECTION'')"
    by code_simp+
  obtain b where b: "b = ''CAUSE'' \<or> b = ''CORRECTION''" and p: "e_path leaf = b @ ''_'' @ digits_of n"
    using assms(5) by blast
  have "\<exists>ix. parseIndexedFieldName (e_path leaf) = Inr ix \<and> if_base ix = b \<and> if_isIndexed ix"
    unfolding p using parse_labor [of b n] plain assms(3,4) b by auto
  moreover have "known b" "\<not> isPiiField b" "b \<notin> set LINE_ITEM_BASE_FIELDS"
    using b by (elim disjE; simp; code_simp)+
  ultimately have *: "(\<exists>ix. parseIndexedFieldName (e_path leaf) = Inr ix \<and> if_base ix = b \<and> if_isIndexed ix)"
    "known b" "\<not> isPiiField b" "b \<notin> set LINE_ITEM_BASE_FIELDS" by blast+
  from v show False
    by (cases rule: route_leaf_cases) (use * in auto)
qed

section \<open>Witnesses\<close>

definition demo_xml :: string where
  "demo_xml = ''<r><VIN>Z</VIN><CAUSE>c</CAUSE><OP_CODE_1>d</OP_CODE_1></r>''"

definition demo_xml2 :: string where
  "demo_xml2 = ''<r><VIN>QQ</VIN><CAUSE>c</CAUSE><OP_CODE_1>d</OP_CODE_1></r>''"

lemma demo_leaves:
  "extractFlatFields demo_xml = Inr [entry ''VIN'' ''Z'', entry ''CAUSE'' ''c'', entry ''OP_CODE_1'' ''d'']"
  by code_simp

lemma demo_leaves2:
  "extractFlatFields demo_xml2 = Inr [entry ''VIN'' ''QQ'', entry ''CAUSE'' ''c'', entry ''OP_CODE_1'' ''d'']"
  by code_simp

lemma demo_routed: "\<exists>r. routeXmlToPayloads demo_xml = Inr r"
proof -
  have "is_ok (routeXmlToPayloads demo_xml)" by code_simp
  then show ?thesis by (simp add: is_ok_iff)
qed

theorem semantic_payload_witness:
  "\<exists>r. routeXmlToPayloads demo_xml = Inr r \<and> assertNoPiiInSemantic (rp_sem r) = Inr ()"
  using demo_routed semantic_payload_has_no_pii [OF _ demo_leaves] by blast

theorem pii_flow_witness:
  "non_pii_part (routeXmlToPayloads demo_xml) = non_pii_part (routeXmlToPayloads demo_xml2)"
proof (rule pii_text_does_not_flow [OF demo_leaves demo_leaves2])
  have "pii_path ''VIN''" by code_simp
  then show "same_but_pii [entry ''VIN'' ''Z'', entry ''CAUSE'' ''c'', entry ''OP_CODE_1'' ''d'']
     [entry ''VIN'' ''QQ'', entry ''CAUSE'' ''c'', entry ''OP_CODE_1'' ''d'']"
    by (simp add: same_but_pii_def entry_def)
qed

theorem schema_witness:
  "\<exists>r leaves. routeXmlToPayloads demo_xml = Inr r \<and> extractFlatFields demo_xml = Inr leaves \<and> distinct (map e_path leaves)"
  using demo_routed routed_fields_are_in_schema [of demo_xml] by blast

theorem sorted_lines_witness:
  "\<exists>r. routeXmlToPayloads demo_xml = Inr r \<and>
     sorted_wrt (\<lambda>a b. l_laborIndex a < l_laborIndex b) (d_laborLines (rp_det r))"
  using demo_routed routed_lines_are_sorted [of demo_xml] by blast

theorem indexed_cause_witness: "\<not> is_ok (routeXmlToPayloads ''<r><CAUSE_1>c</CAUSE_1></r>'')"
proof (rule indexed_cause_is_rejected [where leaf = "entry ''CAUSE_1'' ''c''" and n = 1])
  show "extractFlatFields ''<r><CAUSE_1>c</CAUSE_1></r>'' = Inr [entry ''CAUSE_1'' ''c'']" by code_simp
  have "digits_of 1 = ''1''" by code_simp
  then show "e_path (entry ''CAUSE_1'' ''c'') = ''CAUSE'' @ ''_'' @ digits_of 1 \<or>
      e_path (entry ''CAUSE_1'' ''c'') = ''CORRECTION'' @ ''_'' @ digits_of 1"
    by (simp add: entry_def)
qed simp_all

end
