(* ===== verification/XmlValidateFacts.thy ===== *)
theory XmlValidateFacts
  imports XmlValidate XmlRoutingFacts
begin

text \<open>
  Properties of the validation: which repair order numbers and which payloads are accepted, as one
  condition without the order of the checks; and the text that is left when the tags of the semantic
  XML are stripped.
\<close>

section \<open>Repair order numbers\<close>

lemma digits_val_bounds:
  "list_all is_digit s \<Longrightarrow> 0 \<le> digits_val s \<and> digits_val s < 10 ^ length s"
proof (induction s rule: rev_induct)
  case (snoc c s)
  then have "48 \<le> int (code c)" "int (code c) \<le> 57" by (auto simp: is_digit_def between_def)
  then show ?case using snoc by (simp add: digits_val_snoc)
qed simp

lemma validateRoNumber_ok:
  "is_ok (validateRoNumber s) \<longleftrightarrow> length s = 7 \<and> list_all is_digit s \<and> 6920000 \<le> digits_val s"
proof (cases "length s = 7 \<and> list_all is_digit s")
  case True
  then have b: "0 \<le> digits_val s" "digits_val s < 10 ^ 7" using digits_val_bounds [of s] by auto
  then have "js_parseInt s = Fin (of_int (digits_val s))"
    using True by (subst js_parseInt_digits) (auto intro!: rnd_of_int)
  moreover have "(6920000 :: rat) \<le> of_int (digits_val s) \<longleftrightarrow> 6920000 \<le> digits_val s"
    using of_int_le_iff [of 6920000 "digits_val s", where 'a = rat] by simp
  ultimately show ?thesis using True by (auto simp: validateRoNumber_def not_less)
qed (auto simp: validateRoNumber_def)

section \<open>Line items\<close>

definition labor_valid :: "LaborLine \<Rightarrow> bool" where
  "labor_valid l \<longleftrightarrow>
     (\<exists>h r x. l_actualHours l = Some h \<and> 0 < h \<and> h \<le> 20 \<and>
              l_laborRate l = Some r \<and> \<not> off_by (Fin r) LABOR_RATE_FIXED \<and>
              l_laborExtendedAmount l = Some x \<and> \<not> off_by (Fin x) (jmul (Fin h) LABOR_RATE_FIXED))"

definition part_valid :: "PartLine \<Rightarrow> bool" where
  "part_valid p \<longleftrightarrow>
     (\<exists>x q u. p_partExtendedPrice p = Some x \<and> p_partQuantity p = Some q \<and> p_partUnitPrice p = Some u \<and>
              \<not> off_by (Fin x) (jmul (Fin q) (Fin u)))"

definition labor_sum :: "DeterministicPayload \<Rightarrow> jsnum" where
  "labor_sum det = sum_totals (map (the \<circ> l_laborExtendedAmount) (d_laborLines det))"

definition parts_sum :: "DeterministicPayload \<Rightarrow> jsnum" where
  "parts_sum det = sum_totals (map (the \<circ> p_partExtendedPrice) (d_partLines det))"

definition totals_valid :: "DeterministicPayload \<Rightarrow> bool" where
  "totals_valid det \<longleftrightarrow>
     (\<exists>lt pt shop env tax disc gt.
        d_laborTotal det = Some lt \<and> \<not> off_by (Fin lt) (labor_sum det) \<and>
        d_partsTotal det = Some pt \<and> \<not> off_by (Fin pt) (parts_sum det) \<and>
        d_shopFees det = Some shop \<and> d_environmentalFees det = Some env \<and>
        d_taxTotal det = Some tax \<and> d_discountTotal det = Some disc \<and> d_grandTotal det = Some gt \<and>
        \<not> off_by (Fin gt) (jsub (jadd (jadd (jadd (jadd (labor_sum det) (parts_sum det)) (Fin shop)) (Fin env)) (Fin tax)) (Fin disc)))"

definition indices_valid :: "DeterministicPayload \<Rightarrow> SemanticEntry list \<Rightarrow> bool" where
  "indices_valid det sem \<longleftrightarrow>
     (\<exists>n > 0. l_laborIndex ` set (d_laborLines det) = {1..int n}) \<and>
     (\<forall>p \<in> set (d_partLines det). p_laborIndex p \<in> l_laborIndex ` set (d_laborLines det)) \<and>
     (\<forall>l. \<exists>n. p_partIndex ` {p \<in> set (d_partLines det). p_laborIndex p = l} = {1..int n}) \<and>
     set (part_refs sem) \<subseteq> (\<lambda>p. (p_laborIndex p, p_partIndex p)) ` set (d_partLines det)"

lemma reject_if_ok [simp]: "reject_if c m k = Inr u \<longleftrightarrow> \<not> c"
  by (auto simp: reject_if_def)

lemma need_ok [simp]: "need v m = Inr x \<longleftrightarrow> v = Some x"
  by (auto simp: need_def split: option.splits)

lemma check_labor_ok: "check_labor l xs = Inr ys \<longleftrightarrow> labor_valid l \<and> ys = xs @ [the (l_laborExtendedAmount l)]"
  by (auto simp: check_labor_def labor_valid_def Let_def HOURS_MAX_def split: option.splits)

lemma check_part_ok: "check_part p xs = Inr ys \<longleftrightarrow> part_valid p \<and> ys = xs @ [the (p_partExtendedPrice p)]"
  by (auto simp: check_part_def part_valid_def Let_def split: option.splits)

lemma labor_fold_ok:
  "res_fold check_labor ls xs = Inr ys \<longleftrightarrow>
     (\<forall>l \<in> set ls. labor_valid l) \<and> ys = xs @ map (the \<circ> l_laborExtendedAmount) ls"
  by (induction ls arbitrary: xs) (auto simp: res_bind_ok_iff check_labor_ok)

lemma part_fold_ok:
  "res_fold check_part ps xs = Inr ys \<longleftrightarrow>
     (\<forall>p \<in> set ps. part_valid p) \<and> ys = xs @ map (the \<circ> p_partExtendedPrice) ps"
  by (induction ps arbitrary: xs) (auto simp: res_bind_ok_iff check_part_ok)

lemma unit_fold_ok: "res_fold f xs () = Inr () \<longleftrightarrow> (\<forall>x \<in> set xs. f x () = Inr ())"
  by (induction xs) (auto simp: res_bind_ok_iff)

text \<open>The groups collected from the part lines.\<close>

definition part_indices :: "PartLine list \<Rightarrow> int \<Rightarrow> int list" where
  "part_indices ps l = map p_partIndex (filter (\<lambda>p. p_laborIndex p = l) ps)"

definition the_group :: "(int, int list) jsmap \<Rightarrow> int \<Rightarrow> int list" where
  "the_group m l = (case map_of m l of None \<Rightarrow> [] | Some xs \<Rightarrow> xs)"

lemma collect_step:
  "collect_part ls p m = Inr u \<longleftrightarrow>
     p_laborIndex p \<in> set ls \<and> u = map_set (p_laborIndex p) (the_group m (p_laborIndex p) @ [p_partIndex p]) m"
  by (auto simp: collect_part_def the_group_def Let_def)

lemma collect_fold:
  "res_fold (collect_part ls) ps m = Inr m' \<Longrightarrow> distinct (map fst m) \<Longrightarrow>
     (\<forall>p \<in> set ps. p_laborIndex p \<in> set ls) \<and> distinct (map fst m') \<and>
     (\<forall>l. the_group m' l = the_group m l @ part_indices ps l) \<and>
     set (map fst m') = set (map fst m) \<union> p_laborIndex ` set ps"
proof (induction ps arbitrary: m)
  case Nil
  then show ?case by (simp add: part_indices_def)
next
  case (Cons p ps)
  let ?l = "p_laborIndex p"
  have c: "?l \<in> set ls" and r: "res_fold (collect_part ls) ps (map_set ?l (the_group m ?l @ [p_partIndex p]) m) = Inr m'"
    using Cons.prems(1) by (auto simp: res_bind_ok_iff collect_step)
  have d: "distinct (map fst (map_set ?l (the_group m ?l @ [p_partIndex p]) m))"
    using Cons.prems(2) by (rule distinct_map_set)
  have "the_group (map_set ?l (the_group m ?l @ [p_partIndex p]) m) l @ part_indices ps l =
      the_group m l @ part_indices (p # ps) l" for l
    by (auto simp: the_group_def part_indices_def)
  then show ?case using Cons.IH [OF r d] c keys_map_set [of ?l "the_group m ?l @ [p_partIndex p]" m] by auto
qed

lemma collect_ok: "\<forall>p \<in> set ps. p_laborIndex p \<in> set ls \<Longrightarrow> \<exists>m'. res_fold (collect_part ls) ps m = Inr m'"
  by (induction ps arbitrary: m) (auto simp: collect_part_def Let_def)

lemma unit_ok: "is_ok (r :: unit res) \<longleftrightarrow> r = Inr ()"
  by (auto simp: is_ok_iff)

lemma groups_ok:
  assumes "res_fold (collect_part ls) ps [] = Inr m"
  shows "res_fold check_group m () = Inr () \<longleftrightarrow>
    (\<forall>l. \<exists>n. p_partIndex ` {p \<in> set ps. p_laborIndex p = l} = {1..int n})"
proof -
  from collect_fold [OF assms] have d: "distinct (map fst m)"
    and g: "\<And>l. the_group m l = part_indices ps l" by (auto simp: the_group_def)
  have set_idx: "set (part_indices ps l) = p_partIndex ` {p \<in> set ps. p_laborIndex p = l}" for l
    by (auto simp: part_indices_def)
  have "res_fold check_group m () = Inr () \<longleftrightarrow>
      (\<forall>q \<in> set m. is_ok (ensureContiguousIndices (snd q) (''part for labor '' @ idx_str (fst q))))"
    by (simp only: unit_fold_ok check_group_def unit_ok)
  also have "\<dots> \<longleftrightarrow> (\<forall>q \<in> set m. \<exists>n. set (snd q) = {1..int n})"
    by (simp only: ensureContiguous_iff)
  also have "\<dots> \<longleftrightarrow> (\<forall>l. \<exists>n. set (the_group m l) = {1..int n})"
  proof
    assume a: "\<forall>q \<in> set m. \<exists>n. set (snd q) = {1..int n}"
    show "\<forall>l. \<exists>n. set (the_group m l) = {1..int n}"
    proof
      fix l
      show "\<exists>n. set (the_group m l) = {1..int n}"
      proof (cases "map_of m l")
        case None
        then have "set (the_group m l) = {1..int 0}" by (simp add: the_group_def)
        then show ?thesis by (rule exI)
      next
        case (Some xs)
        then show ?thesis using a map_of_SomeD [OF Some] by (fastforce simp: the_group_def)
      qed
    qed
  next
    assume a: "\<forall>l. \<exists>n. set (the_group m l) = {1..int n}"
    show "\<forall>q \<in> set m. \<exists>n. set (snd q) = {1..int n}"
    proof
      fix q assume "q \<in> set m"
      then have "map_of m (fst q) = Some (snd q)" using d by (simp add: map_of_is_SomeI)
      then have "the_group m (fst q) = snd q" by (simp add: the_group_def)
      then show "\<exists>n. set (snd q) = {1..int n}" using a by metis
    qed
  qed
  finally show ?thesis by (simp add: g set_idx)
qed

lemma refs_ok:
  "res_fold (check_ref ps) refs () = Inr () \<longleftrightarrow> set refs \<subseteq> (\<lambda>p. (p_laborIndex p, p_partIndex p)) ` set ps"
  unfolding unit_fold_ok by (auto simp: check_ref_def)

lemma check_totals_ok:
  "check_totals det (map (the \<circ> l_laborExtendedAmount) (d_laborLines det))
     (map (the \<circ> p_partExtendedPrice) (d_partLines det)) = Inr () \<longleftrightarrow> totals_valid det"
  unfolding check_totals_def totals_valid_def Let_def labor_sum_def [symmetric] parts_sum_def [symmetric]
  by (simp add: res_bind_ok_iff)

lemma pos_count: "(\<exists>n > 0. S = {1..int n}) \<longleftrightarrow> S \<noteq> {} \<and> (\<exists>n. S = {1..int n})"
proof
  assume "S \<noteq> {} \<and> (\<exists>n. S = {1..int n})"
  then obtain n where "S = {1..int n}" "S \<noteq> {}" by blast
  moreover from this have "n > 0" by (cases n) auto
  ultimately show "\<exists>n > 0. S = {1..int n}" by blast
qed auto

lemma validateLineItems_ok:
  "validateLineItems det sem = Inr () \<longleftrightarrow>
     indices_valid det sem \<and> (\<forall>l \<in> set (d_laborLines det). labor_valid l) \<and>
     (\<forall>p \<in> set (d_partLines det). part_valid p) \<and> totals_valid det"
proof (cases "d_laborLines det = []")
  case True
  then show ?thesis by (auto simp: validateLineItems_def indices_valid_def)
next
  case False
  let ?ls = "map l_laborIndex (d_laborLines det)" and ?ps = "d_partLines det"
  have c: "ensureContiguousIndices ?ls l = Inr () \<longleftrightarrow> (\<exists>n > 0. l_laborIndex ` set (d_laborLines det) = {1..int n})" for l
    using ensureContiguous_iff [of ?ls l] False by (simp add: unit_ok pos_count)
  show ?thesis
  proof (cases "\<forall>p \<in> set ?ps. p_laborIndex p \<in> set ?ls")
    case True
    then obtain m where m: "res_fold (collect_part ?ls) ?ps [] = Inr m" using collect_ok by metis
    have "validateLineItems det sem = Inr () \<longleftrightarrow>
        ensureContiguousIndices ?ls ''labor'' = Inr () \<and> res_fold check_group m () = Inr () \<and>
        res_fold (check_ref ?ps) (part_refs sem) () = Inr () \<and>
        (\<exists>xs ys. res_fold check_labor (d_laborLines det) [] = Inr xs \<and> res_fold check_part ?ps [] = Inr ys \<and>
           check_totals det xs ys = Inr ())"
      using False by (simp add: validateLineItems_def Let_def res_bind_ok_iff m)
    also have "\<dots> \<longleftrightarrow> indices_valid det sem \<and> (\<forall>l \<in> set (d_laborLines det). labor_valid l) \<and>
        (\<forall>p \<in> set ?ps. part_valid p) \<and> totals_valid det"
      using True by (auto simp: c groups_ok [OF m] refs_ok labor_fold_ok part_fold_ok check_totals_ok indices_valid_def)
    finally show ?thesis .
  next
    case f: False
    have "res_fold (collect_part ?ls) ?ps [] \<noteq> Inr m" for m
      using f collect_fold [of ?ls ?ps "[]" m] by auto
    then have "validateLineItems det sem \<noteq> Inr ()"
      using False by (simp add: validateLineItems_def Let_def res_bind_ok_iff)
    then show ?thesis using f by (auto simp: indices_valid_def)
  qed
qed

section \<open>Stripping tags\<close>

lemma strip_absent: "CHR ''<'' \<notin> set s \<Longrightarrow> stripXmlTags s = s"
  by (subst stripXmlTags.simps) (simp add: find_from_single)

lemma takeWhile_hit: "c \<notin> set a \<Longrightarrow> takeWhile (\<lambda>x. x \<noteq> c) (a @ c # b) = a"
  by (induction a) auto

lemma strip_tag:
  assumes "CHR ''<'' \<notin> set a" "CHR ''>'' \<notin> set t"
  shows "stripXmlTags (a @ CHR ''<'' # t @ CHR ''>'' # b) = a @ stripXmlTags b"
proof -
  have i: "find_from ''<'' (a @ CHR ''<'' # t @ CHR ''>'' # b) = Some (length a)"
    using assms(1) by (simp add: find_from_single takeWhile_hit)
  have j: "find_from ''>'' (CHR ''<'' # t @ CHR ''>'' # b) = Some (Suc (length t))"
    using takeWhile_hit [of "CHR ''>''" "CHR ''<'' # t" b] assms(2) by (simp add: find_from_single)
  have d: "drop (length a) (a @ CHR ''<'' # t @ CHR ''>'' # b) = CHR ''<'' # t @ CHR ''>'' # b" by simp
  have k: "drop (length a + Suc (length t) + 1) (a @ CHR ''<'' # t @ CHR ''>'' # b) = b" by simp
  show ?thesis
    by (subst stripXmlTags.simps) (simp only: i j d k option.case, simp)
qed

lemma strip_angle_absent: "CHR ''<'' \<notin> set (stripXmlTags s)"
proof (induction s rule: stripXmlTags.induct)
  case (1 s)
  show ?case
  proof (cases "find_from ''<'' s")
    case None
    then have "CHR ''<'' \<notin> set s" by (simp add: find_from_single split: if_splits)
    then show ?thesis by (simp add: strip_absent)
  next
    case (Some i)
    then have "i = length (takeWhile (\<lambda>x. x \<noteq> CHR ''<'') s)" by (simp add: find_from_single split: if_splits)
    then have "take i s = takeWhile (\<lambda>x. x \<noteq> CHR ''<'') s" by (simp add: takeWhile_eq_take [symmetric])
    then have "CHR ''<'' \<notin> set (take i s)" by (metis set_takeWhileD)
    then show ?thesis using 1 Some by (subst stripXmlTags.simps) (auto split: option.split)
  qed
qed

lemma escape_no_angle: "CHR ''<'' \<notin> set (escape_text s)" "CHR ''>'' \<notin> set (escape_text s)"
proof -
  show "CHR ''>'' \<notin> set (escape_text s)" unfolding escape_text_def by (rule replace_char_absent) simp
  have a: "CHR ''<'' \<notin> set (replace_char (CHR ''<'') ''&lt;'' s)" by (rule replace_char_absent) simp
  have "CHR ''<'' \<notin> set (replace_char (CHR ''>'') ''&gt;'' t)" if "CHR ''<'' \<notin> set t" for t
    using that by (auto simp: replace_char_def)
  then show "CHR ''<'' \<notin> set (escape_text s)" unfolding escape_text_def using a by blast
qed

lemma strip_field_line:
  assumes "CHR ''>'' \<notin> set (e_path e)"
  shows "stripXmlTags (field_line e @ r) = ''  '' @ escape_text (e_text e) @ stripXmlTags r"
proof -
  let ?q = "[CHR 0x22]"
  have "stripXmlTags (''  '' @ CHR ''<'' # (''field path='' @ ?q @ e_path e @ ?q) @ CHR ''>'' #
      (escape_text (e_text e) @ CHR ''<'' # ''/field'' @ CHR ''>'' # r)) =
      ''  '' @ escape_text (e_text e) @ stripXmlTags r"
    using assms escape_no_angle(1) [of "e_text e"] by (subst strip_tag, simp, simp, subst strip_tag) auto
  then show ?thesis by (simp add: field_line_def)
qed

lemma strip_newline: "stripXmlTags (newline @ r) = newline @ stripXmlTags r"
  by (subst stripXmlTags.simps, subst (2) stripXmlTags.simps)
    (simp add: newline_def find_from_single split: option.split)

lemma strip_lines:
  "\<forall>e \<in> set es. CHR ''>'' \<notin> set (e_path e) \<Longrightarrow>
     stripXmlTags (js_join newline (map field_line es @ [''</semantic>''])) =
       concat (map (\<lambda>e. ''  '' @ escape_text (e_text e) @ newline) es)"
proof (induction es)
  case Nil
  have "stripXmlTags ([] @ CHR ''<'' # ''/semantic'' @ CHR ''>'' # []) = [] @ stripXmlTags []"
    by (rule strip_tag) simp_all
  then show ?case by (simp add: strip_absent)
next
  case (Cons e es)
  obtain x xs where x: "map field_line es @ [''</semantic>''] = x # xs" by (cases "map field_line es") auto
  have "js_join newline (map field_line (e # es) @ [''</semantic>'']) =
      field_line e @ newline @ js_join newline (map field_line es @ [''</semantic>''])"
    using x by simp
  then show ?case using Cons by (simp add: strip_field_line strip_newline)
qed

section \<open>Properties\<close>

text \<open>The validator of repair order numbers accepts exactly the strings of seven decimal digits whose
  value is at least 6920000.\<close>

theorem ro_number_accepted:
  "is_ok (validateRoNumber s) \<longleftrightarrow> length s = 7 \<and> list_all is_digit s \<and> 6920000 \<le> digits_val s"
  by (fact validateRoNumber_ok)

text \<open>C4: \<open>validateRoutedPayloads\<close> accepts exactly the payloads that satisfy one condition independent
  of the order of the checks: number, status and opening time are present, the number is valid, the
  labor indices are 1 to n, the part indices of every labor line are 1 to m, every part and every
  part description refers to existing lines, hours, rate and amounts of every line and the five
  totals agree within the tolerance, there is a VIN and a customer complaint. The flag
  \<open>piiEnabled\<close> makes no difference.\<close>

theorem validation_accepts_iff:
  "is_ok (validateRoutedPayloads det pii sem piiEnabled) \<longleftrightarrow>
     truthy (d_roNumber det) \<and> truthy (d_roStatus det) \<and> truthy (d_openTimestamp det) \<and>
     is_ok (validateRoNumber (the (d_roNumber det))) \<and>
     indices_valid det sem \<and> (\<forall>l \<in> set (d_laborLines det). labor_valid l) \<and>
     (\<forall>p \<in> set (d_partLines det). part_valid p) \<and> totals_valid det \<and>
     truthy (first_vin pii) \<and> (\<exists>e \<in> set sem. e_path e = ''CUSTOMER_COMPLAINT'')"
proof -
  have v: "validation_error es = Inr () \<longleftrightarrow> es = []" for es by (simp add: validation_error_def)
  have p: "truthy (first_vin pii) \<Longrightarrow> pii \<noteq> None" by (cases pii) (auto simp: first_vin_def)
  have s: "list_ex f sem \<Longrightarrow> sem \<noteq> []" for f by (cases sem) auto
  show ?thesis
    unfolding unit_ok validateRoutedPayloads_def
    using p s by (auto simp: res_bind_ok_iff v validateLineItems_ok list_ex_iff)
qed

text \<open>Stripping the tags of the semantic XML leaves the escaped texts of the entries, one per
  line and in order, and no \<open><\<close>: field names and mark-up do not reach the text that is embedded. (The
  names the routing lets through contain no angle bracket.)\<close>

theorem strip_semantic_xml:
  assumes "\<forall>e \<in> set es. CHR ''>'' \<notin> set (e_path e)"
  shows "stripXmlTags (buildSemanticXml es) =
           newline @ concat (map (\<lambda>e. ''  '' @ escape_text (e_text e) @ newline) es) \<and>
         CHR ''<'' \<notin> set (stripXmlTags (buildSemanticXml es))"
proof -
  obtain x xs where x: "map field_line es @ [''</semantic>''] = x # xs" by (cases "map field_line es") auto
  have "buildSemanticXml es = [] @ CHR ''<'' # ''semantic'' @ CHR ''>'' #
      (newline @ js_join newline (map field_line es @ [''</semantic>'']))"
    by (simp add: buildSemanticXml_def x)
  then have "stripXmlTags (buildSemanticXml es) =
      [] @ stripXmlTags (newline @ js_join newline (map field_line es @ [''</semantic>'']))"
    using strip_tag [of "[]" "''semantic''" "newline @ js_join newline (map field_line es @ [''</semantic>''])"]
    by simp
  also have "\<dots> = newline @ concat (map (\<lambda>e. ''  '' @ escape_text (e_text e) @ newline) es)"
    using strip_lines [OF assms] by (simp add: strip_newline)
  finally show ?thesis using strip_angle_absent by blast
qed

theorem strip_semantic_witness:
  "stripXmlTags (buildSemanticXml [entry ''CAUSE'' ''a<b'']) = newline @ ''  a&lt;b'' @ newline"
proof -
  have "\<forall>e \<in> set [entry ''CAUSE'' ''a<b'']. CHR ''>'' \<notin> set (e_path e)" by (simp add: entry_def)
  from strip_semantic_xml [OF this]
  have "stripXmlTags (buildSemanticXml [entry ''CAUSE'' ''a<b'']) = newline @ ''  '' @ escape_text ''a<b'' @ newline"
    by (simp add: entry_def)
  then show ?thesis by (simp add: escape_text_def replace_char_def)
qed

definition demo_det :: DeterministicPayload where
  "demo_det = initDeterministicPayload
     \<lparr>d_roNumber := Some ''6920000'', d_roStatus := Some ''OPEN'', d_openTimestamp := Some ''t'',
      d_laborTotal := Some 275, d_partsTotal := Some 0, d_shopFees := Some 1, d_environmentalFees := Some 2,
      d_taxTotal := Some 3, d_discountTotal := Some 4, d_grandTotal := Some 277,
      d_laborLines := [(new_labor 1)\<lparr>l_actualHours := Some 1, l_laborRate := Some 275, l_laborExtendedAmount := Some 275\<rparr>]\<rparr>"

definition demo_pii :: PiiPayload where
  "demo_pii = initPiiPayload\<lparr>pp_vins := Some [''Z'']\<rparr>"

theorem validation_witness:
  "is_ok (validateRoutedPayloads demo_det (Some demo_pii) [entry ''CUSTOMER_COMPLAINT'' ''c''] True) \<and>
   totals_valid demo_det \<and> indices_valid demo_det [entry ''CUSTOMER_COMPLAINT'' ''c'']"
proof -
  have "is_ok (validateRoutedPayloads demo_det (Some demo_pii) [entry ''CUSTOMER_COMPLAINT'' ''c''] True)"
    by code_simp
  then show ?thesis
    using validation_accepts_iff [of demo_det "Some demo_pii" "[entry ''CUSTOMER_COMPLAINT'' ''c'']" True] by blast
qed

end
