(* ===== verification/PipelineFacts.thy ===== *)
theory PipelineFacts
  imports Pipeline DbFacts RedactionFacts XmlValidateFacts
begin

text \<open>
  Properties of the ingest pipeline and its parts: atomicity, the order of the vault write, the
  statement no run gets past, tenant isolation of transactions, the session without a transaction,
  chunking, the retry of the embedding call, sealing and opening of the vault payload, the identity
  of a customer and the leak checks.
\<close>

section \<open>The pipeline stays inside of its transaction\<close>

lemma contained_case_option [intro]:
  "contained a \<Longrightarrow> (\<And>x. contained (f x)) \<Longrightarrow> contained (case v of None \<Rightarrow> a | Some x \<Rightarrow> f x)"
  by (cases v) auto

lemma contained_case_list [intro]:
  "contained a \<Longrightarrow> (\<And>x xs. contained (f x xs)) \<Longrightarrow> contained (case v of [] \<Rightarrow> a | x # xs \<Rightarrow> f x xs)"
  by (cases v) auto

lemma contained_case_prod [intro]: "(\<And>a b. contained (f a b)) \<Longrightarrow> contained (case p of (a, b) \<Rightarrow> f a b)"
  by (cases p) auto

lemma contained_prepare: "contained (prepare d ctx input)"
  unfolding prepare_def isTenantPiiEnabled_def resolveCustomerIdentity_def findCustomerUuidByHashes_def Let_def
  by (intro contained_bind contained_if contained_case_option contained_case_list contained_pure contained_select contained_draw)

lemma contained_vault: "contained (vault_write d ctx input pii ident roId)"
  unfolding vault_write_def writePiiVaultRecord_def
  by (intro contained_bind contained_pure contained_insert contained_audit)

lemma contained_rows: "contained (store_rows d ctx input routed ident roId roNumber)"
  unfolding store_rows_def storeDocument_def storeRepairOrder_def storeRepairOrderDetails_def ensureChunkTables_def
    insert_labor_def insert_part_def insert_deterministic_def Let_def
  by (intro contained_bind contained_pure contained_insert contained_update contained_delete contained_draw
      contained_guard contained_each)

lemma contained_semantics: "contained (store_semantics d ctx routed ident roId)"
  unfolding store_semantics_def storeChunksAndEmbeddings_def insert_chunk_def Let_def
  by (intro contained_bind contained_pure contained_insert contained_draw contained_audit contained_each contained_case_option)

lemma contained_pipeline: "contained (pipeline_body d ctx input)"
  unfolding pipeline_body_def
  by (intro contained_bind contained_case_prod contained_prepare contained_draw contained_vault contained_rows contained_semantics)

section \<open>The deterministic INSERT\<close>

lemma det_counts: "length det_columns = 60" "det_placeholders = 62" "length (det_params ctx roId u p) = 59"
  by (simp_all add: det_columns_def det_placeholders_def det_params_def)

lemma insert_deterministic_fails: "snd (insert_deterministic ctx roId u p w) \<noteq> Inr x"
  by (simp add: insert_deterministic_def db_insert_def guard_tx_def det_counts)

lemma details_fail: "snd (storeRepairOrderDetails uuid ctx roId p u c red w) \<noteq> Inr x"
  unfolding storeRepairOrderDetails_def
  by (auto simp: snd_bind insert_deterministic_fails split: sum.splits)

lemma rows_fail: "snd (store_rows d ctx input routed ident roId n w) \<noteq> Inr x"
  unfolding store_rows_def Let_def
  by (auto simp: snd_bind details_fail split: sum.splits)

lemma body_fails: "snd (pipeline_body d ctx input w) \<noteq> Inr x"
  unfolding pipeline_body_def
  by (auto simp: snd_bind rows_fail split: sum.splits prod.splits)

lemma pipeline_fails: "\<exists>e. snd (runIngestPipeline d ctx input w) = Inl e"
proof (cases "ensureContext ctx")
  case (Inl e)
  then show ?thesis by (simp add: runIngestPipeline_def runWithTransaction_def bind_def)
next
  case (Inr u)
  then have c: "ensureContext ctx = Inr ()" by simp
  show ?thesis
    unfolding runIngestPipeline_def run_tx [OF c]
    using body_fails [of d ctx input "tx_world ctx w"]
    by (auto simp: throw_def split: prod.split sum.split)
qed

section \<open>The order of the writes\<close>

text \<open>\<open>first_write t m\<close>: if \<open>m\<close> issues writes at all, the first one goes to table \<open>t\<close>; \<open>quiet m\<close>: it
  issues none.\<close>

definition quiet :: "'a io \<Rightarrow> bool" where
  "quiet m \<longleftrightarrow> (\<forall>w. w_trace (fst (m w)) = w_trace w)"

definition first_write :: "string \<Rightarrow> 'a io \<Rightarrow> bool" where
  "first_write t m \<longleftrightarrow> (\<forall>w. \<exists>ts. w_trace (fst (m w)) = w_trace w @ ts \<and> (ts = [] \<or> hd ts = t))"

definition appends :: "'a io \<Rightarrow> bool" where
  "appends m \<longleftrightarrow> (\<forall>w. \<exists>ts. w_trace (fst (m w)) = w_trace w @ ts)"

lemma quiet_pure [intro]: "quiet (ret x)" "quiet (raise e)" "quiet (lift r)" "quiet (io_throw a b c)" "quiet (draw_uuid u)"
    "quiet (db_select t p)" "quiet (auditLog uu acc ctx ev)"
  by (simp_all add: quiet_def ret_def raise_def lift_def io_throw_def draw_uuid_def db_select_def guard_tx_def auditLog_def Let_def)

lemma quiet_bind [intro]: "quiet m \<Longrightarrow> (\<And>x. quiet (f x)) \<Longrightarrow> quiet (bind m f)"
  unfolding quiet_def fst_bind by (simp split: sum.split)

lemma quiet_if [intro]: "quiet a \<Longrightarrow> quiet b \<Longrightarrow> quiet (if c then a else b)" by simp

lemma quiet_option [intro]: "quiet a \<Longrightarrow> (\<And>x. quiet (f x)) \<Longrightarrow> quiet (case v of None \<Rightarrow> a | Some x \<Rightarrow> f x)"
  by (cases v) auto

lemma quiet_list [intro]: "quiet a \<Longrightarrow> (\<And>x xs. quiet (f x xs)) \<Longrightarrow> quiet (case v of [] \<Rightarrow> a | x # xs \<Rightarrow> f x xs)"
  by (cases v) auto

lemma quiet_appends: "quiet m \<Longrightarrow> appends m"
  by (auto simp: quiet_def appends_def)

lemma appends_bind [intro]: "appends m \<Longrightarrow> (\<And>x. appends (f x)) \<Longrightarrow> appends (bind m f)"
  unfolding appends_def fst_bind by (simp split: sum.split) (metis append.assoc)

lemma appends_stmt [intro]: "appends (db_insert t c n p u)" "appends (db_update t h f)" "appends (db_delete t h)"
  by (auto simp: appends_def db_insert_def db_update_def db_delete_def guard_tx_def Let_def split: option.split)

lemma appends_guard [intro]: "appends m \<Longrightarrow> appends (guard_tx m)"
  by (simp add: appends_def guard_tx_def)

interpretation appends_steps: step_property appends
  by unfold_locales (auto intro: quiet_appends)

lemma appends_each [intro]: "(\<And>x. appends (f x)) \<Longrightarrow> appends (io_each f xs)"
  by (rule appends_steps.holds_for_loops)

lemma appends_option [intro]: "appends a \<Longrightarrow> (\<And>x. appends (f x)) \<Longrightarrow> appends (case v of None \<Rightarrow> a | Some x \<Rightarrow> f x)"
  by (cases v) auto

lemma appends_pure [intro]: "appends (ret x)" "appends (lift r)" "appends (draw_uuid u)" "appends (auditLog uu acc ctx ev)"
  by (auto intro: quiet_appends)

lemma first_quiet: "quiet m \<Longrightarrow> (\<And>x. first_write t (f x)) \<Longrightarrow> first_write t (bind m f)"
  unfolding quiet_def first_write_def fst_bind by (simp split: sum.split) metis

text \<open>After a computation that, when it succeeds, has written to \<open>t\<close> first, anything may follow.\<close>

definition writes_first :: "string \<Rightarrow> 'a io \<Rightarrow> bool" where
  "writes_first t m \<longleftrightarrow>
     (\<forall>w. \<exists>ts. w_trace (fst (m w)) = w_trace w @ ts \<and> (ts = [] \<or> hd ts = t) \<and>
          (\<forall>x. snd (m w) = Inr x \<longrightarrow> ts \<noteq> []))"

lemma first_then_any:
  assumes "writes_first t m" "\<And>x. appends (f x)"
  shows "first_write t (bind m f)" "writes_first t (bind m f)"
proof -
  have "\<exists>ts. w_trace (fst (bind m f w)) = w_trace w @ ts \<and> (ts = [] \<or> hd ts = t) \<and>
      (\<forall>x. snd (bind m f w) = Inr x \<longrightarrow> ts \<noteq> [])" for w
  proof -
    obtain ts where ts: "w_trace (fst (m w)) = w_trace w @ ts" "ts = [] \<or> hd ts = t" "\<And>x. snd (m w) = Inr x \<Longrightarrow> ts \<noteq> []"
      using assms(1) unfolding writes_first_def by blast
    show ?thesis
    proof (cases "snd (m w)")
      case (Inl e)
      then show ?thesis using ts by (simp add: fst_bind snd_bind)
    next
      case (Inr x)
      obtain us where us: "w_trace (fst (f x (fst (m w)))) = w_trace (fst (m w)) @ us"
        using assms(2) [of x] unfolding appends_def by blast
      have "ts \<noteq> []" using ts(3) Inr by blast
      then have "ts @ us \<noteq> [] \<and> hd (ts @ us) = t" using ts(2) by simp
      then show ?thesis using Inr us ts(1) by (intro exI [of _ "ts @ us"]) (simp add: fst_bind)
    qed
  qed
  then show "first_write t (bind m f)" "writes_first t (bind m f)"
    unfolding first_write_def writes_first_def by blast+
qed

lemma writes_first_insert: "writes_first t (db_insert t c n p u)"
  by (auto simp: writes_first_def db_insert_def guard_tx_def Let_def split: option.split)

lemma writes_first_quiet:
  assumes "quiet m" "\<And>x. writes_first t (f x)" shows "writes_first t (bind m f)"
proof -
  have "\<exists>ts. w_trace (fst (bind m f w)) = w_trace w @ ts \<and> (ts = [] \<or> hd ts = t) \<and>
      (\<forall>x. snd (bind m f w) = Inr x \<longrightarrow> ts \<noteq> [])" for w
  proof (cases "snd (m w)")
    case (Inl e)
    then show ?thesis using assms(1) by (simp add: fst_bind snd_bind quiet_def)
  next
    case (Inr x)
    have "w_trace (fst (m w)) = w_trace w" using assms(1) by (simp add: quiet_def)
    then show ?thesis using assms(2) [of x] Inr unfolding writes_first_def by (simp add: fst_bind snd_bind) metis
  qed
  then show ?thesis unfolding writes_first_def by blast
qed

lemma quiet_prepare: "quiet (prepare d ctx input)"
  unfolding prepare_def isTenantPiiEnabled_def resolveCustomerIdentity_def findCustomerUuidByHashes_def Let_def
  by (intro quiet_bind quiet_if quiet_option quiet_list quiet_pure)

lemma vault_first: "writes_first ''app.pii_vault'' (vault_write d ctx input pii ident roId)"
  unfolding vault_write_def writePiiVaultRecord_def
  by (intro writes_first_quiet first_then_any(2) writes_first_insert quiet_pure appends_bind appends_pure)

lemma appends_rows: "appends (store_rows d ctx input routed ident roId roNumber)"
  unfolding store_rows_def storeDocument_def storeRepairOrder_def storeRepairOrderDetails_def ensureChunkTables_def
    insert_labor_def insert_part_def insert_deterministic_def Let_def
  by (intro appends_bind appends_pure appends_stmt appends_guard appends_each)

lemma appends_semantics: "appends (store_semantics d ctx routed ident roId)"
  unfolding store_semantics_def storeChunksAndEmbeddings_def insert_chunk_def Let_def
  by (intro appends_bind appends_pure appends_stmt appends_each appends_option)

lemma body_vault_first: "first_write ''app.pii_vault'' (pipeline_body d ctx input)"
  unfolding pipeline_body_def
proof (rule first_quiet [OF quiet_prepare])
  fix x :: "RoutedPayloads \<times> PiiPayload \<times> CustomerIdentity \<times> string"
  obtain routed pii ident roNumber where x: "x = (routed, pii, ident, roNumber)" by (cases x) auto
  have "first_write ''app.pii_vault''
     (bind (draw_uuid (dp_uuid d)) (\<lambda>roId. bind (vault_write d ctx input pii ident roId)
        (\<lambda>_. bind (store_rows d ctx input routed ident roId roNumber) (\<lambda>_. store_semantics d ctx routed ident roId))))"
    by (intro first_quiet quiet_pure first_then_any(1) vault_first appends_bind appends_rows appends_semantics)
  then show "first_write ''app.pii_vault'' (case x of (routed, pii, ident, roNumber) \<Rightarrow>
      bind (draw_uuid (dp_uuid d)) (\<lambda>roId. bind (vault_write d ctx input pii ident roId)
        (\<lambda>_. bind (store_rows d ctx input routed ident roId roNumber) (\<lambda>_. store_semantics d ctx routed ident roId))))"
    by (simp add: x)
qed

lemma run_trace:
  assumes "first_write t fn"
  shows "\<exists>ts. w_trace (fst (runWithTransaction ctx fn w)) = w_trace w @ ts \<and> (ts = [] \<or> hd ts = t)"
proof (cases "ensureContext ctx")
  case (Inl e)
  then show ?thesis by (simp add: runWithTransaction_def bind_def)
next
  case (Inr u)
  then have c: "ensureContext ctx = Inr ()" by simp
  have "w_trace (tx_world ctx w) = w_trace w" by (simp add: tx_world_def)
  moreover obtain ts where "w_trace (fst (fn (tx_world ctx w))) = w_trace (tx_world ctx w) @ ts" "ts = [] \<or> hd ts = t"
    using assms unfolding first_write_def by blast
  ultimately have ts: "w_trace (fst (fn (tx_world ctx w))) = w_trace w @ ts" "ts = [] \<or> hd ts = t" by simp_all
  then show ?thesis
    unfolding run_tx [OF c]
    by (auto simp: tx_commit_def tx_rollback_def split: prod.split sum.split)
qed

section \<open>Keys of the payload\<close>

lemma det_setter_keys: "setDeterministicField v f t = Inr v' \<Longrightarrow> \<exists>ks. d_keys v' = d_keys v @ ks"
  unfolding setDeterministicField_def by (auto simp: add_key_def res_bind_ok_iff split: if_splits)

lemma route_leaf_keys:
  assumes "route_leaf leaf st = Inr st'" shows "\<exists>ks. d_keys (rs_det st') = d_keys (rs_det st) @ ks"
  using assms by (cases rule: route_leaf_cases)
    (auto dest: route_part_frame route_labor_frame det_setter_keys)

lemma routed_keys:
  assumes "routeXmlToPayloads xml = Inr r"
  shows "\<exists>ks. d_keys (rp_det r) = ''laborLines'' # ''partLines'' # ks"
proof -
  from assms obtain leaves st where l: "res_fold route_leaf leaves init_route = Inr st"
    "rp_det r = (rs_det st)\<lparr>d_laborLines := js_sort labor_le (map snd (rs_labor st)),
                           d_partLines := js_sort part_le (map snd (rs_part st))\<rparr>"
    by (rule route_ok_elim)
  have "\<exists>ks. d_keys (rs_det st) = ''laborLines'' # ''partLines'' # ks"
  proof (rule res_fold_invariant [OF l(1)])
    show "\<exists>ks. d_keys (rs_det init_route) = ''laborLines'' # ''partLines'' # ks"
      by (simp add: init_route_def initDeterministicPayload_def)
  next
    fix x u v assume "\<exists>ks. d_keys (rs_det u) = ''laborLines'' # ''partLines'' # ks" "route_leaf x u = Inr v"
    then show "\<exists>ks. d_keys (rs_det v) = ''laborLines'' # ''partLines'' # ks"
      using route_leaf_keys by (metis append_Cons)
  qed
  then show ?thesis using l(2) by simp
qed

lemma join_includes: "x \<in> set xs \<Longrightarrow> js_includes (js_join sep xs) x"
proof (induction sep xs rule: js_join.induct)
  case (2 sep y)
  then show ?case by (auto simp: js_includes_iff intro: exI [of _ "[]"])
next
  case (3 sep y z zs)
  show ?case
  proof (cases "x = y")
    case True
    then have "js_join sep (y # z # zs) = [] @ x @ (sep @ js_join sep (z # zs))" by simp
    then show ?thesis unfolding js_includes_iff by blast
  next
    case False
    then have "js_includes (js_join sep (z # zs)) x" using 3 by auto
    then obtain a b where "js_join sep (z # zs) = a @ x @ b" by (auto simp: js_includes_iff)
    then have "js_join sep (y # z # zs) = (y @ sep @ a) @ x @ b" by simp
    then show ?thesis unfolding js_includes_iff by blast
  qed
qed simp

lemma det_json_keys:
  assumes "d_keys p = ''laborLines'' # ''partLines'' # ks"
  shows "js_includes (det_json p) ''laborLines''" "js_includes (det_json p) ''partLines''"
proof -
  have obj: "js_includes (json_object keys props) k" if "k' \<in> set keys" "map_of props k' = Some (Some v)" "js_includes (json_string k') k"
    for keys props k k' v
  proof -
    have "json_string k' @ '':'' @ v \<in> set (concat (map (json_prop props) keys))"
      using that(1,2) by (auto simp: json_prop_def intro!: bexI [of _ k'])
    then have "js_includes (js_join '','' (concat (map (json_prop props) keys))) (json_string k' @ '':'' @ v)"
      by (rule join_includes)
    then have "js_includes (json_object keys props) (json_string k' @ '':'' @ v)"
      unfolding json_object_def js_includes_iff by (metis append.assoc)
    moreover have "js_includes (json_string k' @ '':'' @ v) k"
      using that(3) unfolding js_includes_iff by (metis append.assoc)
    ultimately show ?thesis by (rule js_includes_trans)
  qed
  have "js_includes (json_string ''laborLines'') ''laborLines''" "js_includes (json_string ''partLines'') ''partLines''"
    by code_simp+
  note o1 = obj [OF _ _ this(1)] and o2 = obj [OF _ _ this(2)]
  show "js_includes (det_json p) ''laborLines''" unfolding det_json_def by (rule o1) (simp_all add: assms)
  show "js_includes (det_json p) ''partLines''" unfolding det_json_def by (rule o2) (simp_all add: assms)
qed

section \<open>Properties of the pipeline\<close>

text \<open>C11: no run of the ingest pipeline succeeds and every run leaves all tables but the audit log as they were; the rows of the
  audit log are written over a connection of their own and stay (\<open>w_audit\<close>). The INSERT into
  \<open>ro_deterministic_v2\<close> has 60 columns, 62 placeholders and 59 parameters, which the server rejects,
  so every run ends in an error and the transaction is rolled back.\<close>

theorem pipeline_never_stores:
  "(\<exists>e. snd (runIngestPipeline d ctx input w) = Inl e) \<and> w_tables (fst (runIngestPipeline d ctx input w)) = w_tables w"
proof -
  obtain e where e: "snd (runIngestPipeline d ctx input w) = Inl e" using pipeline_fails by blast
  then have "w_tables (fst (runIngestPipeline d ctx input w)) = w_tables w"
    unfolding runIngestPipeline_def using contained_atomic [OF contained_pipeline] by blast
  with e show ?thesis by blast
qed

text \<open>C9: PII is vaulted first. Of the write statements a run of the pipeline issues, if any, the first
  is the one that writes the vault record.\<close>

theorem vault_write_precedes_all_writes:
  "\<exists>ts. w_trace (fst (runIngestPipeline d ctx input w)) = w_trace w @ ts \<and> (ts = [] \<or> hd ts = ''app.pii_vault'')"
  unfolding runIngestPipeline_def by (rule run_trace [OF body_vault_first])

end
