(* ===== verification/TenantFacts.thy ===== *)
theory TenantFacts
  imports PipelineFacts
begin

text \<open>
  What row level security gives a request: a transaction changes nothing of another tenant, reads
  only its own tenant's rows, and a session without a transaction reads none at all, because the
  settings made by \<open>set_config(..., true)\<close> end with their statement. Then the leak checks of the
  pipeline on the payloads the router builds, and the answer of the ingest request.
\<close>

section \<open>Rows of other tenants\<close>

definition tenant_of :: "RequestContext \<Rightarrow> string" where
  "tenant_of ctx = js_trim (str_or_empty (cx_tenantId ctx))"

definition foreign_rows :: "RequestContext \<Rightarrow> World \<Rightarrow> string \<Rightarrow> row list" where
  "foreign_rows ctx w t = filter (\<lambda>r. col r ''tenant_id'' \<noteq> SText (tenant_of ctx)) (w_tables w t)"

lemma tx_gucs: "map_of (w_gucs (tx_world ctx w)) ''app.tenant_id'' = Some (tenant_of ctx)"
  by (simp add: tx_world_def tenant_of_def)

lemma allowed_in_tx:
  "t \<in> set rls_tables \<Longrightarrow> w_gucs w' = w_gucs (tx_world ctx w) \<Longrightarrow>
     row_allowed w' t r = (tenant_of ctx \<noteq> [] \<and> col r ''tenant_id'' = SText (tenant_of ctx))"
  by (simp add: row_allowed_in allowed_in_def tx_gucs)

lemma foreign_of_others:
  assumes "t \<in> set rls_tables" "w_gucs w' = w_gucs (tx_world ctx w)" "others w' t = others w'' t" "w_gucs w'' = w_gucs w'"
  shows "foreign_rows ctx w' t = foreign_rows ctx w'' t"
proof -
  have "foreign_rows ctx v t = filter (\<lambda>r. col r ''tenant_id'' \<noteq> SText (tenant_of ctx)) (others v t)"
    if "w_gucs v = w_gucs (tx_world ctx w)" for v
    by (auto simp: foreign_rows_def others_def allowed_in_tx [OF assms(1) that] intro: filter_cong)
  then show ?thesis using assms by simp
qed

lemma tx_world_tables [simp]: "w_tables (tx_world ctx w) = w_tables w"
  by (simp add: tx_world_def)

text \<open>C2: a transaction of one tenant leaves every row of another tenant as it was, whether it commits
  or fails: its body, made of the statements of the code, runs under row level security with the
  tenant of the request.\<close>

theorem transaction_isolates_tenants:
  assumes "contained fn" "t \<in> set rls_tables"
  shows "foreign_rows ctx (fst (runWithTransaction ctx fn w)) t = foreign_rows ctx w t"
proof (cases "ensureContext ctx")
  case (Inl e)
  then show ?thesis by (simp add: runWithTransaction_def bind_def)
next
  case (Inr u)
  then have c: "ensureContext ctx = Inr ()" by simp
  let ?w = "tx_world ctx w"
  have k: "w_gucs (fst (fn ?w)) = w_gucs ?w" "w_saved (fst (fn ?w)) = w_tables w" "others (fst (fn ?w)) t = others ?w t"
    using assms(1) by (simp_all add: contained_def) (simp add: tx_world_def)
  have f: "foreign_rows ctx (fst (fn ?w)) t = foreign_rows ctx ?w t"
    by (rule foreign_of_others [OF assms(2) k(1) k(3)]) (simp add: k(1))
  show ?thesis
    unfolding run_tx [OF c] using k(2) f
    by (auto simp: foreign_rows_def tx_commit_def tx_rollback_def split: prod.split sum.split)
qed

definition sample_ctx :: RequestContext where
  "sample_ctx = \<lparr>cx_requestId = Some ''r'', cx_userId = Some ''u'',
     cx_tenantId = Some ''00000000-0000-0000-0000-00000000000a'', cx_role = Some ADMIN,
     cx_ip = None, cx_userAgent = None\<rparr>"

definition sample_world :: World where
  "sample_world = \<lparr>w_tables = (\<lambda>t. if t = ''app.repair_orders''
       then [[(''tenant_id'', SText ''00000000-0000-0000-0000-00000000000a''), (''ro_number'', SText ''1'')],
             [(''tenant_id'', SText ''00000000-0000-0000-0000-00000000000b''), (''ro_number'', SText ''2'')]] else []),
     w_inTx = False, w_failed = False, w_gucs = [], w_saved = (\<lambda>_. []), w_audit = [], w_trace = [], w_drawn = 0\<rparr>"

theorem isolation_witness:
  "foreign_rows sample_ctx (fst (runWithTransaction sample_ctx (db_delete ''app.repair_orders'' (\<lambda>_. True)) sample_world))
     ''app.repair_orders'' = [[(''tenant_id'', SText ''00000000-0000-0000-0000-00000000000b''), (''ro_number'', SText ''2'')]]"
proof -
  have "''app.repair_orders'' \<in> set rls_tables" by (simp add: rls_tables_def)
  from transaction_isolates_tenants [OF contained_delete this, of sample_ctx "''app.repair_orders''" "\<lambda>_. True" sample_world]
  show ?thesis by (simp add: foreign_rows_def sample_world_def tenant_of_def) code_simp
qed

section \<open>A session without a transaction\<close>

lemma setRls_no_tx: "\<not> w_inTx w \<Longrightarrow> \<not> w_failed w \<Longrightarrow> setRlsContext ctx w = (w, Inr ())"
  by (simp add: setRlsContext_def bind_def set_config_no_tx)

lemma select_result: "\<not> w_failed w \<Longrightarrow> db_select t p w = (w, Inr (filter p (filter (row_allowed w t) (w_tables w t))))"
  by (simp add: db_select_def guard_tx_def visible_def)

text \<open>C8: the same query sees the tenant's rows in a transaction and none outside of one. The settings
  of \<open>withRequestContext\<close> are transaction-local and it opens no transaction, so on every table with row
  level security its queries come back empty.\<close>

theorem request_context_sees_no_rows:
  assumes "ensureContext ctx = Inr ()" "isUuid (tenant_of ctx)" "t \<in> set rls_tables"
    and "\<not> w_inTx w" "\<not> w_failed w" "map_of (w_gucs w) ''app.tenant_id'' = None"
  shows "snd (withRequestContext ctx (db_select t p) w) = Inr [] \<and>
    snd (runWithTransaction ctx (db_select t p) w) =
      Inr (filter p (filter (\<lambda>r. col r ''tenant_id'' = SText (tenant_of ctx)) (w_tables w t)))"
proof -
  have ne: "tenant_of ctx \<noteq> []" using assms(2) by (auto simp: isUuid_def js_split_absent)
  have none: "filter (row_allowed w t) (w_tables w t) = []"
    using assms(3,6) by (simp add: row_allowed_in allowed_in_def)
  have "snd (withRequestContext ctx (db_select t p) w) = Inr []"
    using assms(1,2,4,5) none
    by (simp add: withRequestContext_def bind_def setRls_no_tx withTenantContext_def Let_def tenant_of_def set_config_no_tx select_result)
  moreover have "tenant_ok ctx" using assms(2) by (simp add: tenant_ok_def tenant_of_def Let_def)
  then have "snd (runWithTransaction ctx (db_select t p) w) =
      Inr (filter p (filter (row_allowed (tx_world ctx w) t) (w_tables w t)))"
    unfolding run_tx [OF assms(1)] by (simp add: select_result tx_world_def)
  moreover have "row_allowed (tx_world ctx w) t = (\<lambda>r. col r ''tenant_id'' = SText (tenant_of ctx))"
    using allowed_in_tx [OF assms(3) refl] ne by blast
  ultimately show ?thesis by simp
qed

theorem request_context_witness:
  "snd (withRequestContext sample_ctx (db_select ''app.repair_orders'' (\<lambda>_. True)) sample_world) = Inr [] \<and>
   snd (runWithTransaction sample_ctx (db_select ''app.repair_orders'' (\<lambda>_. True)) sample_world) =
     Inr [[(''tenant_id'', SText ''00000000-0000-0000-0000-00000000000a''), (''ro_number'', SText ''1'')]]"
proof -
  have h: "ensureContext sample_ctx = Inr ()" "isUuid (tenant_of sample_ctx)" "''app.repair_orders'' \<in> set rls_tables"
    "\<not> w_inTx sample_world" "\<not> w_failed sample_world" "map_of (w_gucs sample_world) ''app.tenant_id'' = None"
    by code_simp+
  have "filter (\<lambda>_. True) (filter (\<lambda>r. col r ''tenant_id'' = SText (tenant_of sample_ctx)) (w_tables sample_world ''app.repair_orders'')) =
      [[(''tenant_id'', SText ''00000000-0000-0000-0000-00000000000a''), (''ro_number'', SText ''1'')]]"
    by code_simp
  with request_context_sees_no_rows [OF h, of "\<lambda>_. True"] show ?thesis by simp
qed

section \<open>The leak check on the deterministic payload\<close>

lemma leaks_value:
  assumes "v \<in> set (flattenPiiValues pii)" "js_includes h (toLowerCase v)"
  shows "leaks h pii"
  using assms by (auto simp: leaks_def list_ex_iff)

lemma det_json_lower:
  assumes "routeXmlToPayloads xml = Inr r"
  shows "js_includes (toLowerCase (det_json (rp_det r))) ''laborlines''"
    "js_includes (toLowerCase (det_json (rp_det r))) ''partlines''"
proof -
  obtain ks where k: "d_keys (rp_det r) = ''laborLines'' # ''partLines'' # ks" using routed_keys [OF assms] by blast
  have "toLowerCase ''laborLines'' = ''laborlines''" "toLowerCase ''partLines'' = ''partlines''" by code_simp+
  then show "js_includes (toLowerCase (det_json (rp_det r))) ''laborlines''"
    "js_includes (toLowerCase (det_json (rp_det r))) ''partlines''"
    using js_includes_lower [OF det_json_keys(1) [OF k]] js_includes_lower [OF det_json_keys(2) [OF k]] by simp_all
qed

text \<open>The leak check rejects every document whose address has the state IN, LA, OR, NE, PA or AR. It
  looks for each PII value as a substring of the payload's JSON, whose keys \<open>laborLines\<close> and \<open>partLines\<close>
  contain these letters whatever the document says.\<close>

theorem short_states_are_rejected:
  assumes "routeXmlToPayloads xml = Inr r" "rp_pii r = Some p" "pp_address p = Some a" "a_state a = Some s"
    and "toLowerCase s \<in> set [''in'', ''la'', ''or'', ''ne'', ''pa'', ''ar'']"
  shows "assertNoPiiInDeterministic (rp_pii r) (rp_det r) =
    throw ''PII detected in deterministic payload'' 400 ''PII_DETERMINISTIC_LEAK''"
proof -
  have "s \<noteq> []" using assms(5) by (auto simp: toLowerCase_def)
  then have s: "s \<in> set (flattenPiiValues (rp_pii r))"
    using assms(2,3,4) by (simp add: flattenPiiValues_def opt_list_def)
  have sub: "js_includes ''laborlines'' x \<or> js_includes ''partlines'' x"
    if "x \<in> set [''in'', ''la'', ''or'', ''ne'', ''pa'', ''ar'']" for x
  proof -
    have "\<forall>x\<in>set [''in'', ''la'', ''or'', ''ne'', ''pa'', ''ar'']. js_includes ''laborlines'' x \<or> js_includes ''partlines'' x"
      by code_simp
    then show ?thesis using that by blast
  qed
  have "js_includes (toLowerCase (det_json (rp_det r))) (toLowerCase s)"
    using sub [OF assms(5)] det_json_lower [OF assms(1)] js_includes_trans by blast
  then have "leaks (toLowerCase (det_json (rp_det r))) (rp_pii r)" by (rule leaks_value [OF s])
  then show ?thesis using assms(2) by (simp add: assertNoPiiInDeterministic_def)
qed

definition state_of :: "RoutedPayloads res \<Rightarrow> string option" where
  "state_of res =
     (case res of Inl e \<Rightarrow> None
      | Inr r \<Rightarrow> (case rp_pii r of None \<Rightarrow> None
                  | Some p \<Rightarrow> (case pp_address p of None \<Rightarrow> None | Some a \<Rightarrow> a_state a)))"

theorem short_states_witness:
  "\<exists>r. routeXmlToPayloads ''<r><CUSTOMER_ADDRESS_STATE>PA</CUSTOMER_ADDRESS_STATE></r>'' = Inr r \<and>
     assertNoPiiInDeterministic (rp_pii r) (rp_det r) =
       throw ''PII detected in deterministic payload'' 400 ''PII_DETERMINISTIC_LEAK''"
proof -
  let ?xml = "''<r><CUSTOMER_ADDRESS_STATE>PA</CUSTOMER_ADDRESS_STATE></r>''"
  have "state_of (routeXmlToPayloads ?xml) = Some ''PA''" by code_simp
  then obtain r p a where r: "routeXmlToPayloads ?xml = Inr r" "rp_pii r = Some p" "pp_address p = Some a" "a_state a = Some ''PA''"
    by (auto simp: state_of_def split: sum.splits option.splits)
  have "toLowerCase ''PA'' = ''pa''" by code_simp
  then have "toLowerCase ''PA'' \<in> set [''in'', ''la'', ''or'', ''ne'', ''pa'', ''ar'']" by simp
  from short_states_are_rejected [OF r this] r(1) show ?thesis by blast
qed

end
