(* ===== verification/VaultFacts.thy ===== *)
theory VaultFacts
  imports TenantFacts
begin

text \<open>
  Chunking and embedding of the redacted text, sealing and opening of the vault payload, the lookup of
  a customer by hashed identifiers, and the answer of the ingest request.
\<close>

section \<open>Chunks\<close>

definition window :: "string \<Rightarrow> nat \<Rightarrow> string" where
  "window s i = take CHUNK_SIZE (drop (CHUNK_SIZE * i) s)"

definition window_count :: "string \<Rightarrow> nat" where
  "window_count s = (length s + (CHUNK_SIZE - 1)) div CHUNK_SIZE"

lemma window_drop: "window (drop CHUNK_SIZE s) i = window s (Suc i)"
  by (simp add: window_def add.commute)

lemma window_count_step: "s \<noteq> [] \<Longrightarrow> window_count s = Suc (window_count (drop CHUNK_SIZE s))"
proof -
  have count: "0 < n \<Longrightarrow> (n + 799) div 800 = Suc ((n - 800 + 799) div 800)" for n :: nat
  proof (cases "800 \<le> n")
    case True
    then have "n + 799 = (n - 800 + 799) + 800" by simp
    then show ?thesis by (metis Suc_eq_plus1 div_add_self2 zero_neq_numeral)
  next
    case False
    moreover assume "0 < n"
    ultimately have "(n + 799) div 800 = 1" by (intro div_nat_eqI) simp_all
    then show ?thesis using False by simp
  qed
  assume "s \<noteq> []"
  then show ?thesis using count [of "length s"] by (simp add: window_count_def CHUNK_SIZE_def)
qed

lemma windows_step:
  "s \<noteq> [] \<Longrightarrow> map (window s) [0..<window_count s] =
     take CHUNK_SIZE s # map (window (drop CHUNK_SIZE s)) [0..<window_count (drop CHUNK_SIZE s)]"
  by (simp add: window_count_step upt_conv_Cons map_Suc_upt [symmetric] window_drop comp_def del: upt_Suc map_map)
     (simp add: window_def add.commute)

lemma chunks_from_shape:
  "map c_text (chunks_from i s) = filter (\<lambda>p. js_trim p \<noteq> []) (map (window s) [0..<window_count s]) \<and>
   map c_index (chunks_from i s) = [i..<i + length (chunks_from i s)] \<and>
   map c_id (chunks_from i s) = map (\<lambda>j. digits_of (int j)) [i..<i + length (chunks_from i s)]"
proof (induction i s rule: chunks_from.induct)
  case (1 i s)
  show ?case
  proof (cases "s = []")
    case True
    then show ?thesis by (simp add: chunks_from.simps window_count_def CHUNK_SIZE_def)
  next
    case ne: False
    show ?thesis
    proof (cases "js_trim (take CHUNK_SIZE s) = []")
      case True
      then have "chunks_from i s = chunks_from i (drop CHUNK_SIZE s)"
        using ne by (subst chunks_from.simps) (simp add: Let_def)
      then show ?thesis using 1(1) [OF ne refl refl True] True windows_step [OF ne] by simp
    next
      case False
      then have "chunks_from i s =
          \<lparr>c_id = digits_of (int i), c_text = take CHUNK_SIZE s, c_index = i\<rparr> # chunks_from (i + 1) (drop CHUNK_SIZE s)"
        using ne by (subst chunks_from.simps) (simp add: Let_def)
      moreover have "[i..<i + (n + Suc 0)] = i # [i + Suc 0..<i + Suc 0 + n]" for n
        by (simp add: upt_conv_Cons del: upt_Suc)
      ultimately show ?thesis
        using 1(2) [OF ne refl refl False] False windows_step [OF ne] by (simp del: upt_Suc add_Suc_right)
    qed
  qed
qed

text \<open>The chunks of a text are its consecutive windows of 800 characters, without the windows that
  are only white space, numbered from 0 in their order.\<close>

theorem chunks_are_the_windows:
  "map c_text (chunkText s) =
     filter (\<lambda>p. js_trim p \<noteq> []) (map (\<lambda>i. take 800 (drop (800 * i) s)) [0..<(length s + 799) div 800]) \<and>
   map c_index (chunkText s) = [0..<length (chunkText s)] \<and>
   map c_id (chunkText s) = map (\<lambda>j. digits_of (int j)) [0..<length (chunkText s)]"
  using chunks_from_shape [of 0 s] by (simp add: chunkText_def window_def [abs_def] window_count_def CHUNK_SIZE_def)

section \<open>Embeddings\<close>

lemma embedText_unfold:
  "embedText service t =
     (case embed_once (service t 0) of
        Inr v \<Rightarrow> ok v
      | Inl _ \<Rightarrow> (case embed_once (service t 1) of
          Inr v \<Rightarrow> ok v
        | Inl (App e) \<Rightarrow> Inl (App e)
        | Inl _ \<Rightarrow> throw ''Embedding service unavailable'' 503 ''EMBED_FAIL''))"
  by (simp add: embedText_def numeral_2_eq_2 split: sum.split err.split)

lemma embed_once_ok: "embed_once r = Inr v \<longleftrightarrow> r = Embedding v"
  by (cases r) (auto simp: embed_once_def throw_def)

lemma embed_once_app: "embed_once r = Inl (App e) \<Longrightarrow> ae_code e = Some ''EMBED_FAIL''"
  by (cases r) (auto simp: embed_once_def throw_def app_error_def)

text \<open>The embedding of a text is the first of the service's two answers that carries one. When
  neither does, the error has the code EMBED_FAIL, which the ingest request answers with status 503.\<close>

theorem embedding_is_first_good_answer:
  "case embedText service t of
     Inr v \<Rightarrow> service t 0 = Embedding v \<or> ((\<nexists>u. service t 0 = Embedding u) \<and> service t 1 = Embedding v)
   | Inl e \<Rightarrow> (\<nexists>u. service t 0 = Embedding u) \<and> (\<nexists>u. service t 1 = Embedding u) \<and>
       err_code e = Some ''EMBED_FAIL'' \<and> ingest_status e = 503 \<and> ingest_stage e = ''embed''"
proof (cases "embed_once (service t 0)")
  case (Inr v)
  then have "embedText service t = Inr v" by (simp add: embedText_unfold)
  then show ?thesis using Inr by (simp add: embed_once_ok)
next
  case (Inl e0)
  then have n0: "\<nexists>u. service t 0 = Embedding u" by (metis embed_once_ok Inl_Inr_False)
  show ?thesis
  proof (cases "embed_once (service t 1)")
    case (Inr v)
    then have "embedText service t = Inr v" using Inl by (simp add: embedText_unfold)
    then show ?thesis using Inr n0 by (simp add: embed_once_ok)
  next
    case (Inl e1)
    then have n1: "\<nexists>u. service t 1 = Embedding u" by (metis embed_once_ok Inl_Inr_False)
    show ?thesis
      using n0 n1 Inl \<open>embed_once (service t 0) = Inl e0\<close> embed_once_app [of "service t 1"]
      by (cases e1) (auto simp: embedText_unfold throw_def app_error_def err_code_def ingest_status_def ingest_stage_def)
  qed
qed

lemma embedChunks_pairs:
  assumes "embedChunks service cs = Inr es"
  shows "map ec_chunkId es = map c_id cs \<and> list_all2 (\<lambda>c e. embedText service (c_text c) = Inr (ec_embedding e)) cs es"
  using assms
proof (induction cs arbitrary: es)
  case Nil
  then show ?case by (simp add: embedChunks_def)
next
  case (Cons c cs)
  then show ?case by (auto simp: embedChunks_def res_bind_ok_iff)
qed

lemma find_by_id:
  assumes "map f es = map g cs" "list_all2 P cs es" "distinct (map g cs)" "c \<in> set cs"
  shows "\<exists>e. find (\<lambda>e. f e = g c) es = Some e \<and> P c e"
  using assms
proof (induction cs arbitrary: es)
  case (Cons d cs)
  obtain e es' where es: "es = e # es'" using Cons.prems(1) by (cases es) auto
  show ?case
  proof (cases "c = d")
    case True
    then show ?thesis using Cons.prems es by auto
  next
    case False
    then have "c \<in> set cs" using Cons.prems(4) by simp
    moreover have "f e \<noteq> g c" using Cons.prems(1,3) es \<open>c \<in> set cs\<close> by (auto simp: image_iff)
    ultimately show ?thesis using Cons es by simp
  qed
qed simp

lemma chunk_ids_distinct: "distinct (map c_id (chunkText s))"
proof -
  have "inj_on (\<lambda>j. digits_of (int j)) A" for A
    by (rule inj_onI) (metis digits_val_of of_nat_0_le_iff of_nat_eq_iff)
  then show ?thesis unfolding chunkText_def using chunks_from_shape [of 0 s] by (simp add: distinct_map)
qed

text \<open>Every chunk of a text is stored with the embedding of its own text: the lookup by chunk id in
  the embeddings gives the one computed for that chunk.\<close>

theorem chunk_gets_its_embedding:
  assumes "embedChunks service (chunkText s) = Inr es" "c \<in> set (chunkText s)"
  shows "\<exists>e. find (\<lambda>e. ec_chunkId e = c_id c) es = Some e \<and> embedText service (c_text c) = Inr (ec_embedding e)"
  using embedChunks_pairs [OF assms(1)] find_by_id [where f = ec_chunkId and g = c_id, OF _ _ chunk_ids_distinct assms(2)]
  by blast

theorem chunk_embedding_witness:
  "\<exists>e. find (\<lambda>e. ec_chunkId e = ''0'') [\<lparr>ec_chunkId = ''0'', ec_embedding = [Fin 2]\<rparr>] = Some e \<and>
     embedText (\<lambda>t i. if i = 0 then NetworkError else Embedding [Fin (of_nat (length t))]) ''ab'' = Inr (ec_embedding e)"
proof -
  let ?f = "\<lambda>t i. if i = 0 then NetworkError else Embedding [Fin (of_nat (length t))]"
  have c: "chunkText ''ab'' = [\<lparr>c_id = ''0'', c_text = ''ab'', c_index = 0\<rparr>]" by code_simp
  have "embedChunks ?f (chunkText ''ab'') = Inr [\<lparr>ec_chunkId = ''0'', ec_embedding = [Fin 2]\<rparr>]" by code_simp
  from chunk_gets_its_embedding [OF this, of "\<lparr>c_id = ''0'', c_text = ''ab'', c_index = 0\<rparr>"] c
  show ?thesis by simp
qed

section \<open>Sealing\<close>

text \<open>C13: what is sealed for the vault opens again to the same payload, also with a later key ring, as
  long as that ring still has the key the payload was sealed with: the sealed record names its key.\<close>

theorem vault_roundtrip:
  assumes "\<And>k n x. unseal k n (fst (seal k n x)) (snd (seal k n x)) = Inr x"
    and "\<And>k n x. length (snd (seal k n x)) = 16" "\<And>k n x. length (fst (seal k n x)) = length x"
    and "json p \<noteq> []" "parse (json p) = Inr p"
    and "encryptPiiPayload seal json ring nonce p = Inr s"
    and "map_of (kr_keys ring') (kr_active ring) = map_of (kr_keys ring) (kr_active ring)"
  shows "decryptPiiPayload unseal parse ring' s = Inr p"
proof -
  obtain key where key: "assertKey (map_of (kr_keys ring) (kr_active ring)) = Inr key"
    "s = \<lparr>se_keyRef = kr_active ring, se_nonce = nonce,
          se_ciphertext = fst (seal key nonce (json p)) @ snd (seal key nonce (json p))\<rparr>"
    using assms(6) by (auto simp: encryptPiiPayload_def res_bind_ok_iff case_prod_beta)
  have "0 < length (json p)" using assms(4) by simp
  then show ?thesis
    using key(1) assms(1,2,3,5,7) unfolding key(2) decryptPiiPayload_def by (simp add: Let_def)
qed

theorem vault_roundtrip_witness:
  "\<exists>s. encryptPiiPayload (\<lambda>k n x. (rev x, replicate 16 CHR ''t'')) (\<lambda>p. str_or_empty (pp_customerName p))
         \<lparr>kr_active = ''k1'', kr_keys = [(''k1'', replicate 32 CHR ''a'')]\<rparr> ''n'' (initPiiPayload\<lparr>pp_customerName := Some ''Ann''\<rparr>) = Inr s \<and>
     decryptPiiPayload (\<lambda>k n c t. Inr (rev c)) (\<lambda>x. Inr (initPiiPayload\<lparr>pp_customerName := Some x\<rparr>))
         \<lparr>kr_active = ''k2'', kr_keys = [(''k2'', ''z''), (''k1'', replicate 32 CHR ''a'')]\<rparr> s
       = Inr (initPiiPayload\<lparr>pp_customerName := Some ''Ann''\<rparr>)"
proof -
  let ?seal = "\<lambda>(k :: string) (n :: string) (x :: string). (rev x, replicate 16 CHR ''t'')"
  let ?json = "\<lambda>p. str_or_empty (pp_customerName p)"
  let ?parse = "\<lambda>x. Inr (initPiiPayload\<lparr>pp_customerName := Some x\<rparr>)"
  let ?p = "initPiiPayload\<lparr>pp_customerName := Some ''Ann''\<rparr>"
  let ?ring = "\<lparr>kr_active = ''k1'', kr_keys = [(''k1'', replicate 32 CHR ''a'')]\<rparr>"
  let ?ring' = "\<lparr>kr_active = ''k2'', kr_keys = [(''k2'', ''z''), (''k1'', replicate 32 CHR ''a'')]\<rparr>"
  have "is_ok (encryptPiiPayload ?seal ?json ?ring ''n'' ?p)" by code_simp
  then obtain s where s: "encryptPiiPayload ?seal ?json ?ring ''n'' ?p = Inr s" by (auto simp: is_ok_iff)
  have "?json ?p \<noteq> []" "?parse (?json ?p) = Inr ?p" by (simp_all add: str_or_empty_def)
  then have "decryptPiiPayload (\<lambda>k n c t. Inr (rev c)) ?parse ?ring' s = Inr ?p"
    using s by (intro vault_roundtrip [where seal = ?seal and json = ?json and ring = ?ring and nonce = "''n''"]) simp_all
  then show ?thesis using s by blast
qed

section \<open>The customer of a document\<close>

lemma hash_map_ok:
  "res_map (\<lambda>v. hashValue hmac env (g v)) xs = Inr ys \<Longrightarrow> ys = map (\<lambda>v. hmac (getHashKey env) (g v)) xs"
proof (induction xs arbitrary: ys)
  case (Cons x xs)
  then show ?case by (auto simp: res_bind_ok_iff hashValue_def split: if_splits)
qed simp

lemma email_hashes:
  "buildPiiHashes hmac env p = Inr h \<Longrightarrow>
     ph_emails h = map (\<lambda>v. hmac (getHashKey env) (normalizeValue v)) (list_or_empty (pp_emails p))"
  by (auto simp: buildPiiHashes_def Let_def res_bind_ok_iff dest: hash_map_ok)

lemma insert_adds:
  assumes "db_insert t cols n params up w = (w', Inr ())"
  shows "w_gucs w' = w_gucs w \<and> w_failed w' = w_failed w \<and> w_drawn w' = w_drawn w \<and>
    row_allowed w t (zip cols params) \<and> zip cols params \<in> set (w_tables w' t) \<and>
    set (w_tables w' t) \<subseteq> insert (zip cols params) (set (w_tables w t))"
proof -
  have "\<not> w_failed w" using assms by (auto simp: db_insert_def guard_tx_def)
  then show ?thesis
    using assms
    by (auto simp: db_insert_def guard_tx_def Let_def fail_stmt_def noted_def row_allowed_in list_ex_iff
        split: if_splits option.splits)
qed

lemma vault_row_cols:
  fixes h :: PiiHashes
  assumes "r = zip [''tenant_id'', ''ro_id'', ''customer_id'', ''customer_uuid'', ''key_ref'', ''nonce'', ''ciphertext'', ''name_hash'',
          ''email_hashes'', ''phone_hashes'', ''vin_hashes'', ''license_plate_hashes'', ''address_hash'']
         [sql_text t, SText roId, SText u, SText u, SText k, SBytes n, SBytes c, sql_text (ph_name h),
          sql_array (ph_emails h), x1, x2, x3, x4]"
  shows "col r ''tenant_id'' = sql_text t" "col r ''customer_uuid'' = SText u" "col r ''email_hashes'' = sql_array (ph_emails h)"
  by (simp_all add: assms col_def)

text \<open>C7: a returning customer is recognised. After a vault record with the hashes of one payload is
  written, a payload of the same tenant with an e-mail address that is the same up to case and
  surrounding white space resolves to the record's customer, and no new identifier is drawn (unless an
  older record of the tenant that matches belongs to another customer).\<close>

theorem returning_customer_is_recognised:
  assumes "writePiiVaultRecord ctx roId u s h w = (w', Inr ())" "cx_tenantId ctx = Some tid"
    and "buildPiiHashes hmac env p = Inr h" "buildPiiHashes hmac env p' = Inr h'"
    and "e \<in> set (list_or_empty (pp_emails p))" "e' \<in> set (list_or_empty (pp_emails p'))" "normalizeValue e = normalizeValue e'"
    and "hmac (getHashKey env) (normalizeValue e) \<noteq> []" "\<not> w_failed w"
    and "\<And>r. r \<in> set (w_tables w ''app.pii_vault'') \<Longrightarrow> hash_match ctx (hash_list h') r \<Longrightarrow> col r ''customer_uuid'' = SText u"
  shows "resolveCustomerIdentity uuid hmac env ctx (Some p') w' =
    (w', Inr \<lparr>ci_customerUuid = u, ci_hashes = hash_list h', ci_parts = h'\<rparr>)"
proof -
  let ?x = "hmac (getHashKey env) (normalizeValue e)"
  have x1: "?x \<in> set (ph_emails h)" using email_hashes [OF assms(3)] assms(5) by simp
  have "?x \<in> set (ph_emails h')" using email_hashes [OF assms(4)] assms(6,7) by simp
  then have "?x \<in> set (hash_list h')" using assms(8) by (simp add: hash_list_def)
  note x = x1 this
  define r where "r = zip [''tenant_id'', ''ro_id'', ''customer_id'', ''customer_uuid'', ''key_ref'', ''nonce'', ''ciphertext'', ''name_hash'',
          ''email_hashes'', ''phone_hashes'', ''vin_hashes'', ''license_plate_hashes'', ''address_hash'']
         [sql_text (cx_tenantId ctx), SText roId, SText u, SText u, SText (se_keyRef s),
          SBytes (se_nonce s), SBytes (se_ciphertext s), sql_text (ph_name h), sql_array (ph_emails h),
          sql_array (ph_phones h), sql_array (ph_vins h), sql_array (ph_plates h), sql_text (ph_address h)]"
  have ins: "w_gucs w' = w_gucs w" "w_failed w' = w_failed w" "row_allowed w ''app.pii_vault'' r"
    "r \<in> set (w_tables w' ''app.pii_vault'')" "set (w_tables w' ''app.pii_vault'') \<subseteq> insert r (set (w_tables w ''app.pii_vault''))"
    using assms(1) insert_adds unfolding writePiiVaultRecord_def r_def bind_ok by (auto simp: lift_def dest!: insert_adds)
  have m: "hash_match ctx (hash_list h') r"
    using x by (auto simp: hash_match_def vault_row_cols [OF r_def] assms(2) sql_text_def str_or_empty_def sql_array_def overlaps_def list_ex_iff)
  have uu: "col r ''customer_uuid'' = SText u" by (rule vault_row_cols(2) [OF r_def])
  let ?rows = "filter (hash_match ctx (hash_list h')) (visible w' ''app.pii_vault'')"
  have "r \<in> set ?rows" using ins m by (simp add: visible_def row_allowed_in)
  moreover have "\<forall>q\<in>set ?rows. col q ''customer_uuid'' = SText u"
    using ins(5) uu assms(10) by (auto simp: visible_def)
  ultimately obtain q qs where q: "?rows = q # qs" "col q ''customer_uuid'' = SText u" by (cases ?rows) auto
  have "findCustomerUuidByHashes ctx (hash_list h') w' = (w', Inr (Some u))"
    using x(2) q ins(2) assms(9) by (auto simp: findCustomerUuidByHashes_def bind_def db_select_def guard_tx_def ret_def as_text_def)
  moreover have "hash_list h' \<noteq> []" using x(2) by auto
  ultimately show ?thesis by (simp add: resolveCustomerIdentity_def bind_def assms(4) ret_def)
qed

theorem returning_customer_witness:
  "\<exists>w' i. writePiiVaultRecord sample_ctx ''ro1'' ''c1'' \<lparr>se_keyRef = ''k'', se_nonce = ''n'', se_ciphertext = ''x''\<rparr>
       \<lparr>ph_name = None, ph_emails = [''a@x.y''], ph_phones = [], ph_vins = [], ph_plates = [], ph_address = None\<rparr>
       (tx_world sample_ctx sample_world) = (w', Inr ()) \<and>
     resolveCustomerIdentity (\<lambda>_. ''fresh'') (\<lambda>k v. v) (\<lambda>_. Some ''key'') sample_ctx
       (Some (initPiiPayload\<lparr>pp_emails := Some ['' A@X.y '']\<rparr>)) w' = (w', Inr i) \<and> ci_customerUuid i = ''c1''"
proof -
  let ?s = "\<lparr>se_keyRef = ''k'', se_nonce = ''n'', se_ciphertext = ''x''\<rparr>"
  let ?h = "\<lparr>ph_name = None, ph_emails = [''a@x.y''], ph_phones = [], ph_vins = [], ph_plates = [], ph_address = None\<rparr>"
  let ?w = "tx_world sample_ctx sample_world"
  let ?p = "initPiiPayload\<lparr>pp_emails := Some [''a@x.y'']\<rparr>"
  let ?p' = "initPiiPayload\<lparr>pp_emails := Some ['' A@X.y '']\<rparr>"
  have "is_ok (snd (writePiiVaultRecord sample_ctx ''ro1'' ''c1'' ?s ?h ?w))" by code_simp
  then obtain w' where w': "writePiiVaultRecord sample_ctx ''ro1'' ''c1'' ?s ?h ?w = (w', Inr ())"
    by (cases "writePiiVaultRecord sample_ctx ''ro1'' ''c1'' ?s ?h ?w") (auto simp: is_ok_iff)
  have h: "buildPiiHashes (\<lambda>k v. v) (\<lambda>_. Some ''key'') ?p = Inr ?h"
    "buildPiiHashes (\<lambda>k v. v) (\<lambda>_. Some ''key'') ?p' = Inr ?h"
    "normalizeValue ''a@x.y'' = normalizeValue '' A@X.y ''" "normalizeValue ''a@x.y'' \<noteq> []"
    by code_simp+
  have "resolveCustomerIdentity (\<lambda>_. ''fresh'') (\<lambda>k v. v) (\<lambda>_. Some ''key'') sample_ctx (Some ?p') w' =
      (w', Inr \<lparr>ci_customerUuid = ''c1'', ci_hashes = hash_list ?h, ci_parts = ?h\<rparr>)"
    by (rule returning_customer_is_recognised [OF w' _ h(1,2) _ _ h(3)])
      (use h(4) in \<open>simp_all add: sample_ctx_def tx_world_def sample_world_def list_or_empty_def initPiiPayload_def\<close>)
  moreover have "ci_customerUuid \<lparr>ci_customerUuid = ''c1'', ci_hashes = hash_list ?h, ci_parts = ?h\<rparr> = ''c1''" by simp
  ultimately show ?thesis using w' by blast
qed

section \<open>The ingest request\<close>

lemma audit_total: "snd (auditLog u acc ctx ev w) = Inr ()" "w_tables (fst (auditLog u acc ctx ev w)) = w_tables w"
  by (simp_all add: auditLog_def Let_def)

lemma audit_failed: "bind (ingest_failed d ctx a b) (\<lambda>_. ret r) w = (fst (ingest_failed d ctx a b w), Inr r)"
  by (simp add: bind_def ingest_failed_def audit_total ret_def split: prod.split sum.split)
     (metis audit_total(1) snd_conv sum.distinct(1))

lemma audit_failed_tables: "w_tables (fst (ingest_failed d ctx a b w)) = w_tables w"
  by (simp add: ingest_failed_def audit_total)

lemma pipeline_world: "\<exists>w' e. runIngestPipeline d ctx input w = (w', Inl e) \<and> w_tables w' = w_tables w"
proof -
  obtain e where e: "snd (runIngestPipeline d ctx input w) = Inl e" using pipeline_fails by blast
  then have "w_tables (fst (runIngestPipeline d ctx input w)) = w_tables w"
    unfolding runIngestPipeline_def using contained_atomic [OF contained_pipeline] by blast
  with e show ?thesis by (metis prod.collapse)
qed

text \<open>The ingest request is always answered, with an error message and never with the success
  response, and it changes no table, whatever the storage reference holds.\<close>

theorem ingest_request_answers:
  "\<exists>r. snd (ingestFromStorageHandler d fs maxUpload production ctx body w) = Inr r \<and> rs_message r \<noteq> None \<and>
     w_tables (fst (ingestFromStorageHandler d fs maxUpload production ctx body w)) = w_tables w"
proof -
  have skip: "bind (if c then ingest_failed d ctx a b else ret ()) (\<lambda>_. ret r) w =
      (if c then fst (ingest_failed d ctx a b w) else w, Inr r)" for c a b r
    by (simp add: audit_failed) (simp add: bind_def ret_def)
  show ?thesis
  proof (cases "readFileFromStorageUri fs maxUpload (the (ib_storage_uri body))")
    case (Inl e)
    then show ?thesis
      by (simp add: ingestFromStorageHandler_def Let_def skip audit_failed_tables app_response_def err_response_def ret_def)
  next
    case (Inr cf)
    obtain contents filename where cf: "cf = (contents, filename)" by (cases cf) auto
    obtain w' e where p: "runIngestPipeline d ctx \<lparr>in_filename = filename, in_file = contents, in_mimeType = Some ''application/xml'', in_roNumber = None\<rparr> w = (w', Inl e)"
        "w_tables w' = w_tables w"
      using pipeline_world by blast
    show ?thesis
      using Inr p
      by (cases "validateFileType filename")
        (simp_all add: cf ingestFromStorageHandler_def Let_def audit_failed audit_failed_tables app_response_def err_response_def ret_def)
  qed
qed

end
