(* ===== verification/Intake.thy ===== *)
theory Intake
  imports JsNumber JsRegex
begin

text \<open>
  ops/intake-worker: ingestStore.js (the table \<open>app.ingest_files\<close> with its statements and the worker
  metrics) and BlobCreatedIntake/index.js (configuration, metrics, the handling of one storage event).

  The table is a map from tenant and content hash, its unique key, to a row. Every operation has the
  flag \<open>vis\<close>: whether row level security lets its connection see and write the tenant's rows.
  \<open>withTenantClient\<close> sets the tenant with \<open>set_config(..., true)\<close> outside of a transaction, so the
  setting is gone when the statement runs and \<open>vis\<close> holds only for a role that bypasses row level
  security. Timestamps of rows are not modelled.

  The blob client, the XML parser with its decoder, the token and HTTP clients and
  \<open>decodeURIComponent\<close>/\<open>new URL\<close> (whose results need not fit 8-bit strings) are arguments.
\<close>

section \<open>ingestStore.js\<close>

datatype FileStatus = PENDING | PROCESSING | INGESTED | FAILED | DUPLICATE

record FileRow =
  fr_uri :: string
  fr_source :: string
  fr_status :: FileStatus
  fr_error :: "string option"
  fr_dups :: nat
  fr_event :: "string option"

type_synonym FileKey = "string \<times> string"
type_synonym IngestDb = "FileKey \<Rightarrow> FileRow option"

record FileInput =
  fi_key :: FileKey
  fi_uri :: string
  fi_source :: string
  fi_event :: "string option"

definition upsertIngestFile :: "bool \<Rightarrow> FileInput \<Rightarrow> IngestDb \<Rightarrow> IngestDb \<times> (FileStatus \<times> nat) res" where
  "upsertIngestFile vis i db =
     (if \<not> vis then (db, Inl (Pg (RlsViolation ''app.ingest_files'')))
      else
        let row = (case db (fi_key i) of
            None \<Rightarrow> \<lparr>fr_uri = fi_uri i, fr_source = fi_source i, fr_status = PENDING, fr_error = None, fr_dups = 0, fr_event = fi_event i\<rparr>
          | Some r \<Rightarrow> r\<lparr>fr_uri := fi_uri i, fr_event := fi_event i\<rparr>)
        in (db(fi_key i \<mapsto> row), Inr (fr_status row, fr_dups row)))"

text \<open>An UPDATE of the row of a key, under a condition: the table after it and whether a row was hit.\<close>

definition update_row :: "bool \<Rightarrow> FileKey \<Rightarrow> (FileRow \<Rightarrow> bool) \<Rightarrow> (FileRow \<Rightarrow> FileRow) \<Rightarrow> IngestDb \<Rightarrow> IngestDb \<times> bool" where
  "update_row vis k p f db =
     (case db k of
        None \<Rightarrow> (db, False)
      | Some r \<Rightarrow> if vis \<and> p r then (db(k \<mapsto> f r), True) else (db, False))"

definition claimIngestFile :: "bool \<Rightarrow> FileKey \<Rightarrow> IngestDb \<Rightarrow> IngestDb \<times> bool" where
  "claimIngestFile vis k =
     update_row vis k (\<lambda>r. fr_status r = PENDING) (\<lambda>r. r\<lparr>fr_status := PROCESSING, fr_error := None\<rparr>)"

definition markDuplicate :: "bool \<Rightarrow> FileKey \<Rightarrow> string option \<Rightarrow> IngestDb \<Rightarrow> IngestDb \<times> bool" where
  "markDuplicate vis k eventId =
     update_row vis k (\<lambda>_. True) (\<lambda>r. r\<lparr>fr_dups := fr_dups r + 1, fr_event := eventId\<rparr>)"

definition markFailed :: "bool \<Rightarrow> FileKey \<Rightarrow> string option \<Rightarrow> IngestDb \<Rightarrow> IngestDb \<times> bool" where
  "markFailed vis k errorCode =
     update_row vis k (\<lambda>r. fr_status r = PROCESSING) (\<lambda>r. r\<lparr>fr_status := FAILED, fr_error := errorCode\<rparr>)"

definition markIngested :: "bool \<Rightarrow> FileKey \<Rightarrow> string option \<Rightarrow> IngestDb \<Rightarrow> IngestDb \<times> bool" where
  "markIngested vis k eventId =
     update_row vis k (\<lambda>r. fr_status r = PROCESSING)
       (\<lambda>r. r\<lparr>fr_status := INGESTED, fr_error := None, fr_event := eventId\<rparr>)"

definition fetchIngestStatus :: "bool \<Rightarrow> FileKey \<Rightarrow> IngestDb \<Rightarrow> (FileStatus \<times> nat) option" where
  "fetchIngestStatus vis k db =
     (if vis then map_option (\<lambda>r. (fr_status r, fr_dups r)) (db k) else None)"

record MetricsRow =
  mr_hostname :: "string option"
  mr_processed :: nat
  mr_success :: nat
  mr_duplicate :: nat
  mr_failure :: nat
  mr_totalMs :: nat
  mr_avgMs :: rat
  mr_lastSuccess :: "nat option"
  mr_lastError :: "nat option"

record MetricsInput =
  mi_worker :: string
  mi_hostname :: "string option"
  mi_processed :: nat
  mi_success :: nat
  mi_duplicate :: nat
  mi_failure :: nat
  mi_totalMs :: nat
  mi_lastSuccess :: "nat option"
  mi_lastError :: "nat option"

text \<open>\<open>ROUND(x, 2)\<close> of a non-negative number.\<close>

definition sql_round2 :: "rat \<Rightarrow> rat" where
  "sql_round2 x = of_int \<lfloor>x * 100 + 1 / 2\<rfloor> / 100"

definition coalesce :: "'a option \<Rightarrow> 'a option \<Rightarrow> 'a option" where
  "coalesce a b = (case a of None \<Rightarrow> b | Some x \<Rightarrow> Some x)"

definition upsertWorkerMetrics :: "MetricsInput \<Rightarrow> (string \<Rightarrow> MetricsRow option) \<Rightarrow> (string \<Rightarrow> MetricsRow option)" where
  "upsertWorkerMetrics i m =
     (let row = (case m (mi_worker i) of
         None \<Rightarrow>
           \<lparr>mr_hostname = mi_hostname i, mr_processed = mi_processed i, mr_success = mi_success i,
            mr_duplicate = mi_duplicate i, mr_failure = mi_failure i, mr_totalMs = mi_totalMs i, mr_avgMs = 0,
            mr_lastSuccess = mi_lastSuccess i, mr_lastError = mi_lastError i\<rparr>
       | Some r \<Rightarrow>
           \<lparr>mr_hostname = mi_hostname i, mr_processed = mr_processed r + mi_processed i,
            mr_success = mr_success r + mi_success i, mr_duplicate = mr_duplicate r + mi_duplicate i,
            mr_failure = mr_failure r + mi_failure i, mr_totalMs = mr_totalMs r + mi_totalMs i,
            mr_avgMs = (if mr_processed r + mi_processed i = 0 then 0
                        else sql_round2 (of_nat (mr_totalMs r + mi_totalMs i) / of_nat (mr_processed r + mi_processed i))),
            mr_lastSuccess = coalesce (mi_lastSuccess i) (mr_lastSuccess r),
            mr_lastError = coalesce (mi_lastError i) (mr_lastError r)\<rparr>)
      in m(mi_worker i \<mapsto> row))"

section \<open>index.js: configuration\<close>

type_synonym environment = "string \<Rightarrow> string option"

definition positive_parse :: "string \<Rightarrow> int option" where
  "positive_parse v = (case js_parseInt v of Fin q \<Rightarrow> if q > 0 then Some \<lfloor>q\<rfloor> else None | _ \<Rightarrow> None)"

definition parsePositiveInt :: "string option \<Rightarrow> string \<Rightarrow> int option res" where
  "parsePositiveInt v name =
     (if \<not> truthy v then ok None
      else (case positive_parse (the v) of
              None \<Rightarrow> Inl (Js (name @ '' must be a positive integer''))
            | Some n \<Rightarrow> ok (Some n)))"

definition REQUIRED_ENV :: "string list" where
  "REQUIRED_ENV =
     [''INTAKE_STORAGE_ACCOUNT'', ''INTAKE_CONTAINER'', ''INTAKE_ALLOWED_EXT'', ''INTAKE_MAX_BYTES'',
      ''INTAKE_WELLFORMED_XML'', ''INGEST_API_URL'', ''INGEST_AAD_AUDIENCE'', ''DATABASE_URL'']"

definition requireEnv :: "environment \<Rightarrow> string \<Rightarrow> string res" where
  "requireEnv env name =
     (if truthy (env name) then ok (the (env name)) else Inl (Js (''Missing required environment variable: '' @ name)))"

record IntakeConfig =
  ic_account :: string
  ic_container :: string
  ic_allowedExt :: string
  ic_maxBytes :: int
  ic_wellformed :: bool
  ic_apiUrl :: string
  ic_audience :: string
  ic_timeoutMs :: int
  ic_logEvery :: int
  ic_flushEvery :: int
  ic_workerId :: string
  ic_databaseUrl :: string

definition strip_dot :: "string \<Rightarrow> string" where
  "strip_dot s = (case s of c # r \<Rightarrow> if c = CHR ''.'' then r else s | [] \<Rightarrow> [])"

definition default_int :: "int option \<Rightarrow> int \<Rightarrow> int" where
  "default_int v d = (case v of None \<Rightarrow> d | Some n \<Rightarrow> n)"

definition loadConfig :: "environment \<Rightarrow> string \<Rightarrow> nat \<Rightarrow> IntakeConfig res" where
  "loadConfig env hostname pid =
     res_bind (res_map (requireEnv env) REQUIRED_ENV) (\<lambda>_.
     (let get = (\<lambda>n. case env n of None \<Rightarrow> [] | Some v \<Rightarrow> v);
          flag = get ''INTAKE_WELLFORMED_XML''; allowedExt = toLowerCase (strip_dot (get ''INTAKE_ALLOWED_EXT''))
      in (case positive_parse (get ''INTAKE_MAX_BYTES'') of
            None \<Rightarrow> Inl (Js ''INTAKE_MAX_BYTES must be a positive integer'')
          | Some maxBytes \<Rightarrow>
              if flag \<noteq> ''0'' \<and> flag \<noteq> ''1'' then Inl (Js ''INTAKE_WELLFORMED_XML must be 0 or 1'')
              else if allowedExt = [] then Inl (Js ''INTAKE_ALLOWED_EXT must be a non-empty extension'')
              else
                res_bind (parsePositiveInt (env ''INGEST_API_TIMEOUT_MS'') ''INGEST_API_TIMEOUT_MS'') (\<lambda>timeout.
                res_bind (parsePositiveInt (env ''METRICS_LOG_EVERY'') ''METRICS_LOG_EVERY'') (\<lambda>logEvery.
                res_bind (parsePositiveInt (env ''METRICS_FLUSH_EVERY'') ''METRICS_FLUSH_EVERY'') (\<lambda>flushEvery.
                  ok \<lparr>ic_account = get ''INTAKE_STORAGE_ACCOUNT'', ic_container = get ''INTAKE_CONTAINER'',
                      ic_allowedExt = allowedExt, ic_maxBytes = maxBytes, ic_wellformed = (flag = ''1''),
                      ic_apiUrl = get ''INGEST_API_URL'', ic_audience = get ''INGEST_AAD_AUDIENCE'',
                      ic_timeoutMs = default_int timeout 15000, ic_logEvery = default_int logEvery 10,
                      ic_flushEvery = default_int flushEvery 25,
                      ic_workerId = (case env ''WORKER_ID'' of Some w \<Rightarrow> w | None \<Rightarrow> hostname @ '':'' @ digits_of (int pid)),
                      ic_databaseUrl = get ''DATABASE_URL''\<rparr>))))))"

definition segment_pair :: "string \<Rightarrow> (string \<times> string) list" where
  "segment_pair s =
     (case indexOf s ''='' 0 of
        None \<Rightarrow> []
      | Some i \<Rightarrow> if slice s 0 i = [] then [] else [(slice s 0 i, drop (i + 1) s)])"

text \<open>The account name and key of the storage connection string, \<open>None\<close> without one.\<close>

definition storageCredential :: "environment \<Rightarrow> (string \<times> string) option res" where
  "storageCredential env =
     (let conn = (case env ''INTAKE_STORAGE_CONNECTION_STRING'' of Some c \<Rightarrow> Some c | None \<Rightarrow> env ''AZURE_STORAGE_CONNECTION_STRING'')
      in if \<not> truthy conn then ok None
         else
           let parts = fold (\<lambda>(k, v) m. map_set k v m) (concat (map segment_pair (js_split (the conn) '';''))) [];
               name = map_of parts ''AccountName''; key = map_of parts ''AccountKey''
           in if \<not> truthy name \<or> \<not> truthy key then Inl (Js ''Storage connection string missing AccountName or AccountKey'')
              else ok (Some (the name, the key)))"

section \<open>index.js: metrics\<close>

datatype ResultStatus = Skipped | Status FileStatus

record ProcResult =
  pr_status :: ResultStatus
  pr_retryable :: "bool option"
  pr_error :: "string option"
  pr_tenant :: "string option"
  pr_uri :: "string option"
  pr_hash :: "string option"
  pr_ms :: nat

record Metrics =
  m_processed :: nat
  m_success :: nat
  m_duplicate :: nat
  m_failure :: nat
  m_totalMs :: nat
  m_lastSuccess :: "nat option"
  m_lastError :: "nat option"
  m_pendProcessed :: nat
  m_pendSuccess :: nat
  m_pendDuplicate :: nat
  m_pendFailure :: nat
  m_pendMs :: nat

definition METRICS :: Metrics where
  "METRICS = \<lparr>m_processed = 0, m_success = 0, m_duplicate = 0, m_failure = 0, m_totalMs = 0,
     m_lastSuccess = None, m_lastError = None, m_pendProcessed = 0, m_pendSuccess = 0, m_pendDuplicate = 0,
     m_pendFailure = 0, m_pendMs = 0\<rparr>"

definition count_result :: "nat \<Rightarrow> ProcResult \<Rightarrow> Metrics \<Rightarrow> Metrics" where
  "count_result now r m =
     (let m1 = m\<lparr>m_processed := m_processed m + 1, m_pendProcessed := m_pendProcessed m + 1,
                  m_totalMs := m_totalMs m + pr_ms r, m_pendMs := m_pendMs m + pr_ms r\<rparr>
      in if pr_status r = Status INGESTED
         then m1\<lparr>m_success := m_success m1 + 1, m_pendSuccess := m_pendSuccess m1 + 1, m_lastSuccess := Some now\<rparr>
         else if pr_status r = Status DUPLICATE
         then m1\<lparr>m_duplicate := m_duplicate m1 + 1, m_pendDuplicate := m_pendDuplicate m1 + 1\<rparr>
         else if pr_status r = Status FAILED
         then m1\<lparr>m_failure := m_failure m1 + 1, m_pendFailure := m_pendFailure m1 + 1, m_lastError := Some now\<rparr>
         else m1)"

text \<open>The new counters, the average that is logged, and whether a flush is started.\<close>

definition recordMetrics :: "IntakeConfig \<Rightarrow> nat \<Rightarrow> ProcResult \<Rightarrow> Metrics \<Rightarrow> Metrics \<times> int option \<times> bool" where
  "recordMetrics cfg now r m =
     (if pr_status r = Skipped then (m, None, False)
      else
        let m' = count_result now r m
        in (m',
            if int (m_processed m') mod ic_logEvery cfg = 0
            then Some (if m_processed m' = 0 then 0 else \<lfloor>of_nat (m_totalMs m') / of_nat (m_processed m') + (1 / 2 :: rat)\<rfloor>)
            else None,
            int (m_pendProcessed m') \<ge> ic_flushEvery cfg))"

text \<open>\<open>flushMetrics\<close> waits twice: for a connection, and for its statement. The pending counters are read
  between the two and reset after the second.\<close>

definition flush_input :: "IntakeConfig \<Rightarrow> string \<Rightarrow> Metrics \<Rightarrow> MetricsInput" where
  "flush_input cfg hostname m =
     \<lparr>mi_worker = ic_workerId cfg, mi_hostname = Some hostname, mi_processed = m_pendProcessed m,
      mi_success = m_pendSuccess m, mi_duplicate = m_pendDuplicate m, mi_failure = m_pendFailure m,
      mi_totalMs = m_pendMs m, mi_lastSuccess = m_lastSuccess m, mi_lastError = m_lastError m\<rparr>"

definition flush_reset :: "Metrics \<Rightarrow> Metrics" where
  "flush_reset m = m\<lparr>m_pendProcessed := 0, m_pendSuccess := 0, m_pendDuplicate := 0, m_pendFailure := 0, m_pendMs := 0\<rparr>"

text \<open>A flush during which nothing else runs.\<close>

definition flushMetrics ::
  "IntakeConfig \<Rightarrow> string \<Rightarrow> Metrics \<times> (string \<Rightarrow> MetricsRow option) \<Rightarrow> Metrics \<times> (string \<Rightarrow> MetricsRow option)" where
  "flushMetrics cfg hostname st =
     (case st of (m, rows) \<Rightarrow>
        if m_pendProcessed m = 0 then st
        else (flush_reset m, upsertWorkerMetrics (flush_input cfg hostname m) rows))"

section \<open>index.js: one event\<close>

definition SUBJECT_REGEX :: rx where
  "SUBJECT_REGEX = rx_seq [str ''/containers/'', RGrp 1 (rx_plus (RCls (\<lambda>c. c \<noteq> CHR ''/''))),
     str ''/blobs/'', RGrp 2 (rx_plus (RCls (\<lambda>c. c \<noteq> CHR 0x0A \<and> c \<noteq> CHR 0x0D)))]"

definition tenant_of_path :: "string \<Rightarrow> string option" where
  "tenant_of_path decoded =
     (let firstSegment = takeWhile (\<lambda>c. c \<noteq> CHR ''/'') decoded
      in if startsWith firstSegment ''tenant='' \<and> drop 7 firstSegment \<noteq> [] then Some (drop 7 firstSegment) else None)"

definition parseTenantFromSubject :: "(string \<Rightarrow> string res) \<Rightarrow> string \<Rightarrow> string \<Rightarrow> string option res" where
  "parseTenantFromSubject decodeURI subject container =
     (case rx_match SUBJECT_REGEX subject of
        None \<Rightarrow> ok None
      | Some (_, g) \<Rightarrow>
          if group g 1 \<noteq> Some container then ok None
          else res_bind (decodeURI (the (group g 2))) (\<lambda>decoded. ok (tenant_of_path decoded)))"

text \<open>\<open>path.posix.basename\<close> and \<open>path.posix.extname\<close> (of a name without slashes).\<close>

definition posix_basename :: "string \<Rightarrow> string" where
  "posix_basename p = rev (takeWhile (\<lambda>c. c \<noteq> CHR ''/'') (dropWhile (\<lambda>c. c = CHR ''/'') (rev p)))"

definition posix_extname :: "string \<Rightarrow> string" where
  "posix_extname b =
     (if CHR ''.'' \<notin> set (tl b) \<or> b = ''..'' then []
      else CHR ''.'' # rev (takeWhile (\<lambda>c. c \<noteq> CHR ''.'') (rev b)))"

definition getBlobNameFromUrl :: "(string \<Rightarrow> string res) \<Rightarrow> (string \<Rightarrow> string res) \<Rightarrow> string \<Rightarrow> string res" where
  "getBlobNameFromUrl urlPath decodeURI blobUrl =
     res_bind (urlPath blobUrl) (\<lambda>p. res_bind (decodeURI p) (\<lambda>d. ok (posix_basename d)))"

definition getBlobExtension :: "string \<Rightarrow> string" where
  "getBlobExtension blobName =
     (if blobName = [] then [] else toLowerCase (strip_dot (posix_extname blobName)))"

text \<open>The parser together with the decoder in front of it: feeding bytes and closing give the next
  parser and whether \<open>onerror\<close> was called, or throw.\<close>

record 'p Sax =
  sx_init :: 'p
  sx_feed :: "'p \<Rightarrow> string \<Rightarrow> ('p \<times> bool) option"
  sx_close :: "'p \<Rightarrow> ('p \<times> bool) option"

record Download =
  dl_hash :: string
  dl_bytes :: nat
  dl_wellFormed :: bool
  dl_streamError :: bool

text \<open>The loop over the chunks of the stream; the result is the parser state, the verdict, and the
  number of chunks consumed before a throw of the parser (\<open>None\<close> when it throws).\<close>

fun feed_chunks :: "'p Sax \<Rightarrow> bool \<Rightarrow> 'p \<Rightarrow> bool \<Rightarrow> string list \<Rightarrow> string \<Rightarrow> string \<times> ('p \<times> bool) option" where
  "feed_chunks sx check p good [] seen = (seen, Some (p, good))"
| "feed_chunks sx check p good (c # cs) seen =
     (if check \<and> good then
        (case sx_feed sx p c of
           None \<Rightarrow> (seen @ c, None)
         | Some (p', err) \<Rightarrow> feed_chunks sx check p' (\<not> err) cs (seen @ c))
      else feed_chunks sx check p good cs (seen @ c))"

definition downloadAndHash :: "(string \<Rightarrow> string) \<Rightarrow> 'p Sax \<Rightarrow> bool \<Rightarrow> string list \<Rightarrow> bool \<Rightarrow> Download" where
  "downloadAndHash sha256 sx checkXml chunks broken =
     (let (seen, st) = feed_chunks sx checkXml (sx_init sx) True chunks [];
          done_ok = (case st of
              None \<Rightarrow> None
            | Some (p, good) \<Rightarrow>
                if broken then None
                else if checkXml \<and> good then map_option (\<lambda>(p', err). \<not> err) (sx_close sx p)
                else Some good)
      in \<lparr>dl_hash = sha256 seen, dl_bytes = length seen,
          dl_wellFormed = (done_ok = Some True), dl_streamError = (done_ok = None)\<rparr>)"

record BlobEvent =
  be_type :: "string option"
  be_id :: "string option"
  be_url :: "string option"
  be_subject :: "string option"   \<comment> \<open>\<open>None\<close> also for a subject that is not a string\<close>

text \<open>What the call of the ingest API can come to.\<close>

datatype ApiCall = CallAborted | CallThrows | Answer nat

record IntakeApi =
  ia_decode :: "string \<Rightarrow> string res"
  ia_urlPath :: "string \<Rightarrow> string res"
  ia_blob :: "string \<Rightarrow> (nat option \<times> Download) option"   \<comment> \<open>\<open>None\<close>: the blob client throws\<close>
  ia_call :: "string \<Rightarrow> string \<Rightarrow> ApiCall"

definition ingest_scope :: "string \<Rightarrow> string" where
  "ingest_scope audience = (if endsWith audience ''/.default'' then audience else audience @ ''/.default'')"

record Work =
  wk_tenant :: string
  wk_uri :: string
  wk_hash :: string
  wk_event :: string
  wk_extValid :: bool
  wk_tooLarge :: bool
  wk_download :: Download

definition wk_key :: "Work \<Rightarrow> FileKey" where "wk_key w = (wk_tenant w, wk_hash w)"

definition early :: "ResultStatus \<Rightarrow> bool option \<Rightarrow> string option \<Rightarrow> nat \<Rightarrow> ProcResult" where
  "early st retry e ms = \<lparr>pr_status = st, pr_retryable = retry, pr_error = e, pr_tenant = None, pr_uri = None, pr_hash = None, pr_ms = ms\<rparr>"

text \<open>Up to the first statement: a result, or the work to claim.\<close>

definition admit :: "IntakeConfig \<Rightarrow> IntakeApi \<Rightarrow> nat \<Rightarrow> BlobEvent option \<Rightarrow> (ProcResult + Work) res" where
  "admit cfg api ms event =
     (case event of
        None \<Rightarrow> ok (Inl (early Skipped None None 0))
      | Some e \<Rightarrow>
          if be_type e \<noteq> Some ''Microsoft.Storage.BlobCreated'' then ok (Inl (early Skipped None None 0))
          else if \<not> truthy (be_url e) then ok (Inl (early (Status FAILED) (Some True) (Some ''MISSING_STORAGE_URI'') 0))
          else
            let uri = the (be_url e); eventId = (case be_id e of None \<Rightarrow> ''unknown'' | Some i \<Rightarrow> i)
            in res_bind (parseTenantFromSubject (ia_decode api) (case be_subject e of None \<Rightarrow> [] | Some s \<Rightarrow> s) (ic_container cfg)) (\<lambda>tenant.
               res_bind (getBlobNameFromUrl (ia_urlPath api) (ia_decode api) uri) (\<lambda>name.
                 let failed = (\<lambda>c. ok (Inl ((early (Status FAILED) (Some True) (Some c) ms)
                       \<lparr>pr_tenant := Some (case tenant of None \<Rightarrow> ''invalid'' | Some t \<Rightarrow> t), pr_uri := Some uri\<rparr>)))
                 in (case ia_blob api uri of
                       None \<Rightarrow> failed ''BLOB_ACCESS_FAILED''
                     | Some (len, d) \<Rightarrow>
                         (case tenant of
                            None \<Rightarrow> failed ''INVALID_PATH''
                          | Some t \<Rightarrow>
                              ok (Inr \<lparr>wk_tenant = t, wk_uri = uri, wk_hash = dl_hash d, wk_event = eventId,
                                   wk_extValid = (getBlobExtension name = ic_allowedExt cfg),
                                   wk_tooLarge = (int (case len of None \<Rightarrow> 0 | Some n \<Rightarrow> n) > ic_maxBytes cfg \<or> int (dl_bytes d) > ic_maxBytes cfg),
                                   wk_download = d\<rparr>))))))"

definition file_input :: "Work \<Rightarrow> FileInput" where
  "file_input w = \<lparr>fi_key = wk_key w, fi_uri = wk_uri w, fi_source = ''ftp'', fi_event = Some (wk_event w)\<rparr>"

definition work_result :: "Work \<Rightarrow> nat \<Rightarrow> FileStatus \<Rightarrow> bool \<Rightarrow> string option \<Rightarrow> ProcResult" where
  "work_result w ms st retry e =
     \<lparr>pr_status = Status st, pr_retryable = Some retry, pr_error = e, pr_tenant = Some (wk_tenant w),
      pr_uri = Some (wk_uri w), pr_hash = Some (wk_hash w), pr_ms = ms\<rparr>"

text \<open>When the claim failed, from the status of the row.\<close>

definition existing_status :: "(FileStatus \<times> nat) option \<Rightarrow> FileStatus" where
  "existing_status s = (case s of None \<Rightarrow> DUPLICATE | Some (st, _) \<Rightarrow> st)"

definition unclaimed_result :: "Work \<Rightarrow> nat \<Rightarrow> FileStatus \<Rightarrow> ProcResult" where
  "unclaimed_result w ms st =
     (if st = INGESTED then work_result w ms DUPLICATE False None
      else if st = FAILED then work_result w ms FAILED True (Some ''ALREADY_FAILED'')
      else work_result w ms DUPLICATE False (Some ''IN_FLIGHT''))"

text \<open>After the claim: why the file is rejected, if it is.\<close>

definition rejection :: "IntakeConfig \<Rightarrow> Work \<Rightarrow> string option" where
  "rejection cfg w =
     (if dl_streamError (wk_download w) then Some ''DOWNLOAD_FAILED''
      else if \<not> wk_extValid w then Some ''INVALID_EXTENSION''
      else if wk_tooLarge w then Some ''FILE_TOO_LARGE''
      else if ic_wellformed cfg \<and> \<not> dl_wellFormed (wk_download w) then Some ''MALFORMED_XML''
      else None)"

text \<open>The error code of a call, if it failed. \<open>Response.ok\<close> is a status from 200 to 299.\<close>

definition call_error :: "ApiCall \<Rightarrow> string option" where
  "call_error c =
     (case c of
        CallAborted \<Rightarrow> Some ''INGEST_TIMEOUT''
      | CallThrows \<Rightarrow> Some ''INGEST_ERROR''
      | Answer st \<Rightarrow> if 200 \<le> st \<and> st \<le> 299 then None else Some (''INGEST_HTTP_'' @ digits_of (int st)))"

text \<open>The new table, the keys for which the ingest API was called, and the result.\<close>

definition processWork :: "IntakeConfig \<Rightarrow> IntakeApi \<Rightarrow> bool \<Rightarrow> nat \<Rightarrow> Work \<Rightarrow> IngestDb \<Rightarrow> IngestDb \<times> FileKey list \<times> ProcResult res" where
  "processWork cfg api vis ms w db =
     (let k = wk_key w; (db1, up) = upsertIngestFile vis (file_input w) db
      in (case up of
            Inl e \<Rightarrow> (db1, [], Inl e)
          | Inr _ \<Rightarrow>
              let (db2, claimed) = claimIngestFile vis k db1
              in if \<not> claimed then
                   let st = existing_status (fetchIngestStatus vis k db2)
                   in (if st = INGESTED then fst (markDuplicate vis k (Some (wk_event w)) db2) else db2, [], ok (unclaimed_result w ms st))
                 else
                   (case rejection cfg w of
                      Some c \<Rightarrow> (fst (markFailed vis k (Some c) db2), [], ok (work_result w ms FAILED True (Some c)))
                    | None \<Rightarrow>
                        (case call_error (ia_call api (wk_tenant w) (wk_uri w)) of
                           Some c \<Rightarrow> (fst (markFailed vis k (Some c) db2), [k], ok (work_result w ms FAILED True (Some c)))
                         | None \<Rightarrow> (fst (markIngested vis k (Some (wk_event w)) db2), [k], ok (work_result w ms INGESTED False None))))))"

definition processEvent ::
  "IntakeConfig \<Rightarrow> IntakeApi \<Rightarrow> bool \<Rightarrow> nat \<Rightarrow> BlobEvent option \<Rightarrow> IngestDb \<Rightarrow> IngestDb \<times> FileKey list \<times> ProcResult res" where
  "processEvent cfg api vis ms event db =
     (case admit cfg api ms event of
        Inl e \<Rightarrow> (db, [], Inl e)
      | Inr (Inl r) \<Rightarrow> (db, [], ok r)
      | Inr (Inr w) \<Rightarrow> processWork cfg api vis ms w db)"

text \<open>The events of one message, in order; an error ends the loop. The state carries the table, the
  calls made and the metrics; the flags say which events started a flush.\<close>

fun intakeHandler ::
  "IntakeConfig \<Rightarrow> IntakeApi \<Rightarrow> bool \<Rightarrow> nat \<Rightarrow> nat \<Rightarrow> BlobEvent option list \<Rightarrow> IngestDb \<times> FileKey list \<times> Metrics \<Rightarrow>
   (IngestDb \<times> FileKey list \<times> Metrics) \<times> ProcResult list res" where
  "intakeHandler cfg api vis ms now [] st = (st, ok [])"
| "intakeHandler cfg api vis ms now (e # es) (db, calls, m) =
     (case processEvent cfg api vis ms e db of
        (db', cs, Inl err) \<Rightarrow> ((db', calls @ cs, m), Inl err)
      | (db', cs, Inr r) \<Rightarrow>
          (case intakeHandler cfg api vis ms now es (db', calls @ cs, fst (recordMetrics cfg now r m)) of
             (st', Inl err) \<Rightarrow> (st', Inl err)
           | (st', Inr rs) \<Rightarrow> (st', ok (r # rs))))"

end
