(* ===== verification/IntakeQueue.thy ===== *)
theory IntakeQueue
  imports Intake
begin

text \<open>
  ops/intake-worker/queueWorker.js and redrive_poison_queue.js: the messages of the event queue, the
  poison queue and the way back. The queue service, \<open>JSON.parse\<close> and base64 are arguments; what a
  worker does to the queues is the list of its calls.
\<close>

section \<open>queueWorker.js\<close>

definition parseIntEnv :: "environment \<Rightarrow> string \<Rightarrow> int \<Rightarrow> int res" where
  "parseIntEnv env name fallback =
     (if \<not> truthy (env name) then ok fallback
      else (case positive_parse (the (env name)) of
              None \<Rightarrow> Inl (Js (name @ '' must be a positive integer''))
            | Some n \<Rightarrow> ok n))"

record QueueConfig =
  qc_queue :: string
  qc_account :: "string option"
  qc_connection :: "string option"
  qc_poison :: string
  qc_pollMs :: int
  qc_batch :: int
  qc_visibility :: int
  qc_maxDequeue :: int

definition env_or :: "environment \<Rightarrow> string \<Rightarrow> string \<Rightarrow> string option" where
  "env_or env a b = (case env a of Some x \<Rightarrow> Some x | None \<Rightarrow> env b)"

definition queueConfig :: "environment \<Rightarrow> QueueConfig res" where
  "queueConfig env =
     (let queueName = (case env ''EVENTGRID_QUEUE_NAME'' of Some q \<Rightarrow> q | None \<Rightarrow> ''ro-sftp-events'');
          account = env_or env ''EVENTGRID_QUEUE_ACCOUNT'' ''INTAKE_STORAGE_ACCOUNT'';
          conn = env_or env ''EVENTGRID_QUEUE_CONNECTION_STRING'' ''AZURE_STORAGE_CONNECTION_STRING''
      in res_bind (parseIntEnv env ''EVENTGRID_QUEUE_POLL_MS'' 2000) (\<lambda>pollMs.
         res_bind (parseIntEnv env ''EVENTGRID_QUEUE_BATCH_SIZE'' 10) (\<lambda>batch.
         res_bind (parseIntEnv env ''EVENTGRID_QUEUE_VISIBILITY_TIMEOUT'' 30) (\<lambda>vt.
         res_bind (parseIntEnv env ''EVENTGRID_QUEUE_MAX_DEQUEUE'' 5) (\<lambda>maxDequeue.
           if \<not> truthy conn \<and> \<not> truthy account
           then Inl (Js ''EVENTGRID_QUEUE_ACCOUNT or EVENTGRID_QUEUE_CONNECTION_STRING required'')
           else ok \<lparr>qc_queue = queueName, qc_account = account, qc_connection = conn,
                    qc_poison = (case env ''EVENTGRID_QUEUE_POISON_NAME'' of Some p \<Rightarrow> p | None \<Rightarrow> queueName @ ''-poison''),
                    qc_pollMs = pollMs, qc_batch = batch, qc_visibility = vt, qc_maxDequeue = maxDequeue\<rparr>)))))"

text \<open>What \<open>JSON.parse\<close> gives: a falsy value, an array, or one value.\<close>

datatype Payload = PFalsy | PArray "BlobEvent option list" | POne "BlobEvent option"

fun first_payload :: "(string \<Rightarrow> Payload option) \<Rightarrow> string list \<Rightarrow> BlobEvent option list res" where
  "first_payload json [] = Inl (Js ''Unable to parse Event Grid message payload'')"
| "first_payload json (c # cs) =
     (case json c of
        None \<Rightarrow> first_payload json cs
      | Some PFalsy \<Rightarrow> first_payload json cs
      | Some (PArray es) \<Rightarrow> ok es
      | Some (POne e) \<Rightarrow> ok [e])"

definition parseEvents :: "(string \<Rightarrow> Payload option) \<Rightarrow> (string \<Rightarrow> string) \<Rightarrow> string \<Rightarrow> BlobEvent option list res" where
  "parseEvents json b64 messageText = first_payload json [messageText, b64 messageText]"

record Message =
  mg_id :: string
  mg_text :: "string option"
  mg_dequeue :: "nat option"

definition is_failure :: "ProcResult \<Rightarrow> bool" where
  "is_failure r \<longleftrightarrow> pr_status r = Status FAILED \<and> pr_retryable r = Some True"

type_synonym WorkerState = "IngestDb \<times> FileKey list \<times> Metrics"

record Worker =
  wo_intake :: IntakeConfig
  wo_api :: IntakeApi
  wo_vis :: bool
  wo_json :: "string \<Rightarrow> Payload option"
  wo_b64 :: "string \<Rightarrow> string"
  wo_maxDequeue :: int

definition handleMessage :: "Worker \<Rightarrow> nat \<Rightarrow> nat \<Rightarrow> Message \<Rightarrow> WorkerState \<Rightarrow> WorkerState \<times> unit res" where
  "handleMessage wo ms now message st =
     (case parseEvents (wo_json wo) (wo_b64 wo) (case mg_text message of None \<Rightarrow> [] | Some t \<Rightarrow> t) of
        Inl e \<Rightarrow> (st, Inl e)
      | Inr events \<Rightarrow>
          if events = [] then (st, ok ())
          else (case intakeHandler (wo_intake wo) (wo_api wo) (wo_vis wo) ms now events st of
                  (st', Inl e) \<Rightarrow> (st', Inl e)
                | (st', Inr rs) \<Rightarrow> (st', if filter is_failure rs \<noteq> [] then Inl (Js ''queue_message_failed'') else ok ())))"

text \<open>The calls of the queue service.\<close>

datatype QueueOp = SendMessage string string | DeleteMessage string string   \<comment> \<open>queue, text or id\<close>

definition after_message :: "int \<Rightarrow> Message \<Rightarrow> unit res \<Rightarrow> QueueOp list" where
  "after_message maxDequeue message r =
     (case r of
        Inr _ \<Rightarrow> [DeleteMessage ''main'' (mg_id message)]
      | Inl _ \<Rightarrow>
          if int (case mg_dequeue message of None \<Rightarrow> 0 | Some n \<Rightarrow> n) \<ge> maxDequeue
          then [SendMessage ''poison'' (case mg_text message of None \<Rightarrow> [] | Some t \<Rightarrow> t), DeleteMessage ''main'' (mg_id message)]
          else [])"

fun worker_batch :: "Worker \<Rightarrow> nat \<Rightarrow> nat \<Rightarrow> Message list \<Rightarrow> WorkerState \<Rightarrow> WorkerState \<times> QueueOp list" where
  "worker_batch wo ms now [] st = (st, [])"
| "worker_batch wo ms now (g # gs) st =
     (let (st1, r) = handleMessage wo ms now g st; (st2, ops) = worker_batch wo ms now gs st1
      in (st2, after_message (wo_maxDequeue wo) g r @ ops))"

text \<open>The endless loop of \<open>main\<close>, for the batches the queue gave so far.\<close>

fun worker_main :: "Worker \<Rightarrow> nat \<Rightarrow> nat \<Rightarrow> Message list list \<Rightarrow> WorkerState \<Rightarrow> WorkerState \<times> QueueOp list" where
  "worker_main wo ms now [] st = (st, [])"
| "worker_main wo ms now (b # bs) st =
     (let (st1, ops) = worker_batch wo ms now b st; (st2, ops') = worker_main wo ms now bs st1 in (st2, ops @ ops'))"

section \<open>redrive_poison_queue.js\<close>

definition redrive_parsePositiveInt :: "string option \<Rightarrow> int \<Rightarrow> int res" where
  "redrive_parsePositiveInt v fallback =
     (if \<not> truthy v then ok fallback
      else (case positive_parse (the v) of
              None \<Rightarrow> Inl (Js ''REDRIVE_MAX_MESSAGES must be a positive integer'')
            | Some n \<Rightarrow> ok n))"

record RedriveConfig =
  rc_queueName :: string
  rc_poisonQueueName :: string
  rc_queueAccount :: "string option"
  rc_connection :: "string option"
  rc_maxMessages :: int
  rc_batchSize :: int

definition first_set :: "string option \<Rightarrow> string option \<Rightarrow> string option" where
  "first_set a b = (case a of None \<Rightarrow> b | Some x \<Rightarrow> Some x)"

definition redrive_config :: "(string \<Rightarrow> string option) \<Rightarrow> RedriveConfig res" where
  "redrive_config env =
     (let queueName = (case env ''EVENTGRID_QUEUE_NAME'' of None \<Rightarrow> ''ro-sftp-events'' | Some q \<Rightarrow> q);
          account = first_set (env ''EVENTGRID_QUEUE_ACCOUNT'') (env ''INTAKE_STORAGE_ACCOUNT'');
          connection = first_set (env ''EVENTGRID_QUEUE_CONNECTION_STRING'') (env ''AZURE_STORAGE_CONNECTION_STRING'')
      in res_bind (redrive_parsePositiveInt (env ''REDRIVE_MAX_MESSAGES'') 100) (\<lambda>maxMessages.
         res_bind (redrive_parsePositiveInt (env ''REDRIVE_BATCH_SIZE'') 16) (\<lambda>batchSize.
           if \<not> truthy connection \<and> \<not> truthy account
           then Inl (Js ''EVENTGRID_QUEUE_ACCOUNT or EVENTGRID_QUEUE_CONNECTION_STRING required'')
           else ok \<lparr>rc_queueName = queueName,
                    rc_poisonQueueName = (case env ''EVENTGRID_QUEUE_POISON_NAME'' of None \<Rightarrow> queueName @ ''-poison'' | Some q \<Rightarrow> q),
                    rc_queueAccount = account, rc_connection = connection, rc_maxMessages = maxMessages, rc_batchSize = batchSize\<rparr>)))"

text \<open>What becomes of a call of a queue: it succeeds, it throws and the service did nothing, or it throws although the
  service did what was asked. The calls are numbered in the order they are made: \<open>qc_outcome k\<close> is what becomes of the
  k-th, and \<open>qc_received k n\<close> what the poison queue answers if the k-th asks it for \<open>n\<close> messages.\<close>

datatype CallOutcome = Served | NotDone | Unacknowledged

record QueueClients =
  qc_outcome :: "nat \<Rightarrow> CallOutcome"
  qc_received :: "nat \<Rightarrow> nat \<Rightarrow> Message list"

definition performed :: "CallOutcome \<Rightarrow> QueueOp \<Rightarrow> QueueOp list" where
  "performed c op = (if c = NotDone then [] else [op])"

definition message_text :: "Message \<Rightarrow> string" where
  "message_text g = (case mg_text g of None \<Rightarrow> [] | Some t \<Rightarrow> t)"

text \<open>What a loop did: what the service performed, the number of the next call, the messages moved so far and whether it threw.\<close>

type_synonym Moves = "QueueOp list \<times> nat \<times> nat \<times> bool"

fun redrive_batch :: "(nat \<Rightarrow> CallOutcome) \<Rightarrow> RedriveConfig \<Rightarrow> Message list \<Rightarrow> nat \<Rightarrow> nat \<Rightarrow> Moves" where
  "redrive_batch outcome cfg [] k moved = ([], k, moved, False)"
| "redrive_batch outcome cfg (g # gs) k moved =
     (let send = SendMessage ''main'' (message_text g); delete = DeleteMessage ''poison'' (mg_id g)
      in if outcome k \<noteq> Served then (performed (outcome k) send, k + 1, moved, True)
         else if outcome (k + 1) \<noteq> Served then (send # performed (outcome (k + 1)) delete, k + 2, moved, True)
         else if rc_maxMessages cfg \<le> int (moved + 1) then ([send, delete], k + 2, moved + 1, False)
         else (case redrive_batch outcome cfg gs (k + 2) (moved + 1) of (ops, r) \<Rightarrow> (send # delete # ops, r)))"

lemma redrive_batch_moves: "redrive_batch oc cfg gs k moved = (ops, k', moved', False) \<Longrightarrow> moved \<le> moved' \<and> (gs \<noteq> [] \<longrightarrow> moved < moved')"
  by (induction gs arbitrary: k moved ops) (fastforce simp: Let_def split: if_splits prod.splits)+

function redrive_loop :: "QueueClients \<Rightarrow> RedriveConfig \<Rightarrow> nat \<Rightarrow> nat \<Rightarrow> Moves" where
  "redrive_loop c cfg k moved =
     (if rc_maxMessages cfg \<le> int moved then ([], k, moved, False)
      else if qc_outcome c k \<noteq> Served then ([], k + 1, moved, True)
      else
        let messages = qc_received c k (nat (min (rc_batchSize cfg) (rc_maxMessages cfg - int moved)))
        in if messages = [] then ([], k + 1, moved, False)
           else (case redrive_batch (qc_outcome c) cfg messages (k + 1) moved of
               (ops, k', moved', threw) \<Rightarrow>
                 if threw then (ops, k', moved', True)
                 else (case redrive_loop c cfg k' moved' of (ops', r) \<Rightarrow> (ops @ ops', r))))"
  by pat_completeness auto
termination
  by (relation "measure (\<lambda>(c, cfg, k, moved). nat (rc_maxMessages cfg - int moved))") (auto dest!: redrive_batch_moves [OF sym])

declare redrive_loop.simps [simp del]

text \<open>Both queues are created before the loop; a call that throws ends the run with exit code 1.\<close>

definition redrive_main :: "QueueClients \<Rightarrow> RedriveConfig \<Rightarrow> Moves" where
  "redrive_main c cfg =
     (if qc_outcome c 0 \<noteq> Served then ([], 1, 0, True)
      else if qc_outcome c 1 \<noteq> Served then ([], 2, 0, True)
      else redrive_loop c cfg 2 0)"

definition redrive :: "(string \<Rightarrow> string option) \<Rightarrow> QueueClients \<Rightarrow> Moves res" where
  "redrive env c = res_bind (redrive_config env) (\<lambda>cfg. ok (redrive_main c cfg))"

end
