(* ===== verification/IntakeFacts.thy ===== *)
theory IntakeFacts
  imports IntakeQueue
begin

text \<open>
  Several workers on one table. \<open>istep\<close> is the step relation of workers that run the statements of
  \<open>processEvent\<close> in any interleaving and may crash at any point; a run of \<open>processEvent\<close> is a run of
  it. In every reachable state the ingest API was called at most once for each tenant and content
  hash. Then: what happens to a file once it failed, the metrics, and the queues.
\<close>

section \<open>Workers as a step relation\<close>

datatype Phase =
    Idle
  | Arrived Work
  | Upserted Work
  | Refused Work
  | Repeated Work
  | Claimed Work
  | Calling Work
  | Failing Work string
  | Succeeding Work
  | Finished ProcResult

record Sys =
  sy_db :: IngestDb
  sy_phase :: "nat \<Rightarrow> Phase"
  sy_calls :: "FileKey list"

definition goto :: "nat \<Rightarrow> Phase \<Rightarrow> IngestDb \<Rightarrow> Sys \<Rightarrow> Sys" where
  "goto i p db s = s\<lparr>sy_db := db, sy_phase := (sy_phase s)(i := p)\<rparr>"

inductive istep :: "IntakeConfig \<Rightarrow> bool \<Rightarrow> nat \<Rightarrow> Sys \<Rightarrow> Sys \<Rightarrow> bool" for cfg vis ms where
  Arrive: "sy_phase s i = Idle \<Longrightarrow> istep cfg vis ms s (goto i (Arrived w) (sy_db s) s)"
| Upsert: "sy_phase s i = Arrived w \<Longrightarrow> upsertIngestFile vis (file_input w) (sy_db s) = (db, Inr u) \<Longrightarrow>
    istep cfg vis ms s (goto i (Upserted w) db s)"
| UpsertFails: "sy_phase s i = Arrived w \<Longrightarrow> upsertIngestFile vis (file_input w) (sy_db s) = (db, Inl e) \<Longrightarrow>
    istep cfg vis ms s (goto i Idle db s)"
| Claim: "sy_phase s i = Upserted w \<Longrightarrow> claimIngestFile vis (wk_key w) (sy_db s) = (db, True) \<Longrightarrow>
    istep cfg vis ms s (goto i (Claimed w) db s)"
| Refuse: "sy_phase s i = Upserted w \<Longrightarrow> claimIngestFile vis (wk_key w) (sy_db s) = (db, False) \<Longrightarrow>
    istep cfg vis ms s (goto i (Refused w) db s)"
| Look: "sy_phase s i = Refused w \<Longrightarrow> st = existing_status (fetchIngestStatus vis (wk_key w) (sy_db s)) \<Longrightarrow>
    istep cfg vis ms s (goto i (if st = INGESTED then Repeated w else Finished (unclaimed_result w ms st)) (sy_db s) s)"
| Repeat: "sy_phase s i = Repeated w \<Longrightarrow> markDuplicate vis (wk_key w) (Some (wk_event w)) (sy_db s) = (db, hit) \<Longrightarrow>
    istep cfg vis ms s (goto i (Finished (unclaimed_result w ms INGESTED)) db s)"
| Reject: "sy_phase s i = Claimed w \<Longrightarrow> rejection cfg w = Some c \<Longrightarrow>
    istep cfg vis ms s (goto i (Failing w c) (sy_db s) s)"
| Call: "sy_phase s i = Claimed w \<Longrightarrow> rejection cfg w = None \<Longrightarrow>
    istep cfg vis ms s ((goto i (Calling w) (sy_db s) s)\<lparr>sy_calls := sy_calls s @ [wk_key w]\<rparr>)"
| CallFails: "sy_phase s i = Calling w \<Longrightarrow> call_error a = Some c \<Longrightarrow>
    istep cfg vis ms s (goto i (Failing w c) (sy_db s) s)"
| CallSucceeds: "sy_phase s i = Calling w \<Longrightarrow> call_error a = None \<Longrightarrow>
    istep cfg vis ms s (goto i (Succeeding w) (sy_db s) s)"
| Fail: "sy_phase s i = Failing w c \<Longrightarrow> markFailed vis (wk_key w) (Some c) (sy_db s) = (db, hit) \<Longrightarrow>
    istep cfg vis ms s (goto i (Finished (work_result w ms FAILED True (Some c))) db s)"
| Succeed: "sy_phase s i = Succeeding w \<Longrightarrow> markIngested vis (wk_key w) (Some (wk_event w)) (sy_db s) = (db, hit) \<Longrightarrow>
    istep cfg vis ms s (goto i (Finished (work_result w ms INGESTED False None)) db s)"
| Crash: "istep cfg vis ms s (goto i Idle (sy_db s) s)"

section \<open>Statuses under the statements\<close>

definition st_of :: "IngestDb \<Rightarrow> FileKey \<Rightarrow> FileStatus option" where
  "st_of db k = map_option fr_status (db k)"

lemma upsert_status:
  "upsertIngestFile vis i db = (db', r) \<Longrightarrow>
     st_of db' k = (if vis \<and> k = fi_key i \<and> st_of db k = None then Some PENDING else st_of db k)"
  by (auto simp: upsertIngestFile_def st_of_def Let_def split: option.splits if_splits)

lemma update_row_eq:
  "update_row vis k p f db =
     (if vis \<and> (case db k of None \<Rightarrow> False | Some r \<Rightarrow> p r) then (db(k \<mapsto> f (the (db k))), True) else (db, False))"
  by (simp add: update_row_def split: option.split)

lemma st_of_upd: "st_of (db(k \<mapsto> r)) = (st_of db)(k \<mapsto> fr_status r)"
  by (rule ext) (simp add: st_of_def)

lemma st_of_Some: "st_of db k = Some st \<longleftrightarrow> (\<exists>r. db k = Some r \<and> fr_status r = st)"
  by (simp add: st_of_def)

lemma claim_status:
  "claimIngestFile vis k db = (db', b) \<Longrightarrow>
     (b \<longleftrightarrow> vis \<and> st_of db k = Some PENDING) \<and> st_of db' = (if b then (st_of db)(k \<mapsto> PROCESSING) else st_of db)"
  by (auto simp: claimIngestFile_def update_row_eq st_of_Some st_of_upd split: option.splits if_splits)

lemma duplicate_status: "markDuplicate vis k e db = (db', b) \<Longrightarrow> st_of db' = st_of db"
  by (auto simp: markDuplicate_def update_row_eq st_of_Some st_of_upd fun_upd_idem split: option.splits if_splits)

lemma failed_status:
  "markFailed vis k c db = (db', b) \<Longrightarrow> st_of db' = (if vis \<and> st_of db k = Some PROCESSING then (st_of db)(k \<mapsto> FAILED) else st_of db)"
  by (auto simp: markFailed_def update_row_eq st_of_Some st_of_upd split: option.splits if_splits)

lemma ingested_status:
  "markIngested vis k e db = (db', b) \<Longrightarrow> st_of db' = (if vis \<and> st_of db k = Some PROCESSING then (st_of db)(k \<mapsto> INGESTED) else st_of db)"
  by (auto simp: markIngested_def update_row_eq st_of_Some st_of_upd split: option.splits if_splits)

section \<open>The invariant\<close>

fun holder :: "Phase \<Rightarrow> FileKey option" where
  "holder (Claimed w) = Some (wk_key w)"
| "holder (Calling w) = Some (wk_key w)"
| "holder (Failing w c) = Some (wk_key w)"
| "holder (Succeeding w) = Some (wk_key w)"
| "holder p = None"

fun about_to_call :: "Phase \<Rightarrow> FileKey option" where
  "about_to_call (Claimed w) = Some (wk_key w)"
| "about_to_call p = None"

definition intake_inv :: "Sys \<Rightarrow> bool" where
  "intake_inv s \<longleftrightarrow>
     (\<forall>i k. holder (sy_phase s i) = Some k \<longrightarrow> st_of (sy_db s) k = Some PROCESSING) \<and>
     (\<forall>i j k. i \<noteq> j \<longrightarrow> holder (sy_phase s i) = Some k \<longrightarrow> holder (sy_phase s j) \<noteq> Some k) \<and>
     (\<forall>i k. about_to_call (sy_phase s i) = Some k \<longrightarrow> k \<notin> set (sy_calls s)) \<and>
     (\<forall>k \<in> set (sy_calls s). st_of (sy_db s) k \<noteq> None \<and> st_of (sy_db s) k \<noteq> Some PENDING) \<and>
     distinct (sy_calls s)"

lemma intake_invD:
  assumes "intake_inv s"
  shows "holder (sy_phase s i) = Some k \<Longrightarrow> st_of (sy_db s) k = Some PROCESSING"
    "i \<noteq> j \<Longrightarrow> holder (sy_phase s i) = Some k \<Longrightarrow> holder (sy_phase s j) \<noteq> Some k"
    "about_to_call (sy_phase s i) = Some k \<Longrightarrow> k \<notin> set (sy_calls s)"
    "k \<in> set (sy_calls s) \<Longrightarrow> st_of (sy_db s) k \<noteq> None \<and> st_of (sy_db s) k \<noteq> Some PENDING"
    "distinct (sy_calls s)"
  using assms unfolding intake_inv_def by blast+

lemma about_holder: "about_to_call p = Some k \<Longrightarrow> holder p = Some k"
  by (cases p) auto

lemma goto_simps [simp]:
  "sy_db (goto i p db s) = db" "sy_phase (goto i p db s) = (sy_phase s)(i := p)" "sy_calls (goto i p db s) = sy_calls s"
  by (simp_all add: goto_def)

text \<open>A step to a phase that does not hold more than before and is not about to call keeps the
  invariant, if held keys stay in processing and called keys do not become pending.\<close>

lemma inv_goto:
  assumes "intake_inv s" "holder p = None \<or> holder p = holder (sy_phase s i)" "about_to_call p = None"
    and "\<And>j k. holder (((sy_phase s)(i := p)) j) = Some k \<Longrightarrow> st_of db k = Some PROCESSING"
    and "\<And>k. k \<in> set (sy_calls s) \<Longrightarrow> st_of db k \<noteq> None \<and> st_of db k \<noteq> Some PENDING"
  shows "intake_inv (goto i p db s)"
proof -
  have h: "holder (((sy_phase s)(i := p)) j) = Some k \<Longrightarrow> holder (sy_phase s j) = Some k" for j k
    using assms(2) by (cases "j = i") simp_all
  have a: "about_to_call (((sy_phase s)(i := p)) j) = Some k \<Longrightarrow> about_to_call (sy_phase s j) = Some k" for j k
    using assms(3) by (cases "j = i") simp_all
  show ?thesis
    unfolding intake_inv_def goto_simps
    using assms(4,5) intake_invD(2,3,5) [OF assms(1)] h a by blast
qed

text \<open>A step that gives up or keeps the hold of a key and does not change a status.\<close>

lemma inv_quiet:
  assumes "intake_inv s" "st_of db = st_of (sy_db s)"
    and "holder p = None \<or> holder p = holder (sy_phase s i)" "about_to_call p = None"
  shows "intake_inv (goto i p db s)"
proof (rule inv_goto [OF assms(1,3,4)])
  fix j k assume "holder (((sy_phase s)(i := p)) j) = Some k"
  then have "holder (sy_phase s j) = Some k" using assms(3) by (cases "j = i") simp_all
  then show "st_of db k = Some PROCESSING" using intake_invD(1) [OF assms(1)] assms(2) by simp
next
  fix k assume "k \<in> set (sy_calls s)"
  then show "st_of db k \<noteq> None \<and> st_of db k \<noteq> Some PENDING" using intake_invD(4) [OF assms(1)] assms(2) by simp
qed

text \<open>A worker that marks its file and lets go of it.\<close>

lemma inv_release:
  assumes "intake_inv s" "holder (sy_phase s i) = Some q" "holder p = None" "x \<noteq> PENDING"
    and "st_of db = st_of (sy_db s) \<or> st_of db = (st_of (sy_db s))(q \<mapsto> x)"
  shows "intake_inv (goto i p db s)"
proof (rule inv_goto [OF assms(1)])
  show "holder p = None \<or> holder p = holder (sy_phase s i)" "about_to_call p = None"
    using assms(3) by (cases p; simp)+
next
  fix j k assume h: "holder (((sy_phase s)(i := p)) j) = Some k"
  then have j: "j \<noteq> i" "holder (sy_phase s j) = Some k" using assms(3) by (cases "j = i"; simp)+
  then have "k \<noteq> q" using intake_invD(2) [OF assms(1) j(1)] assms(2) by auto
  then show "st_of db k = Some PROCESSING" using intake_invD(1) [OF assms(1) j(2)] assms(5) by auto
next
  fix k assume "k \<in> set (sy_calls s)"
  from intake_invD(4) [OF assms(1) this] show "st_of db k \<noteq> None \<and> st_of db k \<noteq> Some PENDING"
    using assms(4,5) by (auto split: if_splits)
qed

lemma istep_inv: "istep cfg vis ms s s' \<Longrightarrow> intake_inv s \<Longrightarrow> intake_inv s'"
proof (induction rule: istep.induct)
  case (Upsert s i w db u)
  have *: "st_of db k = (if vis \<and> k = fi_key (file_input w) \<and> st_of (sy_db s) k = None then Some PENDING else st_of (sy_db s) k)" for k
    by (rule upsert_status [OF Upsert(2)])
  show ?case
  proof (rule inv_goto [OF Upsert(3)])
    fix j k assume h: "holder (((sy_phase s)(i := Upserted w)) j) = Some k"
    then have "holder (sy_phase s j) = Some k" by (cases "j = i") simp_all
    then show "st_of db k = Some PROCESSING" using intake_invD(1) [OF Upsert(3)] * [of k] by simp
  next
    fix k assume "k \<in> set (sy_calls s)"
    then show "st_of db k \<noteq> None \<and> st_of db k \<noteq> Some PENDING" using intake_invD(4) [OF Upsert(3)] * [of k] by simp
  qed simp_all
next
  case (UpsertFails s i w db e)
  then have "st_of db = st_of (sy_db s)" by (auto simp: upsertIngestFile_def Let_def split: if_splits option.splits)
  with UpsertFails show ?case by (intro inv_quiet) simp_all
next
  case (Claim s i w db)
  let ?q = "wk_key w"
  have *: "st_of (sy_db s) ?q = Some PENDING" "st_of db = (st_of (sy_db s))(?q \<mapsto> PROCESSING)"
    using claim_status [OF Claim(2)] by simp_all
  have free: "holder (sy_phase s j) \<noteq> Some ?q" for j using intake_invD(1) [OF Claim(3), of j ?q] * by auto
  have new: "?q \<notin> set (sy_calls s)" using intake_invD(4) [OF Claim(3), of ?q] * by auto
  have h: "holder (((sy_phase s)(i := Claimed w)) j) = (if j = i then Some ?q else holder (sy_phase s j))"
    and a: "about_to_call (((sy_phase s)(i := Claimed w)) j) = (if j = i then Some ?q else about_to_call (sy_phase s j))" for j
    by simp_all
  show ?case
    unfolding intake_inv_def goto_simps
  proof (intro conjI allI impI ballI)
    fix j k assume "holder (((sy_phase s)(i := Claimed w)) j) = Some k"
    then show "st_of db k = Some PROCESSING"
      using intake_invD(1) [OF Claim(3), of j k] * unfolding h by (auto split: if_splits)
  next
    fix j l k assume "j \<noteq> l" "holder (((sy_phase s)(i := Claimed w)) j) = Some k"
    then show "holder (((sy_phase s)(i := Claimed w)) l) \<noteq> Some k"
      using intake_invD(2) [OF Claim(3), of j l k] free [of j] free [of l] unfolding h by (auto split: if_splits)
  next
    fix j k assume "about_to_call (((sy_phase s)(i := Claimed w)) j) = Some k"
    then show "k \<notin> set (sy_calls s)" using intake_invD(3) [OF Claim(3), of j k] new unfolding a by (auto split: if_splits)
  next
    fix k assume "k \<in> set (sy_calls s)"
    then show "st_of db k \<noteq> None" "st_of db k \<noteq> Some PENDING" using intake_invD(4) [OF Claim(3), of k] * by auto
  next
    show "distinct (sy_calls s)" by (rule intake_invD(5) [OF Claim(3)])
  qed
next
  case (Refuse s i w db)
  then show ?case using claim_status [OF Refuse(2)] by (intro inv_quiet) simp_all
next
  case (Repeat s i w db hit)
  then show ?case using duplicate_status [OF Repeat(2)] by (intro inv_quiet) simp_all
next
  case (Call s i w)
  let ?q = "wk_key w"
  have q: "holder (sy_phase s i) = Some ?q" "?q \<notin> set (sy_calls s)" "st_of (sy_db s) ?q = Some PROCESSING"
    using Call(1) intake_invD(1,3) [OF Call(3), of i ?q] by simp_all
  have g: "intake_inv (goto i (Calling w) (sy_db s) s)" using Call by (intro inv_quiet) simp_all
  have about: "about_to_call (((sy_phase s)(i := Calling w)) j) \<noteq> Some ?q" for j
  proof
    assume "about_to_call (((sy_phase s)(i := Calling w)) j) = Some ?q"
    then have "j \<noteq> i" "holder (sy_phase s j) = Some ?q" using about_holder by (cases "j = i"; simp)+
    then show False using intake_invD(2) [OF Call(3), of j i ?q] q(1) by simp
  qed
  show ?case
    using intake_invD [OF g] about q(2,3) unfolding intake_inv_def by (auto simp del: fun_upd_apply split_paired_All split_paired_Ex)
next
  case (Fail s i w c db hit)
  then show ?case using failed_status [OF Fail(2)] by (intro inv_release [where q = "wk_key w" and x = FAILED]) auto
next
  case (Succeed s i w db hit)
  then show ?case using ingested_status [OF Succeed(2)] by (intro inv_release [where q = "wk_key w" and x = INGESTED]) auto
qed (auto intro: inv_quiet)

lemma isteps_inv: "rtranclp (istep cfg vis ms) s s' \<Longrightarrow> intake_inv s \<Longrightarrow> intake_inv s'"
  by (induction rule: rtranclp_induct) (auto intro: istep_inv)

text \<open>C5: however many workers run, in whatever interleaving and with crashes at any point, the ingest
  API is called at most once for each tenant and content hash.\<close>

theorem ingest_called_at_most_once:
  assumes "rtranclp (istep cfg vis ms) s s'" "\<And>i. sy_phase s i = Idle" "sy_calls s = []"
  shows "distinct (sy_calls s')"
proof -
  have "intake_inv s" using assms(2,3) by (simp add: intake_inv_def)
  then have "intake_inv s'" by (rule isteps_inv [OF assms(1)])
  then show ?thesis by (rule intake_invD)
qed

section \<open>A run of processEvent\<close>

lemma goto_goto [simp]: "goto i p db (goto i p' db' s) = goto i p db s"
  by (simp add: goto_def)

lemma goto_calls [simp]:
  "goto i p db (s\<lparr>sy_calls := cs\<rparr>) = (goto i p db s)\<lparr>sy_calls := cs\<rparr>"
  by (simp add: goto_def)

lemma last_step: "istep cfg vis ms s s' \<Longrightarrow> rtranclp (istep cfg vis ms) s s'"
  by (rule r_into_rtranclp)

lemma run_step:
  "istep cfg vis ms s s' \<Longrightarrow> rtranclp (istep cfg vis ms) s' s'' \<Longrightarrow> rtranclp (istep cfg vis ms) s s''"
  by (rule converse_rtranclp_into_rtranclp)

lemma run_claimed:
  assumes "sy_phase s i = Claimed w"
    and "(case rejection cfg w of
        Some c \<Rightarrow> (fst (markFailed vis (wk_key w) (Some c) (sy_db s)), [], work_result w ms FAILED True (Some c))
      | None \<Rightarrow>
          (case call_error a of
             Some c \<Rightarrow> (fst (markFailed vis (wk_key w) (Some c) (sy_db s)), [wk_key w], work_result w ms FAILED True (Some c))
           | None \<Rightarrow> (fst (markIngested vis (wk_key w) (Some (wk_event w)) (sy_db s)), [wk_key w], work_result w ms INGESTED False None)))
      = (db', cs, r)"
  shows "rtranclp (istep cfg vis ms) s ((goto i (Finished r) db' s)\<lparr>sy_calls := sy_calls s @ cs\<rparr>)"
proof (cases "rejection cfg w")
  case (Some c)
  have 1: "istep cfg vis ms s (goto i (Failing w c) (sy_db s) s)" by (rule Reject [OF assms(1) Some])
  have 2: "istep cfg vis ms (goto i (Failing w c) (sy_db s) s) (goto i (Finished r) db' s)"
    using Fail [of "goto i (Failing w c) (sy_db s) s" i w c vis db' _ cfg ms] assms(2) Some by (auto simp: prod_eq_iff)
  show ?thesis using run_step [OF 1 last_step [OF 2]] assms(2) Some by (simp add: goto_def)
next
  case None
  let ?s = "(goto i (Calling w) (sy_db s) s)\<lparr>sy_calls := sy_calls s @ [wk_key w]\<rparr>"
  have 1: "istep cfg vis ms s ?s" by (rule Call [OF assms(1) None])
  show ?thesis
  proof (cases "call_error a")
    case e: (Some c)
    have 2: "istep cfg vis ms ?s (goto i (Failing w c) (sy_db s) ?s)"
      using CallFails [of ?s i w a c cfg vis ms] e by simp
    have 3: "istep cfg vis ms (goto i (Failing w c) (sy_db s) ?s) (goto i (Finished r) db' ?s)"
      using Fail [of "goto i (Failing w c) (sy_db s) ?s" i w c vis db' _ cfg ms] assms(2) None e by (auto simp: prod_eq_iff)
    show ?thesis using run_step [OF 1 run_step [OF 2 last_step [OF 3]]] assms(2) None e by auto
  next
    case e: None
    have 2: "istep cfg vis ms ?s (goto i (Succeeding w) (sy_db s) ?s)"
      using CallSucceeds [of ?s i w a cfg vis ms] e by simp
    have 3: "istep cfg vis ms (goto i (Succeeding w) (sy_db s) ?s) (goto i (Finished r) db' ?s)"
      using Succeed [of "goto i (Succeeding w) (sy_db s) ?s" i w vis db' _ cfg ms] assms(2) None e by (auto simp: prod_eq_iff)
    show ?thesis using run_step [OF 1 run_step [OF 2 last_step [OF 3]]] assms(2) None e by auto
  qed
qed

lemma run_refused:
  assumes "sy_phase s i = Refused w" "st = existing_status (fetchIngestStatus vis (wk_key w) (sy_db s))"
  shows "rtranclp (istep cfg vis ms) s
    (goto i (Finished (unclaimed_result w ms st))
       (if st = INGESTED then fst (markDuplicate vis (wk_key w) (Some (wk_event w)) (sy_db s)) else sy_db s) s)"
proof (cases "st = INGESTED")
  case True
  have 1: "istep cfg vis ms s (goto i (Repeated w) (sy_db s) s)" using Look [OF assms, of cfg ms] True by simp
  have 2: "istep cfg vis ms (goto i (Repeated w) (sy_db s) s)
      (goto i (Finished (unclaimed_result w ms INGESTED)) (fst (markDuplicate vis (wk_key w) (Some (wk_event w)) (sy_db s))) s)"
    using Repeat [of "goto i (Repeated w) (sy_db s) s" i w vis _ _ cfg ms] by (auto simp: prod_eq_iff)
  show ?thesis using run_step [OF 1 last_step [OF 2]] True by simp
next
  case False
  then show ?thesis using Look [OF assms, of cfg ms] by auto
qed

lemma work_steps:
  assumes "sy_phase s i = Arrived w" "processWork cfg api vis ms w (sy_db s) = (db', cs, r)"
  shows "rtranclp (istep cfg vis ms) s
    ((goto i (case r of Inr x \<Rightarrow> Finished x | Inl e \<Rightarrow> Idle) db' s)\<lparr>sy_calls := sy_calls s @ cs\<rparr>)"
proof (cases "upsertIngestFile vis (file_input w) (sy_db s)")
  case up: (Pair db1 u)
  show ?thesis
  proof (cases u)
    case (Inl e)
    have "istep cfg vis ms s (goto i Idle db1 s)" using UpsertFails [OF assms(1)] up Inl by blast
    then show ?thesis using assms(2) up Inl by (auto simp: processWork_def goto_def)
  next
    case (Inr x)
    let ?s1 = "goto i (Upserted w) db1 s"
    have 1: "istep cfg vis ms s ?s1" using Upsert [OF assms(1)] up Inr by blast
    obtain db2 b where cl: "claimIngestFile vis (wk_key w) db1 = (db2, b)" by fastforce
    show ?thesis
    proof (cases b)
      case True
      let ?s2 = "goto i (Claimed w) db2 s"
      have 2: "istep cfg vis ms ?s1 ?s2" using Claim [of ?s1 i w vis db2 cfg ms] cl True by simp
      obtain x' where x': "r = Inr x'"
        using assms(2) up Inr cl True by (auto simp: processWork_def Let_def split: option.splits)
      have "rtranclp (istep cfg vis ms) ?s2 ((goto i (Finished x') db' ?s2)\<lparr>sy_calls := sy_calls ?s2 @ cs\<rparr>)"
        by (rule run_claimed [where a = "ia_call api (wk_tenant w) (wk_uri w)"])
          (use assms(2) up Inr cl True x' in \<open>auto simp: processWork_def Let_def split: option.splits\<close>)
      from run_step [OF 1 run_step [OF 2 this]] show ?thesis by (simp add: x')
    next
      case False
      let ?s2 = "goto i (Refused w) db2 s"
      let ?st = "existing_status (fetchIngestStatus vis (wk_key w) db2)"
      have 2: "istep cfg vis ms ?s1 ?s2" using Refuse [of ?s1 i w vis db2 cfg ms] cl False by simp
      have 3: "rtranclp (istep cfg vis ms) ?s2 (goto i (Finished (unclaimed_result w ms ?st))
          (if ?st = INGESTED then fst (markDuplicate vis (wk_key w) (Some (wk_event w)) db2) else db2) ?s2)"
        using run_refused [of ?s2 i w ?st vis cfg ms] unfolding goto_simps by simp
      have "r = Inr (unclaimed_result w ms ?st)" "cs = []"
        "db' = (if ?st = INGESTED then fst (markDuplicate vis (wk_key w) (Some (wk_event w)) db2) else db2)"
        using assms(2) up Inr cl False by (auto simp: processWork_def Let_def)
      with run_step [OF 1 run_step [OF 2 3]] show ?thesis by (simp add: goto_def)
    qed
  qed
qed

text \<open>C6: the handling of one event by \<open>processEvent\<close> is a run of one worker of the step relation: it makes
  the same changes to the table and the same calls, and ends with the same result.\<close>

theorem process_is_a_run:
  assumes "sy_phase s i = Arrived w" "processWork cfg api vis ms w (sy_db s) = (db', cs, r)"
  shows "rtranclp (istep cfg vis ms) s
    ((goto i (case r of Inr x \<Rightarrow> Finished x | Inl e \<Rightarrow> Idle) db' s)\<lparr>sy_calls := sy_calls s @ cs\<rparr>)"
  by (rule work_steps [OF assms])

section \<open>A sample worker\<close>

definition sample_config :: IntakeConfig where
  "sample_config = \<lparr>ic_account = ''acc'', ic_container = ''c'', ic_allowedExt = ''xml'', ic_maxBytes = 10,
     ic_wellformed = False, ic_apiUrl = ''u'', ic_audience = ''a'', ic_timeoutMs = 1, ic_logEvery = 10,
     ic_flushEvery = 25, ic_workerId = ''w'', ic_databaseUrl = ''d''\<rparr>"

definition sample_api :: IntakeApi where
  "sample_api = \<lparr>ia_decode = Inr, ia_urlPath = Inr,
     ia_blob = (\<lambda>_. Some (Some 3, \<lparr>dl_hash = ''h'', dl_bytes = 3, dl_wellFormed = True, dl_streamError = False\<rparr>)),
     ia_call = (\<lambda>_ _. Answer 201)\<rparr>"

definition sample_event :: BlobEvent where
  "sample_event = \<lparr>be_type = Some ''Microsoft.Storage.BlobCreated'', be_id = Some ''e'', be_url = Some ''/c/a.xml'',
     be_subject = Some ''/containers/c/blobs/tenant=t/a.xml''\<rparr>"

definition sample_work :: Work where
  "sample_work = \<lparr>wk_tenant = ''t'', wk_uri = ''/c/a.xml'', wk_hash = ''h'', wk_event = ''e'', wk_extValid = True,
     wk_tooLarge = False, wk_download = \<lparr>dl_hash = ''h'', dl_bytes = 3, dl_wellFormed = True, dl_streamError = False\<rparr>\<rparr>"

definition sample_sys :: "Phase \<Rightarrow> Sys" where
  "sample_sys p = \<lparr>sy_db = Map.empty, sy_phase = (\<lambda>_. Idle)(0 := p), sy_calls = []\<rparr>"

lemma sample_admitted: "admit sample_config sample_api 5 (Some sample_event) = Inr (Inr sample_work)"
  by code_simp

lemma sample_processed:
  "\<exists>db. processWork sample_config sample_api True 5 sample_work Map.empty =
     (db, [(''t'', ''h'')], Inr (work_result sample_work 5 INGESTED False None))"
proof -
  have "snd (processWork sample_config sample_api True 5 sample_work Map.empty) =
     ([(''t'', ''h'')], Inr (work_result sample_work 5 INGESTED False None))"
    by code_simp
  then show ?thesis by (metis prod.collapse)
qed

theorem process_run_witness:
  "\<exists>db. rtranclp (istep sample_config True 5) (sample_sys (Arrived sample_work))
     ((goto 0 (Finished (work_result sample_work 5 INGESTED False None)) db (sample_sys (Arrived sample_work)))
        \<lparr>sy_calls := [(''t'', ''h'')]\<rparr>)"
proof -
  obtain db where "processWork sample_config sample_api True 5 sample_work Map.empty =
     (db, [(''t'', ''h'')], Inr (work_result sample_work 5 INGESTED False None))"
    using sample_processed by blast
  then show ?thesis
    using process_is_a_run [of "sample_sys (Arrived sample_work)" 0 sample_work sample_config sample_api True 5]
    by (auto simp: sample_sys_def)
qed

theorem at_most_once_witness:
  "\<exists>s. rtranclp (istep sample_config True 5) (sample_sys Idle) s \<and> sy_calls s = [(''t'', ''h'')] \<and> distinct (sy_calls s)"
proof -
  obtain db where p: "processWork sample_config sample_api True 5 sample_work Map.empty =
     (db, [(''t'', ''h'')], Inr (work_result sample_work 5 INGESTED False None))"
    using sample_processed by blast
  have "istep sample_config True 5 (sample_sys Idle) (goto 0 (Arrived sample_work) (sy_db (sample_sys Idle)) (sample_sys Idle))"
    by (rule Arrive) (simp add: sample_sys_def)
  then have 1: "istep sample_config True 5 (sample_sys Idle) (sample_sys (Arrived sample_work))"
    by (simp add: goto_def sample_sys_def)
  obtain s where s: "rtranclp (istep sample_config True 5) (sample_sys (Arrived sample_work)) s" "sy_calls s = [(''t'', ''h'')]"
    using work_steps [of "sample_sys (Arrived sample_work)" 0 sample_work sample_config sample_api True 5] p
    by (fastforce simp: sample_sys_def)
  have r: "rtranclp (istep sample_config True 5) (sample_sys Idle) s" by (rule run_step [OF 1 s(1)])
  moreover have "distinct (sy_calls s)"
    by (rule ingest_called_at_most_once [OF r]) (simp_all add: sample_sys_def)
  ultimately show ?thesis using s(2) by blast
qed

section \<open>A file that left the state PENDING\<close>

lemma settled_work:
  assumes "st_of db (wk_key w) = Some st" "st \<noteq> PENDING"
  shows "\<exists>db'. processWork cfg api True ms w db = (db', [], Inr (unclaimed_result w ms st)) \<and> st_of db' = st_of db"
proof -
  obtain db1 u where up: "upsertIngestFile True (file_input w) db = (db1, Inr u)"
    by (cases "upsertIngestFile True (file_input w) db") (auto simp: upsertIngestFile_def Let_def)
  have s1: "st_of db1 = st_of db"
    by (rule ext) (use upsert_status [OF up] assms(1) in \<open>auto simp: file_input_def\<close>)
  obtain db2 b where cl: "claimIngestFile True (wk_key w) db1 = (db2, b)" by fastforce
  have b: "\<not> b" "st_of db2 = st_of db1" using claim_status [OF cl] s1 assms by auto
  have "st_of db2 (wk_key w) = Some st" using b(2) s1 assms(1) by simp
  then have f: "existing_status (fetchIngestStatus True (wk_key w) db2) = st"
    by (auto simp: fetchIngestStatus_def existing_status_def st_of_Some)
  have "st_of (fst (markDuplicate True (wk_key w) (Some (wk_event w)) db2)) = st_of db2"
    by (rule duplicate_status [OF prod.collapse [symmetric]])
  then show ?thesis using up cl b f s1 by (simp add: processWork_def Let_def)
qed

text \<open>C15: a file whose row has left the state PENDING is never tried again. A message about it makes no call
  of the ingest API and changes no status; it fails (and finally goes to the poison queue) when the file
  has failed before, and is deleted as handled otherwise, also when the worker that had claimed the file
  crashed and the row stays in PROCESSING.\<close>

theorem settled_file_is_never_retried:
  assumes "parseEvents (wo_json wo) (wo_b64 wo) (case mg_text g of None \<Rightarrow> [] | Some t \<Rightarrow> t) = Inr [e]"
    and "admit (wo_intake wo) (wo_api wo) ms e = Inr (Inr w)" "wo_vis wo"
    and "st_of db (wk_key w) = Some st" "st \<noteq> PENDING"
  shows "\<exists>db' m'. worker_batch wo ms now [g] (db, calls, m) =
      ((db', calls, m'), after_message (wo_maxDequeue wo) g (if st = FAILED then Inl (Js ''queue_message_failed'') else Inr ())) \<and>
    st_of db' = st_of db"
proof -
  obtain db' where p: "processWork (wo_intake wo) (wo_api wo) True ms w db = (db', [], Inr (unclaimed_result w ms st))"
    "st_of db' = st_of db"
    using settled_work [OF assms(4,5)] by blast
  have f: "is_failure (unclaimed_result w ms st) = (st = FAILED)"
    by (cases st) (simp_all add: is_failure_def unclaimed_result_def work_result_def)
  have "handleMessage wo ms now g (db, calls, m) =
      ((db', calls, fst (recordMetrics (wo_intake wo) now (unclaimed_result w ms st) m)),
       if st = FAILED then Inl (Js ''queue_message_failed'') else Inr ())"
    using assms(1,2,3) p(1) f by (simp add: handleMessage_def processEvent_def)
  then show ?thesis using p(2) by simp
qed

definition sample_worker :: Worker where
  "sample_worker = \<lparr>wo_intake = sample_config, wo_api = sample_api, wo_vis = True, wo_json = (\<lambda>_. Some (POne (Some sample_event))),
     wo_b64 = (\<lambda>x. x), wo_maxDequeue = 5\<rparr>"

theorem settled_file_witness:
  "\<exists>db' m'. worker_batch sample_worker 5 0 [\<lparr>mg_id = ''m'', mg_text = Some ''x'', mg_dequeue = Some 1\<rparr>]
      (Map.empty((''t'', ''h'') \<mapsto> \<lparr>fr_uri = ''u'', fr_source = ''ftp'', fr_status = PROCESSING, fr_error = None, fr_dups = 0, fr_event = None\<rparr>), [], METRICS) =
     ((db', [], m'), [DeleteMessage ''main'' ''m''])"
proof -
  let ?g = "\<lparr>mg_id = ''m'', mg_text = Some ''x'', mg_dequeue = Some 1\<rparr>"
  let ?db = "Map.empty((''t'', ''h'') \<mapsto> \<lparr>fr_uri = ''u'', fr_source = ''ftp'', fr_status = PROCESSING, fr_error = None, fr_dups = 0, fr_event = None\<rparr>)"
  have "\<exists>db' m'. worker_batch sample_worker 5 0 [?g] (?db, [], METRICS) =
      ((db', [], m'), after_message (wo_maxDequeue sample_worker) ?g (if PROCESSING = FAILED then Inl (Js ''queue_message_failed'') else Inr ())) \<and>
    st_of db' = st_of ?db"
    by (rule settled_file_is_never_retried [where e = "Some sample_event" and w = sample_work])
      (simp_all add: sample_worker_def parseEvents_def sample_admitted st_of_def wk_key_def sample_work_def)
  moreover have "after_message (wo_maxDequeue sample_worker) ?g (if PROCESSING = FAILED then Inl (Js ''queue_message_failed'') else Inr ()) =
      [DeleteMessage ''main'' ''m'']"
    by (simp add: after_message_def)
  ultimately show ?thesis by metis
qed

section \<open>Metrics\<close>

text \<open>What the worker counts, when no result is recorded during a flush.\<close>

datatype MetricsOp = Record ProcResult nat | Flush

fun metrics_run ::
  "IntakeConfig \<Rightarrow> string \<Rightarrow> MetricsOp list \<Rightarrow> Metrics \<times> (string \<Rightarrow> MetricsRow option) \<Rightarrow> Metrics \<times> (string \<Rightarrow> MetricsRow option)" where
  "metrics_run cfg host [] st = st"
| "metrics_run cfg host (Record r now # ops) st = metrics_run cfg host ops (fst (recordMetrics cfg now r (fst st)), snd st)"
| "metrics_run cfg host (Flush # ops) st = metrics_run cfg host ops (flushMetrics cfg host st)"

definition stored :: "(MetricsRow \<Rightarrow> nat) \<Rightarrow> string \<Rightarrow> (string \<Rightarrow> MetricsRow option) \<Rightarrow> nat" where
  "stored f k rows = (case rows k of None \<Rightarrow> 0 | Some r \<Rightarrow> f r)"

definition metrics_inv :: "string \<Rightarrow> Metrics \<times> (string \<Rightarrow> MetricsRow option) \<Rightarrow> bool" where
  "metrics_inv k st \<longleftrightarrow>
     (case st of (m, rows) \<Rightarrow>
        stored mr_processed k rows + m_pendProcessed m = m_processed m \<and>
        stored mr_success k rows + m_pendSuccess m = m_success m \<and>
        stored mr_duplicate k rows + m_pendDuplicate m = m_duplicate m \<and>
        stored mr_failure k rows + m_pendFailure m = m_failure m \<and>
        stored mr_totalMs k rows + m_pendMs m = m_totalMs m)"

lemma stored_upsert:
  "stored mr_processed (mi_worker i) (upsertWorkerMetrics i rows) = stored mr_processed (mi_worker i) rows + mi_processed i"
  "stored mr_success (mi_worker i) (upsertWorkerMetrics i rows) = stored mr_success (mi_worker i) rows + mi_success i"
  "stored mr_duplicate (mi_worker i) (upsertWorkerMetrics i rows) = stored mr_duplicate (mi_worker i) rows + mi_duplicate i"
  "stored mr_failure (mi_worker i) (upsertWorkerMetrics i rows) = stored mr_failure (mi_worker i) rows + mi_failure i"
  "stored mr_totalMs (mi_worker i) (upsertWorkerMetrics i rows) = stored mr_totalMs (mi_worker i) rows + mi_totalMs i"
  by (simp_all add: stored_def upsertWorkerMetrics_def Let_def split: option.split)

lemma stored_flush:
  fixes cfg host m rows
  defines "i \<equiv> flush_input cfg host m"
  shows "stored mr_processed (ic_workerId cfg) (upsertWorkerMetrics i rows) = stored mr_processed (ic_workerId cfg) rows + m_pendProcessed m"
    "stored mr_success (ic_workerId cfg) (upsertWorkerMetrics i rows) = stored mr_success (ic_workerId cfg) rows + m_pendSuccess m"
    "stored mr_duplicate (ic_workerId cfg) (upsertWorkerMetrics i rows) = stored mr_duplicate (ic_workerId cfg) rows + m_pendDuplicate m"
    "stored mr_failure (ic_workerId cfg) (upsertWorkerMetrics i rows) = stored mr_failure (ic_workerId cfg) rows + m_pendFailure m"
    "stored mr_totalMs (ic_workerId cfg) (upsertWorkerMetrics i rows) = stored mr_totalMs (ic_workerId cfg) rows + m_pendMs m"
  using stored_upsert [of i rows] by (simp_all add: i_def flush_input_def)

lemma metrics_inv_record: "metrics_inv k (m, rows) \<Longrightarrow> metrics_inv k (fst (recordMetrics cfg now r m), rows)"
  by (simp add: metrics_inv_def recordMetrics_def count_result_def Let_def)

lemma metrics_inv_flush: "metrics_inv (ic_workerId cfg) st \<Longrightarrow> metrics_inv (ic_workerId cfg) (flushMetrics cfg host st)"
  by (cases st) (simp add: metrics_inv_def flushMetrics_def stored_flush flush_reset_def)

text \<open>C16: as long as flushes do not overlap with anything, the counts are conserved: what the table holds for
  the worker and what is still pending add up to what the worker has counted since its start.\<close>

theorem metrics_are_conserved:
  "metrics_inv (ic_workerId cfg) (metrics_run cfg host ops (METRICS, Map.empty))"
proof -
  have "metrics_inv (ic_workerId cfg) st \<Longrightarrow> metrics_inv (ic_workerId cfg) (metrics_run cfg host ops st)" for st
  proof (induction cfg host ops st rule: metrics_run.induct)
    case (2 cfg host r now ops st)
    then show ?case using metrics_inv_record [of "ic_workerId cfg" "fst st" "snd st"] by simp
  next
    case (3 cfg host ops st)
    then show ?case using metrics_inv_flush by simp
  qed simp
  then show ?thesis by (simp add: metrics_inv_def stored_def METRICS_def)
qed

text \<open>Two flushes that overlap, which happens when a result is recorded while a flush is waiting for the
  database, store the pending counts twice; a result recorded between the statement of a flush and its
  reset is not stored at all.\<close>

theorem overlapping_flushes_miscount:
  "stored mr_processed (ic_workerId cfg)
     (upsertWorkerMetrics (flush_input cfg host m) (upsertWorkerMetrics (flush_input cfg host m) rows)) =
   stored mr_processed (ic_workerId cfg) rows + 2 * m_pendProcessed m \<and>
   stored mr_processed (ic_workerId cfg) (upsertWorkerMetrics (flush_input cfg host m) rows) +
     m_pendProcessed (flush_reset (count_result now r m)) =
   stored mr_processed (ic_workerId cfg) rows + m_pendProcessed (count_result now r m) - 1"
  by (simp add: stored_flush) (simp add: flush_reset_def count_result_def Let_def)

section \<open>The way back from the poison queue\<close>

text \<open>The texts sent to the main queue, and the messages of the poison queue that are not deleted.\<close>

definition sent_texts :: "QueueOp list \<Rightarrow> string list" where
  "sent_texts ops = concat (map (\<lambda>op. case op of SendMessage q t \<Rightarrow> if q = ''main'' then [t] else [] | _ \<Rightarrow> []) ops)"

definition left_in :: "Message list \<Rightarrow> QueueOp list \<Rightarrow> Message list" where
  "left_in poison ops = filter (\<lambda>g. DeleteMessage ''poison'' (mg_id g) \<notin> set ops) poison"

text \<open>What the service performed for the messages \<open>gs\<close>, and for the message of a send that was not followed by a deletion.\<close>

definition moves :: "Message list \<Rightarrow> Message list \<Rightarrow> QueueOp list" where
  "moves gs extra =
     concat (map (\<lambda>g. [SendMessage ''main'' (message_text g), DeleteMessage ''poison'' (mg_id g)]) gs) @
     map (\<lambda>g. SendMessage ''main'' (message_text g)) extra"

lemma moves_Cons: "SendMessage ''main'' (message_text g) # DeleteMessage ''poison'' (mg_id g) # moves gs extra = moves (g # gs) extra"
  by (simp add: moves_def)

lemma moves_append: "moves gs [] @ moves hs extra = moves (gs @ hs) extra"
  by (simp add: moves_def)

lemma moves_simps: "moves [] [] = []" "moves [] [g] = [SendMessage ''main'' (message_text g)]"
  "moves [g] [] = [SendMessage ''main'' (message_text g), DeleteMessage ''poison'' (mg_id g)]"
  by (simp_all add: moves_def)

lemma sent_moves: "sent_texts (moves gs extra) = map message_text (gs @ extra)"
proof -
  have "sent_texts (a @ b) = sent_texts a @ sent_texts b" for a b by (simp add: sent_texts_def)
  moreover have "sent_texts (map (\<lambda>g. SendMessage ''main'' (message_text g)) extra) = map message_text extra"
    by (induction extra) (simp_all add: sent_texts_def)
  moreover have "sent_texts (concat (map (\<lambda>g. [SendMessage ''main'' (message_text g), DeleteMessage ''poison'' (mg_id g)]) gs)) = map message_text gs"
    by (induction gs) (simp_all add: sent_texts_def)
  ultimately show ?thesis by (simp add: moves_def)
qed

lemma deleted_moves: "DeleteMessage ''poison'' i \<in> set (moves gs extra) \<longleftrightarrow> i \<in> mg_id ` set gs"
  by (auto simp: moves_def)

lemma batch_whole:
  assumes "int moved < rc_maxMessages cfg" "\<forall>g \<in> set gs. \<exists>i n. g \<in> set (qc_received c i n)"
    "redrive_batch (qc_outcome c) cfg gs k moved = (ops, k', moved', threw)"
  shows "\<exists>hs extra. ops = moves hs extra \<and> (\<forall>g \<in> set (hs @ extra). \<exists>i n. g \<in> set (qc_received c i n)) \<and>
    moved \<le> moved' \<and> int moved' \<le> rc_maxMessages cfg \<and>
    (if threw then int moved' < rc_maxMessages cfg \<and> length (hs @ extra) \<le> moved' - moved + 1 \<and> moved' \<le> moved + length hs \<and> k' \<le> k + 2 * (moved' - moved) + 2
     else length hs = moved' - moved \<and> extra = [] \<and> k' = k + 2 * (moved' - moved))"
  using assms
proof (induction gs arbitrary: k moved ops)
  case Nil
  then show ?case by (intro exI [of _ "[]"]) (auto simp: moves_simps)
next
  case (Cons g gs)
  let ?oc = "qc_outcome c"
  consider (send) "?oc k \<noteq> Served" | (delete) "?oc k = Served" "?oc (k + 1) \<noteq> Served"
    | (full) "?oc k = Served" "?oc (k + 1) = Served" "rc_maxMessages cfg \<le> int (moved + 1)"
    | (more) "?oc k = Served" "?oc (k + 1) = Served" "int (moved + 1) < rc_maxMessages cfg" by linarith
  then show ?case
  proof cases
    case send
    then show ?thesis using Cons.prems
      by (intro exI [of _ "[]"] exI [of _ "if ?oc k = NotDone then [] else [g]"]) (auto simp: Let_def performed_def moves_simps)
  next
    case delete
    then show ?thesis using Cons.prems
      by (intro exI [of _ "if ?oc (k + 1) = NotDone then [] else [g]"] exI [of _ "if ?oc (k + 1) = NotDone then [g] else []"])
        (auto simp: Let_def performed_def moves_simps)
  next
    case full
    then show ?thesis using Cons.prems by (intro exI [of _ "[g]"] exI [of _ "[]"]) (auto simp: Let_def moves_simps)
  next
    case more
    obtain ops2 where r: "redrive_batch ?oc cfg gs (k + 2) (moved + 1) = (ops2, k', moved', threw)"
      and ops: "ops = SendMessage ''main'' (message_text g) # DeleteMessage ''poison'' (mg_id g) # ops2"
      using more Cons.prems(3) by (auto simp: Let_def split: prod.splits)
    obtain hs extra where h: "ops2 = moves hs extra" "\<forall>g \<in> set (hs @ extra). \<exists>i n. g \<in> set (qc_received c i n)"
      "moved + 1 \<le> moved'" "int moved' \<le> rc_maxMessages cfg"
      "if threw then int moved' < rc_maxMessages cfg \<and> length (hs @ extra) \<le> moved' - (moved + 1) + 1 \<and> moved' \<le> moved + 1 + length hs \<and> k' \<le> k + 2 + 2 * (moved' - (moved + 1)) + 2
       else length hs = moved' - (moved + 1) \<and> extra = [] \<and> k' = k + 2 + 2 * (moved' - (moved + 1))"
      using Cons.IH [OF _ _ r] more(3) Cons.prems(2) by auto
    show ?thesis
      using h Cons.prems(2) by (intro exI [of _ "g # hs"] exI [of _ extra]) (auto simp: ops moves_Cons split: if_splits)
  qed
qed

lemma positive_parse_pos: "positive_parse v = Some n \<Longrightarrow> 0 < n"
  using js_parseInt_int [of v] by (auto simp: positive_parse_def elim!: Ints_cases split: jsnum.splits if_splits)

text \<open>What the loop did from the k-th call on: it moved whole messages that were received; if it threw, it may have sent
  one more; it sent no more than were left to move, and made no more than three calls for each of these and one.\<close>

lemma loop_whole:
  assumes "int moved \<le> rc_maxMessages cfg" "redrive_loop c cfg k moved = (ops, k', moved', threw)"
  shows "\<exists>gs extra. ops = moves gs extra \<and> (\<forall>g \<in> set (gs @ extra). \<exists>i n. g \<in> set (qc_received c i n)) \<and>
    int (moved + length (gs @ extra)) \<le> rc_maxMessages cfg \<and> (threw \<or> (extra = [] \<and> moved' = moved + length gs)) \<and>
    int k' \<le> int k + 3 * (rc_maxMessages cfg - int moved) + 1"
  using assms
proof (induction c cfg k moved arbitrary: ops rule: redrive_loop.induct)
  case (1 c cfg k moved)
  let ?ms = "qc_received c k (nat (min (rc_batchSize cfg) (rc_maxMessages cfg - int moved)))"
  note unfold = redrive_loop.simps [of c cfg k moved]
  show ?case
  proof (cases "rc_maxMessages cfg \<le> int moved \<or> qc_outcome c k \<noteq> Served \<or> ?ms = []")
    case True
    then show ?thesis using "1.prems" unfold by (intro exI [of _ "[]"]) (auto simp: moves_simps split: if_splits)
  next
    case False
    obtain ops1 k1 m1 t1 where b: "redrive_batch (qc_outcome c) cfg ?ms (k + 1) moved = (ops1, k1, m1, t1)"
      by (cases "redrive_batch (qc_outcome c) cfg ?ms (k + 1) moved")
    obtain hs extra where h: "ops1 = moves hs extra" "\<forall>g \<in> set (hs @ extra). \<exists>i n. g \<in> set (qc_received c i n)"
      "moved \<le> m1" "int m1 \<le> rc_maxMessages cfg"
      "if t1 then int m1 < rc_maxMessages cfg \<and> length (hs @ extra) \<le> m1 - moved + 1 \<and> m1 \<le> moved + length hs \<and> k1 \<le> k + 1 + 2 * (m1 - moved) + 2
       else length hs = m1 - moved \<and> extra = [] \<and> k1 = k + 1 + 2 * (m1 - moved)"
      using batch_whole [OF _ _ b] False by auto
    show ?thesis
    proof (cases t1)
      case True
      then have "ops = ops1" "k' = k1" "threw" using "1.prems"(2) False by (auto simp: unfold Let_def b [simplified] split: if_splits)
      then show ?thesis using h True by (intro exI [of _ hs] exI [of _ extra]) auto
    next
      case f: False
      obtain ops2 where r: "redrive_loop c cfg k1 m1 = (ops2, k', moved', threw)" and ops: "ops = ops1 @ ops2"
        using "1.prems"(2) False f by (auto simp: unfold Let_def b [simplified] split: prod.splits)
      obtain gs extra2 where g: "ops2 = moves gs extra2" "\<forall>g \<in> set (gs @ extra2). \<exists>i n. g \<in> set (qc_received c i n)"
        "int (m1 + length (gs @ extra2)) \<le> rc_maxMessages cfg" "threw \<or> (extra2 = [] \<and> moved' = m1 + length gs)"
        "int k' \<le> int k1 + 3 * (rc_maxMessages cfg - int m1) + 1"
        using "1.IH" [OF _ _ refl _ b [symmetric] refl refl _ h(4) r] False f by auto
      have "moved < m1" using redrive_batch_moves [OF b [unfolded eq_False [THEN iffD2, OF f]]] False by simp
      then show ?thesis
        using h f g by (intro exI [of _ "hs @ gs"] exI [of _ extra2]) (auto simp: ops moves_append)
    qed
  qed
qed

lemma redrive_positive: "redrive_config env = Inr cfg \<Longrightarrow> 0 < rc_maxMessages cfg"
proof -
  assume c: "redrive_config env = Inr cfg"
  have "0 < n" if "redrive_parsePositiveInt v 100 = Inr n" for v n
    using that positive_parse_pos by (auto simp: redrive_parsePositiveInt_def split: if_splits option.splits)
  then show "0 < rc_maxMessages cfg" using c by (auto simp: redrive_config_def Let_def res_bind_ok_iff split: if_splits)
qed

text \<open>Messages with different ids, some of which were deleted.\<close>

lemma nothing_lost:
  assumes "distinct (map mg_id poison)" "set gs \<subseteq> set poison"
  shows "mset (map message_text poison) \<subseteq># mset (map message_text (left_in poison (moves gs extra))) + mset (sent_texts (moves gs extra))"
proof -
  have same: "x = y" if "x \<in> set poison" "y \<in> set poison" "mg_id x = mg_id y" for x y
    using that assms(1) by (auto simp: distinct_map inj_on_def)
  have left: "left_in poison (moves gs extra) = filter (\<lambda>g. g \<notin> set gs) poison"
    unfolding left_in_def deleted_moves using same assms(2) by (intro filter_cong) auto
  have "distinct poison" using assms(1) by (simp add: distinct_map)
  then have "mset (filter (\<lambda>g. g \<in> set gs) poison) = mset_set (set gs)"
    using mset_set_set [of "filter (\<lambda>g. g \<in> set gs) poison"] assms(2) by (simp add: Int_def [symmetric] Int_absorb1)
  also have "\<dots> \<subseteq># mset gs" using mset_set_set_mset_msubset [of "mset gs"] by simp
  finally have sub: "image_mset message_text (mset (filter (\<lambda>g. g \<in> set gs) poison)) \<subseteq># image_mset message_text (mset (gs @ extra))"
    by (intro image_mset_subseteq_mono) (simp add: subset_mset.add_increasing2)
  have "mset poison = mset (filter (\<lambda>g. g \<notin> set gs) poison) + mset (filter (\<lambda>g. g \<in> set gs) poison)"
    using multiset_partition [of "mset poison" "\<lambda>g. g \<notin> set gs"] by (simp add: mset_filter)
  then have "mset (map message_text poison) = image_mset message_text (mset (filter (\<lambda>g. g \<notin> set gs) poison)) +
      image_mset message_text (mset (filter (\<lambda>g. g \<in> set gs) poison))"
    by (metis image_mset_union mset_map)
  also have "\<dots> \<subseteq># image_mset message_text (mset (filter (\<lambda>g. g \<notin> set gs) poison)) + image_mset message_text (mset (gs @ extra))"
    by (rule subset_mset.add_left_mono [OF sub])
  finally show ?thesis by (simp only: left sent_moves mset_map)
qed

text \<open>C17: whichever calls of the queues fail, and whether or not the service performed them, the redrive ends after at
  most three calls for each message it may move and three more; it sends at most the configured number of messages, and
  loses none: every message of the poison queue is still in it or its text was sent to the main queue, as often as there
  are such messages. If no call fails, it counts the messages it sent.\<close>

theorem redrive_moves_whole_messages:
  assumes "redrive env c = Inr (ops, calls, moved, threw)" "redrive_config env = Inr cfg"
    and "distinct (map mg_id poison)" "\<And>k n. set (qc_received c k n) \<subseteq> set poison"
  shows "mset (map message_text poison) \<subseteq># mset (map message_text (left_in poison ops)) + mset (sent_texts ops) \<and>
    int (length (sent_texts ops)) \<le> rc_maxMessages cfg \<and> int calls \<le> 3 * rc_maxMessages cfg + 3 \<and>
    (threw \<or> moved = length (sent_texts ops))"
proof -
  have pos: "0 < rc_maxMessages cfg" by (rule redrive_positive [OF assms(2)])
  have m: "redrive_main c cfg = (ops, calls, moved, threw)" using assms(1,2) by (simp add: redrive_def res_bind_def)
  obtain gs extra where g: "ops = moves gs extra" "\<forall>g \<in> set (gs @ extra). \<exists>i n. g \<in> set (qc_received c i n)"
    "int (length (gs @ extra)) \<le> rc_maxMessages cfg" "threw \<or> (extra = [] \<and> moved = length gs)" "int calls \<le> 3 * rc_maxMessages cfg + 3"
  proof (cases "qc_outcome c 0 \<noteq> Served \<or> qc_outcome c 1 \<noteq> Served")
    case True
    then have "ops = moves [] []" "threw" "calls \<le> 2" using m by (auto simp: redrive_main_def moves_simps split: if_splits)
    then show ?thesis using that [of "[]" "[]"] pos by simp
  next
    case False
    then have "redrive_loop c cfg 2 0 = (ops, calls, moved, threw)" using m by (simp add: redrive_main_def)
    from loop_whole [OF _ this] pos show ?thesis using that by auto
  qed
  have "set gs \<subseteq> set poison" using g(2) assms(4) by auto
  from nothing_lost [OF assms(3) this, of extra] show ?thesis using g by (auto simp: sent_moves)
qed

definition sample_clients :: QueueClients where
  "sample_clients = \<lparr>qc_outcome = (\<lambda>k. if k = 6 then Unacknowledged else Served),
     qc_received = (\<lambda>k n. [\<lparr>mg_id = ''a'', mg_text = Some ''x'', mg_dequeue = None\<rparr>, \<lparr>mg_id = ''b'', mg_text = Some ''x'', mg_dequeue = None\<rparr>])\<rparr>"

definition redrive_sample_env :: "string \<Rightarrow> string option" where
  "redrive_sample_env n = (if n = ''EVENTGRID_QUEUE_ACCOUNT'' then Some ''q'' else None)"

definition redrive_sample_config :: RedriveConfig where
  "redrive_sample_config = \<lparr>rc_queueName = ''ro-sftp-events'', rc_poisonQueueName = ''ro-sftp-events-poison'',
     rc_queueAccount = Some ''q'', rc_connection = None, rc_maxMessages = 100, rc_batchSize = 16\<rparr>"

text \<open>Two messages with the same text, of which the deletion of the second is not acknowledged.\<close>

theorem redrive_witness:
  "\<exists>ops calls moved. redrive redrive_sample_env sample_clients = Inr (ops, calls, moved, True) \<and> moved = 1 \<and>
     mset [''x'', ''x''] \<subseteq># mset (sent_texts ops)"
proof -
  let ?ops = "[SendMessage ''main'' ''x'', DeleteMessage ''poison'' ''a'', SendMessage ''main'' ''x'', DeleteMessage ''poison'' ''b'']"
  let ?ms = "[\<lparr>mg_id = ''a'', mg_text = Some ''x'', mg_dequeue = None\<rparr>, \<lparr>mg_id = ''b'', mg_text = Some ''x'', mg_dequeue = None\<rparr>]"
  have c: "redrive_config redrive_sample_env = Inr redrive_sample_config"
    and r: "redrive redrive_sample_env sample_clients = Inr (?ops, 7, 1, True)" by code_simp+
  have "mset (map message_text ?ms) \<subseteq># mset (map message_text (left_in ?ms ?ops)) + mset (sent_texts ?ops)"
    using redrive_moves_whole_messages [OF r c, of ?ms] by (simp add: sample_clients_def)
  then have "mset [''x'', ''x''] \<subseteq># mset (sent_texts ?ops)" by (simp add: message_text_def left_in_def)
  then show ?thesis using r by blast
qed

end
