(* ===== verification/Retrieval.thy ===== *)
theory Retrieval
  imports Redaction
begin

text \<open>
  services/retrieval without the database: intentClassifier.ts, retrievalStrategy.ts, answerTone.ts,
  answerContext.ts, llm.ts and cite.ts.

  The chat endpoint is an argument: what each of its calls answers. \<open>JSON.parse\<close> of a classifier reply
  is an argument too: its fields \<open>intent\<close> (if a string) and \<open>confidence\<close> (if a number).
\<close>

section \<open>retrievalStrategy.ts and answerTone.ts\<close>

text \<open>The double a decimal literal denotes.\<close>

definition lit :: "rat \<Rightarrow> rat" where
  "lit q = (case rnd q of Fin x \<Rightarrow> x | _ \<Rightarrow> 0)"

datatype Intent =
    Lookup | ProcedureSummary | CostAnalysis | FrequencyAnalysis | TrendAnalysis | Comparison
  | ProvenanceQuery | UnknownIntent

datatype RetrievalStrategy = DIRECT_LOOKUP | HYBRID_SEARCH | BROAD_VECTOR_SEARCH | NONE

definition determineRetrievalStrategy :: "Intent \<Rightarrow> rat \<Rightarrow> RetrievalStrategy" where
  "determineRetrievalStrategy intent confidence =
     (if intent \<in> {Lookup, CostAnalysis, FrequencyAnalysis} \<and> confidence \<ge> lit (6 / 10) then DIRECT_LOOKUP
      else if confidence \<ge> lit (6 / 10) then HYBRID_SEARCH
      else BROAD_VECTOR_SEARCH)"

definition shouldBypassRetrieval :: "Intent \<Rightarrow> bool" where
  "shouldBypassRetrieval intent \<longleftrightarrow> intent = ProvenanceQuery"

definition applyDirectLookupFallback :: "RetrievalStrategy \<Rightarrow> nat \<Rightarrow> RetrievalStrategy \<times> bool" where
  "applyDirectLookupFallback strategy directMatchesCount =
     (if strategy = DIRECT_LOOKUP \<and> directMatchesCount = 0 then (HYBRID_SEARCH, True) else (strategy, False))"

datatype AnswerTone = DEFINITIVE | QUALIFIED | CAUTIOUS

definition determineAnswerTone :: "rat \<Rightarrow> AnswerTone" where
  "determineAnswerTone c = (if c \<ge> lit (8 / 10) then DEFINITIVE else if c \<ge> lit (6 / 10) then QUALIFIED else CAUTIOUS)"

section \<open>intentClassifier.ts\<close>

datatype Source = Rules | Llm | Fallback

record IntentResult =
  it_intent :: Intent
  it_confidence :: rat
  it_source :: Source

definition intent_name :: "Intent \<Rightarrow> string" where
  "intent_name i =
     (case i of Lookup \<Rightarrow> ''lookup'' | ProcedureSummary \<Rightarrow> ''procedure_summary'' | CostAnalysis \<Rightarrow> ''cost_analysis''
      | FrequencyAnalysis \<Rightarrow> ''frequency_analysis'' | TrendAnalysis \<Rightarrow> ''trend_analysis'' | Comparison \<Rightarrow> ''comparison''
      | ProvenanceQuery \<Rightarrow> ''provenance_query'' | UnknownIntent \<Rightarrow> ''unknown'')"

definition intentList :: "Intent list" where
  "intentList = [Lookup, ProcedureSummary, CostAnalysis, FrequencyAnalysis, TrendAnalysis, Comparison, ProvenanceQuery, UnknownIntent]"

definition confidenceThreshold :: rat where "confidenceThreshold = lit (6 / 10)"

definition words :: "string list \<Rightarrow> rx" where
  "words ws = (case ws of [] \<Rightarrow> REps | w # r \<Rightarrow> RSeq (str w) (foldr (\<lambda>v k. RSeq (rx_plus rx_ws) (RSeq (str v) k)) r REps))"

definition PROVENANCE_RULE :: rx where
  "PROVENANCE_RULE = rx_alt (map str [''where did you get'', ''source'', ''which ro'', ''how do you know'', ''based on what''])"

definition COST_RULE :: rx where
  "COST_RULE = rx_alt [words [''how'', ''much''], str ''cost'', str ''price'', str ''total'', str ''labor'', str ''parts'',
     str ''estimate'', words [''most'', ''expensive''], str ''cheapest'']"

definition FREQUENCY_RULE :: rx where
  "FREQUENCY_RULE = rx_alt [words [''how'', ''many''], str ''count'', words [''number'', ''of''], str ''frequency'']"

definition TREND_RULE :: rx where
  "TREND_RULE = rx_alt [str ''trend'', words [''over'', ''time''], words [''by'', ''month''], words [''by'', ''week''],
     str ''increase'', str ''decrease'', str ''rising'', str ''declining'']"

definition COMPARISON_RULE :: rx where
  "COMPARISON_RULE = rx_alt [str ''compare'', str ''versus'', RSeq (str ''vs'') (rx_opt (chr CHR ''.'')),
     words [''difference'', ''between''], words [''which'', ''is'', ''higher'']]"

definition PROCEDURE_RULE :: rx where
  "PROCEDURE_RULE = rx_alt [words [''what'', ''was'', ''done''], words [''work'', ''performed''], str ''procedure'',
     words [''repair'', ''summary''], words [''summary'', ''of'', ''work'']]"

definition LOOKUP_RULE :: rx where
  "LOOKUP_RULE = rx_alt
     [rx_seq [str ''ro'', rx_opt (RCls (\<lambda>c. c = CHR ''-'' \<or> is_ws c)), rx_range 3 6 rx_digit],
      words [''repair'', ''order''], words [''ro'', ''number''], str ''vin'', str ''customer'', words [''last'', ''name''],
      str ''email'', str ''phone'']"

definition by_rule :: "Intent \<Rightarrow> rat \<Rightarrow> IntentResult option" where
  "by_rule i c = Some \<lparr>it_intent = i, it_confidence = c, it_source = Rules\<rparr>"

definition rulesClassify :: "string \<Rightarrow> IntentResult option" where
  "rulesClassify input =
     (let text = toLowerCase input
      in if rx_test PROVENANCE_RULE text then by_rule ProvenanceQuery 1
         else if rx_test COST_RULE text then by_rule CostAnalysis (lit (9 / 10))
         else if rx_test FREQUENCY_RULE text then by_rule FrequencyAnalysis (lit (85 / 100))
         else if rx_test TREND_RULE text then by_rule TrendAnalysis (lit (8 / 10))
         else if rx_test COMPARISON_RULE text then by_rule Comparison (lit (8 / 10))
         else if rx_test PROCEDURE_RULE text then by_rule ProcedureSummary (lit (8 / 10))
         else if rx_test LOOKUP_RULE text then by_rule Lookup (lit (8 / 10))
         else None)"

type_synonym LlmJson = "string \<Rightarrow> (string option \<times> jsnum option) option"

definition clamp01 :: "jsnum \<Rightarrow> rat" where
  "clamp01 x = (case x of Fin q \<Rightarrow> max 0 (min 1 q) | PosInf \<Rightarrow> 1 | _ \<Rightarrow> 0)"

definition parseLlmResult :: "LlmJson \<Rightarrow> string \<Rightarrow> (Intent \<times> rat) option" where
  "parseLlmResult json text =
     (case json text of
        Some (Some name, Some conf) \<Rightarrow>
          (case find (\<lambda>i. intent_name i = name) intentList of
             None \<Rightarrow> None
           | Some i \<Rightarrow> if conf = NaN then None else Some (i, clamp01 conf))
      | _ \<Rightarrow> None)"

text \<open>What one call of the chat endpoint can give: no usable answer at all, a status that is not ok with
  its text and body, an answer without content, or content.\<close>

datatype ChatReply = ChatThrows | ChatHttp nat string string | ChatNoContent | ChatContent string

definition fallback_intent :: IntentResult where
  "fallback_intent = \<lparr>it_intent = UnknownIntent, it_confidence = 0, it_source = Fallback\<rparr>"

text \<open>\<open>llm\<close> is whether the environment loads and names a chat deployment.\<close>

definition classifyWithLlm :: "bool \<Rightarrow> LlmJson \<Rightarrow> (string \<Rightarrow> ChatReply) \<Rightarrow> string \<Rightarrow> IntentResult res" where
  "classifyWithLlm llm json chat input =
     (if \<not> llm then ok fallback_intent
      else (case chat input of
          ChatThrows \<Rightarrow> Inl (Js ''fetch failed'')
        | ChatHttp _ _ _ \<Rightarrow> throw ''Intent classification failed'' 503 ''INTENT_LLM_FAIL''
        | ChatNoContent \<Rightarrow> throw ''Intent classification failed'' 503 ''INTENT_LLM_FAIL''
        | ChatContent content \<Rightarrow>
            if content = [] then throw ''Intent classification failed'' 503 ''INTENT_LLM_FAIL''
            else (case parseLlmResult json (js_trim content) of
                None \<Rightarrow> ok fallback_intent
              | Some (i, c) \<Rightarrow>
                  if c < confidenceThreshold then ok fallback_intent
                  else ok \<lparr>it_intent = i, it_confidence = c, it_source = Llm\<rparr>)))"

definition classifyIntent :: "bool \<Rightarrow> LlmJson \<Rightarrow> (string \<Rightarrow> ChatReply) \<Rightarrow> string \<Rightarrow> IntentResult" where
  "classifyIntent llm json chat query =
     (let redacted = redactPII_retrieval query
      in (case rulesClassify redacted of
            Some r \<Rightarrow> r
          | None \<Rightarrow> (case classifyWithLlm llm json chat redacted of Inr r \<Rightarrow> r | Inl _ \<Rightarrow> fallback_intent)))"

section \<open>answerContext.ts\<close>

record CitedRO =
  cr_roNumber :: string
  cr_evidence :: "string list"

record AnswerContext =
  ac_answerId :: string
  ac_intent :: Intent
  ac_tone :: AnswerTone
  ac_strategy :: RetrievalStrategy
  ac_citedROs :: "CitedRO list"
  ac_createdAt :: string

type_synonym ContextStore = "(string, AnswerContext \<times> int) jsmap"

definition map_delete :: "'k \<Rightarrow> ('k, 'v) jsmap \<Rightarrow> ('k, 'v) jsmap" where
  "map_delete k m = filter (\<lambda>(k', _). k' \<noteq> k) m"

definition answer_ttl :: int where "answer_ttl = 30 * 60 * 1000"

definition setLastAnswerContext :: "int \<Rightarrow> string \<Rightarrow> AnswerContext \<Rightarrow> ContextStore \<Rightarrow> ContextStore" where
  "setLastAnswerContext now key context store = map_set key (context, now + answer_ttl) store"

definition getLastAnswerContext :: "int \<Rightarrow> string \<Rightarrow> ContextStore \<Rightarrow> ContextStore \<times> AnswerContext option" where
  "getLastAnswerContext now key store =
     (case map_of store key of
        None \<Rightarrow> (store, None)
      | Some (context, expiresAt) \<Rightarrow>
          if now > expiresAt then (map_delete key store, None) else (store, Some context))"

definition clearOnNewConversation :: "string \<Rightarrow> ContextStore \<Rightarrow> ContextStore" where
  "clearOnNewConversation key store = map_delete key store"

record Match =
  mt_roNumber :: "string option"
  mt_score :: jsnum
  mt_citations :: "string list"   \<comment> \<open>the excerpts\<close>

definition add_match :: "Match \<Rightarrow> (string, string list) jsmap \<Rightarrow> (string, string list) jsmap" where
  "add_match m roMap =
     (if \<not> truthy (mt_roNumber m) then roMap
      else
        let ro = the (mt_roNumber m); existing = (case map_of roMap ro of None \<Rightarrow> [] | Some e \<Rightarrow> e)
        in map_set ro (uniq (existing @ filter (\<lambda>e. e \<noteq> []) (mt_citations m))) roMap)"

definition buildAnswerContext ::
  "string \<Rightarrow> Intent \<Rightarrow> AnswerTone \<Rightarrow> RetrievalStrategy \<Rightarrow> string \<Rightarrow> Match list \<Rightarrow> AnswerContext" where
  "buildAnswerContext answerId intent tone strategy createdAt matches =
     \<lparr>ac_answerId = answerId, ac_intent = intent, ac_tone = tone, ac_strategy = strategy,
      ac_citedROs = map (\<lambda>(ro, ev). \<lparr>cr_roNumber = ro, cr_evidence = ev\<rparr>) (fold add_match matches []),
      ac_createdAt = createdAt\<rparr>"

definition normalizeEvidence :: "string \<Rightarrow> string" where
  "normalizeEvidence value =
     (let cleaned = js_trim (collapse_ws (xmlToText value))
      in if length cleaned \<le> 180 then cleaned else slice cleaned 0 177 @ ''...'')"

definition evidence_lines :: "CitedRO \<Rightarrow> string list" where
  "evidence_lines ro =
     (''- '' @ cr_roNumber ro) #
     map (\<lambda>e. ''  - '' @ e) (take 3 (filter (\<lambda>e. e \<noteq> []) (map normalizeEvidence (cr_evidence ro))))"

definition buildProvenanceAnswer :: "AnswerContext \<Rightarrow> string" where
  "buildProvenanceAnswer context =
     (if ac_citedROs context = [] then ''The previous answer did not include any cited repair orders.''
      else js_join [CHR 0x0A]
             (''The previous answer was based on these repair orders:'' # concat (map evidence_lines (ac_citedROs context))))"

section \<open>llm.ts\<close>

definition chat_once :: "ChatReply \<Rightarrow> string res" where
  "chat_once r =
     (case r of
        ChatThrows \<Rightarrow> Inl (Js ''fetch failed'')
      | ChatHttp st stText body \<Rightarrow>
          throw (''Chat completion unavailable: '' @ digits_of (int st) @ '' '' @ stText @
                 (if body \<noteq> [] then '' - '' @ slice body 0 200 else [])) 503 ''LLM_FAIL''
      | ChatNoContent \<Rightarrow> throw ''Chat completion response malformed'' 502 ''LLM_FAIL''
      | ChatContent c \<Rightarrow> if c = [] then throw ''Chat completion response malformed'' 502 ''LLM_FAIL'' else ok (js_trim c))"

fun chat_from :: "(string \<Rightarrow> nat \<Rightarrow> ChatReply) \<Rightarrow> string \<Rightarrow> nat \<Rightarrow> nat \<Rightarrow> string res" where
  "chat_from chat prompt attempt 0 = throw ''Chat completion unavailable'' 503 ''LLM_FAIL''"
| "chat_from chat prompt attempt (Suc n) =
     (case chat_once (chat prompt attempt) of
        Inr v \<Rightarrow> ok v
      | Inl err \<Rightarrow>
          if n = 0 then
            (case err of App e \<Rightarrow> Inl (App e)
             | _ \<Rightarrow> throw ''Chat completion unavailable'' 503 ''LLM_FAIL'')
          else chat_from chat prompt (attempt + 1) n)"

definition generateChatAnswer :: "bool \<Rightarrow> (string \<Rightarrow> nat \<Rightarrow> ChatReply) \<Rightarrow> string \<Rightarrow> string res" where
  "generateChatAnswer enabled chat prompt =
     (if \<not> enabled then throw ''LLM disabled'' 501 ''LLM_DISABLED'' else chat_from chat prompt 0 2)"

section \<open>cite.ts\<close>

definition clean_excerpt :: "string \<Rightarrow> string" where
  "clean_excerpt excerpt = redactSemanticText (xmlToText excerpt)"

definition normalizeInput :: "Match list \<Rightarrow> Match list" where
  "normalizeInput matches = map (\<lambda>m. m\<lparr>mt_citations := map clean_excerpt (mt_citations m)\<rparr>) matches"

fun match_lines :: "Match list \<Rightarrow> string list" where
  "match_lines [] = []"
| "match_lines (m # ms) =
     (''RO '' @ (case mt_roNumber m of None \<Rightarrow> ''unknown'' | Some n \<Rightarrow> n) @ '' (score '' @ toFixed (mt_score m) 3 @ ''):'') #
     map (\<lambda>c. ''- '' @ c) (mt_citations m) @ (if ms = [] then [] else [[]]) @ match_lines ms"

definition prompt_head :: "string list" where
  "prompt_head =
     [''You are a helpful assistant for repair orders.'',
      ''Summarize what the prior ROs contain that relates to the question.'',
      ''Use the excerpts as your primary source.'',
      ''If you infer beyond the excerpts, label it clearly as an estimate or likely scenario.'',
      ''Do not invent facts that contradict the excerpts.'',
      ''Use this response format:'',
      ''Summary: <one sentence>'',
      ''Findings:'',
      ''- <bullet per RO, include RO number when available>'',
      ''Notes: <optional, keep brief>'',
      ''If there is insufficient data, respond with: No relevant records found.'',
      []]"

definition promptTemplate :: "string \<Rightarrow> Match list \<Rightarrow> string" where
  "promptTemplate question matches =
     js_join [CHR 0x0A]
       (prompt_head @ [''Question: '' @ question, [], ''Context (redacted excerpts):''] @ match_lines matches @
        [[], ''Draft a concise answer using only the excerpts.''])"

definition trimSentence :: "string \<Rightarrow> string" where
  "trimSentence value = rev (dropWhile (\<lambda>c. c = CHR ''.'') (rev (js_trim value)))"

definition buildSummaryLine :: "AnswerTone \<Rightarrow> string \<Rightarrow> string" where
  "buildSummaryLine tone summary =
     (case tone of
        DEFINITIVE \<Rightarrow> ''Summary: '' @ trimSentence summary @ ''.''
      | QUALIFIED \<Rightarrow> ''Summary: Based on the available repair orders, '' @ trimSentence summary @ ''.''
      | CAUTIOUS \<Rightarrow> ''Summary: From the repair orders reviewed, '' @ trimSentence summary @ '', though the data may be incomplete.'')"

definition default_summary :: string where
  "default_summary = ''The relevant repair order details are summarized below''"

definition applyToneToSummaryLine :: "string \<Rightarrow> AnswerTone \<Rightarrow> string" where
  "applyToneToSummaryLine answer tone =
     (if tone = DEFINITIVE then answer
      else (case js_split answer [CHR 0x0A] of
          [] \<Rightarrow> answer
        | l # ls \<Rightarrow>
            let first = js_trim l
            in if \<not> startsWith (toLowerCase first) ''summary:'' then answer
               else
                 let content = js_trim (drop 8 first)
                 in js_join [CHR 0x0A] (buildSummaryLine tone (if content = [] then default_summary else content) # ls)))"

definition buildDeterministicCitedAnswer :: "Match list \<Rightarrow> AnswerTone \<Rightarrow> string" where
  "buildDeterministicCitedAnswer matches tone =
     (let sentences = concat (map (\<lambda>m. map (\<lambda>c. ''Prior RO notes: '' @ c) (mt_citations m)) matches)
      in js_join [CHR 0x0A]
           (buildSummaryLine tone default_summary # (if sentences = [] then [] else [js_join '' '' sentences])))"

record CitedAnswer =
  ca_prompt :: string
  ca_answer :: string
  ca_usedLlm :: bool

definition buildCitedAnswer ::
  "bool \<Rightarrow> (string \<Rightarrow> nat \<Rightarrow> ChatReply) \<Rightarrow> string \<Rightarrow> Match list \<Rightarrow> AnswerTone \<Rightarrow> CitedAnswer res" where
  "buildCitedAnswer enabled chat question matches tone =
     (let normalized = normalizeInput matches; prompt = promptTemplate question normalized
      in if normalized = [] then ok \<lparr>ca_prompt = prompt, ca_answer = ''No relevant records found.'', ca_usedLlm = False\<rparr>
         else if enabled
         then res_bind (generateChatAnswer enabled chat prompt) (\<lambda>answer.
                ok \<lparr>ca_prompt = prompt, ca_answer = applyToneToSummaryLine answer tone, ca_usedLlm = True\<rparr>)
         else ok \<lparr>ca_prompt = prompt, ca_answer = buildDeterministicCitedAnswer normalized tone, ca_usedLlm = False\<rparr>)"

datatype DeterministicResult =
    LookupResult string "string option" "jsnum option" "jsnum option" "jsnum option"
      \<comment> \<open>number, status, labor, parts and grand total\<close>
  | CostResult string jsnum jsnum jsnum
  | AggregateResult string jsnum

record DeterministicSource =
  ds_table :: string
  ds_roNumber :: "string option"
  ds_fields :: "string list"

definition opt_field :: "string \<Rightarrow> jsnum option \<Rightarrow> string list" where
  "opt_field label v = (case v of None \<Rightarrow> [] | Some x \<Rightarrow> [label @ '' '' @ toFixed x 2])"

definition detail_line :: "DeterministicResult \<Rightarrow> string" where
  "detail_line r =
     (case r of
        AggregateResult label value \<Rightarrow> replace_char CHR ''_'' '' '' label @ '': '' @ num_to_string value
      | CostResult n labor parts tot \<Rightarrow>
          ''RO '' @ n @ '': labor '' @ toFixed labor 2 @ '', parts '' @ toFixed parts 2 @ '', total '' @ toFixed tot 2 @ ''.''
      | LookupResult n status labor parts grand \<Rightarrow>
          (let fields = (if truthy status then [''status '' @ the status] else []) @
                 opt_field ''labor'' labor @ opt_field ''parts'' parts @ opt_field ''total'' grand
           in ''RO '' @ n @ '': '' @ (if js_join '', '' fields = [] then ''details available'' else js_join '', '' fields) @ ''.''))"

definition source_of :: "DeterministicResult \<Rightarrow> DeterministicSource" where
  "source_of r =
     (case r of
        AggregateResult _ _ \<Rightarrow> \<lparr>ds_table = ''app.repair_orders'', ds_roNumber = None, ds_fields = [''ro_number'']\<rparr>
      | CostResult n _ _ _ \<Rightarrow>
          \<lparr>ds_table = ''app.ro_deterministic_v2'', ds_roNumber = Some n, ds_fields = [''labor_total'', ''parts_total'', ''grand_total'']\<rparr>
      | LookupResult n _ _ _ _ \<Rightarrow>
          \<lparr>ds_table = ''app.ro_deterministic_v2'', ds_roNumber = Some n,
           ds_fields = [''ro_status'', ''open_timestamp'', ''close_timestamp'', ''labor_total'', ''parts_total'', ''grand_total'']\<rparr>)"

definition buildDeterministicAnswer :: "string \<Rightarrow> DeterministicResult list \<Rightarrow> CitedAnswer \<times> DeterministicSource list" where
  "buildDeterministicAnswer question results =
     (if results = [] then
        (\<lparr>ca_prompt = ''Question: '' @ question @ [CHR 0x0A] @ ''No deterministic records found.'',
          ca_answer = ''No relevant records found.'', ca_usedLlm = False\<rparr>, [])
      else
        let details = js_join [CHR 0x0A] (map detail_line results)
        in (\<lparr>ca_prompt = ''Question: '' @ question @ [CHR 0x0A] @ ''Deterministic results:'' @ [CHR 0x0A] @ details,
             ca_answer = ''Summary: Deterministic records are listed below.'' @ [CHR 0x0A] @ details, ca_usedLlm = False\<rparr>,
            map source_of results))"

end
