(* ===== verification/Lookups.thy ===== *)
theory Lookups
  imports Retrieval PiiVault "HOL-Library.Char_ord" "HOL-Library.List_Lexorder" "HOL-Library.Product_Lexorder"
begin

text \<open>
  The retrieval services that query the database: tenantScope.ts, roNumberLookup.ts, strictLookup.ts,
  costLookup.ts, deterministicLookup.ts, vectorSearch.ts, ro/chunkRepo.ts and ro/roRepo.ts.

  A query without ORDER BY gives its rows in table order, and ORDER BY is a stable sort; SQL leaves
  both open. The distance of two embeddings, the casts to dates and the function
  \<open>app.lookup_customer_ids\<close>, which no migration creates, are arguments (\<open>Catalog\<close>).
\<close>

section \<open>tenantScope.ts\<close>

record TenantScope =
  ts_tenantIds :: "string list"
  ts_group :: bool

definition texts :: "string \<Rightarrow> row list \<Rightarrow> string list" where
  "texts c rows = concat (map (\<lambda>r. opt_list (as_text (col r c))) rows)"

definition fetchGroupTenants :: "string \<Rightarrow> string list io" where
  "fetchGroupTenants groupId =
     bind (db_select ''app.tenants'' (\<lambda>r. col r ''group_id'' = SText groupId)) (\<lambda>rows. ret (texts ''tenant_id'' rows))"

definition resolveTenantScope :: "RequestContext \<Rightarrow> TenantScope io" where
  "resolveTenantScope ctx =
     (if \<not> truthy (cx_tenantId ctx) \<or> cx_role ctx = None then io_throw ''Missing request context'' 400 ''CTX_MISSING''
      else
        let own = \<lparr>ts_tenantIds = [the (cx_tenantId ctx)], ts_group = False\<rparr>
        in if cx_role ctx = Some DEALERADMIN then
             bind (db_select ''app.tenants'' (\<lambda>r. col r ''tenant_id'' = sql_text (cx_tenantId ctx))) (\<lambda>rows.
               let groupId = (case rows of [] \<Rightarrow> None | r # _ \<Rightarrow> as_text (col r ''group_id''))
               in if \<not> truthy groupId then ret own
                  else bind (fetchGroupTenants (the groupId)) (\<lambda>ids.
                         ret (if ids = [] then own else \<lparr>ts_tenantIds = ids, ts_group = True\<rparr>)))
           else ret own)"

definition in_scope :: "TenantScope \<Rightarrow> row \<Rightarrow> bool" where
  "in_scope sc r \<longleftrightarrow> eq_any (col r ''tenant_id'') (ts_tenantIds sc)"

section \<open>roNumberLookup.ts\<close>

definition RO_REGEX :: rx where
  "RO_REGEX = rx_seq [str_i ''RO'', rx_opt (RCls (\<lambda>c. c = CHR ''-'' \<or> is_ws c)), rx_range 3 6 rx_digit]"

definition RO_WORD :: rx where "RO_WORD = str ''RO''"

definition normalize_ro :: "string \<Rightarrow> string" where
  "normalize_ro m =
     (let cleaned = toUpperCase (rx_replace_all (rx_plus rx_ws) (\<lambda>_ _. ''-'') m)
      in if js_includes cleaned ''RO-'' then cleaned else rx_replace_first RO_WORD (\<lambda>_ _. ''RO-'') cleaned)"

definition parseRoNumbers :: "string \<Rightarrow> string list" where
  "parseRoNumbers input = uniq (map (\<lambda>(w, _). normalize_ro w) (rx_matches RO_REGEX input))"

definition text_of :: "row \<Rightarrow> string \<Rightarrow> string" where "text_of r c = str_or_empty (as_text (col r c))"

definition int_of :: "row \<Rightarrow> string \<Rightarrow> int" where
  "int_of r c = (case col r c of SInt i \<Rightarrow> i | _ \<Rightarrow> 0)"

definition fetchRoChunksByNumber :: "RequestContext \<Rightarrow> string \<Rightarrow> Match list io" where
  "fetchRoChunksByNumber ctx input =
     (let roNumbers = parseRoNumbers input
      in if roNumbers = [] then ret []
         else bind (resolveTenantScope ctx) (\<lambda>scope.
              bind (db_select ''app.repair_orders'' (\<lambda>r. in_scope scope r \<and> eq_any (col r ''ro_number'') roNumbers)) (\<lambda>ros.
                if ros = [] then ret []
                else
                  let roMap = fold (\<lambda>r m. map_set (text_of r ''ro_id'') (as_text (col r ''ro_number'')) m) ros []
                  in bind (db_select ''app.chunks'' (\<lambda>r. in_scope scope r \<and> eq_any (col r ''ro_id'') (texts ''ro_id'' ros))) (\<lambda>chunks.
                       ret (map (\<lambda>c. \<lparr>mt_roNumber = (case map_of roMap (text_of c ''ro_id'') of None \<Rightarrow> None | Some n \<Rightarrow> n),
                                      mt_score = Fin 1, mt_citations = [slice (text_of c ''chunk_text'') 0 400]\<rparr>)
                              (js_sort (\<lambda>a b. (text_of a ''ro_id'', int_of a ''chunk_index'') \<le> (text_of b ''ro_id'', int_of b ''chunk_index''))
                                 chunks))))))"

section \<open>strictLookup.ts\<close>

definition DATE_REGEX :: rx where
  "DATE_REGEX = rx_seq [RWordB, rx_times 4 rx_digit, chr CHR ''-'', rx_times 2 rx_digit, chr CHR ''-'', rx_times 2 rx_digit, RWordB]"

definition parseDateTokens :: "string \<Rightarrow> string list" where
  "parseDateTokens input = uniq (map fst (rx_matches DATE_REGEX input))"

text \<open>\<open>/<word>\s*<word>\s*[:#]?\s*([A-Z0-9-]{n,})/i\<close>\<close>

definition LABELLED :: "string \<Rightarrow> string \<Rightarrow> nat \<Rightarrow> rx" where
  "LABELLED a b n = rx_seq [str_i a, RStar True rx_ws, str_i b, RStar True rx_ws,
     rx_opt (oneof '':#''), RStar True rx_ws,
     RGrp 1 (rx_min n (RCls (\<lambda>c. is_alpha c \<or> is_digit c \<or> c = CHR ''-'')))]"

definition labelled_value :: "rx \<Rightarrow> string \<Rightarrow> string option" where
  "labelled_value r input =
     (case rx_match r input of None \<Rightarrow> None | Some (_, g) \<Rightarrow> Some (toUpperCase (str_or_empty (group g 1))))"

definition parsePartNumber :: "string \<Rightarrow> string option" where
  "parsePartNumber = labelled_value (LABELLED ''part'' ''number'' 4)"

definition parseOpCode :: "string \<Rightarrow> string option" where
  "parseOpCode = labelled_value (LABELLED ''op'' ''code'' 2)"

definition HINT_PHONE :: rx where
  "HINT_PHONE = rx_seq [rx_opt (chr CHR ''+''), rx_digit,
     rx_min 8 (RCls (\<lambda>c. is_digit c \<or> is_ws c \<or> c \<in> set ''().-'')), rx_digit]"

definition name_chars :: rx where
  "name_chars = rx_min 2 (RCls (\<lambda>c. is_alpha c \<or> c = CHR 0x27 \<or> c = CHR ''-''))"

definition HINT_LAST_NAME :: rx where
  "HINT_LAST_NAME = rx_seq [str_i ''last'', rx_plus rx_ws, str_i ''name'', rx_plus rx_ws, RGrp 1 name_chars]"

definition HINT_NAME :: rx where
  "HINT_NAME = rx_seq [RWordB, str_i ''name'', rx_plus rx_ws, RGrp 1 name_chars]"

record PiiHints =
  hi_email :: "string option"
  hi_vin :: "string option"
  hi_phone :: "string option"
  hi_name :: "string option"

definition whole :: "rx \<Rightarrow> string \<Rightarrow> string option" where "whole r s = map_option fst (rx_match r s)"

definition extractPiiHints :: "string \<Rightarrow> PiiHints" where
  "extractPiiHints input =
     \<lparr>hi_email = whole EMAIL_REGEX input, hi_vin = whole VIN_REGEX input, hi_phone = whole HINT_PHONE input,
      hi_name = (case rx_match HINT_LAST_NAME input of
          Some (_, g) \<Rightarrow> group g 1
        | None \<Rightarrow> (case rx_match HINT_NAME input of Some (_, g) \<Rightarrow> group g 1 | None \<Rightarrow> None))\<rparr>"

record Catalog =
  cg_customerIds :: "(string \<Rightarrow> string list \<Rightarrow> string option list) option"
  cg_distance :: "string \<Rightarrow> string \<Rightarrow> rat"
  cg_hmac :: "string \<Rightarrow> string \<Rightarrow> string"
  cg_env :: env

definition hint_payload :: "PiiHints \<Rightarrow> PiiPayload" where
  "hint_payload h = initPiiPayload
     \<lparr>pp_customerName := hi_name h, pp_emails := map_option (\<lambda>x. [x]) (hi_email h),
      pp_phones := map_option (\<lambda>x. [x]) (hi_phone h), pp_vins := map_option (\<lambda>x. [x]) (hi_vin h)\<rparr>"

definition hint_hashes :: "Catalog \<Rightarrow> PiiHints \<Rightarrow> string list" where
  "hint_hashes cg h =
     (case buildPiiHashes (cg_hmac cg) (cg_env cg) (hint_payload h) of
        Inl _ \<Rightarrow> []
      | Inr p \<Rightarrow> filter (\<lambda>x. x \<noteq> []) (opt_list (ph_name p) @ ph_emails p @ ph_phones p @ ph_vins p))"

record StrictLookupResult =
  sl_roIds :: "string list"
  sl_roNumbers :: "string list"

text \<open>The queries; each gives the ids and the numbers it adds.\<close>

definition by_number :: "TenantScope \<Rightarrow> string list \<Rightarrow> row list io" where
  "by_number scope roNumbers =
     (if roNumbers = [] then ret []
      else db_select ''app.repair_orders'' (\<lambda>r. in_scope scope r \<and> eq_any (col r ''ro_number'') roNumbers))"

text \<open>The query selects \<open>ro_id\<close> and \<open>ro_number\<close> without a table name from a join of two tables that both
  have these columns; the server rejects it.\<close>

definition by_date :: "string list \<Rightarrow> row list io" where
  "by_date dateTokens = (if dateTokens = [] then ret [] else guard_tx (fail_stmt (AmbiguousColumn ''ro_id'')))"

definition by_column :: "string \<Rightarrow> string \<Rightarrow> TenantScope \<Rightarrow> string option \<Rightarrow> row list io" where
  "by_column t c scope v =
     (if \<not> truthy v then ret [] else db_select t (\<lambda>r. in_scope scope r \<and> col r c = sql_text v))"

definition by_hashes :: "Catalog \<Rightarrow> TenantScope \<Rightarrow> string list \<Rightarrow> string list io" where
  "by_hashes cg scope hashList =
     (if hashList = [] then ret []
      else bind (io_map (\<lambda>t.
          (case cg_customerIds cg of
             None \<Rightarrow> guard_tx (fail_stmt (UndefinedObject ''app.lookup_customer_ids''))
           | Some f \<Rightarrow> guard_tx (ret (filter (\<lambda>x. x \<noteq> []) (concat (map opt_list (f t hashList))))))) (ts_tenantIds scope))
        (\<lambda>ids. ret (concat ids)))"

definition resolveStrictLookup :: "Catalog \<Rightarrow> RequestContext \<Rightarrow> string \<Rightarrow> StrictLookupResult io" where
  "resolveStrictLookup cg ctx input =
     bind (resolveTenantScope ctx) (\<lambda>scope.
     bind (by_number scope (parseRoNumbers input)) (\<lambda>r1.
     bind (by_date (parseDateTokens input)) (\<lambda>r2.
     bind (by_column ''app.ro_parts_lines'' ''part_number'' scope (parsePartNumber input)) (\<lambda>r3.
     bind (by_column ''app.ro_labor_lines'' ''operation'' scope (parseOpCode input)) (\<lambda>r4.
     bind (by_hashes cg scope (hint_hashes cg (extractPiiHints input))) (\<lambda>ids5.
       let roIds = uniq (texts ''ro_id'' r1 @ texts ''ro_id'' r2 @ texts ''ro_id'' r3 @ texts ''ro_id'' r4 @ ids5);
           numbers = texts ''ro_number'' r1 @ texts ''ro_number'' r2
       in bind (if roIds = [] then ret []
                else db_select ''app.repair_orders'' (\<lambda>r. in_scope scope r \<and> eq_any (col r ''ro_id'') roIds)) (\<lambda>r6.
            ret \<lparr>sl_roIds = roIds, sl_roNumbers = uniq (numbers @ texts ''ro_number'' r6)\<rparr>)))))))"

section \<open>costLookup.ts and deterministicLookup.ts\<close>

record CostLookupMatch =
  cl_roId :: string
  cl_roNumber :: string
  cl_labor :: jsnum
  cl_parts :: jsnum
  cl_total :: jsnum

definition rat_of :: "row \<Rightarrow> string \<Rightarrow> rat" where
  "rat_of r c = (case col r c of SNum (Fin q) \<Rightarrow> q | _ \<Rightarrow> 0)"

definition cost_match :: "row \<Rightarrow> CostLookupMatch" where
  "cost_match r =
     (let labor = Fin (rat_of r ''labor_total''); parts = Fin (rat_of r ''parts_total'')
      in \<lparr>cl_roId = text_of r ''ro_id'', cl_roNumber = text_of r ''ro_number'', cl_labor = labor, cl_parts = parts,
          cl_total = jadd labor parts\<rparr>)"

definition resolveCostLookup :: "RequestContext \<Rightarrow> string list \<Rightarrow> nat \<Rightarrow> CostLookupMatch list io" where
  "resolveCostLookup ctx roNumbers limit =
     bind (resolveTenantScope ctx) (\<lambda>scope.
     bind (db_select ''app.ro_deterministic_v2'' (\<lambda>r. in_scope scope r \<and> (roNumbers = [] \<or> eq_any (col r ''ro_number'') roNumbers))) (\<lambda>rows.
       ret (filter (\<lambda>m. jgt (cl_total m) (Fin 0))
              (map cost_match
                 (take limit
                    (js_sort (\<lambda>a b. rat_of b ''labor_total'' + rat_of b ''parts_total'' \<le> rat_of a ''labor_total'' + rat_of a ''parts_total'') rows))))))"

definition fetchDeterministicLookup :: "Catalog \<Rightarrow> RequestContext \<Rightarrow> string \<Rightarrow> row list io" where
  "fetchDeterministicLookup cg ctx query =
     bind (resolveStrictLookup cg ctx query) (\<lambda>strict.
       if sl_roNumbers strict = [] then ret []
       else bind (resolveTenantScope ctx) (\<lambda>scope.
              db_select ''app.ro_deterministic_v2'' (\<lambda>r. in_scope scope r \<and> eq_any (col r ''ro_number'') (sl_roNumbers strict))))"

definition fetchDeterministicCost :: "RequestContext \<Rightarrow> string \<Rightarrow> nat \<Rightarrow> CostLookupMatch list io" where
  "fetchDeterministicCost ctx query limit = resolveCostLookup ctx (parseRoNumbers query) limit"

definition fetchDeterministicCount :: "RequestContext \<Rightarrow> string \<Rightarrow> nat io" where
  "fetchDeterministicCount ctx query =
     bind (resolveTenantScope ctx) (\<lambda>scope.
     bind (db_select ''app.repair_orders'' (\<lambda>r. in_scope scope r \<and> (parseRoNumbers query = [] \<or> eq_any (col r ''ro_number'') (parseRoNumbers query)))) (\<lambda>rows.
       ret (length rows)))"

section \<open>vectorSearch.ts, chunkRepo.ts and roRepo.ts\<close>

record VectorMatch =
  vm_chunkId :: string
  vm_score :: rat

definition vector_literal :: "jsnum list \<Rightarrow> string" where
  "vector_literal v = ''['' @ js_join '','' (map num_to_string v) @ '']''"

text \<open>Without tenants to search in, those of the context; a context without a tenant gives a NULL, which equals no column.\<close>

definition scopedTenantIds :: "RequestContext \<Rightarrow> string list option \<Rightarrow> string option list" where
  "scopedTenantIds ctx tenantIds = (case tenantIds of None \<Rightarrow> [cx_tenantId ctx] | Some ids \<Rightarrow> map Some ids)"

definition in_tenant_ids :: "string option list \<Rightarrow> row \<Rightarrow> bool" where
  "in_tenant_ids ids r \<longleftrightarrow> list_ex (\<lambda>t. t \<noteq> None \<and> col r ''tenant_id'' = sql_text t) ids"

definition vectorSearch :: "Catalog \<Rightarrow> RequestContext \<Rightarrow> jsnum list \<Rightarrow> nat \<Rightarrow> string list option \<Rightarrow> VectorMatch list io" where
  "vectorSearch cg ctx queryEmbedding topK tenantIds =
     (let limit = max 1 (min topK 50); scoped = scopedTenantIds ctx tenantIds;
          d = (\<lambda>r. cg_distance cg (text_of r ''embedding'') (vector_literal queryEmbedding))
      in if scoped = [] then ret []
         else bind (db_select ''app.embeddings'' (in_tenant_ids scoped)) (\<lambda>rows.
                ret (map (\<lambda>r. \<lparr>vm_chunkId = text_of r ''chunk_id'', vm_score = 1 - d r\<rparr>)
                       (take limit (js_sort (\<lambda>a b. d a \<le> d b) rows)))))"

text \<open>The LIMIT of a listing, \<open>Math.min(Number(limit) || 50, 200)\<close> for its query parameter; the server refuses a number that
  is negative or not whole.\<close>

definition listing_limit :: "string option \<Rightarrow> jsnum" where
  "listing_limit q =
     (case q of
        None \<Rightarrow> Fin 50
      | Some s \<Rightarrow>
          (case js_Number s of
             NaN \<Rightarrow> Fin 50 | PosInf \<Rightarrow> Fin 200 | NegInf \<Rightarrow> NegInf
           | Fin x \<Rightarrow> Fin (if x = 0 then 50 else min x 200)))"

definition limit_rows :: "jsnum \<Rightarrow> 'a list \<Rightarrow> 'a list res" where
  "limit_rows n rows =
     (case n of
        Fin x \<Rightarrow> if 0 \<le> x \<and> of_int \<lfloor>x\<rfloor> = x then ok (take (nat \<lfloor>x\<rfloor>) rows) else Inl (Pg (InvalidInput ''LIMIT''))
      | _ \<Rightarrow> Inl (Pg (InvalidInput ''LIMIT'')))"

definition getChunksByIds :: "string list \<Rightarrow> string list \<Rightarrow> row list io" where
  "getChunksByIds chunkIds tenantIds =
     (if chunkIds = [] \<or> tenantIds = [] then ret []
      else db_select ''app.chunks'' (\<lambda>r. eq_any (col r ''tenant_id'') tenantIds \<and> eq_any (col r ''chunk_id'') chunkIds))"

definition getRosByIds :: "string list \<Rightarrow> string list \<Rightarrow> row list io" where
  "getRosByIds roIds tenantIds =
     (if roIds = [] \<or> tenantIds = [] then ret []
      else db_select ''app.repair_orders'' (\<lambda>r. eq_any (col r ''tenant_id'') tenantIds \<and> eq_any (col r ''ro_id'') roIds))"

end
