(* ===== verification/Answering.thy ===== *)
theory Answering
  imports Lookups Pipeline
begin

text \<open>
  routes/search.ts, routes/answer.ts and routes/ro.ts: the requests that read repair orders.

  A handler gives a response or ends with the error that its promise rejects with. The chat and
  embedding endpoints and the clock are arguments; \<open>top_k\<close> is a natural number when it is present.
\<close>

record Services =
  sv_catalog :: Catalog
  sv_intentLlm :: bool
  sv_json :: LlmJson
  sv_intentChat :: "string \<Rightarrow> ChatReply"
  sv_llmEnabled :: bool
  sv_chat :: "string \<Rightarrow> nat \<Rightarrow> ChatReply"
  sv_embed :: "string \<Rightarrow> nat \<Rightarrow> EmbedReply"
  sv_uuid :: "nat \<Rightarrow> string"
  sv_accepts :: "AuditRow \<Rightarrow> bool"

definition route_guard :: "RequestContext \<Rightarrow> Response option" where
  "route_guard ctx =
     (if \<not> hasRlsContext ctx then Some (err_response 400 (Some ''CTX_MISSING'') ''Missing request context'')
      else if cx_role ctx \<notin> {Some USER, Some ADMIN, Some DEALERADMIN, Some DEVELOPER}
      then Some (err_response 403 (Some ''ROLE_FORBIDDEN'') ''Insufficient role'')
      else None)"

definition top_k_of :: "nat option \<Rightarrow> nat" where
  "top_k_of k = (case k of Some n \<Rightarrow> if n > 0 then min n 5 else 3 | None \<Rightarrow> 3)"

definition source_name :: "Source \<Rightarrow> string" where
  "source_name s = (case s of Rules \<Rightarrow> ''rules'' | Llm \<Rightarrow> ''llm'' | Fallback \<Rightarrow> ''fallback'')"

definition strategy_name :: "RetrievalStrategy \<Rightarrow> string" where
  "strategy_name s =
     (case s of DIRECT_LOOKUP \<Rightarrow> ''DIRECT_LOOKUP'' | HYBRID_SEARCH \<Rightarrow> ''HYBRID_SEARCH''
      | BROAD_VECTOR_SEARCH \<Rightarrow> ''BROAD_VECTOR_SEARCH'' | NONE \<Rightarrow> ''NONE'')"

definition tone_name :: "AnswerTone \<Rightarrow> string" where
  "tone_name t = (case t of DEFINITIVE \<Rightarrow> ''DEFINITIVE'' | QUALIFIED \<Rightarrow> ''QUALIFIED'' | CAUTIOUS \<Rightarrow> ''CAUTIOUS'')"

definition audit :: "Services \<Rightarrow> RequestContext \<Rightarrow> AuditEvent \<Rightarrow> unit io" where
  "audit sv ctx ev = auditLog (sv_uuid sv) (sv_accepts sv) ctx ev"

definition audit_intent :: "Services \<Rightarrow> RequestContext \<Rightarrow> string \<Rightarrow> IntentResult \<Rightarrow> unit io" where
  "audit_intent sv ctx otype it =
     audit sv ctx (event ''INTENT_CLASSIFY'' otype None
       [(''intent'', VStr (intent_name (it_intent it))), (''confidence'', VNum (Fin (it_confidence it))),
        (''source'', VStr (source_name (it_source it)))])"

definition audit_strategy :: "Services \<Rightarrow> RequestContext \<Rightarrow> string \<Rightarrow> IntentResult \<Rightarrow> RetrievalStrategy \<Rightarrow> bool \<Rightarrow> unit io" where
  "audit_strategy sv ctx otype it strategy fallback =
     audit sv ctx (event ''RETRIEVAL_STRATEGY'' otype None
       [(''intent'', VStr (intent_name (it_intent it))), (''confidence'', VNum (Fin (it_confidence it))),
        (''strategy'', VStr (strategy_name strategy)), (''fallback'', VBool fallback)])"

definition audit_direct :: "Services \<Rightarrow> RequestContext \<Rightarrow> string \<Rightarrow> IntentResult \<Rightarrow> bool \<Rightarrow> nat \<Rightarrow> unit io" where
  "audit_direct sv ctx otype it fallback n =
     audit sv ctx
       (if \<not> fallback then event ''RETRIEVAL_DETERMINISTIC'' otype None
             [(''intent'', VStr (intent_name (it_intent it))), (''results'', VNum (Fin (of_nat n)))]
        else event ''RETRIEVAL_FALLBACK'' otype None
             [(''intent'', VStr (intent_name (it_intent it))), (''reason'', VStr ''deterministic_empty'')])"

section \<open>Vector search with its chunks and repair orders\<close>

definition fetchMatches ::
  "Services \<Rightarrow> RequestContext \<Rightarrow> jsnum list \<Rightarrow> nat \<Rightarrow> (VectorMatch list \<times> row list \<times> row list) io" where
  "fetchMatches sv ctx embedding limit =
     withRequestContext ctx
       (bind (resolveTenantScope ctx) (\<lambda>scope.
        bind (vectorSearch (sv_catalog sv) ctx embedding limit (Some (ts_tenantIds scope))) (\<lambda>matches.
        bind (getChunksByIds (map vm_chunkId matches) (ts_tenantIds scope)) (\<lambda>chunks.
        bind (getRosByIds (uniq (texts ''ro_id'' chunks)) (ts_tenantIds scope)) (\<lambda>ros.
          ret (matches, chunks, ros))))))"

definition keyed :: "string \<Rightarrow> row list \<Rightarrow> (string, row) jsmap" where
  "keyed c rows = fold (\<lambda>r m. map_set (text_of r c) r m) rows []"

definition cite_match :: "row list \<Rightarrow> row list \<Rightarrow> VectorMatch \<Rightarrow> Match" where
  "cite_match chunks ros m =
     (case map_of (keyed ''chunk_id'' chunks) (vm_chunkId m) of
        None \<Rightarrow> \<lparr>mt_roNumber = None, mt_score = Fin (vm_score m), mt_citations = []\<rparr>
      | Some chunk \<Rightarrow>
          \<lparr>mt_roNumber = (case map_of (keyed ''ro_id'' ros) (text_of chunk ''ro_id'') of
              None \<Rightarrow> None | Some ro \<Rightarrow> as_text (col ro ''ro_number'')),
           mt_score = Fin (vm_score m), mt_citations = [slice (text_of chunk ''chunk_text'') 0 400]\<rparr>)"

definition embedQuery :: "Services \<Rightarrow> string \<Rightarrow> jsnum list io" where
  "embedQuery sv text = lift (embedText (sv_embed sv) text)"

text \<open>The part of both handlers after the direct lookup. With HYBRID_SEARCH a query that names repair
  orders keeps only the matches of these.\<close>

definition vector_matches ::
  "Services \<Rightarrow> RequestContext \<Rightarrow> string \<Rightarrow> nat \<Rightarrow> RetrievalStrategy \<Rightarrow> Match list \<Rightarrow> Match list io" where
  "vector_matches sv ctx query topK strategy dflt =
     (if strategy = HYBRID_SEARCH then
        bind (embedQuery sv (redactPII_retrieval query)) (\<lambda>e.
        bind (fetchMatches sv ctx e topK) (\<lambda>(matches, chunks, ros).
          let found = map (cite_match chunks ros) matches; roNumbers = parseRoNumbers query
          in ret (if roNumbers = [] then found
                  else filter (\<lambda>m. truthy (mt_roNumber m) \<and> the (mt_roNumber m) \<in> set roNumbers) found)))
      else if strategy = BROAD_VECTOR_SEARCH then
        bind (embedQuery sv (redactPII_retrieval query)) (\<lambda>e.
        bind (fetchMatches sv ctx e (min (max topK 3 + 2) 6)) (\<lambda>(matches, chunks, ros).
          ret (map (cite_match chunks ros) matches)))
      else ret dflt)"

section \<open>The direct lookup\<close>

definition num_field :: "row \<Rightarrow> string \<Rightarrow> jsnum option" where
  "num_field r c = (case col r c of SNum x \<Rightarrow> Some x | _ \<Rightarrow> None)"

definition lookup_result :: "row \<Rightarrow> DeterministicResult" where
  "lookup_result r = LookupResult (text_of r ''ro_number'') (as_text (col r ''ro_status''))
     (num_field r ''labor_total'') (num_field r ''parts_total'') (num_field r ''grand_total'')"

definition cost_result :: "CostLookupMatch \<Rightarrow> DeterministicResult" where
  "cost_result m = CostResult (cl_roNumber m) (cl_labor m) (cl_parts m) (cl_total m)"

definition answer_direct :: "Services \<Rightarrow> RequestContext \<Rightarrow> Intent \<Rightarrow> string \<Rightarrow> nat \<Rightarrow> DeterministicResult list io" where
  "answer_direct sv ctx intent question topK =
     withRequestContext ctx
       (if intent = Lookup then bind (fetchDeterministicLookup (sv_catalog sv) ctx question) (\<lambda>rows. ret (map lookup_result rows))
        else if intent = CostAnalysis then bind (fetchDeterministicCost ctx question topK) (\<lambda>ms. ret (map cost_result ms))
        else if intent = FrequencyAnalysis
        then bind (fetchDeterministicCount ctx question) (\<lambda>n. ret [AggregateResult ''repair_orders'' (Fin (of_nat n))])
        else ret [])"

definition result_number :: "DeterministicResult \<Rightarrow> string option" where
  "result_number r = (case r of AggregateResult _ _ \<Rightarrow> None | CostResult n _ _ _ \<Rightarrow> Some n | LookupResult n _ _ _ _ \<Rightarrow> Some n)"

definition bare_match :: "string option \<Rightarrow> Match" where
  "bare_match n = \<lparr>mt_roNumber = n, mt_score = Fin 1, mt_citations = []\<rparr>"

section \<open>search.ts\<close>

text \<open>In the search the count of repair orders gives no rows.\<close>

definition search_direct :: "Services \<Rightarrow> RequestContext \<Rightarrow> Intent \<Rightarrow> string \<Rightarrow> nat \<Rightarrow> string list io" where
  "search_direct sv ctx intent query topK =
     withRequestContext ctx
       (if intent = Lookup then bind (fetchDeterministicLookup (sv_catalog sv) ctx query) (\<lambda>rows. ret (map (\<lambda>r. text_of r ''ro_number'') rows))
        else if intent = CostAnalysis then bind (fetchDeterministicCost ctx query topK) (\<lambda>ms. ret (map cl_roNumber ms))
        else if intent = FrequencyAnalysis then bind (fetchDeterministicCount ctx query) (\<lambda>_. ret [])
        else ret [])"

datatype SearchResponse = SearchError Response | SearchOk "Match list"

definition searchHandler :: "Services \<Rightarrow> RequestContext \<Rightarrow> string option \<Rightarrow> nat option \<Rightarrow> SearchResponse io" where
  "searchHandler sv ctx query top_k =
     (case route_guard ctx of
        Some r \<Rightarrow> ret (SearchError r)
      | None \<Rightarrow>
          if \<not> truthy query then ret (SearchError (err_response 400 (Some ''BAD_REQUEST'') ''query is required''))
          else
            let q = the query; topK = top_k_of top_k; it = classifyIntent (sv_intentLlm sv) (sv_json sv) (sv_intentChat sv) q;
                otype = ''search_query''
            in bind (audit_intent sv ctx otype it) (\<lambda>_.
                 if shouldBypassRetrieval (it_intent it) then
                   bind (audit_strategy sv ctx otype it NONE False) (\<lambda>_. ret (SearchOk []))
                 else
                   let initial = determineRetrievalStrategy (it_intent it) (it_confidence it)
                   in bind (if initial = DIRECT_LOOKUP then
                              bind (search_direct sv ctx (it_intent it) q topK) (\<lambda>numbers.
                                let (strategy, fb) = applyDirectLookupFallback initial (length numbers)
                                in bind (audit_direct sv ctx otype it fb (length numbers)) (\<lambda>_.
                                     ret (strategy, fb, map (\<lambda>n. bare_match (Some n)) numbers)))
                            else ret (initial, False, [])) (\<lambda>(strategy, fb, direct).
                      bind (vector_matches sv ctx q topK strategy direct) (\<lambda>matches.
                      bind (audit_strategy sv ctx otype it strategy fb) (\<lambda>_.
                        ret (SearchOk matches))))))"

section \<open>answer.ts\<close>

record AnswerResponse =
  ar_answer :: string
  ar_prompt :: "string option"
  ar_sources :: "Match list"
  ar_usedLlm :: bool

datatype AnswerReply = AnswerError Response | AnswerOk AnswerResponse

definition context_key :: "RequestContext \<Rightarrow> string" where
  "context_key ctx = str_or_empty (cx_tenantId ctx) @ '':'' @ str_or_empty (cx_userId ctx) @ '':answer''"

definition provenance_sources :: "AnswerContext \<Rightarrow> Match list" where
  "provenance_sources prior =
     map (\<lambda>ro. \<lparr>mt_roNumber = Some (cr_roNumber ro), mt_score = Fin 1, mt_citations = cr_evidence ro\<rparr>) (ac_citedROs prior)"

text \<open>A question about the sources of the previous answer.\<close>

definition answer_provenance ::
  "Services \<Rightarrow> RequestContext \<Rightarrow> IntentResult \<Rightarrow> int \<Rightarrow> ContextStore \<Rightarrow> (ContextStore \<times> AnswerReply) io" where
  "answer_provenance sv ctx it now store =
     (case getLastAnswerContext now (context_key ctx) store of
        (store', None) \<Rightarrow>
          bind (audit_strategy sv ctx ''answer_query'' it NONE False) (\<lambda>_.
            ret (store', AnswerOk \<lparr>ar_answer = ''I don'' @ [CHR 0x27] @ ''t have prior context for that question.'', ar_prompt = None,
                                   ar_sources = [], ar_usedLlm = False\<rparr>))
      | (store', Some prior) \<Rightarrow>
          bind (audit sv ctx (event ''PROVENANCE_QUERY'' ''answer_context'' (Some (ac_answerId prior)) [(''answer_id'', VStr (ac_answerId prior))])) (\<lambda>_.
          bind (audit_strategy sv ctx ''answer_query'' it NONE False) (\<lambda>_.
            ret (store', AnswerOk \<lparr>ar_answer = buildProvenanceAnswer prior, ar_prompt = None,
                                   ar_sources = provenance_sources prior, ar_usedLlm = False\<rparr>))))"

definition deterministic_citation :: "DeterministicSource \<Rightarrow> Match" where
  "deterministic_citation s =
     \<lparr>mt_roNumber = ds_roNumber s, mt_score = Fin 1,
      mt_citations = [''deterministic:'' @ ds_table s @
        (if truthy (ds_roNumber s) then '' ro_number='' @ the (ds_roNumber s) else []) @
        (if ds_fields s \<noteq> [] then '' fields='' @ js_join '','' (ds_fields s) else [])]\<rparr>"

definition answer_question ::
  "Services \<Rightarrow> RequestContext \<Rightarrow> string \<Rightarrow> nat \<Rightarrow> IntentResult \<Rightarrow> int \<Rightarrow> string \<Rightarrow> ContextStore \<Rightarrow> (ContextStore \<times> AnswerReply) io" where
  "answer_question sv ctx question topK it now createdAt store =
     (let otype = ''answer_query''; tone = determineAnswerTone (it_confidence it);
          initial = determineRetrievalStrategy (it_intent it) (it_confidence it);
          redacted = redactPII_retrieval question
      in bind (if initial = DIRECT_LOOKUP then
                 bind (answer_direct sv ctx (it_intent it) question topK) (\<lambda>results.
                   let (strategy, fb) = applyDirectLookupFallback initial (length results)
                   in bind (audit_direct sv ctx otype it fb (length results)) (\<lambda>_.
                        ret (strategy, fb, map (\<lambda>r. bare_match (result_number r)) results,
                             if fb then None else Some (buildDeterministicAnswer redacted results))))
               else ret (initial, False, [], None)) (\<lambda>(strategy, fb, direct, det).
         bind (vector_matches sv ctx question topK strategy direct) (\<lambda>matches.
         bind (audit_strategy sv ctx otype it strategy fb) (\<lambda>_.
         bind (case det of
                 Some (a, _) \<Rightarrow> ret a
               | None \<Rightarrow> lift (buildCitedAnswer (sv_llmEnabled sv) (sv_chat sv) redacted matches tone)) (\<lambda>payload.
           let sources = (case det of
                 Some (_, s # ss) \<Rightarrow> map deterministic_citation (s # ss)
               | _ \<Rightarrow> matches)
           in bind (draw_uuid (sv_uuid sv)) (\<lambda>answerId.
              let ac = buildAnswerContext answerId (it_intent it) tone strategy createdAt sources;
                  store' = setLastAnswerContext now (context_key ctx) ac store
              in bind (audit sv ctx (event ''ANSWER_TONE'' ''answer'' (Some answerId) [(''tone'', VStr (tone_name tone))])) (\<lambda>_.
                   ret (store', AnswerOk \<lparr>ar_answer = ca_answer payload, ar_prompt = Some (ca_prompt payload),
                                          ar_sources = sources, ar_usedLlm = ca_usedLlm payload\<rparr>)))))))) "

definition answerHandler ::
  "Services \<Rightarrow> RequestContext \<Rightarrow> string option \<Rightarrow> nat option \<Rightarrow> int \<Rightarrow> string \<Rightarrow> ContextStore \<Rightarrow> (ContextStore \<times> AnswerReply) io" where
  "answerHandler sv ctx question top_k now createdAt store =
     (case route_guard ctx of
        Some r \<Rightarrow> ret (store, AnswerError r)
      | None \<Rightarrow>
          if \<not> truthy question then ret (store, AnswerError (err_response 400 (Some ''BAD_REQUEST'') ''question is required''))
          else
            let q = the question; it = classifyIntent (sv_intentLlm sv) (sv_json sv) (sv_intentChat sv) q
            in bind (audit_intent sv ctx ''answer_query'' it) (\<lambda>_.
                 if shouldBypassRetrieval (it_intent it) then answer_provenance sv ctx it now store
                 else answer_question sv ctx q (top_k_of top_k) it now createdAt store))"

section \<open>ro.ts\<close>

datatype RoResponse = RoError Response | RoOk row "(string \<times> int \<times> string) list"

text \<open>The columns the query selects, without the number of the joined row.\<close>

definition ro_view :: "row \<Rightarrow> row \<Rightarrow> row" where
  "ro_view r d =
     map (\<lambda>c. (c, col r c)) [''ro_id'', ''ro_number'', ''doc_id'', ''created_at''] @
     map (\<lambda>(c, label). (label, col d c))
       [(''ro_status'', ''ro_status''), (''open_timestamp'', ''open_timestamp''), (''close_timestamp'', ''close_timestamp''),
        (''advisor_id'', ''advisor_id''), (''technician_id'', ''technician_id''), (''vehicle_year'', ''vehicle_year''),
        (''vehicle_make'', ''vehicle_make''), (''vehicle_model'', ''vehicle_model''), (''vehicle_color'', ''vehicle_color''),
        (''odometer_in'', ''mileage_in''), (''odometer_out'', ''mileage_out''), (''labor_total'', ''labor_total''),
        (''parts_total'', ''parts_total''), (''tax_total'', ''tax_total''), (''discount_total'', ''discount_total''),
        (''grand_total'', ''total_due'')]"

text \<open>The repair order, the deterministic row joined to it, and the chunks. Any error of the block is
  answered with 500.\<close>

definition fetch_ro :: "RequestContext \<Rightarrow> string \<Rightarrow> (row \<times> row list) option io" where
  "fetch_ro ctx roId =
     withRequestContext ctx
       (bind (db_select ''app.repair_orders'' (\<lambda>r. col r ''tenant_id'' = sql_text (cx_tenantId ctx) \<and> col r ''ro_id'' = SText roId)) (\<lambda>ros.
        bind (db_select ''app.ro_deterministic_v2'' (\<lambda>d. ros \<noteq> [] \<and>
                col d ''tenant_id'' = col (hd ros) ''tenant_id'' \<and> col d ''ro_number'' = col (hd ros) ''ro_number'' \<and> col d ''ro_number'' \<noteq> SNull)) (\<lambda>ds.
          if ros = [] then ret None
          else if ds = [] \<or> \<not> truthy (as_text (col (hd ds) ''ro_number''))
          then io_throw ''Deterministic payload missing for RO'' 500 ''RO_DETERMINISTIC_MISSING''
          else bind (db_select ''app.chunks'' (\<lambda>c. col c ''tenant_id'' = sql_text (cx_tenantId ctx) \<and> col c ''ro_id'' = SText roId)) (\<lambda>chunks.
                 ret (Some (ro_view (hd ros) (hd ds), js_sort (\<lambda>a b. int_of a ''chunk_index'' \<le> int_of b ''chunk_index'') chunks))))))"

definition roHandler :: "Services \<Rightarrow> RequestContext \<Rightarrow> string option \<Rightarrow> RoResponse io" where
  "roHandler sv ctx ro_id =
     (case route_guard ctx of
        Some r \<Rightarrow> ret (RoError r)
      | None \<Rightarrow>
          if \<not> truthy ro_id then ret (RoError (err_response 400 (Some ''BAD_REQUEST'') ''ro_id required''))
          else if \<not> isUuid (the ro_id) then ret (RoError (err_response 400 (Some ''INVALID_ID'') ''ro_id must be a UUID''))
          else (\<lambda>w. case fetch_ro ctx (the ro_id) w of
              (w', Inl e) \<Rightarrow> (w', Inr (RoError (err_response 500 (Some ''RO_FETCH_FAILED'') ''RO fetch failed'')))
            | (w', Inr None) \<Rightarrow> (w', Inr (RoError (err_response 404 (Some ''NOT_FOUND'') ''RO not found'')))
            | (w', Inr (Some (ro, chunks))) \<Rightarrow>
                bind (audit sv ctx \<lparr>ev_action = ''VIEW_RO'', ev_objectType = ''repair_order'', ev_objectId = ro_id, ev_metadata = None\<rparr>) (\<lambda>_.
                  ret (RoOk ro (map (\<lambda>c. (text_of c ''chunk_id'', int_of c ''chunk_index'', text_of c ''chunk_text'')) chunks))) w'))"

end
