(* ===== verification/AnswerFacts.thy ===== *)
theory AnswerFacts
  imports Answering TenantFacts
begin

text \<open>
  Facts about retrieval and answering: the intent classifier and the strategy it selects, the store of
  answer contexts as an expiring store (locale \<open>ttl_store\<close>), the
  ranking of the vector search, and what the handlers find in a session that has no transaction.
\<close>

section \<open>Classifier, strategy and tone\<close>

lemma lit_values:
  "0 < lit (6 / 10)" "lit (6 / 10) \<le> lit (8 / 10)" "lit (6 / 10) \<le> lit (85 / 100)" "lit (6 / 10) \<le> lit (9 / 10)"
  "lit (8 / 10) \<le> 1" "lit (85 / 100) \<le> 1" "lit (9 / 10) \<le> 1"
  by code_simp+

lemma clamp01_bounds: "0 \<le> clamp01 x" "clamp01 x \<le> 1"
  by (auto simp: clamp01_def split: jsnum.split)

definition sound_result :: "IntentResult \<Rightarrow> bool" where
  "sound_result r \<longleftrightarrow>
     (if it_source r = Fallback then it_intent r = UnknownIntent \<and> it_confidence r = 0
      else lit (6 / 10) \<le> it_confidence r \<and> it_confidence r \<le> 1)"

lemma sound_fallback: "sound_result fallback_intent"
  by (simp add: sound_result_def fallback_intent_def)

lemma sound_rules: "rulesClassify s = Some r \<Longrightarrow> sound_result r"
  using lit_values
  by (auto simp: rulesClassify_def Let_def by_rule_def sound_result_def split: if_splits)

lemma sound_llm:
  assumes "classifyWithLlm llm json chat s = Inr r"
  shows "sound_result r"
proof -
  have "clamp01 q \<le> 1" for q by (rule clamp01_bounds)
  then show ?thesis
    using assms sound_fallback
    by (auto simp: classifyWithLlm_def parseLlmResult_def sound_result_def confidenceThreshold_def
        split: if_splits ChatReply.splits option.splits prod.splits)
qed

lemma sound_classify: "sound_result (classifyIntent llm json chat q)"
  by (auto simp: classifyIntent_def Let_def sound_fallback sound_rules sound_llm split: option.split sum.split)

text \<open>The confidence of a classification lies between 0 and 1; the broad vector search and the
  cautious tone are taken exactly when the classifier fell back, and the direct lookup exactly for the
  three intents that have one.\<close>

theorem strategy_follows_classification:
  "let r = classifyIntent llm json chat q; s = determineRetrievalStrategy (it_intent r) (it_confidence r)
   in 0 \<le> it_confidence r \<and> it_confidence r \<le> 1 \<and>
      (s = BROAD_VECTOR_SEARCH \<longleftrightarrow> it_source r = Fallback) \<and>
      (determineAnswerTone (it_confidence r) = CAUTIOUS \<longleftrightarrow> it_source r = Fallback) \<and>
      (s = DIRECT_LOOKUP \<longleftrightarrow> it_intent r \<in> {Lookup, CostAnalysis, FrequencyAnalysis})"
proof -
  note b = lit_values(1,2)
  show ?thesis
  proof (cases "it_source (classifyIntent llm json chat q) = Fallback")
    case True
    then have "it_intent (classifyIntent llm json chat q) = UnknownIntent" "it_confidence (classifyIntent llm json chat q) = 0"
      using sound_classify [of llm json chat q] by (simp_all add: sound_result_def)
    then show ?thesis using True b by (simp add: Let_def determineRetrievalStrategy_def determineAnswerTone_def)
  next
    case False
    then have "lit (6 / 10) \<le> it_confidence (classifyIntent llm json chat q)" "it_confidence (classifyIntent llm json chat q) \<le> 1"
      using sound_classify [of llm json chat q] by (simp_all add: sound_result_def)
    then show ?thesis using False b by (simp add: Let_def determineRetrievalStrategy_def determineAnswerTone_def)
  qed
qed

section \<open>Answer contexts\<close>

datatype ('k, 'v) store_op = Put int 'k 'v | Get int 'k | Drop 'k

fun run_ops ::
  "(int \<Rightarrow> 'k \<Rightarrow> 'v \<Rightarrow> 's \<Rightarrow> 's) \<Rightarrow> (int \<Rightarrow> 'k \<Rightarrow> 's \<Rightarrow> 's \<times> 'v option) \<Rightarrow> ('k \<Rightarrow> 's \<Rightarrow> 's) \<Rightarrow> ('k, 'v) store_op list \<Rightarrow> 's \<Rightarrow> 's" where
  "run_ops put get del [] s = s"
| "run_ops put get del (Put t k v # xs) s = run_ops put get del xs (put t k v s)"
| "run_ops put get del (Get t k # xs) s = run_ops put get del xs (fst (get t k s))"
| "run_ops put get del (Drop k # xs) s = run_ops put get del xs (del k s)"

text \<open>No lookup later than \<open>t\<close>; the operation writes or clears the key.\<close>

fun looks_by :: "int \<Rightarrow> ('k, 'v) store_op \<Rightarrow> bool" where
  "looks_by t (Get t' k) \<longleftrightarrow> t' \<le> t"
| "looks_by t x \<longleftrightarrow> True"

fun touches :: "'k \<Rightarrow> ('k, 'v) store_op \<Rightarrow> bool" where
  "touches k (Put t k' v) \<longleftrightarrow> k' = k"
| "touches k (Get t k') \<longleftrightarrow> False"
| "touches k (Drop k') \<longleftrightarrow> k' = k"

text \<open>A store whose values expire and whose lookups may evict: eviction must not be observable.\<close>

locale ttl_store =
  fixes put :: "int \<Rightarrow> 'k \<Rightarrow> 'v \<Rightarrow> 's \<Rightarrow> 's"
    and get :: "int \<Rightarrow> 'k \<Rightarrow> 's \<Rightarrow> 's \<times> 'v option"
    and del :: "'k \<Rightarrow> 's \<Rightarrow> 's"
    and ttl :: int
  assumes get_put: "snd (get t k' (put now k v s)) =
      (if k' = k then if t \<le> now + ttl then Some v else None else snd (get t k' s))"
    and get_del: "snd (get t k' (del k s)) = (if k' = k then None else snd (get t k' s))"
    and get_get: "t \<le> t' \<Longrightarrow> snd (get t' k' (fst (get t k s))) = snd (get t' k' s)"
begin

lemma get_untouched:
  "list_all (looks_by t) xs \<Longrightarrow> list_all (\<lambda>x. \<not> touches k x) xs \<Longrightarrow>
     snd (get t k (run_ops put get del xs s)) = snd (get t k s)"
proof (induction xs arbitrary: s)
  case (Cons x xs)
  then show ?case by (cases x) (auto simp: get_put get_del get_get)
qed simp

lemma get_after_put:
  "list_all (looks_by t) ys \<Longrightarrow> list_all (\<lambda>x. \<not> touches k x) ys \<Longrightarrow>
     snd (get t k (run_ops put get del (Put now k v # ys) s)) = (if t \<le> now + ttl then Some v else None)"
  by (simp add: get_untouched get_put)

lemma run_append: "run_ops put get del (xs @ ys) s = run_ops put get del ys (run_ops put get del xs s)"
  by (induction put get del xs s rule: run_ops.induct) simp_all

lemma get_iff:
  assumes "list_all (looks_by t) xs" "\<And>t. snd (get t k s) = None"
  shows "snd (get t k (run_ops put get del xs s)) = Some v \<longleftrightarrow>
    (\<exists>as now bs. xs = as @ Put now k v # bs \<and> list_all (\<lambda>x. \<not> touches k x) bs \<and> t \<le> now + ttl)"
proof
  assume "\<exists>as now bs. xs = as @ Put now k v # bs \<and> list_all (\<lambda>x. \<not> touches k x) bs \<and> t \<le> now + ttl"
  then obtain as now bs where x: "xs = as @ Put now k v # bs" "list_all (\<lambda>x. \<not> touches k x) bs" "t \<le> now + ttl" by blast
  then show "snd (get t k (run_ops put get del xs s)) = Some v"
    using assms(1) get_after_put [of t bs k now v] by (simp add: run_append)
next
  assume g: "snd (get t k (run_ops put get del xs s)) = Some v"
  have "\<exists>x \<in> set xs. touches k x"
    using g get_untouched [of t xs k s] assms by (auto simp: list_all_iff)
  then obtain as x bs where x: "xs = as @ x # bs" "touches k x" "\<forall>y \<in> set bs. \<not> touches k y"
    using split_list_last_prop [of xs "touches k"] by auto
  have b: "list_all (looks_by t) bs" "list_all (\<lambda>x. \<not> touches k x) bs" using assms(1) x by (simp_all add: list_all_iff)
  let ?s = "run_ops put get del as s"
  have r: "snd (get t k (run_ops put get del (x # bs) ?s)) = Some v" using g x(1) by (simp add: run_append)
  show "\<exists>as now bs. xs = as @ Put now k v # bs \<and> list_all (\<lambda>x. \<not> touches k x) bs \<and> t \<le> now + ttl"
  proof (cases x)
    case (Put now k' v')
    then have "k' = k" "v' = v" "t \<le> now + ttl"
      using x(2) r get_after_put [OF b, of now v' ?s] by (auto split: if_splits)
    then show ?thesis using x(1) b(2) Put by blast
  next
    case (Drop k')
    then show ?thesis using x(2) r get_untouched [OF b, of "del k' ?s"] by (simp add: get_del)
  qed (use x(2) in simp)
qed

end

lemma map_of_delete: "map_of (map_delete k m) = (map_of m)(k := None)"
  by (induction m) (auto simp: map_delete_def fun_eq_iff)

lemma get_context: "snd (getLastAnswerContext t k s) =
    (case map_of s k of None \<Rightarrow> None | Some (c, e) \<Rightarrow> if t > e then None else Some c)"
  by (auto simp: getLastAnswerContext_def split: option.split)

interpretation contexts: ttl_store setLastAnswerContext getLastAnswerContext clearOnNewConversation answer_ttl
proof
  show "snd (getLastAnswerContext t k' (setLastAnswerContext now k v s)) =
      (if k' = k then if t \<le> now + answer_ttl then Some v else None else snd (getLastAnswerContext t k' s))" for t k' now k v s
    by (simp add: get_context setLastAnswerContext_def)
  show "snd (getLastAnswerContext t k' (clearOnNewConversation k s)) = (if k' = k then None else snd (getLastAnswerContext t k' s))" for t k' k s
    by (simp add: get_context clearOnNewConversation_def map_of_delete)
  show "snd (getLastAnswerContext t' k' (fst (getLastAnswerContext t k s))) = snd (getLastAnswerContext t' k' s)"
    if "t \<le> t'" for t t' :: int and k k' s
    using that by (auto simp: get_context getLastAnswerContext_def map_of_delete split: option.split)
qed

text \<open>C19: whatever was stored, looked up and cleared before, a lookup gives a context exactly when this
  context was the last one stored under the key, the key was not cleared since, and at most 30 minutes
  have passed.\<close>

theorem context_is_the_last_one_stored:
  assumes "list_all (looks_by t) xs"
  shows "snd (getLastAnswerContext t k (run_ops setLastAnswerContext getLastAnswerContext clearOnNewConversation xs [])) = Some c \<longleftrightarrow>
    (\<exists>as now bs. xs = as @ Put now k c # bs \<and> list_all (\<lambda>x. \<not> touches k x) bs \<and> t \<le> now + 30 * 60 * 1000)"
  using contexts.get_iff [OF assms, of k "[]" c] by (simp add: get_context answer_ttl_def)

definition sample_context :: AnswerContext where
  "sample_context = \<lparr>ac_answerId = ''a'', ac_intent = Lookup, ac_tone = DEFINITIVE, ac_strategy = HYBRID_SEARCH,
     ac_citedROs = [], ac_createdAt = ''now''\<rparr>"

theorem context_witness:
  "snd (getLastAnswerContext 1800005 ''k'' (run_ops setLastAnswerContext getLastAnswerContext clearOnNewConversation
      [Put 5 ''k'' sample_context, Get 6 ''l'', Drop ''m''] [])) = Some sample_context"
proof -
  have h: "list_all (looks_by 1800005) [Put 5 ''k'' sample_context, Get 6 ''l'', Drop ''m'']" by simp
  show ?thesis
    unfolding context_is_the_last_one_stored [OF h] by (rule exI [of _ "[]"]) simp
qed

section \<open>Ranking\<close>

interpretation by_distance: comparator "\<lambda>a b. (d a :: rat) \<le> d b" for d :: "'a \<Rightarrow> rat"
  by unfold_locales auto

lemma sorted_take_drop: "sorted_wrt P xs \<Longrightarrow> x \<in> set (take n xs) \<Longrightarrow> y \<in> set (drop n xs) \<Longrightarrow> P x y"
  by (metis append_take_drop_id sorted_wrt_append)

lemma length_take_split: "length (take n xs) = min n (length (take n xs) + length (drop n xs))"
  by (metis append_take_drop_id length_append length_take min.commute)

text \<open>The distance of a stored embedding from the query.\<close>

definition query_distance :: "Catalog \<Rightarrow> jsnum list \<Rightarrow> row \<Rightarrow> rat" where
  "query_distance cg q r = cg_distance cg (text_of r ''embedding'') (vector_literal q)"

text \<open>C20: the vector search gives the nearest embeddings of the tenants in scope, or of the request's own tenant without a scope, nearest first: as many
  as asked for, at least one and at most 50, and none that was left out is nearer than one that was
  given.\<close>

theorem vector_search_gives_the_nearest:
  assumes "\<not> w_failed w" "scopedTenantIds ctx ids \<noteq> []"
  shows "\<exists>picked rest.
    vectorSearch cg ctx q k ids w =
      (w, Inr (map (\<lambda>r. \<lparr>vm_chunkId = text_of r ''chunk_id'', vm_score = 1 - query_distance cg q r\<rparr>) picked)) \<and>
    mset (picked @ rest) = mset (filter (in_tenant_ids (scopedTenantIds ctx ids)) (visible w ''app.embeddings'')) \<and>
    length picked = min (max 1 (min k 50)) (length picked + length rest) \<and>
    sorted_wrt (\<lambda>a b. query_distance cg q a \<le> query_distance cg q b) picked \<and>
    list_all (\<lambda>a. list_all (\<lambda>b. query_distance cg q a \<le> query_distance cg q b) rest) picked"
proof -
  let ?d = "query_distance cg q"
  let ?rows = "filter (in_tenant_ids (scopedTenantIds ctx ids)) (visible w ''app.embeddings'')"
  let ?s = "js_sort (\<lambda>a b. ?d a \<le> ?d b) ?rows" and ?n = "max 1 (min k 50)"
  have s: "sorted_wrt (\<lambda>a b. ?d a \<le> ?d b) ?s" by (rule by_distance.sorted_sort)
  have "mset (take ?n ?s @ drop ?n ?s) = mset ?rows" by (simp only: append_take_drop_id mset_js_sort)
  moreover have "vectorSearch cg ctx q k ids w =
      (w, Inr (map (\<lambda>r. \<lparr>vm_chunkId = text_of r ''chunk_id'', vm_score = 1 - ?d r\<rparr>) (take ?n ?s)))"
    using assms by (simp add: vectorSearch_def query_distance_def Let_def bind_def ret_def db_select_def guard_tx_def)
  moreover have "length (take ?n ?s) = min ?n (length (take ?n ?s) + length (drop ?n ?s))"
    by (rule length_take_split)
  moreover have "sorted_wrt (\<lambda>a b. ?d a \<le> ?d b) (take ?n ?s)" by (rule sorted_wrt_take [OF s])
  moreover have "list_all (\<lambda>a. list_all (\<lambda>b. ?d a \<le> ?d b) (drop ?n ?s)) (take ?n ?s)"
    unfolding list_all_iff using sorted_take_drop [OF s] by blast
  ultimately show ?thesis by blast
qed

definition sample_catalog :: Catalog where
  "sample_catalog = \<lparr>cg_customerIds = None, cg_distance = (\<lambda>a _. of_nat (length a)), cg_hmac = (\<lambda>_ x. x), cg_env = (\<lambda>_. None)\<rparr>"

definition embedding_world :: World where
  "embedding_world = sample_world\<lparr>w_gucs := [(''app.tenant_id'', ''t'')],
     w_tables := (\<lambda>_. [[(''tenant_id'', SText ''t''), (''chunk_id'', SText ''far''), (''embedding'', SText ''xxx'')],
                       [(''tenant_id'', SText ''t''), (''chunk_id'', SText ''near''), (''embedding'', SText ''x'')],
                       [(''tenant_id'', SText ''u''), (''chunk_id'', SText ''foreign''), (''embedding'', SText [])]])\<rparr>"

theorem vector_search_witness:
  "\<exists>ms. vectorSearch sample_catalog sample_ctx [] 1 (Some [''t'']) embedding_world = (embedding_world, Inr ms) \<and> length ms = 1"
proof -
  have h: "\<not> w_failed embedding_world" "scopedTenantIds sample_ctx (Some [''t'']) \<noteq> []"
    by (simp_all add: embedding_world_def sample_world_def scopedTenantIds_def)
  have n: "length (filter (in_tenant_ids (scopedTenantIds sample_ctx (Some [''t'']))) (visible embedding_world ''app.embeddings'')) = 2" by code_simp
  from vector_search_gives_the_nearest [OF h, of sample_catalog "[]" 1] obtain p r where
    v: "vectorSearch sample_catalog sample_ctx [] 1 (Some [''t'']) embedding_world =
      (embedding_world, Inr (map (\<lambda>r. \<lparr>vm_chunkId = text_of r ''chunk_id'', vm_score = 1 - query_distance sample_catalog [] r\<rparr>) p))"
    and m: "mset (p @ r) = mset (filter (in_tenant_ids (scopedTenantIds sample_ctx (Some [''t'']))) (visible embedding_world ''app.embeddings''))"
    and l: "length p = min (max 1 (min 1 50)) (length p + length r)" by blast
  have "length (p @ r) = 2" using m n by (metis size_mset)
  then have "length p = 1" using l by simp
  then show ?thesis using v by simp
qed

section \<open>What a request finds\<close>

text \<open>A session without a transaction and without a tenant; \<open>gives P m\<close>: from such a session \<open>m\<close> ends in one,
  with an error or with a value that satisfies \<open>P\<close>.\<close>

definition blind :: "World \<Rightarrow> bool" where
  "blind w \<longleftrightarrow> \<not> w_inTx w \<and> \<not> w_failed w \<and> map_of (w_gucs w) ''app.tenant_id'' = None"

definition gives :: "('a \<Rightarrow> bool) \<Rightarrow> 'a io \<Rightarrow> bool" where
  "gives P m \<longleftrightarrow> (\<forall>w. blind w \<longrightarrow> blind (fst (m w)) \<and> (case snd (m w) of Inl _ \<Rightarrow> True | Inr x \<Rightarrow> P x))"

lemma gives_bind: "gives P m \<Longrightarrow> (\<And>x. P x \<Longrightarrow> gives Q (f x)) \<Longrightarrow> gives Q (bind m f)"
  unfolding gives_def fst_bind snd_bind by (fastforce split: sum.splits)

lemma givesD: "gives P m \<Longrightarrow> blind w \<Longrightarrow> snd (m w) = Inr x \<Longrightarrow> P x"
  by (auto simp: gives_def split: sum.splits)

lemma gives_weaken: "gives P m \<Longrightarrow> (\<And>x. P x \<Longrightarrow> Q x) \<Longrightarrow> gives Q m"
  by (auto simp: gives_def split: sum.splits)

lemma gives_ret [intro]: "P x \<Longrightarrow> gives P (ret x)"
  by (simp add: gives_def ret_def)

lemma gives_if: "(c \<Longrightarrow> gives P a) \<Longrightarrow> (\<not> c \<Longrightarrow> gives P b) \<Longrightarrow> gives P (if c then a else b)"
  by simp

lemma gives_lift: "gives (\<lambda>_. True) (lift r)"
  by (simp add: gives_def lift_def split: sum.split)

lemma gives_throw: "gives P (io_throw a b c)"
  by (simp add: gives_def io_throw_def lift_def throw_def)

lemma gives_guard: "gives P m \<Longrightarrow> gives P (guard_tx m)"
  by (simp add: gives_def guard_tx_def blind_def)

lemma gives_fail: "gives P (fail_stmt e)"
  by (simp add: gives_def fail_stmt_def blind_def)

lemma gives_select: "gives (\<lambda>_. True) (db_select t p)"
  unfolding db_select_def by (rule gives_guard) (simp add: gives_def)

lemma gives_select_rls: "t \<in> set rls_tables \<Longrightarrow> gives (\<lambda>rows. rows = []) (db_select t p)"
  unfolding db_select_def
  by (rule gives_guard) (simp add: gives_def visible_def row_allowed_in allowed_in_def blind_def)

lemma gives_map: "(\<And>x. gives (\<lambda>_. True) (f x)) \<Longrightarrow> gives (\<lambda>_. True) (io_map f xs)"
  by (induction xs) (auto intro: gives_bind)

lemma gives_audit: "gives (\<lambda>_. True) (audit sv ctx e)"
  by (simp add: gives_def audit_def auditLog_def Let_def blind_def)

lemma gives_audits: "gives (\<lambda>_. True) (audit_intent sv ctx o' it)" "gives (\<lambda>_. True) (audit_strategy sv ctx o' it st fb)"
  "gives (\<lambda>_. True) (audit_direct sv ctx o' it fb n)"
  unfolding audit_intent_def audit_strategy_def audit_direct_def by (rule gives_audit)+

lemma request_cases:
  assumes "blind w"
  shows "withRequestContext ctx m w = m w \<or> (\<exists>e. withRequestContext ctx m w = (w, Inl e))"
proof -
  have w: "\<not> w_inTx w" "\<not> w_failed w" using assms by (simp_all add: blind_def)
  show ?thesis
  proof (cases "ensureContext ctx")
    case (Inl e)
    then show ?thesis by (simp add: withRequestContext_def bind_def)
  next
    case (Inr u)
    then show ?thesis using w
      by (simp add: withRequestContext_def bind_def setRls_no_tx withTenantContext_def Let_def io_throw_def throw_def lift_def
          set_config_no_tx)
  qed
qed

lemma gives_request: "gives P m \<Longrightarrow> gives P (withRequestContext ctx m)"
  unfolding gives_def using request_cases [of _ ctx m] by (metis fst_conv snd_conv sum.case(1))

lemma rls_names:
  "''app.repair_orders'' \<in> set rls_tables" "''app.chunks'' \<in> set rls_tables" "''app.embeddings'' \<in> set rls_tables"
  "''app.ro_deterministic_v2'' \<in> set rls_tables" "''app.ro_parts_lines'' \<in> set rls_tables" "''app.ro_labor_lines'' \<in> set rls_tables"
  by (simp_all add: rls_tables_def)

lemma gives_scope: "gives (\<lambda>_. True) (resolveTenantScope ctx)"
  unfolding resolveTenantScope_def fetchGroupTenants_def Let_def
  by (auto intro!: gives_bind gives_throw gives_select intro: gives_weaken)

lemmas gives_rls = rls_names [THEN gives_select_rls]

lemma gives_vector: "gives (\<lambda>ms. ms = []) (vectorSearch cg ctx e k ids)"
  unfolding vectorSearch_def Let_def
  by (auto intro!: gives_bind [OF gives_rls(3)] simp: js_sort_def)

lemma gives_fetch: "gives (\<lambda>(ms, chunks, ros). ms = []) (fetchMatches sv ctx e k)"
  unfolding fetchMatches_def
proof (rule gives_request, rule gives_bind [OF gives_scope], rule gives_bind [OF gives_vector])
  fix sc ms
  assume "ms = ([] :: VectorMatch list)"
  then show "gives (\<lambda>(ms, chunks, ros). ms = []) (bind (getChunksByIds (map vm_chunkId ms) (ts_tenantIds sc)) (\<lambda>chunks.
      bind (getRosByIds (uniq (texts ''ro_id'' chunks)) (ts_tenantIds sc)) (\<lambda>ros. ret (ms, chunks, ros))))"
    unfolding getChunksByIds_def getRosByIds_def
    by (intro gives_bind [where P = "\<lambda>_. True"]) (auto intro: gives_select)
qed

lemma gives_vector_matches:
  "st \<in> {HYBRID_SEARCH, BROAD_VECTOR_SEARCH} \<or> dflt = [] \<Longrightarrow> gives (\<lambda>ms. ms = []) (vector_matches sv ctx q k st dflt)"
  unfolding vector_matches_def embedQuery_def
  by (auto intro!: gives_bind [OF gives_lift] gives_bind [OF gives_fetch] simp: Let_def)

lemma gives_strict: "gives (\<lambda>s. sl_roNumbers s = []) (resolveStrictLookup cg ctx q)"
proof -
  have n: "gives (\<lambda>r. r = []) (by_number sc ns)" for sc ns
    by (auto simp: by_number_def intro: gives_rls)
  have d: "gives (\<lambda>r. r = []) (by_date ts)" for ts
    by (auto simp: by_date_def intro: gives_guard gives_fail)
  have p: "gives (\<lambda>r. r = []) (by_column ''app.ro_parts_lines'' c sc v)" "gives (\<lambda>r. r = []) (by_column ''app.ro_labor_lines'' c sc v)" for c sc v
    by (auto simp: by_column_def intro: gives_rls)
  have h: "gives (\<lambda>_. True) (by_hashes cg sc hs)" for sc hs
  proof -
    have "gives (\<lambda>_. True) (io_map (\<lambda>t. (case cg_customerIds cg of
             None \<Rightarrow> guard_tx (fail_stmt (UndefinedObject ''app.lookup_customer_ids''))
           | Some f \<Rightarrow> guard_tx (ret (filter (\<lambda>x. x \<noteq> []) (concat (map opt_list (f t hs))))))) (ts_tenantIds sc))"
      by (rule gives_map) (auto intro: gives_guard gives_fail split: option.split)
    then show ?thesis unfolding by_hashes_def by (auto intro: gives_bind)
  qed
  have r: "gives (\<lambda>r. r = []) (if b then ret [] else db_select ''app.repair_orders'' f)" for b f
    by (auto intro: gives_rls)
  show ?thesis
    unfolding resolveStrictLookup_def Let_def
    by (rule gives_bind [OF gives_scope], rule gives_bind [OF n], rule gives_bind [OF d], rule gives_bind [OF p(1)],
        rule gives_bind [OF p(2)], rule gives_bind [OF h], rule gives_bind [OF r])
      (rule gives_ret, simp add: texts_def)
qed

lemma gives_lookup: "gives (\<lambda>rows. rows = []) (fetchDeterministicLookup cg ctx q)"
  unfolding fetchDeterministicLookup_def by (rule gives_bind [OF gives_strict]) auto

lemma gives_cost: "gives (\<lambda>ms. ms = []) (fetchDeterministicCost ctx q k)"
  unfolding fetchDeterministicCost_def resolveCostLookup_def
  by (rule gives_bind [OF gives_scope], rule gives_bind [OF gives_rls(4)]) (rule gives_ret, simp add: js_sort_def)

lemma gives_count: "gives (\<lambda>n. n = 0) (fetchDeterministicCount ctx q)"
  unfolding fetchDeterministicCount_def
  by (rule gives_bind [OF gives_scope], rule gives_bind [OF gives_rls(1)]) (rule gives_ret, simp)

lemma gives_search_direct: "gives (\<lambda>ns. ns = []) (search_direct sv ctx i q k)"
  unfolding search_direct_def
  by (rule gives_request) (auto intro!: gives_bind [OF gives_lookup] gives_bind [OF gives_cost] gives_bind [OF gives_count])

lemma gives_search: "gives (\<lambda>r. r = SearchOk [] \<or> (\<exists>e. r = SearchError e)) (searchHandler sv ctx q k)"
proof -
  have d: "gives (\<lambda>(st, fb, ds). ds = [])
      (if c then bind (search_direct sv ctx i s n) (\<lambda>numbers.
          let (strategy, fb) = applyDirectLookupFallback st0 (length numbers)
          in bind (audit_direct sv ctx ot it fb (length numbers)) (\<lambda>_. ret (strategy, fb, map (\<lambda>n. bare_match (Some n)) numbers)))
       else ret (st0, False, []))" for c i s n st0 ot it
    by (auto intro!: gives_bind [OF gives_search_direct] gives_bind [OF gives_audits(3)] split: prod.split)
  show ?thesis
  proof (cases "route_guard ctx")
    case None
    show ?thesis
      unfolding searchHandler_def None option.case Let_def
      by (rule gives_if, rule gives_ret, simp, rule gives_bind [OF gives_audits(1)], rule gives_if,
          rule gives_bind [OF gives_audits(2)], rule gives_ret, simp, rule gives_bind [OF d [unfolded Let_def]], clarsimp,
          rule gives_bind [OF gives_vector_matches], simp, rule gives_bind [OF gives_audits(2)], rule gives_ret, simp)
  qed (simp add: searchHandler_def gives_ret)
qed

lemma gives_fetch_ro: "gives (\<lambda>r. r = None) (fetch_ro ctx i)"
  unfolding fetch_ro_def
  by (rule gives_request, rule gives_bind [OF gives_rls(1)], rule gives_bind [OF gives_select]) auto

text \<open>Whatever the tables hold, a search started on a pooled connection answers with an error or with no
  match, and a request for a repair order never answers with one: all their queries run outside of a
  transaction, where the tenant setting is gone before the query.\<close>

theorem requests_find_nothing:
  assumes "\<not> w_inTx w" "\<not> w_failed w" "map_of (w_gucs w) ''app.tenant_id'' = None"
  shows "snd (searchHandler sv ctx query k w) \<in> {Inr (SearchOk [])} \<union> range (\<lambda>e. Inr (SearchError e)) \<union> range Inl \<and>
    snd (roHandler sv ctx ro w) \<in> range (\<lambda>e. Inr (RoError e)) \<union> range Inl"
proof -
  have b: "blind w" using assms by (simp add: blind_def)
  have 1: "snd (searchHandler sv ctx query k w) \<in> {Inr (SearchOk [])} \<union> range (\<lambda>e. Inr (SearchError e)) \<union> range Inl"
    using givesD [OF gives_search b, of sv ctx query k] by (cases "snd (searchHandler sv ctx query k w)") auto
  have "fetch_ro ctx i w = (v, Inr x) \<Longrightarrow> x = None" for i v x
    using givesD [OF gives_fetch_ro b, of ctx i] by simp
  then have "snd (roHandler sv ctx ro w) \<in> range (\<lambda>e. Inr (RoError e)) \<union> range Inl"
    by (auto simp: roHandler_def ret_def split: option.split sum.split prod.split)
  with 1 show ?thesis by blast
qed

definition sample_services :: Services where
  "sample_services = \<lparr>sv_catalog = sample_catalog, sv_intentLlm = False, sv_json = (\<lambda>_. None), sv_intentChat = (\<lambda>_. ChatThrows),
     sv_llmEnabled = False, sv_chat = (\<lambda>_ _. ChatThrows), sv_embed = (\<lambda>_ _. NetworkError), sv_uuid = (\<lambda>_. ''id''),
     sv_accepts = (\<lambda>_. True)\<rparr>"

theorem find_nothing_witness:
  "snd (roHandler sample_services sample_ctx (Some ''00000000-0000-0000-0000-000000000001'') sample_world) \<in>
     range (\<lambda>e. Inr (RoError e)) \<union> range Inl"
  by (rule requests_find_nothing [where k = None and query = None, THEN conjunct2]) (simp_all add: sample_world_def)

end
