(* ===== verification/Gateway.thy ===== *)
theory Gateway
  imports Pipeline Retrieval
begin

text \<open>
  The gateway's environment (config/env.ts), tokens (core/auth/tokens.ts, core/auth/ingestAad.ts) and
  middleware (http/middleware, db/rls.ts) in the order http/server.ts mounts them.

  A middleware takes a request and the gateway's state and goes on with a request, ends it with a reply, or
  passes an error on. Arguments are: what \<open>jsonwebtoken\<close> and \<open>createPublicKey\<close> say of a token or key, the
  replies of the key endpoint, the clock (read once per request) and the UUIDs. A token's role claim is one
  of the four roles, since \<open>issueToken\<close> writes no other. The JSON replies leave out the request id.
\<close>

section \<open>env.ts\<close>

record EnvConfig =
  ec_databaseUrl :: string
  ec_port :: rat
  ec_rateLimitWindowSec :: rat
  ec_rateLimitMax :: rat
  ec_maxUploadBytes :: rat
  ec_ingestAadAudience :: string
  ec_ingestAllowedCallerObjectIds :: "string list"
  ec_azureSubscriptionId :: string
  ec_azureResourceGroup :: string
  ec_azureStorageAccountName :: string
  ec_azureStorageContainerName :: string
  ec_azureArmApiVersion :: string
  ec_publicSftpHostname :: string
  ec_azureOpenAiEndpoint :: string
  ec_azureOpenAiApiKey :: string
  ec_azureOpenAiEmbeddingDeployment :: string
  ec_azureOpenAiApiVersion :: string
  ec_azureOpenAiChatEndpoint :: "string option"
  ec_azureOpenAiChatDeployment :: "string option"
  ec_azureOpenAiChatApiVersion :: "string option"
  ec_azureOpenAiChatApiKey :: "string option"
  ec_ragLlmEnabled :: bool
  ec_ragLlmMaxTokens :: rat
  ec_ragLlmTemperature :: rat
  ec_jwtSecret :: string
  ec_jwtExpiresIn :: string
  ec_devAuthBypass :: bool
  ec_devAuthTokenAdmin :: string
  ec_devUserIdAdmin :: string
  ec_devTenantIdAdmin :: string

definition required :: "string option \<Rightarrow> string \<Rightarrow> string res" where
  "required v name =
     (if truthy v then ok (the v) else throw (''Missing required env: '' @ name) 500 ''ENV_MISSING'')"

definition asInt :: "string option \<Rightarrow> string \<Rightarrow> rat \<Rightarrow> rat res" where
  "asInt v name fallback =
     (if \<not> truthy v then ok fallback
      else (case js_Number (the v) of
          Fin q \<Rightarrow> if q \<le> 0 then throw (''Invalid env number: '' @ name) 500 ''ENV_INVALID'' else ok q
        | _ \<Rightarrow> throw (''Invalid env number: '' @ name) 500 ''ENV_INVALID''))"

definition asCsvUuids :: "string option \<Rightarrow> string \<Rightarrow> string list res" where
  "asCsvUuids v name =
     res_bind (required v name) (\<lambda>raw.
       let items = filter (\<lambda>x. x \<noteq> []) (map js_trim (js_split raw '',''))
       in if items = [] then throw (''Invalid env list: '' @ name) 500 ''ENV_INVALID''
          else if list_ex (\<lambda>x. \<not> isUuid x) items then throw (''Invalid env UUID: '' @ name) 500 ''ENV_INVALID_UUID''
          else ok items)"

definition flag :: "string option \<Rightarrow> bool" where
  "flag v = (case v of None \<Rightarrow> False | Some x \<Rightarrow> toLowerCase x = ''true'')"

definition or_else :: "string option \<Rightarrow> string \<Rightarrow> string" where
  "or_else v d = (case v of None \<Rightarrow> d | Some x \<Rightarrow> x)"

definition temperature :: "string option \<Rightarrow> rat" where
  "temperature v =
     (case v of None \<Rightarrow> lit (2 / 10) | Some s \<Rightarrow> (case js_Number s of Fin q \<Rightarrow> q | _ \<Rightarrow> lit (2 / 10)))"

definition loadEnv :: "(string \<Rightarrow> string option) \<Rightarrow> EnvConfig res" where
  "loadEnv env =
     (let req = (\<lambda>n. required (env n) n); num = (\<lambda>n d. asInt (env n) n d)
      in res_bind (req ''DATABASE_URL'') (\<lambda>databaseUrl.
         res_bind (num ''PORT'' 3000) (\<lambda>port.
         res_bind (num ''RATE_LIMIT_WINDOW_SEC'' 60) (\<lambda>window.
         res_bind (num ''RATE_LIMIT_MAX'' 100) (\<lambda>maxReq.
         res_bind (num ''MAX_UPLOAD_BYTES'' (5 * 1024 * 1024)) (\<lambda>maxUpload.
         res_bind (req ''INGEST_AAD_AUDIENCE'') (\<lambda>audience.
         res_bind (asCsvUuids (env ''INGEST_ALLOWED_CALLER_OBJECT_IDS'') ''INGEST_ALLOWED_CALLER_OBJECT_IDS'') (\<lambda>callers.
         res_bind (req ''AZURE_SUBSCRIPTION_ID'') (\<lambda>subscription.
         res_bind (req ''AZURE_RESOURCE_GROUP'') (\<lambda>group.
         res_bind (req ''AZURE_STORAGE_ACCOUNT_NAME'') (\<lambda>account.
         res_bind (req ''AZURE_OPENAI_ENDPOINT'') (\<lambda>aiEndpoint.
         res_bind (req ''AZURE_OPENAI_API_KEY'') (\<lambda>aiKey.
         res_bind (req ''AZURE_OPENAI_EMBEDDING_DEPLOYMENT'') (\<lambda>aiEmbedding.
         res_bind (req ''AZURE_OPENAI_API_VERSION'') (\<lambda>aiVersion.
         res_bind (num ''RAG_LLM_MAX_TOKENS'' 350) (\<lambda>maxTokens.
         res_bind (req ''JWT_SECRET'') (\<lambda>jwtSecret.
         res_bind (req ''JWT_EXPIRES_IN'') (\<lambda>jwtExpires.
         res_bind (req ''DEV_AUTH_TOKEN_ADMIN'') (\<lambda>devToken.
         res_bind (req ''DEV_USER_ID_ADMIN'') (\<lambda>devUser.
         res_bind (req ''DEV_TENANT_ID_ADMIN'') (\<lambda>devTenant.
           if \<not> (isUuid devUser \<and> isUuid devTenant) then throw ''DEV IDs must be UUIDs'' 500 ''ENV_INVALID_UUID''
           else ok
             \<lparr>ec_databaseUrl = databaseUrl, ec_port = port, ec_rateLimitWindowSec = window, ec_rateLimitMax = maxReq,
              ec_maxUploadBytes = maxUpload, ec_ingestAadAudience = audience,
              ec_ingestAllowedCallerObjectIds = map toLowerCase callers,
              ec_azureSubscriptionId = subscription, ec_azureResourceGroup = group, ec_azureStorageAccountName = account,
              ec_azureStorageContainerName = or_else (env ''AZURE_STORAGE_CONTAINER_NAME'') ''ro-ingest-raw'',
              ec_azureArmApiVersion = or_else (env ''AZURE_ARM_API_VERSION'') ''2023-01-01'',
              ec_publicSftpHostname = or_else (env ''PUBLIC_SFTP_HOSTNAME'') (account @ ''.blob.core.windows.net''),
              ec_azureOpenAiEndpoint = aiEndpoint, ec_azureOpenAiApiKey = aiKey,
              ec_azureOpenAiEmbeddingDeployment = aiEmbedding, ec_azureOpenAiApiVersion = aiVersion,
              ec_azureOpenAiChatEndpoint = env ''AZURE_OPENAI_CHAT_ENDPOINT'',
              ec_azureOpenAiChatDeployment = env ''AZURE_OPENAI_CHAT_DEPLOYMENT'',
              ec_azureOpenAiChatApiVersion = env ''AZURE_OPENAI_CHAT_API_VERSION'',
              ec_azureOpenAiChatApiKey = env ''AZURE_OPENAI_CHAT_API_KEY'',
              ec_ragLlmEnabled = flag (env ''RAG_LLM_ENABLED''), ec_ragLlmMaxTokens = maxTokens,
              ec_ragLlmTemperature = temperature (env ''RAG_LLM_TEMPERATURE''),
              ec_jwtSecret = jwtSecret, ec_jwtExpiresIn = jwtExpires, ec_devAuthBypass = flag (env ''DEV_AUTH_BYPASS''),
              ec_devAuthTokenAdmin = devToken, ec_devUserIdAdmin = devUser, ec_devTenantIdAdmin = devTenant\<rparr>)))))))))))))))))))))"

section \<open>Requests, replies and state\<close>

record Request =
  rq_method :: string
  rq_path :: string
  rq_header :: "string \<Rightarrow> string option"   \<comment> \<open>by lower-case name\<close>
  rq_ip :: "string option"
  rq_bodyTenant :: "string option"           \<comment> \<open>\<open>body.tenant_id\<close>, if a string\<close>
  rq_context :: RequestContext

datatype Reply = Json Response | Redirect string

datatype Step = Next Request | Done Reply | Fail err

record JwksKey =
  jk_kid :: string
  jk_kty :: string
  jk_n :: string
  jk_e :: string

record Gate =
  g_world :: World
  g_buckets :: "(string, nat \<times> int) jsmap"
  g_jwks :: "(string, string) jsmap option"
  g_jwksExpires :: int
  g_fetches :: nat

text \<open>What \<open>jwt.verify\<close> finds in a token of the gateway, and in one of the ingest callers.\<close>

record UserClaims =
  uc_user :: "string option"
  uc_role :: "Role option"
  uc_tenant :: "string option"

datatype Audience = AudOne string | AudMany "string list"

record AadClaims =
  ac_oid :: "string option"
  ac_tid :: "string option"
  ac_iss :: "string option"
  ac_aud :: "Audience option"

record Gw =
  gw_env :: EnvConfig
  gw_nodeEnv :: "string option"
  gw_uuid :: "nat \<Rightarrow> string"
  gw_accepts :: "AuditRow \<Rightarrow> bool"
  gw_jwt :: "string \<Rightarrow> UserClaims option"
  gw_kid :: "string \<Rightarrow> string option"
  gw_rs256 :: "string \<Rightarrow> string \<Rightarrow> string \<Rightarrow> AadClaims option"   \<comment> \<open>token, key, audience\<close>
  gw_createKey :: "JwksKey \<Rightarrow> string option"
  gw_jwks :: "nat \<Rightarrow> JwksKey list res"                         \<comment> \<open>the n-th fetch\<close>

type_synonym middleware = "Gw \<Rightarrow> int \<Rightarrow> Request \<Rightarrow> Gate \<Rightarrow> Gate \<times> Step"

definition audited :: "Gw \<Rightarrow> RequestContext \<Rightarrow> AuditEvent \<Rightarrow> Gate \<Rightarrow> Gate" where
  "audited gw ctx ev g = g\<lparr>g_world := fst (auditLog (gw_uuid gw) (gw_accepts gw) ctx ev (g_world g))\<rparr>"

definition reply :: "nat \<Rightarrow> string \<Rightarrow> string \<Rightarrow> Step" where
  "reply st c msg = Done (Json (err_response st (Some c) msg))"

definition production :: "Gw \<Rightarrow> bool" where "production gw \<longleftrightarrow> gw_nodeEnv gw = Some ''production''"

section \<open>requestId.ts\<close>

definition requestId :: middleware where
  "requestId gw now req g =
     (let old = rq_context req;
          (w, rid) = (case cx_requestId old of
              Some r \<Rightarrow> (g_world g, r)
            | None \<Rightarrow> (case rq_header req ''x-request-id'' of
                Some r \<Rightarrow> (g_world g, r)
              | None \<Rightarrow> ((g_world g)\<lparr>w_drawn := w_drawn (g_world g) + 1\<rparr>, gw_uuid gw (w_drawn (g_world g)))))
      in (g\<lparr>g_world := w\<rparr>,
          Next (req\<lparr>rq_context := old\<lparr>cx_requestId := Some rid, cx_ip := rq_ip req,
            cx_userAgent := (case rq_header req ''user-agent'' of Some u \<Rightarrow> Some u | None \<Rightarrow> cx_userAgent old)\<rparr>\<rparr>)))"

section \<open>tokens.ts\<close>

record VerifiedToken =
  vt_userId :: string
  vt_tenantId :: "string option"
  vt_role :: Role

text \<open>The payload \<open>issueToken\<close> signs.\<close>

definition issue_payload :: "VerifiedToken \<Rightarrow> UserClaims" where
  "issue_payload c =
     \<lparr>uc_user = Some (vt_userId c), uc_role = Some (vt_role c),
      uc_tenant = (if truthy (vt_tenantId c) then vt_tenantId c else None)\<rparr>"

definition verifyToken :: "(string \<Rightarrow> UserClaims option) \<Rightarrow> string \<Rightarrow> VerifiedToken res" where
  "verifyToken jwt token =
     (let bad = throw ''Invalid or unsupported token'' 401 ''AUTH_INVALID''
      in case jwt token of
           None \<Rightarrow> bad
         | Some c \<Rightarrow>
             (case uc_role c of
                None \<Rightarrow> bad
              | Some role \<Rightarrow>
                  if \<not> truthy (uc_user c) then bad
                  else if \<not> truthy (uc_tenant c) \<and> role \<noteq> DEVELOPER then bad
                  else ok \<lparr>vt_userId = the (uc_user c), vt_tenantId = uc_tenant c, vt_role = role\<rparr>))"

section \<open>authContext.ts\<close>

definition bearer_token :: "string option \<Rightarrow> string option" where
  "bearer_token h =
     (if truthy h \<and> startsWith (toLowerCase (the h)) ''bearer '' then Some (js_trim (drop 7 (the h))) else None)"

definition cookie_token :: "string option \<Rightarrow> string option" where
  "cookie_token h =
     (if truthy h then
        (case find (\<lambda>p. startsWith p ''auth_token='') (map js_trim (js_split (the h) '';'')) of
           None \<Rightarrow> None
         | Some p \<Rightarrow> (case js_split p ''='' of _ # v # _ \<Rightarrow> Some v | _ \<Rightarrow> None))
      else None)"

definition request_token :: "Request \<Rightarrow> string option" where
  "request_token req =
     (case bearer_token (rq_header req ''authorization'') of
        Some t \<Rightarrow> Some t | None \<Rightarrow> cookie_token (rq_header req ''cookie''))"

definition wants_login :: "Request \<Rightarrow> bool" where
  "wants_login req \<longleftrightarrow> rq_method req = ''GET'' \<and> (startsWith (rq_path req) ''/admin'' \<or> startsWith (rq_path req) ''/app'')"

definition login_redirect :: "Request \<Rightarrow> Step" where
  "login_redirect req =
     Done (Redirect (''/login?redirect='' @ (if startsWith (rq_path req) ''/admin'' then ''%2Fadmin'' else ''%2Fapp'')))"

definition auth_deny :: "string \<Rightarrow> AuditEvent" where
  "auth_deny reason = event ''AUTH_DENY'' ''auth'' None [(''reason'', VStr reason)]"

definition impersonates :: "Request \<Rightarrow> bool" where
  "impersonates req \<longleftrightarrow>
     list_ex (\<lambda>h. truthy (rq_header req h)) [''x-tenant-id'', ''x-scope-tenant-id'', ''x-scope-group-id'']"

definition authContext :: middleware where
  "authContext gw now req g =
     (let ctx = rq_context req; env = gw_env gw
      in if rq_path req = ''/health'' then (g, Next req)
         else if production gw \<and> impersonates req
         then (g, reply 400 ''TENANT_SCOPE_FORBIDDEN'' ''Header-based tenant scoping is not allowed'')
         else
           let token = request_token req
           in if \<not> truthy token then
                (if wants_login req then (g, login_redirect req)
                 else if ec_devAuthBypass env \<and> gw_nodeEnv gw = Some ''development'' then
                   (g, Next (req\<lparr>rq_context := ctx\<lparr>
                      cx_requestId := Some (or_else (cx_requestId ctx) ''dev-request''), cx_userId := Some (ec_devUserIdAdmin env),
                      cx_tenantId := Some (ec_devTenantIdAdmin env), cx_role := Some ADMIN\<rparr>\<rparr>))
                 else (audited gw ctx (auth_deny ''missing_token'') g, reply 401 ''AUTH_REQUIRED'' ''Missing auth token''))
              else
                (case verifyToken (gw_jwt gw) (the token) of
                   Inl e \<Rightarrow>
                     if wants_login req then (g, login_redirect req)
                     else (audited gw ctx (auth_deny ''invalid_token'') g,
                           Done (Json (app_response (as_app e ''Invalid auth token'' 401) 401)))
                 | Inr v \<Rightarrow>
                     if \<not> truthy (cx_requestId ctx) then (g, reply 400 ''REQUEST_ID_MISSING'' ''Missing request id'')
                     else (g, Next (req\<lparr>rq_context := ctx\<lparr>cx_userId := Some (vt_userId v), cx_tenantId := vt_tenantId v,
                                                            cx_role := Some (vt_role v)\<rparr>\<rparr>))))"

section \<open>tenantGuard.ts\<close>

definition tenant_deny :: "string \<Rightarrow> AuditEvent" where
  "tenant_deny reason = event ''TENANT_DENY'' ''tenant'' None [(''reason'', VStr reason)]"

definition tenantGuard :: middleware where
  "tenantGuard gw now req g =
     (let ctx = rq_context req
      in if rq_path req = ''/health'' then (g, Next req)
         else if cx_role ctx = Some DEVELOPER then (g, Next req)
         else if \<not> truthy (cx_tenantId ctx)
         then (audited gw ctx (tenant_deny ''missing_tenant'') g, reply 403 ''TENANT_REQUIRED'' ''Tenant context missing'')
         else
           (case withRequestContext ctx (db_select ''app.tenants'' (\<lambda>r. col r ''tenant_id'' = sql_text (cx_tenantId ctx))) (g_world g) of
              (w, Inl e) \<Rightarrow> (g\<lparr>g_world := w\<rparr>, Fail e)
            | (w, Inr rows) \<Rightarrow>
                if rows = [] \<or> col (hd rows) ''is_active'' = SBool False
                then (audited gw ctx (tenant_deny ''tenant_inactive'') (g\<lparr>g_world := w\<rparr>), reply 403 ''TENANT_INACTIVE'' ''Tenant inactive'')
                else (g\<lparr>g_world := w\<rparr>, Next req)))"

section \<open>rbacGuard.ts\<close>

abbreviation staff :: "Role list" where "staff \<equiv> [ADMIN, DEALERADMIN, DEVELOPER]"

definition rules :: "((string \<Rightarrow> string \<Rightarrow> bool) \<times> Role list) list" where
  "rules =
     [(\<lambda>m p. m = ''GET'' \<and> startsWith p ''/admin'', staff),
      (\<lambda>m p. m = ''GET'' \<and> p = ''/audit'', staff),
      (\<lambda>m p. startsWith p ''/admin/api'', staff),
      (\<lambda>m p. m = ''POST'' \<and> p = ''/workloads/ro/ingest-from-storage'', staff),
      (\<lambda>m p. m = ''POST'' \<and> p = ''/workloads/ro/search'', USER # staff),
      (\<lambda>m p. m = ''POST'' \<and> p = ''/workloads/ro/answer'', USER # staff),
      (\<lambda>m p. m = ''GET'' \<and> startsWith p ''/workloads/ro/ro/'', USER # staff),
      (\<lambda>m p. True, USER # staff)]"

definition isAllowed :: "string \<Rightarrow> string \<Rightarrow> Role \<Rightarrow> bool" where
  "isAllowed m p role =
     (case find (\<lambda>(match, _). match m p) rules of None \<Rightarrow> False | Some (_, roles) \<Rightarrow> role \<in> set roles)"

definition rbacGuard :: middleware where
  "rbacGuard gw now req g =
     (let ctx = rq_context req
      in if rq_path req = ''/health'' then (g, Next req)
         else (case cx_role ctx of
             None \<Rightarrow>
               (audited gw ctx (event ''RBAC_DENY'' ''rbac'' None [(''reason'', VStr ''missing_role'')]) g,
                reply 403 ''ROLE_REQUIRED'' ''Role required'')
           | Some role \<Rightarrow>
               if isAllowed (rq_method req) (rq_path req) role then (g, Next req)
               else if rq_method req = ''GET'' \<and> startsWith (rq_path req) ''/admin''
               then (g, Done (Redirect ''/login?redirect=/admin''))
               else (audited gw ctx (event ''RBAC_DENY'' ''rbac'' None
                       [(''reason'', VStr ''forbidden''), (''method'', VStr (rq_method req)), (''path'', VStr (rq_path req))]) g,
                     reply 403 ''ROLE_FORBIDDEN'' ''Insufficient role'')))"

section \<open>policyMiddleware.ts and rls.ts\<close>

datatype PolicyAction = PII_READ | PII_WRITE | BULK_DOWNLOAD | DEFAULT

definition actionForPath :: "string \<Rightarrow> string \<Rightarrow> PolicyAction" where
  "actionForPath m p =
     (if js_includes p ''/pii/'' \<and> m = ''GET'' then PII_READ
      else if js_includes p ''/pii/'' \<and> m \<in> {''POST'', ''PUT'', ''PATCH'', ''DELETE''} then PII_WRITE
      else if js_includes p ''/documents/'' \<and> js_includes p ''/download'' then BULK_DOWNLOAD
      else DEFAULT)"

text \<open>The reason of a refusal, if it is refused.\<close>

definition evaluatePolicy :: "RequestContext \<Rightarrow> PolicyAction \<Rightarrow> string option res" where
  "evaluatePolicy ctx action =
     (if \<not> truthy (cx_tenantId ctx) then throw ''Tenant missing in policy context'' 403 ''TENANT_POLICY_DENY''
      else if action = PII_READ then ok (Some ''pii_read_disabled'')
      else if action = PII_WRITE \<and> cx_role ctx \<notin> Some ` set staff then ok (Some ''pii_role_denied'')
      else if action = BULK_DOWNLOAD \<and> cx_role ctx \<notin> Some ` set staff then ok (Some ''bulk_admin_only'')
      else ok None)"

definition policyMiddleware :: middleware where
  "policyMiddleware gw now req g =
     (let ctx = rq_context req
      in if rq_path req = ''/health'' then (g, Next req)
         else if \<not> truthy (cx_tenantId ctx) then (g, reply 403 ''TENANT_POLICY_DENY'' ''Tenant missing for policy'')
         else (case evaluatePolicy ctx (actionForPath (rq_method req) (rq_path req)) of
             Inl e \<Rightarrow> (g, Fail e)
           | Inr None \<Rightarrow> (g, Next req)
           | Inr (Some reason) \<Rightarrow>
               (audited gw ctx (event ''POLICY_DENY'' ''policy'' None
                  [(''reason'', VStr reason), (''path'', VStr (rq_path req)), (''method'', VStr (rq_method req))]) g,
                reply 403 ''POLICY_DENY'' ''Policy denied'')))"

definition rlsContext :: middleware where
  "rlsContext gw now req g =
     (let ctx = rq_context req
      in if rq_path req = ''/health'' then (g, Next req)
         else if \<not> truthy (cx_userId ctx) \<or> cx_role ctx = None \<or> \<not> truthy (cx_requestId ctx)
         then (g, reply 400 ''RLS_CONTEXT_MISSING'' ''RLS context incomplete'')
         else if \<not> truthy (cx_tenantId ctx) \<and> cx_role ctx \<noteq> Some DEVELOPER
         then (g, reply 400 ''RLS_CONTEXT_MISSING'' ''RLS context incomplete'')
         else (g, Next req))"

section \<open>rateLimit.ts\<close>

text \<open>One request against its bucket (count and start of the window): the new bucket and whether it is let
  through.\<close>

definition count_request :: "rat \<Rightarrow> rat \<Rightarrow> int \<Rightarrow> (nat \<times> int) option \<Rightarrow> (nat \<times> int) \<times> bool" where
  "count_request window maxRequests now bucket =
     (case bucket of
        None \<Rightarrow> ((1, now), True)
      | Some (n, start) \<Rightarrow>
          if of_int (now - start) \<ge> window then ((1, now), True)
          else if of_nat n < maxRequests then ((n + 1, start), True)
          else ((n, start), False))"

definition rate_key :: "RequestContext \<Rightarrow> string" where
  "rate_key ctx =
     (if truthy (cx_tenantId ctx) then the (cx_tenantId ctx) @ '':'' @ str_or_empty (cx_userId ctx)
      else ''dev:'' @ str_or_empty (cx_userId ctx))"

definition rateLimit :: middleware where
  "rateLimit gw now req g =
     (let ctx = rq_context req
      in if rq_path req = ''/health'' then (g, Next req)
         else if \<not> truthy (cx_userId ctx) \<or> \<not> truthy (cx_requestId ctx)
         then (g, reply 400 ''CTX_MISSING'' ''Missing context for rate limit'')
         else if \<not> truthy (cx_tenantId ctx) \<and> cx_role ctx \<noteq> Some DEVELOPER
         then (g, reply 400 ''CTX_MISSING'' ''Missing context for rate limit'')
         else
           let key = rate_key ctx;
               (bucket, admitted) = count_request (ec_rateLimitWindowSec (gw_env gw)) (ec_rateLimitMax (gw_env gw)) (now div 1000)
                 (map_of (g_buckets g) key);
               g' = g\<lparr>g_buckets := map_set key bucket (g_buckets g)\<rparr>
           in if admitted then (g', Next req)
              else (audited gw ctx \<lparr>ev_action = ''RATE_LIMIT'', ev_objectType = ''request'', ev_objectId = Some key, ev_metadata = None\<rparr> g',
                    reply 429 ''RATE_LIMITED'' ''Too many requests''))"

section \<open>ingestAad.ts and ingestAadAuth.ts\<close>

definition JWKS_TTL_MS :: int where "JWKS_TTL_MS = 10 * 60 * 1000"

definition buildKeyCache :: "(JwksKey \<Rightarrow> string option) \<Rightarrow> JwksKey list \<Rightarrow> (string, string) jsmap" where
  "buildKeyCache create keys =
     fold (\<lambda>k m.
       if jk_kid k = [] \<or> jk_kty k = [] \<or> jk_n k = [] \<or> jk_e k = [] then m
       else (case create k of None \<Rightarrow> m | Some pk \<Rightarrow> map_set (jk_kid k) pk m)) keys []"

definition refresh_keys :: "Gw \<Rightarrow> int \<Rightarrow> Gate \<Rightarrow> Gate \<times> unit res" where
  "refresh_keys gw now g =
     (let g1 = g\<lparr>g_fetches := g_fetches g + 1\<rparr>
      in case gw_jwks gw (g_fetches g) of
           Inl e \<Rightarrow> (g1, Inl e)
         | Inr keys \<Rightarrow>
             (g1\<lparr>g_jwks := Some (buildKeyCache (gw_createKey gw) keys), g_jwksExpires := now + JWKS_TTL_MS\<rparr>, ok ()))"

definition cached_key :: "Gate \<Rightarrow> string \<Rightarrow> string option" where
  "cached_key g kid = (case g_jwks g of None \<Rightarrow> None | Some m \<Rightarrow> map_of m kid)"

definition getKeyForKid :: "Gw \<Rightarrow> int \<Rightarrow> string \<Rightarrow> Gate \<Rightarrow> Gate \<times> string res" where
  "getKeyForKid gw now kid g =
     (case (if g_jwks g = None \<or> now \<ge> g_jwksExpires g then refresh_keys gw now g else (g, ok ())) of
        (g1, Inl e) \<Rightarrow> (g1, Inl e)
      | (g1, Inr _) \<Rightarrow>
          (case cached_key g1 kid of
             Some k \<Rightarrow> (g1, ok k)
           | None \<Rightarrow>
               (case refresh_keys gw now g1 of
                  (g2, Inl e) \<Rightarrow> (g2, Inl e)
                | (g2, Inr _) \<Rightarrow>
                    (case cached_key g2 kid of
                       Some k \<Rightarrow> (g2, ok k)
                     | None \<Rightarrow> (g2, throw ''Unknown signing key'' 401 ''AAD_JWKS_KID_MISSING'')))))"

record IngestAadClaims =
  ia_oid :: string
  ia_tid :: string
  ia_aud :: Audience
  ia_iss :: string

definition check_claims :: "AadClaims \<Rightarrow> IngestAadClaims res" where
  "check_claims c =
     (let oid = str_or_empty (ac_oid c); tid = str_or_empty (ac_tid c); iss = str_or_empty (ac_iss c)
      in if oid = [] \<or> tid = [] \<or> iss = [] \<or> ac_aud c \<in> {None, Some (AudOne [])}
         then throw ''Token missing required claims'' 401 ''AAD_TOKEN_INVALID''
         else if iss \<noteq> ''https://login.microsoftonline.com/'' @ tid @ ''/v2.0'' \<and> iss \<noteq> ''https://sts.windows.net/'' @ tid @ ''/''
         then throw ''Token issuer invalid'' 401 ''AAD_ISSUER_INVALID''
         else ok \<lparr>ia_oid = oid, ia_tid = tid, ia_aud = the (ac_aud c), ia_iss = iss\<rparr>)"

definition verifyIngestAadToken :: "Gw \<Rightarrow> int \<Rightarrow> string \<Rightarrow> string \<Rightarrow> Gate \<Rightarrow> Gate \<times> IngestAadClaims res" where
  "verifyIngestAadToken gw now token audience g =
     (if \<not> truthy (gw_kid gw token) then (g, throw ''Token header missing kid'' 401 ''AAD_TOKEN_INVALID'')
      else (case getKeyForKid gw now (the (gw_kid gw token)) g of
          (g1, Inl e) \<Rightarrow> (g1, Inl e)
        | (g1, Inr key) \<Rightarrow>
            (case gw_rs256 gw token key audience of
               None \<Rightarrow> (g1, throw ''Token verification failed'' 401 ''AAD_TOKEN_INVALID'')
             | Some c \<Rightarrow> (g1, check_claims c))))"

definition parseBearerToken :: "string option \<Rightarrow> string option" where
  "parseBearerToken header =
     (if \<not> truthy header then None
      else let t = js_trim (the header)
           in if startsWith (toLowerCase t) ''bearer '' then Some (js_trim (drop 7 t)) else None)"

definition audience_text :: "Audience \<Rightarrow> string" where
  "audience_text a = (case a of AudOne x \<Rightarrow> x | AudMany xs \<Rightarrow> js_join '','' xs)"

definition caller_metadata :: "IngestAadClaims \<Rightarrow> (string \<times> jsv) list" where
  "caller_metadata c =
     [(''caller_oid'', VStr (ia_oid c)), (''caller_tid'', VStr (ia_tid c)), (''audience'', VStr (audience_text (ia_aud c)))]"

definition ingestAadAuth :: middleware where
  "ingestAadAuth gw now req g =
     (let token = parseBearerToken (rq_header req ''authorization''); env = gw_env gw
      in if \<not> truthy token then (g, reply 401 ''INGEST_AUTH_REQUIRED'' ''Missing auth token'')
         else (case verifyIngestAadToken gw now (the token) (ec_ingestAadAudience env) g of
             (g1, Inl e) \<Rightarrow>
               let a = as_app e ''Invalid auth token'' 401
               in (g1, Done (Json (err_response (case ae_status a of Some s \<Rightarrow> s | None \<Rightarrow> 401)
                                   (Some (or_else (ae_code a) ''INGEST_AUTH_INVALID'')) (ae_message a))))
           | (g1, Inr c) \<Rightarrow>
               if \<not> truthy (rq_bodyTenant req)
               then (g1, reply 400 ''BAD_REQUEST'' ''tenant_id and storage_uri are required'')
               else
                 let ctx = (rq_context req)\<lparr>cx_requestId := Some (or_else (cx_requestId (rq_context req)) ''ingest-request''),
                       cx_userId := Some (ia_oid c), cx_tenantId := rq_bodyTenant req, cx_role := Some ADMIN\<rparr>
                 in if toLowerCase (ia_oid c) \<notin> set (ec_ingestAllowedCallerObjectIds env)
                    then (audited gw ctx (event ''INGEST_AUTH_DENY'' ''ingest'' None
                            ((''reason'', VStr ''caller_not_allowlisted'') # caller_metadata c)) g1,
                          reply 403 ''INGEST_CALLER_FORBIDDEN'' ''Caller not allowlisted'')
                    else (audited gw ctx (event ''INGEST_AUTH_ALLOW'' ''ingest'' None (caller_metadata c)) g1,
                          Next (req\<lparr>rq_context := ctx\<rparr>))))"

section \<open>errorHandler.ts\<close>

text \<open>What reaches the error handler: an error of the application, or one of the body parser with its
  status and type.\<close>

datatype Failure = Thrown err | BodyError "nat option" "nat option" "string option" string

definition failure_status :: "Failure \<Rightarrow> nat" where
  "failure_status f =
     (case f of
        Thrown (App a) \<Rightarrow> (case ae_status a of Some s \<Rightarrow> s | None \<Rightarrow> 500)
      | Thrown _ \<Rightarrow> 500
      | BodyError status statusCode _ _ \<Rightarrow>
          (case status of Some s \<Rightarrow> s | None \<Rightarrow> (case statusCode of Some s \<Rightarrow> s | None \<Rightarrow> 500)))"

definition failure_code :: "Failure \<Rightarrow> string" where
  "failure_code f =
     (case f of
        Thrown e \<Rightarrow> if truthy (err_code e) then the (err_code e) else ''INTERNAL_ERROR''
      | BodyError _ _ ty _ \<Rightarrow> if ty = Some ''entity.too.large'' then ''FILE_TOO_LARGE'' else ''INTERNAL_ERROR'')"

definition failure_err :: "Failure \<Rightarrow> err" where
  "failure_err f = (case f of Thrown e \<Rightarrow> e | BodyError _ _ _ msg \<Rightarrow> Js msg)"

definition errorHandler :: "Gw \<Rightarrow> Failure \<Rightarrow> Response" where
  "errorHandler gw f =
     (let c = failure_code f
      in \<lparr>rs_status = failure_status f, rs_error = Some c,
          rs_message = Some (if c = ''FILE_TOO_LARGE'' then ''Upload too large''
            else if c = ''INTERNAL_ERROR'' then ''Internal server error''
            else (case failure_err f of App a \<Rightarrow> ae_message a | _ \<Rightarrow> ''Request failed'')),
          rs_detail = (if production gw then None else Some (failure_err f))\<rparr>)"

section \<open>server.ts\<close>

fun chain :: "middleware list \<Rightarrow> middleware" where
  "chain [] gw now req g = (g, Next req)"
| "chain (m # ms) gw now req g =
     (case m gw now req g of
        (g', Next req') \<Rightarrow> chain ms gw now req' g'
      | (g', Done r) \<Rightarrow> (g', Done r)
      | (g', Fail e) \<Rightarrow> (g', Fail e))"

definition ingestChain :: middleware where
  "ingestChain = chain [ingestAadAuth, tenantGuard, rbacGuard, policyMiddleware, rlsContext, rateLimit]"

definition protectedChain :: middleware where
  "protectedChain = chain [authContext, tenantGuard, rbacGuard, policyMiddleware, rlsContext, rateLimit]"

text \<open>Express matches a route without regard to case and to one slash at its end.\<close>

definition same_route :: "string \<Rightarrow> string \<Rightarrow> bool" where
  "same_route route p \<longleftrightarrow>
     toLowerCase p = route \<or> toLowerCase p = route @ ''/''"

text \<open>A request after the public routes, up to the handlers behind the auth boundary.\<close>

definition serve :: middleware where
  "serve gw now req g =
     (case requestId gw now req g of
        (g', Next req') \<Rightarrow>
          if rq_method req' = ''POST'' \<and> same_route ''/workloads/ro/ingest-from-storage'' (rq_path req')
          then ingestChain gw now req' g'
          else protectedChain gw now req' g'
      | (g', r) \<Rightarrow> (g', r))"

text \<open>An error passed on by a middleware is answered by \<open>errorHandler\<close>.\<close>

definition answer_step :: "Gw \<Rightarrow> Step \<Rightarrow> Reply option" where
  "answer_step gw s = (case s of Next _ \<Rightarrow> None | Done r \<Rightarrow> Some r | Fail e \<Rightarrow> Some (Json (errorHandler gw (Thrown e))))"

end
