(* ===== verification/Admin.thy ===== *)
theory Admin
  imports Gateway Lookups
begin

text \<open>
  http/routes/adminUsers.ts and adminApi.ts, with shared/utils/ssh.ts, core/azure/storageSftp.ts,
  core/azure/armToken.ts and core/tenant/sftpTenant.ts.

  The tables \<open>app.users\<close> and \<open>app.dealer_groups\<close> are created by no migration of the repository; here they are
  tables without row level security and constraints. RETURNING is a query of the written rows. \<open>created_at\<close> and the
  other times are integers. The password hash, the replies of the resource manager, the length of what
  \<open>Buffer.from(.., "base64")\<close> decodes, the clock and the UUIDs are arguments (\<open>AdminDeps\<close>).
\<close>

section \<open>ssh.ts\<close>

definition ssh_algorithm :: rx where
  "ssh_algorithm =
     rx_alt [str ''ssh-ed25519'', str ''ssh-rsa'',
             RSeq (str ''ecdsa-sha2-nistp'') (RGrp 2 (rx_alt [str ''256'', str ''384'', str ''521'']))]"

definition rx_dot :: rx where "rx_dot = RCls (\<lambda>c. c \<noteq> CHR 0x0A \<and> c \<noteq> CHR 0x0D)"

text \<open>\<open>/^(...)\s+([A-Za-z0-9+/=]+)(\s+.+)?$/\<close>: the algorithm is group 1, the key group 3, the comment group 4.\<close>

definition SSH_KEY_REGEX :: rx where
  "SSH_KEY_REGEX =
     rx_seq [RBegin, RGrp 1 ssh_algorithm, rx_plus rx_ws,
             RGrp 3 (rx_plus (RCls (\<lambda>c. alnum c \<or> c \<in> set ''+/=''))),
             rx_opt (RGrp 4 (RSeq (rx_plus rx_ws) (rx_plus rx_dot))), REnd]"

definition normalizeSshPublicKey :: "string \<Rightarrow> string" where
  "normalizeSshPublicKey v = rx_replace_all (rx_plus rx_ws) (const_token '' '') (js_trim v)"

definition isValidSshPublicKey :: "(string \<Rightarrow> nat) \<Rightarrow> string \<Rightarrow> bool" where
  "isValidSshPublicKey decodedLength v =
     (if v = [] then False
      else (case rx_match SSH_KEY_REGEX (normalizeSshPublicKey v) of
          None \<Rightarrow> False
        | Some (_, g) \<Rightarrow>
            (let body = group g 4
             in if \<not> truthy body \<or> length (the body) < 32 then False else decodedLength (the body) > 16)))"

section \<open>armToken.ts\<close>

record CachedToken =
  ct_token :: string
  ct_expiresAtMs :: jsnum

definition REFRESH_WINDOW_MS :: int where "REFRESH_WINDOW_MS = 2 * 60 * 1000"

text \<open>The reply of the identity endpoint: an error status, or the fields \<open>access_token\<close>, \<open>expires_in\<close> and
  \<open>expires_on\<close>.\<close>

datatype TokenReply = TokenStatus nat | TokenFields "string option" "string option" "string option"

definition expires_at :: "int \<Rightarrow> string option \<Rightarrow> string option \<Rightarrow> jsnum" where
  "expires_at now expires_in expires_on =
     (case (if truthy expires_in then js_Number (the expires_in) else NaN) of
        Fin sec \<Rightarrow> jadd (Fin (of_int now)) (jmul (Fin sec) (Fin 1000))
      | _ \<Rightarrow> if truthy expires_on then jmul (js_Number (the expires_on)) (Fin 1000) else Fin (of_int (now + 30 * 60 * 1000)))"

definition getArmAccessToken :: "int \<Rightarrow> TokenReply \<Rightarrow> CachedToken option \<Rightarrow> CachedToken option \<times> string res" where
  "getArmAccessToken now endpoint cached =
     (if (case cached of None \<Rightarrow> False
          | Some c \<Rightarrow> jgt (jsub (ct_expiresAtMs c) (Fin (of_int REFRESH_WINDOW_MS))) (Fin (of_int now)))
      then (cached, ok (ct_token (the cached)))
      else (case endpoint of
          TokenStatus st \<Rightarrow> (cached, Inl (Js (''Managed identity token fetch failed: '' @ digits_of (int st))))
        | TokenFields token expires_in expires_on \<Rightarrow>
            if \<not> truthy token then (cached, Inl (Js ''Managed identity token missing access_token''))
            else (Some \<lparr>ct_token = the token, ct_expiresAtMs = expires_at now expires_in expires_on\<rparr>, ok (the token))))"

section \<open>storageSftp.ts and sftpTenant.ts\<close>

record SftpDetails =
  sd_username :: string
  sd_host :: string
  sd_homeDirectory :: string
  sd_homeUri :: string
  sd_container :: string
  sd_prefix :: string

definition buildSftpUsername :: "string \<Rightarrow> string" where
  "buildSftpUsername tenantId = ''tenant_'' @ tenantId"

definition buildSftpHomeDirectory :: "string \<Rightarrow> string \<Rightarrow> string" where
  "buildSftpHomeDirectory containerName tenantId = containerName @ ''/tenant='' @ tenantId @ ''/''"

definition buildSftpHomeUri :: "string \<Rightarrow> string \<Rightarrow> string" where
  "buildSftpHomeUri host homeDirectory = ''sftp://'' @ host @ ''/'' @ homeDirectory"

record LocalUserPayload =
  lu_hasSshKey :: bool
  lu_hasSharedKey :: bool
  lu_hasPassword :: bool
  lu_homeDirectory :: string
  lu_scopes :: "(string \<times> string \<times> string) list"       \<comment> \<open>permissions, service, resource\<close>
  lu_keys :: "(string \<times> string) list"                  \<comment> \<open>description and key\<close>

definition buildSftpLocalUserPayload :: "EnvConfig \<Rightarrow> string \<Rightarrow> string \<Rightarrow> LocalUserPayload" where
  "buildSftpLocalUserPayload env tenantId publicKey =
     \<lparr>lu_hasSshKey = True, lu_hasSharedKey = False, lu_hasPassword = False,
      lu_homeDirectory = buildSftpHomeDirectory (ec_azureStorageContainerName env) tenantId,
      lu_scopes = [(''w'', ''blob'', ec_azureStorageContainerName env)],
      lu_keys = [(''tenant-upload-key'', publicKey)]\<rparr>"

text \<open>A call of the resource manager: it throws (also when there is no token), or has a status and, if its body
  is JSON, the code and message of the error in it.\<close>

datatype ArmReply = ArmThrows string | ArmStatus nat "(string option \<times> string option) option"

definition parseArmError :: "nat \<Rightarrow> (string option \<times> string option) option \<Rightarrow> string \<times> string" where
  "parseArmError st body =
     (let dflt = ''ARM request failed ('' @ digits_of (int st) @ '')''
      in case body of
           None \<Rightarrow> (''ARM_REQUEST_FAILED'', dflt)
         | Some (c, m) \<Rightarrow> (or_else c ''ARM_REQUEST_FAILED'', or_else m dflt))"

definition is_2xx :: "nat \<Rightarrow> bool" where "is_2xx st \<longleftrightarrow> 200 \<le> st \<and> st \<le> 299"

definition arm_failure :: "nat \<Rightarrow> (string option \<times> string option) option \<Rightarrow> 'a res" where
  "arm_failure st body = (case parseArmError st body of (c, m) \<Rightarrow> throw m 502 c)"

type_synonym Arm = "string \<Rightarrow> string \<Rightarrow> LocalUserPayload option \<Rightarrow> ArmReply"   \<comment> \<open>method, local user, body\<close>

definition provisionSftpLocalUser :: "EnvConfig \<Rightarrow> Arm \<Rightarrow> string \<Rightarrow> string \<Rightarrow> SftpDetails res" where
  "provisionSftpLocalUser env arm tenantId publicKey =
     (let username = buildSftpUsername tenantId; payload = buildSftpLocalUserPayload env tenantId publicKey
      in case arm ''PUT'' username (Some payload) of
           ArmThrows m \<Rightarrow> Inl (Js m)
         | ArmStatus st body \<Rightarrow>
             if \<not> is_2xx st then arm_failure st body
             else ok \<lparr>sd_username = username, sd_host = ec_publicSftpHostname env, sd_homeDirectory = lu_homeDirectory payload,
                      sd_homeUri = buildSftpHomeUri (ec_publicSftpHostname env) (lu_homeDirectory payload),
                      sd_container = ec_azureStorageContainerName env, sd_prefix = ''tenant='' @ tenantId @ ''/''\<rparr>)"

definition deleteSftpLocalUser :: "Arm \<Rightarrow> string \<Rightarrow> unit res" where
  "deleteSftpLocalUser arm tenantId =
     (case arm ''DELETE'' (buildSftpUsername tenantId) None of
        ArmThrows m \<Rightarrow> Inl (Js m)
      | ArmStatus st body \<Rightarrow> if st = 404 \<or> is_2xx st then ok () else arm_failure st body)"

type_synonym update = "(string \<times> sqlval) list"

definition buildSftpSuccessUpdate :: "SftpDetails \<Rightarrow> int \<Rightarrow> update" where
  "buildSftpSuccessUpdate d now =
     [(''sftp_username'', SText (sd_username d)), (''sftp_home_uri'', SText (sd_homeUri d)), (''sftp_enabled'', SBool True),
      (''sftp_provisioned_at'', SInt now), (''sftp_last_error_code'', SNull), (''sftp_last_error_at'', SNull)]"

definition buildSftpFailureUpdate :: "string \<Rightarrow> int \<Rightarrow> update" where
  "buildSftpFailureUpdate errorCode now =
     [(''sftp_enabled'', SBool False), (''sftp_last_error_code'', SText errorCode), (''sftp_last_error_at'', SInt now)]"

section \<open>What the admin routes share\<close>

record AdminDeps =
  ad_env :: EnvConfig
  ad_uuid :: "nat \<Rightarrow> string"
  ad_accepts :: "AuditRow \<Rightarrow> bool"
  ad_hash :: "string \<Rightarrow> string"
  ad_arm :: Arm
  ad_decoded :: "string \<Rightarrow> nat"
  ad_now :: int

datatype AdminReply = AdminError Response | AdminRows nat "row list" | AdminRow nat "row option" | AdminEmpty nat

definition missing_context :: "RequestContext \<Rightarrow> bool" where
  "missing_context ctx \<longleftrightarrow>
     \<not> truthy (cx_requestId ctx) \<or> \<not> truthy (cx_userId ctx) \<or> (\<not> truthy (cx_tenantId ctx) \<and> cx_role ctx \<noteq> Some DEVELOPER)"

definition refuse :: "nat \<Rightarrow> string \<Rightarrow> string \<Rightarrow> AdminReply io" where
  "refuse st c msg = ret (AdminError (err_response st (Some c) msg))"

text \<open>The \<open>catch\<close> blocks: with the error's status and code, or (the last two) with fixed ones.\<close>

definition caught :: "string \<Rightarrow> string \<Rightarrow> err \<Rightarrow> Response" where
  "caught c msg e =
     (case e of
        App a \<Rightarrow> err_response (case ae_status a of Some s \<Rightarrow> if s \<noteq> 0 then s else 500 | None \<Rightarrow> 500)
                   (Some (if truthy (ae_code a) then the (ae_code a) else c)) (ae_message a)
      | _ \<Rightarrow> err_response 500 (Some c) msg)"

definition catching :: "string \<Rightarrow> string \<Rightarrow> AdminReply io \<Rightarrow> AdminReply io" where
  "catching c msg m w = (case m w of (w', Inr r) \<Rightarrow> (w', Inr r) | (w', Inl e) \<Rightarrow> (w', Inr (AdminError (caught c msg e))))"

definition catching_all :: "string \<Rightarrow> string \<Rightarrow> AdminReply io \<Rightarrow> AdminReply io" where
  "catching_all c msg m w =
     (case m w of (w', Inr r) \<Rightarrow> (w', Inr r) | (w', Inl e) \<Rightarrow> (w', Inr (AdminError (err_response 500 (Some c) msg))))"

definition project :: "string list \<Rightarrow> row \<Rightarrow> row" where
  "project cs r = map (\<lambda>c. (c, col r c)) cs"

definition newest_first :: "string \<Rightarrow> row list \<Rightarrow> row list" where
  "newest_first c rows = js_sort (\<lambda>a b. int_of b c \<le> int_of a c) rows"

definition first :: "row list \<Rightarrow> string \<Rightarrow> string option" where
  "first rows c = (case rows of [] \<Rightarrow> None | r # _ \<Rightarrow> as_text (col r c))"

definition head :: "row list \<Rightarrow> row option" where
  "head rows = (case rows of [] \<Rightarrow> None | r # _ \<Rightarrow> Some r)"

definition has :: "string \<Rightarrow> string \<Rightarrow> row \<Rightarrow> bool" where
  "has c v r \<longleftrightarrow> col r c = SText v"

definition group_of :: "string option \<Rightarrow> string option io" where
  "group_of tenantId = bind (db_select ''app.tenants'' (\<lambda>r. col r ''tenant_id'' = sql_text tenantId)) (\<lambda>rows. ret (first rows ''group_id''))"

definition group_tenants :: "string \<Rightarrow> string list io" where
  "group_tenants groupId = bind (db_select ''app.tenants'' (has ''group_id'' groupId)) (\<lambda>rows. ret (texts ''tenant_id'' rows))"

definition same_lower :: "string \<Rightarrow> string \<Rightarrow> row \<Rightarrow> bool" where
  "same_lower c v r \<longleftrightarrow> (case col r c of SText x \<Rightarrow> toLowerCase x = toLowerCase v | _ \<Rightarrow> False)"

section \<open>adminUsers.ts\<close>

definition allowedRolesForCreator :: "Role \<Rightarrow> Role list" where
  "allowedRolesForCreator r =
     (case r of DEVELOPER \<Rightarrow> [USER, ADMIN, DEALERADMIN, DEVELOPER] | DEALERADMIN \<Rightarrow> [USER, ADMIN] | ADMIN \<Rightarrow> [USER] | USER \<Rightarrow> [])"

definition role_allowed :: "RequestContext \<Rightarrow> string \<Rightarrow> bool" where
  "role_allowed ctx role \<longleftrightarrow>
     (case cx_role ctx of None \<Rightarrow> False | Some r \<Rightarrow> role \<in> set (map role_name (allowedRolesForCreator r)))"

definition canManageTenant :: "RequestContext \<Rightarrow> string \<Rightarrow> bool io" where
  "canManageTenant ctx target =
     (case cx_role ctx of
        None \<Rightarrow> ret False
      | Some DEVELOPER \<Rightarrow> ret True
      | Some role \<Rightarrow>
          if \<not> truthy (cx_tenantId ctx) then ret False
          else if role = ADMIN then ret (cx_tenantId ctx = Some target)
          else if role = DEALERADMIN then
            bind (group_of (Some target)) (\<lambda>targetGroup.
            bind (group_of (cx_tenantId ctx)) (\<lambda>sourceGroup.
              ret (truthy targetGroup \<and> truthy sourceGroup \<and> targetGroup = sourceGroup)))
          else ret False)"

definition require_tenant :: "RequestContext \<Rightarrow> string \<Rightarrow> unit io" where
  "require_tenant ctx target =
     bind (canManageTenant ctx target) (\<lambda>allowed.
       if allowed then ret () else io_throw ''Tenant access denied'' 403 ''TENANT_FORBIDDEN'')"

abbreviation user_columns :: "string list" where
  "user_columns \<equiv> [''user_id'', ''tenant_id'', ''email'', ''role'', ''is_active'', ''created_at'']"

definition user_rows :: "(row \<Rightarrow> bool) \<Rightarrow> AdminReply io" where
  "user_rows p =
     bind (db_select ''app.users'' p) (\<lambda>rows. ret (AdminRows 200 (map (project user_columns) (newest_first ''created_at'' rows))))"

definition listUsers :: "RequestContext \<Rightarrow> string option \<Rightarrow> AdminReply io" where
  "listUsers ctx tenantId =
     (if missing_context ctx \<or> cx_role ctx = None then refuse 400 ''CTX_MISSING'' ''Missing context''
      else catching ''ADMIN_USERS_FAIL'' ''Failed to fetch users''
        (withRequestContext ctx
          (if cx_role ctx = Some DEVELOPER \<and> \<not> truthy tenantId then user_rows (\<lambda>_. True)
           else if cx_role ctx = Some DEALERADMIN \<and> \<not> truthy tenantId then
             bind (group_of (cx_tenantId ctx)) (\<lambda>g.
               if \<not> truthy g then io_throw ''Dealer group not set'' 400 ''GROUP_REQUIRED''
               else bind (group_tenants (the g)) (\<lambda>ids. user_rows (\<lambda>r. eq_any (col r ''tenant_id'') ids)))
           else
             let target = (case tenantId of Some t \<Rightarrow> Some t | None \<Rightarrow> cx_tenantId ctx)
             in if \<not> truthy target then io_throw ''Tenant context missing'' 403 ''TENANT_REQUIRED''
                else bind (require_tenant ctx (the target)) (\<lambda>_. user_rows (has ''tenant_id'' (the target))))))"

record NewUserBody =
  nu_email :: "string option"
  nu_password :: "string option"
  nu_role :: "string option"
  nu_tenant_id :: "string option"
  nu_tenant_name :: "string option"

definition insert_user :: "AdminDeps \<Rightarrow> string option \<Rightarrow> NewUserBody \<Rightarrow> AdminReply io" where
  "insert_user d tenant b =
     bind (draw_uuid (ad_uuid d)) (\<lambda>uid.
     bind (db_insert ''app.users'' [''user_id'', ''tenant_id'', ''email'', ''pass_hash'', ''role'', ''is_active''] 6
             [SText uid, sql_text tenant, SText (toLowerCase (the (nu_email b))), SText (ad_hash d (the (nu_password b))),
              sql_text (nu_role b), SBool True] None) (\<lambda>_.
     bind (db_select ''app.users'' (has ''user_id'' uid)) (\<lambda>rows.
       ret (AdminRow 201 (map_option (project user_columns) (head rows))))))"

definition createUser :: "AdminDeps \<Rightarrow> RequestContext \<Rightarrow> NewUserBody \<Rightarrow> AdminReply io" where
  "createUser d ctx b =
     (if missing_context ctx \<or> cx_role ctx = None then refuse 400 ''CTX_MISSING'' ''Missing context''
      else if \<not> truthy (nu_email b) \<or> \<not> truthy (nu_password b) \<or> \<not> truthy (nu_role b) \<or>
              (nu_role b \<noteq> Some ''DEVELOPER'' \<and> \<not> truthy (nu_tenant_id b) \<and> \<not> truthy (nu_tenant_name b))
      then refuse 400 ''BAD_REQUEST'' ''email, password, role, tenant_id or tenant_name required''
      else if \<not> role_allowed ctx (the (nu_role b)) then refuse 403 ''ROLE_FORBIDDEN'' ''Role not allowed''
      else catching ''ADMIN_USER_CREATE_FAIL'' ''Failed to create user''
        (withRequestContext ctx
          (bind (if \<not> truthy (nu_tenant_id b) \<and> truthy (nu_tenant_name b) then
                   bind (db_select ''app.tenants'' (same_lower ''name'' (js_trim (the (nu_tenant_name b))))) (\<lambda>rows.
                     ret (first rows ''tenant_id''))
                 else ret (nu_tenant_id b)) (\<lambda>tenant.
           if \<not> truthy tenant \<and> nu_role b \<noteq> Some ''DEVELOPER'' then io_throw ''Tenant not found'' 404 ''TENANT_NOT_FOUND''
           else bind (if truthy tenant then require_tenant ctx (the tenant) else ret ()) (\<lambda>_.
                  insert_user d tenant b)))))"

text \<open>The tenant of the user that is changed, which the requester must be able to manage.\<close>

definition target_user :: "RequestContext \<Rightarrow> string \<Rightarrow> unit io" where
  "target_user ctx userId =
     bind (db_select ''app.users'' (has ''user_id'' userId)) (\<lambda>rows.
       if \<not> truthy (first rows ''tenant_id'') then io_throw ''User not found'' 404 ''USER_NOT_FOUND''
       else require_tenant ctx (the (first rows ''tenant_id'')))"

definition updateUser :: "RequestContext \<Rightarrow> string \<Rightarrow> string option \<Rightarrow> bool option \<Rightarrow> AdminReply io" where
  "updateUser ctx userId role is_active =
     (if missing_context ctx \<or> cx_role ctx = None then refuse 400 ''CTX_MISSING'' ''Missing context''
      else if truthy role \<and> \<not> role_allowed ctx (the role) then refuse 403 ''ROLE_FORBIDDEN'' ''Role not allowed''
      else
        let updates = (case is_active of None \<Rightarrow> [] | Some a \<Rightarrow> [(''is_active'', SBool a)]) @
              (if truthy role then [(''role'', sql_text role)] else [])
        in if updates = [] then refuse 400 ''NO_UPDATES'' ''No valid fields to update''
           else catching ''ADMIN_USER_UPDATE_FAIL'' ''Failed to update user''
             (withRequestContext ctx
               (bind (target_user ctx userId) (\<lambda>_.
                bind (db_update ''app.users'' (has ''user_id'' userId) (set_cols updates)) (\<lambda>_.
                bind (db_select ''app.users'' (has ''user_id'' userId)) (\<lambda>rows.
                  ret (AdminRow 200 (map_option (project user_columns) (head rows)))))))))"

definition deleteUser :: "RequestContext \<Rightarrow> string \<Rightarrow> AdminReply io" where
  "deleteUser ctx userId =
     (if missing_context ctx \<or> cx_role ctx = None then refuse 400 ''CTX_MISSING'' ''Missing context''
      else catching ''ADMIN_USER_DELETE_FAIL'' ''Failed to delete user''
        (withRequestContext ctx
          (bind (target_user ctx userId) (\<lambda>_.
           bind (db_select ''app.users'' (has ''user_id'' userId)) (\<lambda>rows.
           bind (db_delete ''app.users'' (has ''user_id'' userId)) (\<lambda>_.
             ret (AdminRow 200 (map_option (project [''user_id'', ''email'']) (head rows)))))))))"

definition listGroups :: "RequestContext \<Rightarrow> AdminReply io" where
  "listGroups ctx =
     (if missing_context ctx \<or> cx_role ctx = None then refuse 400 ''CTX_MISSING'' ''Missing context''
      else catching ''ADMIN_GROUPS_FAIL'' ''Failed to fetch groups''
        (withRequestContext ctx
          (if cx_role ctx \<noteq> Some DEVELOPER then io_throw ''Insufficient role'' 403 ''ROLE_FORBIDDEN''
           else bind (db_select ''app.dealer_groups'' (\<lambda>_. True)) (\<lambda>rows.
                  ret (AdminRows 200 (map (project [''group_id'', ''name'', ''created_at'']) (newest_first ''created_at'' rows)))))))"

definition insert_group :: "AdminDeps \<Rightarrow> string \<Rightarrow> string io" where
  "insert_group d name =
     bind (draw_uuid (ad_uuid d)) (\<lambda>gid.
     bind (db_insert ''app.dealer_groups'' [''group_id'', ''name''] 2 [SText gid, SText name] None) (\<lambda>_. ret gid))"

definition createGroup :: "AdminDeps \<Rightarrow> RequestContext \<Rightarrow> string option \<Rightarrow> AdminReply io" where
  "createGroup d ctx name =
     (if missing_context ctx \<or> cx_role ctx = None then refuse 400 ''CTX_MISSING'' ''Missing context''
      else if \<not> truthy (map_option js_trim name) then refuse 400 ''BAD_REQUEST'' ''name required''
      else if cx_role ctx \<noteq> Some DEVELOPER then refuse 403 ''ROLE_FORBIDDEN'' ''Insufficient role''
      else catching ''ADMIN_GROUP_CREATE_FAIL'' ''Failed to create group''
        (withRequestContext ctx
          (bind (insert_group d (js_trim (the name))) (\<lambda>gid.
           bind (db_select ''app.dealer_groups'' (has ''group_id'' gid)) (\<lambda>rows.
             ret (AdminRow 201 (map_option (project [''group_id'', ''name'', ''created_at'']) (head rows))))))))"

text \<open>\<open>newGroup\<close> is \<open>None\<close> when the body has no \<open>group_id\<close> and \<open>Some None\<close> when it is null.\<close>

definition assignGroup :: "AdminDeps \<Rightarrow> RequestContext \<Rightarrow> string \<Rightarrow> string option option \<Rightarrow> AdminReply io" where
  "assignGroup d ctx tenantId newGroup =
     (if missing_context ctx \<or> cx_role ctx = None then refuse 400 ''CTX_MISSING'' ''Missing context''
      else (case newGroup of
          None \<Rightarrow> refuse 400 ''BAD_REQUEST'' ''group_id required''
        | Some groupId \<Rightarrow>
            if cx_role ctx \<noteq> Some DEVELOPER then refuse 403 ''ROLE_FORBIDDEN'' ''Insufficient role''
            else catching ''ADMIN_GROUP_ASSIGN_FAIL'' ''Failed to assign tenant group''
              (withRequestContext ctx
                (bind (if truthy groupId \<and> \<not> isUuid (the groupId) then
                         bind (db_select ''app.dealer_groups'' (same_lower ''name'' (js_trim (the groupId)))) (\<lambda>rows.
                           if truthy (first rows ''group_id'') then ret (first rows ''group_id'')
                           else bind (insert_group d (js_trim (the groupId))) (\<lambda>gid. ret (Some gid)))
                       else ret groupId) (\<lambda>resolved.
                 bind (db_update ''app.tenants'' (has ''tenant_id'' tenantId) (set_cols [(''group_id'', sql_text resolved)])) (\<lambda>_.
                 bind (db_select ''app.tenants'' (has ''tenant_id'' tenantId)) (\<lambda>rows.
                   ret (AdminRow 200 (map_option (project [''tenant_id'', ''group_id'']) (head rows)))))))))) "

end
