(* ===== verification/AdminApi.thy ===== *)
theory AdminApi
  imports Admin
begin

text \<open>
  http/routes/adminApi.ts: the tenants with their SFTP users, the summary of the PII vault and the chats, for
  the tenants in the requester's scope. The aggregates of the summary are computed over the visible rows.
\<close>

section \<open>Scope\<close>

definition getTenantScope :: "RequestContext \<Rightarrow> string list io" where
  "getTenantScope ctx =
     (case cx_role ctx of
        None \<Rightarrow> ret []
      | Some role \<Rightarrow>
          if \<not> truthy (cx_tenantId ctx) then ret []
          else if role = DEVELOPER then ret [the (cx_tenantId ctx)]
          else if role = DEALERADMIN then
            bind (group_of (cx_tenantId ctx)) (\<lambda>g.
              if \<not> truthy g then ret [the (cx_tenantId ctx)] else group_tenants (the g))
          else ret [the (cx_tenantId ctx)])"

definition in_tenants :: "string list \<Rightarrow> row \<Rightarrow> bool" where
  "in_tenants scope r \<longleftrightarrow> eq_any (col r ''tenant_id'') scope"

section \<open>Tenants\<close>

text \<open>\<open>LEFT JOIN app.dealer_groups\<close>\<close>

definition with_group_name :: "row list \<Rightarrow> row \<Rightarrow> row" where
  "with_group_name groups r =
     r @ [(''group_name'', case filter (\<lambda>g. col g ''group_id'' = col r ''group_id'' \<and> col r ''group_id'' \<noteq> SNull) groups of
            [] \<Rightarrow> SNull | g # _ \<Rightarrow> col g ''name'')]"

definition listTenants :: "RequestContext \<Rightarrow> AdminReply io" where
  "listTenants ctx =
     (if missing_context ctx then refuse 400 ''CTX_MISSING'' ''Missing context''
      else catching_all ''ADMIN_TENANTS_FAIL'' ''Failed to fetch tenants''
        (withRequestContext ctx
          (bind (getTenantScope ctx) (\<lambda>scope.
           bind (db_select ''app.tenants'' (in_tenants scope)) (\<lambda>rows.
           bind (db_select ''app.dealer_groups'' (\<lambda>_. True)) (\<lambda>groups.
             ret (AdminRows 200 (map (\<lambda>r. project [''tenant_id'', ''name'', ''is_active'', ''pii_enabled'', ''group_id'', ''group_name'',
                    ''created_at'', ''sftp_username'', ''sftp_home_uri'', ''sftp_enabled'', ''sftp_provisioned_at'',
                    ''sftp_last_error_code'', ''sftp_last_error_at''] (with_group_name groups r))
                  (newest_first ''created_at'' rows)))))))))"

abbreviation tenant_columns :: "string list" where
  "tenant_columns \<equiv> [''tenant_id'', ''name'', ''is_active'', ''pii_enabled'', ''group_id'', ''created_at'']"

definition tenant_updates :: "bool option \<Rightarrow> bool option \<Rightarrow> update" where
  "tenant_updates is_active pii_enabled =
     (case is_active of None \<Rightarrow> [] | Some b \<Rightarrow> [(''is_active'', SBool b)]) @
     (case pii_enabled of None \<Rightarrow> [] | Some b \<Rightarrow> [(''pii_enabled'', SBool b)])"

definition update_tenant :: "RequestContext \<Rightarrow> string \<Rightarrow> update \<Rightarrow> AdminReply io" where
  "update_tenant ctx tenantId updates =
     bind (getTenantScope ctx) (\<lambda>scope.
       if tenantId \<notin> set scope then io_throw ''Tenant access denied'' 403 ''TENANT_FORBIDDEN''
       else bind (db_update ''app.tenants'' (has ''tenant_id'' tenantId) (set_cols updates)) (\<lambda>_.
            bind (db_select ''app.tenants'' (has ''tenant_id'' tenantId)) (\<lambda>rows.
              if \<not> truthy (first rows ''group_id'') then ret (AdminRow 200 (map_option (project tenant_columns) (head rows)))
              else bind (db_select ''app.dealer_groups'' (has ''group_id'' (the (first rows ''group_id'')))) (\<lambda>groups.
                     ret (AdminRow 200 (map_option
                       (\<lambda>r. project tenant_columns r @ [(''group_name'', case groups of [] \<Rightarrow> SNull | g # _ \<Rightarrow> col g ''name'')])
                       (head rows)))))))"

definition patchTenant :: "RequestContext \<Rightarrow> string \<Rightarrow> bool option \<Rightarrow> bool option \<Rightarrow> AdminReply io" where
  "patchTenant ctx tenantId is_active pii_enabled =
     (if missing_context ctx then refuse 400 ''CTX_MISSING'' ''Missing context''
      else if tenantId = [] then refuse 403 ''TENANT_FORBIDDEN'' ''Tenant mismatch''
      else if cx_role ctx \<noteq> Some DEVELOPER \<and> cx_tenantId ctx \<noteq> Some tenantId then refuse 403 ''TENANT_FORBIDDEN'' ''Tenant mismatch''
      else
        let updates = tenant_updates is_active pii_enabled
        in if updates = [] then refuse 400 ''NO_UPDATES'' ''No valid fields to update''
           else catching_all ''ADMIN_TENANT_UPDATE_FAIL'' ''Failed to update tenant''
             (withRequestContext ctx (update_tenant ctx tenantId updates)))"

definition applyTenantSftpUpdate :: "string \<Rightarrow> update \<Rightarrow> unit io" where
  "applyTenantSftpUpdate tenantId u =
     (if u = [] then ret ()
      else bind (db_update ''app.tenants'' (has ''tenant_id'' tenantId) (set_cols u)) (\<lambda>_. ret ()))"

text \<open>The checks of a new public key; the key that is used.\<close>

definition public_key :: "AdminDeps \<Rightarrow> string option \<Rightarrow> (AdminReply io) + string" where
  "public_key d raw =
     (let k = map_option js_trim raw
      in if \<not> truthy k then Inl (refuse 400 ''BAD_REQUEST'' ''tenant_sftp_public_key required'')
         else
           let key = normalizeSshPublicKey (the k)
           in if \<not> isValidSshPublicKey (ad_decoded d) key then Inl (refuse 400 ''SSH_KEY_INVALID'' ''Invalid SSH public key'')
              else Inr key)"

definition onboarding :: "string \<Rightarrow> SftpDetails \<Rightarrow> row" where
  "onboarding tenantId p =
     [(''tenant_id'', SText tenantId), (''sftp_host'', SText (sd_host p)), (''sftp_username'', SText (sd_username p)),
      (''sftp_home_path'', SText (sd_homeDirectory p)), (''container'', SText (sd_container p)), (''prefix'', SText (sd_prefix p))]"

definition admin_audit :: "AdminDeps \<Rightarrow> RequestContext \<Rightarrow> string \<Rightarrow> string option \<Rightarrow> (string \<times> jsv) list \<Rightarrow> unit io" where
  "admin_audit d ctx action oid md = auditLog (ad_uuid d) (ad_accepts d) ctx (event action ''tenant'' oid md)"

text \<open>The transaction of \<open>POST /admin/api/tenants\<close>: the new row and its SFTP user.\<close>

definition create_tenant :: "AdminDeps \<Rightarrow> RequestContext \<Rightarrow> string \<Rightarrow> string option \<Rightarrow> string \<Rightarrow> (row option \<times> string \<times> SftpDetails) io" where
  "create_tenant d ctx name groupId key =
     runWithTransaction ctx
       (bind (if truthy groupId then
                bind (db_select ''app.dealer_groups'' (has ''group_id'' (the groupId))) (\<lambda>rows.
                  if rows = [] then io_throw ''Group not found'' 404 ''GROUP_NOT_FOUND'' else ret ())
              else ret ()) (\<lambda>_.
        bind (db_select ''app.tenants'' (same_lower ''name'' name)) (\<lambda>existing.
          if truthy (first existing ''tenant_id'') then io_throw ''Tenant name already exists'' 409 ''TENANT_EXISTS''
          else
            bind (draw_uuid (ad_uuid d)) (\<lambda>tenantId.
            bind (db_insert ''app.tenants'' [''tenant_id'', ''name'', ''is_active'', ''group_id''] 4
                    [SText tenantId, SText name, SBool True, sql_text groupId] None) (\<lambda>_.
            bind (db_select ''app.tenants'' (has ''tenant_id'' tenantId)) (\<lambda>rows.
            bind (lift (provisionSftpLocalUser (ad_env d) (ad_arm d) tenantId key)) (\<lambda>p.
            bind (applyTenantSftpUpdate tenantId (buildSftpSuccessUpdate p (ad_now d))) (\<lambda>_.
              ret (map_option (project tenant_columns) (head rows), tenantId, p)))))))))"

definition createTenant :: "AdminDeps \<Rightarrow> RequestContext \<Rightarrow> string option \<Rightarrow> string option \<Rightarrow> string option \<Rightarrow> AdminReply io" where
  "createTenant d ctx name group_id raw =
     (if missing_context ctx \<or> cx_role ctx = None then refuse 400 ''CTX_MISSING'' ''Missing context''
      else if cx_role ctx \<noteq> Some DEVELOPER then refuse 403 ''ROLE_FORBIDDEN'' ''Insufficient role''
      else if \<not> truthy (map_option js_trim name) then refuse 400 ''BAD_REQUEST'' ''tenant_name required''
      else (case public_key d raw of
          Inl r \<Rightarrow> r
        | Inr key \<Rightarrow>
            let n = js_trim (the name);
                groupId = (if truthy (map_option js_trim group_id) then map_option js_trim group_id else None)
            in (\<lambda>w. case create_tenant d ctx n groupId key w of
                  (w', Inr (r, tenantId, p)) \<Rightarrow>
                    bind (admin_audit d ctx ''TENANT_CREATE_SFTP'' (Some tenantId)
                            [(''tenant_name'', VStr n), (''sftp_username'', VStr (sd_username p)), (''sftp_home'', VStr (sd_homeDirectory p))])
                      (\<lambda>_. ret (AdminRow 201 (map_option (\<lambda>t. t @ onboarding tenantId p) r))) w'
                | (w', Inl e) \<Rightarrow>
                    let c = caught ''ADMIN_TENANT_CREATE_FAIL'' ''Failed to create tenant'' e
                    in bind (admin_audit d ctx ''TENANT_CREATE_FAILED'' None
                              [(''tenant_name'', VStr n), (''error_code'', VStr (str_or_empty (rs_error c)))])
                         (\<lambda>_. ret (AdminError c)) w')))"

text \<open>What provisioning, key rotation and deprovisioning check first.\<close>

definition developer_guard :: "RequestContext \<Rightarrow> string \<Rightarrow> (AdminReply io) option" where
  "developer_guard ctx tenantId =
     (if missing_context ctx \<or> cx_role ctx = None then Some (refuse 400 ''CTX_MISSING'' ''Missing context'')
      else if cx_role ctx \<noteq> Some DEVELOPER then Some (refuse 403 ''ROLE_FORBIDDEN'' ''Insufficient role'')
      else if tenantId = [] then Some (refuse 400 ''BAD_REQUEST'' ''tenant_id required'')
      else None)"

definition tenant_exists :: "string \<Rightarrow> unit io" where
  "tenant_exists tenantId =
     bind (db_select ''app.tenants'' (has ''tenant_id'' tenantId)) (\<lambda>rows.
       if rows = [] then io_throw ''Tenant not found'' 404 ''TENANT_NOT_FOUND'' else ret ())"

text \<open>\<open>provision-sftp\<close> and \<open>rotate-sftp-key\<close> differ in their audit events and in what they record of a
  failure.\<close>

definition sftp_request ::
  "AdminDeps \<Rightarrow> RequestContext \<Rightarrow> string \<Rightarrow> string option \<Rightarrow> (SftpDetails \<Rightarrow> unit io) \<Rightarrow> string \<Rightarrow> string \<Rightarrow> (string \<Rightarrow> update) \<Rightarrow> string \<Rightarrow> AdminReply io" where
  "sftp_request d ctx tenantId raw on_success failCode failMsg on_failure failAction =
     (case developer_guard ctx tenantId of
        Some r \<Rightarrow> r
      | None \<Rightarrow>
          (case public_key d raw of
             Inl r \<Rightarrow> r
           | Inr key \<Rightarrow>
               (\<lambda>w. case withRequestContext ctx
                   (bind (tenant_exists tenantId) (\<lambda>_.
                    bind (lift (provisionSftpLocalUser (ad_env d) (ad_arm d) tenantId key)) (\<lambda>p.
                    bind (applyTenantSftpUpdate tenantId (buildSftpSuccessUpdate p (ad_now d))) (\<lambda>_.
                    bind (on_success p) (\<lambda>_.
                      ret (AdminRow 200 (Some (onboarding tenantId p)))))))) w of
                  (w', Inr r) \<Rightarrow> (w', Inr r)
                | (w', Inl e) \<Rightarrow>
                    let c = caught failCode failMsg e; code = str_or_empty (rs_error c);
                        w'' = fst (withRequestContext ctx (applyTenantSftpUpdate tenantId (on_failure code)) w')
                    in bind (admin_audit d ctx failAction (Some tenantId) [(''error_code'', VStr code)]) (\<lambda>_. ret (AdminError c)) w'')))"

definition provisionSftp :: "AdminDeps \<Rightarrow> RequestContext \<Rightarrow> string \<Rightarrow> string option \<Rightarrow> AdminReply io" where
  "provisionSftp d ctx tenantId raw =
     sftp_request d ctx tenantId raw
       (\<lambda>p. admin_audit d ctx ''TENANT_SFTP_PROVISION'' (Some tenantId)
              [(''sftp_username'', VStr (sd_username p)), (''sftp_home'', VStr (sd_homeDirectory p))])
       ''SFTP_PROVISION_FAILED'' ''Failed to provision SFTP'' (\<lambda>c. buildSftpFailureUpdate c (ad_now d)) ''TENANT_SFTP_PROVISION_FAILED''"

definition rotateSftpKey :: "AdminDeps \<Rightarrow> RequestContext \<Rightarrow> string \<Rightarrow> string option \<Rightarrow> AdminReply io" where
  "rotateSftpKey d ctx tenantId raw =
     sftp_request d ctx tenantId raw
       (\<lambda>p. admin_audit d ctx ''TENANT_SFTP_ROTATE_KEY'' (Some tenantId) [(''sftp_username'', VStr (sd_username p))])
       ''SFTP_ROTATE_FAILED'' ''Failed to rotate SFTP key''
       (\<lambda>c. [(''sftp_last_error_code'', SText c), (''sftp_last_error_at'', SInt (ad_now d))]) ''TENANT_SFTP_ROTATE_FAILED''"

definition deprovisioned :: update where
  "deprovisioned =
     [(''sftp_enabled'', SBool False), (''sftp_username'', SNull), (''sftp_home_uri'', SNull), (''sftp_provisioned_at'', SNull),
      (''sftp_last_error_code'', SNull), (''sftp_last_error_at'', SNull)]"

definition deleteSftp :: "AdminDeps \<Rightarrow> RequestContext \<Rightarrow> string \<Rightarrow> AdminReply io" where
  "deleteSftp d ctx tenantId =
     (case developer_guard ctx tenantId of
        Some r \<Rightarrow> r
      | None \<Rightarrow>
          (\<lambda>w. case withRequestContext ctx
              (bind (tenant_exists tenantId) (\<lambda>_.
               bind (lift (deleteSftpLocalUser (ad_arm d) tenantId)) (\<lambda>_.
               bind (applyTenantSftpUpdate tenantId deprovisioned) (\<lambda>_.
                 admin_audit d ctx ''TENANT_SFTP_DEPROVISION'' (Some tenantId) [(''sftp_username'', VStr (buildSftpUsername tenantId))])))) w of
             (w', Inr _) \<Rightarrow> (w', Inr (AdminEmpty 204))
           | (w', Inl e) \<Rightarrow>
               let c = caught ''SFTP_DEPROVISION_FAILED'' ''Failed to deprovision SFTP'' e
               in bind (admin_audit d ctx ''TENANT_SFTP_DEPROVISION_FAILED'' (Some tenantId)
                         [(''error_code'', VStr (str_or_empty (rs_error c)))]) (\<lambda>_. ret (AdminError c)) w'))"

section \<open>PII summary and chats\<close>

definition summary_row :: "row list \<Rightarrow> string \<Rightarrow> row" where
  "summary_row rows t =
     (let mine = filter (has ''tenant_id'' t) rows
      in [(''tenant_id'', SText t), (''pii_count'', SInt (int (length mine))),
          (''last_updated'', case newest_first ''updated_at'' mine of [] \<Rightarrow> SNull | r # _ \<Rightarrow> col r ''updated_at'')])"

definition piiSummary :: "RequestContext \<Rightarrow> AdminReply io" where
  "piiSummary ctx =
     (if missing_context ctx then refuse 400 ''CTX_MISSING'' ''Missing context''
      else catching_all ''ADMIN_PII_SUMMARY_FAIL'' ''Failed to fetch PII summary''
        (withRequestContext ctx
          (bind (getTenantScope ctx) (\<lambda>scope.
           bind (db_select ''app.pii_vault'' (in_tenants scope)) (\<lambda>rows.
             ret (AdminRows 200 (map (summary_row rows) (uniq (texts ''tenant_id'' rows)))))))))"

definition listChats :: "RequestContext \<Rightarrow> string option \<Rightarrow> AdminReply io" where
  "listChats ctx limit =
     (if missing_context ctx then refuse 400 ''CTX_MISSING'' ''Missing context''
      else catching_all ''ADMIN_CHATS_FAIL'' ''Failed to fetch chats''
        (withRequestContext ctx
          (bind (getTenantScope ctx) (\<lambda>scope.
           bind (db_select ''chat.conversations'' (in_tenants scope)) (\<lambda>chats.
           bind (db_select ''app.users'' (\<lambda>_. True)) (\<lambda>users.
           bind (db_select ''app.tenants'' (\<lambda>_. True)) (\<lambda>tenants.
           bind (lift (limit_rows (listing_limit limit)
               (concat (map (\<lambda>c. concat (map (\<lambda>u. map (\<lambda>t.
                    project [''conversation_id'', ''title'', ''created_at'', ''last_message_at'', ''tenant_id''] c @
                    [(''tenant_name'', col t ''name''), (''user_id'', col c ''user_id''), (''user_email'', col u ''email'')])
                  (filter (\<lambda>t. col t ''tenant_id'' = col c ''tenant_id'') tenants))
                  (filter (\<lambda>u. col u ''user_id'' = col c ''user_id'') users)))
                (newest_first ''last_message_at'' chats))))) (\<lambda>rows. ret (AdminRows 200 rows)))))))))"

definition chatMessages :: "RequestContext \<Rightarrow> string \<Rightarrow> AdminReply io" where
  "chatMessages ctx conversationId =
     (if missing_context ctx then refuse 400 ''CTX_MISSING'' ''Missing context''
      else if conversationId = [] then refuse 400 ''BAD_REQUEST'' ''conversation_id required''
      else catching ''ADMIN_CHAT_MESSAGES_FAIL'' ''Failed to fetch chat messages''
        (withRequestContext ctx
          (bind (getTenantScope ctx) (\<lambda>scope.
           bind (db_select ''chat.conversations'' (\<lambda>r. has ''conversation_id'' conversationId r \<and> in_tenants scope r)) (\<lambda>convo.
             if convo = [] then io_throw ''Conversation not found'' 404 ''CHAT_NOT_FOUND''
             else bind (db_select ''chat.messages'' (has ''conversation_id'' conversationId)) (\<lambda>rows.
                    ret (AdminRows 200 (map (project [''message_id'', ''role'', ''content'', ''created_at''])
                      (js_sort (\<lambda>a b. int_of a ''created_at'' \<le> int_of b ''created_at'') rows)))))))))"

section \<open>A request for a change of a tenant\<close>

text \<open>The tenant a path names for the route \<open>/admin/api/tenants/:tenant_id\<close>: express compares the letters of a route without
  regard to case and allows a slash at its end. Segments with an escaped character, which express decodes, are not covered.\<close>

definition tenant_param :: "string \<Rightarrow> string option" where
  "tenant_param path =
     (let route = ''/admin/api/tenants/''; s = drop (length route) path; t = (if endsWith s ''/'' then butlast s else s)
      in if toLowerCase (take (length route) path) = route \<and> t \<noteq> [] \<and> CHR ''/'' \<notin> set t \<and> CHR ''%'' \<notin> set t then Some t else None)"

text \<open>A PATCH request through the middleware to the handler of the route; the answer of the handler, if it is reached.\<close>

definition patch_request :: "Gw \<Rightarrow> int \<Rightarrow> Request \<Rightarrow> bool option \<Rightarrow> bool option \<Rightarrow> Gate \<Rightarrow> Gate \<times> AdminReply res option" where
  "patch_request gw now req is_active pii_enabled g =
     (case serve gw now req g of
        (g', Next req') \<Rightarrow>
          (case (if rq_method req' = ''PATCH'' then tenant_param (rq_path req') else None) of
             None \<Rightarrow> (g', None)
           | Some t \<Rightarrow>
               (case patchTenant (rq_context req') t is_active pii_enabled (g_world g') of
                  (w, r) \<Rightarrow> (g'\<lparr>g_world := w\<rparr>, Some r)))
      | (g', _) \<Rightarrow> (g', None))"

end
