(* ===== verification/JsDate.thy ===== *)
theory JsDate
  imports JsBase
begin

text \<open>
  Points in time as JavaScript's \<open>Date\<close> has them, in milliseconds since 1970 (UTC), and their ISO text. The date of a
  day is computed with the calendar that starts in March and repeats every 400 years.
\<close>

definition day_ms :: int where "day_ms = 86400000"
definition hour_ms :: int where "hour_ms = 3600000"
definition minute_ms :: int where "minute_ms = 60000"

text \<open>Year, month and day of the month, by the number of days since 1970-01-01.\<close>

definition civil :: "int \<Rightarrow> int \<times> int \<times> int" where
  "civil days =
     (let z = days + 719468; era = z div 146097; doe = z mod 146097;
          yoe = (doe - doe div 1460 + doe div 36524 - doe div 146096) div 365;
          doy = doe - (365 * yoe + yoe div 4 - yoe div 100);
          mp = (5 * doy + 2) div 153;
          d = doy - (153 * mp + 2) div 5 + 1;
          m = (if mp < 10 then mp + 3 else mp - 9);
          y = yoe + era * 400
      in (if m \<le> 2 then y + 1 else y, m, d))"

definition padded :: "nat \<Rightarrow> int \<Rightarrow> string" where
  "padded n i = (let s = digits_of i in replicate (n - length s) CHR ''0'' @ s)"

definition year_text :: "int \<Rightarrow> string" where
  "year_text y =
     (if 0 \<le> y \<and> y \<le> 9999 then padded 4 y else if y < 0 then CHR ''-'' # padded 6 (- y) else CHR ''+'' # padded 6 y)"

definition toISOString :: "int \<Rightarrow> string" where
  "toISOString t =
     (let (y, m, d) = civil (t div day_ms); r = t mod day_ms
      in year_text y @ ''-'' @ padded 2 m @ ''-'' @ padded 2 d @ ''T'' @ padded 2 (r div hour_ms) @ '':'' @
         padded 2 (r div minute_ms mod 60) @ '':'' @ padded 2 (r div 1000 mod 60) @ ''.'' @ padded 3 (r mod 1000) @ ''Z'')"

lemma iso_samples:
  "toISOString 0 = ''1970-01-01T00:00:00.000Z''"
  "toISOString 1709210096789 = ''2024-02-29T12:34:56.789Z''"
  "toISOString (- 1) = ''1969-12-31T23:59:59.999Z''"
  by code_simp+

text \<open>An ISO text has digits, signs and its marks only.\<close>

lemma digits_any: "x \<in> set (digits_of n) \<Longrightarrow> is_digit x"
proof (cases "0 \<le> n")
  case False
  then have "digits_of n = [char_of (48 :: nat)]" by (subst digits_of.simps) simp
  then show "x \<in> set (digits_of n) \<Longrightarrow> is_digit x" by (simp add: is_digit_def between_def)
qed (use digits_of_digits [of n] in \<open>auto simp: list_all_iff\<close>)

lemma padded_digits: "x \<in> set (padded n i) \<Longrightarrow> is_digit x"
  using digits_any [of x i] by (auto simp: padded_def Let_def is_digit_def between_def)

lemma iso_chars: "x \<in> set (toISOString t) \<Longrightarrow> is_digit x \<or> x \<in> set ''-+T:.Z''"
  unfolding toISOString_def year_text_def
  by (auto simp: Let_def split: prod.splits if_splits dest: padded_digits)

end
