(* ===== verification/Sessions.thy ===== *)
theory Sessions
  imports AdminApi JsDate
begin

text \<open>
  The remaining routes and services of the gateway: routes/auth.ts (login), routes/authMe.ts, routes/health.ts,
  routes/audit.ts (the audit trail, page by page) and core/secrets/secretsProvider.ts.

  \<open>app.auth_login_lookup\<close> is a function of the database that no migration creates; with
  \<open>bcrypt.compare\<close> and \<open>jwt.sign\<close> it is an argument. Of \<open>app.audit_logs\<close>, which no migration creates either,
  the model has the rows of \<open>auditLog\<close>; which of them a session sees and when they were written are arguments,
  and so are the server's reading of a time and of a UUID.
\<close>

section \<open>auth.ts\<close>

record LoginUser =
  lu_userId :: string
  lu_tenantId :: "string option"
  lu_role :: Role
  lu_hash :: string
  lu_active :: bool
  lu_tenantActive :: bool

record LoginDeps =
  ld_lookup :: "World \<Rightarrow> string \<Rightarrow> LoginUser list res"   \<comment> \<open>\<open>app.auth_login_lookup\<close>\<close>
  ld_compare :: "string \<Rightarrow> string \<Rightarrow> bool"               \<comment> \<open>\<open>bcrypt.compare\<close>\<close>
  ld_sign :: "UserClaims \<Rightarrow> string"                     \<comment> \<open>\<open>jwt.sign\<close>\<close>
  ld_uuid :: "nat \<Rightarrow> string"
  ld_accepts :: "AuditRow \<Rightarrow> bool"

text \<open>The reply has the token, which is also set as a cookie, and whether the cookie is a secure one.\<close>

datatype LoginReply = LoggedIn string bool | LoginFailed err

text \<open>\<open>auditLog(req as any, ...)\<close> takes the request for a context; a request has none of a context's fields.\<close>

definition request_fields :: RequestContext where
  "request_fields =
     \<lparr>cx_requestId = None, cx_userId = None, cx_tenantId = None, cx_role = None, cx_ip = None, cx_userAgent = None\<rparr>"

definition login_audit :: "LoginDeps \<Rightarrow> string \<Rightarrow> (string \<times> jsv) list \<Rightarrow> World \<Rightarrow> World" where
  "login_audit d action md w =
     fst (auditLog (ld_uuid d) (ld_accepts d) request_fields (event action ''auth'' None md) w)"

definition login_refused :: "LoginUser option \<Rightarrow> bool" where
  "login_refused user \<longleftrightarrow>
     (case user of None \<Rightarrow> True | Some u \<Rightarrow> \<not> lu_active u \<or> (\<not> lu_tenantActive u \<and> lu_role u \<noteq> DEVELOPER))"

definition login :: "LoginDeps \<Rightarrow> string option \<Rightarrow> string option \<Rightarrow> string option \<Rightarrow> World \<Rightarrow> World \<times> LoginReply" where
  "login d nodeEnv email password w =
     (if \<not> truthy email \<or> \<not> truthy password
      then (w, LoginFailed (App (app_error ''email and password required'' 400 ''BAD_REQUEST'')))
      else
        (case ld_lookup d w (toLowerCase (js_trim (the email))) of
           Inl _ \<Rightarrow> (w, LoginFailed (App (app_error ''Auth failed'' 500 ''AUTH_FAILED'')))
         | Inr rows \<Rightarrow>
             let user = (case rows of [] \<Rightarrow> None | u # _ \<Rightarrow> Some u)
             in if login_refused user
                then (login_audit d ''AUTH_DENY'' [(''reason'', VStr ''invalid_user'')] w,
                      LoginFailed (App (app_error ''Invalid credentials'' 401 ''AUTH_FAILED'')))
                else if \<not> ld_compare d (the password) (lu_hash (the user))
                then (login_audit d ''AUTH_DENY'' [(''reason'', VStr ''invalid_password'')] w,
                      LoginFailed (App (app_error ''Invalid credentials'' 401 ''AUTH_FAILED'')))
                else
                  let u = the user;
                      token = ld_sign d (issue_payload \<lparr>vt_userId = lu_userId u, vt_tenantId = lu_tenantId u, vt_role = lu_role u\<rparr>)
                  in (login_audit d ''LOGIN_SUCCESS'' [(''user_id'', VStr (lu_userId u))] w,
                      LoggedIn token (nodeEnv = Some ''production''))))"

section \<open>authMe.ts and health.ts\<close>

definition authMe :: "RequestContext \<Rightarrow> (string \<times> string option \<times> Role \<times> string option) res" where
  "authMe ctx =
     (if \<not> truthy (cx_userId ctx) \<or> cx_role ctx = None \<or> (\<not> truthy (cx_tenantId ctx) \<and> cx_role ctx \<noteq> Some DEVELOPER)
      then throw ''Not authenticated'' 401 ''AUTH_REQUIRED''
      else ok (the (cx_userId ctx), cx_tenantId ctx, the (cx_role ctx), cx_requestId ctx))"

definition healthCheck :: "(nat \<Rightarrow> string) \<Rightarrow> (AuditRow \<Rightarrow> bool) \<Rightarrow> RequestContext \<Rightarrow> World \<Rightarrow> World" where
  "healthCheck uuid accepts ctx w =
     (if truthy (cx_tenantId ctx) \<and> truthy (cx_userId ctx)
      then fst (auditLog uuid accepts ctx \<lparr>ev_action = ''HEALTH_CHECK'', ev_objectType = ''system'', ev_objectId = None, ev_metadata = None\<rparr> w)
      else w)"

section \<open>audit.ts\<close>

record AuditDeps =
  au_uuid :: "nat \<Rightarrow> string"
  au_accepts :: "AuditRow \<Rightarrow> bool"
  au_sees :: "World \<Rightarrow> AuditRow \<Rightarrow> bool"
  au_created :: "string \<Rightarrow> int"              \<comment> \<open>\<open>created_at\<close> of a row by its id, in microseconds\<close>
  au_time :: "string \<Rightarrow> int option"          \<comment> \<open>the server's \<open>timestamptz\<close> of a text\<close>
  au_id :: "string \<Rightarrow> string option"         \<comment> \<open>the server's \<open>uuid\<close> of a text\<close>

record AuditQuery =
  aq_limit :: "string option"
  aq_cursor :: "string option"
  aq_action :: "string option"
  aq_user :: "string option"
  aq_start :: "string option"
  aq_finish :: "string option"

text \<open>\<open>Math.min(Number(limit) || 50, 200)\<close>, if it is a whole number that LIMIT and the next cursor allow; with any
  other number the statement or the cursor fails.\<close>

definition page_size :: "string option \<Rightarrow> nat option" where
  "page_size q =
     (case q of
        None \<Rightarrow> Some 50
      | Some s \<Rightarrow>
          (case js_Number s of
             NaN \<Rightarrow> Some 50
           | PosInf \<Rightarrow> Some 200
           | NegInf \<Rightarrow> None
           | Fin x \<Rightarrow>
               if x = 0 then Some 50
               else if 200 \<le> x then Some 200
               else if x < 1 \<or> x \<noteq> of_int \<lfloor>x\<rfloor> then None
               else Some (nat \<lfloor>x\<rfloor>)))"

definition audit_key :: "AuditDeps \<Rightarrow> AuditRow \<Rightarrow> int \<times> string" where
  "audit_key d r = (au_created d (ar_id r), ar_id r)"

text \<open>\<open>(created_at, audit_id) < (t, i)\<close>; with no id in the cursor the second part is null.\<close>

definition before_cursor :: "AuditDeps \<Rightarrow> int \<times> string option \<Rightarrow> AuditRow \<Rightarrow> bool" where
  "before_cursor d c r \<longleftrightarrow>
     (case c of (t, Some i) \<Rightarrow> audit_key d r < (t, i) | (t, None) \<Rightarrow> au_created d (ar_id r) < t)"

definition invalid_input :: "string \<Rightarrow> 'a res" where
  "invalid_input s = Inl (Pg (InvalidInput s))"

definition parse_time :: "AuditDeps \<Rightarrow> string \<Rightarrow> int res" where
  "parse_time d s = (case au_time d s of None \<Rightarrow> invalid_input s | Some t \<Rightarrow> ok t)"

definition parse_cursor :: "AuditDeps \<Rightarrow> string \<Rightarrow> (int \<times> string option) res" where
  "parse_cursor d c =
     (case js_split c ''|'' of
        time # i # _ \<Rightarrow>
          res_bind (parse_time d time) (\<lambda>t. case au_id d i of None \<Rightarrow> invalid_input i | Some u \<Rightarrow> ok (t, Some u))
      | [time] \<Rightarrow> res_bind (parse_time d time) (\<lambda>t. ok (t, None))
      | [] \<Rightarrow> invalid_input c)"

text \<open>The WHERE clause for a cursor: none without one.\<close>

definition cursor_filter :: "AuditDeps \<Rightarrow> string option \<Rightarrow> (AuditRow \<Rightarrow> bool) res" where
  "cursor_filter d cursor =
     (if truthy cursor then res_bind (parse_cursor d (the cursor)) (\<lambda>c. ok (before_cursor d c)) else ok (\<lambda>_. True))"

definition time_filter :: "AuditDeps \<Rightarrow> (int \<Rightarrow> int \<Rightarrow> bool) \<Rightarrow> string option \<Rightarrow> (AuditRow \<Rightarrow> bool) res" where
  "time_filter d cmp bound =
     (if truthy bound then res_bind (parse_time d (the bound)) (\<lambda>t. ok (\<lambda>r. cmp (au_created d (ar_id r)) t)) else ok (\<lambda>_. True))"

definition equals_filter :: "(AuditRow \<Rightarrow> string) \<Rightarrow> string option \<Rightarrow> AuditRow \<Rightarrow> bool" where
  "equals_filter f v r \<longleftrightarrow> \<not> truthy v \<or> v = Some (f r)"

definition newest_audits :: "AuditDeps \<Rightarrow> AuditRow list \<Rightarrow> AuditRow list" where
  "newest_audits d rows = js_sort (\<lambda>a b. audit_key d b \<le> audit_key d a) rows"

text \<open>A JavaScript date has milliseconds.\<close>

definition cursor_text :: "AuditDeps \<Rightarrow> AuditRow \<Rightarrow> string" where
  "cursor_text d r = toISOString (au_created d (ar_id r) div 1000) @ ''|'' @ ar_id r"

text \<open>The statement for one page and what is made of its rows: the page and the next cursor.\<close>

definition audit_page :: "AuditDeps \<Rightarrow> nat \<Rightarrow> (AuditRow \<Rightarrow> bool) \<Rightarrow> string option \<Rightarrow> AuditRow list \<Rightarrow> (AuditRow list \<times> string option) res" where
  "audit_page d limit scope cursor rows =
     res_bind (cursor_filter d cursor) (\<lambda>before.
       let found = take (limit + 1) (newest_audits d (filter (\<lambda>r. scope r \<and> before r) rows))
       in ok (take limit found, if limit < length found then Some (cursor_text d (found ! limit)) else None))"

definition audit_scope :: "RequestContext \<Rightarrow> string option \<Rightarrow> string list \<Rightarrow> AuditRow \<Rightarrow> bool" where
  "audit_scope ctx groupId members r \<longleftrightarrow>
     cx_role ctx = Some DEVELOPER \<or>
     (if cx_role ctx = Some DEALERADMIN \<and> truthy groupId then ar_tenant r \<in> set members
      else cx_tenantId ctx = Some (ar_tenant r))"

datatype AuditReply = AuditFailed Response | AuditListed "AuditRow list" "string option"

definition listAudit :: "AuditDeps \<Rightarrow> RequestContext \<Rightarrow> AuditQuery \<Rightarrow> World \<Rightarrow> World \<times> AuditReply" where
  "listAudit d ctx q w =
     (if missing_context ctx then (w, AuditFailed (err_response 400 (Some ''CTX_MISSING'') ''Missing context''))
      else
        (case withRequestContext ctx
           (bind (if truthy (cx_tenantId ctx) then group_of (cx_tenantId ctx) else ret None) (\<lambda>groupId.
            bind (if truthy groupId then group_tenants (the groupId) else ret []) (\<lambda>members.
            bind (lift (case page_size (aq_limit q) of None \<Rightarrow> invalid_input (the (aq_limit q)) | Some k \<Rightarrow> ok k)) (\<lambda>limit.
            bind (lift (time_filter d (\<ge>) (aq_start q))) (\<lambda>since.
            bind (lift (time_filter d (\<le>) (aq_finish q))) (\<lambda>until.
              \<lambda>w. lift (audit_page d limit
                     (\<lambda>r. au_sees d w r \<and> audit_scope ctx groupId members r \<and> equals_filter (ev_action \<circ> ar_event) (aq_action q) r \<and>
                          equals_filter ar_user (aq_user q) r \<and> since r \<and> until r)
                     (aq_cursor q) (w_audit w)) w)))))) w of
           (w', Inl _) \<Rightarrow> (w', AuditFailed (err_response 500 (Some ''AUDIT_READ_FAILED'') ''Failed to fetch audit logs''))
         | (w', Inr (rows, next)) \<Rightarrow>
             (fst (auditLog (au_uuid d) (au_accepts d) ctx
                     \<lparr>ev_action = ''AUDIT_LIST'', ev_objectType = ''audit'', ev_objectId = None, ev_metadata = None\<rparr> w'),
              AuditListed rows next)))"

section \<open>secretsProvider.ts\<close>

text \<open>A provider: a key vault by its URL with the token it holds, or the process environment.\<close>

datatype SecretsProvider = KeyVault string "string option" | LocalEnv

datatype SecretReply = SecretStatus nat | SecretValue "string option"

definition strip_slashes :: "string \<Rightarrow> string" where
  "strip_slashes s = rev (dropWhile (\<lambda>c. c = CHR ''/'') (rev s))"

definition getSecretsProvider :: "(string \<Rightarrow> string option) \<Rightarrow> SecretsProvider res" where
  "getSecretsProvider env =
     (if toLowerCase (or_else (env ''SECRETS_PROVIDER'') []) = ''azure_key_vault''
      then if \<not> truthy (env ''AZURE_KEY_VAULT_URL'') then Inl (Js ''Azure Key Vault not configured'')
           else ok (KeyVault (strip_slashes (the (env ''AZURE_KEY_VAULT_URL''))) (env ''AZURE_KEY_VAULT_TOKEN''))
      else ok LocalEnv)"

text \<open>\<open>getToken\<close> with the reply of the identity endpoint.\<close>

definition vault_token :: "TokenReply \<Rightarrow> string option \<Rightarrow> string res" where
  "vault_token msi token =
     (if truthy token then ok (the token)
      else (case msi of
          TokenStatus st \<Rightarrow> Inl (Js (''MSI token fetch failed: '' @ digits_of (int st)))
        | TokenFields access _ _ \<Rightarrow>
            if \<not> truthy access then Inl (Js ''MSI token missing access_token'') else ok (the access)))"

text \<open>\<open>get\<close> and the value of \<open>getKeyRef\<close>: \<open>vault\<close> answers a request for a secret with a URL, a name and a token.\<close>

definition get_secret ::
  "(string \<Rightarrow> string option) \<Rightarrow> TokenReply \<Rightarrow> (string \<Rightarrow> string \<Rightarrow> string \<Rightarrow> SecretReply) \<Rightarrow> string \<Rightarrow> string \<Rightarrow>
   SecretsProvider \<Rightarrow> SecretsProvider \<times> string res" where
  "get_secret env msi vault missing name provider =
     (case provider of
        LocalEnv \<Rightarrow> (provider, if truthy (env name) then ok (the (env name)) else Inl (Js missing))
      | KeyVault url token \<Rightarrow>
          (case vault_token msi token of
             Inl e \<Rightarrow> (provider, Inl e)
           | Inr t \<Rightarrow>
               (KeyVault url (Some t),
                case vault url name t of
                  SecretStatus st \<Rightarrow> Inl (Js (''Key Vault secret fetch failed: '' @ digits_of (int st)))
                | SecretValue v \<Rightarrow> if truthy v then ok (the v) else Inl (Js ''Key Vault secret missing value''))))"

end
