(* ===== verification/GatewayFacts.thy ===== *)
theory GatewayFacts
  imports Gateway TenantFacts
begin

text \<open>
  What a request that gets through the gateway's middleware is known to be, the bound of the rate limiter
  on any interval of one window's length, and the environment the gateway starts with.
\<close>

section \<open>Chains\<close>

lemma chain_Next:
  "chain (m # ms) gw now req g = (g', Next req') \<longleftrightarrow>
     (\<exists>g1 r1. m gw now req g = (g1, Next r1) \<and> chain ms gw now r1 g1 = (g', Next req'))"
  by (auto split: prod.splits Step.splits)

lemma chain_Nil [simp]: "chain [] gw now req g = (g', Next req') \<longleftrightarrow> g' = g \<and> req' = req"
  by auto

lemma reply_not_Next [simp]: "reply a b c \<noteq> Next r" "Next r \<noteq> reply a b c" "login_redirect q \<noteq> Next r"
  by (simp_all add: reply_def login_redirect_def)

lemma audit_tables [simp]: "w_tables (fst (auditLog u acc ctx ev w)) = w_tables w"
  by (simp add: auditLog_def Let_def)

text \<open>Each middleware keeps the request, except for the context that the two authentications write.\<close>

lemma tenantGuard_Next:
  assumes "tenantGuard gw now req g = (g', Next req')" "rq_path req \<noteq> ''/health''"
  shows "req' = req \<and> (cx_role (rq_context req) = Some DEVELOPER \<or>
    (truthy (cx_tenantId (rq_context req)) \<and>
     (\<exists>r \<in> set (w_tables (g_world g) ''app.tenants'').
        col r ''tenant_id'' = sql_text (cx_tenantId (rq_context req)) \<and> col r ''is_active'' \<noteq> SBool False)))"
proof (cases "cx_role (rq_context req) = Some DEVELOPER")
  case True
  then show ?thesis using assms by (simp add: tenantGuard_def Let_def)
next
  case False
  let ?ctx = "rq_context req" and ?p = "\<lambda>r. col r ''tenant_id'' = sql_text (cx_tenantId (rq_context req))"
  obtain w rows where q: "withRequestContext ?ctx (db_select ''app.tenants'' ?p) (g_world g) = (w, Inr rows)"
    and t: "truthy (cx_tenantId ?ctx)" and r: "rows \<noteq> []" "col (hd rows) ''is_active'' \<noteq> SBool False" and same: "req' = req"
    using assms False by (auto simp: tenantGuard_def Let_def split: if_splits prod.splits sum.splits)
  have sub: "set xs \<subseteq> {r \<in> set (w_tables v ''app.tenants''). ?p r}"
    if "db_select ''app.tenants'' ?p v = (v', Inr xs)" for v v' xs
    using that by (auto simp: db_select_def guard_tx_def visible_def split: if_splits)
  have keep: "set_config a b v = (v', Inr u) \<Longrightarrow> w_tables v' = w_tables v" for a b v v' u
    by (auto simp: set_config_def guard_tx_def split: if_splits)
  have "set rows \<subseteq> {r \<in> set (w_tables (g_world g) ''app.tenants''). ?p r}"
    using q by (auto simp: withRequestContext_def setRlsContext_def withTenantContext_def Let_def bind_ok lift_def io_throw_def throw_def
        split: if_splits dest!: keep sub)
  then show ?thesis using r t same hd_in_set [OF r(1)] by blast
qed

lemma rbacGuard_Next:
  assumes "rbacGuard gw now req g = (g', Next req')" "rq_path req \<noteq> ''/health''"
  shows "req' = req \<and> (\<exists>role. cx_role (rq_context req) = Some role \<and> isAllowed (rq_method req) (rq_path req) role)"
  using assms by (auto simp: rbacGuard_def Let_def split: if_splits option.splits)

lemma policy_Next:
  assumes "policyMiddleware gw now req g = (g', Next req')" "rq_path req \<noteq> ''/health''"
  shows "req' = req \<and> truthy (cx_tenantId (rq_context req)) \<and>
    evaluatePolicy (rq_context req) (actionForPath (rq_method req) (rq_path req)) = ok None"
  using assms by (auto simp: policyMiddleware_def Let_def split: if_splits option.splits sum.splits)

lemma rls_Next:
  assumes "rlsContext gw now req g = (g', Next req')" "rq_path req \<noteq> ''/health''"
  shows "req' = req \<and> truthy (cx_userId (rq_context req)) \<and> truthy (cx_requestId (rq_context req))"
  using assms by (auto simp: rlsContext_def Let_def split: if_splits)

lemma rate_Next:
  assumes "rateLimit gw now req g = (g', Next req')"
  shows "req' = req"
  using assms by (auto simp: rateLimit_def Let_def split: if_splits prod.splits)

lemma auth_Next:
  assumes "authContext gw now req g = (g', Next req')" "rq_path req \<noteq> ''/health''"
  shows "g' = g \<and> rq_path req' = rq_path req \<and> rq_method req' = rq_method req \<and> \<not> (production gw \<and> impersonates req) \<and>
    ((ec_devAuthBypass (gw_env gw) \<and> gw_nodeEnv gw = Some ''development'') \<or>
     (\<exists>v. verifyToken (gw_jwt gw) (the (request_token req)) = Inr v \<and> cx_userId (rq_context req') = Some (vt_userId v) \<and>
        cx_tenantId (rq_context req') = vt_tenantId v \<and> cx_role (rq_context req') = Some (vt_role v)))"
  using assms by (auto simp: authContext_def Let_def split: if_splits sum.splits)

text \<open>What the guards behind an authentication establish.\<close>

definition guards :: "middleware list" where
  "guards = [tenantGuard, rbacGuard, policyMiddleware, rlsContext, rateLimit]"

lemma guards_Next:
  assumes "chain guards gw now req g = (g', Next req')" "rq_path req \<noteq> ''/health''"
  shows "req' = req \<and> hasRlsContext (rq_context req) \<and>
    (\<exists>role. cx_role (rq_context req) = Some role \<and> isAllowed (rq_method req) (rq_path req) role) \<and>
    evaluatePolicy (rq_context req) (actionForPath (rq_method req) (rq_path req)) = ok None \<and>
    (cx_role (rq_context req) = Some DEVELOPER \<or>
     (\<exists>r \<in> set (w_tables (g_world g) ''app.tenants'').
        col r ''tenant_id'' = sql_text (cx_tenantId (rq_context req)) \<and> col r ''is_active'' \<noteq> SBool False))"
proof -
  obtain g1 r1 g2 r2 g3 r3 g4 r4 where
    a: "tenantGuard gw now req g = (g1, Next r1)" and b: "rbacGuard gw now r1 g1 = (g2, Next r2)"
    and c: "policyMiddleware gw now r2 g2 = (g3, Next r3)" and d: "rlsContext gw now r3 g3 = (g4, Next r4)"
    and e: "rateLimit gw now r4 g4 = (g', Next req')"
    using assms(1) unfolding guards_def chain_Next chain_Nil by auto
  note ta = tenantGuard_Next [OF a assms(2)]
  then have r1: "r1 = req" by blast
  note tb = rbacGuard_Next [OF b [unfolded r1] assms(2)]
  then have r2: "r2 = req" by blast
  note tc = policy_Next [OF c [unfolded r2] assms(2)]
  then have r3: "r3 = req" by blast
  note td = rls_Next [OF d [unfolded r3] assms(2)]
  then have r4: "r4 = req" by blast
  have "req' = req" using rate_Next [OF e] r4 by simp
  moreover have "hasRlsContext (rq_context req)" using tb tc td by (auto simp: hasRlsContext_def)
  ultimately show ?thesis using ta tb tc by blast
qed

lemma protected_guards:
  "protectedChain gw now req g = (g', Next req') \<longleftrightarrow>
     (\<exists>g1 r1. authContext gw now req g = (g1, Next r1) \<and> chain guards gw now r1 g1 = (g', Next req'))"
  "ingestChain gw now req g = (g', Next req') \<longleftrightarrow>
     (\<exists>g1 r1. ingestAadAuth gw now req g = (g1, Next r1) \<and> chain guards gw now r1 g1 = (g', Next req'))"
  unfolding protectedChain_def ingestChain_def guards_def by (rule chain_Next)+

text \<open>C21: a request for another path than \<open>/health\<close> that reaches a protected handler carries the user, tenant and role of a token that
  verifies (or of the development bypass), names no other tenant in a header in production, has a role
  that the rules allow for its method and path, passes the policy, and its tenant is active unless the
  role is DEVELOPER.\<close>

theorem protected_requests_are_authorised:
  assumes "protectedChain gw now req g = (g', Next req')" "rq_path req \<noteq> ''/health''"
  shows "let ctx = rq_context req' in
    hasRlsContext ctx \<and> isAllowed (rq_method req) (rq_path req) (the (cx_role ctx)) \<and>
    evaluatePolicy ctx (actionForPath (rq_method req) (rq_path req)) = ok None \<and>
    \<not> (production gw \<and> impersonates req) \<and>
    (cx_role ctx = Some DEVELOPER \<or>
     (\<exists>r \<in> set (w_tables (g_world g) ''app.tenants''). col r ''tenant_id'' = sql_text (cx_tenantId ctx) \<and> col r ''is_active'' \<noteq> SBool False)) \<and>
    ((ec_devAuthBypass (gw_env gw) \<and> gw_nodeEnv gw = Some ''development'') \<or>
     (\<exists>v. verifyToken (gw_jwt gw) (the (request_token req)) = Inr v \<and>
        cx_userId ctx = Some (vt_userId v) \<and> cx_tenantId ctx = vt_tenantId v \<and> cx_role ctx = Some (vt_role v)))"
proof -
  obtain g1 r1 where a: "authContext gw now req g = (g1, Next r1)" and c: "chain guards gw now r1 g1 = (g', Next req')"
    using assms(1) unfolding protected_guards by blast
  note t = auth_Next [OF a assms(2)]
  then have "rq_path r1 \<noteq> ''/health''" using assms(2) by simp
  note u = guards_Next [OF c this]
  then have "isAllowed (rq_method req) (rq_path req) (the (cx_role (rq_context req')))" using t by auto
  then show ?thesis using t u by (auto simp: Let_def)
qed

definition sample_env :: EnvConfig where
  "sample_env =
     \<lparr>ec_databaseUrl = ''db'', ec_port = 3000, ec_rateLimitWindowSec = 60, ec_rateLimitMax = 2, ec_maxUploadBytes = 1,
      ec_ingestAadAudience = ''aud'', ec_ingestAllowedCallerObjectIds = [''caller''], ec_azureSubscriptionId = ''s'',
      ec_azureResourceGroup = ''g'', ec_azureStorageAccountName = ''a'', ec_azureStorageContainerName = ''ro-ingest-raw'',
      ec_azureArmApiVersion = ''v'', ec_publicSftpHostname = ''h'', ec_azureOpenAiEndpoint = ''e'', ec_azureOpenAiApiKey = ''k'',
      ec_azureOpenAiEmbeddingDeployment = ''d'', ec_azureOpenAiApiVersion = ''v'', ec_azureOpenAiChatEndpoint = None,
      ec_azureOpenAiChatDeployment = None, ec_azureOpenAiChatApiVersion = None, ec_azureOpenAiChatApiKey = None,
      ec_ragLlmEnabled = False, ec_ragLlmMaxTokens = 350, ec_ragLlmTemperature = 1, ec_jwtSecret = ''j'',
      ec_jwtExpiresIn = ''1h'', ec_devAuthBypass = False, ec_devAuthTokenAdmin = ''t'', ec_devUserIdAdmin = ''u'',
      ec_devTenantIdAdmin = ''t''\<rparr>"

abbreviation tenant_a :: string where "tenant_a \<equiv> ''00000000-0000-0000-0000-00000000000a''"

text \<open>A gateway whose tokens \<open>user\<close> and \<open>staff\<close> belong to a user and an admin of one tenant, and whose
  key endpoint has one key, with which the token \<open>caller\<close> verifies.\<close>

definition sample_gw :: Gw where
  "sample_gw =
     \<lparr>gw_env = sample_env, gw_nodeEnv = Some ''production'', gw_uuid = (\<lambda>n. ''id''), gw_accepts = (\<lambda>_. True),
      gw_jwt = (\<lambda>t. if t = ''user'' then Some \<lparr>uc_user = Some ''u'', uc_role = Some USER, uc_tenant = Some tenant_a\<rparr>
                    else if t = ''staff'' then Some \<lparr>uc_user = Some ''s'', uc_role = Some ADMIN, uc_tenant = Some tenant_a\<rparr> else None),
      gw_kid = (\<lambda>t. Some ''kid''),
      gw_rs256 = (\<lambda>t k a. if t = ''caller'' \<and> k = ''key'' then
          Some \<lparr>ac_oid = Some ''Caller'', ac_tid = Some ''tid'', ac_iss = Some ''https://sts.windows.net/tid/'', ac_aud = Some (AudOne a)\<rparr> else None),
      gw_createKey = (\<lambda>k. Some ''key''),
      gw_jwks = (\<lambda>n. ok [\<lparr>jk_kid = ''kid'', jk_kty = ''RSA'', jk_n = ''n'', jk_e = ''e''\<rparr>])\<rparr>"

definition sample_gate :: Gate where
  "sample_gate =
     \<lparr>g_world = sample_world\<lparr>w_tables := (\<lambda>t. if t = ''app.tenants'' then
          [[(''tenant_id'', SText tenant_a), (''is_active'', SBool True), (''pii_enabled'', SBool True)]] else [])\<rparr>,
      g_buckets = [], g_jwks = None, g_jwksExpires = 0, g_fetches = 0\<rparr>"

definition no_context :: RequestContext where
  "no_context = \<lparr>cx_requestId = Some ''r'', cx_userId = None, cx_tenantId = None, cx_role = None, cx_ip = None, cx_userAgent = None\<rparr>"

definition sample_request :: "string \<Rightarrow> string \<Rightarrow> string \<Rightarrow> Request" where
  "sample_request token m p =
     \<lparr>rq_method = m, rq_path = p, rq_header = (\<lambda>h. if h = ''authorization'' then Some (''Bearer '' @ token) else None),
      rq_ip = None, rq_bodyTenant = Some tenant_a, rq_context = no_context\<rparr>"

definition next_context :: "Gate \<times> Step \<Rightarrow> RequestContext option" where
  "next_context r = (case snd r of Next q \<Rightarrow> Some (rq_context q) | _ \<Rightarrow> None)"

lemma next_contextD: "next_context r = Some c \<Longrightarrow> \<exists>g q. r = (g, Next q) \<and> rq_context q = c"
  by (cases r) (auto simp: next_context_def split: Step.splits)

theorem protected_witness:
  "\<exists>g' req'. protectedChain sample_gw 0 (sample_request ''user'' ''GET'' ''/chat/conversations'') sample_gate = (g', Next req') \<and>
     hasRlsContext (rq_context req')"
proof -
  let ?q = "sample_request ''user'' ''GET'' ''/chat/conversations''"
  have "next_context (protectedChain sample_gw 0 ?q sample_gate) =
      Some (no_context\<lparr>cx_userId := Some ''u'', cx_tenantId := Some tenant_a, cx_role := Some USER\<rparr>)" by code_simp
  then obtain g' req' where n: "protectedChain sample_gw 0 ?q sample_gate = (g', Next req')" using next_contextD by blast
  have "rq_path ?q \<noteq> ''/health''" by (simp add: sample_request_def)
  from protected_requests_are_authorised [OF n this] n show ?thesis by (auto simp: Let_def)
qed

section \<open>The ingest endpoint\<close>

lemma ingest_auth_Next:
  assumes "ingestAadAuth gw now req g = (g', Next req')"
  shows "\<exists>g1 c. verifyIngestAadToken gw now (the (parseBearerToken (rq_header req ''authorization''))) (ec_ingestAadAudience (gw_env gw)) g = (g1, Inr c) \<and>
      toLowerCase (ia_oid c) \<in> set (ec_ingestAllowedCallerObjectIds (gw_env gw)) \<and>
      rq_path req' = rq_path req \<and> rq_method req' = rq_method req \<and> cx_userId (rq_context req') = Some (ia_oid c) \<and>
      cx_tenantId (rq_context req') = rq_bodyTenant req \<and> cx_role (rq_context req') = Some ADMIN \<and>
      (\<forall>t. w_tables (g_world g') t = w_tables (g_world g1) t)"
  using assms by (auto simp: ingestAadAuth_def Let_def audited_def split: if_splits prod.splits sum.splits)

text \<open>The cache of keys is always what some fetch from the key endpoint gave.\<close>

definition keys_sound :: "Gw \<Rightarrow> Gate \<Rightarrow> bool" where
  "keys_sound gw g \<longleftrightarrow>
     (case g_jwks g of
        None \<Rightarrow> True
      | Some m \<Rightarrow> \<exists>n keys. gw_jwks gw n = Inr keys \<and> m = buildKeyCache (gw_createKey gw) keys)"

lemma keys_sound_cong: "g_jwks g' = g_jwks g \<Longrightarrow> keys_sound gw g' = keys_sound gw g"
  by (simp add: keys_sound_def)

lemma keys_soundI: "g_jwks g = Some (buildKeyCache (gw_createKey gw) keys) \<Longrightarrow> gw_jwks gw n = Inr keys \<Longrightarrow> keys_sound gw g"
  unfolding keys_sound_def by auto

lemma refresh_sound: "keys_sound gw g \<Longrightarrow> refresh_keys gw now g = (g', r) \<Longrightarrow> keys_sound gw g'"
proof (cases "gw_jwks gw (g_fetches g)")
  case (Inl e)
  then show "keys_sound gw g \<Longrightarrow> refresh_keys gw now g = (g', r) \<Longrightarrow> keys_sound gw g'"
    by (auto simp: refresh_keys_def keys_sound_def)
next
  case (Inr keys)
  then show "refresh_keys gw now g = (g', r) \<Longrightarrow> keys_sound gw g'"
    by (intro keys_soundI [OF _ Inr]) (auto simp: refresh_keys_def)
qed

lemma key_sound:
  assumes "keys_sound gw g" "getKeyForKid gw now kid g = (g', r)"
  shows "keys_sound gw g' \<and> (case r of Inl _ \<Rightarrow> True | Inr k \<Rightarrow> cached_key g' kid = Some k)"
proof -
  obtain g1 u where g1: "(if g_jwks g = None \<or> now \<ge> g_jwksExpires g then refresh_keys gw now g else (g, ok ())) = (g1, u)"
    by fastforce
  then have f: "keys_sound gw g1" using assms(1) refresh_sound [of gw g now g1 u] by (auto split: if_splits)
  obtain g2 v where g2: "refresh_keys gw now g1 = (g2, v)" by fastforce
  then have "keys_sound gw g2" using f refresh_sound by blast
  then show ?thesis using assms(2) f unfolding getKeyForKid_def g1 prod.case g2
    by (auto split: sum.splits option.splits)
qed

lemma ingest_auth_sound:
  assumes "keys_sound gw g"
  shows "keys_sound gw (fst (ingestAadAuth gw now req g))"
proof -
  have same: "keys_sound gw (audited gw ctx ev g1) = keys_sound gw g1" for ctx ev g1
    by (simp add: keys_sound_def audited_def)
  have v: "keys_sound gw g1" if "verifyIngestAadToken gw now token aud g = (g1, r)" for token aud g1 r
    using that assms key_sound [OF assms, of now "the (gw_kid gw token)"]
    by (auto simp: verifyIngestAadToken_def split: if_splits prod.splits sum.splits option.splits)
  show ?thesis
    using assms v by (auto simp: ingestAadAuth_def Let_def same split: prod.split sum.split)
qed

lemma keeps_keys:
  "g_jwks (fst (requestId gw now req g)) = g_jwks g" "g_jwks (fst (authContext gw now req g)) = g_jwks g"
  "g_jwks (fst (tenantGuard gw now req g)) = g_jwks g" "g_jwks (fst (rbacGuard gw now req g)) = g_jwks g"
  "g_jwks (fst (policyMiddleware gw now req g)) = g_jwks g" "g_jwks (fst (rlsContext gw now req g)) = g_jwks g"
  "g_jwks (fst (rateLimit gw now req g)) = g_jwks g"
  by (simp_all add: requestId_def authContext_def tenantGuard_def rbacGuard_def policyMiddleware_def rlsContext_def
      rateLimit_def audited_def Let_def split: option.split prod.split sum.split)

lemma chain_sound:
  "(\<And>m req g. m \<in> set ms \<Longrightarrow> keys_sound gw g \<Longrightarrow> keys_sound gw (fst (m gw now req g))) \<Longrightarrow>
     keys_sound gw g \<Longrightarrow> keys_sound gw (fst (chain ms gw now req g))"
proof (induction ms arbitrary: req g)
  case (Cons m ms)
  have "keys_sound gw (fst (m gw now req g))" by (rule Cons.prems) (simp_all add: Cons.prems(2))
  then show ?case using Cons.IH Cons.prems(1) by (auto split: prod.split Step.split)
qed simp

text \<open>The state of the gateway after it has served requests, each with the clock it was served at and with what its handler,
  or anything else, then did to the world.\<close>

fun serve_all :: "Gw \<Rightarrow> (int \<times> Request \<times> (World \<Rightarrow> World)) list \<Rightarrow> Gate \<Rightarrow> Gate" where
  "serve_all gw [] g = g"
| "serve_all gw ((now, req, effect) # xs) g =
     (let g' = fst (serve gw now req g) in serve_all gw xs (g'\<lparr>g_world := effect (g_world g')\<rparr>))"

lemma serve_sound: "keys_sound gw g \<Longrightarrow> keys_sound gw (fst (serve gw now req g))"
proof -
  assume k: "keys_sound gw g"
  have c: "keys_sound gw (fst (ingestChain gw now q h))" "keys_sound gw (fst (protectedChain gw now q h))" if "keys_sound gw h" for q h
    unfolding ingestChain_def protectedChain_def
    by (rule chain_sound [OF _ that]; auto simp: ingest_auth_sound keys_sound_cong [OF keeps_keys(2)]
        keys_sound_cong [OF keeps_keys(3)] keys_sound_cong [OF keeps_keys(4)] keys_sound_cong [OF keeps_keys(5)]
        keys_sound_cong [OF keeps_keys(6)] keys_sound_cong [OF keeps_keys(7)])+
  have "keys_sound gw (fst (requestId gw now req g))" using k by (simp add: keys_sound_def keeps_keys)
  then show ?thesis using c by (auto simp: serve_def split: prod.split Step.split)
qed

lemma serve_all_sound: "keys_sound gw g \<Longrightarrow> keys_sound gw (serve_all gw xs g)"
proof (induction gw xs g rule: serve_all.induct)
  case (2 gw now req effect xs g)
  let ?g = "fst (serve gw now req g)"
  have "keys_sound gw ?g" by (rule serve_sound [OF 2(2)])
  then have "keys_sound gw (?g\<lparr>g_world := effect (g_world ?g)\<rparr>)" by (simp add: keys_sound_def)
  then show ?case using 2(1) [OF refl] by (simp add: Let_def)
qed simp

lemma check_claims_ok: "check_claims c = Inr v \<Longrightarrow> ac_oid c = Some (ia_oid v) \<and> ia_oid v \<noteq> []"
  by (auto simp: check_claims_def Let_def str_or_empty_def split: if_splits option.splits)

text \<open>C22: whatever was served before, an ingest request that reaches its handler came with a token that verifies for the configured
  audience under a key which the key endpoint gave for the token's key id; the token's caller is on the
  allow list and acts as an admin of the tenant that the body names.\<close>

theorem ingest_callers_are_allowlisted:
  assumes "ingestChain gw now req g = (g', Next req')" "rq_path req \<noteq> ''/health''" "g = serve_all gw before g0" "g_jwks g0 = None"
  shows "\<exists>token n keys key claims oid.
    parseBearerToken (rq_header req ''authorization'') = Some token \<and> gw_jwks gw n = Inr keys \<and>
    map_of (buildKeyCache (gw_createKey gw) keys) (the (gw_kid gw token)) = Some key \<and>
    gw_rs256 gw token key (ec_ingestAadAudience (gw_env gw)) = Some claims \<and> ac_oid claims = Some oid \<and>
    toLowerCase oid \<in> set (ec_ingestAllowedCallerObjectIds (gw_env gw)) \<and>
    cx_userId (rq_context req') = Some oid \<and> cx_role (rq_context req') = Some ADMIN \<and>
    cx_tenantId (rq_context req') = rq_bodyTenant req \<and> truthy (rq_bodyTenant req)"
proof -
  have "keys_sound gw g0" using assms(4) by (simp add: keys_sound_def)
  then have sound: "keys_sound gw g" unfolding assms(3) by (rule serve_all_sound)
  obtain g1 r1 where a: "ingestAadAuth gw now req g = (g1, Next r1)" and c: "chain guards gw now r1 g1 = (g', Next req')"
    using assms(1) unfolding protected_guards by blast
  obtain token where tok: "parseBearerToken (rq_header req ''authorization'') = Some token"
    using a by (cases "parseBearerToken (rq_header req ''authorization'')") (auto simp: ingestAadAuth_def Let_def)
  obtain g2 v where v: "verifyIngestAadToken gw now token (ec_ingestAadAudience (gw_env gw)) g = (g2, Inr v)"
    and al: "toLowerCase (ia_oid v) \<in> set (ec_ingestAllowedCallerObjectIds (gw_env gw))"
    and r1: "rq_path r1 = rq_path req" "cx_userId (rq_context r1) = Some (ia_oid v)"
      "cx_tenantId (rq_context r1) = rq_bodyTenant req" "cx_role (rq_context r1) = Some ADMIN"
    using ingest_auth_Next [OF a] tok by auto
  obtain g3 key cl where k: "getKeyForKid gw now (the (gw_kid gw token)) g = (g3, Inr key)"
    and s: "gw_rs256 gw token key (ec_ingestAadAudience (gw_env gw)) = Some cl" and cc: "check_claims cl = Inr v"
    using v by (auto simp: verifyIngestAadToken_def split: if_splits prod.splits sum.splits option.splits)
  obtain m n keys where "g_jwks g3 = Some m" "map_of m (the (gw_kid gw token)) = Some key" "gw_jwks gw n = Inr keys"
    "m = buildKeyCache (gw_createKey gw) keys"
    using key_sound [OF sound k] by (auto simp: cached_key_def keys_sound_def split: option.splits)
  moreover have "req' = r1" "truthy (cx_tenantId (rq_context r1))"
    using guards_Next [OF c] r1(1) assms(2) by (simp_all add: hasRlsContext_def)
  ultimately show ?thesis using tok s al check_claims_ok [OF cc] r1 by auto
qed

theorem ingest_caller_witness:
  "\<exists>g' req'. ingestChain sample_gw 0 (sample_request ''caller'' ''POST'' ''/workloads/ro/ingest-from-storage'') sample_gate = (g', Next req') \<and>
     cx_role (rq_context req') = Some ADMIN"
proof -
  let ?q = "sample_request ''caller'' ''POST'' ''/workloads/ro/ingest-from-storage''"
  have "next_context (ingestChain sample_gw 0 ?q sample_gate) =
      Some (no_context\<lparr>cx_userId := Some ''Caller'', cx_tenantId := Some tenant_a, cx_role := Some ADMIN\<rparr>)" by code_simp
  then obtain g' req' where n: "ingestChain sample_gw 0 ?q sample_gate = (g', Next req')" using next_contextD by blast
  have h: "rq_path ?q \<noteq> ''/health''" "sample_gate = serve_all sample_gw [] sample_gate" "g_jwks sample_gate = None"
    by (simp_all add: sample_request_def sample_gate_def)
  from ingest_callers_are_allowlisted [OF n h] n show ?thesis by blast
qed

section \<open>The rate limit\<close>

text \<open>The times at which requests of one key were let through, of the times they came at.\<close>

fun admitted :: "rat \<Rightarrow> rat \<Rightarrow> (nat \<times> int) option \<Rightarrow> int list \<Rightarrow> int list" where
  "admitted window limit b [] = []"
| "admitted window limit b (u # us) =
     (let (b', go) = count_request window limit u b in (if go then [u] else []) @ admitted window limit (Some b') us)"

definition in_interval :: "rat \<Rightarrow> int \<Rightarrow> int \<Rightarrow> bool" where
  "in_interval window t u \<longleftrightarrow> t \<le> u \<and> of_int (u - t) < window"

abbreviation hits :: "rat \<Rightarrow> rat \<Rightarrow> int \<Rightarrow> (nat \<times> int) option \<Rightarrow> int list \<Rightarrow> nat" where
  "hits window limit t b us \<equiv> length (filter (in_interval window t) (admitted window limit b us))"

lemma admit_count: "of_nat n < limit \<Longrightarrow> int n + 1 \<le> \<lceil>limit\<rceil>"
  by (simp add: less_ceiling_iff add1_zle_eq)

lemma admitted_subset: "set (admitted window limit b us) \<subseteq> set us"
proof (induction us arbitrary: b)
  case (Cons u us)
  then show ?case by (fastforce simp: Let_def split: prod.split)
qed simp

lemma hits_after:
  assumes "\<And>v. v \<in> set us \<Longrightarrow> \<not> in_interval window t v"
  shows "hits window limit t b us = 0"
  using assms admitted_subset [of window limit b us] by (auto simp: filter_empty_conv)

lemma count_new: "of_int (u - s) \<ge> window \<Longrightarrow> count_request window limit u (Some (n, s)) = ((1, u), True)"
  by (simp add: count_request_def)

lemma admit_old:
  "\<not> of_int (u - s) \<ge> window \<Longrightarrow>
     count_request window limit u (Some (n, s)) = (if of_nat n < limit then ((n + 1, s), True) else ((n, s), False))"
  by (simp add: count_request_def)

text \<open>A window that starts inside of the interval covers the rest of it.\<close>

lemma hits_inside:
  assumes "sorted us" "t \<le> s" "int n \<le> \<lceil>limit\<rceil>"
  shows "int (hits window limit t (Some (n, s)) us) \<le> \<lceil>limit\<rceil> - int n"
  using assms
proof (induction us arbitrary: n s)
  case (Cons u us)
  show ?case
  proof (cases "of_int (u - s) \<ge> window")
    case True
    have "hits window limit t (Some (n, s)) (u # us) = 0"
    proof (rule hits_after)
      fix v
      assume "v \<in> set (u # us)"
      then have "u - s \<le> v - t" using Cons.prems(1,2) by auto
      then have "rat_of_int (u - s) \<le> rat_of_int (v - t)" by (simp only: of_int_le_iff)
      then show "\<not> in_interval window t v" using True by (simp add: in_interval_def)
    qed
    then show ?thesis using Cons.prems(3) by simp
  next
    case False
    then show ?thesis
      using Cons.IH [of s "n + 1"] Cons.IH [of s n] Cons.prems admit_count [of n limit]
      by (auto simp: admit_old Let_def)
  qed
qed simp

text \<open>From the start of the interval on: what is left of the running window, and one window more.\<close>

lemma hits_from:
  assumes "sorted us" "\<forall>u \<in> set us. t \<le> u" "int n \<le> \<lceil>limit\<rceil>" "0 < limit"
  shows "int (hits window limit t (Some (n, s)) us) \<le> 2 * \<lceil>limit\<rceil> - int n"
  using assms
proof (induction us arbitrary: n)
  case (Cons u us)
  have l: "1 \<le> \<lceil>limit\<rceil>" using Cons.prems(4) by simp
  show ?case
  proof (cases "of_int (u - s) \<ge> window")
    case True
    have "int (hits window limit t (Some (1, u)) us) \<le> \<lceil>limit\<rceil> - int 1"
      by (rule hits_inside) (use Cons.prems l in auto)
    then show ?thesis using Cons.prems(3) l by (auto simp: count_new [OF True] Let_def)
  next
    case False
    then show ?thesis
      using Cons.IH [of "n + 1"] Cons.IH [of n] Cons.prems admit_count [of n limit]
      by (auto simp: admit_old Let_def)
  qed
qed simp

lemma hits_some:
  assumes "sorted us" "1 \<le> n" "int n \<le> \<lceil>limit\<rceil>" "0 < limit"
  shows "int (hits window limit t (Some (n, s)) us) \<le> 2 * \<lceil>limit\<rceil> - 1"
  using assms
proof (induction us arbitrary: n s)
  case (Cons u us)
  have l: "1 \<le> \<lceil>limit\<rceil>" using Cons.prems(4) by simp
  show ?case
  proof (cases "t \<le> u")
    case True
    then have "\<forall>v \<in> set (u # us). t \<le> v" using Cons.prems(1) by auto
    from hits_from [OF Cons.prems(1) this Cons.prems(3,4), of window s] Cons.prems(2) show ?thesis by linarith
  next
    case False
    then have skip: "\<not> in_interval window t u" by (simp add: in_interval_def)
    have "int (hits window limit t (Some b) us) \<le> 2 * \<lceil>limit\<rceil> - 1"
      if "count_request window limit u (Some (n, s)) = (b, go)" for b go
      using that Cons.IH [of "1" u] Cons.IH [of "n + 1" s] Cons.IH [of n s] Cons.prems l admit_count [of n limit]
      by (auto simp: count_request_def split: if_splits)
    then show ?thesis using skip by (auto simp: Let_def split: prod.split)
  qed
qed simp

text \<open>C23: of the requests of one key, at whatever times they arrive, those let through in any interval of the
  length of a window are fewer than twice the limit.\<close>

theorem rate_limit_bounds_every_interval:
  assumes "sorted arrivals" "0 < limit"
  shows "int (length (filter (in_interval window t) (admitted window limit None arrivals))) < 2 * \<lceil>limit\<rceil>"
proof -
  have l: "1 \<le> \<lceil>limit\<rceil>" using assms(2) by simp
  show ?thesis
  proof (cases arrivals)
    case Nil
    then show ?thesis using l by simp
  next
    case (Cons u us)
    show ?thesis
    proof (cases "in_interval window t u")
      case True
      then have "int (hits window limit t (Some (1, u)) us) \<le> \<lceil>limit\<rceil> - int 1"
        by (intro hits_inside) (use assms Cons l in \<open>auto simp: in_interval_def\<close>)
      then show ?thesis using True l by (simp add: Cons count_request_def)
    next
      case False
      have "int (hits window limit t (Some (1, u)) us) \<le> 2 * \<lceil>limit\<rceil> - 1"
        by (rule hits_some) (use assms Cons l in auto)
      then show ?thesis using False by (simp add: Cons count_request_def)
    qed
  qed
qed

text \<open>Three of five requests around the end of a window, with a limit of two.\<close>

theorem rate_limit_witness:
  "filter (in_interval 60 59) (admitted 60 2 None [0, 59, 60, 61, 62]) = [59, 60, 61] \<and>
   int (length (filter (in_interval 60 59) (admitted 60 2 None [0, 59, 60, 61, 62]))) < 2 * \<lceil>2 :: rat\<rceil>"
proof
  show "filter (in_interval 60 59) (admitted 60 2 None [0, 59, 60, 61, 62]) = [59, 60, 61]" by code_simp
  show "int (length (filter (in_interval 60 59) (admitted 60 2 None [0, 59, 60, 61, 62]))) < 2 * \<lceil>2 :: rat\<rceil>"
    by (rule rate_limit_bounds_every_interval) simp_all
qed

end
