(* ===== verification/Chat.thy ===== *)
theory Chat
  imports Answering
begin

text \<open>
  http/routes/chat.ts: conversations and their messages. The clock is an argument (\<open>now\<close>, in milliseconds,
  with \<open>createdAt\<close> as its text); the defaults of the time columns are written out. A failed request keeps
  the answer contexts as they are at the failure.
\<close>

datatype ChatResult =
    ChatError Response
  | ChatRows "row list"
  | ChatCreated row
  | ChatDeleted
  | ChatAnswered string string "Match list" bool   \<comment> \<open>conversation, answer, sources, written by the chat endpoint\<close>

definition requireContext :: "RequestContext \<Rightarrow> unit res" where
  "requireContext ctx =
     (if hasRlsContext ctx then ok () else throw ''Missing request context'' 400 ''CTX_MISSING'')"

definition chat_caught :: "string \<Rightarrow> err \<Rightarrow> ChatResult" where
  "chat_caught msg e =
     ChatError (app_response (case e of App a \<Rightarrow> a | _ \<Rightarrow> \<lparr>ae_message = msg, ae_status = None, ae_code = None\<rparr>) 500)"

definition chat_catch :: "string \<Rightarrow> ChatResult io \<Rightarrow> ChatResult io" where
  "chat_catch msg m w = (case m w of (w', Inr r) \<Rightarrow> (w', Inr r) | (w', Inl e) \<Rightarrow> (w', Inr (chat_caught msg e)))"

definition own_conversation :: "RequestContext \<Rightarrow> string \<Rightarrow> row \<Rightarrow> bool" where
  "own_conversation ctx cid r \<longleftrightarrow>
     col r ''conversation_id'' = SText cid \<and> col r ''tenant_id'' = sql_text (cx_tenantId ctx) \<and> col r ''user_id'' = sql_text (cx_userId ctx)"

definition require_conversation :: "RequestContext \<Rightarrow> string \<Rightarrow> unit io" where
  "require_conversation ctx cid =
     bind (db_select ''chat.conversations'' (own_conversation ctx cid)) (\<lambda>rows.
       if rows = [] then io_throw ''Conversation not found'' 404 ''CHAT_NOT_FOUND'' else ret ())"

definition in_conversation :: "string \<Rightarrow> row \<Rightarrow> bool" where
  "in_conversation cid r \<longleftrightarrow> col r ''conversation_id'' = SText cid"

text \<open>The listed columns of a row.\<close>

definition pick :: "string list \<Rightarrow> row \<Rightarrow> row" where
  "pick cs r = map (\<lambda>c. (c, col r c)) cs"

definition listConversations :: "RequestContext \<Rightarrow> string option \<Rightarrow> ChatResult io" where
  "listConversations ctx limit =
     chat_catch ''Failed to list conversations''
       (bind (lift (requireContext ctx)) (\<lambda>_.
        withRequestContext ctx
          (bind (db_select ''chat.conversations'' (\<lambda>r. col r ''tenant_id'' = sql_text (cx_tenantId ctx) \<and> col r ''user_id'' = sql_text (cx_userId ctx))) (\<lambda>rows.
           bind (lift (limit_rows (listing_limit limit)
                         (js_sort (\<lambda>a b. int_of b ''last_message_at'' \<le> int_of a ''last_message_at'') rows))) (\<lambda>rows.
             ret (ChatRows (map (pick [''conversation_id'', ''title'', ''created_at'', ''last_message_at'']) rows)))))))"

definition insert_conversation :: "RequestContext \<Rightarrow> int \<Rightarrow> string \<Rightarrow> string \<Rightarrow> unit io" where
  "insert_conversation ctx now cid title =
     db_insert ''chat.conversations''
       [''conversation_id'', ''tenant_id'', ''user_id'', ''title'', ''created_at'', ''last_message_at''] 6
       [SText cid, sql_text (cx_tenantId ctx), sql_text (cx_userId ctx), SText title, SInt now, SInt now] None"

definition createConversation :: "(nat \<Rightarrow> string) \<Rightarrow> RequestContext \<Rightarrow> int \<Rightarrow> string option \<Rightarrow> ChatResult io" where
  "createConversation uuid ctx now title =
     chat_catch ''Failed to create conversation''
       (bind (lift (requireContext ctx)) (\<lambda>_.
        bind (draw_uuid uuid) (\<lambda>cid.
          let t = (if truthy (map_option js_trim title) then js_trim (the title) else ''New chat'')
          in withRequestContext ctx
               (bind (insert_conversation ctx now cid t) (\<lambda>_.
                  ret (ChatCreated [(''conversation_id'', SText cid), (''title'', SText t), (''created_at'', SInt now),
                                    (''last_message_at'', SInt now)]))))))"

definition listMessages :: "RequestContext \<Rightarrow> string \<Rightarrow> ChatResult io" where
  "listMessages ctx cid =
     chat_catch ''Failed to load messages''
       (bind (lift (requireContext ctx)) (\<lambda>_.
        withRequestContext ctx
          (bind (require_conversation ctx cid) (\<lambda>_.
           bind (db_select ''chat.messages'' (in_conversation cid)) (\<lambda>rows.
             ret (ChatRows (map (pick [''message_id'', ''role'', ''content'', ''created_at''])
               (js_sort (\<lambda>a b. int_of a ''created_at'' \<le> int_of b ''created_at'') rows))))))))"

definition delete_conversation :: "RequestContext \<Rightarrow> string \<Rightarrow> unit io" where
  "delete_conversation ctx cid =
     bind (require_conversation ctx cid) (\<lambda>_.
     bind (db_delete ''chat.messages'' (in_conversation cid)) (\<lambda>_.
     bind (db_delete ''chat.conversations'' (in_conversation cid)) (\<lambda>_. ret ())))"

definition deleteConversation :: "RequestContext \<Rightarrow> string \<Rightarrow> ChatResult io" where
  "deleteConversation ctx cid =
     chat_catch ''Failed to delete conversation''
       (bind (lift (requireContext ctx)) (\<lambda>_.
        bind (runWithTransaction ctx (delete_conversation ctx cid)) (\<lambda>_. ret ChatDeleted)))"

section \<open>POST /chat/messages\<close>

definition insert_message :: "RequestContext \<Rightarrow> int \<Rightarrow> string \<Rightarrow> string \<Rightarrow> string \<Rightarrow> string \<Rightarrow> unit io" where
  "insert_message ctx now mid cid role content =
     db_insert ''chat.messages''
       [''message_id'', ''conversation_id'', ''tenant_id'', ''user_id'', ''role'', ''content'', ''created_at''] 7
       [SText mid, SText cid, sql_text (cx_tenantId ctx), sql_text (cx_userId ctx), SText role, SText content, SInt now] None"

text \<open>The first transaction: the conversation and whether it is new.\<close>

definition open_conversation :: "(nat \<Rightarrow> string) \<Rightarrow> RequestContext \<Rightarrow> int \<Rightarrow> string option \<Rightarrow> string \<Rightarrow> (string \<times> bool) io" where
  "open_conversation uuid ctx now conversation message =
     bind (if truthy conversation then bind (require_conversation ctx (the conversation)) (\<lambda>_. ret (the conversation, False))
           else bind (draw_uuid uuid) (\<lambda>cid. bind (insert_conversation ctx now cid ''New chat'') (\<lambda>_. ret (cid, True)))) (\<lambda>(cid, new).
     bind (draw_uuid uuid) (\<lambda>mid.
     bind (insert_message ctx now mid cid ''USER'' message) (\<lambda>_. ret (cid, new))))"

definition conversation_key :: "RequestContext \<Rightarrow> string \<Rightarrow> string" where
  "conversation_key ctx cid = str_or_empty (cx_tenantId ctx) @ '':'' @ str_or_empty (cx_userId ctx) @ '':'' @ cid"

text \<open>What is found for a message and the answer to it.\<close>

definition chat_compute ::
  "Services \<Rightarrow> RequestContext \<Rightarrow> string \<Rightarrow> nat \<Rightarrow> IntentResult \<Rightarrow> string \<Rightarrow> (CitedAnswer \<times> Match list \<times> AnswerContext) io" where
  "chat_compute sv ctx message topK it createdAt =
     (let otype = ''chat_query''; tone = determineAnswerTone (it_confidence it);
          initial = determineRetrievalStrategy (it_intent it) (it_confidence it)
      in bind (if initial = DIRECT_LOOKUP then
                 bind (withRequestContext ctx (fetchRoChunksByNumber ctx message)) (\<lambda>direct.
                   let (strategy, fb) = applyDirectLookupFallback initial (length direct) in ret (strategy, fb, direct))
               else ret (initial, False, [])) (\<lambda>(strategy, fb, direct).
         bind (vector_matches sv ctx message topK strategy direct) (\<lambda>matches.
         bind (audit_strategy sv ctx otype it strategy fb) (\<lambda>_.
         bind (lift (buildCitedAnswer (sv_llmEnabled sv) (sv_chat sv) (redactPII_retrieval message) matches tone)) (\<lambda>a.
         bind (draw_uuid (sv_uuid sv)) (\<lambda>answerId.
           ret (a, matches, buildAnswerContext answerId (it_intent it) tone strategy createdAt matches)))))))"

definition title_of :: "string \<Rightarrow> string" where
  "title_of message = js_join '' '' (take 6 (js_split (collapse_ws message) '' ''))"

text \<open>The second transaction.\<close>

definition store_answer :: "RequestContext \<Rightarrow> int \<Rightarrow> string \<Rightarrow> string \<Rightarrow> string \<Rightarrow> string \<Rightarrow> unit io" where
  "store_answer ctx now cid answerId answer message =
     bind (insert_message ctx now answerId cid ''ASSISTANT'' answer) (\<lambda>_.
     bind (db_update ''chat.conversations'' (in_conversation cid)
             (\<lambda>r. set_cols [(''last_message_at'', SInt now),
                            (''title'', if col r ''title'' = SText ''New chat'' then SText (title_of message) else col r ''title'')] r))
       (\<lambda>_. ret ()))"

definition chat_provenance ::
  "Services \<Rightarrow> RequestContext \<Rightarrow> IntentResult \<Rightarrow> int \<Rightarrow> string \<Rightarrow> ContextStore \<Rightarrow> (ContextStore \<times> ChatResult) io" where
  "chat_provenance sv ctx it now cid store =
     (case getLastAnswerContext now (conversation_key ctx cid) store of
        (store', None) \<Rightarrow>
          bind (audit_strategy sv ctx ''chat_query'' it NONE False) (\<lambda>_.
            ret (store', ChatAnswered cid (''I don'' @ [CHR 0x27] @ ''t have prior context for that question.'') [] False))
      | (store', Some prior) \<Rightarrow>
          bind (audit sv ctx (event ''PROVENANCE_QUERY'' ''answer_context'' (Some (ac_answerId prior)) [(''answer_id'', VStr (ac_answerId prior))])) (\<lambda>_.
          bind (audit_strategy sv ctx ''chat_query'' it NONE False) (\<lambda>_.
            ret (store', ChatAnswered cid (buildProvenanceAnswer prior) (provenance_sources prior) False))))"

definition chat_respond ::
  "Services \<Rightarrow> RequestContext \<Rightarrow> string \<Rightarrow> nat \<Rightarrow> IntentResult \<Rightarrow> int \<Rightarrow> string \<Rightarrow> string \<Rightarrow> ContextStore \<Rightarrow> (ContextStore \<times> ChatResult) io" where
  "chat_respond sv ctx message topK it now createdAt cid store w =
     (case chat_compute sv ctx message topK it createdAt w of
        (w1, Inl e) \<Rightarrow> (w1, Inr (store, chat_caught ''Chat response failed'' e))
      | (w1, Inr (a, matches, ac)) \<Rightarrow>
          let store' = setLastAnswerContext now (conversation_key ctx cid) ac store;
              w2 = fst (audit sv ctx (event ''ANSWER_TONE'' ''chat_answer'' (Some (ac_answerId ac)) [(''tone'', VStr (tone_name (ac_tone ac)))]) w1)
          in (case runWithTransaction ctx (store_answer ctx now cid (ac_answerId ac) (ca_answer a) message) w2 of
                (w3, Inl e) \<Rightarrow> (w3, Inr (store', chat_caught ''Chat response failed'' e))
              | (w3, Inr _) \<Rightarrow> (w3, Inr (store', ChatAnswered cid (ca_answer a) matches (ca_usedLlm a)))))"

definition postMessage ::
  "Services \<Rightarrow> RequestContext \<Rightarrow> string option \<Rightarrow> nat option \<Rightarrow> string option \<Rightarrow> int \<Rightarrow> string \<Rightarrow> ContextStore \<Rightarrow> (ContextStore \<times> ChatResult) io" where
  "postMessage sv ctx message top_k conversation now createdAt store w =
     (if \<not> hasRlsContext ctx
      then (w, Inr (store, chat_caught ''Chat response failed'' (App (app_error ''Missing request context'' 400 ''CTX_MISSING''))))
      else if \<not> truthy (map_option js_trim message)
      then (w, Inr (store, chat_caught ''Chat response failed'' (App (app_error ''message is required'' 400 ''BAD_REQUEST''))))
      else
        let m = js_trim (the message); it = classifyIntent (sv_intentLlm sv) (sv_json sv) (sv_intentChat sv) m
        in (case runWithTransaction ctx (open_conversation (sv_uuid sv) ctx now conversation m) w of
              (w1, Inl e) \<Rightarrow> (w1, Inr (store, chat_caught ''Chat response failed'' e))
            | (w1, Inr (cid, new)) \<Rightarrow>
                if cid = []
                then (w1, Inr (store, chat_caught ''Chat response failed'' (App (app_error ''Conversation not found'' 404 ''CHAT_NOT_FOUND''))))
                else
                  let store1 = (if new then clearOnNewConversation (conversation_key ctx cid) store else store)
                  in bind (audit_intent sv ctx ''chat_query'' it) (\<lambda>_.
                       if shouldBypassRetrieval (it_intent it) then chat_provenance sv ctx it now cid store1
                       else chat_respond sv ctx m (top_k_of top_k) it now createdAt cid store1) w1))"

end
