(* ===== verification/ChatFacts.thy ===== *)
theory ChatFacts
  imports Chat AnswerFacts PipelineFacts
begin

text \<open>
  Facts about the chat routes: every stored message belongs to a conversation of the same tenant and user,
  whatever the routes do, and what the routes see on a pooled connection.
\<close>

section \<open>Computations that only read\<close>

definition reads :: "'a io \<Rightarrow> bool" where
  "reads m \<longleftrightarrow> (\<forall>w. w_tables (fst (m w)) = w_tables w)"

lemma reads_bind: "reads m \<Longrightarrow> (\<And>x. reads (f x)) \<Longrightarrow> reads (bind m f)"
  unfolding reads_def fst_bind by (simp split: sum.split)

lemma reads_pure:
  "reads (ret x)" "reads (lift r)" "reads (io_throw a b c)" "reads (draw_uuid u)" "reads (db_select t p)"
  "reads (set_config k v)" "reads (guard_tx (fail_stmt e))" "reads (audit sv ctx ev)"
  by (simp_all add: reads_def ret_def lift_def io_throw_def draw_uuid_def db_select_def guard_tx_def set_config_def
      fail_stmt_def audit_def auditLog_def Let_def)

lemma reads_if: "reads a \<Longrightarrow> reads b \<Longrightarrow> reads (if c then a else b)"
  by simp

lemma reads_option: "reads a \<Longrightarrow> (\<And>x. reads (f x)) \<Longrightarrow> reads (case v of None \<Rightarrow> a | Some x \<Rightarrow> f x)"
  by (cases v) auto

lemma reads_prod: "(\<And>a b. reads (f a b)) \<Longrightarrow> reads (case p of (a, b) \<Rightarrow> f a b)"
  by (cases p) auto

lemmas reads_intros = reads_bind reads_pure reads_if reads_option reads_prod

lemma reads_request: "reads m \<Longrightarrow> reads (withRequestContext ctx m)"
  unfolding withRequestContext_def setRlsContext_def withTenantContext_def Let_def
  by (intro reads_intros) auto

lemma reads_scope: "reads (resolveTenantScope ctx)"
  unfolding resolveTenantScope_def fetchGroupTenants_def Let_def by (intro reads_intros)

lemma reads_ro_chunks: "reads (fetchRoChunksByNumber ctx q)"
  unfolding fetchRoChunksByNumber_def Let_def by (intro reads_intros reads_scope)

lemma reads_fetch: "reads (fetchMatches sv ctx e k)"
  unfolding fetchMatches_def vectorSearch_def getChunksByIds_def getRosByIds_def Let_def
  by (intro reads_request reads_intros reads_scope)

lemma reads_vector_matches: "reads (vector_matches sv ctx q k st dflt)"
  unfolding vector_matches_def embedQuery_def Let_def by (intro reads_intros reads_fetch)

lemma reads_audits: "reads (audit_intent sv ctx ot it)" "reads (audit_strategy sv ctx ot it st fb)"
  unfolding audit_intent_def audit_strategy_def by (rule reads_pure)+

lemma reads_compute: "reads (chat_compute sv ctx m k it createdAt)"
  unfolding chat_compute_def Let_def
  by (intro reads_intros reads_request reads_ro_chunks reads_vector_matches reads_audits)

section \<open>Messages and their conversations\<close>

type_synonym tables = "string \<Rightarrow> row list"

definition same_owner :: "row \<Rightarrow> row \<Rightarrow> bool" where
  "same_owner m c \<longleftrightarrow>
     col c ''conversation_id'' = col m ''conversation_id'' \<and> col c ''tenant_id'' = col m ''tenant_id'' \<and> col c ''user_id'' = col m ''user_id''"

definition chats_ok :: "tables \<Rightarrow> bool" where
  "chats_ok T \<longleftrightarrow> list_all (\<lambda>m. list_ex (same_owner m) (T ''chat.conversations'')) (T ''chat.messages'')"

definition owned :: "RequestContext \<Rightarrow> string \<Rightarrow> tables \<Rightarrow> bool" where
  "owned ctx cid T \<longleftrightarrow> list_ex (own_conversation ctx cid) (T ''chat.conversations'')"

text \<open>What holds of the tables after a computation that succeeds in a transaction that has not failed.\<close>

definition after :: "(tables \<Rightarrow> bool) \<Rightarrow> 'a io \<Rightarrow> ('a \<Rightarrow> tables \<Rightarrow> bool) \<Rightarrow> bool" where
  "after P m Q \<longleftrightarrow>
     (\<forall>w w' x. P (w_tables w) \<longrightarrow> \<not> w_failed w \<longrightarrow> m w = (w', Inr x) \<longrightarrow> Q x (w_tables w') \<and> \<not> w_failed w')"

lemma after_bind: "after P m Q \<Longrightarrow> (\<And>x. after (Q x) (f x) R) \<Longrightarrow> after P (bind m f) R"
  unfolding after_def bind_ok by blast

lemma after_ret: "(\<And>T. P T \<Longrightarrow> Q x T) \<Longrightarrow> after P (ret x) Q"
  by (auto simp: after_def ret_def)

lemma after_draw: "after P (draw_uuid u) (\<lambda>_. P)"
  by (auto simp: after_def draw_uuid_def)

lemma after_if: "(c \<Longrightarrow> after P a Q) \<Longrightarrow> (\<not> c \<Longrightarrow> after P b Q) \<Longrightarrow> after P (if c then a else b) Q"
  by simp

lemma after_insert:
  "(\<And>T. P T \<Longrightarrow> Q u (T(t := T t @ [zip cols params]))) \<Longrightarrow> after P (db_insert t cols n params None) Q"
  by (auto simp: after_def dest!: insert_result)

lemma after_require: "after P (require_conversation ctx cid) (\<lambda>_ T. P T \<and> owned ctx cid T)"
proof -
  have "owned ctx cid (w_tables w)" if "filter (own_conversation ctx cid) (visible w ''chat.conversations'') \<noteq> []" for w
    using that by (auto simp: owned_def list_ex_iff visible_def filter_empty_conv)
  then show ?thesis
    by (auto simp: after_def require_conversation_def bind_def db_select_def guard_tx_def io_throw_def lift_def throw_def ret_def
        split: if_splits)
qed

lemma ids_of_insert:
  "same_owner m (zip [''conversation_id'', ''tenant_id'', ''user_id'', ''title'', ''created_at'', ''last_message_at'']
     [SText cid, t, u, a, b, c]) \<longleftrightarrow> SText cid = col m ''conversation_id'' \<and> t = col m ''tenant_id'' \<and> u = col m ''user_id''"
  by (simp add: same_owner_def col_def)

lemma after_insert_conversation: "after chats_ok (insert_conversation ctx now cid title) (\<lambda>_ T. chats_ok T \<and> owned ctx cid T)"
  unfolding insert_conversation_def
  by (rule after_insert) (auto simp: chats_ok_def owned_def own_conversation_def list_all_iff list_ex_iff col_def)

lemma after_insert_message:
  "after (\<lambda>T. chats_ok T \<and> owned ctx cid T) (insert_message ctx now mid cid role content) (\<lambda>_ T. chats_ok T \<and> owned ctx cid T)"
  unfolding insert_message_def
  by (rule after_insert)
    (auto simp: chats_ok_def owned_def list_all_iff list_ex_iff own_conversation_def same_owner_def col_def)

lemma after_open:
  "after chats_ok (open_conversation uuid ctx now conversation m) (\<lambda>(cid, new) T. chats_ok T \<and> owned ctx cid T)"
  unfolding open_conversation_def
proof (rule after_bind [where Q = "\<lambda>(cid, new) T. chats_ok T \<and> owned ctx cid T"])
  show "after chats_ok
     (if truthy conversation then bind (require_conversation ctx (the conversation)) (\<lambda>_. ret (the conversation, False))
      else bind (draw_uuid uuid) (\<lambda>cid. bind (insert_conversation ctx now cid ''New chat'') (\<lambda>_. ret (cid, True))))
     (\<lambda>(cid, new) T. chats_ok T \<and> owned ctx cid T)"
    by (rule after_if, rule after_bind [OF after_require], rule after_ret, simp, rule after_bind [OF after_draw],
        rule after_bind [OF after_insert_conversation], rule after_ret, simp)
  show "after (case x of (cid, new) \<Rightarrow> \<lambda>T. chats_ok T \<and> owned ctx cid T)
     (case x of (cid, new) \<Rightarrow> bind (draw_uuid uuid) (\<lambda>mid. bind (insert_message ctx now mid cid ''USER'' m) (\<lambda>_. ret (cid, new))))
     (\<lambda>(cid, new) T. chats_ok T \<and> owned ctx cid T)" for x
    by (cases x) (auto intro!: after_bind [OF after_draw] after_bind [OF after_insert_message] after_ret)
qed

lemma col_map_set: "col (map_set k v r) c = (if c = k then v else col r c)"
  by (simp add: col_def)

lemma chats_ok_map:
  assumes "chats_ok T" "\<And>m c. same_owner m (f c) = same_owner m c"
  shows "chats_ok (T(''chat.conversations'' := map (\<lambda>r. if hit r then f r else r) (T ''chat.conversations'')))"
proof -
  have "list_ex (same_owner m) (map (\<lambda>r. if hit r then f r else r) cs) = list_ex (same_owner m) cs" for m cs
    using assms(2) by (induction cs) auto
  then show ?thesis using assms(1) by (simp add: chats_ok_def)
qed

lemma after_store:
  "after (\<lambda>T. chats_ok T \<and> owned ctx cid T) (store_answer ctx now cid aid answer m) (\<lambda>_. chats_ok)"
proof -
  have same: "same_owner k (set_cols [(''last_message_at'', a), (''title'', b)] r) = same_owner k r" for k a b r
    by (simp add: same_owner_def set_cols_def col_map_set)
  have "after (\<lambda>T. chats_ok T \<and> owned ctx cid T) (db_update ''chat.conversations'' p
      (\<lambda>r. set_cols [(''last_message_at'', a), (''title'', f r)] r)) (\<lambda>_. chats_ok)" for p a f
    unfolding after_def
  proof (intro allI impI)
    fix w w' n
    assume ok: "chats_ok (w_tables w) \<and> owned ctx cid (w_tables w)" and "\<not> w_failed w"
      and "db_update ''chat.conversations'' p (\<lambda>r. set_cols [(''last_message_at'', a), (''title'', f r)] r) w = (w', Inr n)"
    then show "chats_ok (w_tables w') \<and> \<not> w_failed w'"
      using same update_result [of "''chat.conversations''" p "\<lambda>r. set_cols [(''last_message_at'', a), (''title'', f r)] r" w w' n]
      by (auto intro!: chats_ok_map)
  qed
  then show ?thesis
    unfolding store_answer_def
    by (intro after_bind [OF after_insert_message] after_bind [where Q = "\<lambda>_. chats_ok"] after_ret) auto
qed

lemma require_same: "require_conversation ctx cid w = (w', Inr u) \<Longrightarrow> w' = w"
  by (auto simp: require_conversation_def bind_def db_select_def guard_tx_def io_throw_def lift_def throw_def ret_def split: if_splits)

lemma chat_tables_rls: "''chat.conversations'' \<in> set rls_tables" "''chat.messages'' \<in> set rls_tables"
  by (simp_all add: rls_tables_def)

lemma delete_chats_ok:
  assumes "delete_conversation ctx cid w = (w', Inr u)" "chats_ok (w_tables w)"
  shows "chats_ok (w_tables w') \<and> w_failed w' = w_failed w"
proof -
  let ?A = "\<lambda>r. case map_of (w_gucs w) ''app.tenant_id'' of None \<Rightarrow> False | Some tid \<Rightarrow> tid \<noteq> [] \<and> col r ''tenant_id'' = SText tid"
  obtain w1 n where m: "db_delete ''chat.messages'' (in_conversation cid) w = (w1, Inr n)"
    and "\<exists>k. db_delete ''chat.conversations'' (in_conversation cid) w1 = (w', Inr k)"
    using assms(1) by (auto simp: delete_conversation_def bind_ok ret_def dest!: require_same)
  then obtain k where c: "db_delete ''chat.conversations'' (in_conversation cid) w1 = (w', Inr k)" by blast
  have a: "allowed_in (w_gucs w) t r = ?A r" if "t \<in> set rls_tables" for t r using that by (simp add: allowed_in_def)
  note d1 = delete_result [OF m] and d2 = delete_result [OF c]
  have ms: "w_tables w' ''chat.messages'' = filter (\<lambda>r. \<not> (?A r \<and> in_conversation cid r)) (w_tables w ''chat.messages'')"
    and cs: "w_tables w' ''chat.conversations'' = filter (\<lambda>r. \<not> (?A r \<and> in_conversation cid r)) (w_tables w ''chat.conversations'')"
    using d1 d2 a chat_tables_rls by simp_all
  have "\<exists>c \<in> set (w_tables w' ''chat.conversations''). same_owner r c" if r: "r \<in> set (w_tables w' ''chat.messages'')" for r
  proof -
    have "r \<in> set (w_tables w ''chat.messages'')" "\<not> (?A r \<and> in_conversation cid r)" using r ms by auto
    then obtain c where c: "c \<in> set (w_tables w ''chat.conversations'')" "same_owner r c"
      using assms(2) by (auto simp: chats_ok_def list_all_iff list_ex_iff)
    then have "(?A c \<and> in_conversation cid c) = (?A r \<and> in_conversation cid r)"
      by (auto simp: same_owner_def in_conversation_def split: option.split)
    then show ?thesis using c cs \<open>\<not> (?A r \<and> in_conversation cid r)\<close> by auto
  qed
  then show ?thesis using d1 d2 by (simp add: chats_ok_def list_all_iff list_ex_iff)
qed

section \<open>The routes\<close>

lemma contained_require: "contained (require_conversation ctx cid)"
  unfolding require_conversation_def by auto

lemma contained_open: "contained (open_conversation uuid ctx now conversation m)"
  unfolding open_conversation_def insert_conversation_def insert_message_def
  by (intro contained_bind contained_case_prod contained_if contained_require contained_draw contained_insert contained_pure)

lemma contained_store: "contained (store_answer ctx now cid aid answer m)"
  unfolding store_answer_def insert_message_def
  by (intro contained_bind contained_update contained_insert contained_pure)

lemma contained_delete_conversation: "contained (delete_conversation ctx cid)"
  unfolding delete_conversation_def by (intro contained_bind contained_require contained_delete contained_pure)

text \<open>A transaction establishes what its body does, or leaves the tables as they were.\<close>

lemma after_transaction:
  assumes "after P fn Q" "contained fn" "P (w_tables w)"
  shows "case snd (runWithTransaction ctx fn w) of
      Inl _ \<Rightarrow> w_tables (fst (runWithTransaction ctx fn w)) = w_tables w
    | Inr x \<Rightarrow> Q x (w_tables (fst (runWithTransaction ctx fn w)))"
proof (cases "ensureContext ctx")
  case (Inl e)
  then show ?thesis by (simp add: runWithTransaction_def bind_def)
next
  case (Inr u)
  then have c: "ensureContext ctx = Inr ()" by simp
  show ?thesis
  proof (cases "snd (runWithTransaction ctx fn w)")
    case (Inl e)
    then show ?thesis using contained_atomic [OF assms(2)] by simp
  next
    case (Inr x)
    then obtain w1 where f: "fn (tx_world ctx w) = (w1, Inr x)" and e: "fst (runWithTransaction ctx fn w) = fst (tx_commit w1)"
      unfolding run_tx [OF c] by (auto simp: throw_def split: if_splits prod.splits sum.splits)
    have "P (w_tables (tx_world ctx w))" "\<not> w_failed (tx_world ctx w)" using assms(3) by (simp_all add: tx_world_def)
    then have "Q x (w_tables w1) \<and> \<not> w_failed w1" using assms(1) f unfolding after_def by blast
    then show ?thesis unfolding Inr e by (simp add: tx_commit_def)
  qed
qed

lemma chats_after_open:
  assumes "chats_ok (w_tables w)" "runWithTransaction ctx (open_conversation uuid ctx now conversation m) w = (w1, r)"
  shows "chats_ok (w_tables w1) \<and> (case r of Inl _ \<Rightarrow> True | Inr (cid, new) \<Rightarrow> owned ctx cid (w_tables w1))"
  using after_transaction [OF after_open contained_open assms(1), of ctx uuid ctx now conversation m] assms
  by (auto split: sum.splits)

lemma chats_after_store:
  assumes "chats_ok (w_tables w)" "owned ctx cid (w_tables w)" "runWithTransaction ctx (store_answer ctx now cid aid answer m) w = (w1, r)"
  shows "chats_ok (w_tables w1)"
proof -
  from assms(1,2) have "chats_ok (w_tables w) \<and> owned ctx cid (w_tables w)" by simp
  from after_transaction [where ctx = ctx, OF after_store [of ctx cid now aid answer m] contained_store this] show ?thesis
    unfolding assms(3) using assms(1) by (cases r) simp_all
qed

lemma chats_after_delete:
  assumes "chats_ok (w_tables w)"
  shows "chats_ok (w_tables (fst (runWithTransaction ctx (delete_conversation ctx cid) w)))"
proof -
  have "after chats_ok (delete_conversation ctx cid) (\<lambda>_. chats_ok)"
    unfolding after_def using delete_chats_ok by blast
  from after_transaction [OF this contained_delete_conversation assms, of ctx] show ?thesis using assms by (auto split: sum.splits)
qed

lemma reads_step: "reads m \<Longrightarrow> m w = (w', r) \<Longrightarrow> w_tables w' = w_tables w"
  unfolding reads_def by (metis fst_conv)

lemma chats_after_respond:
  assumes "chats_ok (w_tables w)" "owned ctx cid (w_tables w)"
  shows "chats_ok (w_tables (fst (chat_respond sv ctx m k it now createdAt cid store w)))"
proof -
  obtain w1 r where c: "chat_compute sv ctx m k it createdAt w = (w1, r)" by fastforce
  then have t: "w_tables w1 = w_tables w" using reads_step [OF reads_compute] by blast
  have a: "w_tables (fst (audit sv ctx ev w1)) = w_tables w" for ev
    using t reads_pure(8) [of sv ctx ev] by (simp add: reads_def)
  show ?thesis
    unfolding chat_respond_def c Let_def
    using assms t a chats_after_store by (auto split: prod.split sum.split) metis+
qed

lemma reads_provenance: "reads (chat_provenance sv ctx it now cid store)"
  unfolding chat_provenance_def by (intro reads_intros reads_audits)

lemma chats_after_post:
  assumes "chats_ok (w_tables w)"
  shows "chats_ok (w_tables (fst (postMessage sv ctx message k conversation now createdAt store w)))"
proof -
  note ok = chats_after_open [OF assms]
  have a: "w_tables (fst (audit_intent sv ctx ot it v)) = w_tables v" for ot it v
    using reads_audits(1) [of sv ctx ot it] by (simp add: reads_def)
  have p: "w_tables (fst (chat_provenance sv ctx it now cid st v)) = w_tables v" for it cid st v
    using reads_provenance [of sv ctx it now cid st] by (simp add: reads_def)
  show ?thesis
  proof (cases "hasRlsContext ctx \<and> truthy (map_option js_trim message)")
    case True
    let ?m = "js_trim (the message)"
    obtain w1 r where o: "runWithTransaction ctx (open_conversation (sv_uuid sv) ctx now conversation ?m) w = (w1, r)" by fastforce
    show ?thesis
      using True ok [OF o] unfolding postMessage_def o Let_def
      by (auto simp: fst_bind a p split: sum.splits prod.splits intro!: chats_after_respond)
  qed (use assms in \<open>auto simp: postMessage_def\<close>)
qed

text \<open>A request of the chat routes that can change the tables.\<close>

datatype chat_request =
    Post RequestContext "string option" "nat option" "string option" int string
  | Create RequestContext int "string option"
  | Delete RequestContext string

fun chat_step :: "Services \<Rightarrow> chat_request \<Rightarrow> ContextStore \<times> World \<Rightarrow> ContextStore \<times> World" where
  "chat_step sv (Post ctx message k conversation now createdAt) (store, w) =
     (case postMessage sv ctx message k conversation now createdAt store w of
        (w', Inr (store', _)) \<Rightarrow> (store', w') | (w', Inl _) \<Rightarrow> (store, w'))"
| "chat_step sv (Create ctx now title) (store, w) = (store, fst (createConversation (sv_uuid sv) ctx now title w))"
| "chat_step sv (Delete ctx cid) (store, w) = (store, fst (deleteConversation ctx cid w))"

lemma chats_after_insert:
  assumes "chats_ok (w_tables w)"
  shows "chats_ok (w_tables (fst (insert_conversation ctx now cid title w)))"
proof (cases "snd (insert_conversation ctx now cid title w)")
  case (Inl e)
  then show ?thesis using assms
    by (auto simp: insert_conversation_def db_insert_def guard_tx_def Let_def fail_stmt_def split: if_splits)
next
  case (Inr u)
  then have "insert_conversation ctx now cid title w = (fst (insert_conversation ctx now cid title w), Inr u)"
    by (metis prod.collapse)
  from insert_result [OF this [unfolded insert_conversation_def]] assms show ?thesis
    by (auto simp: insert_conversation_def chats_ok_def list_all_iff list_ex_iff)
qed

lemma request_tables:
  assumes "\<And>v. I (w_tables v) \<Longrightarrow> I (w_tables (fst (m v)))" "I (w_tables w)"
  shows "I (w_tables (fst (withRequestContext ctx m w)))"
proof -
  have r: "w_tables (fst (set_config k v u)) = w_tables u" for k v u
    using reads_pure(6) [of k v] by (simp add: reads_def)
  show ?thesis
    using assms by (auto simp: withRequestContext_def setRlsContext_def withTenantContext_def Let_def fst_bind lift_def r
        io_throw_def throw_def split: sum.split)
qed

lemma chats_after_create:
  assumes "chats_ok (w_tables w)"
  shows "chats_ok (w_tables (fst (createConversation uuid ctx now title w)))"
proof -
  have c: "w_tables (fst (chat_catch msg m w)) = w_tables (fst (m w))" for msg m w
    by (simp add: chat_catch_def split: prod.split sum.split)
  have d: "w_tables (fst (draw_uuid uuid w)) = w_tables w" for w by (simp add: draw_uuid_def)
  have i: "chats_ok (w_tables (fst (bind (insert_conversation ctx now cid t) (\<lambda>_. ret x) v)))" if "chats_ok (w_tables v)" for cid t x v
    using chats_after_insert [OF that] by (simp add: fst_bind ret_def split: sum.split)
  show ?thesis
    unfolding createConversation_def c
    using assms by (auto simp: fst_bind lift_def d Let_def split: sum.split intro!: request_tables [of chats_ok, OF i])
qed

lemma chat_step_ok:
  assumes "chats_ok (w_tables (snd st))"
  shows "chats_ok (w_tables (snd (chat_step sv r st)))"
proof -
  obtain store w where st: "st = (store, w)" by fastforce
  have ok: "chats_ok (w_tables w)" using assms st by simp
  show ?thesis
  proof (cases r)
    case (Post ctx message k conversation now createdAt)
    have "chats_ok (w_tables (fst (postMessage sv ctx message k conversation now createdAt store w)))"
      by (rule chats_after_post [OF ok])
    then show ?thesis by (auto simp: Post st split: prod.split sum.split)
  next
    case (Create ctx now title)
    then show ?thesis using chats_after_create [OF ok] by (simp add: st)
  next
    case (Delete ctx cid)
    have "w_tables (fst (deleteConversation ctx cid w)) \<in> {w_tables w, w_tables (fst (runWithTransaction ctx (delete_conversation ctx cid) w))}"
      by (auto simp: deleteConversation_def chat_catch_def bind_def lift_def ret_def split: prod.split sum.split)
    then show ?thesis using ok chats_after_delete [OF ok, of ctx cid] by (auto simp: Delete st)
  qed
qed

text \<open>C24: whatever requests the chat routes serve, of any users and tenants and with any failures, every stored
  message belongs to a stored conversation of the same tenant and the same user.\<close>

theorem messages_belong_to_conversations:
  assumes "chats_ok (w_tables w)"
  shows "chats_ok (w_tables (snd (fold (chat_step sv) requests (store, w))))"
proof -
  have "chats_ok (w_tables (snd st)) \<Longrightarrow> chats_ok (w_tables (snd (fold (chat_step sv) requests st)))" for st
  proof (induction requests arbitrary: st)
    case (Cons r rs)
    then show ?case using Cons.IH [of "chat_step sv r st"] chat_step_ok [of st sv r] by simp
  qed simp
  then show ?thesis using assms by simp
qed

definition chat_world :: World where
  "chat_world = sample_world\<lparr>w_tables := (\<lambda>_. [])\<rparr>"

definition numbered_services :: Services where
  "numbered_services = sample_services\<lparr>sv_uuid := (\<lambda>n. if n = 0 then ''c'' else ''m'')\<rparr>"

theorem messages_witness:
  "chats_ok (w_tables (snd (fold (chat_step numbered_services) [Post sample_ctx (Some ''hello'') None None 0 ''t''] ([], chat_world))))"
  by (rule messages_belong_to_conversations) (simp add: chats_ok_def chat_world_def)

section \<open>The pages of the chat\<close>

lemma gives_catch: "gives P m \<Longrightarrow> gives (\<lambda>r. P r \<or> (\<exists>e. r = ChatError e)) (chat_catch msg m)"
  by (auto simp: gives_def chat_catch_def chat_caught_def split: prod.splits sum.splits)

lemma gives_own: "gives P (require_conversation ctx cid)"
  unfolding require_conversation_def
  by (rule gives_bind [OF gives_select_rls [OF chat_tables_rls(1)]]) (simp add: gives_throw)

lemma gives_insert_conversation: "gives P (insert_conversation ctx now cid title)"
  unfolding insert_conversation_def db_insert_def
  by (rule gives_guard)
    (simp add: gives_def Let_def noted_def fail_stmt_def row_allowed_def current_tenant_def blind_def rls_tables_def)

lemma gives_limit: "gives (\<lambda>rows. rows = []) (lift (limit_rows n []))"
  by (auto simp: gives_def lift_def limit_rows_def split: jsnum.split)

lemma gives_list_conversations: "gives (\<lambda>r. r = ChatRows [] \<or> (\<exists>e. r = ChatError e)) (listConversations ctx k)"
  unfolding listConversations_def
  by (rule gives_catch, rule gives_bind [OF gives_lift], rule gives_request,
      rule gives_bind [OF gives_select_rls [OF chat_tables_rls(1)]])
    (rule gives_bind [where P = "\<lambda>rows. rows = []"], auto simp: js_sort_def gives_limit)

lemma gives_create_conversation: "gives (\<lambda>r. False \<or> (\<exists>e. r = ChatError e)) (createConversation uuid ctx now title)"
proof -
  have d: "gives (\<lambda>_. True) (draw_uuid uuid)" by (simp add: gives_def draw_uuid_def blind_def)
  show ?thesis
    unfolding createConversation_def Let_def
    by (rule gives_catch, rule gives_bind [OF gives_lift], rule gives_bind [OF d], rule gives_request,
        rule gives_bind [OF gives_insert_conversation [of "\<lambda>_. False"]]) simp
qed

lemma gives_list_messages: "gives (\<lambda>r. False \<or> (\<exists>e. r = ChatError e)) (listMessages ctx cid)"
  unfolding listMessages_def
  by (rule gives_catch, rule gives_bind [OF gives_lift], rule gives_request, rule gives_bind [OF gives_own [of "\<lambda>_. False"]]) simp

text \<open>On a pooled connection the list of conversations is empty or an error, no conversation can be created,
  and the messages of a conversation cannot be read, although a posted message opens a conversation in a
  transaction: these three routes run without one.\<close>

theorem chat_pages_find_nothing:
  assumes "\<not> w_inTx w" "\<not> w_failed w" "map_of (w_gucs w) ''app.tenant_id'' = None"
  shows "snd (listConversations ctx k w) \<in> insert (Inr (ChatRows [])) (range (\<lambda>e. Inr (ChatError e))) \<union> range Inl \<and>
    snd (createConversation uuid ctx now title w) \<in> range (\<lambda>e. Inr (ChatError e)) \<union> range Inl \<and>
    snd (listMessages ctx cid w) \<in> range (\<lambda>e. Inr (ChatError e)) \<union> range Inl"
proof -
  have b: "blind w" using assms by (simp add: blind_def)
  note l = givesD [OF gives_list_conversations b, of ctx k] and c = givesD [OF gives_create_conversation b, of uuid ctx now title]
    and m = givesD [OF gives_list_messages b, of ctx cid]
  show ?thesis
    using l c m by (cases "snd (listConversations ctx k w)"; cases "snd (createConversation uuid ctx now title w)";
      cases "snd (listMessages ctx cid w)") auto
qed

theorem chat_pages_witness:
  "snd (createConversation (\<lambda>_. ''c'') sample_ctx 0 None sample_world) \<in> range (\<lambda>e. Inr (ChatError e)) \<union> range Inl"
  by (rule chat_pages_find_nothing [where k = None and cid = "[]", THEN conjunct2, THEN conjunct1]) (simp_all add: sample_world_def)

end
