(* ===== verification/AdminFacts.thy ===== *)
theory AdminFacts
  imports AdminApi GatewayFacts ChatFacts
begin

text \<open>
  Facts about the admin routes: who can create which users, what a user can change through a path in another
  case, and that a failed creation of a tenant leaves no trace in the tables.
\<close>

section \<open>Queries on a pooled connection\<close>

lemma open_tables: "''app.users'' \<notin> set rls_tables" "''app.tenants'' \<notin> set rls_tables" "''app.dealer_groups'' \<notin> set rls_tables"
  by (simp_all add: rls_tables_def)

lemma visible_open: "t \<notin> set rls_tables \<Longrightarrow> visible w t = w_tables w t"
  by (simp add: visible_def row_allowed_def)

lemma request_ok:
  assumes "blind w" "withRequestContext ctx m w = (w', Inr x)"
  shows "m w = (w', Inr x)"
  using request_cases [OF assms(1), of ctx m] assms(2) by auto

lemma catching_ok: "catching c msg m w = (w', Inr r) \<Longrightarrow> (\<forall>e. r \<noteq> AdminError e) \<Longrightarrow> m w = (w', Inr r)"
  by (auto simp: catching_def split: prod.splits sum.splits)

section \<open>New users\<close>

text \<open>The tenants a creator manages, by the rows of \<open>app.tenants\<close>.\<close>

definition group_in :: "row list \<Rightarrow> string option \<Rightarrow> string option" where
  "group_in tenants t = first (filter (\<lambda>r. col r ''tenant_id'' = sql_text t) tenants) ''group_id''"

definition manages :: "row list \<Rightarrow> RequestContext \<Rightarrow> string \<Rightarrow> bool" where
  "manages tenants ctx t \<longleftrightarrow>
     (case cx_role ctx of
        Some DEVELOPER \<Rightarrow> True
      | Some ADMIN \<Rightarrow> cx_tenantId ctx = Some t
      | Some DEALERADMIN \<Rightarrow> truthy (group_in tenants (Some t)) \<and> group_in tenants (Some t) = group_in tenants (cx_tenantId ctx)
      | _ \<Rightarrow> False)"

lemma can_manage:
  assumes "canManageTenant ctx t w = (w', Inr x)" "truthy (cx_tenantId ctx) \<or> cx_role ctx = Some DEVELOPER"
  shows "w' = w \<and> (x \<longrightarrow> manages (w_tables w ''app.tenants'') ctx t)"
proof (cases "cx_role ctx")
  case (Some role)
  then show ?thesis
    using assms
    by (cases role)
      (auto simp: canManageTenant_def manages_def group_of_def group_in_def bind_ok ret_def visible_open [OF open_tables(2)]
        dest!: select_ok split: if_splits)
qed (use assms in \<open>simp add: canManageTenant_def ret_def\<close>)

lemma require_ok:
  assumes "require_tenant ctx t w = (w', Inr u)" "truthy (cx_tenantId ctx) \<or> cx_role ctx = Some DEVELOPER"
  shows "w' = w \<and> manages (w_tables w ''app.tenants'') ctx t"
  using assms can_manage [of ctx t w]
  by (auto simp: require_tenant_def bind_ok ret_def io_throw_def lift_def throw_def split: if_splits)

lemma insert_user_tables:
  assumes "insert_user d tenant b w = (w', Inr r)"
  shows "\<exists>row. w_tables w' = (w_tables w)(''app.users'' := w_tables w ''app.users'' @ [row]) \<and>
    col row ''role'' = sql_text (nu_role b) \<and> col row ''tenant_id'' = sql_text tenant"
  using assms
  by (auto simp: insert_user_def bind_ok ret_def draw_uuid_def col_def dest!: select_ok insert_result)

text \<open>C25: a request that creates a user has a creator who may give that role, and adds one row with the role; the
  user's tenant, if there is one, is a tenant the creator manages: any for a developer, the own one for an
  admin, one of the same dealer group for a dealer admin.\<close>

theorem users_are_created_within_scope:
  assumes "createUser d ctx b w = (w', Inr (AdminRow st r))" "blind w"
  shows "\<exists>creator role tenant row. cx_role ctx = Some creator \<and> nu_role b = Some role \<and>
    role \<in> set (map role_name (allowedRolesForCreator creator)) \<and>
    w_tables w' = (w_tables w)(''app.users'' := w_tables w ''app.users'' @ [row]) \<and>
    col row ''role'' = SText role \<and> col row ''tenant_id'' = sql_text tenant \<and>
    (if truthy tenant then manages (w_tables w ''app.tenants'') ctx (the tenant) else role = ''DEVELOPER'')"
proof -
  have g: "\<not> missing_context ctx" "cx_role ctx \<noteq> None" "truthy (nu_role b)" "role_allowed ctx (the (nu_role b))"
    using assms(1) by (auto simp: createUser_def refuse_def ret_def split: if_splits)
  have cx: "truthy (cx_tenantId ctx) \<or> cx_role ctx = Some DEVELOPER" using g(1) by (auto simp: missing_context_def)
  obtain creator where c: "cx_role ctx = Some creator" using g(2) by blast
  have m: "withRequestContext ctx
          (bind (if \<not> truthy (nu_tenant_id b) \<and> truthy (nu_tenant_name b) then
                   bind (db_select ''app.tenants'' (same_lower ''name'' (js_trim (the (nu_tenant_name b))))) (\<lambda>rows.
                     ret (first rows ''tenant_id''))
                 else ret (nu_tenant_id b)) (\<lambda>tenant.
           if \<not> truthy tenant \<and> nu_role b \<noteq> Some ''DEVELOPER'' then io_throw ''Tenant not found'' 404 ''TENANT_NOT_FOUND''
           else bind (if truthy tenant then require_tenant ctx (the tenant) else ret ()) (\<lambda>_.
                  insert_user d tenant b))) w = (w', Inr (AdminRow st r))"
    using assms(1) g by (auto simp: createUser_def refuse_def ret_def split: if_splits dest!: catching_ok)
  obtain tenant w1 where t: "(if \<not> truthy (nu_tenant_id b) \<and> truthy (nu_tenant_name b) then
                   bind (db_select ''app.tenants'' (same_lower ''name'' (js_trim (the (nu_tenant_name b))))) (\<lambda>rows.
                     ret (first rows ''tenant_id''))
                 else ret (nu_tenant_id b)) w = (w1, Inr tenant)"
    and rest: "(if \<not> truthy tenant \<and> nu_role b \<noteq> Some ''DEVELOPER'' then io_throw ''Tenant not found'' 404 ''TENANT_NOT_FOUND''
           else bind (if truthy tenant then require_tenant ctx (the tenant) else ret ()) (\<lambda>_. insert_user d tenant b)) w1 =
        (w', Inr (AdminRow st r))"
    using request_ok [OF assms(2) m] by (auto simp only: bind_ok)
  have w1: "w1 = w" using t by (auto simp: bind_ok ret_def dest!: select_ok split: if_splits)
  have n: "truthy tenant \<or> nu_role b = Some ''DEVELOPER''"
    using rest by (auto simp: io_throw_def lift_def throw_def split: if_splits)
  then obtain w2 where q: "(if truthy tenant then require_tenant ctx (the tenant) else ret ()) w = (w2, Inr ())"
    and i: "insert_user d tenant b w2 = (w', Inr (AdminRow st r))"
    using rest w1 by (auto simp: bind_ok split: if_splits)
  have man: "w2 = w \<and> (truthy tenant \<longrightarrow> manages (w_tables w ''app.tenants'') ctx (the tenant))"
    using q require_ok [OF _ cx, of "the tenant" w w2 "()"] by (auto simp: ret_def split: if_splits)
  obtain role where role: "nu_role b = Some role" using g(3) by (cases "nu_role b") auto
  have al: "role \<in> set (map role_name (allowedRolesForCreator creator))" using g(4) c role by (simp add: role_allowed_def)
  obtain row where "w_tables w' = (w_tables w)(''app.users'' := w_tables w ''app.users'' @ [row])"
    "col row ''role'' = SText role" "col row ''tenant_id'' = sql_text tenant"
    using insert_user_tables [OF i] man role by (auto simp: sql_text_def)
  then show ?thesis using c role al man n by auto
qed

definition sample_deps :: AdminDeps where
  "sample_deps = \<lparr>ad_env = sample_env, ad_uuid = (\<lambda>_. ''u''), ad_accepts = (\<lambda>_. True), ad_hash = (\<lambda>p. ''#''),
     ad_arm = (\<lambda>_ _ _. ArmStatus 500 None), ad_decoded = length, ad_now = 0\<rparr>"

definition sample_user :: NewUserBody where
  "sample_user = \<lparr>nu_email = Some ''A@x.com'', nu_password = Some ''p'', nu_role = Some ''USER'',
     nu_tenant_id = Some tenant_a, nu_tenant_name = None\<rparr>"

definition reply_status :: "World \<times> AdminReply res \<Rightarrow> nat option" where
  "reply_status r = (case snd r of Inr (AdminRow st _) \<Rightarrow> Some st | _ \<Rightarrow> None)"

theorem users_witness:
  "\<exists>w' st r creator role. createUser sample_deps sample_ctx sample_user chat_world = (w', Inr (AdminRow st r)) \<and>
     cx_role sample_ctx = Some creator \<and> role \<in> set (map role_name (allowedRolesForCreator creator))"
proof -
  have "reply_status (createUser sample_deps sample_ctx sample_user chat_world) = Some 201" by code_simp
  then obtain w' r where c: "createUser sample_deps sample_ctx sample_user chat_world = (w', Inr (AdminRow 201 r))"
    by (cases "createUser sample_deps sample_ctx sample_user chat_world")
      (auto simp: reply_status_def split: sum.splits AdminReply.splits)
  have "blind chat_world" by (simp add: blind_def chat_world_def sample_world_def)
  from users_are_created_within_scope [OF c this] c show ?thesis by blast
qed

section \<open>Paths in another case\<close>

lemma update_open:
  assumes "blind w" "t \<notin> set rls_tables"
  shows "db_update t p f w = (noted t w\<lparr>w_tables := (w_tables w)(t := map (\<lambda>r. if p r then f r else r) (w_tables w t))\<rparr>,
     Inr (length (filter p (w_tables w t))))"
  using assms by (simp add: db_update_def guard_tx_def Let_def row_allowed_def blind_def noted_def list_ex_iff)

lemma bind_run: "m w = (w1, Inr x) \<Longrightarrow> bind m f w = f x w1"
  by (simp add: bind_def)

lemma request_runs:
  assumes "blind w" "ensureContext ctx = Inr ()" "tenant_ok ctx"
  shows "withRequestContext ctx m w = m w"
  using assms by (auto simp: withRequestContext_def bind_def setRls_no_tx withTenantContext_def Let_def tenant_ok_def
      set_config_no_tx blind_def)

text \<open>The handler changes the own tenant of a user, whatever the user's role.\<close>

definition patched :: "string \<Rightarrow> bool option \<Rightarrow> bool option \<Rightarrow> row list \<Rightarrow> row list" where
  "patched t is_active pii_enabled = map (\<lambda>r. if has ''tenant_id'' t r then set_cols (tenant_updates is_active pii_enabled) r else r)"

lemma patch_by_user:
  assumes "cx_role ctx = Some USER" "hasRlsContext ctx" "cx_tenantId ctx = Some t" "tenant_ok ctx" "blind w"
    and "tenant_updates is_active pii_enabled \<noteq> []"
  shows "w_tables (fst (patchTenant ctx t is_active pii_enabled w)) =
      (w_tables w)(''app.tenants'' := patched t is_active pii_enabled (w_tables w ''app.tenants''))"
proof -
  have t: "t \<noteq> []" using assms(2,3) by (simp add: hasRlsContext_def)
  have e: "ensureContext ctx = Inr ()" using assms(2) by (auto simp: ensureContext_def hasRlsContext_def)
  have m: "\<not> missing_context ctx" using assms(2) by (simp add: missing_context_def hasRlsContext_def)
  let ?w = "noted ''app.tenants'' w\<lparr>w_tables := (w_tables w)(''app.tenants'' := patched t is_active pii_enabled (w_tables w ''app.tenants''))\<rparr>"
  have sc: "getTenantScope ctx w = (w, Inr [t])"
    using assms(1,3) t by (simp add: getTenantScope_def ret_def)
  have k: "reads (bind (db_select ''app.tenants'' (has ''tenant_id'' t)) (\<lambda>rows.
      if p rows then ret (x rows) else bind (db_select ''app.dealer_groups'' (q rows)) (\<lambda>groups. ret (y rows groups))))" for p q and x :: "_ \<Rightarrow> AdminReply" and y
    by (intro reads_bind reads_if reads_pure)
  have u: "w_tables (fst (update_tenant ctx t (tenant_updates is_active pii_enabled) w)) = w_tables ?w"
    using k [unfolded reads_def, rule_format]
    by (simp add: update_tenant_def patched_def bind_run [where m = "getTenantScope ctx", OF sc]
        bind_run [where m = "db_update _ _ _", OF update_open [OF assms(5) open_tables(2)]])
  show ?thesis
    using u t m assms
    by (auto simp: patchTenant_def catching_all_def request_runs [OF assms(5) e assms(4)] noted_def split: prod.split sum.split)
qed

text \<open>The rules for a path under \<open>/admin/api\<close> and for another one.\<close>

lemma user_allowed: "isAllowed ''PATCH'' p USER \<longleftrightarrow> \<not> startsWith p ''/admin/api''"
  by (simp add: isAllowed_def rules_def)

lemma tenant_guard_passes:
  assumes "blind (g_world g)" "hasRlsContext (rq_context req)" "tenant_ok (rq_context req)" "cx_tenantId (rq_context req) = Some t"
    "cx_role (rq_context req) \<noteq> Some DEVELOPER" "filter (has ''tenant_id'' t) (w_tables (g_world g) ''app.tenants'') = r # rs"
    "col r ''is_active'' \<noteq> SBool False"
  shows "tenantGuard gw now req g = (g, Next req)"
proof -
  have e: "ensureContext (rq_context req) = Inr ()" using assms(2) by (auto simp: ensureContext_def hasRlsContext_def)
  have "(\<lambda>r. col r ''tenant_id'' = sql_text (Some t)) = has ''tenant_id'' t" by (auto simp: has_def sql_text_def)
  then have "db_select ''app.tenants'' (\<lambda>r. col r ''tenant_id'' = sql_text (cx_tenantId (rq_context req))) (g_world g) = (g_world g, Inr (r # rs))"
    using assms(1,4,6) by (simp add: db_select_def guard_tx_def visible_open [OF open_tables(2)] blind_def)
  then show ?thesis
    using assms(2,4,5,7) by (auto simp: tenantGuard_def Let_def request_runs [OF assms(1) e assms(3)] hasRlsContext_def)
qed

text \<open>C26: a PATCH request with the token of a plain user, for a path that matches the route for changing the user's tenant, reaches
  the handler, which then changes the tenant, exactly if the path is not under \<open>/admin/api\<close> in lower case: the rules
  compare the letters, and the matching of routes does not.\<close>

theorem upper_case_path_bypasses_roles:
  assumes "rq_method req = ''PATCH''" "tenant_param (rq_path req) = Some t" "actionForPath ''PATCH'' (rq_path req) = DEFAULT"
    and "request_token req = Some tok" "tok \<noteq> []" "verifyToken (gw_jwt gw) tok = Inr v" "vt_role v = USER" "vt_tenantId v = Some t"
    and "truthy (cx_requestId (rq_context req))" "\<not> (production gw \<and> impersonates req)" "isUuid (js_trim t)"
    and "blind (g_world g)" "filter (has ''tenant_id'' t) (w_tables (g_world g) ''app.tenants'') = r # rs" "col r ''is_active'' \<noteq> SBool False"
    and "map_of (g_buckets g) (t @ '':'' @ vt_userId v) = None" "tenant_updates is_active pii_enabled \<noteq> []"
  shows "(snd (patch_request gw now req is_active pii_enabled g) \<noteq> None \<longleftrightarrow> \<not> startsWith (rq_path req) ''/admin/api'') \<and>
    w_tables (g_world (fst (patch_request gw now req is_active pii_enabled g))) =
      (if startsWith (rq_path req) ''/admin/api'' then w_tables (g_world g)
       else (w_tables (g_world g))(''app.tenants'' := patched t is_active pii_enabled (w_tables (g_world g) ''app.tenants'')))"
proof -
  obtain rid where rid: "cx_requestId (rq_context req) = Some rid" "rid \<noteq> []" using assms(9) by (cases "cx_requestId (rq_context req)") auto
  obtain req1 where r1: "requestId gw now req g = (g, Next req1)" "rq_method req1 = ''PATCH''" "rq_path req1 = rq_path req"
    "rq_header req1 = rq_header req" "cx_requestId (rq_context req1) = Some rid"
    using assms(1) rid by (simp add: requestId_def Let_def)
  define ctx where "ctx = (rq_context req1)\<lparr>cx_userId := Some (vt_userId v), cx_tenantId := Some t, cx_role := Some USER\<rparr>"
  define req2 where "req2 = req1\<lparr>rq_context := ctx\<rparr>"
  have user: "vt_userId v \<noteq> []" using assms(6) by (auto simp: truthy_def verifyToken_def Let_def throw_def split: option.splits if_splits)
  have t: "t \<noteq> []" "rq_path req \<noteq> ''/health''" using assms(2) by (auto simp: tenant_param_def Let_def split: if_splits)
  have c: "hasRlsContext ctx" "tenant_ok ctx" "cx_role ctx = Some USER" "cx_tenantId ctx = Some t" "cx_userId ctx = Some (vt_userId v)"
    "truthy (cx_requestId ctx)"
    using rid r1(5) user t assms(11) by (simp_all add: ctx_def hasRlsContext_def tenant_ok_def str_or_empty_def)
  have r2: "rq_context req2 = ctx" "rq_method req2 = ''PATCH''" "rq_path req2 = rq_path req" using r1 by (simp_all add: req2_def)
  have "request_token req1 = Some tok" "impersonates req1 = impersonates req"
    using assms(4) r1(4) unfolding request_token_def impersonates_def by (simp_all only:)
  then have auth: "authContext gw now req1 g = (g, Next req2)"
    using assms(5-8,10) t(2) r1 rid by (simp add: authContext_def Let_def req2_def ctx_def)
  have tenant: "tenantGuard gw now req2 g = (g, Next req2)"
    by (rule tenant_guard_passes) (use assms(12-14) c in \<open>simp_all add: r2\<close>)
  have s: "serve gw now req g = protectedChain gw now req1 g" by (simp add: serve_def r1)
  show ?thesis
  proof (cases "startsWith (rq_path req) ''/admin/api''")
    case True
    then have "\<not> isAllowed ''PATCH'' (rq_path req) USER" by (simp add: user_allowed)
    then obtain g1 d where "rbacGuard gw now req2 g = (g1, Done d)" "w_tables (g_world g1) = w_tables (g_world g)"
      using c(3) t(2) by (simp add: rbacGuard_def Let_def r2 audited_def reply_def)
    then show ?thesis using True by (simp add: patch_request_def s protectedChain_def auth tenant)
  next
    case False
    have rest: "rbacGuard gw now req2 g = (g, Next req2)" "policyMiddleware gw now req2 g = (g, Next req2)" "rlsContext gw now req2 g = (g, Next req2)"
      using False c t user assms(3) by (simp_all add: rbacGuard_def policyMiddleware_def rlsContext_def evaluatePolicy_def Let_def r2 user_allowed)
    have "map_of (g_buckets g) (rate_key ctx) = None" using c t assms(15) by (simp add: rate_key_def str_or_empty_def)
    then obtain g2 where rate: "rateLimit gw now req2 g = (g2, Next req2)" and w: "g_world g2 = g_world g"
      using c t user by (simp add: rateLimit_def Let_def r2 count_request_def)
    have "serve gw now req g = (g2, Next req2)" by (simp add: s protectedChain_def auth tenant rest rate)
    then show ?thesis
      using False patch_by_user [OF c(3,1,4,2) assms(12,16)]
      by (simp add: patch_request_def r2 assms(2) w case_prod_beta)
  qed
qed

definition patching :: "string \<Rightarrow> Request" where
  "patching base = sample_request ''user'' ''PATCH'' (base @ ''/api/tenants/'' @ tenant_a)"

theorem upper_case_witness:
  "snd (patch_request sample_gw 0 (patching ''/admin'') (Some False) None sample_gate) = None \<and>
   w_tables (g_world (fst (patch_request sample_gw 0 (patching ''/ADMIN'') (Some False) None sample_gate))) ''app.tenants'' =
     [[(''tenant_id'', SText tenant_a), (''is_active'', SBool False), (''pii_enabled'', SBool True)]]"
proof -
  let ?r = "[(''tenant_id'', SText tenant_a), (''is_active'', SBool True), (''pii_enabled'', SBool True)]"
  let ?v = "\<lparr>vt_userId = ''u'', vt_tenantId = Some tenant_a, vt_role = USER\<rparr>"
  note u = upper_case_path_bypasses_roles [where gw = sample_gw and now = 0 and g = sample_gate and t = tenant_a and tok = "''user''" and v = ?v
      and r = ?r and rs = "[]" and is_active = "Some False" and pii_enabled = None]
  have b: "blind (g_world sample_gate)" by (simp add: blind_def sample_gate_def sample_world_def)
  have lower: "startsWith (rq_path (patching ''/admin'')) ''/admin/api''" and upper: "\<not> startsWith (rq_path (patching ''/ADMIN'')) ''/admin/api''"
    and w: "patched tenant_a (Some False) None (w_tables (g_world sample_gate) ''app.tenants'') =
      [[(''tenant_id'', SText tenant_a), (''is_active'', SBool False), (''pii_enabled'', SBool True)]]" by code_simp+
  have "snd (patch_request sample_gw 0 (patching ''/admin'') (Some False) None sample_gate) \<noteq> None \<longleftrightarrow>
      \<not> startsWith (rq_path (patching ''/admin'')) ''/admin/api''"
    by (rule conjunct1 [OF u [where req = "patching ''/admin''"]]; (rule b | code_simp))
  then have "snd (patch_request sample_gw 0 (patching ''/admin'') (Some False) None sample_gate) = None" using lower by simp
  moreover have "w_tables (g_world (fst (patch_request sample_gw 0 (patching ''/ADMIN'') (Some False) None sample_gate))) =
      (w_tables (g_world sample_gate))(''app.tenants'' := patched tenant_a (Some False) None (w_tables (g_world sample_gate) ''app.tenants''))"
    by (rule conjunct2 [OF u [where req = "patching ''/ADMIN''"], unfolded if_not_P [OF upper]]; (rule b | code_simp))
  ultimately show ?thesis by (simp add: w)
qed

section \<open>Tenants\<close>

lemma contained_create:
  "contained (bind (if truthy groupId then
                bind (db_select ''app.dealer_groups'' (has ''group_id'' (the groupId))) (\<lambda>rows.
                  if rows = [] then io_throw ''Group not found'' 404 ''GROUP_NOT_FOUND'' else ret ())
              else ret ()) (\<lambda>_.
        bind (db_select ''app.tenants'' (same_lower ''name'' name)) (\<lambda>existing.
          if truthy (first existing ''tenant_id'') then io_throw ''Tenant name already exists'' 409 ''TENANT_EXISTS''
          else
            bind (draw_uuid (ad_uuid d)) (\<lambda>tenantId.
            bind (db_insert ''app.tenants'' cols n (ps tenantId) None) (\<lambda>_.
            bind (db_select ''app.tenants'' (has ''tenant_id'' tenantId)) (\<lambda>rows.
            bind (lift (provisionSftpLocalUser (ad_env d) (ad_arm d) tenantId key)) (\<lambda>p.
            bind (applyTenantSftpUpdate tenantId (buildSftpSuccessUpdate p (ad_now d))) (\<lambda>_.
              ret (map_option (project tenant_columns) (head rows), tenantId, p)))))))))"
  unfolding applyTenantSftpUpdate_def
  by (intro contained_bind contained_if contained_select contained_draw contained_insert contained_update contained_pure)

lemma key_refused: "public_key d raw = Inl r \<Longrightarrow> \<exists>st c m. r = refuse st c m"
  by (auto simp: public_key_def Let_def split: if_splits)

lemma audit_then:
  "bind (admin_audit d ctx ac oid md) (\<lambda>_. ret x) v = (fst (admin_audit d ctx ac oid md v), Inr x)"
  "w_tables (fst (admin_audit d ctx ac oid md v)) = w_tables v"
  by (simp_all add: bind_def admin_audit_def ret_def auditLog_def Let_def)

lemma failed_creation:
  assumes "create_tenant d ctx name groupId key w = (w', Inl e)"
  shows "w_tables w' = w_tables w"
proof -
  have "snd (create_tenant d ctx name groupId key w) = Inl e" using assms by simp
  from contained_atomic [OF contained_create this [unfolded create_tenant_def]] show ?thesis
    using assms by (simp add: create_tenant_def)
qed

text \<open>C27: when the creation of a tenant is answered with an error, at whatever point it failed, the SFTP
  provisioning included, no table has changed.\<close>

theorem failed_tenant_creation_changes_nothing:
  assumes "createTenant d ctx name groupId key w = (w', Inr (AdminError e))"
  shows "w_tables w' = w_tables w"
proof (cases "public_key d key")
  case (Inl r)
  then obtain st c m where "public_key d key = Inl (refuse st c m)" using key_refused by blast
  then show ?thesis using assms by (auto simp: createTenant_def refuse_def ret_def split: if_splits)
next
  case (Inr k)
  define n g where "n = js_trim (the name)"
    and "g = (if truthy (map_option js_trim groupId) then map_option js_trim groupId else None)"
  obtain w1 r where c: "create_tenant d ctx n g k w = (w1, r)" by fastforce
  show ?thesis
  proof (cases r)
    case (Inl e')
    then have "w_tables w1 = w_tables w" using c failed_creation by blast
    then show ?thesis
      using assms c Inl by (auto simp: createTenant_def refuse_def ret_def Inr audit_then Let_def n_def g_def split: if_splits)
  next
    case (Inr x)
    then show ?thesis
      using assms c \<open>public_key d key = Inr k\<close>
      by (cases x) (auto simp: createTenant_def refuse_def ret_def audit_then Let_def n_def g_def split: if_splits)
  qed
qed

theorem failed_tenant_witness:
  "\<exists>w' e. createTenant sample_deps (sample_ctx\<lparr>cx_role := Some DEVELOPER\<rparr>) (Some ''Dealer'') None
       (Some (''ssh-rsa AAAA '' @ replicate 40 (CHR ''x''))) chat_world = (w', Inr (AdminError e)) \<and> w_tables w' = w_tables chat_world"
proof -
  let ?r = "createTenant sample_deps (sample_ctx\<lparr>cx_role := Some DEVELOPER\<rparr>) (Some ''Dealer'') None
       (Some (''ssh-rsa AAAA '' @ replicate 40 (CHR ''x''))) chat_world"
  have "(case snd ?r of Inr (AdminError e) \<Rightarrow> rs_error e = Some ''ARM_REQUEST_FAILED'' | _ \<Rightarrow> False)" by code_simp
  then obtain w' e where r: "?r = (w', Inr (AdminError e))"
    by (cases ?r) (auto split: sum.splits AdminReply.splits)
  from failed_tenant_creation_changes_nothing [OF r] r show ?thesis by blast
qed

end
