(* ===== verification/SessionFacts.thy ===== *)
theory SessionFacts
  imports Sessions AdminFacts
begin

text \<open>
  Facts about logging in and about the audit trail: the cookie of a successful login is a session for the user who
  logged in, logins leave no trace in the audit table, and walking the audit trail by its cursors leaves rows out.
\<close>

section \<open>Login\<close>

lemma login_audit_nothing [simp]: "login_audit d action md w = w"
  by (simp add: login_audit_def auditLog_def hasRlsContext_def request_fields_def)

lemma login_leaves_no_trace: "fst (login d nodeEnv email password w) = w"
  by (simp add: login_def Let_def split: sum.splits)

lemma login_success:
  assumes "login d nodeEnv email password w = (w', LoggedIn token secure)"
  obtains u us where "ld_lookup d w (toLowerCase (js_trim (the email))) = Inr (u # us)" "lu_active u"
    "lu_tenantActive u \<or> lu_role u = DEVELOPER" "ld_compare d (the password) (lu_hash u)"
    "token = ld_sign d (issue_payload \<lparr>vt_userId = lu_userId u, vt_tenantId = lu_tenantId u, vt_role = lu_role u\<rparr>)"
  using assms by (auto simp: login_def login_refused_def Let_def split: if_splits sum.splits list.splits)

lemma verify_issued:
  assumes "jwt token = Some (issue_payload v)" "vt_userId v \<noteq> []" "truthy (vt_tenantId v) \<or> vt_role v = DEVELOPER"
  shows "verifyToken jwt token = ok \<lparr>vt_userId = vt_userId v, vt_tenantId = (if truthy (vt_tenantId v) then vt_tenantId v else None),
                                     vt_role = vt_role v\<rparr>"
  using assms by (auto simp: verifyToken_def issue_payload_def)

text \<open>What a JSON web token is made of: base64url digits and dots.\<close>

definition token_char :: "char \<Rightarrow> bool" where
  "token_char c \<longleftrightarrow> is_alpha c \<or> is_digit c \<or> c = CHR ''-'' \<or> c = CHR ''_'' \<or> c = CHR ''.''"

lemma token_plain:
  assumes "list_all token_char t"
  shows "CHR '';'' \<notin> set t" "CHR ''='' \<notin> set t" "\<forall>c \<in> set t. \<not> is_ws c"
  using assms by (auto simp: list_all_iff token_char_def js_defs is_ws_def)

lemma trim_plain: "\<forall>c \<in> set s. \<not> is_ws c \<Longrightarrow> js_trim s = s"
proof -
  assume a: "\<forall>c \<in> set s. \<not> is_ws c"
  then have "dropWhile is_ws s = s" "dropWhile is_ws (rev s) = rev s" by (auto simp: dropWhile_eq_self_iff hd_rev)
  then show ?thesis by (simp add: js_trim_def)
qed

lemma cookie_of_token:
  assumes "list_all token_char t"
  shows "cookie_token (Some (''auth_token='' @ t)) = Some t"
proof -
  let ?c = "''auth_token='' @ t"
  note p = token_plain [OF assms]
  have "CHR '';'' \<notin> set ?c" using p(1) by simp
  moreover have "js_trim ?c = ?c" using p(3) by (intro trim_plain) (auto simp: is_ws_def between_def)
  moreover have "js_split ?c ''='' = [''auth_token'', t]"
    using js_split_snoc [of "CHR ''=''" t "''auth_token''"] js_split_absent [of "CHR ''=''" t]
      js_split_absent [of "CHR ''=''" "''auth_token''"] p(2) by simp
  ultimately show ?thesis by (simp add: cookie_token_def js_split_absent startsWith_iff)
qed

text \<open>C28: after a successful login the cookie it sets is a session: a request that carries it passes the
  authentication as the user who was found for the address, whose account and tenant are active and whose
  password was compared.\<close>

theorem login_cookie_authenticates:
  assumes "login d nodeEnv email password w = (w', LoggedIn token secure)"
    and "ld_lookup d w (toLowerCase (js_trim (the email))) = Inr (u # us)"
    and "lu_userId u \<noteq> []" "truthy (lu_tenantId u) \<or> lu_role u = DEVELOPER"
    and "claims = issue_payload \<lparr>vt_userId = lu_userId u, vt_tenantId = lu_tenantId u, vt_role = lu_role u\<rparr>"
    and "gw_jwt gw (ld_sign d claims) = Some claims" "list_all token_char (ld_sign d claims)" "ld_sign d claims \<noteq> []"
    and "rq_header req ''cookie'' = Some (''auth_token='' @ token)" "rq_header req ''authorization'' = None"
    and "rq_path req \<noteq> ''/health''" "\<not> (production gw \<and> impersonates req)" "truthy (cx_requestId (rq_context req))"
  shows "lu_active u \<and> (lu_tenantActive u \<or> lu_role u = DEVELOPER) \<and> ld_compare d (the password) (lu_hash u) \<and>
    authContext gw now req g =
      (g, Next (req\<lparr>rq_context := (rq_context req)\<lparr>cx_userId := Some (lu_userId u),
          cx_tenantId := (if truthy (lu_tenantId u) then lu_tenantId u else None), cx_role := Some (lu_role u)\<rparr>\<rparr>))"
proof -
  let ?v = "\<lparr>vt_userId = lu_userId u, vt_tenantId = lu_tenantId u, vt_role = lu_role u\<rparr>"
  have l: "lu_active u" "lu_tenantActive u \<or> lu_role u = DEVELOPER" "ld_compare d (the password) (lu_hash u)"
    "token = ld_sign d claims"
    using login_success [OF assms(1)] assms(2,5) by (metis Inr_inject list.inject)+
  have "request_token req = Some token"
    using cookie_of_token [of token] assms(7,9,10) l(4) by (simp add: request_token_def bearer_token_def)
  moreover have "token \<noteq> []" using assms(8) l(4) by simp
  moreover have "verifyToken (gw_jwt gw) token =
      ok \<lparr>vt_userId = lu_userId u, vt_tenantId = (if truthy (lu_tenantId u) then lu_tenantId u else None), vt_role = lu_role u\<rparr>"
    using verify_issued [of "gw_jwt gw" token ?v] assms(3-6) l(4) by simp
  ultimately show ?thesis
    using l assms(11-13) by (auto simp: authContext_def Let_def)
qed

section \<open>The audit trail\<close>

interpretation by_time: comparator "\<lambda>a b. audit_key d b \<le> audit_key d a" for d
  by unfold_locales auto

lemma newest_sorted: "sorted_wrt (\<lambda>a b. audit_key d b \<le> audit_key d a) (newest_audits d rows)"
  unfolding newest_audits_def by (rule by_time.sorted_sort)

lemma newest_set [simp]: "set (newest_audits d rows) = set rows"
  by (simp add: newest_audits_def)

lemma newest_distinct: "distinct (map ar_id rows) \<Longrightarrow> distinct (map ar_id (newest_audits d rows))"
  by (simp add: newest_audits_def distinct_map_js_sort)

text \<open>The server reads the ISO texts of its times and its own ids.\<close>

definition cursor_laws :: "AuditDeps \<Rightarrow> AuditRow list \<Rightarrow> bool" where
  "cursor_laws d rows \<longleftrightarrow>
     (\<forall>r \<in> set rows. au_time d (toISOString (au_created d (ar_id r) div 1000)) = Some (au_created d (ar_id r) div 1000 * 1000) \<and>
        au_id d (ar_id r) = Some (ar_id r) \<and> CHR ''|'' \<notin> set (ar_id r))"

lemma cursor_reads_back:
  assumes "cursor_laws d rows" "r \<in> set rows"
  shows "cursor_filter d (Some (cursor_text d r)) = ok (before_cursor d (au_created d (ar_id r) div 1000 * 1000, Some (ar_id r)))"
proof -
  let ?t = "toISOString (au_created d (ar_id r) div 1000)"
  have l: "au_time d ?t = Some (au_created d (ar_id r) div 1000 * 1000)" "CHR ''|'' \<notin> set ?t"
    "au_id d (ar_id r) = Some (ar_id r)" "CHR ''|'' \<notin> set (ar_id r)"
    using assms iso_chars [of "CHR ''|''"] by (auto simp: cursor_laws_def is_digit_def between_def)
  have "js_split (cursor_text d r) ''|'' = [?t, ar_id r]"
    using js_split_snoc [OF l(4), of ?t] js_split_absent [OF l(2)] by (simp add: cursor_text_def)
  then show ?thesis using l by (simp add: cursor_filter_def parse_cursor_def parse_time_def cursor_text_def)
qed

lemma before_own_cursor:
  "before_cursor d (au_created d (ar_id r) div 1000 * 1000, Some (ar_id r)) r' \<Longrightarrow> audit_key d r' < audit_key d r"
  using div_mult_mod_eq [of "au_created d (ar_id r)" 1000] pos_mod_sign [of 1000 "au_created d (ar_id r)"]
  by (auto simp: before_cursor_def audit_key_def less_prod_def less_eq_prod_def)

text \<open>All the rows that a walk of the given number of pages shows, following the next cursors.\<close>

fun audit_walk :: "AuditDeps \<Rightarrow> nat \<Rightarrow> (AuditRow \<Rightarrow> bool) \<Rightarrow> AuditRow list \<Rightarrow> nat \<Rightarrow> string option \<Rightarrow> AuditRow list" where
  "audit_walk d limit scope rows 0 cursor = []"
| "audit_walk d limit scope rows (Suc n) cursor =
     (case audit_page d limit scope cursor rows of
        Inl _ \<Rightarrow> []
      | Inr (page, next) \<Rightarrow> page @ (if next = None then [] else audit_walk d limit scope rows n next))"

lemma page_after:
  assumes "cursor_laws d rows" "r \<in> set rows" "audit_page d limit scope (Some (cursor_text d r)) rows = Inr (page, next)"
  shows "(\<forall>x \<in> set page. audit_key d x < audit_key d r) \<and>
    (next = None \<or> (\<exists>s \<in> set rows. next = Some (cursor_text d s) \<and> audit_key d s < audit_key d r))"
proof -
  define found where "found = take (limit + 1) (newest_audits d (filter (\<lambda>x. scope x \<and>
    before_cursor d (au_created d (ar_id r) div 1000 * 1000, Some (ar_id r)) x) rows))"
  have f: "x \<in> set rows \<and> audit_key d x < audit_key d r" if "x \<in> set found" for x
    using in_set_takeD [OF that [unfolded found_def]] before_own_cursor by auto
  have "audit_page d limit scope (Some (cursor_text d r)) rows =
      Inr (take limit found, if limit < length found then Some (cursor_text d (found ! limit)) else None)"
    unfolding audit_page_def cursor_reads_back [OF assms(1,2)] by (simp add: Let_def found_def)
  then have "page = take limit found" "next = (if limit < length found then Some (cursor_text d (found ! limit)) else None)"
    using assms(3) by simp_all
  then show ?thesis using f by (auto dest: in_set_takeD intro!: bexI [of _ "found ! limit"])
qed

lemma walk_after:
  assumes "cursor_laws d rows" "r \<in> set rows" "x \<in> set (audit_walk d limit scope rows n (Some (cursor_text d r)))"
  shows "audit_key d x < audit_key d r"
  using assms(2,3)
proof (induction n arbitrary: r)
  case (Suc n)
  obtain page "next" where p: "audit_page d limit scope (Some (cursor_text d r)) rows = Inr (page, next)"
    using Suc.prems(2) by (cases "audit_page d limit scope (Some (cursor_text d r)) rows") auto
  note a = page_after [OF assms(1) Suc.prems(1) p]
  show ?case
  proof (cases "x \<in> set page")
    case False
    then have "next \<noteq> None" "x \<in> set (audit_walk d limit scope rows n next)" using Suc.prems(2) p by (auto split: if_splits)
    then obtain s where s: "s \<in> set rows" "audit_key d s < audit_key d r" "x \<in> set (audit_walk d limit scope rows n (Some (cursor_text d s)))"
      using a by auto
    show ?thesis using Suc.IH [OF s(1,3)] s(2) by order
  qed (use a in blast)
qed simp

text \<open>C29: the audit trail leaves rows out: the next cursor of a full page names the first row after the page, and the
  next page starts strictly behind it, so that a reader who follows the cursors never sees that row.\<close>

theorem audit_walk_leaves_rows_out:
  assumes "cursor_laws d rows" "distinct (map ar_id rows)" "limit < length (filter scope rows)"
  shows "newest_audits d (filter scope rows) ! limit \<in> set (filter scope rows) - set (audit_walk d limit scope rows n None)"
proof -
  define all where "all = newest_audits d (filter scope rows)"
  have l: "limit < length all" using assms(3) by (simp add: all_def newest_audits_def)
  have i: "all ! limit \<in> set (filter scope rows)" using nth_mem [OF l] by (simp add: all_def)
  have "distinct all"
    using newest_distinct [of "filter scope rows" d] assms(2) distinct_map_filter distinct_map unfolding all_def by blast
  then have head: "all ! limit \<notin> set (take limit all)"
    using l by (metis id_take_nth_drop distinct_append distinct.simps(2) disjoint_iff list.set_intros(1) not_distinct_conv_prefix)
  have "all ! limit \<notin> set (audit_walk d limit scope rows n None)"
  proof (cases n)
    case (Suc m)
    have "audit_page d limit scope None rows = Inr (take limit all, Some (cursor_text d (all ! limit)))"
      using l by (simp add: audit_page_def cursor_filter_def all_def Let_def min_def)
    then show ?thesis
      using Suc head walk_after [of d rows "all ! limit" "all ! limit" limit scope m] assms(1) i by auto
  qed simp
  then show ?thesis using i by (simp add: all_def)
qed

section \<open>Examples\<close>

definition sample_user :: LoginUser where
  "sample_user = \<lparr>lu_userId = ''u1'', lu_tenantId = Some ''t1'', lu_role = ADMIN, lu_hash = ''secret'', lu_active = True, lu_tenantActive = True\<rparr>"

definition sample_login :: LoginDeps where
  "sample_login =
     \<lparr>ld_lookup = (\<lambda>_ e. Inr (if e = ''a@b.c'' then [sample_user] else [])), ld_compare = (=),
      ld_sign = (\<lambda>_. ''h.p.s''), ld_uuid = (\<lambda>_. ''x''), ld_accepts = (\<lambda>_. True)\<rparr>"

definition sample_claims :: UserClaims where
  "sample_claims = issue_payload \<lparr>vt_userId = ''u1'', vt_tenantId = Some ''t1'', vt_role = ADMIN\<rparr>"

definition sample_session :: Request where
  "sample_session = (sample_request ''x'' ''GET'' ''/auth/me'')
     \<lparr>rq_header := (\<lambda>h. if h = ''cookie'' then Some ''auth_token=h.p.s'' else None),
      rq_context := request_fields\<lparr>cx_requestId := Some ''r1''\<rparr>\<rparr>"

theorem login_cookie_witness:
  "fst (login sample_login None (Some '' A@b.c'') (Some ''secret'') sample_world) = sample_world \<and>
   (\<exists>g'. authContext (sample_gw\<lparr>gw_jwt := \<lambda>_. Some sample_claims\<rparr>) 0 sample_session sample_gate =
     (g', Next (sample_session\<lparr>rq_context := (rq_context sample_session)\<lparr>cx_userId := Some ''u1'', cx_tenantId := Some ''t1'',
        cx_role := Some ADMIN\<rparr>\<rparr>)))"
proof -
  have a: "toLowerCase (js_trim (the (Some '' A@b.c''))) = ''a@b.c''" by code_simp
  have l: "login sample_login None (Some '' A@b.c'') (Some ''secret'') sample_world = (sample_world, LoggedIn ''h.p.s'' False)"
    unfolding login_def a by (simp add: sample_login_def sample_user_def login_refused_def issue_payload_def)
  show ?thesis
    using login_cookie_authenticates [OF l, of sample_user "[]" sample_claims "sample_gw\<lparr>gw_jwt := \<lambda>_. Some sample_claims\<rparr>"
        sample_session 0 sample_gate, unfolded a] l
    by (simp add: sample_login_def sample_user_def sample_claims_def sample_session_def sample_gw_def production_def impersonates_def
        token_char_def js_defs is_ws_def sample_request_def request_fields_def)
qed

definition sample_audits :: "AuditRow list" where
  "sample_audits = map (\<lambda>i. \<lparr>ar_id = i, ar_tenant = ''t1'', ar_user = ''u1'', ar_request = ''r'',
     ar_event = event ''A'' ''o'' None []\<rparr>) [''a'', ''b'', ''c'']"

definition sample_audit_deps :: AuditDeps where
  "sample_audit_deps =
     \<lparr>au_uuid = (\<lambda>_. ''x''), au_accepts = (\<lambda>_. True), au_sees = (\<lambda>_ _. True),
      au_created = (\<lambda>i. if i = ''a'' then 1000 else if i = ''b'' then 2000 else 3000),
      au_time = (\<lambda>s. map_of (map (\<lambda>m. (toISOString m, m * 1000)) [1, 2, 3]) s), au_id = Some\<rparr>"

lemma sample_laws: "cursor_laws sample_audit_deps sample_audits"
proof -
  have "toISOString 1 = ''1970-01-01T00:00:00.001Z''" "toISOString 2 = ''1970-01-01T00:00:00.002Z''"
    "toISOString 3 = ''1970-01-01T00:00:00.003Z''"
    by code_simp+
  then show ?thesis by (simp add: cursor_laws_def sample_audit_deps_def sample_audits_def)
qed

theorem audit_walk_witness:
  "newest_audits sample_audit_deps sample_audits ! 1 = sample_audits ! 1 \<and>
   sample_audits ! 1 \<notin> set (audit_walk sample_audit_deps 1 (\<lambda>_. True) sample_audits 5 None)"
proof -
  have n: "newest_audits sample_audit_deps sample_audits ! 1 = sample_audits ! 1"
    by (simp add: newest_audits_def js_sort_def sample_audits_def audit_key_def sample_audit_deps_def)
  show ?thesis
    using n audit_walk_leaves_rows_out [OF sample_laws, of 1 "\<lambda>_. True" 5]
    by (simp add: sample_audits_def)
qed

end
