(* ===== verification/Reset.thy ===== *)
theory Reset
  imports Db
begin

text \<open>
  ops/reset/reset_all_data.ts, the script that empties the tables of an environment: its arguments, the checks before
  it connects, the one transaction that counts and deletes, and the verification over a second connection.

  With \<open>row_security = off\<close> the server refuses a statement on a table whose policies apply to the role, instead of
  filtering it. Which tables these are depends on the role of \<open>DATABASE_URL\<close>, and which tables there are on the
  database, so both are arguments. The console output is left out, foreign keys are not modelled, and \<open>new URL(...)\<close> is an
  argument that gives the host name and the path.
\<close>

section \<open>Arguments\<close>

record ResetArgs =
  ra_confirm :: "string option"
  ra_force :: bool
  ra_dryRun :: bool
  ra_understood :: bool
  ra_includeAuditLogs :: bool

record TableSpec =
  ts_name :: string
  ts_optional :: bool
  ts_audit :: bool

definition REQUIRED_CONFIRMATION :: string where "REQUIRED_CONFIRMATION = ''RESET_ALL_TENANTS_AND_USERS''"
definition REQUIRED_UNDERSTAND_FLAG :: string where "REQUIRED_UNDERSTAND_FLAG = ''--i-understand-this-will-delete-everything''"

definition parseBool :: "string option \<Rightarrow> bool \<Rightarrow> bool" where
  "parseBool v fallback =
     (case v of
        None \<Rightarrow> fallback
      | Some s \<Rightarrow>
          let normalized = toLowerCase s
          in if normalized = ''true'' then True else if normalized = ''false'' then False else fallback)"

fun arg_after :: "string \<Rightarrow> string list \<Rightarrow> string option" where
  "arg_after key [] = None"
| "arg_after key (a # rest) = (if a = key then (case rest of [] \<Rightarrow> None | b # _ \<Rightarrow> Some b) else arg_after key rest)"

definition getArgValue :: "string list \<Rightarrow> string \<Rightarrow> string option" where
  "getArgValue argv key =
     (case find (\<lambda>a. startsWith a (key @ ''='')) argv of
        Some a \<Rightarrow> Some (js_join ''='' (drop 1 (js_split a ''='')))
      | None \<Rightarrow> arg_after key argv)"

definition hasFlag :: "string list \<Rightarrow> string \<Rightarrow> bool" where
  "hasFlag argv flag \<longleftrightarrow> flag \<in> set argv"

definition parseResetArgs :: "string list \<Rightarrow> ResetArgs" where
  "parseResetArgs argv =
     \<lparr>ra_confirm = getArgValue argv ''--confirm'',
      ra_force = hasFlag argv ''--force'' \<or> parseBool (getArgValue argv ''--force'') False,
      ra_dryRun = parseBool (getArgValue argv ''--dry-run'') True,
      ra_understood = hasFlag argv REQUIRED_UNDERSTAND_FLAG,
      ra_includeAuditLogs = hasFlag argv ''--include-audit-logs''\<rparr>"

section \<open>Checks before connecting\<close>

definition parseDatabaseUrl :: "(string \<Rightarrow> (string \<times> string) option) \<Rightarrow> string \<Rightarrow> (string \<times> string) res" where
  "parseDatabaseUrl url databaseUrl =
     (case url databaseUrl of
        None \<Rightarrow> Inl (Js ''DATABASE_URL is not a valid URL'')
      | Some (hostname, pathname) \<Rightarrow>
          let database = (if startsWith pathname ''/'' then drop 1 pathname else pathname)
          in if hostname = [] then Inl (Js ''DATABASE_URL hostname is missing'')
             else if database = [] then Inl (Js ''DATABASE_URL database name is missing'')
             else ok (hostname, database))"

definition BLOCKED_HOST_PATTERNS :: "rx list" where
  "BLOCKED_HOST_PATTERNS = [rx_seq [RWordB, str_i ''prod'', RWordB], str_i ''production'']"

definition blocked_hosts :: "(string \<Rightarrow> string option) \<Rightarrow> string list" where
  "blocked_hosts env = filter (\<lambda>h. h \<noteq> []) (map js_trim (js_split (str_or_empty (env ''RESET_BLOCKED_DB_HOSTS'')) '',''))"

definition assertNonProduction :: "(string \<Rightarrow> string option) \<Rightarrow> string \<Rightarrow> unit res" where
  "assertNonProduction env hostname =
     (if env ''NODE_ENV'' = Some ''production'' then Inl (Js ''Refusing to run: NODE_ENV is production'')
      else if hostname \<in> set (blocked_hosts env) then Inl (Js (''Refusing to run: DATABASE_URL host '' @ hostname @ '' is blocked''))
      else if list_ex (\<lambda>p. rx_test p hostname) BLOCKED_HOST_PATTERNS
      then Inl (Js (''Refusing to run: DATABASE_URL host '' @ hostname @ '' matches production hostname pattern''))
      else ok ())"

section \<open>Tables\<close>

record ResetDb =
  rd_exists :: "string \<Rightarrow> bool"       \<comment> \<open>\<open>to_regclass\<close>\<close>
  rd_restricted :: "string \<Rightarrow> bool"   \<comment> \<open>policies apply to the role\<close>
  rd_canDisable :: bool              \<comment> \<open>\<open>SET LOCAL row_security = off\<close> is accepted\<close>

abbreviation table_spec :: "string \<Rightarrow> bool \<Rightarrow> bool \<Rightarrow> TableSpec" where
  "table_spec n opt gated \<equiv> \<lparr>ts_name = n, ts_optional = opt, ts_audit = gated\<rparr>"

definition TABLES :: "TableSpec list" where
  "TABLES =
     [table_spec ''app.embeddings'' False False, table_spec ''app.chunks'' False False,
      table_spec ''app.ro_parts_lines'' False False, table_spec ''app.ro_labor_lines'' False False,
      table_spec ''app.ro_deterministic_v2'' False False, table_spec ''app.repair_orders'' False False,
      table_spec ''app.documents'' False False, table_spec ''app.pii_vault'' False False,
      table_spec ''app.audit_logs'' True True, table_spec ''chat.messages'' True False,
      table_spec ''chat.conversations'' True False, table_spec ''app.user_group_memberships'' True False,
      table_spec ''app.users'' False False, table_spec ''app.tenants'' False False,
      table_spec ''app.groups'' True False, table_spec ''app.dealer_groups'' True False]"

text \<open>A statement on a whole table. The rows of \<open>app.audit_logs\<close> are the audit trail of the world.\<close>

definition rows_in :: "string \<Rightarrow> World \<Rightarrow> nat" where
  "rows_in t w = (if t = ''app.audit_logs'' then length (w_audit w) else length (w_tables w t))"

definition emptied :: "string \<Rightarrow> World \<Rightarrow> World" where
  "emptied t w = (if t = ''app.audit_logs'' then w\<lparr>w_audit := []\<rparr> else w\<lparr>w_tables := (w_tables w)(t := [])\<rparr>)"

definition on_table :: "ResetDb \<Rightarrow> string \<Rightarrow> 'a io \<Rightarrow> 'a io" where
  "on_table db t m = guard_tx (\<lambda>w. if rd_restricted db t then fail_stmt (RlsViolation t) w else m w)"

definition countRows :: "ResetDb \<Rightarrow> string \<Rightarrow> nat io" where
  "countRows db t = on_table db t (\<lambda>w. (w, Inr (rows_in t w)))"

definition deleteRows :: "ResetDb \<Rightarrow> string \<Rightarrow> nat io" where
  "deleteRows db t = on_table db t (\<lambda>w. (emptied t w, Inr (rows_in t w)))"

definition disable_rls :: "ResetDb \<Rightarrow> string \<Rightarrow> unit io" where
  "disable_rls db msg = (if rd_canDisable db then ret () else lift (Inl (Js msg)))"

definition setResetContext :: "unit io" where
  "setResetContext =
     bind (set_config ''app.request_id'' ''reset-all-data'') (\<lambda>_.
     bind (set_config ''app.user_id'' []) (\<lambda>_.
     bind (set_config ''app.tenant_id'' []) (\<lambda>_.
       set_config ''app.role'' ''DEVELOPER'')))"

definition ensureTableAvailable :: "ResetDb \<Rightarrow> TableSpec \<Rightarrow> bool res" where
  "ensureTableAvailable db t =
     (if rd_exists db (ts_name t) then ok True
      else if ts_optional t then ok False
      else Inl (Js (''Required table missing: '' @ ts_name t)))"

definition shouldIncludeTable :: "TableSpec \<Rightarrow> ResetArgs \<Rightarrow> bool" where
  "shouldIncludeTable t args \<longleftrightarrow> \<not> ts_audit t \<or> ra_includeAuditLogs args"

text \<open>The three loops over the tables: with a statement for each included table that is there.\<close>

fun each_table :: "ResetDb \<Rightarrow> ResetArgs \<Rightarrow> (string \<Rightarrow> nat io) \<Rightarrow> TableSpec list \<Rightarrow> (string \<times> nat) list io" where
  "each_table db args f [] = ret []"
| "each_table db args f (t # ts) =
     (if \<not> shouldIncludeTable t args then each_table db args f ts
      else bind (lift (ensureTableAvailable db t)) (\<lambda>available.
             if \<not> available then each_table db args f ts
             else bind (f (ts_name t)) (\<lambda>n. bind (each_table db args f ts) (\<lambda>ns. ret ((ts_name t, n) # ns)))))"

section \<open>The two phases\<close>

text \<open>The transaction; the result is None after a dry run. A rollback brings the audit trail back as well.\<close>

definition reset_rollback :: "World \<Rightarrow> World \<Rightarrow> World" where
  "reset_rollback before w = (fst (tx_rollback w))\<lparr>w_audit := w_audit before\<rparr>"

definition reset_body :: "ResetDb \<Rightarrow> ResetArgs \<Rightarrow> ((string \<times> nat) list option) io" where
  "reset_body db args =
     bind tx_begin (\<lambda>_.
     bind setResetContext (\<lambda>_.
     bind (disable_rls db ''Unable to disable RLS; required for full reset'') (\<lambda>_.
     bind (each_table db args (countRows db) TABLES) (\<lambda>counts.
       if ra_dryRun args
       then bind (each_table db args (\<lambda>t. ret 0) TABLES) (\<lambda>_. bind tx_rollback (\<lambda>_. ret None))
       else bind (each_table db args (deleteRows db) TABLES) (\<lambda>deleted. bind tx_commit (\<lambda>_. ret (Some deleted)))))))"

definition reset_phase :: "ResetDb \<Rightarrow> ResetArgs \<Rightarrow> ((string \<times> nat) list option) io" where
  "reset_phase db args w =
     (case reset_body db args w of
        (w', Inr r) \<Rightarrow> (w', Inr r)
      | (w', Inl e) \<Rightarrow> (reset_rollback w w', Inl e))"

definition verify_empty :: "ResetDb \<Rightarrow> string \<Rightarrow> unit io" where
  "verify_empty db t =
     bind (countRows db t) (\<lambda>n.
       if n \<noteq> 0 then lift (Inl (Js (''Post-reset verification failed for '' @ t @ '': '' @ digits_of (int n) @ '' rows remain''))) else ret ())"

definition verifyGroupsTable :: "ResetDb \<Rightarrow> unit io" where
  "verifyGroupsTable db =
     (if \<not> rd_exists db ''app.dealer_groups'' \<and> \<not> rd_exists db ''app.groups''
      then lift (Inl (Js ''Required groups table missing: app.dealer_groups or app.groups''))
      else bind (if rd_exists db ''app.dealer_groups'' then verify_empty db ''app.dealer_groups'' else ret ()) (\<lambda>_.
             if rd_exists db ''app.groups'' then verify_empty db ''app.groups'' else ret ()))"

definition verificationTables :: "string list" where
  "verificationTables =
     [''app.tenants'', ''app.users'', ''app.repair_orders'', ''app.ro_deterministic_v2'', ''app.chunks'', ''app.embeddings'', ''app.pii_vault'']"

definition verify_body :: "ResetDb \<Rightarrow> unit io" where
  "verify_body db =
     bind tx_begin (\<lambda>_.
     bind setResetContext (\<lambda>_.
     bind (disable_rls db ''Unable to disable RLS during verification'') (\<lambda>_.
     bind (io_each (\<lambda>t. if \<not> rd_exists db t then lift (Inl (Js (''Required table missing during verification: '' @ t)))
                       else verify_empty db t) verificationTables) (\<lambda>_.
     bind (verifyGroupsTable db) (\<lambda>_. tx_commit)))))"

definition verify_phase :: "ResetDb \<Rightarrow> unit io" where
  "verify_phase db w =
     (case verify_body db w of (w', Inr r) \<Rightarrow> (w', Inr r) | (w', Inl e) \<Rightarrow> (reset_rollback w w', Inl e))"

definition reset_main ::
  "ResetDb \<Rightarrow> (string \<Rightarrow> (string \<times> string) option) \<Rightarrow> (string \<Rightarrow> string option) \<Rightarrow> string list \<Rightarrow> ((string \<times> nat) list option) io" where
  "reset_main db url env argv =
     (let args = parseResetArgs argv
      in if \<not> ra_understood args then lift (Inl (Js (''Missing required flag: '' @ REQUIRED_UNDERSTAND_FLAG)))
         else if \<not> truthy (env ''DATABASE_URL'') then lift (Inl (Js ''DATABASE_URL not configured''))
         else bind (lift (parseDatabaseUrl url (the (env ''DATABASE_URL'')))) (\<lambda>(hostname, database).
              bind (lift (assertNonProduction env hostname)) (\<lambda>_.
                if \<not> ra_dryRun args \<and> \<not> ra_force args
                then lift (Inl (Js ''Refusing to run: --force is required when dry-run is false''))
                else if \<not> ra_dryRun args \<and> ra_confirm args \<noteq> Some REQUIRED_CONFIRMATION
                then lift (Inl (Js (''Confirmation required: --confirm='' @ REQUIRED_CONFIRMATION)))
                else bind (reset_phase db args) (\<lambda>r.
                       case r of None \<Rightarrow> ret None | Some deleted \<Rightarrow> bind (verify_phase db) (\<lambda>_. ret (Some deleted))))))"

end
