(* ===== verification/ResetFacts.thy ===== *)
theory ResetFacts
  imports Reset DbFacts
begin

text \<open>
  Facts about the reset: it deletes with every consent it asks for or not at all, everything it announces or nothing, and
  a reset that reports success has emptied the tables it verifies.
\<close>

section \<open>What the loops over the tables do\<close>

definition chosen :: "ResetDb \<Rightarrow> ResetArgs \<Rightarrow> TableSpec list \<Rightarrow> string list" where
  "chosen db args ts = map ts_name (filter (\<lambda>t. shouldIncludeTable t args \<and> rd_exists db (ts_name t)) ts)"

text \<open>Computations that keep the snapshot of the transaction.\<close>

definition snapshot_kept :: "'a io \<Rightarrow> bool" where
  "snapshot_kept m \<longleftrightarrow> (\<forall>w. w_saved (fst (m w)) = w_saved w)"

lemma snapshot_bind: "snapshot_kept m \<Longrightarrow> (\<And>x. snapshot_kept (f x)) \<Longrightarrow> snapshot_kept (bind m f)"
  unfolding snapshot_kept_def fst_bind by (simp split: sum.split)

lemma snapshot_pure: "snapshot_kept (ret x)" "snapshot_kept (lift r)"
  by (simp_all add: snapshot_kept_def ret_def lift_def)

lemma snapshot_statement:
  "snapshot_kept (countRows db t)" "snapshot_kept (deleteRows db t)" "snapshot_kept (set_config a b)"
  "snapshot_kept tx_commit" "snapshot_kept tx_rollback"
  by (auto simp: snapshot_kept_def tx_commit_def tx_rollback_def countRows_def deleteRows_def on_table_def guard_tx_def fail_stmt_def emptied_def set_config_def)

lemma snapshot_each:
  assumes "\<And>t. snapshot_kept (f t)"
  shows "snapshot_kept (each_table db args f ts)"
  by (induction ts) (auto simp: snapshot_pure intro!: snapshot_bind assms)

lemma snapshot_context: "snapshot_kept setResetContext" "snapshot_kept (disable_rls db msg)"
  by (auto simp: setResetContext_def disable_rls_def snapshot_pure intro!: snapshot_bind snapshot_statement)

lemma count_ok: "countRows db t w = (w', Inr n) \<longleftrightarrow> \<not> w_failed w \<and> \<not> rd_restricted db t \<and> w' = w \<and> n = rows_in t w"
  by (auto simp: countRows_def on_table_def guard_tx_def fail_stmt_def)

lemma delete_ok: "deleteRows db t w = (w', Inr n) \<longleftrightarrow> \<not> w_failed w \<and> \<not> rd_restricted db t \<and> w' = emptied t w \<and> n = rows_in t w"
  by (auto simp: deleteRows_def on_table_def guard_tx_def fail_stmt_def)

lemma context_ok: "setResetContext w = (w', Inr ()) \<Longrightarrow>
    w_tables w' = w_tables w \<and> w_audit w' = w_audit w \<and> w_saved w' = w_saved w \<and> w_failed w' = w_failed w"
  by (auto simp: setResetContext_def bind_ok set_config_def guard_tx_def split: if_splits)

lemma each_count: "each_table db args (countRows db) ts w = (w', Inr ns) \<Longrightarrow> w' = w"
  by (induction ts arbitrary: ns)
    (auto simp: ret_def bind_ok lift_def ensureTableAvailable_def count_ok split: if_splits)

lemma each_nothing: "each_table db args (\<lambda>t. ret 0) ts w = (w', Inr ns) \<Longrightarrow> w' = w"
  by (induction ts arbitrary: ns) (auto simp: ret_def bind_ok lift_def ensureTableAvailable_def split: if_splits)

lemma emptied_kept: "w_failed (emptied t w) = w_failed w"
  by (simp add: emptied_def)

text \<open>The world after the rows of some tables are gone.\<close>

definition without :: "string list \<Rightarrow> World \<Rightarrow> World" where
  "without ts w = fold emptied ts w"

lemma without_fields:
  "w_tables (without ts w) t = (if t \<in> set ts \<and> t \<noteq> ''app.audit_logs'' then [] else w_tables w t)"
  "w_audit (without ts w) = (if ''app.audit_logs'' \<in> set ts then [] else w_audit w)"
  "w_saved (without ts w) = w_saved w" "w_failed (without ts w) = w_failed w"
  unfolding without_def by (induction ts arbitrary: w) (auto simp: emptied_def)

lemma rows_in_without: "rows_in t (without ts w) = (if t \<in> set ts then 0 else rows_in t w)"
  by (auto simp: rows_in_def without_fields)

lemma each_delete:
  "each_table db args (deleteRows db) ts w = (w', Inr ns) \<Longrightarrow> distinct (map ts_name ts) \<Longrightarrow>
    w' = without (chosen db args ts) w \<and> ns = map (\<lambda>t. (t, rows_in t w)) (chosen db args ts)"
proof (induction ts arbitrary: w ns)
  case (Cons t ts)
  show ?case
  proof (cases "shouldIncludeTable t args \<and> rd_exists db (ts_name t)")
    case True
    have fresh: "ts_name t \<notin> set (chosen db args ts)" using Cons.prems(2) by (auto simp: chosen_def)
    obtain ms where ms: "each_table db args (deleteRows db) ts (emptied (ts_name t) w) = (w', Inr ms)"
      "ns = (ts_name t, rows_in (ts_name t) w) # ms"
      using Cons.prems(1) True by (auto simp: bind_ok lift_def ensureTableAvailable_def delete_ok ret_def)
    have "rows_in x (emptied (ts_name t) w) = rows_in x w" if "x \<in> set (chosen db args ts)" for x
      using that fresh by (auto simp: rows_in_def emptied_def)
    then show ?thesis
      using Cons.IH [OF ms(1)] Cons.prems(2) ms(2) True by (simp add: chosen_def without_def)
  next
    case False
    then show ?thesis
      using Cons.prems Cons.IH [of w ns] by (auto simp: bind_ok lift_def ensureTableAvailable_def chosen_def split: if_splits)
  qed
qed (simp add: ret_def chosen_def without_def)

section \<open>The transaction\<close>

lemma tables_distinct: "distinct (map ts_name TABLES)"
  unfolding TABLES_def by simp

text \<open>Every verified table is deleted from, whatever is included, and required.\<close>

lemma verified_listed:
  "list_all (\<lambda>t. list_ex (\<lambda>s. ts_name s = t \<and> \<not> ts_audit s \<and> \<not> ts_optional s) TABLES \<and> t \<noteq> ''app.audit_logs'') verificationTables"
  "list_all (\<lambda>t. list_ex (\<lambda>s. ts_name s = t \<and> \<not> ts_audit s) TABLES \<and> t \<noteq> ''app.audit_logs'')
     (''app.dealer_groups'' # ''app.groups'' # verificationTables)"
  by code_simp+

lemma verified_chosen:
  assumes "t \<in> set (''app.dealer_groups'' # ''app.groups'' # verificationTables)" "rd_exists db t"
  shows "t \<in> set (chosen db args TABLES) \<and> t \<noteq> ''app.audit_logs''"
proof -
  have "list_ex (\<lambda>s. ts_name s = t \<and> \<not> ts_audit s) TABLES \<and> t \<noteq> ''app.audit_logs''"
    using verified_listed(2) assms(1) unfolding list_all_iff by blast
  then show ?thesis using assms(2) by (auto simp: list_ex_iff chosen_def shouldIncludeTable_def)
qed

definition same_data :: "World \<Rightarrow> World \<Rightarrow> bool" where
  "same_data w w' \<longleftrightarrow> w_tables w' = w_tables w \<and> w_audit w' = w_audit w"

lemma begin_bind: "bind tx_begin f w = f () (fst (tx_begin w))"
  by (simp add: bind_def tx_begin_def)

lemma failed_body:
  assumes "reset_body db args w = (w', Inl e)"
  shows "w_saved w' = w_tables w"
proof -
  define rest where "rest = bind setResetContext (\<lambda>_.
     bind (disable_rls db ''Unable to disable RLS; required for full reset'') (\<lambda>_.
     bind (each_table db args (countRows db) TABLES) (\<lambda>counts.
       if ra_dryRun args
       then bind (each_table db args (\<lambda>t. ret 0) TABLES) (\<lambda>_. bind tx_rollback (\<lambda>_. ret None))
       else bind (each_table db args (deleteRows db) TABLES) (\<lambda>deleted. bind tx_commit (\<lambda>_. ret (Some deleted))))))"
  have "snapshot_kept rest"
    unfolding rest_def
    by (auto intro!: snapshot_bind snapshot_context snapshot_each snapshot_statement snapshot_pure)
  moreover have "reset_body db args w = rest (fst (tx_begin w))"
    unfolding reset_body_def rest_def by (rule begin_bind)
  ultimately have "w_saved (fst (reset_body db args w)) = w_saved (fst (tx_begin w))"
    by (simp add: snapshot_kept_def)
  then show ?thesis using assms by (simp add: tx_begin_def)
qed

lemma done_body:
  assumes "reset_body db args w = (w', Inr r)"
  shows "case r of
      None \<Rightarrow> ra_dryRun args \<and> same_data w w'
    | Some deleted \<Rightarrow> \<not> ra_dryRun args \<and> same_data (without (chosen db args TABLES) w) w' \<and>
        deleted = map (\<lambda>t. (t, rows_in t w)) (chosen db args TABLES)"
proof -
  obtain w1 ns where c: "setResetContext (fst (tx_begin w)) = (w1, Inr ())"
    "each_table db args (countRows db) TABLES w1 = (w1, Inr ns)"
    "(if ra_dryRun args
       then bind (each_table db args (\<lambda>t. ret 0) TABLES) (\<lambda>_. bind tx_rollback (\<lambda>_. ret None))
       else bind (each_table db args (deleteRows db) TABLES) (\<lambda>deleted. bind tx_commit (\<lambda>_. ret (Some deleted)))) w1 = (w', Inr r)"
    using assms
    by (fastforce simp: reset_body_def bind_ok disable_rls_def ret_def lift_def tx_begin_def dest: each_count split: if_splits)
  have w1: "w_tables w1 = w_tables w" "w_audit w1 = w_audit w" "w_saved w1 = w_tables w" "\<not> w_failed w1"
    using context_ok [OF c(1)] by (simp_all add: tx_begin_def)
  have rows: "rows_in t w1 = rows_in t w" for t using w1 by (simp add: rows_in_def)
  show ?thesis
  proof (cases "ra_dryRun args")
    case True
    then show ?thesis
      using c(3) w1 by (auto simp: bind_ok ret_def tx_rollback_def same_data_def dest!: each_nothing)
  next
    case False
    then obtain w2 d where d: "each_table db args (deleteRows db) TABLES w1 = (w2, Inr d)" "tx_commit w2 = (w', Inr ())" "r = Some d"
      using c(3) by (auto simp: bind_ok ret_def)
    have "w2 = without (chosen db args TABLES) w1" "d = map (\<lambda>t. (t, rows_in t w)) (chosen db args TABLES)"
      using each_delete [OF d(1) tables_distinct] rows by simp_all
    then show ?thesis
      using False d(2,3) w1 by (auto simp: tx_commit_def same_data_def without_fields fun_eq_iff)
  qed
qed

section \<open>The whole script\<close>

definition deletion_consented :: "(string \<Rightarrow> (string \<times> string) option) \<Rightarrow> (string \<Rightarrow> string option) \<Rightarrow> string list \<Rightarrow> bool" where
  "deletion_consented url env argv \<longleftrightarrow>
     REQUIRED_UNDERSTAND_FLAG \<in> set argv \<and> parseBool (getArgValue argv ''--dry-run'') True = False \<and>
     (''--force'' \<in> set argv \<or> parseBool (getArgValue argv ''--force'') False) \<and>
     getArgValue argv ''--confirm'' = Some REQUIRED_CONFIRMATION \<and> env ''NODE_ENV'' \<noteq> Some ''production'' \<and>
     (\<exists>host path. url (the (env ''DATABASE_URL'')) = Some (host, path) \<and> host \<notin> set (blocked_hosts env) \<and>
        \<not> (\<exists>p \<in> set BLOCKED_HOST_PATTERNS. rx_test p host))"

text \<open>Computations that change nothing in a transaction that has changed nothing yet.\<close>

definition steady :: "'a io \<Rightarrow> bool" where
  "steady m \<longleftrightarrow> (\<forall>w. w_saved w = w_tables w \<longrightarrow> same_data w (fst (m w)) \<and> w_saved (fst (m w)) = w_saved w)"

lemma steady_bind: "steady m \<Longrightarrow> (\<And>x. steady (f x)) \<Longrightarrow> steady (bind m f)"
  unfolding steady_def same_data_def fst_bind by (simp split: sum.split)

lemma steady_pure: "steady (ret x)" "steady (lift r)"
  by (simp_all add: steady_def same_data_def ret_def lift_def)

lemma steady_statement: "steady (countRows db t)" "steady (set_config a b)" "steady tx_commit"
  by (auto simp: steady_def same_data_def countRows_def on_table_def guard_tx_def fail_stmt_def set_config_def tx_commit_def tx_rollback_def)

lemma steady_if: "steady m \<Longrightarrow> steady m' \<Longrightarrow> steady (if c then m else m')"
  by simp

interpretation steady_steps: step_property steady
  by unfold_locales (auto intro: steady_pure steady_bind)

lemma steady_each: "(\<And>x. steady (f x)) \<Longrightarrow> steady (io_each f xs)"
  by (rule steady_steps.holds_for_loops)

lemmas steady_intros = steady_bind steady_pure steady_statement steady_each steady_if

lemma verify_same: "same_data w (fst (verify_phase db w))"
proof -
  define rest where "rest = bind setResetContext (\<lambda>_.
     bind (disable_rls db ''Unable to disable RLS during verification'') (\<lambda>_.
     bind (io_each (\<lambda>t. if \<not> rd_exists db t then lift (Inl (Js (''Required table missing during verification: '' @ t)))
                       else verify_empty db t) verificationTables) (\<lambda>_.
     bind (verifyGroupsTable db) (\<lambda>_. tx_commit))))"
  have "steady rest"
    unfolding rest_def setResetContext_def disable_rls_def verify_empty_def verifyGroupsTable_def by (intro steady_intros)
  moreover have "verify_body db w = rest (fst (tx_begin w))"
    unfolding verify_body_def rest_def by (rule begin_bind)
  ultimately show ?thesis
    by (auto simp: verify_phase_def steady_def same_data_def tx_begin_def reset_rollback_def tx_rollback_def
        dest!: spec [of _ "fst (tx_begin w)"] split: prod.splits sum.splits)
qed

lemma phase_failed: "reset_phase db args w = (w', Inl e) \<Longrightarrow> same_data w w'"
  using failed_body [of db args w]
  by (auto simp: reset_phase_def same_data_def reset_rollback_def tx_rollback_def split: prod.splits sum.splits)

lemma phase_done: "reset_phase db args w = (w', Inr r) \<longleftrightarrow> reset_body db args w = (w', Inr r)"
  by (auto simp: reset_phase_def split: prod.splits sum.splits)

lemma host_checked:
  "parseDatabaseUrl url u = Inr (host, database) \<Longrightarrow> assertNonProduction env host = Inr () \<Longrightarrow>
    env ''NODE_ENV'' \<noteq> Some ''production'' \<and> (\<exists>path. url u = Some (host, path)) \<and> host \<notin> set (blocked_hosts env) \<and>
    \<not> (\<exists>p \<in> set BLOCKED_HOST_PATTERNS. rx_test p host)"
  by (auto simp: parseDatabaseUrl_def assertNonProduction_def Let_def list_ex_iff split: option.splits if_splits)

lemma main_cases:
  obtains (refused) e where "reset_main db url env argv w = (w, Inl e)"
  | (failed) e where "reset_phase db (parseResetArgs argv) w = (fst (reset_main db url env argv w), Inl e)"
      "snd (reset_main db url env argv w) = Inl e"
  | (rehearsed) "reset_phase db (parseResetArgs argv) w = (fst (reset_main db url env argv w), Inr None)"
      "snd (reset_main db url env argv w) = Inr None"
  | (deleted) w1 d where "reset_phase db (parseResetArgs argv) w = (w1, Inr (Some d))"
      "ra_dryRun (parseResetArgs argv) \<or> deletion_consented url env argv"
      "fst (reset_main db url env argv w) = fst (verify_phase db w1)"
      "snd (reset_main db url env argv w) = (case snd (verify_phase db w1) of Inl e \<Rightarrow> Inl e | Inr _ \<Rightarrow> Inr (Some d))"
proof -
  let ?args = "parseResetArgs argv" and ?u = "the (env ''DATABASE_URL'')"
  have consent: "ra_dryRun ?args \<or> deletion_consented url env argv"
    if "ra_understood ?args" "parseDatabaseUrl url ?u = Inr (host, database)" "assertNonProduction env host = Inr ()"
      "ra_dryRun ?args \<or> ra_force ?args" "ra_dryRun ?args \<or> ra_confirm ?args = Some REQUIRED_CONFIRMATION" for host database
    using that host_checked [OF that(2,3)] unfolding deletion_consented_def parseResetArgs_def hasFlag_def by auto
  show ?thesis
  proof (cases "\<exists>host database. ra_understood ?args \<and> truthy (env ''DATABASE_URL'') \<and> parseDatabaseUrl url ?u = Inr (host, database) \<and>
      assertNonProduction env host = Inr () \<and> (ra_dryRun ?args \<or> ra_force ?args) \<and>
      (ra_dryRun ?args \<or> ra_confirm ?args = Some REQUIRED_CONFIRMATION)")
    case True
    then have run: "reset_main db url env argv w = bind (reset_phase db ?args) (\<lambda>r.
        case r of None \<Rightarrow> ret None | Some deleted \<Rightarrow> bind (verify_phase db) (\<lambda>_. ret (Some deleted))) w"
      by (auto simp: reset_main_def Let_def)
    show ?thesis
    proof (cases "reset_phase db ?args w")
      case (Pair w1 r)
      show ?thesis
        using True run Pair consent that(2-4)
        by (cases r; cases "projr r")
          (auto simp: bind_def ret_def split: prod.splits sum.splits option.splits)
    qed
  next
    case False
    then have "\<exists>e. reset_main db url env argv w = (w, Inl e)"
      by (auto simp: reset_main_def Let_def bind_def lift_def split: sum.splits prod.splits)
    then show ?thesis using that(1) by blast
  qed
qed

lemma same_data_trans: "same_data a b \<Longrightarrow> same_data b c \<Longrightarrow> same_data a c"
  by (simp add: same_data_def)

lemma phase_deleted:
  "reset_phase db args w = (w1, Inr (Some d)) \<Longrightarrow>
    \<not> ra_dryRun args \<and> same_data (without (chosen db args TABLES) w) w1 \<and> d = map (\<lambda>t. (t, rows_in t w)) (chosen db args TABLES)"
  using done_body [of db args w w1 "Some d"] by (simp add: phase_done)

text \<open>C30: whatever the arguments, the environment and the database, and wherever the script fails, afterwards either no
  table and no audit row has changed, or exactly the included tables that exist are empty; the latter only with the
  understanding flag, \<open>--force\<close>, the confirmation text and the dry run switched off, and never against a production
  environment or a blocked host.\<close>

theorem reset_deletes_with_consent_or_nothing:
  "let w' = fst (reset_main db url env argv w); gone = chosen db (parseResetArgs argv) TABLES in
    same_data w w' \<or> same_data (without gone w) w' \<and> deletion_consented url env argv"
proof (cases rule: main_cases [of db url env argv w])
  case (deleted w1 d)
  then show ?thesis
    using phase_deleted [OF deleted(1)] verify_same [of w1 db] by (auto simp: Let_def intro: same_data_trans)
next
  case rehearsed
  then show ?thesis using done_body [of db "parseResetArgs argv" w _ None] by (simp add: phase_done Let_def)
qed (auto simp: Let_def same_data_def dest: phase_failed)

lemma verify_each:
  "io_each (\<lambda>t. if \<not> rd_exists db t then lift (Inl (Js (''Required table missing during verification: '' @ t)))
      else verify_empty db t) ts u = (w', Inr x) \<Longrightarrow> t \<in> set ts \<Longrightarrow> rd_exists db t"
  by (induction ts arbitrary: u) (auto simp: bind_ok split: if_splits)

text \<open>C31: a reset that reports success has emptied every table it verifies, and the counts it reports are the numbers
  of rows the tables had.\<close>

theorem successful_reset_empties_the_tables:
  assumes "reset_main db url env argv w = (w', Inr (Some counts))"
  shows "(\<forall>t \<in> set verificationTables. w_tables w' t = []) \<and> (\<forall>(t, n) \<in> set counts. n = rows_in t w \<and> rows_in t w' = 0)"
proof (cases rule: main_cases [of db url env argv w])
  case (deleted w1 d)
  let ?gone = "chosen db (parseResetArgs argv) TABLES"
  have d: "same_data (without ?gone w) w1" "counts = map (\<lambda>t. (t, rows_in t w)) ?gone"
    using phase_deleted [OF deleted(1)] deleted(4) assms by (auto split: sum.splits)
  have v: "same_data w1 w'" using verify_same [of w1 db] deleted(3) assms by simp
  have e: "rd_exists db t" if "t \<in> set verificationTables" for t
  proof -
    obtain w2 where "verify_body db w1 = (w2, Inr ())"
      using deleted(4) assms by (auto simp: verify_phase_def split: sum.splits prod.splits)
    then obtain u1 u2 x where "io_each (\<lambda>t. if \<not> rd_exists db t then lift (Inl (Js (''Required table missing during verification: '' @ t)))
        else verify_empty db t) verificationTables u1 = (u2, Inr x)"
      unfolding verify_body_def bind_ok by blast
    then show ?thesis using that by (rule verify_each)
  qed
  have "t \<in> set ?gone \<and> t \<noteq> ''app.audit_logs''" if "t \<in> set verificationTables" for t
    using that e [OF that] verified_chosen by simp
  then show ?thesis
    using d v by (auto simp: same_data_def without_fields rows_in_def)
qed (use assms in auto)

section \<open>When the script succeeds\<close>

text \<open>A database where the script can do its work: the required tables exist, one of the two tables of groups does, and
  row level security does not bind the role.\<close>

definition resettable :: "ResetDb \<Rightarrow> bool" where
  "resettable db \<longleftrightarrow>
     rd_canDisable db \<and> (\<forall>t. \<not> rd_restricted db t) \<and> (\<forall>t \<in> set TABLES. \<not> ts_optional t \<longrightarrow> rd_exists db (ts_name t)) \<and>
     (rd_exists db ''app.dealer_groups'' \<or> rd_exists db ''app.groups'')"

lemma bind_runs: "m w = (w1, Inr x) \<Longrightarrow> bind m f w = f x w1"
  by (simp add: bind_def)

lemma context_runs: "\<not> w_failed w \<Longrightarrow> \<exists>w'. setResetContext w = (w', Inr ()) \<and> w_failed w' = False"
  by (auto simp: setResetContext_def set_config_def guard_tx_def bind_def)

lemma each_runs:
  assumes "\<And>t w. \<not> w_failed w \<Longrightarrow> \<exists>w' n. f t w = (w', Inr n) \<and> \<not> w_failed w'"
    and "\<forall>t \<in> set ts. \<not> ts_optional t \<longrightarrow> rd_exists db (ts_name t)" "\<not> w_failed w"
  shows "\<exists>w' ns. each_table db args f ts w = (w', Inr ns) \<and> \<not> w_failed w'"
  using assms(2,3)
proof (induction ts arbitrary: w)
  case (Cons t ts)
  show ?case
  proof (cases "shouldIncludeTable t args \<and> rd_exists db (ts_name t)")
    case True
    obtain w1 n where 1: "f (ts_name t) w = (w1, Inr n)" "\<not> w_failed w1" using assms(1) Cons.prems(2) by blast
    obtain w2 ns where "each_table db args f ts w1 = (w2, Inr ns)" "\<not> w_failed w2" using Cons.IH [of w1] Cons.prems(1) 1(2) by auto
    then show ?thesis using True 1 by (auto simp: ensureTableAvailable_def bind_runs ret_def)
  next
    case False
    then show ?thesis using Cons.IH [of w] Cons.prems by (auto simp: ensureTableAvailable_def)
  qed
qed (simp add: ret_def)

lemma phase_runs:
  assumes "resettable db" "\<not> ra_dryRun args"
  shows "\<exists>w' d. reset_phase db args w = (w', Inr (Some d))"
proof -
  have ok: "rd_canDisable db" "\<And>t. \<not> rd_restricted db t" "\<forall>t \<in> set TABLES. \<not> ts_optional t \<longrightarrow> rd_exists db (ts_name t)"
    using assms(1) by (auto simp: resettable_def)
  obtain w1 where w1: "setResetContext (fst (tx_begin w)) = (w1, Inr ())" "\<not> w_failed w1"
    using context_runs [of "fst (tx_begin w)"] by (auto simp: tx_begin_def)
  obtain w2 ns where w2: "each_table db args (countRows db) TABLES w1 = (w2, Inr ns)" "\<not> w_failed w2"
    using each_runs [of "countRows db" TABLES db w1 args] ok(2,3) w1(2) by (auto simp: count_ok)
  obtain w3 d where w3: "each_table db args (deleteRows db) TABLES w2 = (w3, Inr d)" "\<not> w_failed w3"
    using each_runs [of "deleteRows db" TABLES db w2 args] ok(2,3) w2(2)
    by (auto simp: delete_ok emptied_kept)
  have "reset_body db args w = (fst (tx_commit w3), Inr (Some d))"
    using w1(1) w2(1) w3 assms(2) ok(1)
    by (simp add: reset_body_def begin_bind bind_runs disable_rls_def ret_def tx_commit_def)
  then show ?thesis by (auto simp: phase_done)
qed

lemma empty_verified: "\<not> w_failed w \<Longrightarrow> \<not> rd_restricted db t \<Longrightarrow> rows_in t w = 0 \<Longrightarrow> verify_empty db t w = (w, Inr ())"
  by (simp add: verify_empty_def bind_def countRows_def on_table_def guard_tx_def ret_def)

lemma verify_runs:
  assumes "resettable db" "same_data (without (chosen db args TABLES) w0) w"
  shows "\<exists>w'. verify_phase db w = (w', Inr ())"
proof -
  have ok: "rd_canDisable db" "\<And>t. \<not> rd_restricted db t" "rd_exists db ''app.dealer_groups'' \<or> rd_exists db ''app.groups''"
    and there: "\<forall>t \<in> set verificationTables. rd_exists db t"
    using assms(1) verified_listed(1) by (auto simp: resettable_def list_all_iff list_ex_iff)
  obtain w1 where w1: "setResetContext (fst (tx_begin w)) = (w1, Inr ())" "\<not> w_failed w1"
    using context_runs [of "fst (tx_begin w)"] by (auto simp: tx_begin_def)
  have w1': "w_tables w1 = w_tables w" using context_ok [OF w1(1)] by (simp add: tx_begin_def)
  have gone: "rows_in t w1 = 0" if "t \<in> set verificationTables \<union> {''app.dealer_groups'', ''app.groups''}" "rd_exists db t" for t
    using verified_chosen [of t db args] that assms(2) w1' by (auto simp: rows_in_def same_data_def without_fields)
  have each: "io_each (\<lambda>t. if \<not> rd_exists db t then lift (Inl (Js (''Required table missing during verification: '' @ t)))
      else verify_empty db t) ts w1 = (w1, Inr ())" if "set ts \<subseteq> set verificationTables" for ts
    using that there gone ok(2) w1(2) by (induction ts) (auto simp: ret_def bind_runs empty_verified)
  have "verifyGroupsTable db w1 = (w1, Inr ())"
    using ok(2,3) gone w1(2) by (auto simp: verifyGroupsTable_def bind_runs empty_verified ret_def)
  then have "verify_body db w = tx_commit w1"
    using w1(1) each [of verificationTables] ok(1) by (simp add: verify_body_def begin_bind bind_runs disable_rls_def ret_def)
  then show ?thesis using w1(2) by (simp add: verify_phase_def tx_commit_def)
qed

text \<open>C32: on a database that has the tables the script asks for, whose server lets it set \<open>row_security\<close> to off and whose
  policies do not restrict its role on any table (\<open>resettable\<close>), a consented run for a URL with a host and a database name ends
  with success. The migrations force row level security, so the role has to be one that bypasses it.\<close>

theorem consented_reset_succeeds:
  assumes "deletion_consented url env argv" "truthy (env ''DATABASE_URL'')" "resettable db"
    and "url (the (env ''DATABASE_URL'')) = Some (host, CHR ''/'' # name)" "host \<noteq> []" "name \<noteq> []"
  shows "\<exists>w' counts. reset_main db url env argv w = (w', Inr (Some counts))"
proof -
  let ?args = "parseResetArgs argv"
  have a: "ra_understood ?args" "\<not> ra_dryRun ?args" "ra_force ?args" "ra_confirm ?args = Some REQUIRED_CONFIRMATION"
    and h: "assertNonProduction env host = Inr ()"
    using assms(1,4) by (auto simp: deletion_consented_def parseResetArgs_def hasFlag_def assertNonProduction_def list_ex_iff)
  have u: "parseDatabaseUrl url (the (env ''DATABASE_URL'')) = Inr (host, name)"
    using assms(4-6) by (simp add: parseDatabaseUrl_def startsWith_def)
  obtain w1 d where w1: "reset_phase db ?args w = (w1, Inr (Some d))" using phase_runs [OF assms(3) a(2)] by blast
  obtain w2 where "verify_phase db w1 = (w2, Inr ())" using verify_runs [OF assms(3)] phase_deleted [OF w1] by blast
  then show ?thesis using a h u w1 assms(2) by (auto simp: reset_main_def Let_def bind_runs ret_def)
qed

section \<open>Examples\<close>

definition sample_reset :: ResetDb where
  "sample_reset = \<lparr>rd_exists = (\<lambda>t. t \<noteq> ''app.groups''), rd_restricted = (\<lambda>_. False), rd_canDisable = True\<rparr>"

definition sample_reset_env :: "string \<Rightarrow> string option" where
  "sample_reset_env n = (if n = ''DATABASE_URL'' then Some ''u'' else None)"

definition sample_reset_args :: "string list" where
  "sample_reset_args = [REQUIRED_UNDERSTAND_FLAG, ''--dry-run=false'', ''--force'', ''--confirm=RESET_ALL_TENANTS_AND_USERS'']"

definition full_world :: World where
  "full_world = \<lparr>w_tables = (\<lambda>t. if t = ''app.users'' then [[(''user_id'', SText ''u1'')]] else []), w_inTx = False, w_failed = False,
     w_gucs = [], w_saved = (\<lambda>_. []), w_audit = [], w_trace = [], w_drawn = 0\<rparr>"

lemma sample_args:
  "parseResetArgs sample_reset_args = \<lparr>ra_confirm = Some REQUIRED_CONFIRMATION, ra_force = True, ra_dryRun = False,
     ra_understood = True, ra_includeAuditLogs = False\<rparr>"
  by code_simp

lemma sample_host: "assertNonProduction sample_reset_env ''localhost'' = Inr ()"
  by code_simp

lemma sample_consent: "deletion_consented (\<lambda>_. Some (''localhost'', ''/stro'')) sample_reset_env sample_reset_args"
  using sample_args host_checked [OF _ sample_host, of "\<lambda>_. Some (''localhost'', ''/stro'')" "''u''" "''stro''"]
  by (auto simp: deletion_consented_def parseResetArgs_def hasFlag_def parseDatabaseUrl_def startsWith_def)

lemma sample_resettable: "resettable sample_reset"
  by (simp add: resettable_def sample_reset_def TABLES_def)

theorem consented_reset_witness:
  "\<exists>w' counts. reset_main sample_reset (\<lambda>_. Some (''localhost'', ''/stro'')) sample_reset_env sample_reset_args full_world =
     (w', Inr (Some counts))"
  by (rule consented_reset_succeeds [OF sample_consent _ sample_resettable, of "''localhost''" "''stro''"])
    (simp_all add: sample_reset_env_def)

theorem successful_reset_witness:
  "\<exists>w' counts. reset_main sample_reset (\<lambda>_. Some (''localhost'', ''/stro'')) sample_reset_env sample_reset_args full_world =
     (w', Inr (Some counts)) \<and> w_tables w' ''app.users'' = [] \<and> w_tables full_world ''app.users'' \<noteq> []"
proof -
  obtain w1 d where 1: "reset_phase sample_reset (parseResetArgs sample_reset_args) full_world = (w1, Inr (Some d))"
    using phase_runs [OF sample_resettable, of "parseResetArgs sample_reset_args" full_world] sample_args by auto
  obtain w2 where 2: "verify_phase sample_reset w1 = (w2, Inr ())"
    using verify_runs [OF sample_resettable] phase_deleted [OF 1] by blast
  have r: "reset_main sample_reset (\<lambda>_. Some (''localhost'', ''/stro'')) sample_reset_env sample_reset_args full_world = (w2, Inr (Some d))"
    using 1 2 sample_args sample_host
    by (simp add: reset_main_def Let_def bind_runs ret_def parseDatabaseUrl_def startsWith_def sample_reset_env_def)
  have "w_tables w2 ''app.users'' = []" using successful_reset_empties_the_tables [OF r] by (simp add: verificationTables_def)
  then show ?thesis using r by (auto simp: full_world_def)
qed

end
