(* ===== verification/SynthData.thy ===== *)
theory SynthData
  imports JsBase
begin

text \<open>
  ops/synthetic-data/v2Scenarios.ts: the scenarios of the synthetic repair orders, how often each occurs, its parameters
  and its texts.
\<close>

section \<open>Scenarios\<close>

datatype Scenario =
    ROUTINE_MAINTENANCE
  | HIGH_DOLLAR_DIAGNOSTIC
  | WARRANTY_REPAIR
  | MULTI_LINE_MAJOR_REPAIR
  | PII_IN_SEMANTIC
  | REPEAT_VISIT

text \<open>The keys of the distribution in their order, and the weights.\<close>

definition scenarios :: "Scenario list" where
  "scenarios =
     [ROUTINE_MAINTENANCE, HIGH_DOLLAR_DIAGNOSTIC, WARRANTY_REPAIR, MULTI_LINE_MAJOR_REPAIR, PII_IN_SEMANTIC, REPEAT_VISIT]"

fun SCENARIO_DISTRIBUTION :: "Scenario \<Rightarrow> rat" where
  "SCENARIO_DISTRIBUTION ROUTINE_MAINTENANCE = 300"
| "SCENARIO_DISTRIBUTION HIGH_DOLLAR_DIAGNOSTIC = 150"
| "SCENARIO_DISTRIBUTION WARRANTY_REPAIR = 150"
| "SCENARIO_DISTRIBUTION MULTI_LINE_MAJOR_REPAIR = 200"
| "SCENARIO_DISTRIBUTION PII_IN_SEMANTIC = 100"
| "SCENARIO_DISTRIBUTION REPEAT_VISIT = 100"

record ScenarioParams =
  sp_laborLines :: "rat \<times> rat"
  sp_partsPerLabor :: "rat \<times> rat"
  sp_hoursRange :: "rat \<times> rat"
  sp_totalRange :: "rat \<times> rat"
  sp_warranty :: bool
  sp_allowPiiInSemantic :: bool
  sp_repeatVisit :: bool

fun SCENARIO_PARAMS :: "Scenario \<Rightarrow> ScenarioParams" where
  "SCENARIO_PARAMS ROUTINE_MAINTENANCE =
     \<lparr>sp_laborLines = (1, 1), sp_partsPerLabor = (0, 1), sp_hoursRange = (1 / 2, 1), sp_totalRange = (150, 300),
      sp_warranty = False, sp_allowPiiInSemantic = False, sp_repeatVisit = False\<rparr>"
| "SCENARIO_PARAMS HIGH_DOLLAR_DIAGNOSTIC =
     \<lparr>sp_laborLines = (1, 1), sp_partsPerLabor = (0, 1), sp_hoursRange = (6, 10), sp_totalRange = (1500, 3000),
      sp_warranty = False, sp_allowPiiInSemantic = False, sp_repeatVisit = False\<rparr>"
| "SCENARIO_PARAMS WARRANTY_REPAIR =
     \<lparr>sp_laborLines = (1, 2), sp_partsPerLabor = (1, 2), sp_hoursRange = (1, 4), sp_totalRange = (0, 50),
      sp_warranty = True, sp_allowPiiInSemantic = False, sp_repeatVisit = False\<rparr>"
| "SCENARIO_PARAMS MULTI_LINE_MAJOR_REPAIR =
     \<lparr>sp_laborLines = (3, 5), sp_partsPerLabor = (1, 4), sp_hoursRange = (8, 25), sp_totalRange = (3000, 8000),
      sp_warranty = False, sp_allowPiiInSemantic = False, sp_repeatVisit = False\<rparr>"
| "SCENARIO_PARAMS PII_IN_SEMANTIC =
     \<lparr>sp_laborLines = (1, 2), sp_partsPerLabor = (0, 2), sp_hoursRange = (1 / 2, 5 / 2), sp_totalRange = (200, 900),
      sp_warranty = False, sp_allowPiiInSemantic = True, sp_repeatVisit = False\<rparr>"
| "SCENARIO_PARAMS REPEAT_VISIT =
     \<lparr>sp_laborLines = (1, 2), sp_partsPerLabor = (0, 2), sp_hoursRange = (1 / 2, 5 / 2), sp_totalRange = (200, 900),
      sp_warranty = False, sp_allowPiiInSemantic = False, sp_repeatVisit = True\<rparr>"

section \<open>Texts\<close>

record TextTemplateSet =
  tt_complaints :: "string list"
  tt_technicianNotes :: "string list"
  tt_causes :: "string list"
  tt_corrections :: "string list"
  tt_opDescriptions :: "string list"
  tt_partDescriptions :: "string list"
  tt_advisorNotes :: "string list"

definition DEFAULT_TEMPLATES :: TextTemplateSet where
  "DEFAULT_TEMPLATES =
     \<lparr>tt_complaints =
        [''Customer reports squealing brakes at low speed.'',
         ''Vehicle pulls to the right during braking.'',
         ''Customer requests routine oil and filter change.'',
         ''Noticeable vibration at highway speeds.'',
         ''Intermittent no-start reported after hot soak.'',
         ''Customer notes rough idle on cold starts.'',
         ''Oil service reminder displayed on dash.'',
         ''Rattle noise from front suspension over bumps.''],
      tt_technicianNotes =
        [''Inspected system and verified concern.'',
         ''Road test performed; concern confirmed.'',
         ''No additional issues noted at this time.'',
         ''Fluid levels checked and topped off.'',
         ''Found worn components requiring replacement.'',
         ''Performed multi-point inspection.''],
      tt_causes =
        [''Brake pad wear beyond service limit.'',
         ''Contaminated or aged fluid.'',
         ''Loose suspension fastener.'',
         ''Intermittent sensor signal drop.'',
         ''Battery terminal corrosion.''],
      tt_corrections =
        [''Replaced brake pads and hardware.'',
         ''Performed fluid service and test drive.'',
         ''Torque fasteners to specification.'',
         ''Replaced faulty sensor and cleared codes.'',
         ''Cleaned terminals and verified charging.''],
      tt_opDescriptions =
        [''Replace front brake pads'',
         ''Perform diagnostic inspection'',
         ''Oil and filter service'',
         ''Inspect suspension components'',
         ''Replace battery cable end''],
      tt_partDescriptions =
        [''Front brake pad set'',
         ''Oil filter'',
         ''Engine oil'',
         ''Battery cable end'',
         ''Suspension bushing kit'',
         ''Brake fluid'',
         ''Air filter''],
      tt_advisorNotes =
        [''Recommended follow-up service next visit.'',
         ''Customer advised of findings.'',
         ''Vehicle returned to customer after verification.'']\<rparr>"

definition DIAGNOSTIC_TEMPLATES :: TextTemplateSet where
  "DIAGNOSTIC_TEMPLATES =
     \<lparr>tt_complaints =
        [''Customer reports intermittent loss of power under load.'',
         ''Vehicle occasionally stalls at idle after warm-up.'',
         ''Intermittent warning light with no stored codes.'',
         ''Hard-to-reproduce misfire at highway speed.''],
      tt_technicianNotes =
        [''Extended road test required to duplicate condition.'',
         ''Performed signal monitoring; intermittent fault observed.'',
         ''Multiple checks required due to intermittent symptoms.''],
      tt_causes =
        [''Intermittent fuel delivery issue.'',
         ''Sensor signal dropout under load.'',
         ''Loose electrical connection.''],
      tt_corrections =
        [''Repaired wiring and verified signal stability.'',
         ''Replaced suspect component and verified operation.'',
         ''Updated calibration and confirmed no fault return.''],
      tt_opDescriptions =
        [''Perform advanced diagnostic testing''],
      tt_partDescriptions =
        [''Diagnostic connector'',
         ''Harness repair kit''],
      tt_advisorNotes =
        [''Customer informed that condition is intermittent; extended testing performed.'']\<rparr>"

definition MAJOR_REPAIR_TEMPLATES :: TextTemplateSet where
  "MAJOR_REPAIR_TEMPLATES =
     \<lparr>tt_complaints =
        [''Customer reports loud knocking from engine under acceleration.'',
         ''Transmission slipping between gears.'',
         ''Severe vibration and clunking when turning.'',
         ''Overheating under normal driving conditions.''],
      tt_technicianNotes =
        [''Multiple systems affected; extensive teardown required.'',
         ''Component wear beyond service limits.'',
         ''Road test confirms drivetrain concern.''],
      tt_causes =
        [''Internal engine component failure.'',
         ''Transmission clutch pack wear.'',
         ''Front suspension joint wear.'',
         ''Cooling system restriction.''],
      tt_corrections =
        [''Replaced damaged components and verified operation.'',
         ''Rebuilt subsystem and performed adaptation procedure.'',
         ''Replaced worn assemblies and aligned vehicle.''],
      tt_opDescriptions =
        [''Engine repair and reassembly'',
         ''Transmission service and road test'',
         ''Suspension rebuild''],
      tt_partDescriptions =
        [''Engine gasket set'',
         ''Timing chain kit'',
         ''Suspension control arm'',
         ''Transmission filter'',
         ''Radiator''],
      tt_advisorNotes =
        [''Major repair authorized by customer.'',
         ''Extended repair time communicated.'']\<rparr>"

definition WARRANTY_TEMPLATES :: TextTemplateSet where
  "WARRANTY_TEMPLATES =
     \<lparr>tt_complaints =
        [''Customer reports warning light during warranty period.'',
         ''Customer requests warranty repair for factory issue.''],
      tt_technicianNotes =
        [''Verified warranty coverage and performed repair.'',
         ''Warranty procedure followed as required.''],
      tt_causes =
        [''Factory component defect.'',
         ''Premature wear under warranty coverage.''],
      tt_corrections =
        [''Replaced component under warranty.'',
         ''Performed warranty service per bulletin.''],
      tt_opDescriptions =
        [''Warranty repair procedure''],
      tt_partDescriptions =
        [''Warranty replacement part''],
      tt_advisorNotes =
        [''Warranty claim filed.'']\<rparr>"

end
