(* ===== verification/SynthRng.thy ===== *)
theory SynthRng
  imports JsNumber "HOL-Library.Word"
begin

text \<open>
  ops/synthetic-data/v2Rng.ts: the seeded generator of the synthetic data.

  A draw is a function from the state, the number \<open>t\<close> of \<open>mulberry32\<close>, to the new state and a result. The bitwise operators
  of JavaScript work on 32 bits, which are words here; \<open>t += 0x6d2b79f5\<close> and the arithmetic on draws are additions and
  multiplications of doubles.
\<close>

unbundle bit_operations_syntax

section \<open>Doubles that stay finite\<close>

text \<open>The double nearest to a number; the numbers here are far from the largest double.\<close>

definition fl :: "rat \<Rightarrow> rat" where
  "fl q = (case rnd q of Fin x \<Rightarrow> x | _ \<Rightarrow> 0)"

section \<open>hashSeed and mulberry32\<close>

definition hashSeed :: "string \<Rightarrow> 32 word" where
  "hashSeed input = foldl (\<lambda>hash c. (hash XOR word_of_nat (code c)) * 16777619) 2166136261 input"

definition to_word :: "rat \<Rightarrow> 32 word" where
  "to_word t = word_of_int \<lfloor>t\<rfloor>"

definition mulberry_mix :: "32 word \<Rightarrow> 32 word" where
  "mulberry_mix t =
     (let r = (t XOR drop_bit 15 t) * (t OR 1);
          r = r XOR (r + (r XOR drop_bit 7 r) * (r OR 61))
      in r XOR drop_bit 14 r)"

definition mulberry32 :: "rat \<Rightarrow> rat \<times> rat" where
  "mulberry32 t = (let t' = fl (t + 1831565813) in (t', of_nat (unat (mulberry_mix (to_word t'))) / 4294967296))"

text \<open>\<open>createRng\<close> for a text: the first state.\<close>

definition createRng :: "string \<Rightarrow> rat" where
  "createRng seed = of_nat (unat (hashSeed seed))"

section \<open>Draws\<close>

type_synonym 'a gen = "rat \<Rightarrow> rat \<times> 'a res"

definition gen_ret :: "'a \<Rightarrow> 'a gen" where "gen_ret x t = (t, Inr x)"
definition gen_lift :: "'a res \<Rightarrow> 'a gen" where "gen_lift r t = (t, r)"
definition gen_bind :: "'a gen \<Rightarrow> ('a \<Rightarrow> 'b gen) \<Rightarrow> 'b gen" where
  "gen_bind m f t = (case m t of (t', Inl e) \<Rightarrow> (t', Inl e) | (t', Inr x) \<Rightarrow> f x t')"

definition gen_next :: "rat gen" where
  "gen_next t = (let (t', x) = mulberry32 t in (t', Inr x))"

definition scaled :: "rat \<Rightarrow> int \<Rightarrow> int" where
  "scaled x n = \<lfloor>fl (x * of_int n)\<rfloor>"

definition gen_int :: "rat \<Rightarrow> rat \<Rightarrow> int gen" where
  "gen_int mn mx = gen_bind gen_next (\<lambda>x. gen_ret (scaled x (\<lfloor>mx\<rfloor> - \<lceil>mn\<rceil> + 1) + \<lceil>mn\<rceil>))"

definition gen_pick :: "'a list \<Rightarrow> 'a gen" where
  "gen_pick values =
     (if values = [] then gen_lift (Inl (Js ''pick() called with empty array''))
      else gen_bind gen_next (\<lambda>x. gen_ret (values ! nat (scaled x (int (length values))))))"

text \<open>The loop of \<open>shuffle\<close> from index \<open>i\<close> down to 1.\<close>

fun shuffle_from :: "nat \<Rightarrow> 'a list \<Rightarrow> 'a list gen" where
  "shuffle_from 0 xs = gen_ret xs"
| "shuffle_from (Suc i) xs =
     gen_bind gen_next (\<lambda>x.
       let j = nat (scaled x (int (Suc i) + 1))
       in shuffle_from i (xs[Suc i := xs ! j, j := xs ! Suc i]))"

definition gen_shuffle :: "'a list \<Rightarrow> 'a list gen" where
  "gen_shuffle xs = shuffle_from (length xs - 1) xs"

end
