(* ===== verification/SynthBuild.thy ===== *)
theory SynthBuild
  imports SynthData SynthRng
begin

text \<open>
  ops/synthetic-data/v2Builders.ts: the labor and part lines of a synthetic repair order, its totals and its complaint.
  Amounts and hours are doubles: every operation rounds (\<open>fl\<close>), and \<open>round2\<close> rounds to cents. What the code draws is drawn
  in the same order; an error keeps the state of the generator.
\<close>

section \<open>Arithmetic\<close>

definition fadd :: "rat \<Rightarrow> rat \<Rightarrow> rat" where "fadd a b = fl (a + b)"
definition fsub :: "rat \<Rightarrow> rat \<Rightarrow> rat" where "fsub a b = fl (a - b)"
definition fmul :: "rat \<Rightarrow> rat \<Rightarrow> rat" where "fmul a b = fl (a * b)"
definition fdiv :: "rat \<Rightarrow> rat \<Rightarrow> rat" where "fdiv a b = fl (a / b)"

definition LABOR_RATE :: rat where "LABOR_RATE = 275"
definition GEN_TOTAL_TOLERANCE :: rat where "GEN_TOTAL_TOLERANCE = fl (1 / 100)"

definition round2 :: "rat \<Rightarrow> rat" where
  "round2 value = fdiv (of_int \<lfloor>fmul value 100 + 1 / 2\<rfloor>) 100"

definition chooseFloat :: "rat \<Rightarrow> rat \<Rightarrow> rat gen" where
  "chooseFloat mn mx = gen_bind gen_next (\<lambda>x. gen_ret (round2 (fadd (fmul x (fsub mx mn)) mn)))"

definition gen_sum :: "rat list \<Rightarrow> rat" where
  "gen_sum values = round2 (foldl fadd 0 values)"

definition ensureWithin :: "rat \<Rightarrow> rat \<Rightarrow> rat \<Rightarrow> string \<Rightarrow> unit res" where
  "ensureWithin value mn mx label =
     (if value < fsub mn GEN_TOTAL_TOLERANCE \<or> value > fadd mx GEN_TOTAL_TOLERANCE
      then throw (label @ '' out of range'') 400 ''GEN_RANGE'' else ok ())"

section \<open>Profiles and lines\<close>

record CustomerProfile =
  cp_firstName :: string
  cp_lastName :: string
  cp_phone :: string
  cp_email :: string
  cp_addressLine1 :: string
  cp_addressCity :: string
  cp_addressState :: string
  cp_addressPostal :: string

record VehicleProfile =
  vp_vin :: string
  vp_licensePlate :: string
  vp_year :: int
  vp_make :: string
  vp_model :: string
  vp_trim :: string
  vp_engine :: string
  vp_transmission :: string
  vp_drivetrain :: string
  vp_color :: string

record GenLabor =
  gl_laborIndex :: nat
  gl_opCode :: string
  gl_opDescription :: string
  gl_laborType :: string
  gl_actualHours :: rat
  gl_laborRate :: rat
  gl_laborExtendedAmount :: rat
  gl_technicianId :: string
  gl_technicianNotes :: string
  gl_cause :: string
  gl_correction :: string

record GenPart =
  gp_laborIndex :: nat
  gp_partIndex :: nat
  gp_partNumber :: string
  gp_partDescription :: string
  gp_quantity :: rat
  gp_unitPrice :: rat
  gp_extendedPrice :: rat
  gp_partSource :: string
  gp_backorderFlag :: string

record LineItemBundle =
  lb_laborLines :: "GenLabor list"
  lb_partLines :: "GenPart list"
  lb_laborTotal :: rat
  lb_partsTotal :: rat
  lb_shopFees :: rat
  lb_environmentalFees :: rat
  lb_taxTotal :: rat
  lb_discountTotal :: rat
  lb_grandTotal :: rat

section \<open>Hours\<close>

text \<open>The loop of \<open>makeLaborHoursSplit\<close>, by the number of lines that are left.\<close>

fun hours_split :: "nat \<Rightarrow> rat \<Rightarrow> rat list gen" where
  "hours_split 0 remaining = gen_ret []"
| "hours_split (Suc 0) remaining =
     (if remaining > 20 then gen_lift (throw ''Labor hours exceed maximum per line'' 400 ''HOURS_INVALID'')
      else gen_ret [round2 remaining])"
| "hours_split (Suc (Suc k)) remaining =
     (let minRemaining = fmul (1 / 2) (of_nat (Suc k));
          maxRemaining = fmul 20 (of_nat (Suc k));
          minForLine = max (1 / 2) (fsub remaining maxRemaining);
          maxForLine = min 20 (fsub remaining minRemaining)
      in gen_bind (chooseFloat minForLine maxForLine) (\<lambda>x.
           let value = round2 x
           in gen_bind (hours_split (Suc k) (round2 (fsub remaining value))) (\<lambda>hours. gen_ret (value # hours))))"

definition makeLaborHoursSplit :: "rat \<Rightarrow> nat \<Rightarrow> rat list gen" where
  "makeLaborHoursSplit totalHours lineCount = hours_split lineCount totalHours"

section \<open>Lines\<close>

definition build_part :: "TextTemplateSet \<Rightarrow> nat \<Rightarrow> nat \<Rightarrow> GenPart gen" where
  "build_part templates laborIndex p =
     gen_bind (gen_int 1 2) (\<lambda>quantity.
     gen_bind (chooseFloat 15 350) (\<lambda>price.
       let unitPrice = round2 price; extendedPrice = round2 (fmul unitPrice (of_int quantity))
       in gen_bind (gen_int 1000 9999) (\<lambda>number.
          gen_bind (gen_pick (tt_partDescriptions templates)) (\<lambda>description.
          gen_bind (gen_pick [''STOCK'', ''ORDER'', ''OEM'']) (\<lambda>source.
          gen_bind (gen_pick [''false'', ''false'', ''false'', ''true'']) (\<lambda>backorder.
            gen_ret \<lparr>gp_laborIndex = laborIndex, gp_partIndex = p + 1, gp_partNumber = ''PART-'' @ digits_of number,
                     gp_partDescription = description, gp_quantity = of_int quantity, gp_unitPrice = unitPrice,
                     gp_extendedPrice = extendedPrice, gp_partSource = source, gp_backorderFlag = backorder\<rparr>))))))"

fun gen_each :: "('a \<Rightarrow> 'b gen) \<Rightarrow> 'a list \<Rightarrow> 'b list gen" where
  "gen_each f [] = gen_ret []"
| "gen_each f (x # xs) = gen_bind (f x) (\<lambda>y. gen_bind (gen_each f xs) (\<lambda>ys. gen_ret (y # ys)))"

definition build_labor ::
  "ScenarioParams \<Rightarrow> TextTemplateSet \<Rightarrow> bool \<Rightarrow> rat list \<Rightarrow> nat \<Rightarrow> (GenLabor \<times> GenPart list) gen" where
  "build_labor params templates warranty hoursSplit i =
     (let laborIndex = i + 1;
          actualHours = (if i < length hoursSplit then hoursSplit ! i else last hoursSplit);
          laborExtendedAmount = round2 (fmul actualHours LABOR_RATE)
      in gen_bind (gen_int 100 999) (\<lambda>op.
         gen_bind (gen_pick (tt_opDescriptions templates)) (\<lambda>description.
         gen_bind (if warranty then gen_ret ''WARRANTY'' else gen_pick [''CUSTOMER_PAY'', ''INTERNAL'']) (\<lambda>laborType.
         gen_bind (gen_int 1 35) (\<lambda>tech.
         gen_bind (gen_pick (tt_technicianNotes templates)) (\<lambda>notes.
         gen_bind (gen_pick (tt_causes templates)) (\<lambda>cause.
         gen_bind (gen_pick (tt_corrections templates)) (\<lambda>correction.
         gen_bind (gen_int (fst (sp_partsPerLabor params)) (snd (sp_partsPerLabor params))) (\<lambda>partsCount.
         gen_bind (gen_each (build_part templates laborIndex) [0..<nat partsCount]) (\<lambda>parts.
           gen_ret (\<lparr>gl_laborIndex = laborIndex, gl_opCode = ''OP'' @ digits_of op, gl_opDescription = description,
                     gl_laborType = laborType, gl_actualHours = actualHours, gl_laborRate = LABOR_RATE,
                     gl_laborExtendedAmount = laborExtendedAmount, gl_technicianId = ''TECH-'' @ digits_of tech,
                     gl_technicianNotes = notes, gl_cause = cause, gl_correction = correction\<rparr>, parts)))))))))))"

section \<open>Totals\<close>

definition parts_sum :: "GenPart list \<Rightarrow> rat" where
  "parts_sum parts = gen_sum (map gp_extendedPrice parts)"

text \<open>Without a warranty, a grand total out of the scenario's range is moved into it by changing the parts.\<close>

definition adjust_parts :: "TextTemplateSet \<Rightarrow> rat \<Rightarrow> rat \<Rightarrow> rat \<Rightarrow> GenPart list \<Rightarrow> GenPart list gen" where
  "adjust_parts templates laborTotal targetMin targetMax partLines =
     gen_bind (chooseFloat targetMin targetMax) (\<lambda>target.
       let neededParts = round2 (fsub target laborTotal)
       in if neededParts \<le> 0 then gen_ret (map (\<lambda>part. part\<lparr>gp_unitPrice := 0, gp_extendedPrice := 0\<rparr>) partLines)
          else if partLines = []
          then gen_bind (gen_int 1000 9999) (\<lambda>number.
               gen_bind (gen_pick (tt_partDescriptions templates)) (\<lambda>description.
               gen_bind (gen_pick [''STOCK'', ''ORDER'', ''OEM'']) (\<lambda>source.
               gen_bind (gen_pick [''false'', ''false'', ''true'']) (\<lambda>backorder.
                 gen_ret [\<lparr>gp_laborIndex = 1, gp_partIndex = 1, gp_partNumber = ''PART-'' @ digits_of number,
                           gp_partDescription = description, gp_quantity = 1, gp_unitPrice = round2 neededParts,
                           gp_extendedPrice = round2 neededParts, gp_partSource = source, gp_backorderFlag = backorder\<rparr>]))))
          else let final = last partLines;
                   otherPartsTotal = parts_sum (butlast partLines);
                   remaining = round2 (max 0 (fsub neededParts otherPartsTotal));
                   unitPrice = round2 (fdiv remaining (max 1 (gp_quantity final)));
                   extendedPrice = round2 (fmul unitPrice (gp_quantity final))
               in gen_ret (butlast partLines @ [final\<lparr>gp_unitPrice := unitPrice, gp_extendedPrice := extendedPrice\<rparr>]))"

definition fit_parts :: "ScenarioParams \<Rightarrow> TextTemplateSet \<Rightarrow> rat \<Rightarrow> GenPart list \<Rightarrow> GenPart list gen" where
  "fit_parts params templates laborTotal partLines =
     (let grandTotal = round2 (fsub (fadd (fadd (fadd (fadd laborTotal (parts_sum partLines)) 0) 0) 0) 0);
          targetMin = fst (sp_totalRange params); targetMax = snd (sp_totalRange params)
      in gen_bind (if grandTotal < targetMin \<or> grandTotal > targetMax
                   then adjust_parts templates laborTotal targetMin targetMax partLines else gen_ret partLines) (\<lambda>parts.
         gen_bind (gen_lift (ensureWithin (round2 (fadd laborTotal (parts_sum parts))) targetMin targetMax ''GRAND_TOTAL''))
           (\<lambda>_. gen_ret parts)))"

definition clamp_hours :: "rat \<Rightarrow> nat \<Rightarrow> rat" where
  "clamp_hours totalHours n =
     (let minHours = fmul (1 / 2) (of_nat n); maxHours = fmul 20 (of_nat n);
          h = (if totalHours < minHours then minHours else totalHours)
      in if h > maxHours then maxHours else h)"

definition buildLineItems :: "ScenarioParams \<Rightarrow> TextTemplateSet \<Rightarrow> bool \<Rightarrow> LineItemBundle gen" where
  "buildLineItems params templates warranty =
     gen_bind (gen_int (fst (sp_laborLines params)) (snd (sp_laborLines params))) (\<lambda>count.
     gen_bind (chooseFloat (fst (sp_hoursRange params)) (snd (sp_hoursRange params))) (\<lambda>hours.
     gen_bind (makeLaborHoursSplit (clamp_hours hours (nat count)) (nat count)) (\<lambda>hoursSplit.
     gen_bind (gen_each (build_labor params templates warranty hoursSplit) [0..<nat count]) (\<lambda>lines.
       let laborLines = map fst lines; partLines = concat (map snd lines);
           laborTotal = gen_sum (map gl_laborExtendedAmount laborLines);
           discountTotal =
             (if warranty then round2 (fadd (fadd (fadd (fadd laborTotal (parts_sum partLines)) 0) 0) 0) else 0)
       in gen_bind (if warranty then gen_ret partLines else fit_parts params templates laborTotal partLines) (\<lambda>parts.
            gen_ret \<lparr>lb_laborLines = laborLines, lb_partLines = parts, lb_laborTotal = laborTotal,
                     lb_partsTotal = parts_sum parts, lb_shopFees = 0, lb_environmentalFees = 0, lb_taxTotal = 0,
                     lb_discountTotal = discountTotal,
                     lb_grandTotal = round2 (fsub (fadd (fadd (fadd (fadd laborTotal (parts_sum parts)) 0) 0) 0) discountTotal)\<rparr>)))))"

section \<open>Complaint\<close>

definition buildComplaint :: "Scenario \<Rightarrow> TextTemplateSet \<Rightarrow> CustomerProfile \<Rightarrow> string gen" where
  "buildComplaint scenario templates customer =
     (case scenario of
        PII_IN_SEMANTIC \<Rightarrow>
          gen_bind (gen_pick [cp_phone customer, cp_email customer]) (\<lambda>contact.
            gen_ret (''Customer '' @ cp_firstName customer @ '' reported the issue. Please contact '' @ contact @ '' for updates.''))
      | REPEAT_VISIT \<Rightarrow> gen_ret ''Customer returned for follow-up on the prior repair visit.''
      | _ \<Rightarrow> gen_pick (tt_complaints templates))"

end
