(* ===== verification/SynthGen.thy ===== *)
theory SynthGen
  imports SynthBuild JsDate XmlValidate
begin

text \<open>
  ops/synthetic-data/generate_v2.ts: the generator of synthetic repair orders. The draws of the main loop share one
  generator; each customer has a generator of its own. The parameter \<open>now\<close> gives the clock when the order of an index is
  built. A run ends with the files written so far and the error, if there is one; writing a file succeeds.
\<close>

section \<open>Arguments\<close>

record GenArgs =
  ga_count :: jsnum
  ga_seed :: string
  ga_outputDir :: string
  ga_tenantId :: string
  ga_startRoNumber :: jsnum
  ga_manifest :: bool

definition GEN_DEFAULT_ARGS :: GenArgs where
  "GEN_DEFAULT_ARGS =
     \<lparr>ga_count = Fin 1000, ga_seed = ''1'', ga_outputDir = ''ops/synthetic-data/v2'',
      ga_tenantId = ''00000000-0000-0000-0000-000000000010'', ga_startRoNumber = Fin 6920000, ga_manifest = False\<rparr>"

definition gen_arg :: "string \<Rightarrow> string option \<Rightarrow> GenArgs \<Rightarrow> GenArgs" where
  "gen_arg current nxt args =
     (let given = (\<lambda>flag. current = flag \<and> truthy nxt)
      in if given ''--count'' then args\<lparr>ga_count := js_parseInt (the nxt)\<rparr>
         else if given ''--seed'' then args\<lparr>ga_seed := the nxt\<rparr>
         else if given ''--output-dir'' then args\<lparr>ga_outputDir := the nxt\<rparr>
         else if given ''--tenant-id'' then args\<lparr>ga_tenantId := the nxt\<rparr>
         else if given ''--start-ro-number'' then args\<lparr>ga_startRoNumber := js_parseInt (the nxt)\<rparr>
         else if current = ''--manifest'' then args\<lparr>ga_manifest := True\<rparr>
         else args)"

fun gen_args :: "string list \<Rightarrow> GenArgs \<Rightarrow> GenArgs" where
  "gen_args [] args = args"
| "gen_args (current # rest) args = gen_args rest (gen_arg current (case rest of [] \<Rightarrow> None | x # _ \<Rightarrow> Some x) args)"

definition parseGenArgs :: "string list \<Rightarrow> GenArgs" where
  "parseGenArgs argv = gen_args argv GEN_DEFAULT_ARGS"

definition templatesForScenario :: "Scenario \<Rightarrow> TextTemplateSet" where
  "templatesForScenario scenario =
     (if scenario = HIGH_DOLLAR_DIAGNOSTIC then DIAGNOSTIC_TEMPLATES
      else if scenario = MULTI_LINE_MAJOR_REPAIR then MAJOR_REPAIR_TEMPLATES
      else if scenario = WARRANTY_REPAIR then WARRANTY_TEMPLATES
      else DEFAULT_TEMPLATES)"

section \<open>Plan\<close>

record PlanEntry =
  pe_scenario :: Scenario
  pe_count :: int
  pe_frac :: rat

definition total_weight :: rat where
  "total_weight = foldl (\<lambda>acc s. fadd acc (SCENARIO_DISTRIBUTION s)) 0 scenarios"

definition plan_entry :: "rat \<Rightarrow> Scenario \<Rightarrow> PlanEntry" where
  "plan_entry number scenario =
     (let exact = fdiv (fmul number (SCENARIO_DISTRIBUTION scenario)) total_weight
      in \<lparr>pe_scenario = scenario, pe_count = \<lfloor>exact\<rfloor>, pe_frac = fsub exact (of_int \<lfloor>exact\<rfloor>)\<rparr>)"

text \<open>The largest fractional parts first; the entries in the order of the scenarios otherwise.\<close>

definition frac_le :: "PlanEntry \<Rightarrow> PlanEntry \<Rightarrow> bool" where
  "frac_le a b \<longleftrightarrow> pe_frac b \<le> pe_frac a"

fun give_one :: "nat \<Rightarrow> PlanEntry list \<Rightarrow> PlanEntry list" where
  "give_one 0 es = es"
| "give_one (Suc n) es =
     (let es = give_one n es; i = n mod length es in es[i := (es ! i)\<lparr>pe_count := pe_count (es ! i) + 1\<rparr>])"

definition scenario_counts :: "rat \<Rightarrow> PlanEntry list" where
  "scenario_counts number =
     (let raw = map (plan_entry number) scenarios;
          remaining = \<lfloor>number\<rfloor> - sum_list (map pe_count raw)
      in give_one (nat remaining) (js_sort frac_le raw))"

definition scenario_text :: "Scenario \<Rightarrow> string" where
  "scenario_text s =
     (case s of ROUTINE_MAINTENANCE \<Rightarrow> ''ROUTINE_MAINTENANCE'' | HIGH_DOLLAR_DIAGNOSTIC \<Rightarrow> ''HIGH_DOLLAR_DIAGNOSTIC''
      | WARRANTY_REPAIR \<Rightarrow> ''WARRANTY_REPAIR'' | MULTI_LINE_MAJOR_REPAIR \<Rightarrow> ''MULTI_LINE_MAJOR_REPAIR''
      | PII_IN_SEMANTIC \<Rightarrow> ''PII_IN_SEMANTIC'' | REPEAT_VISIT \<Rightarrow> ''REPEAT_VISIT'')"

fun final_count :: "PlanEntry list \<Rightarrow> Scenario \<Rightarrow> (Scenario \<times> int) res" where
  "final_count [] scenario = Inl (Js (''Scenario count invalid for '' @ scenario_text scenario))"
| "final_count (e # es) scenario =
     (if pe_scenario e = scenario
      then (if pe_count e \<le> 0 then Inl (Js (''Scenario count invalid for '' @ scenario_text scenario)) else ok (scenario, pe_count e))
      else final_count es scenario)"

text \<open>A plan never starts with a repeated visit if it has anything else.\<close>

fun index_where :: "('a \<Rightarrow> bool) \<Rightarrow> 'a list \<Rightarrow> nat option" where
  "index_where P [] = None"
| "index_where P (x # xs) = (if P x then Some 0 else map_option Suc (index_where P xs))"

definition no_repeat_first :: "Scenario list \<Rightarrow> Scenario list" where
  "no_repeat_first shuffled =
     (case shuffled of
        REPEAT_VISIT # _ \<Rightarrow>
          (case index_where (\<lambda>s. s \<noteq> REPEAT_VISIT) shuffled of
             Some i \<Rightarrow> if 0 < i then shuffled[0 := shuffled ! i, i := shuffled ! 0] else shuffled
           | None \<Rightarrow> shuffled)
      | _ \<Rightarrow> shuffled)"

definition buildScenarioPlan :: "rat \<Rightarrow> string \<Rightarrow> (Scenario list \<times> (Scenario \<times> int) list) res" where
  "buildScenarioPlan number seed =
     (if number < of_nat (length scenarios) then Inl (Js ''Count must be at least number of scenarios'')
      else res_bind (res_map (final_count (scenario_counts number)) scenarios) (\<lambda>counts.
           let scenarioList = concat (map (\<lambda>(s, n). replicate (nat n) s) counts)
           in res_bind (snd (gen_shuffle scenarioList (createRng seed))) (\<lambda>shuffled.
                ok (no_repeat_first shuffled, counts))))"

section \<open>Fields\<close>

definition escapeXml :: "string \<Rightarrow> string" where
  "escapeXml value =
     replace_char (CHR ''>'') ''&gt;'' (replace_char (CHR ''<'') ''&lt;'' (replace_char (CHR ''&'') ''&amp;'' value))"

datatype FieldValue = FText string | FNum rat

type_synonym XmlFields = "(string, string) jsmap"

definition addField :: "XmlFields \<Rightarrow> string \<Rightarrow> FieldValue \<Rightarrow> XmlFields res" where
  "addField m name value =
     (if name \<in> fst ` set m then Inl (Js (''Duplicate XML element name: '' @ name))
      else ok (map_set name (case value of FNum x \<Rightarrow> toFixed (Fin x) 2 | FText s \<Rightarrow> s) m))"

text \<open>A sequence of \<open>addField\<close> calls; each value is drawn just before it is added.\<close>

fun add_fields :: "(string \<times> FieldValue gen) list \<Rightarrow> XmlFields \<Rightarrow> XmlFields gen" where
  "add_fields [] m = gen_ret m"
| "add_fields ((name, value) # rest) m =
     gen_bind value (\<lambda>v. gen_bind (gen_lift (addField m name v)) (add_fields rest))"

definition f_text :: "string \<Rightarrow> FieldValue gen" where "f_text s = gen_ret (FText s)"
definition f_num :: "rat \<Rightarrow> FieldValue gen" where "f_num x = gen_ret (FNum x)"
definition f_pick :: "string list \<Rightarrow> FieldValue gen" where "f_pick xs = gen_bind (gen_pick xs) f_text"
definition f_int :: "string \<Rightarrow> int \<Rightarrow> int \<Rightarrow> FieldValue gen" where
  "f_int start a b = gen_bind (gen_int (of_int a) (of_int b)) (\<lambda>n. f_text (start @ digits_of n))"

definition gen_draw_text :: "string \<Rightarrow> int \<Rightarrow> int \<Rightarrow> string gen" where
  "gen_draw_text start a b = gen_bind (gen_int (of_int a) (of_int b)) (\<lambda>n. gen_ret (start @ digits_of n))"

definition buildCustomer :: "string \<Rightarrow> nat \<Rightarrow> CustomerProfile res" where
  "buildCustomer seed index = snd (
     (gen_bind (gen_pick [''Jane'', ''John'', ''Maria'', ''David'', ''Olivia'', ''Marcus'', ''Priya'', ''Luis'']) (\<lambda>firstName.
      gen_bind (gen_pick [''Smith'', ''Johnson'', ''Lee'', ''Garcia'', ''Patel'', ''Brown'', ''Nguyen'', ''Davis'']) (\<lambda>lastName.
      gen_bind (gen_draw_text ''555-'' 100 999) (\<lambda>phone1.
      gen_bind (gen_draw_text ''-'' 1000 9999) (\<lambda>phone2.
      gen_bind (gen_draw_text [] 100 9999) (\<lambda>number.
      gen_bind (gen_pick [''Main St'', ''Oak Ave'', ''Pine Rd'', ''Cedar Blvd'', ''Maple Dr'']) (\<lambda>street.
      gen_bind (gen_pick [''Phoenix'', ''Dallas'', ''Austin'', ''Seattle'', ''Denver'']) (\<lambda>city.
      gen_bind (gen_pick [''AZ'', ''TX'', ''WA'', ''CO'', ''NV'']) (\<lambda>state.
      gen_bind (gen_draw_text [] 10000 99999) (\<lambda>postal.
        gen_ret \<lparr>cp_firstName = firstName, cp_lastName = lastName, cp_phone = phone1 @ phone2,
                 cp_email = toLowerCase firstName @ ''.'' @ toLowerCase lastName @ ''@example.test'',
                 cp_addressLine1 = number @ '' '' @ street, cp_addressCity = city, cp_addressState = state,
                 cp_addressPostal = postal\<rparr>))))))))))
     (createRng (seed @ ''-customer-'' @ digits_of (int index))))"

definition buildVehicle :: "VehicleProfile gen" where
  "buildVehicle =
     gen_bind (gen_draw_text ''SYNTH'' 1000000 9999999) (\<lambda>vin1.
     gen_bind (gen_draw_text [] 1000000 9999999) (\<lambda>vin2.
     gen_bind (gen_draw_text ''S'' 1000 9999) (\<lambda>plate1.
     gen_bind (gen_draw_text [] 0 9) (\<lambda>plate2.
     gen_bind (gen_int 2016 2024) (\<lambda>year.
     gen_bind (gen_pick [''Honda'', ''Toyota'', ''Ford'', ''Chevrolet'', ''Nissan'']) (\<lambda>make.
     gen_bind (gen_pick [''Civic'', ''Camry'', ''F-150'', ''Malibu'', ''Altima'']) (\<lambda>model.
     gen_bind (gen_pick [''LX'', ''SE'', ''Sport'', ''EX'', ''Limited'']) (\<lambda>trim.
     gen_bind (gen_pick [''2.0L I4'', ''2.5L I4'', ''3.5L V6'']) (\<lambda>engine.
     gen_bind (gen_pick [''Automatic'', ''CVT'', ''Manual'']) (\<lambda>transmission.
     gen_bind (gen_pick [''FWD'', ''RWD'', ''AWD'']) (\<lambda>drivetrain.
     gen_bind (gen_pick [''Black'', ''White'', ''Silver'', ''Blue'', ''Red'']) (\<lambda>color.
       gen_ret \<lparr>vp_vin = take 17 (vin1 @ vin2), vp_licensePlate = plate1 @ plate2, vp_year = year, vp_make = make,
                vp_model = model, vp_trim = trim, vp_engine = engine, vp_transmission = transmission,
                vp_drivetrain = drivetrain, vp_color = color\<rparr>))))))))))))"

section \<open>Times\<close>

definition getUTCHours :: "int \<Rightarrow> int" where "getUTCHours t = t mod day_ms div hour_ms"

text \<open>\<open>setUTCHours\<close> with one argument keeps the minutes; with four it sets them all. Days are whole in UTC.\<close>

definition setUTCHours :: "int \<Rightarrow> int \<Rightarrow> int" where
  "setUTCHours t h = t div day_ms * day_ms + h * hour_ms + t mod hour_ms"
definition setUTCTime :: "int \<Rightarrow> int \<Rightarrow> int \<Rightarrow> int" where
  "setUTCTime t h m = t div day_ms * day_ms + h * hour_ms + m * minute_ms"
definition addUTCDays :: "int \<Rightarrow> int \<Rightarrow> int" where "addUTCDays t n = t + n * day_ms"

record Timestamps =
  ts_open :: string
  ts_close :: string
  ts_writeup :: string
  ts_promised :: string
  ts_ingest :: string

definition buildTimestamps :: "int \<Rightarrow> int \<Rightarrow> int \<Rightarrow> Timestamps gen" where
  "buildTimestamps now baseDate offsetDays =
     gen_bind (gen_int 7 16) (\<lambda>h.
     gen_bind (gen_int 0 59) (\<lambda>m.
       let opened = setUTCTime (addUTCDays baseDate offsetDays) h m
       in gen_bind (gen_int 1 6) (\<lambda>n.
            gen_ret \<lparr>ts_open = toISOString opened,
                     ts_close = toISOString (setUTCHours opened (getUTCHours opened + n)),
                     ts_writeup = toISOString (setUTCHours opened (getUTCHours opened - 1)),
                     ts_promised = toISOString (addUTCDays opened 1),
                     ts_ingest = toISOString now\<rparr>)))"

section \<open>Documents\<close>

definition xml_line :: "string \<times> string \<Rightarrow> string" where
  "xml_line f = ''  <'' @ fst f @ ''>'' @ escapeXml (snd f) @ ''</'' @ fst f @ ''>''"

definition xml_header :: string where
  "xml_header = ''<?xml version='' @ [CHR 0x22] @ ''1.0'' @ [CHR 0x22] @ '' encoding='' @ [CHR 0x22] @ ''UTF-8'' @ [CHR 0x22] @ ''?>''"

definition buildXml :: "XmlFields \<Rightarrow> string" where
  "buildXml flds = js_join newline ([xml_header, ''<REPAIR_ORDER>''] @ map xml_line flds @ [''</REPAIR_ORDER>''])"

definition validateGeneratedXml :: "string \<Rightarrow> unit res" where
  "validateGeneratedXml xml =
     res_bind (routeXmlToPayloads xml) (\<lambda>routed.
       validateRoutedPayloads (rp_det routed) (rp_pii routed) (rp_sem routed) True)"

definition labor_fields :: "GenLabor \<Rightarrow> (string \<times> FieldValue gen) list" where
  "labor_fields l =
     (let f = (\<lambda>name. name @ ''_'' @ digits_of (int (gl_laborIndex l)))
      in [(f ''LABOR_LINE_NUMBER'', f_num (of_nat (gl_laborIndex l))),
          (f ''OP_CODE'', f_text (gl_opCode l)),
          (f ''OP_DESCRIPTION'', f_text (gl_opDescription l)),
          (f ''LABOR_TYPE'', f_text (gl_laborType l)),
          (f ''SKILL_LEVEL'', f_pick [''A'', ''B'', ''C'']),
          (f ''FLAT_RATE_HOURS'', f_num (gl_actualHours l)),
          (f ''ACTUAL_HOURS'', f_num (gl_actualHours l)),
          (f ''LABOR_RATE'', f_num (gl_laborRate l)),
          (f ''LABOR_EXTENDED_AMOUNT'', f_num (gl_laborExtendedAmount l)),
          (f ''TECHNICIAN_ID'', f_text (gl_technicianId l)),
          (f ''TECHNICIAN_NOTES'', f_text (gl_technicianNotes l)),
          (f ''CAUSE'', f_text (gl_cause l)),
          (f ''CORRECTION'', f_text (gl_correction l))])"

definition part_fields :: "GenPart \<Rightarrow> (string \<times> FieldValue gen) list" where
  "part_fields p =
     (let f = (\<lambda>name. name @ ''_'' @ digits_of (int (gp_laborIndex p)) @ ''_'' @ digits_of (int (gp_partIndex p)))
      in [(f ''PART_LINE_NUMBER'', f_num (of_nat (gp_partIndex p))),
          (f ''PART_NUMBER'', f_text (gp_partNumber p)),
          (f ''PART_DESCRIPTION'', f_text (gp_partDescription p)),
          (f ''PART_QUANTITY'', f_num (gp_quantity p)),
          (f ''PART_UNIT_PRICE'', f_num (gp_unitPrice p)),
          (f ''PART_EXTENDED_PRICE'', f_num (gp_extendedPrice p)),
          (f ''PART_SOURCE'', f_text (gp_partSource p)),
          (f ''BACKORDER_FLAG'', f_text (gp_backorderFlag p))])"

definition order_fields ::
  "GenArgs \<Rightarrow> string \<Rightarrow> ScenarioParams \<Rightarrow> TextTemplateSet \<Rightarrow> CustomerProfile \<Rightarrow> VehicleProfile \<Rightarrow>
   LineItemBundle \<Rightarrow> string \<Rightarrow> Timestamps \<Rightarrow> int \<Rightarrow> int \<Rightarrow> (string \<times> FieldValue gen) list" where
  "order_fields args roNumber params templates c v items complaint ts odometerIn odometerOut =
     [(''RO_NUMBER'', f_text roNumber),
      (''RO_STATUS'', f_text ''OPEN''),
      (''OPEN_TIMESTAMP'', f_text (ts_open ts)),
      (''CLOSE_TIMESTAMP'', f_text (ts_close ts)),
      (''WRITEUP_TIMESTAMP'', f_text (ts_writeup ts)),
      (''PROMISED_TIMESTAMP'', f_text (ts_promised ts)),
      (''ADVISOR_ID'', f_int ''ADV-'' 100 999),
      (''SERVICE_LANE'', f_int ''LANE-'' 1 5),
      (''DEPARTMENT_CODE'', f_int ''SV'' 1 9),
      (''WAITER_FLAG'', f_pick [''true'', ''false'', ''false'']),
      (''LOANER_FLAG'', f_pick [''false'', ''false'', ''true'']),
      (''WARRANTY_FLAG'', f_text (if sp_warranty params then ''true'' else ''false'')),
      (''FLEET_FLAG'', f_text ''false''),
      (''INTERNAL_RO_FLAG'', f_text ''false''),
      (''CUSTOMER_TYPE'', f_pick [''RETAIL'', ''FLEET'', ''WARRANTY'']),
      (''PREFERRED_CONTACT_METHOD'', f_pick [''PHONE'', ''EMAIL'']),
      (''MARKETING_OPT_IN'', f_pick [''true'', ''false'']),
      (''VEHICLE_YEAR'', f_num (of_int (vp_year v))),
      (''VEHICLE_MAKE'', f_text (vp_make v)),
      (''VEHICLE_MODEL'', f_text (vp_model v)),
      (''VEHICLE_TRIM'', f_text (vp_trim v)),
      (''VEHICLE_ENGINE'', f_text (vp_engine v)),
      (''VEHICLE_TRANSMISSION'', f_text (vp_transmission v)),
      (''VEHICLE_DRIVETRAIN'', f_text (vp_drivetrain v)),
      (''ODOMETER_IN'', f_num (of_int odometerIn)),
      (''ODOMETER_OUT'', f_num (of_int odometerOut)),
      (''VEHICLE_COLOR'', f_text (vp_color v)),
      (''VEHICLE_PRODUCTION_DATE'', f_text (digits_of (vp_year v) @ ''-01-01'')),
      (''LABOR_TOTAL'', f_num (lb_laborTotal items)),
      (''PARTS_TOTAL'', f_num (lb_partsTotal items)),
      (''SHOP_FEES'', f_num (lb_shopFees items)),
      (''ENVIRONMENTAL_FEES'', f_num (lb_environmentalFees items)),
      (''DISCOUNT_TOTAL'', f_num (lb_discountTotal items)),
      (''TAX_TOTAL'', f_num (lb_taxTotal items)),
      (''GRAND_TOTAL'', f_num (lb_grandTotal items)),
      (''PAYMENT_METHOD'', if sp_warranty params then f_text ''WARRANTY'' else f_pick [''CARD'', ''CASH'']),
      (''INVOICE_NUMBER'', f_text (''INV-'' @ roNumber)),
      (''CREATED_BY_SYSTEM'', f_text ''synthetic-generator''),
      (''INGEST_TIMESTAMP'', f_text (ts_ingest ts)),
      (''TENANT_ID'', f_text (ga_tenantId args)),
      (''SOURCE_SYSTEM'', f_text ''SYNTHETIC_V2''),
      (''CUSTOMER_FIRST_NAME'', f_text (cp_firstName c)),
      (''CUSTOMER_LAST_NAME'', f_text (cp_lastName c)),
      (''CUSTOMER_PHONE'', f_text (cp_phone c)),
      (''CUSTOMER_EMAIL'', f_text (cp_email c)),
      (''CUSTOMER_ADDRESS_LINE1'', f_text (cp_addressLine1 c)),
      (''CUSTOMER_ADDRESS_CITY'', f_text (cp_addressCity c)),
      (''CUSTOMER_ADDRESS_STATE'', f_text (cp_addressState c)),
      (''CUSTOMER_ADDRESS_POSTAL'', f_text (cp_addressPostal c)),
      (''VIN'', f_text (vp_vin v)),
      (''LICENSE_PLATE'', f_text (vp_licensePlate v)),
      (''CUSTOMER_COMPLAINT'', f_text complaint),
      (''ADDITIONAL_SYMPTOMS'', f_pick (tt_complaints templates)),
      (''CUSTOMER_REQUESTS'', f_pick [''Inspect brakes'', ''Perform oil change'', ''Check noise'']),
      (''ADVISOR_NOTES'', f_pick (tt_advisorNotes templates)),
      (''INTERNAL_COMMENTS'', f_text ''Internal review complete.''),
      (''QC_NOTES'', f_text ''Quality check passed.'')]
     @ concat (map labor_fields (lb_laborLines items)) @ concat (map part_fields (lb_partLines items))"

section \<open>The main loop\<close>

record ManifestEntry =
  me_roNumber :: string
  me_vin :: string
  me_scenario :: Scenario
  me_grandTotal :: rat
  me_laborLines :: nat
  me_partLines :: nat

record GenState =
  gs_rng :: rat
  gs_vinPool :: "string list"
  gs_vehicleByVin :: "(string, VehicleProfile) jsmap"
  gs_totals :: "Scenario \<Rightarrow> nat"
  gs_files :: "(string \<times> string) list"
  gs_manifest :: "ManifestEntry list"

definition is_ro_number :: "string \<Rightarrow> bool" where
  "is_ro_number s \<longleftrightarrow> length s = 7 \<and> list_all is_digit s"

text \<open>The vehicle of an order: drawn, and replaced by an earlier one on a repeated visit. Gives the new pool as well.\<close>

definition choose_vehicle ::
  "Scenario \<Rightarrow> string list \<Rightarrow> (string, VehicleProfile) jsmap \<Rightarrow> (VehicleProfile \<times> string list \<times> (string, VehicleProfile) jsmap) gen" where
  "choose_vehicle scenario pool byVin =
     gen_bind buildVehicle (\<lambda>vehicle.
       if scenario = REPEAT_VISIT
       then if pool = [] then gen_lift (Inl (Js ''Repeat visit scenario requires prior VINs''))
            else gen_bind (gen_pick pool) (\<lambda>selected.
                   case map_of byVin selected of
                     None \<Rightarrow> gen_lift (Inl (Js ''Repeat visit scenario missing prior VIN profile''))
                   | Some prior \<Rightarrow> gen_ret (prior, pool, byVin))
       else gen_ret (vehicle, pool @ [vp_vin vehicle], map_set (vp_vin vehicle) vehicle byVin))"

text \<open>\<open>Date.UTC(2026, 0, 1, 8, 0, 0)\<close>.\<close>

definition BASE_DATE :: int where "BASE_DATE = 1767254400000"

lemma base_date: "toISOString BASE_DATE = ''2026-01-01T08:00:00.000Z''"
  by code_simp

definition build_order ::
  "GenArgs \<Rightarrow> int \<Rightarrow> nat \<Rightarrow> Scenario \<Rightarrow> string \<Rightarrow> CustomerProfile \<Rightarrow> VehicleProfile \<Rightarrow> (LineItemBundle \<times> XmlFields) gen" where
  "build_order args now i scenario roNumber customer vehicle =
     (let params = SCENARIO_PARAMS scenario; templates = templatesForScenario scenario
      in gen_bind (buildLineItems params templates (sp_warranty params)) (\<lambda>items.
         gen_bind (buildComplaint scenario templates customer) (\<lambda>complaint.
         gen_bind (buildTimestamps now BASE_DATE (int i mod 365)) (\<lambda>ts.
         gen_bind (gen_int 10000 90000) (\<lambda>odometerIn.
         gen_bind (gen_int 0 250) (\<lambda>more.
         gen_bind (add_fields (order_fields args roNumber params templates customer vehicle items complaint ts
                                 odometerIn (odometerIn + more)) []) (\<lambda>flds.
           gen_ret (items, flds))))))))"

definition order_number :: "GenArgs \<Rightarrow> nat \<Rightarrow> string" where
  "order_number args i = num_to_string (jadd (ga_startRoNumber args) (Fin (of_nat i)))"

text \<open>One round of the loop: everything before the file is written, then the file and the manifest entry.\<close>

definition prepare_order ::
  "GenArgs \<Rightarrow> int \<Rightarrow> nat \<Rightarrow> Scenario \<Rightarrow> string list \<Rightarrow> (string, VehicleProfile) jsmap \<Rightarrow>
   (VehicleProfile \<times> LineItemBundle \<times> string \<times> string list \<times> (string, VehicleProfile) jsmap) gen" where
  "prepare_order args now i scenario pool byVin =
     (let roNumber = order_number args i
      in if \<not> is_ro_number roNumber then gen_lift (Inl (Js ''RO_NUMBER must be 7 digits''))
         else gen_bind (gen_lift (buildCustomer (ga_seed args) i)) (\<lambda>customer.
              gen_bind (choose_vehicle scenario pool byVin) (\<lambda>(vehicle, pool', byVin').
              gen_bind (build_order args now i scenario roNumber customer vehicle) (\<lambda>(items, flds).
                let xml = buildXml flds
                in gen_bind (gen_lift (validateGeneratedXml xml)) (\<lambda>_. gen_ret (vehicle, items, xml, pool', byVin'))))))"

definition generate_order :: "GenArgs \<Rightarrow> int \<Rightarrow> nat \<Rightarrow> Scenario \<Rightarrow> GenState \<Rightarrow> GenState \<times> unit res" where
  "generate_order args now i scenario st0 =
     (let st = st0\<lparr>gs_totals := (gs_totals st0)(scenario := gs_totals st0 scenario + 1)\<rparr>
      in case prepare_order args now i scenario (gs_vinPool st) (gs_vehicleByVin st) (gs_rng st) of
           (t, Inl e) \<Rightarrow> (st\<lparr>gs_rng := t\<rparr>, Inl e)
         | (t, Inr (vehicle, items, xml, pool, byVin)) \<Rightarrow>
             let roNumber = order_number args i;
                 entry = \<lparr>me_roNumber = roNumber, me_vin = vp_vin vehicle, me_scenario = scenario,
                          me_grandTotal = lb_grandTotal items, me_laborLines = length (lb_laborLines items),
                          me_partLines = length (lb_partLines items)\<rparr>
             in (st\<lparr>gs_rng := t, gs_vinPool := pool, gs_vehicleByVin := byVin,
                    gs_files := gs_files st @ [(''RO-'' @ roNumber @ ''.xml'', xml)],
                    gs_manifest := (if ga_manifest args then gs_manifest st @ [entry] else gs_manifest st)\<rparr>, ok ()))"

fun generate_orders :: "GenArgs \<Rightarrow> (nat \<Rightarrow> int) \<Rightarrow> nat \<Rightarrow> Scenario list \<Rightarrow> GenState \<Rightarrow> GenState \<times> unit res" where
  "generate_orders args now i [] st = (st, ok ())"
| "generate_orders args now i (scenario # plan) st =
     (case generate_order args (now i) i scenario st of
        (st', Inl e) \<Rightarrow> (st', Inl e)
      | (st', Inr _) \<Rightarrow> generate_orders args now (Suc i) plan st')"

definition init_generate :: "string \<Rightarrow> GenState" where
  "init_generate seed =
     \<lparr>gs_rng = createRng seed, gs_vinPool = [], gs_vehicleByVin = [], gs_totals = (\<lambda>_. 0), gs_files = [], gs_manifest = []\<rparr>"

section \<open>Manifest and main\<close>

text \<open>\<open>JSON.stringify(manifest, null, 2)\<close>; the texts have no character that JSON escapes.\<close>

definition json_text :: "string \<Rightarrow> string" where "json_text s = [CHR 0x22] @ s @ [CHR 0x22]"
definition json_member :: "string \<times> string \<Rightarrow> string" where
  "json_member m = ''    '' @ json_text (fst m) @ '': '' @ snd m"
definition json_entry :: "ManifestEntry \<Rightarrow> string" where
  "json_entry e =
     ''  {'' @ newline @
     js_join ('','' @ newline) (map json_member
       [(''roNumber'', json_text (me_roNumber e)), (''vin'', json_text (me_vin e)),
        (''scenario'', json_text (scenario_text (me_scenario e))), (''grandTotal'', num_to_string (Fin (me_grandTotal e))),
        (''laborLines'', digits_of (int (me_laborLines e))), (''partLines'', digits_of (int (me_partLines e)))]) @
     newline @ ''  }''"
definition manifest_json :: "ManifestEntry list \<Rightarrow> string" where
  "manifest_json es =
     (if es = [] then ''[]'' else ''['' @ newline @ js_join ('','' @ newline) (map json_entry es) @ newline @ '']'')"

definition count_mismatch :: "(Scenario \<Rightarrow> nat) \<Rightarrow> (Scenario \<times> int) list \<Rightarrow> Scenario option" where
  "count_mismatch totals counts =
     (case filter (\<lambda>(s, n). int (totals s) < n) counts of [] \<Rightarrow> None | (s, _) # _ \<Rightarrow> Some s)"

definition generate_main :: "(nat \<Rightarrow> int) \<Rightarrow> string list \<Rightarrow> (string \<times> string) list \<times> unit res" where
  "generate_main now argv =
     (let args = parseGenArgs argv
      in case ga_count args of
           Fin number \<Rightarrow>
             if number \<le> 0 then ([], Inl (Js ''Invalid count''))
             else if \<not> (isFinite (ga_startRoNumber args) \<and> jge (ga_startRoNumber args) (Fin 6920000))
             then ([], Inl (Js ''Invalid start RO number''))
             else (case buildScenarioPlan number (ga_seed args) of
                 Inl e \<Rightarrow> ([], Inl e)
               | Inr (plan, counts) \<Rightarrow>
                   (case generate_orders args now 0 plan (init_generate (ga_seed args)) of
                      (st, Inl e) \<Rightarrow> (gs_files st, Inl e)
                    | (st, Inr _) \<Rightarrow>
                        (case count_mismatch (gs_totals st) counts of
                           Some s \<Rightarrow> (gs_files st, Inl (Js (''Scenario count mismatch for '' @ scenario_text s)))
                         | None \<Rightarrow>
                             (gs_files st @ (if ga_manifest args then [(''manifest.json'', manifest_json (gs_manifest st))] else []),
                              ok ()))))
         | _ \<Rightarrow> ([], Inl (Js ''Invalid count'')))"

end
