(* ===== verification/FieldRegexFacts.thy ===== *)
theory FieldRegexFacts
  imports XmlRouting
begin

text \<open>
  The expression \<open>field_rx\<close> of the XML reader on well-formed text: it takes an element up to the first closing tag of its
  own name, and the reader finds the elements of a document one after the other.
\<close>

section \<open>The first result of a sequence\<close>

definition first_is :: "(string \<times> caps) list \<Rightarrow> string \<times> caps \<Rightarrow> bool" where
  "first_is xs x \<longleftrightarrow> (\<exists>ys. xs = x # ys)"

lemma first_isI [intro]: "first_is (x # xs) x"
  by (simp add: first_is_def)

lemma seq_first:
  assumes "f p s c = xs @ (w, c') # ys"
    and "\<And>u d. (u, d) \<in> set xs \<Longrightarrow> g (last_char p u) (drop (length u) s) d = []"
    and "first_is (g (last_char p w) (drop (length w) s) c') (v, c'')"
  shows "first_is (m_seq f g p s c) (w @ v, c'')"
proof -
  let ?step = "\<lambda>(u, d). map (\<lambda>(v, e). (u @ v, e)) (g (last_char p u) (drop (length u) s) d)"
  have none: "concat (map ?step xs) = []" using assms(2) by auto
  have "m_seq f g p s c = concat (map ?step xs) @ ?step (w, c') @ concat (map ?step ys)"
    using assms(1) by (simp only: m_seq_def) simp
  then show ?thesis using none assms(3) by (auto simp: first_is_def)
qed

lemma seq_first_simple:
  assumes "first_is (f p s c) (w, c')" "first_is (g (last_char p w) (drop (length w) s) c') (v, c'')"
  shows "first_is (m_seq f g p s c) (w @ v, c'')"
  using assms(1) seq_first [of f p s c "[]" w c' _ g v c''] assms(2) by (auto simp: first_is_def)

lemma seq_none: "f p s c = [] \<Longrightarrow> m_seq f g p s c = []"
  by (simp add: m_seq_def)

section \<open>Words and anything\<close>

lemma class_star_first:
  "first_is (m_star True (rx_ends (RCls f)) n p s c) (take n (takeWhile f s), c)"
proof (induction n arbitrary: p s)
  case (Suc n)
  show ?case
  proof (cases s)
    case (Cons x xs)
    then show ?thesis using Suc.IH [of "last_char p [x]" xs] by (auto simp: first_is_def)
  qed (simp add: first_is_def)
qed (simp add: first_is_def)

lemma word_plus_first:
  assumes "k \<noteq> []" "list_all f k" "\<not> f x"
  shows "first_is (rx_ends (rx_plus (RCls f)) p (k @ x # t) c) (k, c)"
proof -
  obtain y ys where k: "k = y # ys" using assms(1) by (cases k) auto
  have tw: "takeWhile f (ys @ x # t) = ys" using assms(2,3) by (simp add: k list_all_iff)
  have "first_is (m_seq (rx_ends (RCls f)) (rx_ends (RStar True (RCls f))) p (k @ x # t) c) ([y] @ ys, c)"
  proof (rule seq_first_simple)
    show "first_is (rx_ends (RCls f) p (k @ x # t) c) ([y], c)" using assms(2) by (auto simp: k first_is_def)
    show "first_is (rx_ends (RStar True (RCls f)) (last_char p [y]) (drop (length [y]) (k @ x # t)) c) (ys, c)"
      using class_star_first [of f "length (ys @ x # t)" "last_char p [y]" "ys @ x # t" c] tw by (simp add: k)
  qed
  then show ?thesis by (simp add: rx_plus_def k)
qed

lemma any_one: "rx_ends rx_any p (x # s) c = [([x], c)]"
  by simp

lemma any_star:
  "length s \<le> n \<Longrightarrow> m_star False (rx_ends rx_any) n p s c = map (\<lambda>i. (take i s, c)) [0..<Suc (length s)]"
proof (induction n arbitrary: p s)
  case (Suc n)
  show ?case
  proof (cases s)
    case (Cons x xs)
    then have "m_star False (rx_ends rx_any) n (last_char p [x]) xs c = map (\<lambda>i. (take i xs, c)) [0..<Suc (length xs)]"
      using Suc.IH [of xs "last_char p [x]"] Suc.prems by (simp del: rx_ends.simps upt_Suc)
    then show ?thesis by (simp add: Cons map_upt_Suc any_one del: upt_Suc rx_ends.simps)
  qed simp
qed simp

lemma str_ends: "rx_ends (str w) p s c = (if startsWith s w then [(w, c)] else [])"
proof (induction w arbitrary: p s)
  case Nil
  then show ?case by (simp add: str_def startsWith_def)
next
  case (Cons x w)
  show ?case
  proof (cases w)
    case Nil
    then show ?thesis by (cases s) (auto simp: str_def chr_def startsWith_def)
  next
    case (Cons y w')
    then have "rx_ends (str (x # w)) p s c = m_seq (rx_ends (chr x)) (rx_ends (str w)) p s c"
      by (simp add: str_def)
    then show ?thesis using Cons.IH by (cases s) (auto simp: m_seq_def chr_def startsWith_def)
  qed
qed

section \<open>One element\<close>

definition close_tag :: "string \<Rightarrow> string" where "close_tag k = ''</'' @ k @ ''>''"

definition close_rx :: rx where "close_rx = rx_seq [str ''</'', RRef 1, chr (CHR ''>'')]"

lemma close_ends:
  assumes "map_of c 1 = Some k"
  shows "rx_ends close_rx p s c = (if startsWith s (close_tag k) then [(close_tag k, c)] else [])"
proof -
  have gt: "rx_ends (chr (CHR ''>'')) q t d = (if startsWith t ''>'' then [(''>'', d)] else [])" for q t d
    by (cases t) (auto simp: chr_def startsWith_def)
  have cut: "startsWith t (a @ b) \<longleftrightarrow> startsWith t a \<and> startsWith (drop (length a) t) b" for a b t
    by (auto simp: startsWith_iff)
  have tag: "startsWith s (close_tag k) \<longleftrightarrow>
      startsWith s ''</'' \<and> startsWith (drop 2 s) k \<and> startsWith (drop (length k) (drop 2 s)) ''>''"
    using cut [of s "''</''" "k @ ''>''"] cut [of "drop 2 s" k "''>''"] by (simp add: close_tag_def numeral_2_eq_2)
  let ?inner = "rx_ends (RSeq (RRef 1) (chr (CHR ''>'')))"
  have inner: "?inner q t c =
      (if startsWith t k \<and> startsWith (drop (length k) t) ''>'' then [(k @ ''>'', c)] else [])" for q t
    using assms by (auto simp: m_seq_def gt Let_def)
  have "rx_ends close_rx p s c = m_seq (rx_ends (str ''</'')) ?inner p s c"
    by (simp only: close_rx_def rx_seq.simps rx_ends.simps(3) [of "str _"])
  also have "\<dots> = (if startsWith s ''</'' then map (\<lambda>(v, d). (''</'' @ v, d)) (?inner (last_char p ''</'') (drop 2 s) c) else [])"
    by (simp only: m_seq_def str_ends) (simp del: rx_ends.simps add: numeral_2_eq_2)
  finally show ?thesis unfolding tag inner by (simp add: close_tag_def)
qed

lemma find_from_eq:
  "find_from pat s = Some i \<longleftrightarrow> startsWith (drop i s) pat \<and> i \<le> length s \<and> (\<forall>j < i. \<not> startsWith (drop j s) pat)"
proof (induction s arbitrary: i)
  case Nil
  then show ?case by (subst find_from.simps) (auto simp: startsWith_def)
next
  case (Cons x s)
  show ?case
  proof (cases "startsWith (x # s) pat")
    case True
    then have "find_from pat (x # s) = Some 0" by (subst find_from.simps) simp
    then show ?thesis using True by (cases i) (auto simp: gr0_conv_Suc)
  next
    case False
    then have "find_from pat (x # s) = map_option Suc (find_from pat s)" by (subst find_from.simps) simp
    then show ?thesis using False Cons.IH
      by (cases i) (auto simp: All_less_Suc2)
  qed
qed

definition tag_chars :: "string \<Rightarrow> bool" where "tag_chars k \<longleftrightarrow> k \<noteq> [] \<and> list_all is_word k"

lemma angle_no_word: "\<not> is_word (CHR ''>'')" "\<not> is_word (CHR ''<'')" "\<not> is_word (CHR ''/'')" "\<not> is_word (CHR ''?'')"
  by code_simp+

text \<open>An element at the start of the text, up to the first closing tag of its name.\<close>

lemma element_first:
  assumes "tag_chars k" "find_from (close_tag k) s = Some n"
  shows "first_is (rx_ends field_rx p (''<'' @ k @ ''>'' @ s) []) (''<'' @ k @ ''>'' @ take n s @ close_tag k, [(2, take n s), (1, k)])"
proof -
  have k: "k \<noteq> []" "list_all is_word k" using assms(1) by (auto simp: tag_chars_def)
  have n: "startsWith (drop n s) (close_tag k)" "n \<le> length s" and before: "\<And>j. j < n \<Longrightarrow> \<not> startsWith (drop j s) (close_tag k)"
    using assms(2) by (auto simp: find_from_eq)
  let ?body = "RSeq (RGrp 2 (RStar False rx_any)) close_rx"
  have star: "rx_ends (RGrp 2 (RStar False rx_any)) q s [(1, k)] =
      map (\<lambda>i. (take i s, [(2, take i s), (1, k)])) [0..<n] @ (take n s, [(2, take n s), (1, k)]) #
      map (\<lambda>i. (take i s, [(2, take i s), (1, k)])) [Suc n..<Suc (length s)]" for q
  proof -
    have "[0..<Suc (length s)] = [0..<n] @ n # [Suc n..<Suc (length s)]"
      using n(2) by (metis le_imp_less_Suc le_add_diff_inverse less_imp_le_nat upt_add_eq_append upt_conv_Cons zero_le)
    then show ?thesis by (simp add: any_star del: upt_Suc)
  qed
  have body: "first_is (rx_ends ?body q s [(1, k)]) (take n s @ close_tag k, [(2, take n s), (1, k)])" for q
    unfolding rx_ends.simps(3)
  proof (rule seq_first [where f = "rx_ends (RGrp 2 (RStar False rx_any))" and p = q and s = s and c = "[(1, k)]", OF star])
    fix u d assume "(u, d) \<in> set (map (\<lambda>i. (take i s, [(2, take i s), (1 :: nat, k)])) [0..<n])"
    then obtain i where i: "i < n" "u = take i s" "d = [(2, take i s), (1, k)]" by auto
    then have "drop (length u) s = drop i s" using n(2) by simp
    then show "rx_ends close_rx (last_char q u) (drop (length u) s) d = []"
      using close_ends [of d k] before [OF i(1)] i(3) by simp
  next
    show "first_is (rx_ends close_rx (last_char q (take n s)) (drop (length (take n s)) s) [(2, take n s), (1, k)])
        (close_tag k, [(2, take n s), (1, k)])"
      using close_ends [of "[(2, take n s), (1, k)]" k] n by (auto simp: min_def first_is_def)
  qed
  have gt: "first_is (rx_ends (RSeq (chr (CHR ''>'')) ?body) q (''>'' @ s) [(1, k)])
      (''>'' @ take n s @ close_tag k, [(2, take n s), (1, k)])" for q
    unfolding rx_ends.simps(3) [of "chr _"]
    by (rule seq_first_simple) (use body in \<open>auto simp: chr_def first_is_def\<close>)
  have name: "first_is (rx_ends (RSeq (RGrp 1 (rx_plus (RCls is_word))) (RSeq (chr (CHR ''>'')) ?body)) q (k @ ''>'' @ s) [])
      (k @ ''>'' @ take n s @ close_tag k, [(2, take n s), (1, k)])" for q
    unfolding rx_ends.simps(3) [of "RGrp 1 _"]
  proof (rule seq_first_simple)
    show "first_is (rx_ends (RGrp 1 (rx_plus (RCls is_word))) q (k @ ''>'' @ s) []) (k, [(1, k)])"
      using word_plus_first [OF k angle_no_word(1), of q s "[]"] by (auto simp: first_is_def)
    show "first_is (rx_ends (RSeq (chr (CHR ''>'')) ?body) (last_char q k) (drop (length k) (k @ ''>'' @ s)) [(1, k)])
        (''>'' @ take n s @ close_tag k, [(2, take n s), (1, k)])"
      using gt by simp
  qed
  let ?rest = "RSeq (RGrp 1 (rx_plus (RCls is_word))) (RSeq (chr (CHR ''>'')) ?body)"
  have f: "field_rx = RSeq (chr (CHR ''<'')) ?rest" by (simp add: field_rx_def close_rx_def)
  have "first_is (m_seq (rx_ends (chr (CHR ''<''))) (rx_ends ?rest) p (''<'' @ k @ ''>'' @ s) [])
      (''<'' @ k @ ''>'' @ take n s @ close_tag k, [(2, take n s), (1, k)])"
    by (rule seq_first_simple) (use name in \<open>auto simp: chr_def first_is_def\<close>)
  then show ?thesis unfolding f by (simp only: rx_ends.simps(3))
qed

section \<open>Elements in a text\<close>

lemma not_open: "CHR ''<'' \<noteq> x \<Longrightarrow> rx_ends field_rx p (x # t) [] = []"
  by (simp add: field_rx_def chr_def seq_none del: rx_ends.simps(6,7))

lemma field_skip:
  assumes "CHR ''<'' \<notin> set g" "s \<noteq> []"
  shows "rx_find field_rx p (g @ s) = map_option (\<lambda>(h, w, c, t). (g @ h, w, c, t)) (rx_find field_rx (last_char p g) s)"
  using assms(1)
proof (induction g arbitrary: p)
  case Nil
  then show ?case by (simp add: last_char_def option.map_id0 [unfolded id_def] split_def)
next
  case (Cons x g)
  have "rx_find field_rx p ((x # g) @ s) = map_option (\<lambda>(h, w, c, t). (x # h, w, c, t)) (rx_find field_rx (Some x) (g @ s))"
    using not_open [of x p "g @ s"] Cons.prems by (subst rx_find.simps) simp
  moreover have "last_char (Some x) g = last_char p (x # g)" by (simp add: last_char_def)
  ultimately show ?case using Cons.IH [of "Some x"] Cons.prems
    by (simp add: option.map_comp comp_def split_def)
qed

lemma field_blank: "CHR ''<'' \<notin> set s \<Longrightarrow> rx_find field_rx p s = None"
proof (induction s arbitrary: p)
  case Nil
  then show ?case by (subst rx_find.simps) (simp add: field_rx_def chr_def seq_none del: rx_ends.simps(6,7))
next
  case (Cons x s)
  then show ?case using not_open [of x p s] by (subst rx_find.simps) simp
qed

lemma element_found:
  assumes "tag_chars k" "find_from (close_tag k) s = Some n" "CHR ''<'' \<notin> set g"
  shows "rx_find field_rx p (g @ ''<'' @ k @ ''>'' @ s) =
           Some (g, ''<'' @ k @ ''>'' @ take n s @ close_tag k, [(2, take n s), (1, k)], drop (n + length (close_tag k)) s)"
proof -
  let ?w = "''<'' @ k @ ''>'' @ take n s @ close_tag k"
  have n: "startsWith (drop n s) (close_tag k)" "n \<le> length s" using assms(2) by (auto simp: find_from_eq)
  have "drop (length ?w) (''<'' @ k @ ''>'' @ s) = drop (n + length (close_tag k)) s"
    using n(2) by (simp add: add.commute)
  moreover obtain ys where "rx_ends field_rx (last_char p g) (''<'' @ k @ ''>'' @ s) [] = (?w, [(2, take n s), (1, k)]) # ys"
    using element_first [OF assms(1,2)] by (auto simp: first_is_def)
  ultimately have "rx_find field_rx (last_char p g) (''<'' @ k @ ''>'' @ s) =
      Some ([], ?w, [(2, take n s), (1, k)], drop (n + length (close_tag k)) s)"
    by (subst rx_find.simps) simp
  then show ?thesis using field_skip [OF assms(3), of "''<'' @ k @ ''>'' @ s" p] by simp
qed

section \<open>Where a tag closes\<close>

text \<open>No occurrence of \<open>pat\<close> starts within \<open>b\<close> when \<open>rest\<close> follows.\<close>

definition skips :: "string \<Rightarrow> string \<Rightarrow> string \<Rightarrow> bool" where
  "skips pat b rest \<longleftrightarrow> (\<forall>j < length b. \<not> startsWith (drop j b @ rest) pat)"

lemma skips_find: "skips pat b rest \<Longrightarrow> find_from pat (b @ rest) = map_option ((+) (length b)) (find_from pat rest)"
proof (induction b)
  case (Cons x b)
  have "\<not> startsWith ((x # b) @ rest) pat" using Cons.prems by (auto simp: skips_def)
  moreover have "skips pat b rest" unfolding skips_def
  proof (intro allI impI)
    fix j assume "j < length b"
    then show "\<not> startsWith (drop j b @ rest) pat" using Cons.prems by (auto simp: skips_def dest: spec [of _ "Suc j"])
  qed
  moreover have "map_option Suc (map_option ((+) n) r) = map_option ((+) (Suc n)) r" for n r by (cases r) auto
  ultimately show ?case using Cons.IH by (subst find_from.simps) simp
qed (cases "find_from pat rest"; simp)

lemma skips_append: "skips pat a (b @ rest) \<Longrightarrow> skips pat b rest \<Longrightarrow> skips pat (a @ b) rest"
  unfolding skips_def
proof (intro allI impI)
  fix j
  assume a: "\<forall>j < length a. \<not> startsWith (drop j a @ b @ rest) pat" and b: "\<forall>j < length b. \<not> startsWith (drop j b @ rest) pat"
    and j: "j < length (a @ b)"
  show "\<not> startsWith (drop j (a @ b) @ rest) pat"
  proof (cases "j < length a")
    case False
    then have "j - length a < length b" using j by simp
    then show ?thesis using b False by simp
  qed (use a in simp)
qed

lemma skips_plain: "CHR ''<'' \<notin> set b \<Longrightarrow> skips (close_tag k) b rest"
proof -
  assume b: "CHR ''<'' \<notin> set b"
  have "\<not> startsWith (drop j b @ rest) (close_tag k)" if j: "j < length b" for j
  proof -
    have "drop j b = b ! j # drop (Suc j) b" "b ! j \<in> set b" using j by (simp_all add: Cons_nth_drop_Suc)
    then show ?thesis using b by (auto simp: startsWith_iff close_tag_def)
  qed
  then show ?thesis by (simp add: skips_def)
qed

lemma word_no_angle: "list_all is_word k \<Longrightarrow> CHR ''<'' \<notin> set k \<and> CHR ''>'' \<notin> set k"
  using angle_no_word by (auto simp: list_all_iff)

lemma skips_open:
  assumes "tag_chars k"
  shows "skips (close_tag r) (''<'' @ k @ ''>'') rest"
proof -
  obtain x xs where k: "k = x # xs" "is_word x" using assms by (cases k) (auto simp: tag_chars_def)
  then have "x \<noteq> CHR ''/''" using angle_no_word by auto
  then have "skips (close_tag r) ''<'' ((k @ ''>'') @ rest)" by (auto simp: skips_def startsWith_iff close_tag_def k)
  moreover have "skips (close_tag r) (k @ ''>'') rest"
    using skips_plain [of "k @ ''>''"] word_no_angle [of k] assms by (simp add: tag_chars_def)
  ultimately show ?thesis using skips_append [of "close_tag r" "''<''" "k @ ''>''" rest] by simp
qed

lemma skips_close:
  assumes "tag_chars k" "tag_chars r" "k \<noteq> r"
  shows "skips (close_tag r) (close_tag k) rest"
proof -
  have "takeWhile is_word (k @ CHR ''>'' # u) = k" "takeWhile is_word (r @ CHR ''>'' # u) = r" for u
    using assms(1,2) angle_no_word(1) by (auto simp: tag_chars_def list_all_iff)
  then have "k @ CHR ''>'' # u \<noteq> r @ CHR ''>'' # v" for u v using assms(3) by metis
  then have "skips (close_tag r) ''<'' ((''/'' @ k @ ''>'') @ rest)"
    by (auto simp: skips_def startsWith_iff close_tag_def)
  moreover have "skips (close_tag r) (''/'' @ k @ ''>'') rest"
    using skips_plain [of "''/'' @ k @ ''>''"] word_no_angle [of k] assms(1) by (simp add: tag_chars_def)
  ultimately show ?thesis
    using skips_append [of "close_tag r" "''<''" "''/'' @ k @ ''>''" rest] by (simp add: close_tag_def)
qed

section \<open>Documents\<close>

definition element :: "string \<Rightarrow> string \<Rightarrow> string" where "element k v = ''<'' @ k @ ''>'' @ v @ close_tag k"

text \<open>Elements one after the other, each behind some text without a tag.\<close>

definition elements :: "(string \<times> string \<times> string) list \<Rightarrow> string" where
  "elements es = concat (map (\<lambda>(g, k, v). g @ element k v) es)"

definition plain_elements :: "(string \<times> string \<times> string) list \<Rightarrow> bool" where
  "plain_elements es \<longleftrightarrow> list_all (\<lambda>(g, k, v). CHR ''<'' \<notin> set g \<and> tag_chars k \<and> CHR ''<'' \<notin> set v) es"

lemma find_own_close: "CHR ''<'' \<notin> set v \<Longrightarrow> find_from (close_tag k) (v @ close_tag k @ t) = Some (length v)"
  using skips_find [OF skips_plain, of v k "close_tag k @ t"]
  by (simp add: find_from.simps [of "close_tag k" "close_tag k @ t"] startsWith_def)

lemma elements_skipped:
  assumes "plain_elements es" "tag_chars r" "r \<notin> set (map (fst \<circ> snd) es)"
  shows "skips (close_tag r) (elements es) rest"
  using assms(1,3)
proof (induction es)
  case (Cons e es)
  obtain g k v where e: "e = (g, k, v)" by (cases e)
  have k: "CHR ''<'' \<notin> set g" "tag_chars k" "CHR ''<'' \<notin> set v" "k \<noteq> r" using Cons.prems by (auto simp: e plain_elements_def)
  let ?rest = "elements es @ rest"
  have "skips (close_tag r) (v @ close_tag k) ?rest"
    by (rule skips_append [OF skips_plain [OF k(3)] skips_close [OF k(2) assms(2) k(4)]])
  then have "skips (close_tag r) ((''<'' @ k @ ''>'') @ v @ close_tag k) ?rest" by (rule skips_append [OF skips_open [OF k(2)]])
  then have "skips (close_tag r) (g @ (''<'' @ k @ ''>'') @ v @ close_tag k) ?rest" by (rule skips_append [OF skips_plain [OF k(1)]])
  moreover have "skips (close_tag r) (elements es) rest" using Cons by (simp add: plain_elements_def)
  ultimately have "skips (close_tag r) ((g @ (''<'' @ k @ ''>'') @ v @ close_tag k) @ elements es) rest" by (rule skips_append)
  then show ?case by (simp add: elements_def element_def e)
qed (simp add: skips_def elements_def)

lemma matches_of_elements:
  assumes "plain_elements es" "CHR ''<'' \<notin> set t"
  shows "rx_matches_from field_rx p (elements es @ t) = map (\<lambda>(g, k, v). (element k v, [(2, v), (1, k)])) es"
  using assms(1)
proof (induction es arbitrary: p)
  case Nil
  then show ?case using field_blank [OF assms(2)] by (subst rx_matches_from.simps) (simp add: elements_def)
next
  case (Cons e es)
  obtain g k v where e: "e = (g, k, v)" by (cases e)
  have k: "CHR ''<'' \<notin> set g" "tag_chars k" "CHR ''<'' \<notin> set v" using Cons.prems by (auto simp: e plain_elements_def)
  let ?s = "v @ close_tag k @ elements es @ t"
  have "rx_find field_rx p (g @ ''<'' @ k @ ''>'' @ ?s) = Some (g, element k v, [(2, v), (1, k)], elements es @ t)"
    using element_found [OF k(2) find_own_close [OF k(3)] k(1), of p "elements es @ t"] by (simp add: element_def)
  moreover have "elements (e # es) @ t = g @ ''<'' @ k @ ''>'' @ ?s" by (simp add: elements_def element_def e)
  moreover have "plain_elements es" using Cons.prems by (simp add: plain_elements_def)
  ultimately show ?case
    by (subst rx_matches_from.simps) (simp add: Cons.IH e element_def)
qed

text \<open>The reader gives the elements of a document in their order.\<close>

lemma extract_elements:
  assumes "rx_find field_rx None xml = Some (h, element r (elements es @ t), [(2, elements es @ t), (1, r)], u)"
    and "plain_elements es" "CHR ''<'' \<notin> set t" "es = [] \<longrightarrow> list_all is_ws t"
  shows "extractFlatFields xml = ok (map (\<lambda>(g, k, v). entry (normalizeTag k) (js_trim v)) es)"
proof -
  have trim: "set (js_trim v) \<subseteq> set v" for v
    by (auto simp: js_trim_def dest!: set_dropWhileD)
  let ?m = "\<lambda>(g :: string, k, v). (element k v, [(2 :: nat, v), (1, k)])"
  have flat: "flat_field (?m e) = ok ((\<lambda>(g, k, v). entry (normalizeTag k) (js_trim v)) e)" if "e \<in> set es" for e
  proof -
    obtain g k v where e: "e = (g, k, v)" by (cases e)
    then have "CHR ''<'' \<notin> set (js_trim v)" using assms(2) that trim [of v] by (auto simp: plain_elements_def list_all_iff)
    then show ?thesis by (simp add: e flat_field_def grp_def group_def Let_def)
  qed
  have "res_map flat_field (map ?m es') = ok (map (\<lambda>(g, k, v). entry (normalizeTag k) (js_trim v)) es')"
    if "set es' \<subseteq> set es" for es'
    using that flat by (induction es') auto
  then have r: "res_map flat_field (map ?m es) = ok (map (\<lambda>(g, k, v). entry (normalizeTag k) (js_trim v)) es)" by blast
  have len: "sum_list (map (length \<circ> fst) (map ?m es)) \<noteq> 0" if "es \<noteq> []"
    using that by (cases es) (auto simp: element_def)
  have blank: "list_all is_ws (elements es @ t)" if "es = []" using that assms(4) by (simp add: elements_def)
  have "rx_matches field_rx (elements es @ t) = map ?m es" using matches_of_elements [OF assms(2,3)] by (simp add: rx_matches_def)
  moreover have "rx_match field_rx xml = Some (element r (elements es @ t), [(2, elements es @ t), (1, r)])"
    using assms(1) by (simp add: rx_match_def)
  ultimately show ?thesis using r len blank by (auto simp: extractFlatFields_def Let_def grp_def group_def)
qed

end
