(* ===== verification/SynthRngFacts.thy ===== *)
theory SynthRngFacts
  imports SynthRng "HOL-Library.Multiset"
begin

text \<open>
  Facts about the seeded generator: a rounding error is at most one part in \<open>2^53\<close>, so that no draw falls out of its
  range by rounding, and the shuffle is a permutation.
\<close>

section \<open>Rounding errors\<close>

lemma rnd_error:
  assumes "2 powi (- 1000) \<le> q" "q \<le> 2 powi 900"
  shows "\<exists>z. rnd q = Fin z \<and> \<bar>z - q\<bar> \<le> q / 2 ^ 53"
proof -
  have q: "0 < q" using assms(1) two_powi_pos [of "- 1000"] by linarith
  have lo: "2 powi (ilog2 q) \<le> q" and hi: "q < 2 powi (ilog2 q + 1)" using ilog2_bounds [OF q] by auto
  have "(2::rat) powi (- 1000) < 2 powi (ilog2 q + 1)" using assms(1) hi by linarith
  then have l: "- 1001 < ilog2 q" using power_int_increasing [of "ilog2 q + 1" "- 1000" "2 :: rat"] by linarith
  have "2 powi (ilog2 q) \<le> (2::rat) powi 900" using assms(2) lo by linarith
  then have u: "ilog2 q \<le> 900" using power_int_strict_increasing [of 900 "ilog2 q" "2 :: rat"] by linarith
  have k: "quantum q = ilog2 q - 52" using l by (simp add: quantum_def)
  define p where "p = (2 :: rat) powi quantum q"
  have p0: "0 < p" by (simp add: p_def)
  have p: "p * 2 ^ 52 = 2 powi (ilog2 q)"
    unfolding p_def k using power_int_add [of "2 :: rat" "ilog2 q - 52" 52] by simp
  define m where "m = rat_of_int (round_half_even (q / p))"
  have m: "\<bar>m - q / p\<bar> \<le> 1 / 2" unfolding m_def by (rule round_half_even_error)
  have "m * p - q = (m - q / p) * p" using p0 by (simp add: left_diff_distrib)
  then have "\<bar>m * p - q\<bar> = \<bar>m - q / p\<bar> * p" using p0 by (simp add: abs_mult)
  also have "\<dots> \<le> 1 / 2 * p" using m p0 by (intro mult_right_mono) simp_all
  also have "\<dots> \<le> q / 2 ^ 53" using p lo by simp
  finally have e: "\<bar>m * p - q\<bar> \<le> q / 2 ^ 53" .
  have "rnd q = Fin (m * p)" using q k u by (simp add: rnd_def Let_def m_def p_def)
  then show ?thesis using e by blast
qed

lemma fl_zero [simp]: "fl 0 = 0"
  by (simp add: fl_def)

lemma fl_error:
  assumes "q = 0 \<or> (2 powi (- 1000) \<le> q \<and> q \<le> 2 powi 900)"
  shows "\<bar>fl q - q\<bar> \<le> q / 2 ^ 53"
  using assms rnd_error [of q] by (auto simp: fl_def)

section \<open>Draws stay in their range\<close>

lemma mulberry_range: "mulberry32 t = (t', x) \<Longrightarrow> \<exists>n :: nat. n < 2 ^ 32 \<and> x = of_nat n / 2 ^ 32"
proof -
  assume m: "mulberry32 t = (t', x)"
  let ?w = "mulberry_mix (to_word t')"
  have "x = of_nat (unat ?w) / 2 ^ 32" using m by (auto simp: mulberry32_def Let_def)
  moreover have "unat ?w < 2 ^ 32" using unsigned_less [of ?w] by simp
  ultimately show ?thesis by blast
qed

lemma tiny: "(2 :: rat) powi (- 1000) \<le> 1 / 2 ^ 32" "(2 :: rat) ^ 50 \<le> 2 powi 900"
proof -
  have a: "(2 :: rat) powi (- 1000) \<le> 2 powi (- 32)" by (rule power_int_increasing; simp)
  have b: "(2 :: rat) powi (- 32) = 1 / 2 ^ 32" by (simp only: power_int_minus power_int_numeral inverse_eq_divide)
  show "(2 :: rat) powi (- 1000) \<le> 1 / 2 ^ 32" using a unfolding b .
  have c: "(2 :: rat) powi 50 \<le> 2 powi 900" by (rule power_int_increasing; simp)
  have d: "(2 :: rat) powi 50 = 2 ^ 50" by (simp only: power_int_numeral)
  show "(2 :: rat) ^ 50 \<le> 2 powi 900" using c unfolding d .
qed

lemma scaled_range:
  assumes "0 < n" "n \<le> 2 ^ 50" "w < 2 ^ 32"
  shows "0 \<le> scaled (of_nat w / 2 ^ 32) n \<and> scaled (of_nat w / 2 ^ 32) n < n"
proof (cases "w = 0")
  case False
  define q :: rat where "q = of_nat w / 2 ^ 32 * of_int n"
  have n1: "(1 :: rat) \<le> of_int n" "of_int n \<le> (2 :: rat) ^ 50" using assms(1,2) by (simp_all add: of_int_le_iff [of n "2 ^ 50", simplified])
  have w1: "(1 :: rat) \<le> of_nat w" "of_nat w \<le> (2 :: rat) ^ 32 - 1"
    using False assms(3) by (simp_all add: of_nat_le_iff [of w "2 ^ 32 - 1", simplified])
  have up: "q \<le> of_int n - of_int n / 2 ^ 32"
    unfolding q_def using mult_right_mono [OF w1(2), of "of_int n"] n1 by (simp add: field_simps)
  have lo: "1 / 2 ^ 32 \<le> q" unfolding q_def using mult_mono [OF w1(1) n1(1)] n1 w1 by (simp add: field_simps)
  have "2 powi (- 1000) \<le> q \<and> q \<le> 2 powi 900"
  proof
    show "2 powi (- 1000) \<le> q" using tiny(1) lo by (rule order_trans)
    have "0 \<le> rat_of_int n / 2 ^ 32" using n1 by simp
    then have "q \<le> 2 ^ 50" using up n1 by linarith
    then show "q \<le> 2 powi 900" using tiny(2) by (rule order_trans)
  qed
  then have e: "\<bar>fl q - q\<bar> \<le> q / 2 ^ 53" using fl_error by blast
  have "0 \<le> q" using w1 n1 by (simp add: q_def)
  then have "q / 2 ^ 53 \<le> q" by simp
  then have f: "0 \<le> fl q" using e by linarith
  have "0 \<le> rat_of_int n / 2 ^ 32" using n1 by simp
  then have "q / 2 ^ 53 \<le> of_int n / 2 ^ 53" using up by (simp add: divide_right_mono)
  moreover have "rat_of_int n / 2 ^ 53 < of_int n / 2 ^ 32" using n1 by (simp add: divide_strict_left_mono)
  ultimately have "fl q < of_int n" using e up by linarith
  then show ?thesis using f by (simp add: scaled_def floor_less_iff q_def)
qed (use assms(1) in \<open>simp add: scaled_def\<close>)

text \<open>The number that a draw below \<open>n\<close> gives.\<close>

lemma next_scaled:
  assumes "0 < n" "n \<le> 2 ^ 50"
  obtains t' x where "gen_next t = (t', Inr x)" "0 \<le> scaled x n" "scaled x n < n"
proof -
  obtain t' x where x: "mulberry32 t = (t', x)" by (cases "mulberry32 t") simp
  obtain k :: nat where "k < 2 ^ 32" "x = of_nat k / 2 ^ 32" using mulberry_range [OF x] by blast
  then have "0 \<le> scaled x n \<and> scaled x n < n" using scaled_range [OF assms, of k] by blast
  then show ?thesis using that [of t' x] x by (simp add: gen_next_def)
qed

lemma gen_bind_ok: "gen_bind m f t = (t', Inr y) \<longleftrightarrow> (\<exists>t1 x. m t = (t1, Inr x) \<and> f x t1 = (t', Inr y))"
  by (auto simp: gen_bind_def split: prod.splits sum.splits)

text \<open>A draw between two whole numbers stays between them, rounding included.\<close>

theorem drawn_integers_stay_in_range:
  assumes "gen_int (of_int a) (of_int b) t = (t', r)" "a \<le> b" "b - a < 2 ^ 50"
  shows "\<exists>i. r = Inr i \<and> a \<le> i \<and> i \<le> b"
proof -
  obtain t1 x where "gen_next t = (t1, Inr x)" "0 \<le> scaled x (b - a + 1)" "scaled x (b - a + 1) < b - a + 1"
    using next_scaled [of "b - a + 1" t] assms(2,3) by auto
  then show ?thesis using assms(1) by (auto simp: gen_int_def gen_bind_def gen_ret_def)
qed

lemma gen_int_ok:
  assumes "gen_int (of_int a) (of_int b) t = (t', Inr i)" "a \<le> b" "b - a < 2 ^ 50"
  shows "a \<le> i \<and> i \<le> b"
proof -
  obtain t1 x where "gen_next t = (t1, Inr x)" "0 \<le> scaled x (b - a + 1)" "scaled x (b - a + 1) < b - a + 1"
    using next_scaled [of "b - a + 1" t] assms(2,3) by auto
  then show ?thesis using assms(1) by (auto simp: gen_int_def gen_bind_def gen_ret_def)
qed

lemma pick_ok: "gen_pick xs t = (t', Inr x) \<Longrightarrow> int (length xs) \<le> 2 ^ 50 \<Longrightarrow> x \<in> set xs"
proof -
  assume p: "gen_pick xs t = (t', Inr x)" "int (length xs) \<le> 2 ^ 50"
  then have xs: "xs \<noteq> []" by (auto simp: gen_pick_def gen_lift_def)
  obtain t1 y where "gen_next t = (t1, Inr y)" "0 \<le> scaled y (int (length xs))" "scaled y (int (length xs)) < int (length xs)"
    using next_scaled [of "int (length xs)" t] xs p(2) by auto
  then show ?thesis using p(1) xs by (auto simp: gen_pick_def gen_bind_def gen_ret_def)
qed

section \<open>The shuffle\<close>

lemma shuffle_from_mset:
  "i < length xs \<or> i = 0 \<Longrightarrow> int i < 2 ^ 50 \<Longrightarrow> \<exists>t' ys. shuffle_from i xs t = (t', Inr ys) \<and> mset ys = mset xs"
proof (induction i arbitrary: xs t)
  case (Suc i)
  obtain t1 x where x: "gen_next t = (t1, Inr x)" "0 \<le> scaled x (int (Suc i) + 1)" "scaled x (int (Suc i) + 1) < int (Suc i) + 1"
    using next_scaled [of "int (Suc i) + 1" t] Suc.prems(2) by auto
  define j where "j = nat (scaled x (int (Suc i) + 1))"
  have j: "j \<le> Suc i" using x(2,3) unfolding j_def by linarith
  have l: "Suc i < length xs" "j < length xs" using Suc.prems(1) j by auto
  obtain t' ys where ys: "shuffle_from i (xs[Suc i := xs ! j, j := xs ! Suc i]) t1 = (t', Inr ys)"
    "mset ys = mset (xs[Suc i := xs ! j, j := xs ! Suc i])"
    using Suc.IH [of "xs[Suc i := xs ! j, j := xs ! Suc i]" t1] l Suc.prems(2) by auto
  have "mset (xs[Suc i := xs ! j, j := xs ! Suc i]) = mset xs" using mset_swap [OF l(2) l(1)] by simp
  then show ?case using x(1) ys by (simp add: gen_bind_def Let_def j_def)
qed (simp add: gen_ret_def)

text \<open>The shuffle always gives a permutation of its list.\<close>

theorem shuffle_is_a_permutation:
  assumes "int (length xs) \<le> 2 ^ 50"
  shows "\<exists>t' ys. gen_shuffle xs t = (t', Inr ys) \<and> mset ys = mset xs"
  using shuffle_from_mset [of "length xs - 1" xs t] assms by (cases xs) (auto simp: gen_shuffle_def)

lemma shuffle_ok: "gen_shuffle xs t = (t', Inr ys) \<Longrightarrow> int (length xs) \<le> 2 ^ 50 \<Longrightarrow> mset ys = mset xs"
  using shuffle_from_mset [of "length xs - 1" xs t] by (cases xs) (auto simp: gen_shuffle_def)

section \<open>Examples\<close>

theorem drawn_integers_witness: "\<exists>i. snd (gen_int 100 999 (createRng ''demo'')) = Inr i \<and> 100 \<le> i \<and> i \<le> 999"
  using drawn_integers_stay_in_range [of 100 999 "createRng ''demo''" "fst (gen_int 100 999 (createRng ''demo''))"
      "snd (gen_int 100 999 (createRng ''demo''))"]
  by simp

lemma rng_samples: "hashSeed ''1'' = 0x340CA71C"
  by code_simp

end
