(* ===== verification/SynthFacts.thy ===== *)
theory SynthFacts
  imports SynthGen FieldRegexFacts SynthRngFacts XmlRoutingFacts
begin

text \<open>
  Facts about the generator of synthetic orders: the plan has each scenario about as often as its weight asks for, the
  XML it writes reads back field by field, and no run ever writes a file, because the first order it builds carries a
  field that the reader of the ingest service rejects.
\<close>

section \<open>The XML of an order\<close>

lemma replace_keeps: "x \<in> set (replace_char c r s) \<Longrightarrow> x \<in> set r \<or> (x \<in> set s \<and> x \<noteq> c)"
  by (auto simp: replace_char_def split: if_splits)

lemma escaped_plain: "CHR ''<'' \<notin> set (escapeXml v)"
  by (auto simp: escapeXml_def dest!: replace_keeps)

definition field_names_ok :: "XmlFields \<Rightarrow> bool" where
  "field_names_ok flds \<longleftrightarrow> list_all (\<lambda>f. tag_chars (fst f) \<and> fst f \<noteq> ''REPAIR_ORDER'') flds"

definition xml_elements :: "XmlFields \<Rightarrow> (string \<times> string \<times> string) list" where
  "xml_elements flds = map (\<lambda>f. (newline @ ''  '', fst f, escapeXml (snd f))) flds"

lemma newline_plain: "CHR ''<'' \<notin> set newline" "list_all is_ws newline"
  by code_simp+

lemma xml_elements_plain: "field_names_ok flds \<Longrightarrow> plain_elements (xml_elements flds)"
  using escaped_plain newline_plain(1)
  by (auto simp: field_names_ok_def plain_elements_def xml_elements_def list_all_iff)

lemma join_lines: "js_join newline (x # xs @ [y]) = x @ concat (map (\<lambda>l. newline @ l) xs) @ newline @ y"
  by (induction xs arbitrary: x) auto

lemma xml_body: "concat (map ((@) newline \<circ> xml_line) flds) = elements (xml_elements flds)"
  by (induction flds) (auto simp: xml_line_def elements_def xml_elements_def element_def close_tag_def)

definition header_rest :: string where "header_rest = drop 2 xml_header"

lemma header_parts: "xml_header = ''<?'' @ header_rest" "CHR ''<'' \<notin> set header_rest"
  by code_simp+

lemma buildXml_shape:
  "buildXml flds = (''<?'' @ header_rest @ newline) @ ''<REPAIR_ORDER>'' @ elements (xml_elements flds) @ newline @ close_tag ''REPAIR_ORDER''"
proof -
  have "buildXml flds = js_join newline (xml_header # (''<REPAIR_ORDER>'' # map xml_line flds) @ [''</REPAIR_ORDER>''])"
    by (simp add: buildXml_def)
  then show ?thesis unfolding join_lines by (simp add: xml_body header_parts(1) close_tag_def)
qed

lemma question_no_match: "rx_ends field_rx p (CHR ''<'' # CHR ''?'' # t) [] = []"
proof -
  have "rx_ends (RGrp 1 (rx_plus (RCls is_word))) q (CHR ''?'' # t) [] = []" for q
    using angle_no_word(4) by (simp add: rx_plus_def seq_none del: rx_ends.simps(5))
  then have none: "m_seq (rx_ends (RGrp 1 (rx_plus (RCls is_word)))) g q (CHR ''?'' # t) [] = []" for g q
    by (rule seq_none)
  have "rx_ends (chr (CHR ''<'')) p (CHR ''<'' # CHR ''?'' # t) [] = [(''<'', [])]" by (simp add: chr_def)
  then show ?thesis unfolding field_rx_def rx_seq.simps rx_ends.simps(3)
    by (simp only: m_seq_def [of "rx_ends (chr (CHR ''<''))"]) (simp add: none [simplified] del: rx_ends.simps)
qed

lemma root_tag: "tag_chars ''REPAIR_ORDER''"
  by code_simp

lemma root_found:
  assumes "field_names_ok flds"
  shows "\<exists>h u. rx_find field_rx None (buildXml flds) =
           Some (h, element ''REPAIR_ORDER'' (elements (xml_elements flds) @ newline),
                 [(2, elements (xml_elements flds) @ newline), (1, ''REPAIR_ORDER'')], u)"
proof -
  let ?content = "elements (xml_elements flds) @ newline" and ?g = "''?'' @ header_rest @ newline"
  let ?s = "?content @ close_tag ''REPAIR_ORDER''"
  have fresh: "''REPAIR_ORDER'' \<notin> set (map (fst \<circ> snd) (xml_elements flds))"
    using assms by (auto simp: xml_elements_def field_names_ok_def list_all_iff)
  have "skips (close_tag ''REPAIR_ORDER'') ?content (close_tag ''REPAIR_ORDER'')"
    by (rule skips_append [OF elements_skipped [OF xml_elements_plain [OF assms] root_tag fresh] skips_plain [OF newline_plain(1)]])
  note skips_find [OF this]
  moreover have "find_from (close_tag ''REPAIR_ORDER'') (close_tag ''REPAIR_ORDER'') = Some 0"
    by (subst find_from.simps) (simp add: startsWith_def)
  ultimately have "find_from (close_tag ''REPAIR_ORDER'') ?s = Some (length ?content)" by simp
  moreover have "CHR ''<'' \<notin> set ?g" using header_parts(2) newline_plain(1) by simp
  ultimately have "rx_find field_rx (Some (CHR ''<'')) (?g @ ''<'' @ ''REPAIR_ORDER'' @ ''>'' @ ?s) =
      Some (?g, element ''REPAIR_ORDER'' ?content, [(2, ?content), (1, ''REPAIR_ORDER'')], [])"
    using element_found [OF root_tag, of ?s "length ?content" ?g "Some (CHR ''<'')"] by (simp add: element_def)
  moreover have "buildXml flds = CHR ''<'' # CHR ''?'' # (header_rest @ newline @ ''<'' @ ''REPAIR_ORDER'' @ ''>'' @ ?s)"
    by (simp add: buildXml_shape)
  ultimately show ?thesis
    using question_no_match [of None "header_rest @ newline @ ''<'' @ ''REPAIR_ORDER'' @ ''>'' @ ?s"]
    by (subst rx_find.simps) simp
qed

lemma read_back:
  assumes "field_names_ok flds"
  shows "extractFlatFields (buildXml flds) = ok (map (\<lambda>(name, value). entry (normalizeTag name) (js_trim (escapeXml value))) flds)"
proof -
  obtain h u where "rx_find field_rx None (buildXml flds) =
      Some (h, element ''REPAIR_ORDER'' (elements (xml_elements flds) @ newline),
            [(2, elements (xml_elements flds) @ newline), (1, ''REPAIR_ORDER'')], u)"
    using root_found [OF assms] by blast
  then have "extractFlatFields (buildXml flds) =
      ok (map (\<lambda>(g, k, v). entry (normalizeTag k) (js_trim v)) (xml_elements flds))"
    using extract_elements [OF _ xml_elements_plain [OF assms] newline_plain(1)] newline_plain(2) by blast
  then show ?thesis by (simp add: xml_elements_def split_def comp_def)
qed

text \<open>C34: the reader of the ingest service finds in a generated document exactly the generated fields, in their order, with
  their names in upper case and their values as they were escaped, without the white space around them; the escapes are
  not undone.\<close>

theorem generated_fields_read_back:
  assumes "field_names_ok flds"
  shows "extractFlatFields (buildXml flds) = ok (map (\<lambda>(name, value). entry (normalizeTag name) (js_trim (escapeXml value))) flds)"
  using assms by (rule read_back)

section \<open>The fields of an order\<close>

lemma add_fields_names: "add_fields xs m t = (t', Inr m') \<Longrightarrow> map fst m' = map fst m @ map fst xs"
proof (induction xs arbitrary: m t)
  case (Cons x xs)
  obtain name g where x: "x = (name, g)" by (cases x)
  obtain v t1 m1 where m1: "addField m name v = Inr m1" "add_fields xs m1 t1 = (t', Inr m')"
    using Cons.prems by (auto simp: x gen_bind_ok gen_lift_def)
  then have "map fst m1 = map fst m @ [name]" by (auto simp: addField_def map_set_new split: if_splits)
  then show ?case using Cons.IH [OF m1(2)] by (simp add: x)
qed (simp add: gen_ret_def)

definition name_ok :: "string \<Rightarrow> bool" where "name_ok k \<longleftrightarrow> tag_chars k \<and> k \<noteq> ''REPAIR_ORDER''"

lemma digits_word: "list_all is_word (digits_of n)"
  using digits_any by (auto simp: list_all_iff is_word_def)

lemma indexed_name_ok: "list_all is_word base \<Longrightarrow> name_ok (base @ ''_'' @ digits_of n)"
proof -
  assume b: "list_all is_word base"
  have "last (base @ ''_'' @ digits_of n) \<in> set (digits_of n)" using digits_of_not_Nil [of n] by simp
  then have "is_digit (last (base @ ''_'' @ digits_of n))" by (rule digits_any)
  moreover have "\<not> is_digit (last ''REPAIR_ORDER'')" by code_simp
  ultimately have "base @ ''_'' @ digits_of n \<noteq> ''REPAIR_ORDER''" by metis
  moreover have "is_word (CHR ''_'')" by code_simp
  ultimately show ?thesis using b digits_word [of n] by (simp add: name_ok_def tag_chars_def)
qed

lemma two_indices_ok: "list_all is_word base \<Longrightarrow> name_ok (base @ ''_'' @ digits_of m @ ''_'' @ digits_of n)"
proof -
  assume "list_all is_word base"
  moreover have "is_word (CHR ''_'')" by code_simp
  ultimately have "list_all is_word (base @ ''_'' @ digits_of m)" using digits_word [of m] by simp
  from indexed_name_ok [OF this, of n] show ?thesis by simp
qed

definition fixed_names :: "string list" where
  "fixed_names =
     [''RO_NUMBER'', ''RO_STATUS'', ''OPEN_TIMESTAMP'', ''CLOSE_TIMESTAMP'', ''WRITEUP_TIMESTAMP'',
      ''PROMISED_TIMESTAMP'', ''ADVISOR_ID'', ''SERVICE_LANE'', ''DEPARTMENT_CODE'', ''WAITER_FLAG'',
      ''LOANER_FLAG'', ''WARRANTY_FLAG'', ''FLEET_FLAG'', ''INTERNAL_RO_FLAG'', ''CUSTOMER_TYPE'',
      ''PREFERRED_CONTACT_METHOD'', ''MARKETING_OPT_IN'', ''VEHICLE_YEAR'', ''VEHICLE_MAKE'', ''VEHICLE_MODEL'',
      ''VEHICLE_TRIM'', ''VEHICLE_ENGINE'', ''VEHICLE_TRANSMISSION'', ''VEHICLE_DRIVETRAIN'', ''ODOMETER_IN'',
      ''ODOMETER_OUT'', ''VEHICLE_COLOR'', ''VEHICLE_PRODUCTION_DATE'', ''LABOR_TOTAL'', ''PARTS_TOTAL'',
      ''SHOP_FEES'', ''ENVIRONMENTAL_FEES'', ''DISCOUNT_TOTAL'', ''TAX_TOTAL'', ''GRAND_TOTAL'', ''PAYMENT_METHOD'',
      ''INVOICE_NUMBER'', ''CREATED_BY_SYSTEM'', ''INGEST_TIMESTAMP'', ''TENANT_ID'', ''SOURCE_SYSTEM'',
      ''CUSTOMER_FIRST_NAME'', ''CUSTOMER_LAST_NAME'', ''CUSTOMER_PHONE'', ''CUSTOMER_EMAIL'',
      ''CUSTOMER_ADDRESS_LINE1'', ''CUSTOMER_ADDRESS_CITY'', ''CUSTOMER_ADDRESS_STATE'', ''CUSTOMER_ADDRESS_POSTAL'',
      ''VIN'', ''LICENSE_PLATE'', ''CUSTOMER_COMPLAINT'', ''ADDITIONAL_SYMPTOMS'', ''CUSTOMER_REQUESTS'',
      ''ADVISOR_NOTES'', ''INTERNAL_COMMENTS'', ''QC_NOTES'']"

lemma order_names:
  "map fst (order_fields args ro params templates c v items complaint ts i n) =
     fixed_names @ concat (map (map fst \<circ> labor_fields) (lb_laborLines items)) @ concat (map (map fst \<circ> part_fields) (lb_partLines items))"
  by (simp add: order_fields_def fixed_names_def map_concat comp_def)

lemma word_letters: "list_all is_word ''ABCDEFGHIJKLMNOPQRSTUVWXYZ_0123456789''"
  by code_simp

lemmas letters = word_letters [unfolded list.pred_inject]

lemma fixed_names_ok: "list_all name_ok fixed_names"
  by (simp add: fixed_names_def name_ok_def tag_chars_def letters)

section \<open>No run writes a file\<close>

lemma gen_each_ok:
  "gen_each f xs t = (t', Inr ys) \<Longrightarrow> list_all2 (\<lambda>x y. \<exists>t1 t2. f x t1 = (t2, Inr y)) xs ys"
proof (induction xs arbitrary: t t' ys)
  case (Cons x xs)
  then obtain t1 y t2 ys' where "f x t = (t1, Inr y)" "gen_each f xs t1 = (t2, Inr ys')" "ys = y # ys'"
    by (auto simp: gen_bind_ok gen_ret_def)
  then show ?case using Cons.IH by auto
qed (simp add: gen_ret_def)

lemma labor_range:
  "\<exists>a b. sp_laborLines (SCENARIO_PARAMS s) = (of_int a, of_int b) \<and> 1 \<le> a \<and> a \<le> b \<and> b \<le> 5"
proof -
  have "\<exists>a b. (x, y) = (rat_of_int a, rat_of_int b) \<and> 1 \<le> a \<and> a \<le> b \<and> b \<le> 5"
    if "x = of_int c" "y = of_int d" "1 \<le> c" "c \<le> d" "d \<le> 5" for x y c d
    using that by blast
  from this [of _ 1 _ 1] this [of _ 1 _ 2] this [of _ 3 _ 5] show ?thesis by (cases s) simp_all
qed

lemma build_labor_index: "build_labor p tt wa hs i t = (t', Inr (l, ps)) \<Longrightarrow> gl_laborIndex l = i + 1"
  by (auto simp: build_labor_def Let_def gen_bind_ok gen_ret_def)

lemma first_labor_line:
  assumes "buildLineItems (SCENARIO_PARAMS s) templates wa t = (t', Inr items)"
  shows "\<exists>l \<in> set (lb_laborLines items). gl_laborIndex l = 1"
proof -
  obtain n t1 hs t2 t3 lines where n: "gen_int (fst (sp_laborLines (SCENARIO_PARAMS s))) (snd (sp_laborLines (SCENARIO_PARAMS s))) t = (t1, Inr n)"
    and lines: "gen_each (build_labor (SCENARIO_PARAMS s) templates wa hs) [0..<nat n] t2 = (t3, Inr lines)"
    and items: "lb_laborLines items = map fst lines"
    using assms by (auto simp: buildLineItems_def Let_def gen_bind_ok gen_ret_def)
  obtain a b where ab: "sp_laborLines (SCENARIO_PARAMS s) = (of_int a, of_int b)" "1 \<le> a" "a \<le> b" "b \<le> 5"
    using labor_range by blast
  have "1 \<le> n" using gen_int_ok [of a b t t1 n] n ab by simp
  then have "[0..<nat n] = 0 # [1..<nat n]" by (simp add: upt_conv_Cons)
  then obtain l ps ls t4 t5 where "lines = (l, ps) # ls" "build_labor (SCENARIO_PARAMS s) templates wa hs 0 t4 = (t5, Inr (l, ps))"
    using gen_each_ok [OF lines] by (auto simp: list_all2_Cons1)
  then show ?thesis using build_labor_index items by auto
qed

lemma cause_field: "''CAUSE'' @ ''_'' @ digits_of (int (gl_laborIndex l)) \<in> set (map fst (labor_fields l))"
  by (simp add: labor_fields_def Let_def)

lemma cause_name: "''CAUSE'' @ ''_'' @ digits_of (int 1) = ''CAUSE_1''" "normalizeTag ''CAUSE_1'' = ''CAUSE_1''" "digits_of 1 = ''1''"
  by code_simp+

lemma built_order:
  assumes "build_order args now i s ro c v t = (t', Inr (items, flds))"
  shows "field_names_ok flds" "''CAUSE_1'' \<in> set (map fst flds)"
proof -
  obtain t1 complaint ts m n t2 where items: "buildLineItems (SCENARIO_PARAMS s) (templatesForScenario s) (sp_warranty (SCENARIO_PARAMS s)) t = (t1, Inr items)"
    and flds: "add_fields (order_fields args ro (SCENARIO_PARAMS s) (templatesForScenario s) c v items complaint ts m (m + n)) [] t2 = (t', Inr flds)"
    using assms by (auto simp: build_order_def Let_def gen_bind_ok gen_ret_def)
  have names: "map fst flds = fixed_names @ concat (map (map fst \<circ> labor_fields) (lb_laborLines items)) @
      concat (map (map fst \<circ> part_fields) (lb_partLines items))"
    using add_fields_names [OF flds] by (simp add: order_names)
  have plain: "list_all is_word base" if "base \<in> {''LABOR_LINE_NUMBER'', ''OP_CODE'', ''OP_DESCRIPTION'', ''LABOR_TYPE'', ''SKILL_LEVEL'',
      ''FLAT_RATE_HOURS'', ''ACTUAL_HOURS'', ''LABOR_RATE'', ''LABOR_EXTENDED_AMOUNT'', ''TECHNICIAN_ID'', ''TECHNICIAN_NOTES'', ''CAUSE'',
      ''CORRECTION'', ''PART_LINE_NUMBER'', ''PART_NUMBER'', ''PART_DESCRIPTION'', ''PART_QUANTITY'', ''PART_UNIT_PRICE'',
      ''PART_EXTENDED_PRICE'', ''PART_SOURCE'', ''BACKORDER_FLAG''}" for base
    using that by (auto simp: letters)
  have labor: "name_ok k" if "k \<in> set (map fst (labor_fields l))" for k l
    using that unfolding labor_fields_def Let_def
    by (simp only: list.map fst_conv list.set) (elim insertE emptyE; simp only:; rule indexed_name_ok; rule plain; simp only: insert_iff; simp)
  have part: "name_ok k" if "k \<in> set (map fst (part_fields p))" for k p
    using that unfolding part_fields_def Let_def
    by (simp only: list.map fst_conv list.set) (elim insertE emptyE; simp only:; rule two_indices_ok; rule plain; simp only: insert_iff; simp)
  have "list_all name_ok (map fst flds)"
    using fixed_names_ok labor part unfolding names by (simp add: list_all_iff) blast
  then show "field_names_ok flds" by (simp add: field_names_ok_def name_ok_def list_all_iff)
  obtain l where "l \<in> set (lb_laborLines items)" "gl_laborIndex l = 1" using first_labor_line [OF items] by blast
  then show "''CAUSE_1'' \<in> set (map fst flds)"
    using cause_field [of l] cause_name(1) unfolding names by (auto intro!: bexI [of _ l])
qed

lemma generated_order_is_rejected:
  assumes "build_order args now i s ro c v t = (t', Inr (items, flds))"
  shows "\<not> is_ok (validateGeneratedXml (buildXml flds))"
proof -
  let ?leaves = "map (\<lambda>(name, value). entry (normalizeTag name) (js_trim (escapeXml value))) flds"
  obtain v where "(''CAUSE_1'', v) \<in> set flds" using built_order(2) [OF assms] by auto
  then have "entry (normalizeTag ''CAUSE_1'') (js_trim (escapeXml v)) \<in> set ?leaves" by (auto simp: image_iff intro!: bexI)
  then have "\<not> is_ok (routeXmlToPayloads (buildXml flds))"
    using indexed_cause_is_rejected [OF read_back [OF built_order(1) [OF assms]], of _ 1] cause_name by (simp add: entry_def)
  then show ?thesis by (auto simp: validateGeneratedXml_def is_ok_iff res_bind_ok_iff)
qed

lemma order_never_prepared: "\<not> is_ok (snd (prepare_order args now i s pool byVin t))"
proof
  assume "is_ok (snd (prepare_order args now i s pool byVin t))"
  then obtain t' r where "prepare_order args now i s pool byVin t = (t', Inr r)"
    by (cases "prepare_order args now i s pool byVin t") (auto simp: is_ok_iff)
  then obtain customer vehicle t1 items flds t2 where "build_order args now i s (order_number args i) customer vehicle t1 = (t2, Inr (items, flds))"
    and ok: "is_ok (validateGeneratedXml (buildXml flds))"
    by (auto simp: prepare_order_def Let_def gen_bind_ok gen_lift_def gen_ret_def is_ok_iff split: if_splits)
  then show False using generated_order_is_rejected by blast
qed

lemma order_never_generated:
  "\<exists>st' e. generate_order args now i s st = (st', Inl e) \<and> gs_files st' = gs_files st"
  using order_never_prepared [of args now i s "gs_vinPool st" "gs_vehicleByVin st" "gs_rng st"]
  by (auto simp: generate_order_def Let_def split: prod.splits sum.splits)

lemma orders_never_generated:
  assumes "plan \<noteq> []"
  shows "\<exists>st' e. generate_orders args now i plan st = (st', Inl e) \<and> gs_files st' = gs_files st"
  using assms order_never_generated [of args "now i" i "hd plan" st] by (cases plan) auto

lemma shuffle_from_length: "shuffle_from i xs t = (t', Inr ys) \<Longrightarrow> length ys = length xs"
proof (induction i arbitrary: xs t)
  case (Suc i)
  then show ?case by (auto simp: gen_bind_ok Let_def)
qed (simp add: gen_ret_def)

lemma no_repeat_length [simp]: "length (no_repeat_first xs) = length xs"
  by (auto simp: no_repeat_first_def split: list.splits option.splits Scenario.splits)

lemma final_count_ok: "final_count es s = Inr (s', n) \<Longrightarrow> s' = s \<and> 0 < n"
  by (induction es) (auto split: if_splits)

lemma final_counts_ok:
  "res_map (final_count es) ss = Inr counts \<Longrightarrow> map fst counts = ss \<and> (\<forall>(s, n) \<in> set counts. 0 < n)"
proof (induction ss arbitrary: counts)
  case (Cons s ss)
  then obtain c cs where "final_count es s = Inr c" "res_map (final_count es) ss = Inr cs" "counts = c # cs"
    by (auto simp: res_bind_ok_iff)
  then show ?case using Cons.IH final_count_ok [of es s "fst c" "snd c"] by (cases c) auto
qed simp

lemma plan_ok:
  assumes "buildScenarioPlan number seed = Inr (plan, counts)"
  obtains shuffled t' where "res_map (final_count (scenario_counts number)) scenarios = Inr counts"
    "gen_shuffle (concat (map (\<lambda>(s, n). replicate (nat n) s) counts)) (createRng seed) = (t', Inr shuffled)"
    "plan = no_repeat_first shuffled" "of_nat (length scenarios) \<le> number"
  using assms
  by (cases "gen_shuffle (concat (map (\<lambda>(s, n). replicate (nat n) s) counts)) (createRng seed)")
    (auto simp: buildScenarioPlan_def Let_def res_bind_ok_iff not_less split: if_splits)

lemma plan_not_empty:
  assumes "buildScenarioPlan number seed = Inr (plan, counts)"
  shows "plan \<noteq> []"
proof -
  let ?list = "concat (map (\<lambda>(s, n). replicate (nat n) s) counts)"
  obtain shuffled t' where c: "res_map (final_count (scenario_counts number)) scenarios = Inr counts"
    and s: "gen_shuffle ?list (createRng seed) = (t', Inr shuffled)" and p: "plan = no_repeat_first shuffled"
    using plan_ok [OF assms] by metis
  have "map fst counts = scenarios" and pos: "\<forall>(s, n) \<in> set counts. 0 < n" using final_counts_ok [OF c] by auto
  then obtain a n cs where "counts = (a, n) # cs" by (cases counts) (auto simp: scenarios_def)
  then have "?list \<noteq> []" using pos by auto
  moreover have "length shuffled = length ?list" using shuffle_from_length s by (simp add: gen_shuffle_def)
  ultimately show ?thesis unfolding p by (metis length_0_conv no_repeat_length)
qed

text \<open>C33: whatever its arguments and the clock are, the generator ends with an error and has written no file.\<close>

theorem generator_writes_nothing: "fst (generate_main now argv) = [] \<and> \<not> is_ok (snd (generate_main now argv))"
proof (cases "ga_count (parseGenArgs argv)")
  case (Fin number)
  show ?thesis
  proof (cases "buildScenarioPlan number (ga_seed (parseGenArgs argv))")
    case (Inr r)
    obtain plan counts where r: "r = (plan, counts)" by (cases r)
    obtain st e where "generate_orders (parseGenArgs argv) now 0 plan (init_generate (ga_seed (parseGenArgs argv))) = (st, Inl e)"
      "gs_files st = gs_files (init_generate (ga_seed (parseGenArgs argv)))"
      using orders_never_generated plan_not_empty Inr r by metis
    then show ?thesis using Fin Inr r by (simp add: generate_main_def Let_def init_generate_def)
  qed (use Fin in \<open>simp add: generate_main_def Let_def\<close>)
qed (simp_all add: generate_main_def Let_def)

text \<open>A document with an escaped value.\<close>

theorem fields_witness:
  "extractFlatFields (buildXml [(''NOTE'', ''a<b''), (''OP_CODE_1'', ''x'')]) = ok [entry ''NOTE'' ''a&lt;b'', entry ''OP_CODE_1'' ''x'']"
proof -
  have "field_names_ok [(''NOTE'', ''a<b''), (''OP_CODE_1'', ''x'')]" by code_simp
  moreover have "map (\<lambda>(name, value). entry (normalizeTag name) (js_trim (escapeXml value))) [(''NOTE'', ''a<b''), (''OP_CODE_1'', ''x'')] =
      [entry ''NOTE'' ''a&lt;b'', entry ''OP_CODE_1'' ''x'']"
    by code_simp
  ultimately show ?thesis using generated_fields_read_back by simp
qed

end
