(* ===== verification/PlanFacts.thy ===== *)
theory PlanFacts
  imports SynthFacts
begin

text \<open>
  Facts about the plan of the synthetic generator: the scenarios add up to the number of orders asked for, each has its
  share up to one order, and a repeated visit never comes first. The shares are computed with doubles; the numbers are
  small enough that their rounding never crosses a whole number.
\<close>

section \<open>Whole parts of rounded shares\<close>

lemma fl_nat: "m < 2 ^ 53 \<Longrightarrow> fl (of_nat m) = of_nat m"
  by (simp add: fl_def rnd_of_nat)

lemma tiny_thousandth: "(2 :: rat) powi (- 1000) \<le> 1 / 1000"
  using tiny(1) by (rule order_trans) simp

lemma floor_fl:
  assumes "m \<le> 2 ^ 50"
  shows "\<lfloor>fl (of_nat m / 1000)\<rfloor> = int (m div 1000)"
proof (cases "m mod 1000 = 0")
  case True
  then have "of_nat m / 1000 = (of_nat (m div 1000) :: rat)"
    by (metis (no_types) add.right_neutral div_mult_mod_eq nonzero_mult_div_cancel_right of_nat_mult of_nat_numeral zero_neq_numeral)
  moreover have "m < 2 ^ 53" using assms by simp
  then have "m div 1000 < 2 ^ 53" by (rule le_less_trans [OF div_le_dividend])
  ultimately show ?thesis by (simp add: fl_nat)
next
  case False
  define d r where "d = m div 1000" and "r = m mod 1000"
  have r: "1 \<le> r" "r \<le> 999" using False by (simp_all add: r_def)
  have "m = 1000 * d + r" by (simp add: d_def r_def)
  then have m: "(of_nat m :: rat) = 1000 * of_nat d + of_nat r" by (metis of_nat_add of_nat_mult of_nat_numeral)
  let ?q = "of_nat m / 1000 :: rat"
  have r': "(1 :: rat) \<le> of_nat r" "(of_nat r :: rat) \<le> 999" using r by simp_all
  have "(of_nat m :: rat) \<le> 2 ^ 50" using assms by (metis of_nat_le_iff of_nat_numeral of_nat_power)
  then have up: "?q \<le> 2 ^ 50 / 1000" by simp
  have "(1 :: rat) / 1000 \<le> ?q" using m r' by simp
  then have "2 powi (- 1000) \<le> ?q" using tiny_thousandth by (rule order_trans [rotated])
  moreover have "?q \<le> 2 powi 900" using up tiny(2) by linarith
  ultimately have "\<bar>fl ?q - ?q\<bar> \<le> ?q / 2 ^ 53" using fl_error by blast
  moreover have "?q / 2 ^ 53 < 1 / 1000" using up by simp
  moreover have "?q = of_nat d + of_nat r / 1000" using m by simp
  ultimately have "of_nat d \<le> fl ?q" "fl ?q < of_nat d + 1" using r' by linarith+
  then have "\<lfloor>fl ?q\<rfloor> = int d" by (simp add: floor_unique)
  then show ?thesis by (simp add: d_def)
qed

section \<open>Shares\<close>

fun weight :: "Scenario \<Rightarrow> nat" where
  "weight ROUTINE_MAINTENANCE = 300" | "weight HIGH_DOLLAR_DIAGNOSTIC = 150" | "weight WARRANTY_REPAIR = 150"
| "weight MULTI_LINE_MAJOR_REPAIR = 200" | "weight PII_IN_SEMANTIC = 100" | "weight REPEAT_VISIT = 100"

lemma weights: "SCENARIO_DISTRIBUTION s = of_nat (weight s)" "weight s \<le> 300"
  by (cases s; simp)+

lemma total_is_1000: "total_weight = 1000"
proof -
  have "fl (numeral k) = numeral k" if "(numeral k :: nat) < 2 ^ 53" for k
    using fl_nat [of "numeral k"] that by simp
  then show ?thesis by (simp add: total_weight_def scenarios_def fadd_def)
qed

lemma plan_entry_eq:
  assumes "n \<le> 2 ^ 40"
  shows "pe_count (plan_entry (of_nat n) s) = int (n * weight s div 1000)" "pe_scenario (plan_entry (of_nat n) s) = s"
proof -
  have "n * weight s \<le> 2 ^ 40 * 300" using assms weights(2) by (rule mult_le_mono)
  then have b: "n * weight s \<le> 2 ^ 50" by simp
  then have "fmul (of_nat n) (SCENARIO_DISTRIBUTION s) = of_nat (n * weight s)"
    using fl_nat [of "n * weight s"] by (simp add: fmul_def weights)
  then show "pe_count (plan_entry (of_nat n) s) = int (n * weight s div 1000)"
    using floor_fl [OF b] by (simp add: plan_entry_def Let_def fdiv_def total_is_1000)
qed (simp add: plan_entry_def Let_def)

definition more :: "PlanEntry \<Rightarrow> PlanEntry" where "more e = e\<lparr>pe_count := pe_count e + 1\<rparr>"

lemma give_one_eq: "r \<le> length es \<Longrightarrow> give_one r es = map more (take r es) @ drop r es"
proof (induction r)
  case (Suc r)
  then have "give_one r es = map more (take r es) @ drop r es" and r: "r < length es" by simp_all
  moreover have "drop r es = es ! r # drop (Suc r) es" using r by (simp add: Cons_nth_drop_Suc)
  ultimately show ?case using r
    by (simp add: Let_def list_update_append nth_append take_Suc_conv_app_nth more_def min_def)
qed simp

lemma give_one_sum:
  assumes "r \<le> length es"
  shows "sum_list (map pe_count (give_one r es)) = sum_list (map pe_count es) + int r"
proof -
  have "sum_list (map pe_count (map more xs)) = sum_list (map pe_count xs) + int (length xs)" for xs
    by (induction xs) (simp_all add: more_def)
  then have "sum_list (map pe_count (give_one r es)) = sum_list (map pe_count (take r es)) + int r + sum_list (map pe_count (drop r es))"
    using assms by (simp add: give_one_eq min_def)
  also have "\<dots> = sum_list (map pe_count (take r es @ drop r es)) + int r" by (simp only: map_append sum_list_append)
  finally show ?thesis by simp
qed

lemma give_one_scenarios: "r \<le> length es \<Longrightarrow> map pe_scenario (give_one r es) = map pe_scenario es"
proof -
  assume r: "r \<le> length es"
  have "map pe_scenario (map more xs) = map pe_scenario xs" for xs by (simp add: more_def)
  then have "map pe_scenario (give_one r es) = map pe_scenario (take r es @ drop r es)"
    by (simp only: give_one_eq [OF r] map_append)
  then show ?thesis by simp
qed

lemma shares_sum: "n - 5 \<le> (\<Sum>s \<leftarrow> scenarios. n * weight s div 1000)" "(\<Sum>s \<leftarrow> scenarios. n * weight s div 1000) \<le> n" for n :: nat
  by (simp_all add: scenarios_def)

lemma scenario_counts_facts:
  assumes "n \<le> 2 ^ 40"
  defines "es \<equiv> scenario_counts (of_nat n)"
  shows "mset (map pe_scenario es) = mset scenarios" "sum_list (map pe_count es) = int n"
    "\<And>e. e \<in> set es \<Longrightarrow> pe_count e = int (n * weight (pe_scenario e) div 1000) \<or> pe_count e = int (n * weight (pe_scenario e) div 1000) + 1"
proof -
  define raw where "raw = map (plan_entry (of_nat n)) scenarios"
  define r where "r = nat (int n - sum_list (map pe_count raw))"
  have es: "es = give_one r (js_sort frac_le raw)" by (simp add: es_def scenario_counts_def raw_def r_def Let_def)
  have c: "map pe_count raw = map (\<lambda>s. int (n * weight s div 1000)) scenarios"
    using plan_entry_eq(1) [OF assms(1)] by (simp add: raw_def)
  have "sum_list (map (\<lambda>s. int (n * weight s div 1000)) ss) = int (\<Sum>s \<leftarrow> ss. n * weight s div 1000)" for ss
    by (induction ss) simp_all
  then have sum: "sum_list (map pe_count raw) = int (\<Sum>s \<leftarrow> scenarios. n * weight s div 1000)" by (simp only: c)
  have "length (js_sort frac_le raw) = 6" by (simp add: raw_def scenarios_def)
  then have r: "r \<le> length (js_sort frac_le raw)" "sum_list (map pe_count raw) + int r = int n"
    using shares_sum [of n] unfolding r_def sum by linarith+
  have perm: "mset (map f (js_sort frac_le raw)) = mset (map f raw)" for f :: "PlanEntry \<Rightarrow> 'x"
    by simp
  show "mset (map pe_scenario es) = mset scenarios"
    unfolding es give_one_scenarios [OF r(1)] perm using plan_entry_eq(2) [OF assms(1)] by (simp add: raw_def comp_def)
  have "sum_list (map pe_count (js_sort frac_le raw)) = sum_list (map pe_count raw)"
    using perm [of pe_count] by (metis sum_mset_sum_list)
  then show "sum_list (map pe_count es) = int n" unfolding es give_one_sum [OF r(1)] using r(2) by simp
  fix e assume "e \<in> set es"
  then obtain e' where e': "e' \<in> set raw" "e = e' \<or> e = more e'"
    unfolding es give_one_eq [OF r(1)] by (auto dest: in_set_takeD in_set_dropD)
  then obtain s where "e' = plan_entry (of_nat n) s" by (auto simp: raw_def)
  then show "pe_count e = int (n * weight (pe_scenario e) div 1000) \<or> pe_count e = int (n * weight (pe_scenario e) div 1000) + 1"
    using e'(2) plan_entry_eq [OF assms(1), of s] by (auto simp: more_def)
qed

section \<open>The plan\<close>

lemma final_count_in: "final_count es s = Inr (s', n) \<Longrightarrow> \<exists>e \<in> set es. pe_scenario e = s \<and> pe_count e = n"
  by (induction es) (auto split: if_splits)

lemma final_counts_in:
  "res_map (final_count es) ss = Inr counts \<Longrightarrow> set counts \<subseteq> set (map (\<lambda>e. (pe_scenario e, pe_count e)) es)"
proof (induction ss arbitrary: counts)
  case (Cons s ss)
  then obtain c cs where c: "final_count es s = Inr c" "res_map (final_count es) ss = Inr cs" "counts = c # cs"
    by (auto simp: res_bind_ok_iff)
  then obtain e where "e \<in> set es" "pe_scenario e = s" "pe_count e = snd c" "fst c = s"
    using final_count_in [of es s "fst c" "snd c"] final_count_ok [of es s "fst c" "snd c"] by auto
  then show ?case using Cons.IH c by (cases c) force
qed simp

lemma final_counts_mset:
  assumes "res_map (final_count es) scenarios = Inr counts" "mset (map pe_scenario es) = mset scenarios"
  shows "mset counts = mset (map (\<lambda>e. (pe_scenario e, pe_count e)) es)"
proof -
  let ?pairs = "map (\<lambda>e. (pe_scenario e, pe_count e)) es"
  have d: "distinct scenarios" by (simp add: scenarios_def)
  have c: "map fst counts = scenarios" using final_counts_ok [OF assms(1)] by blast
  then have dc: "distinct counts" using d by (metis distinct_map)
  have "distinct (map fst ?pairs)" using mset_eq_imp_distinct_iff [OF assms(2)] d by (simp add: comp_def)
  then have dp: "distinct ?pairs" by (metis distinct_map)
  have l: "length counts = length ?pairs" using c mset_eq_length [OF assms(2)] by (metis length_map)
  have "set counts \<subseteq> set ?pairs" by (rule final_counts_in [OF assms(1)])
  then have "set counts = set ?pairs"
    by (rule card_subset_eq [OF finite_set]) (simp only: distinct_card [OF dc] distinct_card [OF dp] l)
  then show ?thesis using dc dp by (simp only: set_eq_iff_mset_eq_distinct)
qed

lemma no_repeat_mset: "mset (no_repeat_first xs) = mset xs"
proof -
  have "i < length xs" if "index_where P xs = Some i" for i and P :: "Scenario \<Rightarrow> bool" and xs
    using that by (induction xs arbitrary: i) (auto split: if_splits)
  note bound = this
  have "mset (xs[0 := xs ! i, i := xs ! 0]) = mset xs" if "index_where (\<lambda>s. s \<noteq> REPEAT_VISIT) xs = Some i" for i
    using mset_swap [of i xs 0] bound [OF that] by (cases xs) auto
  then show ?thesis by (auto simp: no_repeat_first_def split: list.splits option.splits Scenario.splits)
qed

lemma index_where_hit: "index_where P xs = Some i \<Longrightarrow> P (xs ! i)"
  by (induction xs arbitrary: i) (auto split: if_splits)

lemma index_where_none: "index_where P xs = None \<Longrightarrow> x \<in> set xs \<Longrightarrow> \<not> P x"
  by (induction xs) (auto split: if_splits)

lemma no_repeat_hd:
  assumes "s \<in> set xs" "s \<noteq> REPEAT_VISIT"
  shows "hd (no_repeat_first xs) \<noteq> REPEAT_VISIT"
proof (cases xs)
  case (Cons x ys)
  show ?thesis
  proof (cases "x = REPEAT_VISIT")
    case True
    obtain i where i: "index_where (\<lambda>s. s \<noteq> REPEAT_VISIT) xs = Some i"
      using index_where_none [of "\<lambda>s. s \<noteq> REPEAT_VISIT" xs s] assms by fastforce
    then have "xs ! i \<noteq> REPEAT_VISIT" by (rule index_where_hit)
    moreover have "0 < i" using calculation Cons True by (cases i) auto
    ultimately show ?thesis using i True Cons by (cases i) (auto simp: no_repeat_first_def)
  next
    case False
    then show ?thesis using Cons by (cases x) (simp_all add: no_repeat_first_def)
  qed
qed (use assms in simp)

lemma length_spread: "(\<forall>(s, n) \<in> set counts. 0 < n) \<Longrightarrow> int (length (concat (map (\<lambda>(s, n). replicate (nat n) s) counts))) = sum_list (map snd counts)"
  by (induction counts) auto

lemma count_spread:
  "distinct (map fst counts) \<Longrightarrow> (s, n) \<in> set counts \<Longrightarrow> count_list (concat (map (\<lambda>(s, n). replicate (nat n) s) counts)) s = nat n"
proof (induction counts)
  case (Cons c counts)
  have r: "count_list (replicate k a) s = (if a = s then k else 0)" for k and a by (induction k) auto
  have z: "s \<notin> fst ` set counts \<Longrightarrow> count_list (concat (map (\<lambda>(s, n). replicate (nat n) s) counts)) s = 0"
    by (induction counts) (auto simp: r)
  show ?case using Cons z by (cases c) (auto simp: r image_iff)
qed simp

lemma plan_shares:
  assumes "buildScenarioPlan (of_nat n) seed = Inr (plan, counts)" "n \<le> 2 ^ 40"
  shows "length plan = n" "hd plan \<noteq> REPEAT_VISIT"
    "count_list plan s = n * weight s div 1000 \<or> count_list plan s = n * weight s div 1000 + 1"
proof -
  let ?list = "concat (map (\<lambda>(s, n). replicate (nat n) s) counts)" and ?es = "scenario_counts (of_nat n)"
  obtain shuffled t' where c: "res_map (final_count ?es) scenarios = Inr counts"
    and sh: "gen_shuffle ?list (createRng seed) = (t', Inr shuffled)" and p: "plan = no_repeat_first shuffled"
    using plan_ok [OF assms(1)] by metis
  note es = scenario_counts_facts [OF assms(2)]
  have names: "map fst counts = scenarios" and pos: "\<forall>(s, n) \<in> set counts. 0 < n" using final_counts_ok [OF c] by auto
  have counts: "mset counts = mset (map (\<lambda>e. (pe_scenario e, pe_count e)) ?es)" by (rule final_counts_mset [OF c es(1)])
  have "mset (map snd counts) = image_mset snd (mset counts)" by simp
  also have "\<dots> = mset (map pe_count ?es)" by (simp only: counts mset_map) (simp add: image_mset.compositionality comp_def)
  finally have "sum_list (map snd counts) = int n" using es(2) by (metis sum_mset_sum_list)
  then have len: "length ?list = n" using length_spread [OF pos] by simp
  have "int (length ?list) \<le> 2 ^ 50" using assms(2) by (simp only: len) simp
  then have perm: "mset plan = mset ?list" using shuffle_ok [OF sh] no_repeat_mset [of shuffled] by (simp add: p)
  then show "length plan = n" using len by (metis mset_eq_length)
  have cl: "count_list plan s = count_list ?list s" for s using perm by (metis count_mset)
  have share: "\<exists>m. (s, m) \<in> set counts \<and> 0 < m \<and> (m = int (n * weight s div 1000) \<or> m = int (n * weight s div 1000) + 1)" for s
  proof -
    have "s \<in> set scenarios" by (cases s) (simp_all add: scenarios_def)
    then obtain m where m: "(s, m) \<in> set counts" using names by (metis (no_types, lifting) fst_conv imageE list.set_map prod.collapse)
    then have "(s, m) \<in> set (map (\<lambda>e. (pe_scenario e, pe_count e)) ?es)" using counts by (metis set_mset_mset)
    then show ?thesis using m pos es(3) by fastforce
  qed
  have "distinct (map fst counts)" unfolding names by (simp add: scenarios_def)
  then have spread: "(s, m) \<in> set counts \<Longrightarrow> count_list ?list s = nat m" for s m by (rule count_spread)
  obtain m where "(s, m) \<in> set counts" "m = int (n * weight s div 1000) \<or> m = int (n * weight s div 1000) + 1"
    using share [of s] by blast
  then show "count_list plan s = n * weight s div 1000 \<or> count_list plan s = n * weight s div 1000 + 1"
    using cl [of s] spread by auto
  obtain k where "(ROUTINE_MAINTENANCE, k) \<in> set counts" "0 < k" using share [of ROUTINE_MAINTENANCE] by blast
  then have "count_list plan ROUTINE_MAINTENANCE \<noteq> 0" using cl [of ROUTINE_MAINTENANCE] spread by simp
  then have "ROUTINE_MAINTENANCE \<in> set plan" by (metis count_notin)
  then have "ROUTINE_MAINTENANCE \<in> set shuffled" using no_repeat_mset [of shuffled] unfolding p by (metis set_mset_mset)
  then show "hd plan \<noteq> REPEAT_VISIT" unfolding p by (rule no_repeat_hd) simp
qed

lemma final_count_finds:
  "s \<in> pe_scenario ` set es \<Longrightarrow> (\<And>e. e \<in> set es \<Longrightarrow> 0 < pe_count e) \<Longrightarrow> \<exists>c. final_count es s = Inr c"
proof (induction es)
  case (Cons e es)
  have e: "0 < pe_count e" using Cons.prems(2) [of e] by simp
  show ?case
  proof (cases "pe_scenario e = s")
    case False
    then show ?thesis using Cons.IH Cons.prems by auto
  qed (use e in simp)
qed simp

lemma res_map_total: "(\<And>x. x \<in> set xs \<Longrightarrow> \<exists>y. f x = Inr y) \<Longrightarrow> \<exists>ys. res_map f xs = Inr ys"
proof (induction xs)
  case (Cons x xs)
  then obtain y ys where "f x = Inr y" "res_map f xs = Inr ys" by (meson list.set_intros)
  then show ?case by simp
qed simp

lemma plan_exists:
  assumes "10 \<le> n" "n \<le> 2 ^ 40"
  shows "\<exists>plan counts. buildScenarioPlan (of_nat n) seed = Inr (plan, counts)"
proof -
  note es = scenario_counts_facts [OF assms(2)]
  have "0 < pe_count e" if e: "e \<in> set (scenario_counts (of_nat n))" for e
  proof -
    have "100 \<le> weight (pe_scenario e)" by (cases "pe_scenario e") simp_all
    then have "10 * 100 \<le> n * weight (pe_scenario e)" using assms(1) by (rule mult_le_mono [rotated])
    then have "1 \<le> n * weight (pe_scenario e) div 1000" by simp
    then show ?thesis using es(3) [OF e] by linarith
  qed
  moreover have "pe_scenario ` set (scenario_counts (of_nat n)) = set scenarios"
    using es(1) by (metis list.set_map set_mset_mset)
  ultimately obtain counts where c: "res_map (final_count (scenario_counts (of_nat n))) scenarios = Inr counts"
    using res_map_total final_count_finds by metis
  let ?list = "concat (map (\<lambda>(s, n). replicate (nat n) s) counts)"
  have names: "map fst counts = scenarios" and pos: "\<forall>(s, n) \<in> set counts. 0 < n" using final_counts_ok [OF c] by auto
  have counts: "mset counts = mset (map (\<lambda>e. (pe_scenario e, pe_count e)) (scenario_counts (of_nat n)))" by (rule final_counts_mset [OF c es(1)])
  have "mset (map snd counts) = mset (map pe_count (scenario_counts (of_nat n)))"
    using arg_cong [OF counts, of "image_mset snd"] by (simp add: image_mset.compositionality comp_def)
  then have "sum_list (map snd counts) = int n" using es(2) by (metis sum_mset_sum_list)
  then have "int (length ?list) \<le> 2 ^ 50" using assms(2) by (simp only: length_spread [OF pos]) simp
  then obtain t' ys where "gen_shuffle ?list (createRng seed) = (t', Inr ys)" using shuffle_is_a_permutation by blast
  moreover have "\<not> (rat_of_nat n < of_nat (length scenarios))" using assms(1) by (simp add: scenarios_def)
  ultimately show ?thesis using c by (simp add: buildScenarioPlan_def Let_def)
qed

lemma share_error:
  assumes "c = m div 1000 \<or> c = m div 1000 + 1"
  shows "\<bar>rat_of_nat c - of_nat m / 1000\<bar> \<le> 1"
proof -
  have "of_nat m = (1000 * of_nat (m div 1000) + of_nat (m mod 1000) :: rat)"
    by (metis mult_div_mod_eq of_nat_add of_nat_mult of_nat_numeral)
  then have q: "of_nat m / 1000 = (of_nat (m div 1000) :: rat) + of_nat (m mod 1000) / 1000" by simp
  have "m mod 1000 \<le> 1000" by (simp add: less_imp_le)
  then have "(of_nat (m mod 1000) :: rat) \<le> 1000" by (metis of_nat_le_iff of_nat_numeral)
  then have "0 \<le> (of_nat (m mod 1000) :: rat) / 1000" "(of_nat (m mod 1000) :: rat) / 1000 \<le> 1" by simp_all
  moreover have "rat_of_nat c = of_nat (m div 1000) \<or> rat_of_nat c = of_nat (m div 1000) + 1" using assms by auto
  ultimately show ?thesis unfolding q by linarith
qed

text \<open>C38: for 10 to \<open>2^40\<close> orders there is a plan. It has exactly the number of orders asked for, starts with something
  else than a repeated visit, and gives each scenario its share by weight up to one order.\<close>

theorem plan_gives_each_scenario_its_share:
  assumes "10 \<le> n" "n \<le> 2 ^ 40"
  shows "\<exists>plan counts. buildScenarioPlan (of_nat n) seed = Inr (plan, counts) \<and> length plan = n \<and> hd plan \<noteq> REPEAT_VISIT \<and>
    (\<forall>s. \<bar>of_nat (count_list plan s) - of_nat n * SCENARIO_DISTRIBUTION s / 1000\<bar> \<le> 1)"
proof -
  obtain plan counts where p: "buildScenarioPlan (of_nat n) seed = Inr (plan, counts)" using plan_exists [OF assms] by blast
  have "\<bar>of_nat (count_list plan s) - of_nat n * SCENARIO_DISTRIBUTION s / 1000\<bar> \<le> 1" for s
    using share_error [OF plan_shares(3) [OF p assms(2)], of s] by (simp add: weights)
  then show ?thesis using p plan_shares(1,2) [OF p assms(2)] by blast
qed

theorem plan_witness:
  "\<exists>plan counts. buildScenarioPlan 1000 ''1'' = Inr (plan, counts) \<and> length plan = 1000 \<and> hd plan \<noteq> REPEAT_VISIT \<and>
    (\<forall>s. \<bar>of_nat (count_list plan s) - 1000 * SCENARIO_DISTRIBUTION s / 1000\<bar> \<le> 1)"
  using plan_gives_each_scenario_its_share [of 1000 "''1''"] by simp

end
