(* ===== verification/DataSet.thy ===== *)
theory DataSet
  imports JsRegex JsNumber
begin

text \<open>
  ops/synthetic-data/validate_dataset.ts and regenerate_dataset.ts: the check of the files of a directory of repair
  orders in the older schema, and the rewriting of their numbers and customers. A directory is the list of its entries in
  the order \<open>readdir\<close> gives them; the messages the code collects are the result of the check.
\<close>

section \<open>Tags\<close>

text \<open>\<open>/<[^>]+>/g\<close> and \<open>/^<\\/?\\s*([^\\s/>]+)[^>]*>/\<close>.\<close>

definition tag_rx :: rx where
  "tag_rx = rx_seq [chr (CHR ''<''), rx_plus (RCls (\<lambda>c. c \<noteq> CHR ''>'')), chr (CHR ''>'')]"

definition tag_name_rx :: rx where
  "tag_name_rx =
     rx_seq [RBegin, chr (CHR ''<''), rx_opt (chr (CHR ''/'')), RStar True rx_ws,
             RGrp 1 (rx_plus (RCls (\<lambda>c. \<not> is_ws c \<and> c \<noteq> CHR ''/'' \<and> c \<noteq> CHR ''>''))),
             RStar True (RCls (\<lambda>c. c \<noteq> CHR ''>'')), chr (CHR ''>'')]"

text \<open>What a tag means to the loop of \<open>ensureXmlWellFormed\<close>: a tag it skips, one without a name, a closing tag, a
  self-closing one or an opening one.\<close>

datatype tag = Skipped | Malformed string | Closing string | SelfClosing string | Opening string

definition classify_tag :: "string \<Rightarrow> tag" where
  "classify_tag t =
     (if startsWith t ''<?'' \<or> startsWith t ''<!--'' \<or> startsWith t ''<!'' then Skipped
      else (case rx_match tag_name_rx t of
          None \<Rightarrow> Malformed t
        | Some (_, c) \<Rightarrow>
            let name = (case group c 1 of None \<Rightarrow> [] | Some n \<Rightarrow> n)
            in if startsWith t ''</'' then Closing name
               else if endsWith t ''/>'' then SelfClosing name
               else Opening name))"

text \<open>The loop: the stack (its top first), the name of the root if there is one, and whether the root was closed. The
  result is the message of the first error.\<close>

fun wf_tags :: "string \<Rightarrow> tag list \<Rightarrow> string list \<Rightarrow> string \<Rightarrow> bool \<Rightarrow> string option" where
  "wf_tags file [] stack rootName rootClosed =
     (case stack of [] \<Rightarrow> None | inner # _ \<Rightarrow> Some (file @ '': unclosed tag <'' @ inner @ ''>''))"
| "wf_tags file (Skipped # ts) stack rootName rootClosed = wf_tags file ts stack rootName rootClosed"
| "wf_tags file (Malformed t # ts) stack rootName rootClosed = Some (file @ '': malformed tag '' @ t)"
| "wf_tags file (Closing name # ts) stack rootName rootClosed =
     (case stack of
        [] \<Rightarrow> Some (file @ '': mismatched closing tag </'' @ name @ ''>'')
      | inner # rest \<Rightarrow>
          if inner \<noteq> name then Some (file @ '': mismatched closing tag </'' @ name @ ''>'')
          else wf_tags file ts rest rootName (rootClosed \<or> rest = []))"
| "wf_tags file (SelfClosing name # ts) stack rootName rootClosed =
     (if rootClosed \<and> stack = [] then Some (file @ '': multiple root elements detected'')
      else
        let root = (if stack = [] \<and> rootName = [] then name else rootName)
        in if stack = [] \<and> root \<noteq> ''repair_order'' then Some (file @ '': root element must be <repair_order>'')
           else wf_tags file ts stack root rootClosed)"
| "wf_tags file (Opening name # ts) stack rootName rootClosed =
     (if rootClosed \<and> stack = [] then Some (file @ '': multiple root elements detected'')
      else
        let root = (if stack = [] \<and> rootName = [] then name else rootName)
        in if stack = [] \<and> root \<noteq> ''repair_order'' then Some (file @ '': root element must be <repair_order>'')
           else wf_tags file ts (name # stack) root rootClosed)"

definition xml_tags :: "string \<Rightarrow> tag list" where
  "xml_tags xml = map (classify_tag \<circ> fst) (rx_matches tag_rx xml)"

definition ensureXmlWellFormed :: "string \<Rightarrow> string \<Rightarrow> string option" where
  "ensureXmlWellFormed xml file = wf_tags file (xml_tags xml) [] [] False"

section \<open>Values\<close>

definition open_i :: "string \<Rightarrow> rx list" where "open_i name = [chr (CHR ''<''), str_i name, chr (CHR ''>'')]"
definition close_i :: "string \<Rightarrow> rx list" where "close_i name = [chr (CHR ''<''), chr (CHR ''/''), str_i name, chr (CHR ''>'')]"
definition rx_text :: rx where "rx_text = rx_plus (RCls (\<lambda>c. c \<noteq> CHR ''<''))"

definition extractTagValue :: "string \<Rightarrow> string \<Rightarrow> string" where
  "extractTagValue xml tagName =
     (case rx_match (rx_seq (open_i tagName @ [RStar True rx_ws, RGrp 1 rx_text, RStar True rx_ws] @ close_i tagName)) xml of
        Some (_, c) \<Rightarrow> js_trim (case group c 1 of None \<Rightarrow> [] | Some v \<Rightarrow> v)
      | None \<Rightarrow> [])"

definition hasValue :: "string \<Rightarrow> bool" where "hasValue v \<longleftrightarrow> js_trim v \<noteq> []"

definition requireTag :: "string \<Rightarrow> string \<Rightarrow> string \<Rightarrow> string list" where
  "requireTag xml file tagName = (if hasValue (extractTagValue xml tagName) then [] else [file @ '': missing <'' @ tagName @ ''>''])"

definition requireSyntheticEmail :: "string \<Rightarrow> string \<Rightarrow> string list" where
  "requireSyntheticEmail v file = (if endsWith v ''@example.test'' then [] else [file @ '': email must use @example.test''])"

definition requireSyntheticPhone :: "string \<Rightarrow> string \<Rightarrow> string list" where
  "requireSyntheticPhone v file = (if startsWith v ''555-'' then [] else [file @ '': phone must use 555-###-#### synthetic range''])"

definition requireSyntheticVin :: "string \<Rightarrow> string \<Rightarrow> string list" where
  "requireSyntheticVin v file =
     (if startsWith v ''SYNTHVIN'' \<and> length v = 17 then []
      else [file @ '': vin must be a 17-char synthetic value starting with SYNTHVIN''])"

definition hasDiagnosticEntry :: "string \<Rightarrow> bool" where
  "hasDiagnosticEntry xml =
     rx_test (rx_seq (open_i ''diagnostic_entry'' @ [RStar True rx_ws] @ open_i ''diagnostic_text'' @ [rx_text] @
                      close_i ''diagnostic_text'' @ [RStar True rx_ws] @ close_i ''diagnostic_entry'')) xml"

definition hasLaborOperation :: "string \<Rightarrow> bool" where
  "hasLaborOperation xml =
     rx_test (rx_seq (open_i ''labor_operation'' @ [RStar True rx_ws] @ open_i ''opcode'' @ [rx_text] @ close_i ''opcode'')) xml"

section \<open>The check of a file\<close>

definition isXmlName :: "string \<Rightarrow> bool" where "isXmlName f \<longleftrightarrow> endsWith (toLowerCase f) ''.xml''"

text \<open>\<open>path.basename(file, ".xml")\<close> of a name without a separator.\<close>

definition baseName :: "string \<Rightarrow> string" where
  "baseName f = (if endsWith f ''.xml'' \<and> f \<noteq> ''.xml'' then take (length f - 4) f else f)"

definition placeholder :: "string \<Rightarrow> string \<Rightarrow> string \<Rightarrow> string list" where
  "placeholder xml file tagName =
     (let v = extractTagValue xml tagName
      in if hasValue v \<and> js_includes v ''PLACEHOLDER'' then [file @ '': '' @ tagName @ '' contains placeholder text''] else [])"

definition validate_xml :: "string \<Rightarrow> string \<Rightarrow> string list" where
  "validate_xml file xml =
     (let roNumber = extractTagValue xml ''ro_number''
      in (case ensureXmlWellFormed xml file of None \<Rightarrow> [] | Some m \<Rightarrow> [m]) @
         (if roNumber = [] then [file @ '': missing <ro_number>''] else []) @
         (if roNumber \<noteq> [] \<and> roNumber \<noteq> baseName file
          then [file @ '': filename does not match RO number ('' @ roNumber @ '')''] else []) @
         (if hasDiagnosticEntry xml then [] else [file @ '': missing technician diagnostic entry'']) @
         (if hasLaborOperation xml then [] else [file @ '': missing labor operation'']) @
         concat (map (requireTag xml file)
           [''customer_name'', ''email'', ''phone'', ''address'', ''address_city'', ''address_state'', ''address_zip'',
            ''license_plate'', ''payment_method'', ''vin'']) @
         concat (map (placeholder xml file)
           [''customer_name'', ''address'', ''address_city'', ''address_state'', ''address_zip'', ''license_plate'', ''payment_method'']) @
         requireSyntheticEmail (extractTagValue xml ''email'') file @
         requireSyntheticPhone (extractTagValue xml ''phone'') file @
         requireSyntheticVin (extractTagValue xml ''vin'') file)"

text \<open>The entries of a directory: its files with their contents, and anything else.\<close>

datatype DirEntry = DirFile string string | DirOther string

fun validate_entry :: "DirEntry \<Rightarrow> string list" where
  "validate_entry (DirOther _) = []"
| "validate_entry (DirFile file xml) =
     (if \<not> isXmlName file then [file @ '': non-XML file found in ro_documents'']
      else if js_trim xml = [] then [file @ '': empty file'']
      else validate_xml file xml)"

text \<open>The whole script, on the directory if it exists: the lines of its error output.\<close>

definition validate_dataset :: "string \<Rightarrow> DirEntry list option \<Rightarrow> string list" where
  "validate_dataset dir docs =
     (case docs of
        None \<Rightarrow> [''ERROR: Document directory not found: '' @ dir]
      | Some [] \<Rightarrow> [''ERROR: No files found in '' @ dir]
      | Some entries \<Rightarrow> map (\<lambda>m. ''ERROR: '' @ m) (concat (map validate_entry entries)))"

section \<open>Rewriting\<close>

definition firstNames :: "string list" where
  "firstNames = [''Alex'', ''Jordan'', ''Taylor'', ''Morgan'', ''Casey'', ''Riley'', ''Avery'', ''Cameron'', ''Drew'', ''Logan'']"
definition lastNames :: "string list" where
  "lastNames = [''Parker'', ''Reed'', ''Morgan'', ''Hayes'', ''Brooks'', ''Foster'', ''Reyes'', ''Sullivan'', ''Griffin'', ''Coleman'']"
definition streets :: "string list" where
  "streets = [''Maple St'', ''Oak Ave'', ''Cedar Blvd'', ''Pine Dr'', ''Elm St'', ''Willow Ln'', ''Birch Ct'', ''Ash Rd'', ''Spruce Way'', ''Lakeview Rd'']"
definition cities :: "string list" where "cities = [''Springfield'', ''Riverside'', ''Fairview'', ''Madison'', ''Georgetown'']"
definition states :: "string list" where "states = [''CA'', ''TX'', ''FL'', ''IL'', ''WA'']"
definition zips :: "string list" where "zips = [''90001'', ''73301'', ''33101'', ''60601'', ''98101'']"
definition paymentMethods :: "string list" where "paymentMethods = [''Visa'', ''Mastercard'', ''Amex'', ''Cash'', ''Warranty'']"

definition pad_zero :: "nat \<Rightarrow> nat \<Rightarrow> string" where
  "pad_zero n v = (let s = digits_of (int v) in replicate (n - length s) CHR ''0'' @ s)"
definition pad4 :: "nat \<Rightarrow> string" where "pad4 = pad_zero 4"
definition pad9 :: "nat \<Rightarrow> string" where "pad9 = pad_zero 9"

definition cyclic :: "string list \<Rightarrow> nat \<Rightarrow> string" where "cyclic xs i = xs ! (i mod length xs)"

definition eol :: string where "eol = [CHR 0x0A]"

definition xml_item :: "string \<Rightarrow> string \<Rightarrow> string" where
  "xml_item name v = ''    <'' @ name @ ''>'' @ v @ ''</'' @ name @ ''>''"

definition buildCustomerBlock :: "nat \<Rightarrow> string" where
  "buildCustomerBlock i =
     (let first = cyclic firstNames i; family = cyclic lastNames i; license = digits_of (int (1000 + i))
      in js_join eol
        [''  <customer>'',
         xml_item ''customer_name'' (first @ '' '' @ family),
         xml_item ''email'' (toLowerCase (first @ ''.'' @ family @ ''.'' @ pad4 (i + 1) @ ''@example.test'')),
         xml_item ''phone'' (''555-'' @ pad_zero 3 (100 + i mod 900) @ ''-'' @ pad_zero 4 (1000 + i * 7 mod 9000)),
         xml_item ''address'' (digits_of (int (100 + i mod 800)) @ '' '' @ cyclic streets i),
         xml_item ''address_city'' (cyclic cities i),
         xml_item ''address_state'' (cyclic states i),
         xml_item ''address_zip'' (cyclic zips i),
         xml_item ''license_plate'' (''DEMO'' @ drop (length license - 4) license),
         xml_item ''payment_method'' (cyclic paymentMethods i),
         ''  </customer>''])"

definition lazy_between :: "string \<Rightarrow> rx" where
  "lazy_between name = rx_seq (open_i name @ [RStar False rx_any] @ close_i name)"

definition updateXml :: "string \<Rightarrow> nat \<Rightarrow> string \<times> string" where
  "updateXml xml i =
     (let roNumber = ''RO-'' @ pad4 (i + 1); vin = ''SYNTHVIN'' @ pad9 (i + 1);
          x = rx_replace_first (lazy_between ''ro_number'') (\<lambda>_ _. ''<ro_number>'' @ roNumber @ ''</ro_number>'') xml;
          x = rx_replace_first (lazy_between ''vin'') (\<lambda>_ _. ''<vin>'' @ vin @ ''</vin>'') x;
          x = (if js_includes x ''<customer>'' then rx_replace_first (lazy_between ''customer'') (\<lambda>_ _. buildCustomerBlock i) x
               else rx_replace_first (rx_seq (close_i ''vehicle'')) (\<lambda>_ _. ''</vehicle>'' @ eol @ buildCustomerBlock i) x)
      in (roNumber, x))"

type_synonym files = "(string, string) jsmap"

definition readSourceDocs :: "files \<Rightarrow> string list" where
  "readSourceDocs dir = map snd (filter (\<lambda>f. isXmlName (fst f)) dir)"

definition wipeExistingDocs :: "files \<Rightarrow> files" where
  "wipeExistingDocs dir = filter (\<lambda>f. \<not> isXmlName (fst f)) dir"

definition writeDocs :: "(string \<times> string) list \<Rightarrow> files \<Rightarrow> files" where
  "writeDocs docs dir = fold (\<lambda>(roNumber, xml) d. map_set (roNumber @ ''.xml'') xml d) docs dir"

text \<open>The script: the new directory, or nothing to do (exit code 1). An index is counted from 0.\<close>

definition regenerate :: "files \<Rightarrow> files option" where
  "regenerate dir =
     (let docs = readSourceDocs dir
      in if docs = [] then None
         else Some (writeDocs (map (\<lambda>(xml, i). updateXml xml i) (zip docs [0..<length docs])) (wipeExistingDocs dir)))"

end
