(* ===== verification/DataSetFacts.thy ===== *)
theory DataSetFacts
  imports DataSet
begin

text \<open>
  Facts about the older data set: the check of the tags accepts exactly the documents of a grammar of nested elements,
  and the rewriting of a directory keeps the other files and leaves one file for each document it read.
\<close>

section \<open>Nested elements\<close>

text \<open>The content of an element, and the documents the check accepts: no tags at all, a root element, or an empty root element with further
  roots of any name behind it, of which only the last one may have content. Tags the check skips are left out.\<close>

inductive content :: "tag list \<Rightarrow> bool" where
  content_none: "content []"
| content_empty: "content ts \<Longrightarrow> content (SelfClosing n # ts)"
| content_element: "content inside \<Longrightarrow> content ts \<Longrightarrow> content (Opening n # inside @ Closing n # ts)"

inductive roots :: "tag list \<Rightarrow> bool" where
  roots_none: "roots []"
| roots_empty: "roots ts \<Longrightarrow> roots (SelfClosing n # ts)"
| roots_element: "content inside \<Longrightarrow> roots (Opening n # inside @ [Closing n])"

inductive document :: "tag list \<Rightarrow> bool" where
  document_none: "document []"
| document_empty: "roots ts \<Longrightarrow> document (SelfClosing ''repair_order'' # ts)"
| document_root: "content inside \<Longrightarrow> document (Opening ''repair_order'' # inside @ [Closing ''repair_order''])"

inductive_cases content_ClosingE: "content (Closing n # ts)"
inductive_cases content_SelfE: "content (SelfClosing n # ts)"
inductive_cases content_OpenE: "content (Opening n # ts)"
inductive_cases content_SkipE: "content (Skipped # ts)"
inductive_cases content_BadE: "content (Malformed t # ts)"
inductive_cases roots_ClosingE: "roots (Closing n # ts)"
inductive_cases roots_SelfE: "roots (SelfClosing n # ts)"
inductive_cases roots_OpenE: "roots (Opening n # ts)"
inductive_cases roots_BadE: "roots (Malformed t # ts)"
inductive_cases document_ClosingE: "document (Closing n # ts)"
inductive_cases document_SelfE: "document (SelfClosing n # ts)"
inductive_cases document_OpenE: "document (Opening n # ts)"
inductive_cases document_BadE: "document (Malformed t # ts)"

text \<open>What may follow when the elements of a stack are open.\<close>

fun closes :: "string list \<Rightarrow> tag list \<Rightarrow> bool" where
  "closes [] ts \<longleftrightarrow> ts = []"
| "closes (n # stack) ts \<longleftrightarrow> (\<exists>inside after. content inside \<and> ts = inside @ Closing n # after \<and> closes stack after)"

lemma closes_closing: "closes (n # stack) (Closing m # ts) \<longleftrightarrow> m = n \<and> closes stack ts"
proof
  assume "closes (n # stack) (Closing m # ts)"
  then obtain inside after where i: "content inside" "Closing m # ts = inside @ Closing n # after" "closes stack after" by auto
  then show "m = n \<and> closes stack ts" by (cases inside) (auto elim: content_ClosingE)
next
  assume "m = n \<and> closes stack ts"
  then show "closes (n # stack) (Closing m # ts)" using content_none by fastforce
qed

lemma closes_empty: "closes (n # stack) (SelfClosing m # ts) \<longleftrightarrow> closes (n # stack) ts"
proof
  assume "closes (n # stack) (SelfClosing m # ts)"
  then obtain inside after where i: "content inside" "SelfClosing m # ts = inside @ Closing n # after" "closes stack after" by auto
  then show "closes (n # stack) ts" by (cases inside) (auto elim: content_SelfE)
next
  assume "closes (n # stack) ts"
  then obtain inside after where "content inside" "ts = inside @ Closing n # after" "closes stack after" by auto
  then have "content (SelfClosing m # inside)" "SelfClosing m # ts = (SelfClosing m # inside) @ Closing n # after" "closes stack after"
    by (simp_all add: content_empty)
  then show "closes (n # stack) (SelfClosing m # ts)" unfolding closes.simps by blast
qed

lemma content_append: "content a \<Longrightarrow> content b \<Longrightarrow> content (a @ b)"
proof (induction rule: content.induct)
  case (content_element inside ts n)
  then show ?case using content.content_element [of inside "ts @ b" n] by simp
qed (auto intro: content.intros)

lemma closes_opening: "closes (n # stack) (Opening m # ts) \<longleftrightarrow> closes (m # n # stack) ts"
proof
  assume "closes (n # stack) (Opening m # ts)"
  then obtain inside after where i: "content inside" "Opening m # ts = inside @ Closing n # after" "closes stack after" by auto
  then obtain rest where r: "inside = Opening m # rest" by (cases inside) auto
  from i(1) obtain a b where ab: "content a" "content b" "rest = a @ Closing m # b" unfolding r by (auto elim: content_OpenE)
  then have "ts = a @ Closing m # (b @ Closing n # after)" using i(2) r by simp
  moreover have "closes (n # stack) (b @ Closing n # after)" using ab(2) i(3) by auto
  ultimately show "closes (m # n # stack) ts" using ab(1) by (simp only: closes.simps(2) [of m]) blast
next
  assume "closes (m # n # stack) ts"
  then obtain a b after where ab: "content a" "ts = a @ Closing m # b @ Closing n # after" "content b" "closes stack after" by auto
  then have "content (Opening m # a @ Closing m # b)" "Opening m # ts = (Opening m # a @ Closing m # b) @ Closing n # after"
    by (auto intro: content_element)
  then show "closes (n # stack) (Opening m # ts)" using ab(4) by (simp only: closes.simps) blast
qed

lemma closes_malformed: "\<not> closes (n # stack) (Malformed t # ts)"
  by (auto simp: Cons_eq_append_conv elim: content_BadE)

lemma closes_nothing: "\<not> closes (n # stack) []"
  by auto

abbreviation kept :: "tag list \<Rightarrow> tag list" where "kept ts \<equiv> filter (\<lambda>t. t \<noteq> Skipped) ts"

lemma wf_closed: "wf_tags file ts [] start True = None \<longleftrightarrow> kept ts = []"
proof (induction ts)
  case (Cons t ts)
  then show ?case by (cases t) auto
qed simp

lemma wf_open: "stack \<noteq> [] \<Longrightarrow> wf_tags file ts stack ''repair_order'' False = None \<longleftrightarrow> closes stack (kept ts)"
proof (induction ts arbitrary: stack)
  case Nil
  then show ?case using closes_nothing by (cases stack) auto
next
  case (Cons t ts)
  obtain n rest where s: "stack = n # rest" using Cons.prems by (cases stack) auto
  show ?case
  proof (cases t)
    case (Closing m)
    show ?thesis
    proof (cases rest)
      case Nil
      then show ?thesis using wf_closed by (auto simp: s Closing closes_closing simp del: closes.simps(2))
    qed (use Cons.IH [of rest] in \<open>auto simp: s Closing closes_closing simp del: closes.simps(2)\<close>)
  next
    case (Malformed u)
    then show ?thesis using closes_malformed by (simp add: s del: closes.simps)
  qed (use Cons.IH [of stack] Cons.IH [of "_ # stack"] in
    \<open>simp_all add: s closes_empty closes_opening del: closes.simps\<close>)
qed

lemma wf_more: "wf_tags file ts [] ''repair_order'' False = None \<longleftrightarrow> roots (kept ts)"
proof (induction ts)
  case (Cons t ts)
  show ?case
  proof (cases t)
    case (Opening m)
    have "roots (Opening m # kept ts) \<longleftrightarrow> closes [m] (kept ts)" by (auto elim: roots_OpenE intro: roots_element)
    then show ?thesis using wf_open [of "[m]"] by (simp add: Opening del: closes.simps)
  next
    case (SelfClosing m)
    then show ?thesis using Cons.IH by (auto elim: roots_SelfE intro: roots_empty)
  qed (use Cons.IH in \<open>auto elim: roots_ClosingE roots_BadE\<close>)
qed (simp add: roots_none)

lemma wf_start: "wf_tags file ts [] [] False = None \<longleftrightarrow> document (kept ts)"
proof (induction ts)
  case (Cons t ts)
  show ?case
  proof (cases t)
    case (Opening m)
    have "document (Opening m # kept ts) \<longleftrightarrow> m = ''repair_order'' \<and> closes [m] (kept ts)"
      by (auto elim: document_OpenE intro: document_root)
    then show ?thesis using wf_open [of "[m]"] by (auto simp: Opening Let_def simp del: closes.simps)
  next
    case (SelfClosing m)
    have "document (SelfClosing m # kept ts) \<longleftrightarrow> m = ''repair_order'' \<and> roots (kept ts)"
      by (auto elim: document_SelfE intro: document_empty)
    then show ?thesis using wf_more by (auto simp: SelfClosing Let_def)
  qed (use Cons.IH in \<open>auto elim: document_ClosingE document_BadE\<close>)
qed (simp add: document_none)

text \<open>C39: a text passes the check of its tags exactly if the tags it looks at are a document of the grammar \<open>document\<close>: there are
  none; or they are one element \<open>repair_order\<close> with properly nested content; or they begin with an empty element
  \<open>repair_order\<close> and then, which the check for multiple roots does not notice, come elements of any name, of which only the
  last one can have content.\<close>

theorem well_formed_iff_document:
  "ensureXmlWellFormed xml file = None \<longleftrightarrow> document (kept (xml_tags xml))"
  unfolding ensureXmlWellFormed_def by (rule wf_start)

section \<open>The rewritten directory\<close>

lemma zeros_val: "digits_val (replicate k CHR ''0'' @ s) = digits_val s"
  by (induction k) (simp_all add: digits_val_def)

lemma pad_zero_val: "digits_val (pad_zero n v) = int v"
  by (simp add: pad_zero_def Let_def zeros_val digits_val_of)

definition doc_name :: "nat \<Rightarrow> string" where "doc_name i = ''RO-'' @ pad4 (i + 1) @ ''.xml''"

lemma doc_name_inj: "doc_name i = doc_name j \<Longrightarrow> i = j"
  using pad_zero_val [of 4 "i + 1"] pad_zero_val [of 4 "j + 1"] by (simp add: doc_name_def pad4_def)

lemma doc_name_xml: "isXmlName (doc_name i)"
proof -
  have "toLowerCase ''.xml'' = ''.xml''" by code_simp
  then show ?thesis by (simp add: isXmlName_def doc_name_def endsWith_def) (simp add: toLowerCase_def)
qed

lemma write_docs:
  assumes "distinct (map fst docs)" "fst ` set dir \<inter> (\<lambda>d. fst d @ ''.xml'') ` set docs = {}"
  shows "writeDocs docs dir = dir @ map (\<lambda>(ro, xml). (ro @ ''.xml'', xml)) docs"
  using assms
proof (induction docs arbitrary: dir)
  case (Cons d docs)
  obtain ro xml where d: "d = (ro, xml)" by (cases d)
  have "writeDocs (d # docs) dir = writeDocs docs (dir @ [(ro @ ''.xml'', xml)])"
    using Cons.prems(2) by (simp add: writeDocs_def d map_set_new)
  also have "\<dots> = (dir @ [(ro @ ''.xml'', xml)]) @ map (\<lambda>(ro, xml). (ro @ ''.xml'', xml)) docs"
    using Cons.prems by (intro Cons.IH) (auto simp: d image_iff)
  finally show ?case by (simp add: d)
qed (simp add: writeDocs_def)

text \<open>The rewriting keeps the files that are no XML documents, and leaves the documents it read, rewritten, under the
  numbers RO-0001, RO-0002 and so on; no document overwrites another.\<close>

theorem regenerated_directory:
  assumes "regenerate dir = Some dir'"
  shows "dir' = wipeExistingDocs dir @ map (\<lambda>(xml, i). (doc_name i, snd (updateXml xml i))) (zip (readSourceDocs dir) [0..<length (readSourceDocs dir)])"
proof -
  let ?docs = "readSourceDocs dir"
  let ?new = "map (\<lambda>(xml, i). updateXml xml i) (zip ?docs [0..<length ?docs])"
  have name: "fst (updateXml xml i) @ ''.xml'' = doc_name i" for xml i by (simp add: updateXml_def Let_def doc_name_def)
  have names: "map (\<lambda>d. fst d @ ''.xml'') ?new = map doc_name [0..<length ?docs]"
    by (rule nth_equalityI) (simp_all add: name)
  have "distinct (map doc_name [0..<length ?docs])" using doc_name_inj by (simp add: distinct_map inj_on_def)
  with names have "distinct (map (\<lambda>n. n @ ''.xml'') (map fst ?new))" by (simp add: comp_def)
  then have d: "distinct (map fst ?new)" by (rule distinct_map [THEN iffD1, THEN conjunct1])
  have "isXmlName n" if "n \<in> (\<lambda>d. fst d @ ''.xml'') ` set ?new" for n
  proof -
    have "n \<in> set (map (\<lambda>d. fst d @ ''.xml'') ?new)" using that by (simp only: list.set_map)
    then show ?thesis using doc_name_xml unfolding names by auto
  qed
  then have "fst ` set (wipeExistingDocs dir) \<inter> (\<lambda>d. fst d @ ''.xml'') ` set ?new = {}"
    unfolding wipeExistingDocs_def disjoint_iff by (metis (no_types, lifting) imageE mem_Collect_eq set_filter)
  from write_docs [OF d this] have "writeDocs ?new (wipeExistingDocs dir) =
      wipeExistingDocs dir @ map (\<lambda>(xml, i). (doc_name i, snd (updateXml xml i))) (zip ?docs [0..<length ?docs])"
    using name by (simp add: comp_def split_def)
  then show ?thesis using assms by (simp add: regenerate_def Let_def split: if_splits)
qed

end
