(* ===== verification/Watcher.thy ===== *)
theory Watcher
  imports JsRegex JsNumber JsDate
begin

text \<open>
  scripts/ftp_intake_watcher.ts: the watcher of the incoming directory. Its state is the set of files it is done with, the
  store of raw copies (a map from paths to contents), the table \<open>app.ingest_files\<close> and the number of UUIDs drawn. A file of
  the incoming tree has its path below the directory, its content and what the three calls of \<open>stat\<close> report.

  Of the table the model has the key (tenant and content hash), the constraint on the status as migration
  0027_ingest_hardening.sql leaves it, and row level security as the flag \<open>vis\<close>: whether the connection, which sets the tenant
  with \<open>set_config(..., true)\<close> outside of a transaction, sees and may write the tenant's rows. Console output is left out;
  scans follow one another.
\<close>

section \<open>Files\<close>

record FileInfo =
  fi_content :: string
  fi_first :: "nat \<times> nat"    \<comment> \<open>size and time of modification\<close>
  fi_second :: "nat \<times> nat"
  fi_size :: nat

datatype FsNode = FsFile string FileInfo | FsDir string "FsNode list" | FsOther string

record WatchConfig =
  wc_raw :: string
  wc_maxBytes :: jsnum
  wc_sha256 :: "string \<Rightarrow> string"
  wc_uuid :: "nat \<Rightarrow> string"
  wc_json :: "(string \<times> string) list \<Rightarrow> string"

definition MAX_FILE_BYTES :: "string option \<Rightarrow> jsnum" where
  "MAX_FILE_BYTES v = (case v of None \<Rightarrow> Fin (20 * 1024 * 1024) | Some s \<Rightarrow> js_Number s)"

definition isXmlFile :: "string \<Rightarrow> bool" where "isXmlFile path \<longleftrightarrow> endsWith (toLowerCase path) ''.xml''"

text \<open>\<open>/\\.(tmp|partial|swp|swx|~)$/\<close>\<close>

definition isTempFile :: "string list \<Rightarrow> bool" where
  "isTempFile parts \<longleftrightarrow>
     rx_test (rx_seq [chr (CHR ''.''), rx_alt [str ''tmp'', str ''partial'', str ''swp'', str ''swx'', str ''~''], REnd])
       (toLowerCase (js_join ''/'' parts)) \<or>
     startsWith (last parts) ''.''"

definition isStableFile :: "FileInfo \<Rightarrow> bool" where "isStableFile f \<longleftrightarrow> fi_first f = fi_second f"

definition is_year :: "string \<Rightarrow> bool" where "is_year s \<longleftrightarrow> length s = 4 \<and> list_all is_digit s"

fun find_index :: "('a \<Rightarrow> bool) \<Rightarrow> 'a list \<Rightarrow> nat option" where
  "find_index P [] = None"
| "find_index P (x # xs) = (if P x then Some 0 else map_option Suc (find_index P xs))"

record PathInfo =
  pi_tenantId :: string
  pi_date :: string
  pi_filename :: string

definition parseIncomingPath :: "int \<Rightarrow> string list \<Rightarrow> PathInfo option" where
  "parseIncomingPath now parts =
     (if length parts < 2 then None
      else
        let filename = last parts; today = \<lparr>pi_tenantId = hd parts, pi_date = slice (toISOString now) 0 10, pi_filename = filename\<rparr>
        in case find_index is_year parts of
             None \<Rightarrow> Some today
           | Some i \<Rightarrow>
               if i + 2 \<ge> length parts then Some today
               else
                 let tenantId = parts ! (if i \<ge> 1 then i - 1 else 0)
                 in if tenantId = [] then None
                    else Some \<lparr>pi_tenantId = tenantId,
                               pi_date = parts ! i @ ''-'' @ parts ! (i + 1) @ ''-'' @ parts ! (i + 2), pi_filename = filename\<rparr>)"

section \<open>The store of raw copies\<close>

type_synonym RawStore = "string \<Rightarrow> string option"

definition write_new :: "string \<Rightarrow> string \<Rightarrow> RawStore \<Rightarrow> RawStore \<times> unit res" where
  "write_new path content fs =
     (if fs path \<noteq> None then (fs, Inl (Js (''EEXIST: file already exists, '' @ path))) else (fs(path \<mapsto> content), ok ()))"

definition copyImmutable :: "string \<Rightarrow> string \<Rightarrow> string \<Rightarrow> RawStore \<Rightarrow> RawStore \<times> unit res" where
  "copyImmutable content destDir destFilename = write_new (destDir @ ''/'' @ destFilename) content"

definition writeMetadata :: "WatchConfig \<Rightarrow> string \<Rightarrow> (string \<times> string) list \<Rightarrow> string \<Rightarrow> RawStore \<Rightarrow> RawStore \<times> unit res" where
  "writeMetadata cfg destDir data checksum fs =
     (case write_new (destDir @ ''/metadata.json'') (wc_json cfg data) fs of
        (fs', Inl e) \<Rightarrow> (fs', Inl e)
      | (fs', Inr _) \<Rightarrow> write_new (destDir @ ''/checksum.sha256'') (checksum @ [CHR 0x0A]) fs')"

section \<open>The table\<close>

record WatchRow =
  wr_id :: string
  wr_storageUri :: string
  wr_status :: string
  wr_errorCode :: "string option"
  wr_receivedAt :: string

type_synonym WatchTable = "string \<times> string \<Rightarrow> WatchRow option"

definition status_allowed :: "string \<Rightarrow> bool" where
  "status_allowed s \<longleftrightarrow> s \<in> set [''PENDING'', ''PROCESSING'', ''INGESTED'', ''FAILED'', ''DUPLICATE'']"

definition insertIngestFile :: "bool \<Rightarrow> string \<times> string \<Rightarrow> WatchRow \<Rightarrow> WatchTable \<Rightarrow> WatchTable \<times> unit res" where
  "insertIngestFile vis k r t =
     (if \<not> vis then (t, Inl (Pg (RlsViolation ''app.ingest_files'')))
      else if \<not> status_allowed (wr_status r) then (t, Inl (Pg (CheckViolation ''ingest_files_status_check'')))
      else if t k \<noteq> None then (t, Inl (Pg (UniqueViolation ''app.ingest_files'')))
      else (t(k \<mapsto> r), ok ()))"

definition updateIngestStatus :: "bool \<Rightarrow> string \<times> string \<Rightarrow> string \<Rightarrow> string option \<Rightarrow> WatchTable \<Rightarrow> WatchTable \<times> unit res" where
  "updateIngestStatus vis k status errorCode t =
     (case t k of
        None \<Rightarrow> (t, ok ())
      | Some r \<Rightarrow>
          if \<not> vis then (t, ok ())
          else if \<not> status_allowed status then (t, Inl (Pg (CheckViolation ''ingest_files_status_check'')))
          else (t(k \<mapsto> r\<lparr>wr_status := status, wr_errorCode := errorCode\<rparr>), ok ()))"

definition findExistingIngest :: "bool \<Rightarrow> string \<times> string \<Rightarrow> WatchTable \<Rightarrow> WatchRow option" where
  "findExistingIngest vis k t = (if vis then t k else None)"

definition validateFile :: "WatchConfig \<Rightarrow> string list \<Rightarrow> FileInfo \<Rightarrow> string option" where
  "validateFile cfg parts f =
     (if jgt (Fin (of_nat (fi_size f))) (wc_maxBytes cfg) then Some ''FILE_TOO_LARGE''
      else if \<not> isXmlFile (last parts) then Some ''INVALID_EXTENSION''
      else None)"

section \<open>Handling a file\<close>

record WatchState =
  ws_processed :: "string list list"
  ws_raw :: RawStore
  ws_table :: WatchTable
  ws_drawn :: nat

definition dest_dir :: "WatchConfig \<Rightarrow> PathInfo \<Rightarrow> string" where
  "dest_dir cfg info = wc_raw cfg @ ''/tenant='' @ pi_tenantId info @ ''/date='' @ pi_date info @ ''/source=ftp''"

text \<open>What follows the registration: the check of the file and its status.\<close>

definition conclude :: "WatchConfig \<Rightarrow> bool \<Rightarrow> string list \<Rightarrow> FileInfo \<Rightarrow> string \<times> string \<Rightarrow> WatchState \<Rightarrow> WatchState \<times> unit res" where
  "conclude cfg vis parts f k st =
     (case validateFile cfg parts f of
        Some errorCode \<Rightarrow>
          (case updateIngestStatus vis k ''FAILED'' (Some errorCode) (ws_table st) of (t, r) \<Rightarrow> (st\<lparr>ws_table := t\<rparr>, r))
      | None \<Rightarrow>
          (case updateIngestStatus vis k ''VALIDATED'' None (ws_table st) of
             (t, Inl e) \<Rightarrow> (st\<lparr>ws_table := t\<rparr>, Inl e)
           | (t, Inr _) \<Rightarrow> (st\<lparr>ws_table := t, ws_processed := parts # ws_processed st\<rparr>, ok ())))"

text \<open>The raw copy, the registration and the rest. Errors of the first two are logged only.\<close>

definition take_custody ::
  "WatchConfig \<Rightarrow> bool \<Rightarrow> int \<Rightarrow> string list \<Rightarrow> FileInfo \<Rightarrow> PathInfo \<Rightarrow> string \<Rightarrow> string \<Rightarrow> WatchState \<Rightarrow> WatchState \<times> unit res" where
  "take_custody cfg vis now parts f info batchId checksum st =
     (let destDir = dest_dir cfg info; destFilename = batchId @ ''.xml'';
          storageUri = ''file://'' @ destDir @ ''/'' @ destFilename; receivedAt = toISOString now; k = (pi_tenantId info, checksum)
      in case copyImmutable (fi_content f) destDir destFilename (ws_raw st) of
           (fs1, Inl _) \<Rightarrow> (st\<lparr>ws_raw := fs1\<rparr>, ok ())
         | (fs1, Inr _) \<Rightarrow>
             (case writeMetadata cfg destDir
                 [(''batch_id'', batchId), (''tenant_id'', pi_tenantId info), (''filename'', pi_filename info), (''checksum'', checksum),
                  (''received_at'', receivedAt), (''source'', ''ftp''), (''storage_uri'', storageUri),
                  (''note'', ''Raw custody only. No validation, parsing, or ingestion occurs at intake time.'')] checksum fs1 of
                (fs2, Inl _) \<Rightarrow> (st\<lparr>ws_raw := fs2\<rparr>, ok ())
              | (fs2, Inr _) \<Rightarrow>
                  (case insertIngestFile vis k
                      \<lparr>wr_id = batchId, wr_storageUri = storageUri, wr_status = ''RECEIVED'', wr_errorCode = None, wr_receivedAt = receivedAt\<rparr>
                      (ws_table st) of
                     (t, Inl _) \<Rightarrow> (st\<lparr>ws_raw := fs2, ws_table := t\<rparr>, ok ())
                   | (t, Inr _) \<Rightarrow> conclude cfg vis parts f k (st\<lparr>ws_raw := fs2, ws_table := t\<rparr>))))"

definition handleFile :: "WatchConfig \<Rightarrow> bool \<Rightarrow> int \<Rightarrow> string list \<Rightarrow> FileInfo \<Rightarrow> WatchState \<Rightarrow> WatchState \<times> unit res" where
  "handleFile cfg vis now parts f st =
     (if parts \<in> set (ws_processed st) then (st, ok ())
      else if \<not> isXmlFile (last parts) \<or> isTempFile parts then (st, ok ())
      else (case parseIncomingPath now parts of
          None \<Rightarrow> (st, ok ())
        | Some info \<Rightarrow>
            if \<not> isStableFile f then (st, ok ())
            else
              let batchId = wc_uuid cfg (ws_drawn st); st1 = st\<lparr>ws_drawn := ws_drawn st + 1\<rparr>;
                  checksum = wc_sha256 cfg (fi_content f); k = (pi_tenantId info, checksum)
              in (case findExistingIngest vis k (ws_table st1) of
                    Some _ \<Rightarrow>
                      (case updateIngestStatus vis k ''DUPLICATE'' (Some ''DUPLICATE'') (ws_table st1) of
                         (t, r) \<Rightarrow> (st1\<lparr>ws_table := t\<rparr>, r))
                  | None \<Rightarrow> take_custody cfg vis now parts f info batchId checksum st1)))"

section \<open>Scanning\<close>

fun scanIncoming :: "WatchConfig \<Rightarrow> bool \<Rightarrow> int \<Rightarrow> string list \<Rightarrow> FsNode list \<Rightarrow> WatchState \<Rightarrow> WatchState \<times> unit res" where
  "scanIncoming cfg vis now dir [] st = (st, ok ())"
| "scanIncoming cfg vis now dir (FsDir n nodes # rest) st =
     (case scanIncoming cfg vis now (dir @ [n]) nodes st of
        (st', Inl e) \<Rightarrow> (st', Inl e) | (st', Inr _) \<Rightarrow> scanIncoming cfg vis now dir rest st')"
| "scanIncoming cfg vis now dir (FsFile n f # rest) st =
     (case handleFile cfg vis now (dir @ [n]) f st of
        (st', Inl e) \<Rightarrow> (st', Inl e) | (st', Inr _) \<Rightarrow> scanIncoming cfg vis now dir rest st')"
| "scanIncoming cfg vis now dir (FsOther n # rest) st = scanIncoming cfg vis now dir rest st"

text \<open>The scans of the timer; an error ends its own scan only.\<close>

fun scans :: "WatchConfig \<Rightarrow> bool \<Rightarrow> (int \<times> FsNode list) list \<Rightarrow> WatchState \<Rightarrow> WatchState" where
  "scans cfg vis [] st = st"
| "scans cfg vis ((now, tree) # rest) st = scans cfg vis rest (fst (scanIncoming cfg vis now [] tree st))"

text \<open>The process: an error of the first scan ends it.\<close>

definition watch :: "WatchConfig \<Rightarrow> bool \<Rightarrow> string option \<Rightarrow> (int \<times> FsNode list) list \<Rightarrow> WatchState \<Rightarrow> WatchState \<times> unit res" where
  "watch cfg vis databaseUrl history st =
     (if \<not> truthy databaseUrl then (st, Inl (Js ''DATABASE_URL not configured''))
      else (case history of
          [] \<Rightarrow> (st, ok ())
        | (now, tree) # rest \<Rightarrow>
            (case scanIncoming cfg vis now [] tree st of
               (st', Inl e) \<Rightarrow> (st', Inl e)
             | (st', Inr _) \<Rightarrow> (scans cfg vis rest st', ok ()))))"

end
