(* ===== verification/WatcherFacts.thy ===== *)
theory WatcherFacts
  imports Watcher
begin

text \<open>
  Facts about the watcher: the status it registers a file with is one the table refuses, so that it never registers
  anything and is never done with a file, and every scan copies a waiting file once more.
\<close>

section \<open>Nothing is registered\<close>

lemma received_not_allowed: "\<not> status_allowed ''RECEIVED''" "status_allowed ''DUPLICATE''"
  by code_simp+

lemma insert_refused:
  "insertIngestFile vis k \<lparr>wr_id = i, wr_storageUri = u, wr_status = ''RECEIVED'', wr_errorCode = e, wr_receivedAt = a\<rparr> t =
     (t, Inl (Pg (if vis then CheckViolation ''ingest_files_status_check'' else RlsViolation ''app.ingest_files'')))"
  using received_not_allowed(1) by (simp add: insertIngestFile_def)

text \<open>What a scan may do to the rest of the state: rows stay, at most marked as duplicates.\<close>

definition marked :: "WatchRow \<Rightarrow> WatchRow" where
  "marked r = r\<lparr>wr_status := ''DUPLICATE'', wr_errorCode := Some ''DUPLICATE''\<rparr>"

definition only_marks :: "WatchState \<Rightarrow> WatchState \<Rightarrow> bool" where
  "only_marks st st' \<longleftrightarrow> ws_processed st' = ws_processed st \<and>
     (\<forall>k. ws_table st' k = ws_table st k \<or> ws_table st' k = map_option marked (ws_table st k))"

lemma only_marks_refl [simp]: "only_marks st st"
  by (simp add: only_marks_def)

lemma only_marks_trans: "only_marks a b \<Longrightarrow> only_marks b c \<Longrightarrow> only_marks a c"
proof -
  assume ab: "only_marks a b" and bc: "only_marks b c"
  have "map_option marked (map_option marked r) = map_option marked r" for r
    by (cases r) (simp_all add: marked_def)
  then have "ws_table c k = ws_table a k \<or> ws_table c k = map_option marked (ws_table a k)" for k
    using ab bc unfolding only_marks_def by metis
  then show ?thesis using ab bc by (simp add: only_marks_def)
qed

lemma custody_marks: "take_custody cfg vis now parts f info i c st = (st', r) \<Longrightarrow> only_marks st st' \<and> r = ok ()"
  by (auto simp: take_custody_def only_marks_def Let_def insert_refused split: prod.splits sum.splits)

lemma duplicate_marks: "updateIngestStatus vis k ''DUPLICATE'' (Some ''DUPLICATE'') t = (t', r) \<Longrightarrow>
    r = ok () \<and> (\<forall>j. t' j = t j \<or> t' j = map_option marked (t j))"
  using received_not_allowed(2) by (auto simp: updateIngestStatus_def marked_def split: option.splits if_splits)

lemma handle_marks: "handleFile cfg vis now parts f st = (st', r) \<Longrightarrow> only_marks st st' \<and> r = ok ()"
proof -
  assume h: "handleFile cfg vis now parts f st = (st', r)"
  let ?st1 = "st\<lparr>ws_drawn := ws_drawn st + 1\<rparr>"
  show ?thesis
  proof (cases "parts \<in> set (ws_processed st) \<or> \<not> isXmlFile (last parts) \<or> isTempFile parts \<or> \<not> isStableFile f")
    case True
    then show ?thesis using h by (auto simp: handleFile_def split: if_splits option.splits)
  next
    case False
    show ?thesis
    proof (cases "parseIncomingPath now parts")
      case (Some info)
      let ?k = "(pi_tenantId info, wc_sha256 cfg (fi_content f))"
      show ?thesis
      proof (cases "findExistingIngest vis ?k (ws_table ?st1)")
        case None
        then have "take_custody cfg vis now parts f info (wc_uuid cfg (ws_drawn st)) (wc_sha256 cfg (fi_content f)) ?st1 = (st', r)"
          using h False Some by (simp add: handleFile_def Let_def)
        then show ?thesis using custody_marks by (fastforce simp: only_marks_def)
      next
        case (Some row)
        obtain t r' where u: "updateIngestStatus vis ?k ''DUPLICATE'' (Some ''DUPLICATE'') (ws_table ?st1) = (t, r')" by fastforce
        then have "st' = ?st1\<lparr>ws_table := t\<rparr>" "r = r'"
          using h False Some \<open>parseIncomingPath now parts = Some info\<close> by (simp_all add: handleFile_def Let_def)
        then show ?thesis using duplicate_marks [OF u] by (simp add: only_marks_def)
      qed
    qed (use h False in \<open>simp add: handleFile_def\<close>)
  qed
qed

lemma scan_marks: "only_marks st (fst (scanIncoming cfg vis now dir tree st)) \<and> snd (scanIncoming cfg vis now dir tree st) = ok ()"
proof (induction cfg vis now dir tree st rule: scanIncoming.induct)
  case (2 cfg vis now dir n nodes rest st)
  obtain s1 where s1: "scanIncoming cfg vis now (dir @ [n]) nodes st = (s1, ok ())" "only_marks st s1"
    using 2(1) by (cases "scanIncoming cfg vis now (dir @ [n]) nodes st") auto
  then show ?case using 2(2) [OF s1(1) [symmetric] refl] only_marks_trans [OF s1(2)] by simp
next
  case (3 cfg vis now dir n f rest st)
  obtain s1 r1 where h: "handleFile cfg vis now (dir @ [n]) f st = (s1, r1)" by fastforce
  then have s1: "handleFile cfg vis now (dir @ [n]) f st = (s1, ok ())" "only_marks st s1" using handle_marks by blast+
  then show ?case using 3 [OF s1(1) [symmetric] refl] only_marks_trans [OF s1(2)] by simp
qed simp_all

lemma scans_mark: "only_marks st (scans cfg vis history st)"
proof (induction cfg vis history st rule: scans.induct)
  case (2 cfg vis now tree rest st)
  show ?case using 2 only_marks_trans [OF scan_marks [THEN conjunct1]] by simp
qed simp

text \<open>Whatever the files, their number and the visibility of the rows are, the watcher registers no file and is done
  with none; all it changes in the table is to mark rows that others wrote as duplicates.\<close>

theorem watcher_registers_nothing:
  "ws_processed (fst (watch cfg vis url history st)) = ws_processed st \<and>
   dom (ws_table (fst (watch cfg vis url history st))) = dom (ws_table st) \<and>
   (\<forall>k. ws_table (fst (watch cfg vis url history st)) k \<in>
          {ws_table st k, map_option (\<lambda>r. r\<lparr>wr_status := ''DUPLICATE'', wr_errorCode := Some ''DUPLICATE''\<rparr>) (ws_table st k)})"
proof -
  have "only_marks st (fst (watch cfg vis url history st))"
  proof (cases history)
    case (Cons h rest)
    obtain now tree where h: "h = (now, tree)" by (cases h)
    obtain s1 where "scanIncoming cfg vis now [] tree st = (s1, ok ())" "only_marks st s1"
      using scan_marks [of st cfg vis now "[]" tree] by (cases "scanIncoming cfg vis now [] tree st") auto
    then show ?thesis using only_marks_trans [OF _ scans_mark [of s1 cfg vis rest]] by (simp add: watch_def Cons h)
  qed (simp add: watch_def)
  then have m: "ws_processed (fst (watch cfg vis url history st)) = ws_processed st"
    "\<And>k. ws_table (fst (watch cfg vis url history st)) k = ws_table st k \<or>
         ws_table (fst (watch cfg vis url history st)) k = map_option marked (ws_table st k)"
    by (auto simp: only_marks_def)
  have "ws_table (fst (watch cfg vis url history st)) k = None \<longleftrightarrow> ws_table st k = None" for k
    using m(2) [of k] by auto
  then have "dom (ws_table (fst (watch cfg vis url history st))) = dom (ws_table st)" by (auto simp: dom_def)
  moreover have e: "marked = (\<lambda>r. r\<lparr>wr_status := ''DUPLICATE'', wr_errorCode := Some ''DUPLICATE''\<rparr>)"
    by (simp add: marked_def fun_eq_iff)
  ultimately show ?thesis using m unfolding e by blast
qed

section \<open>A waiting file is copied again and again\<close>

definition copy_path :: "WatchConfig \<Rightarrow> PathInfo \<Rightarrow> nat \<Rightarrow> string" where
  "copy_path cfg info i = dest_dir cfg info @ ''/'' @ wc_uuid cfg i @ ''.xml''"

lemma copy_path_apart:
  "copy_path cfg info i \<noteq> dest_dir cfg info @ ''/metadata.json''" "copy_path cfg info i \<noteq> dest_dir cfg info @ ''/checksum.sha256''"
proof -
  have "last (copy_path cfg info i) = CHR ''l''" "last (dest_dir cfg info @ ''/metadata.json'') = CHR ''n''"
    "last (dest_dir cfg info @ ''/checksum.sha256'') = CHR ''6''"
    by (simp_all add: copy_path_def)
  moreover have "CHR ''l'' \<noteq> CHR ''n''" "CHR ''l'' \<noteq> CHR ''6''" by simp_all
  ultimately show "copy_path cfg info i \<noteq> dest_dir cfg info @ ''/metadata.json''" "copy_path cfg info i \<noteq> dest_dir cfg info @ ''/checksum.sha256''"
    by auto
qed

text \<open>A file that the watcher would take: complete, at rest, and without a row that it can see.\<close>

definition waiting :: "WatchConfig \<Rightarrow> bool \<Rightarrow> int \<Rightarrow> string list \<Rightarrow> FileInfo \<Rightarrow> PathInfo \<Rightarrow> WatchState \<Rightarrow> bool" where
  "waiting cfg vis now parts f info st \<longleftrightarrow>
     parts \<notin> set (ws_processed st) \<and> isXmlFile (last parts) \<and> \<not> isTempFile parts \<and> isStableFile f \<and>
     parseIncomingPath now parts = Some info \<and>
     findExistingIngest vis (pi_tenantId info, wc_sha256 cfg (fi_content f)) (ws_table st) = None"

lemma write_new_raw: "write_new p v fs = (fs', r) \<Longrightarrow> q \<noteq> p \<Longrightarrow> fs' q = fs q"
  by (auto simp: write_new_def split: if_splits)

lemma metadata_raw:
  "writeMetadata cfg d data c fs = (fs', r) \<Longrightarrow> q \<noteq> d @ ''/metadata.json'' \<Longrightarrow> q \<noteq> d @ ''/checksum.sha256'' \<Longrightarrow> fs' q = fs q"
  by (auto simp: writeMetadata_def split: prod.splits sum.splits dest!: write_new_raw)

lemma custody_copies:
  assumes "take_custody cfg vis now parts f info (wc_uuid cfg i) c st = (st', r)" "ws_raw st (copy_path cfg info i) = None"
  shows "ws_raw st' (copy_path cfg info i) = Some (fi_content f)" "ws_drawn st' = ws_drawn st" "ws_table st' = ws_table st"
    "ws_processed st' = ws_processed st" "wc_uuid cfg j \<noteq> wc_uuid cfg i \<Longrightarrow> ws_raw st' (copy_path cfg info j) = ws_raw st (copy_path cfg info j)"
proof -
  have copy: "copyImmutable (fi_content f) (dest_dir cfg info) (wc_uuid cfg i @ ''.xml'') (ws_raw st) =
      ((ws_raw st)(copy_path cfg info i \<mapsto> fi_content f), ok ())"
    using assms(2) by (simp add: copyImmutable_def write_new_def copy_path_def)
  have "\<exists>fs2 data r2. st' = st\<lparr>ws_raw := fs2\<rparr> \<and>
      writeMetadata cfg (dest_dir cfg info) data c ((ws_raw st)(copy_path cfg info i \<mapsto> fi_content f)) = (fs2, r2)"
    using assms(1) copy by (simp add: take_custody_def Let_def insert_refused split: prod.splits sum.splits) (metis surjective_pairing)+
  then obtain fs2 where st': "st' = st\<lparr>ws_raw := fs2\<rparr>"
    and fs2: "\<And>q. q \<noteq> dest_dir cfg info @ ''/metadata.json'' \<Longrightarrow> q \<noteq> dest_dir cfg info @ ''/checksum.sha256'' \<Longrightarrow>
        fs2 q = ((ws_raw st)(copy_path cfg info i \<mapsto> fi_content f)) q"
    using metadata_raw by metis
  show "ws_raw st' (copy_path cfg info i) = Some (fi_content f)" using fs2 [OF copy_path_apart] by (simp add: st')
  have "copy_path cfg info j \<noteq> copy_path cfg info i" if "wc_uuid cfg j \<noteq> wc_uuid cfg i" using that by (simp add: copy_path_def)
  then show "wc_uuid cfg j \<noteq> wc_uuid cfg i \<Longrightarrow> ws_raw st' (copy_path cfg info j) = ws_raw st (copy_path cfg info j)"
    using fs2 [OF copy_path_apart] by (simp add: st')
qed (use assms(1) in \<open>auto simp: take_custody_def Let_def insert_refused split: prod.splits sum.splits\<close>)

lemma handle_waiting:
  assumes "waiting cfg vis now parts f info st" "ws_raw st (copy_path cfg info (ws_drawn st)) = None"
    and "handleFile cfg vis now parts f st = (st', r)"
  shows "ws_raw st' (copy_path cfg info (ws_drawn st)) = Some (fi_content f)" "ws_drawn st' = Suc (ws_drawn st)"
    "waiting cfg vis now parts f info st'"
    "wc_uuid cfg j \<noteq> wc_uuid cfg (ws_drawn st) \<Longrightarrow> ws_raw st' (copy_path cfg info j) = ws_raw st (copy_path cfg info j)"
proof -
  let ?st1 = "st\<lparr>ws_drawn := ws_drawn st + 1\<rparr>"
  have t: "take_custody cfg vis now parts f info (wc_uuid cfg (ws_drawn st)) (wc_sha256 cfg (fi_content f)) ?st1 = (st', r)"
    using assms(1,3) by (simp add: handleFile_def waiting_def Let_def)
  have none: "ws_raw ?st1 (copy_path cfg info (ws_drawn st)) = None" using assms(2) by simp
  note c = custody_copies [OF t none]
  show "ws_raw st' (copy_path cfg info (ws_drawn st)) = Some (fi_content f)" by (rule c(1))
  show "ws_drawn st' = Suc (ws_drawn st)" using c(2) by simp
  show "waiting cfg vis now parts f info st'" using assms(1) c(3,4) by (simp add: waiting_def)
  show "wc_uuid cfg j \<noteq> wc_uuid cfg (ws_drawn st) \<Longrightarrow> ws_raw st' (copy_path cfg info j) = ws_raw st (copy_path cfg info j)"
    using c(5) by simp
qed

lemma copies_grow:
  assumes "inj (wc_uuid cfg)"
  shows "waiting cfg vis now [dir, n] f info st \<Longrightarrow> (\<And>i. ws_drawn st \<le> i \<Longrightarrow> ws_raw st (copy_path cfg info i) = None) \<Longrightarrow>
    (\<forall>i < m. ws_raw (scans cfg vis (replicate m (now, [FsDir dir [FsFile n f]])) st) (copy_path cfg info (ws_drawn st + i)) = Some (fi_content f)) \<and>
    (\<forall>j < ws_drawn st. ws_raw (scans cfg vis (replicate m (now, [FsDir dir [FsFile n f]])) st) (copy_path cfg info j) = ws_raw st (copy_path cfg info j))"
proof (induction m arbitrary: st)
  case (Suc m)
  let ?tree = "[FsDir dir [FsFile n f]]"
  obtain s1 r where h: "handleFile cfg vis now [dir, n] f st = (s1, r)" by fastforce
  then have r: "r = ok ()" using handle_marks by blast
  have other: "j \<noteq> i \<Longrightarrow> wc_uuid cfg j \<noteq> wc_uuid cfg i" for i j using assms by (auto dest: injD)
  have free: "ws_raw st (copy_path cfg info (ws_drawn st)) = None" using Suc.prems(2) by simp
  note w = handle_waiting [OF Suc.prems(1) free h]
  have scan: "scans cfg vis (replicate (Suc m) (now, ?tree)) st = scans cfg vis (replicate m (now, ?tree)) s1" using h r by simp
  have none: "ws_raw s1 (copy_path cfg info i) = None" if "ws_drawn s1 \<le> i" for i
    using w(2) w(4) [OF other] Suc.prems(2) that by simp
  have IH: "\<forall>i < m. ws_raw (scans cfg vis (replicate m (now, ?tree)) s1) (copy_path cfg info (Suc (ws_drawn st) + i)) = Some (fi_content f)"
    "\<forall>j < Suc (ws_drawn st). ws_raw (scans cfg vis (replicate m (now, ?tree)) s1) (copy_path cfg info j) = ws_raw s1 (copy_path cfg info j)"
    using Suc.IH [OF w(3) none] by (simp_all add: w(2))
  have "ws_raw s1 (copy_path cfg info j) = ws_raw st (copy_path cfg info j)" if "j < ws_drawn st" for j
    using w(4) [OF other] that by simp
  moreover have "ws_raw (scans cfg vis (replicate m (now, ?tree)) s1) (copy_path cfg info (ws_drawn st + i)) = Some (fi_content f)"
    if "i < Suc m" for i
  proof (cases i)
    case 0
    then show ?thesis using IH(2) w(1) by simp
  next
    case (Suc k)
    then show ?thesis using IH(1) that by simp
  qed
  ultimately show ?case unfolding scan using IH(2) by simp
qed simp

text \<open>A file that waits in the incoming directory is copied anew by every scan: after \<open>m\<close> scans there are \<open>m\<close> raw copies
  of it under different names, and still no row.\<close>

theorem watcher_copies_at_every_scan:
  assumes "inj (wc_uuid cfg)" "waiting cfg vis now [dir, n] f info st"
    and "\<And>i. ws_drawn st \<le> i \<Longrightarrow> ws_raw st (copy_path cfg info i) = None"
  shows "(\<forall>i < m. ws_raw (scans cfg vis (replicate m (now, [FsDir dir [FsFile n f]])) st) (copy_path cfg info (ws_drawn st + i)) = Some (fi_content f)) \<and>
    findExistingIngest vis (pi_tenantId info, wc_sha256 cfg (fi_content f)) (ws_table (scans cfg vis (replicate m (now, [FsDir dir [FsFile n f]])) st)) = None"
proof
  show "\<forall>i < m. ws_raw (scans cfg vis (replicate m (now, [FsDir dir [FsFile n f]])) st) (copy_path cfg info (ws_drawn st + i)) = Some (fi_content f)"
    using copies_grow [OF assms] by blast
  have "ws_table (scans cfg vis (replicate m (now, [FsDir dir [FsFile n f]])) st) k = None \<longleftrightarrow> ws_table st k = None" for k
    using scans_mark [of st cfg vis "replicate m (now, [FsDir dir [FsFile n f]])"] unfolding only_marks_def by (metis option.map_disc_iff)
  then show "findExistingIngest vis (pi_tenantId info, wc_sha256 cfg (fi_content f)) (ws_table (scans cfg vis (replicate m (now, [FsDir dir [FsFile n f]])) st)) = None"
    using assms(2) by (simp add: waiting_def findExistingIngest_def split: if_splits)
qed

section \<open>Examples\<close>

definition sample_watch :: WatchConfig where
  "sample_watch = \<lparr>wc_raw = ''/raw'', wc_maxBytes = MAX_FILE_BYTES None, wc_sha256 = (\<lambda>s. s), wc_uuid = (\<lambda>i. replicate i CHR ''u''), wc_json = (\<lambda>_. [])\<rparr>"

definition sample_file :: FileInfo where
  "sample_file = \<lparr>fi_content = ''<r/>'', fi_first = (4, 1), fi_second = (4, 1), fi_size = 4\<rparr>"

definition sample_watch_state :: WatchState where
  "sample_watch_state = \<lparr>ws_processed = [], ws_raw = (\<lambda>_. None), ws_table = (\<lambda>_. None), ws_drawn = 0\<rparr>"

definition sample_info :: PathInfo where
  "sample_info = \<lparr>pi_tenantId = ''t'', pi_date = ''1970-01-01'', pi_filename = ''a.xml''\<rparr>"

theorem watcher_copies_witness:
  "ws_raw (scans sample_watch True (replicate 3 (0, [FsDir ''t'' [FsFile ''a.xml'' sample_file]])) sample_watch_state)
     (copy_path sample_watch sample_info (0 + 2)) = Some ''<r/>''"
proof -
  have inj: "inj (wc_uuid sample_watch)" by (auto simp: sample_watch_def inj_on_def dest: arg_cong [of _ _ length])
  have "waiting sample_watch True 0 [''t'', ''a.xml''] sample_file sample_info sample_watch_state" by code_simp
  from watcher_copies_at_every_scan [OF inj this, of 3] show ?thesis
    by (simp add: sample_watch_state_def sample_file_def)
qed

text \<open>A file directly below the month takes its own name for the day.\<close>

lemma file_name_as_day:
  "parseIncomingPath 0 [''t'', ''2024'', ''05'', ''a.xml''] = Some \<lparr>pi_tenantId = ''t'', pi_date = ''2024-05-a.xml'', pi_filename = ''a.xml''\<rparr>"
  by code_simp

end
