(* ===== verification/Maintenance.thy ===== *)
theory Maintenance
  imports PiiVault
begin

text \<open>
  The maintenance scripts on the model of the database session: scripts/migrate.ts, pii_reencrypt.ts, seed_admin.ts and
  cleanup_chat_history.ts. What the server does with the text of a migration, with an interval and with a password is a
  parameter.
\<close>

section \<open>migrate.ts\<close>

text \<open>The default order of \<open>sort\<close>: by code units.\<close>

fun str_le :: "string \<Rightarrow> string \<Rightarrow> bool" where
  "str_le [] ys = True"
| "str_le (x # xs) [] = False"
| "str_le (x # xs) (y # ys) \<longleftrightarrow> code x < code y \<or> (x = y \<and> str_le xs ys)"

definition migration_files :: "(string \<times> string) list \<Rightarrow> (string \<times> string) list" where
  "migration_files dir = js_sort (\<lambda>f g. str_le (fst f) (fst g)) (filter (\<lambda>f. endsWith (fst f) ''.sql'') dir)"

text \<open>The loop: the names of the migrations that ran, and the error that stopped it.\<close>

fun apply_migrations :: "(string \<Rightarrow> 's \<Rightarrow> 's \<times> unit res) \<Rightarrow> (string \<times> string) list \<Rightarrow> 's \<Rightarrow> 's \<times> string list \<times> unit res" where
  "apply_migrations query [] s = (s, [], ok ())"
| "apply_migrations query ((file, sql) # rest) s =
     (case query sql s of
        (s', Inl e) \<Rightarrow> (s', [], Inl e)
      | (s', Inr _) \<Rightarrow> (case apply_migrations query rest s' of (s'', applied, r) \<Rightarrow> (s'', file # applied, r)))"

definition runMigrations ::
  "string option \<Rightarrow> (string \<Rightarrow> 's \<Rightarrow> 's \<times> unit res) \<Rightarrow> (string \<times> string) list \<Rightarrow> 's \<Rightarrow> 's \<times> string list \<times> unit res" where
  "runMigrations databaseUrl query dir s =
     (if \<not> truthy databaseUrl then (s, [], Inl (Js ''DATABASE_URL not configured''))
      else apply_migrations query (migration_files dir) s)"

section \<open>pii_reencrypt.ts\<close>

record CryptoDeps =
  cd_seal :: "string \<Rightarrow> string \<Rightarrow> string \<Rightarrow> string \<times> string"
  cd_unseal :: "string \<Rightarrow> string \<Rightarrow> string \<Rightarrow> string \<Rightarrow> string res"
  cd_json :: "PiiPayload \<Rightarrow> string"
  cd_parse :: "string \<Rightarrow> PiiPayload res"
  cd_ring :: "KeyRing res"
  cd_nonce :: "string \<Rightarrow> string"   \<comment> \<open>by repair order\<close>

definition env_default :: "(string \<Rightarrow> string option) \<Rightarrow> string \<Rightarrow> string \<Rightarrow> string" where
  "env_default env k d = (case env k of None \<Rightarrow> d | Some v \<Rightarrow> v)"

definition reencrypt_context :: "(string \<Rightarrow> string option) \<Rightarrow> RequestContext" where
  "reencrypt_context env =
     \<lparr>cx_requestId = Some ''pii-reencrypt'',
      cx_userId = Some (env_default env ''PII_REENCRYPT_USER_ID'' ''00000000-0000-0000-0000-000000000001''),
      cx_tenantId = Some (env_default env ''PII_REENCRYPT_TENANT_ID'' ''00000000-0000-0000-0000-000000000010''),
      cx_role = Some ADMIN, cx_ip = None, cx_userAgent = None\<rparr>"

definition text_col :: "row \<Rightarrow> string \<Rightarrow> string" where
  "text_col r c = (case col r c of SText x \<Rightarrow> x | SBytes x \<Rightarrow> x | _ \<Rightarrow> [])"

definition sealed_of :: "row \<Rightarrow> Sealed" where
  "sealed_of r = \<lparr>se_keyRef = text_col r ''key_ref'', se_nonce = text_col r ''nonce'', se_ciphertext = text_col r ''ciphertext''\<rparr>"

definition no_hashes :: PiiHashes where
  "no_hashes = \<lparr>ph_name = None, ph_emails = [], ph_phones = [], ph_vins = [], ph_plates = [], ph_address = None\<rparr>"

definition reencrypt_record :: "CryptoDeps \<Rightarrow> RequestContext \<Rightarrow> row \<Rightarrow> unit io" where
  "reencrypt_record d ctx r =
     (let roId = text_col r ''ro_id''
      in bind (lift (res_bind (cd_ring d) (\<lambda>ring.
              res_bind (decryptPiiPayload (cd_unseal d) (cd_parse d) ring (sealed_of r)) (\<lambda>payload.
                encryptPiiPayload (cd_seal d) (cd_json d) ring (cd_nonce d roId) payload)))) (\<lambda>encrypted.
           let customerUuid = (case as_text (col r ''customer_uuid'') of Some u \<Rightarrow> Some u | None \<Rightarrow> as_text (col r ''customer_id''))
           in if \<not> truthy customerUuid then lift (Inl (Js (''Missing customer_uuid for ro_id '' @ roId)))
              else writePiiVaultRecord ctx roId (the customerUuid) encrypted no_hashes))"

definition reencrypt_body :: "CryptoDeps \<Rightarrow> RequestContext \<Rightarrow> unit io" where
  "reencrypt_body d ctx =
     bind (db_select ''app.pii_vault'' (\<lambda>r. col r ''tenant_id'' = sql_text (cx_tenantId ctx))) (\<lambda>records.
       io_each (reencrypt_record d ctx) records)"

definition reencrypt :: "CryptoDeps \<Rightarrow> (string \<Rightarrow> string option) \<Rightarrow> unit io" where
  "reencrypt d env = withRequestContext (reencrypt_context env) (reencrypt_body d (reencrypt_context env))"

section \<open>seed_admin.ts\<close>

text \<open>\<open>INSERT ... ON CONFLICT (key) DO UPDATE SET ...\<close>.\<close>

definition insert_or_set :: "string \<Rightarrow> string list \<Rightarrow> (string \<times> sqlval) list \<Rightarrow> (string \<times> sqlval) list \<Rightarrow> unit io" where
  "insert_or_set t key new updates =
     bind (db_select t (same_key key new)) (\<lambda>rows.
       if rows = [] then db_insert t (map fst new) (length new) (map snd new) None
       else bind (db_update t (same_key key new) (set_cols updates)) (\<lambda>_. ret ()))"

definition seed_body :: "(string \<Rightarrow> string res) \<Rightarrow> (string \<Rightarrow> string option) \<Rightarrow> unit io" where
  "seed_body bcrypt env =
     (let tenantId = env_default env ''SEED_TENANT_ID'' ''00000000-0000-0000-0000-000000000010'';
          userId = env_default env ''SEED_USER_ID'' ''00000000-0000-0000-0000-000000000001'';
          email = toLowerCase (js_trim (env_default env ''SEED_ADMIN_EMAIL'' ''admin@example.com''));
          password = env_default env ''SEED_ADMIN_PASSWORD'' ''ChangeMe123!''
      in bind (lift (bcrypt password)) (\<lambda>passHash.
         bind tx_begin (\<lambda>_.
         bind (insert_or_set ''app.tenants'' [''tenant_id'']
                [(''tenant_id'', SText tenantId), (''name'', SText ''Pilot Tenant''), (''is_active'', SBool True)]
                [(''is_active'', SBool True)]) (\<lambda>_.
         bind (set_config ''app.tenant_id'' tenantId) (\<lambda>_.
         bind (insert_or_set ''app.users'' [''tenant_id'', ''email'']
                [(''user_id'', SText userId), (''tenant_id'', SText tenantId), (''email'', SText email),
                 (''pass_hash'', SText passHash), (''role'', SText ''ADMIN''), (''is_active'', SBool True)]
                [(''pass_hash'', SText passHash), (''role'', SText ''ADMIN''), (''is_active'', SBool True)]) (\<lambda>_.
           tx_commit))))))"

text \<open>After an error the script rolls back and exits with code 1.\<close>

definition seed_admin :: "(string \<Rightarrow> string res) \<Rightarrow> (string \<Rightarrow> string option) \<Rightarrow> World \<Rightarrow> World \<times> bool" where
  "seed_admin bcrypt env w =
     (case seed_body bcrypt env w of
        (w', Inr _) \<Rightarrow> (w', True)
      | (w', Inl _) \<Rightarrow> (if w_inTx w' then fst (tx_rollback w') else w', False))"

section \<open>cleanup_chat_history.ts\<close>

definition retention_days :: "string option \<Rightarrow> jsnum" where
  "retention_days v = (case v of None \<Rightarrow> Fin 30 | Some s \<Rightarrow> js_Number s)"

text \<open>\<open>older days column row\<close>: whether the server finds the time in the column before the start of the retention. A text
  the server cannot read as an interval fails.\<close>

definition delete_older :: "(string \<Rightarrow> bool) \<Rightarrow> (string \<Rightarrow> sqlval \<Rightarrow> bool) \<Rightarrow> string \<Rightarrow> string \<Rightarrow> jsnum \<Rightarrow> unit io" where
  "delete_older interval older t c days =
     (let text = num_to_string days @ '' days''
      in if \<not> interval text then guard_tx (fail_stmt (InvalidInput text))
         else bind (db_delete t (\<lambda>r. older text (col r c))) (\<lambda>_. ret ()))"

definition cleanup_body :: "(string \<Rightarrow> bool) \<Rightarrow> (string \<Rightarrow> sqlval \<Rightarrow> bool) \<Rightarrow> jsnum \<Rightarrow> unit io" where
  "cleanup_body interval older days =
     bind tx_begin (\<lambda>_.
     bind (delete_older interval older ''chat.messages'' ''created_at'' days) (\<lambda>_.
     bind (delete_older interval older ''chat.conversations'' ''last_message_at'' days) (\<lambda>_. tx_commit)))"

definition cleanup :: "(string \<Rightarrow> bool) \<Rightarrow> (string \<Rightarrow> sqlval \<Rightarrow> bool) \<Rightarrow> string option \<Rightarrow> unit io" where
  "cleanup interval older days w =
     (case cleanup_body interval older (retention_days days) w of
        (w', Inr x) \<Rightarrow> (w', Inr x)
      | (w', Inl e) \<Rightarrow> (fst (tx_rollback w'), Inl e))"

end
