(* ===== verification/MaintenanceFacts.thy ===== *)
theory MaintenanceFacts
  imports Maintenance TenantFacts
begin

text \<open>
  Facts about the maintenance scripts: migrations run in the order of their names up to the first that fails; the
  re-encryption of the vault sees no record, and where it would see them it forgets the hashes that find a customer again;
  the cleanup of old chats deletes nothing.
\<close>

section \<open>Migrations\<close>

lemma str_le_total: "str_le a b \<or> str_le b a"
  by (induction a b rule: str_le.induct) auto

lemma str_le_trans: "str_le a b \<Longrightarrow> str_le b c \<Longrightarrow> str_le a c"
proof (induction a b arbitrary: c rule: str_le.induct)
  case (3 x xs y ys)
  then show ?case by (cases c) auto
qed auto

interpretation names: comparator "\<lambda>f g :: string \<times> string. str_le (fst f) (fst g)"
  by unfold_locales (use str_le_total str_le_trans in blast)+

lemma applied_prefix:
  "apply_migrations query fs s = (s', applied, r) \<Longrightarrow> applied = map fst (take (length applied) fs) \<and> (is_ok r \<longrightarrow> length applied = length fs)"
proof (induction fs arbitrary: s s' applied r)
  case (Cons f fs)
  obtain name sql where f: "f = (name, sql)" by (cases f)
  show ?case
  proof (cases "query sql s")
    case (Pair s1 r1)
    then show ?thesis using Cons f by (cases r1; cases "apply_migrations query fs s1") (auto simp: Pair)
  qed
qed simp

text \<open>The migrations that ran are a first part of the files in the order of their names, all of them if no error came.\<close>

theorem migrations_run_in_order:
  assumes "runMigrations url query dir s = (s', applied, r)"
  shows "sorted_wrt str_le applied \<and> set applied \<subseteq> fst ` set dir \<and> (is_ok r \<longrightarrow> mset applied = mset (filter (\<lambda>f. endsWith f ''.sql'') (map fst dir)))"
proof (cases "truthy url")
  case True
  let ?fs = "migration_files dir"
  have p: "applied = map fst (take (length applied) ?fs)" "is_ok r \<longrightarrow> length applied = length ?fs"
    using applied_prefix [of query ?fs s] assms True by (simp_all add: runMigrations_def)
  have "sorted_wrt str_le (map fst ?fs)"
    unfolding sorted_wrt_map migration_files_def by (rule names.sorted_sort)
  then have "sorted_wrt str_le (take (length applied) (map fst ?fs))" by (metis append_take_drop_id sorted_wrt_append)
  then have "sorted_wrt str_le applied" using p(1) by (metis take_map)
  moreover have "set applied \<subseteq> fst ` set dir"
    by (subst p(1)) (auto simp: migration_files_def dest!: in_set_takeD)
  moreover have "mset applied = mset (filter (\<lambda>f. endsWith f ''.sql'') (map fst dir))" if "is_ok r"
  proof -
    have "applied = map fst ?fs" using p that by simp
    then show ?thesis by (simp add: migration_files_def filter_map comp_def)
  qed
  ultimately show ?thesis by blast
qed (use assms in \<open>auto simp: runMigrations_def\<close>)

section \<open>Sessions without a tenant\<close>

lemma no_tenant_hidden: "t \<in> set rls_tables \<Longrightarrow> current_tenant w = None \<Longrightarrow> \<not> row_allowed w t r"
  by (simp add: row_allowed_def)

text \<open>The re-encryption of the vault, run on a session like every other script, changes no row: its query is answered
  with no record.\<close>

theorem reencryption_changes_nothing:
  assumes "\<not> w_inTx w" "\<not> w_failed w" "map_of (w_gucs w) ''app.tenant_id'' = None"
  shows "w_tables (fst (reencrypt d env w)) = w_tables w \<and> w_trace (fst (reencrypt d env w)) = w_trace w"
proof -
  have none: "filter p (visible w ''app.pii_vault'') = []" for p
    using no_tenant_hidden [of "''app.pii_vault''" w] assms(3) by (simp add: visible_def rls_tables_def current_tenant_def)
  have body: "reencrypt_body d ctx w = (w, Inr ())" for ctx
    using assms(2) none by (simp add: reencrypt_body_def bind_def db_select_def guard_tx_def ret_def)
  show ?thesis
    by (auto simp: reencrypt_def withRequestContext_def withTenantContext_def Let_def bind_def lift_def io_throw_def throw_def
        setRls_no_tx [OF assms(1,2)] set_config_no_tx [OF assms(1,2)] body split: sum.splits)
qed

text \<open>The cleanup of old chats deletes nothing: it names no tenant, so that every message and conversation is hidden from
  it, and it reports success.\<close>

theorem cleanup_deletes_nothing:
  assumes "\<not> w_inTx w" "\<not> w_failed w" "w_gucs w = []"
  shows "w_tables (fst (cleanup interval older days w)) = w_tables w \<and>
    (interval (num_to_string (retention_days days) @ '' days'') \<longrightarrow> snd (cleanup interval older days w) = Inr ())"
  using assms
  by (auto simp: cleanup_def cleanup_body_def delete_older_def Let_def bind_def tx_begin_def tx_commit_def tx_rollback_def ret_def
      db_delete_def guard_tx_def fail_stmt_def noted_def row_allowed_def current_tenant_def rls_tables_def fun_upd_idem)

section \<open>What the re-encryption writes\<close>

definition hash_columns :: "string list" where
  "hash_columns = [''name_hash'', ''email_hashes'', ''phone_hashes'', ''vin_hashes'', ''license_plate_hashes'', ''address_hash'']"

definition unhashed :: "row \<Rightarrow> bool" where "unhashed r \<longleftrightarrow> list_all (\<lambda>c. col r c = SNull) hash_columns"

text \<open>A write of the vault replaces the record of its repair order, if there is one, and keeps all others.\<close>

lemma vault_insert:
  assumes "writePiiVaultRecord ctx ro u s no_hashes w = (w', Inr ())" "cx_tenantId ctx = Some t"
  shows "w_gucs w' = w_gucs w"
    "\<forall>r \<in> set (w_tables w' ''app.pii_vault''). unhashed r \<or>
       (r \<in> set (w_tables w ''app.pii_vault'') \<and> \<not> (col r ''tenant_id'' = SText t \<and> col r ''ro_id'' = SText ro))"
proof -
  let ?cols = "[''tenant_id'', ''ro_id'', ''customer_id'', ''customer_uuid'', ''key_ref'', ''nonce'', ''ciphertext'', ''name_hash'',
      ''email_hashes'', ''phone_hashes'', ''vin_hashes'', ''license_plate_hashes'', ''address_hash'']"
  let ?params = "[SText t, SText ro, SText u, SText u, SText (se_keyRef s), SBytes (se_nonce s), SBytes (se_ciphertext s),
      SNull, SNull, SNull, SNull, SNull, SNull]"
  let ?new = "zip ?cols ?params"
  have new: "unhashed ?new" "col ?new ''tenant_id'' = SText t" "col ?new ''ro_id'' = SText ro"
    by (simp_all add: unhashed_def hash_columns_def col_def)
  have key: "same_key [''tenant_id'', ''ro_id''] ?new r \<longleftrightarrow> col r ''tenant_id'' = SText t \<and> col r ''ro_id'' = SText ro" for r
    unfolding same_key_def using new by auto
  have ins: "db_insert ''app.pii_vault'' ?cols 13 ?params (Some [''tenant_id'', ''ro_id'']) w = (w', Inr ())"
    using assms by (auto simp: writePiiVaultRecord_def bind_ok lift_def no_hashes_def sql_text_def sql_array_def)
  then show "w_gucs w' = w_gucs w"
    by (auto simp: db_insert_def guard_tx_def Let_def fail_stmt_def noted_def split: if_splits)
  define old where "old = w_tables w ''app.pii_vault''"
  have "w_tables w' ''app.pii_vault'' = (if list_ex (same_key [''tenant_id'', ''ro_id''] ?new) old
      then map (\<lambda>r. if same_key [''tenant_id'', ''ro_id''] ?new r then ?new else r) old else old @ [?new])"
    using ins unfolding old_def
    by (auto simp: db_insert_def guard_tx_def Let_def fail_stmt_def noted_def simp del: zip_Cons_Cons split: if_splits)
  moreover have "\<not> list_ex (same_key [''tenant_id'', ''ro_id''] ?new) old \<Longrightarrow> r \<in> set old \<Longrightarrow> \<not> same_key [''tenant_id'', ''ro_id''] ?new r" for r
    by (auto simp: list_ex_iff)
  ultimately show "\<forall>r \<in> set (w_tables w' ''app.pii_vault''). unhashed r \<or>
       (r \<in> set (w_tables w ''app.pii_vault'') \<and> \<not> (col r ''tenant_id'' = SText t \<and> col r ''ro_id'' = SText ro))"
    using new(1) unfolding key [symmetric] old_def [symmetric] by (auto split: if_splits)
qed

lemma reencrypted_record:
  assumes "reencrypt_record d ctx s w = (w', Inr ())" "cx_tenantId ctx = Some t"
  shows "w_gucs w' = w_gucs w"
    "\<forall>r \<in> set (w_tables w' ''app.pii_vault''). unhashed r \<or>
       (r \<in> set (w_tables w ''app.pii_vault'') \<and> \<not> (col r ''tenant_id'' = SText t \<and> col r ''ro_id'' = SText (text_col s ''ro_id'')))"
proof -
  obtain u e where "writePiiVaultRecord ctx (text_col s ''ro_id'') u e no_hashes w = (w', Inr ())"
    using assms(1) by (auto simp: reencrypt_record_def Let_def bind_ok lift_def split: if_splits)
  from vault_insert [OF this assms(2)] show "w_gucs w' = w_gucs w"
    "\<forall>r \<in> set (w_tables w' ''app.pii_vault''). unhashed r \<or>
       (r \<in> set (w_tables w ''app.pii_vault'') \<and> \<not> (col r ''tenant_id'' = SText t \<and> col r ''ro_id'' = SText (text_col s ''ro_id'')))"
    by blast+
qed

lemma reencrypted_records:
  assumes "cx_tenantId ctx = Some t"
  shows "io_each (reencrypt_record d ctx) ss w = (w', Inr ()) \<Longrightarrow>
    (\<And>r. r \<in> set (w_tables w ''app.pii_vault'') \<Longrightarrow> col r ''tenant_id'' = SText t \<Longrightarrow> unhashed r \<or> (\<exists>s \<in> set ss. col r ''ro_id'' = SText (text_col s ''ro_id''))) \<Longrightarrow>
    w_gucs w' = w_gucs w \<and> (\<forall>r \<in> set (w_tables w' ''app.pii_vault''). col r ''tenant_id'' = SText t \<longrightarrow> unhashed r)"
proof (induction ss arbitrary: w)
  case (Cons s ss)
  then obtain w1 where w1: "reencrypt_record d ctx s w = (w1, Inr ())" "io_each (reencrypt_record d ctx) ss w1 = (w', Inr ())"
    by (auto simp: bind_ok)
  note r = reencrypted_record [OF w1(1) assms]
  have "unhashed q \<or> (\<exists>s \<in> set ss. col q ''ro_id'' = SText (text_col s ''ro_id''))"
    if "q \<in> set (w_tables w1 ''app.pii_vault'')" "col q ''tenant_id'' = SText t" for q
    using r(2) that Cons.prems(2) [of q] by fastforce
  then show ?case using Cons.IH [OF w1(2)] r(1) by simp
qed (auto simp: ret_def)

lemma unhashed_never_matches: "unhashed r \<Longrightarrow> \<not> hash_match ctx hashes r"
  by (simp add: unhashed_def hash_columns_def hash_match_def eq_any_def overlaps_def)

text \<open>C40: in a session that does see the records, the re-encryption forgets their hashes: after it no set of hashes finds a
  customer of the tenant any more.\<close>

theorem reencryption_forgets_customers:
  assumes "reencrypt_body d ctx w = (w', Inr ())" "cx_tenantId ctx = Some t" "current_tenant w = Some t" "\<not> w_failed w'"
    and "\<And>r. r \<in> set (w_tables w ''app.pii_vault'') \<Longrightarrow> \<exists>ro. col r ''ro_id'' = SText ro"
  shows "findCustomerUuidByHashes ctx hashes w' = (w', Inr None)"
proof -
  let ?records = "filter (\<lambda>r. col r ''tenant_id'' = SText t) (visible w ''app.pii_vault'')"
  have each: "io_each (reencrypt_record d ctx) ?records w = (w', Inr ())"
    using assms(1,2) by (auto simp: reencrypt_body_def bind_ok db_select_def guard_tx_def sql_text_def split: if_splits)
  have "r \<in> set ?records" if "r \<in> set (w_tables w ''app.pii_vault'')" "col r ''tenant_id'' = SText t" for r
    using that assms(3) by (simp add: visible_def row_allowed_def)
  moreover have "col r ''ro_id'' = SText (text_col r ''ro_id'')" if "r \<in> set (w_tables w ''app.pii_vault'')" for r
    using assms(5) [OF that] by (auto simp: text_col_def)
  ultimately have all: "\<forall>r \<in> set (w_tables w' ''app.pii_vault''). col r ''tenant_id'' = SText t \<longrightarrow> unhashed r"
    using reencrypted_records [OF assms(2) each] by blast
  have "hash_match ctx hashes r \<Longrightarrow> col r ''tenant_id'' = SText t" for r
    using assms(2) by (simp add: hash_match_def str_or_empty_def)
  then have none: "filter (hash_match ctx hashes) (visible w' ''app.pii_vault'') = []"
    using all unhashed_never_matches by (fastforce simp: filter_empty_conv visible_def)
  show ?thesis
    by (simp add: findCustomerUuidByHashes_def bind_def db_select_def guard_tx_def ret_def assms(4)) (simp add: none)
qed

text \<open>A vault with one record.\<close>

definition sample_crypto :: CryptoDeps where
  "sample_crypto = \<lparr>cd_seal = (\<lambda>k n x. (x, replicate 16 CHR ''t'')), cd_unseal = (\<lambda>k n c t. Inr c),
     cd_json = (\<lambda>p. str_or_empty (pp_customerName p)), cd_parse = (\<lambda>x. Inr (initPiiPayload\<lparr>pp_customerName := Some x\<rparr>)),
     cd_ring = Inr \<lparr>kr_active = ''k2'', kr_keys = [(''k1'', replicate 32 CHR ''a''), (''k2'', replicate 32 CHR ''b'')]\<rparr>,
     cd_nonce = (\<lambda>ro. ''n'' @ ro)\<rparr>"

definition sample_record :: row where
  "sample_record = [(''tenant_id'', sql_text (cx_tenantId sample_ctx)), (''ro_id'', SText ''ro1''), (''customer_uuid'', SText ''c1''),
     (''key_ref'', SText ''k1''), (''nonce'', SBytes ''n''), (''ciphertext'', SBytes (''Ann'' @ replicate 16 CHR ''t'')),
     (''email_hashes'', sql_array [''h''])]"

definition sample_vault :: World where
  "sample_vault = (tx_world sample_ctx sample_world)\<lparr>w_tables := (\<lambda>_. [])(''app.pii_vault'' := [sample_record])\<rparr>"

theorem reencryption_witness:
  "\<exists>w'. reencrypt_body sample_crypto sample_ctx sample_vault = (w', Inr ()) \<and>
     is_ok (snd (findCustomerUuidByHashes sample_ctx [''h''] sample_vault)) \<and>
     snd (findCustomerUuidByHashes sample_ctx [''h''] sample_vault) \<noteq> Inr None \<and>
     findCustomerUuidByHashes sample_ctx [''h''] w' = (w', Inr None)"
proof -
  let ?r = "reencrypt_body sample_crypto sample_ctx sample_vault"
  have "is_ok (snd ?r) \<and> \<not> w_failed (fst ?r)" by code_simp
  then obtain w' where w': "?r = (w', Inr ())" "\<not> w_failed w'" by (cases ?r) (auto simp: is_ok_iff)
  obtain t where t: "cx_tenantId sample_ctx = Some t" by (simp add: sample_ctx_def)
  have "current_tenant sample_vault = cx_tenantId sample_ctx" by code_simp
  then have "findCustomerUuidByHashes sample_ctx [''h''] w' = (w', Inr None)"
    by (intro reencryption_forgets_customers [OF w'(1) t _ w'(2)])
      (simp_all add: t sample_vault_def sample_record_def col_def)
  moreover have "is_ok (snd (findCustomerUuidByHashes sample_ctx [''h''] sample_vault))" by code_simp
  moreover have "snd (findCustomerUuidByHashes sample_ctx [''h''] sample_vault) \<noteq> Inr None" by code_simp
  ultimately show ?thesis using w' by blast
qed

end
