(* ===== verification/Guards.thy ===== *)
theory Guards
  imports JsRegex
begin

text \<open>
  scripts/ci/schema_v2_guards.ts: the checks that run before a merge. They search the repository with commands given to the
  shell as one string and compare what comes out. The shell, the files and the environment variable with the base commit are
  arguments; console output is the message of the result.
\<close>

section \<open>The surroundings\<close>

text \<open>What \<open>execSync\<close> gives: the output, the code of a command that failed with the message of the error, or the message of
  one that could not be started.\<close>

datatype ShResult = Output string | ExitCode nat string | NotStarted string

record GuardEnv =
  ge_sh :: "string \<Rightarrow> ShResult"
  ge_read :: "string \<Rightarrow> string res"
  ge_exists :: "string \<Rightarrow> bool"
  ge_baseSha :: "string option"

definition nl :: string where "nl = [CHR 0x0A]"

text \<open>Patterns are written with a tilde for the backslash.\<close>

definition bsl :: "string \<Rightarrow> string" where "bsl s = map (\<lambda>c. if c = CHR ''~'' then CHR 0x5C else c) s"

definition guard_roots :: "string list" where
  "guard_roots = [''platform'', ''workloads'', ''shared'', ''scripts'', ''ops'', ''app'']"

definition baseRgArgs :: "string list" where
  "baseRgArgs =
     [''-n'', ''--hidden'', ''--glob'', ''!.git/**'', ''--glob'', ''!node_modules/**'', ''--glob'', ''!dist/**'',
      ''--glob'', ''!docs/**'', ''--glob'', ''!specs/**'', ''--glob'', ''!workloads/ro-assistant/db/migrations/**'']"

definition run_cmd :: "GuardEnv \<Rightarrow> string \<Rightarrow> ShResult" where
  "run_cmd g cmd = (case ge_sh g cmd of Output out \<Rightarrow> Output (js_trim out) | r \<Rightarrow> r)"

definition rg_command :: "string \<Rightarrow> string list \<Rightarrow> string list \<Rightarrow> string" where
  "rg_command pattern paths extraArgs = js_join '' '' ([''rg''] @ baseRgArgs @ extraArgs @ [pattern] @ paths)"

definition runRg :: "GuardEnv \<Rightarrow> string \<Rightarrow> string list \<Rightarrow> string list \<Rightarrow> string list res" where
  "runRg g pattern paths extraArgs =
     (case run_cmd g (rg_command pattern paths extraArgs) of
        Output out \<Rightarrow> ok (if out = [] then [] else js_split out nl)
      | ExitCode n m \<Rightarrow> if n = 1 then ok [] else Inl (Js m)
      | NotStarted m \<Rightarrow> Inl (Js m))"

definition guard_fail :: "string \<Rightarrow> string list \<Rightarrow> 'a res" where
  "guard_fail title details =
     Inl (Js (js_join nl ((''[schema-v2-guard] '' @ title) # map (\<lambda>line. ''  - '' @ line) details)))"

definition expect_none :: "string \<Rightarrow> string list \<Rightarrow> unit res" where
  "expect_none title offenders = (if offenders \<noteq> [] then guard_fail title offenders else ok ())"

section \<open>The checks\<close>

definition legacy_pattern :: string where
  "legacy_pattern = bsl ''~bro_chunks~b|~bro_embeddings~b|~bapp~.ro_chunks~b|~bapp~.ro_embeddings~b|~bro_deterministic~b''"

definition checkLegacyTables :: "GuardEnv \<Rightarrow> unit res" where
  "checkLegacyTables g =
     res_bind (runRg g legacy_pattern guard_roots []) (expect_none ''Schema violation: legacy table reference detected'')"

definition checkPgcryptoUsage :: "GuardEnv \<Rightarrow> unit res" where
  "checkPgcryptoUsage g =
     (let forbiddenMessage = ''pgcrypto usage is forbidden; UUIDs must be generated in application code.''
      in res_bind (runRg g (bsl ''CREATE EXTENSION~s+pgcrypto|gen_random_uuid~(|digest~(|crypt~(|hmac~('')
             [''workloads/ro-assistant/db/migrations''] [''-g'', ''*.sql'']) (\<lambda>sqlMatches.
           res_bind (expect_none forbiddenMessage sqlMatches) (\<lambda>_.
             res_bind (runRg g (bsl ''gen_random_uuid~(|digest~(|crypt~(|hmac~('') [''platform'', ''workloads'']
               [''-g'', ''*.ts'', ''-g'', ''*.js'']) (\<lambda>codeMatches.
             expect_none forbiddenMessage
               (filter (\<lambda>line. \<not> startsWith line ''shared/utils/hash.ts'' \<and>
                               \<not> startsWith line ''workloads/ro-assistant/src/services/pii/piiHash.ts'' \<and>
                               \<not> startsWith line ''scripts/ftp_intake_watcher.ts'') codeMatches)))))"

definition demoFiles :: "string list" where
  "demoFiles = [''platform/gateway/src/http/routes/requestDemo.ts'',
                ''platform/gateway/src/core/notifications/demoRequestEmail.ts'',
                ''platform/gateway/src/http/public-site/public-site.js'']"

definition checkDemoLogic :: "GuardEnv \<Rightarrow> unit res" where
  "checkDemoLogic g =
     res_bind (expect_none ''Demo regression: demo runtime files present'' (filter (ge_exists g) demoFiles)) (\<lambda>_.
     res_bind (runRg g ''request-demo|requestDemo|demoRequestEmail|DEMO_REQUEST_|SENDGRID''
                 [''platform/gateway/src/http'', ''platform/gateway/src/core''] [])
       (expect_none ''Demo regression: demo routes or config detected''))"

definition checkPiiReadEndpoints :: "GuardEnv \<Rightarrow> unit res" where
  "checkPiiReadEndpoints g =
     res_bind (runRg g (bsl ''~/pii~/'')
                 [''platform/gateway/src/http/routes'', ''workloads/ro-assistant/src/routes'', ''platform/gateway/src/http/middleware''] [])
       (expect_none ''PII regression: PII read endpoint referenced'')"

text \<open>The files of a list whose content a test finds at fault; a file that cannot be read ends the check.\<close>

definition offending :: "GuardEnv \<Rightarrow> (string \<Rightarrow> bool) \<Rightarrow> string list \<Rightarrow> string list res" where
  "offending g bad files =
     res_fold (\<lambda>file offenders. res_bind (ge_read g file) (\<lambda>content. ok (if bad content then offenders @ [file] else offenders))) files []"

text \<open>\<open>/logger\\\\.|console\\\\./\<close>, as the code writes it: a backslash and any other character.\<close>

definition logging_rx :: rx where
  "logging_rx = rx_alt [rx_seq [str ''logger'', chr (CHR 0x5C), RCls (\<lambda>c. c \<noteq> CHR 0x0A \<and> c \<noteq> CHR 0x0D)],
                        rx_seq [str ''console'', chr (CHR 0x5C), RCls (\<lambda>c. c \<noteq> CHR 0x0A \<and> c \<noteq> CHR 0x0D)]]"

definition checkPiiLogging :: "GuardEnv \<Rightarrow> unit res" where
  "checkPiiLogging g =
     res_bind (runRg g ''decryptPiiPayload'' guard_roots [''-l'']) (\<lambda>files.
     res_bind (offending g (rx_test logging_rx) files) (expect_none ''PII regression: decrypted PII logged''))"

definition checkEmbeddingRedaction :: "GuardEnv \<Rightarrow> unit res" where
  "checkEmbeddingRedaction g =
     res_bind (runRg g (bsl ''embedChunks~('') [''workloads/ro-assistant/src''] [''-l'']) (\<lambda>chunkFiles.
     res_bind (offending g (\<lambda>content. \<not> js_includes content ''redactSemanticText('') chunkFiles) (\<lambda>offenders.
     res_bind (expect_none ''PII regression: embedding without redacted semantic text'' offenders) (\<lambda>_.
     res_bind (runRg g (bsl ''embedQuery~('') [''workloads/ro-assistant/src''] [''-l'']) (\<lambda>queryFiles.
     res_bind (offending g (\<lambda>content. \<not> js_includes content ''redactPII('') queryFiles)
       (expect_none ''PII regression: query embedding without redaction'')))))"

definition checkTenantHeaderReads :: "GuardEnv \<Rightarrow> unit res" where
  "checkTenantHeaderReads g =
     res_bind (runRg g ''x-tenant-id|x-scope-tenant-id|x-scope-group-id'' [''platform/gateway/src''] []) (\<lambda>matches.
     expect_none ''Tenant regression: tenant scope headers read outside authContext''
       (filter (\<lambda>line. \<not> startsWith line ''platform/gateway/src/http/middleware/authContext.ts'') matches))"

definition quote :: string where "quote = [CHR 0x27]"
definition dquote :: string where "dquote = [CHR 0x22]"

definition checkTestTenantBootstrap :: "GuardEnv \<Rightarrow> unit res" where
  "checkTestTenantBootstrap g =
     res_bind (runRg g (bsl ''INSERT INTO app~.'') [''scripts/tests''] [''-l'']) (\<lambda>files.
     res_bind (offending g (\<lambda>content.
         \<not> (js_includes content ''bootstrapTenant('' \<or>
            js_includes content (''set_config('' @ quote @ ''app.tenant_id'' @ quote) \<or>
            js_includes content (''set_config('' @ dquote @ ''app.tenant_id'' @ dquote))) files)
       (expect_none ''Tenant regression: test inserts without explicit tenant context''))"

section \<open>The checks of the difference to the base\<close>

text \<open>\<open>line.split(/\\s+/)\<close>\<close>

function split_ws :: "string \<Rightarrow> string list" where
  "split_ws s =
     (case dropWhile (\<lambda>c. \<not> is_ws c) s of
        [] \<Rightarrow> [s]
      | c # rest \<Rightarrow> takeWhile (\<lambda>c. \<not> is_ws c) s # split_ws (dropWhile is_ws rest))"
  by pat_completeness auto
termination
proof (relation "measure length", goal_cases)
  case (2 s c rest)
  have "length (dropWhile is_ws rest) < length (c # rest)" by (simp add: length_dropWhile_le le_imp_less_Suc)
  also have "\<dots> \<le> length s" using length_dropWhile_le [of "\<lambda>c. \<not> is_ws c" s] by (simp add: 2)
  finally show ?case by simp
qed simp

declare split_ws.simps [simp del]

definition diff_command :: "GuardEnv \<Rightarrow> string" where
  "diff_command g =
     (let baseSha = map_option js_trim (ge_baseSha g)
      in if truthy baseSha then ''git diff --name-status '' @ the baseSha @ ''...HEAD'' else ''git diff --name-status HEAD~1'')"

text \<open>The lines of the difference, each with its status and its first file; none if there is nothing to compare with.\<close>

definition diff_entries :: "GuardEnv \<Rightarrow> (string \<times> string) list" where
  "diff_entries g =
     (case run_cmd g (diff_command g) of
        Output diff \<Rightarrow>
          concat (map (\<lambda>line. case split_ws line of status # file # _ \<Rightarrow> if file = [] then [] else [(status, file)] | _ \<Rightarrow> [])
            (filter (\<lambda>line. line \<noteq> []) (js_split diff nl)))
      | _ \<Rightarrow> [])"

definition is_migration :: "string \<Rightarrow> bool" where
  "is_migration file \<longleftrightarrow> startsWith file ''workloads/ro-assistant/db/migrations/'' \<and> endsWith file ''.sql''"

definition checkMigrationImmutability :: "GuardEnv \<Rightarrow> unit res" where
  "checkMigrationImmutability g =
     expect_none ''Schema violation: historical migrations modified''
       (map (\<lambda>(status, file). status @ '' '' @ file) (filter (\<lambda>(status, file). is_migration file \<and> status \<noteq> ''A'') (diff_entries g)))"

definition checkDemoFilesAdded :: "GuardEnv \<Rightarrow> unit res" where
  "checkDemoFilesAdded g =
     expect_none ''Demo regression: new demo-related runtime files added''
       (map snd (filter (\<lambda>(status, file). status = ''A'' \<and> startsWith file ''platform/gateway/src/http/'' \<and> rx_test (str_i ''demo'') file)
         (diff_entries g)))"

section \<open>All of them\<close>

definition guards_main :: "GuardEnv \<Rightarrow> unit res" where
  "guards_main g =
     res_bind (checkLegacyTables g) (\<lambda>_. res_bind (checkPgcryptoUsage g) (\<lambda>_.
     res_bind (checkMigrationImmutability g) (\<lambda>_. res_bind (checkDemoLogic g) (\<lambda>_.
     res_bind (checkDemoFilesAdded g) (\<lambda>_. res_bind (checkPiiReadEndpoints g) (\<lambda>_.
     res_bind (checkPiiLogging g) (\<lambda>_. res_bind (checkEmbeddingRedaction g) (\<lambda>_.
     res_bind (checkTenantHeaderReads g) (\<lambda>_. checkTestTenantBootstrap g)))))))))"

end
