(* ===== verification/GuardsFacts.thy ===== *)
theory GuardsFacts
  imports Guards
begin

text \<open>
  Facts about the guards: the check of the migrations refuses exactly the differences that touch an existing migration; the
  check for logged personal data sees no call; and on a shell that reads the alternatives of a pattern as a pipe no run of
  the guards passes.
\<close>

section \<open>Reading a difference\<close>

definition ws_free :: "string \<Rightarrow> bool" where "ws_free s \<longleftrightarrow> s \<noteq> [] \<and> list_all (\<lambda>c. \<not> is_ws c) s"

lemma ws_freeD: "ws_free s \<Longrightarrow> s \<noteq> [] \<and> (\<forall>c \<in> set s. \<not> is_ws c)"
  by (simp add: ws_free_def list_all_iff)

lemma split_ws_word:
  assumes "ws_free s"
  shows "split_ws s = [s]"
proof -
  have d: "dropWhile (\<lambda>c. \<not> is_ws c) s = []" using ws_freeD [OF assms] by simp
  show ?thesis by (subst split_ws.simps, subst d) simp
qed

lemma split_ws_Cons:
  assumes "ws_free s" "is_ws c" "t \<noteq> []" "\<not> is_ws (hd t)"
  shows "split_ws (s @ c # t) = s # split_ws t"
proof -
  have s: "\<forall>x \<in> set s. \<not> is_ws x" using ws_freeD [OF assms(1)] by blast
  have "dropWhile (\<lambda>c. \<not> is_ws c) (s @ c # t) = c # t" "takeWhile (\<lambda>c. \<not> is_ws c) (s @ c # t) = s" "dropWhile is_ws t = t"
    using s assms(2,3,4) by (simp_all add: dropWhile_append3 takeWhile_append2 dropWhile_eq_self_iff)
  then show ?thesis by (subst split_ws.simps) simp
qed

lemma join_head:
  assumes "list_all ws_free ws" "ws \<noteq> []"
  shows "js_join [c] ws \<noteq> [] \<and> \<not> is_ws (hd (js_join [c] ws)) \<and> \<not> is_ws (last (js_join [c] ws))"
  using assms
proof (induction ws rule: induct_list012)
  case (3 x y xs)
  then have x: "x \<noteq> []" "\<not> is_ws (hd x)" by (auto dest: ws_freeD)
  have "js_join [c] (y # xs) \<noteq> []" "\<not> is_ws (last (js_join [c] (y # xs)))" using 3 by simp_all
  then show ?case using x by (simp add: last_append)
qed (auto dest: ws_freeD)

lemma split_ws_join: "list_all ws_free ws \<Longrightarrow> ws \<noteq> [] \<Longrightarrow> is_ws c \<Longrightarrow> split_ws (js_join [c] ws) = ws"
proof (induction ws rule: induct_list012)
  case (3 x y xs)
  then show ?case using join_head [of "y # xs" c] by (simp add: split_ws_Cons)
qed (simp_all add: split_ws_word)

lemma split_join: "ls \<noteq> [] \<Longrightarrow> (\<And>l. l \<in> set ls \<Longrightarrow> c \<notin> set l) \<Longrightarrow> js_split (js_join [c] ls) [c] = ls"
  by (induction ls rule: induct_list012) (simp_all add: js_split_absent js_split_Cons)

lemma trim_lines: "s \<noteq> [] \<Longrightarrow> \<not> is_ws (hd s) \<Longrightarrow> \<not> is_ws (last s) \<Longrightarrow> list_all is_ws t \<Longrightarrow> js_trim (s @ t) = s"
proof -
  assume s: "s \<noteq> []" "\<not> is_ws (hd s)" "\<not> is_ws (last s)" and t: "list_all is_ws t"
  have "dropWhile is_ws (s @ t) = s @ t" using s by (cases s) simp_all
  moreover have "dropWhile is_ws (rev t @ rev s) = dropWhile is_ws (rev s)" using t dropWhile_append2 [of "rev t" is_ws] by (simp add: list_all_iff)
  moreover have "dropWhile is_ws (rev s) = rev s" using s by (cases s rule: rev_cases) simp_all
  ultimately show ?thesis by (simp add: js_trim_def)
qed

text \<open>A difference as git prints it: a status and one file, or two for a rename or a copy, in each line.\<close>

type_synonym diff_line = "string \<times> string list"

definition tab :: char where "tab = CHR 0x09"

definition line_of :: "diff_line \<Rightarrow> string" where "line_of e = js_join [tab] (fst e # snd e)"

definition printed :: "diff_line list \<Rightarrow> string" where "printed es = concat (map (\<lambda>e. line_of e @ nl) es)"

definition plain_line :: "diff_line \<Rightarrow> bool" where
  "plain_line e \<longleftrightarrow> ws_free (fst e) \<and> snd e \<noteq> [] \<and> list_all ws_free (snd e)"

lemma printed_join: "es \<noteq> [] \<Longrightarrow> printed es = js_join nl (map line_of es) @ nl"
  by (induction es rule: induct_list012) (simp_all add: printed_def)

lemma line_shape:
  assumes "plain_line e"
  shows "line_of e \<noteq> []" "\<not> is_ws (hd (line_of e))" "\<not> is_ws (last (line_of e))" "CHR 0x0A \<notin> set (line_of e)"
    "split_ws (line_of e) = fst e # snd e"
proof -
  have p: "list_all ws_free (fst e # snd e)" using assms by (simp add: plain_line_def)
  show "line_of e \<noteq> []" "\<not> is_ws (hd (line_of e))" "\<not> is_ws (last (line_of e))"
    unfolding line_of_def using join_head [OF p] by blast+
  have "is_ws tab" "is_ws (CHR 0x0A)" "tab \<noteq> CHR 0x0A" by code_simp+
  then show "split_ws (line_of e) = fst e # snd e" unfolding line_of_def using split_ws_join [OF p] by simp
  have "x \<in> set (js_join [tab] ws) \<Longrightarrow> x = tab \<or> (\<exists>w \<in> set ws. x \<in> set w)" for x ws
    by (induction ws rule: induct_list012) auto
  then show "CHR 0x0A \<notin> set (line_of e)"
    using p \<open>tab \<noteq> CHR 0x0A\<close> \<open>is_ws (CHR 0x0A)\<close> ws_freeD unfolding line_of_def list_all_iff by metis
qed

lemma joined_shape:
  assumes "ls \<noteq> []" "\<forall>l \<in> set ls. l \<noteq> [] \<and> \<not> is_ws (hd l) \<and> \<not> is_ws (last l)"
  shows "js_join nl ls \<noteq> [] \<and> \<not> is_ws (hd (js_join nl ls)) \<and> \<not> is_ws (last (js_join nl ls))"
  using assms
proof (induction ls rule: induct_list012)
  case (3 x y xs)
  then have "js_join nl (y # xs) \<noteq> []" "\<not> is_ws (last (js_join nl (y # xs)))" by simp_all
  then show ?case using 3 by (simp add: last_append)
qed simp_all

lemma printed_entries:
  assumes "ge_sh g (diff_command g) = Output (printed es)" "list_all plain_line es"
  shows "diff_entries g = map (\<lambda>e. (fst e, hd (snd e))) es"
proof (cases "es = []")
  case True
  have "js_trim [] = []" "js_split [] nl = [[]]" by code_simp+
  then show ?thesis using assms(1) True by (simp add: diff_entries_def run_cmd_def printed_def)
next
  case False
  let ?ls = "map line_of es"
  have e: "plain_line e" if "e \<in> set es" for e using assms(2) that by (simp add: list_all_iff)
  have "\<forall>l \<in> set ?ls. l \<noteq> [] \<and> \<not> is_ws (hd l) \<and> \<not> is_ws (last l)" using line_shape(1,2,3) [OF e] by auto
  moreover have "list_all is_ws nl" by code_simp
  ultimately have trim: "js_trim (printed es) = js_join nl ?ls"
    using joined_shape [of ?ls] trim_lines [of "js_join nl ?ls" nl] False by (simp add: printed_join)
  have split: "js_split (js_join nl ?ls) nl = ?ls"
    unfolding nl_def by (rule split_join) (use line_shape(4) [OF e] False in auto)
  have "filter (\<lambda>l. l \<noteq> []) ?ls = ?ls" using line_shape(1) [OF e] by (auto simp: filter_id_conv)
  moreover have "(case split_ws (line_of e) of status # file # _ \<Rightarrow> if file = [] then [] else [(status, file)] | _ \<Rightarrow> []) = [(fst e, hd (snd e))]"
    if m: "e \<in> set es" for e
  proof -
    obtain f fs where "snd e = f # fs" "f \<noteq> []" using e [OF m] by (cases "snd e") (auto simp: plain_line_def ws_free_def)
    then show ?thesis by (simp add: line_shape(5) [OF e [OF m]])
  qed
  ultimately have "concat (map (\<lambda>line. case split_ws line of status # file # _ \<Rightarrow> if file = [] then [] else [(status, file)] | _ \<Rightarrow> [])
      (filter (\<lambda>l. l \<noteq> []) ?ls)) = concat (map (\<lambda>e. [(fst e, hd (snd e))]) es)"
    by (simp add: comp_def cong: map_cong)
  then show ?thesis using assms(1) by (simp add: diff_entries_def run_cmd_def trim split concat_map_singleton)
qed

text \<open>Whatever git prints, the guard passes exactly if every line whose first file is a migration adds it: a change, a
  removal and a renaming of an old migration are refused.\<close>

theorem migrations_only_added:
  assumes "ge_sh g (diff_command g) = Output (printed es)" "list_all plain_line es"
  shows "is_ok (checkMigrationImmutability g) \<longleftrightarrow> (\<forall>e \<in> set es. is_migration (hd (snd e)) \<longrightarrow> fst e = ''A'')"
  by (auto simp: checkMigrationImmutability_def expect_none_def guard_fail_def printed_entries [OF assms] filter_empty_conv)

definition sample_diff :: "diff_line list" where
  "sample_diff = [(''A'', [''workloads/ro-assistant/db/migrations/0030_x.sql'']),
                  (''R100'', [''workloads/ro-assistant/db/migrations/0001_a.sql'', ''old/a.sql''])]"

definition sample_guards :: GuardEnv where
  "sample_guards = \<lparr>ge_sh = (\<lambda>_. Output (printed sample_diff)), ge_read = (\<lambda>_. Inr []), ge_exists = (\<lambda>_. False), ge_baseSha = None\<rparr>"

theorem migrations_witness: "\<not> is_ok (checkMigrationImmutability sample_guards)"
proof -
  have "list_all plain_line sample_diff" "\<not> (\<forall>e \<in> set sample_diff. is_migration (hd (snd e)) \<longrightarrow> fst e = ''A'')" by code_simp+
  then show ?thesis using migrations_only_added [of sample_guards sample_diff] by (simp add: sample_guards_def)
qed

section \<open>The check for logged data\<close>

lemma middle_char:
  "(w, d) \<in> set (rx_ends (RSeq a (RSeq (chr x) b)) p s c) \<Longrightarrow> x \<in> set s"
proof -
  assume "(w, d) \<in> set (rx_ends (RSeq a (RSeq (chr x) b)) p s c)"
  then have "\<exists>(u :: string) rest. x # rest = drop (length u) s"
    by (auto simp: m_seq_mem chr_def split: list.splits if_splits)
  then obtain u :: string and rest where u: "x # rest = drop (length u) s" by blast
  have "x \<in> set (drop (length u) s)" unfolding u [symmetric] by simp
  then show ?thesis by (rule in_set_dropD)
qed

lemma found_needs:
  assumes "\<And>p s w d. (w, d) \<in> set (rx_ends r p s []) \<Longrightarrow> x \<in> set s"
  shows "rx_find r p s \<noteq> None \<Longrightarrow> x \<in> set s"
proof (induction s arbitrary: p)
  case Nil
  then show ?case using assms [of _ _ p "[]"] by (subst (asm) rx_find.simps) (auto split: list.splits)
next
  case (Cons y s)
  show ?case
  proof (cases "rx_ends r p (y # s) []")
    case Nil
    then have "rx_find r (Some y) s \<noteq> None" using Cons.prems by (subst (asm) rx_find.simps) auto
    then show ?thesis using Cons.IH by simp
  next
    case (Cons m ms)
    then show ?thesis using assms [of "fst m" "snd m" p "y # s"] by simp
  qed
qed

text \<open>The expression asks for a backslash: no content without one is at fault, whatever it logs.\<close>

theorem logging_check_asks_for_backslash: "CHR 0x5C \<notin> set content \<Longrightarrow> \<not> rx_test logging_rx content"
proof -
  have "(w, d) \<in> set (rx_ends logging_rx p s []) \<Longrightarrow> CHR 0x5C \<in> set s" for w d p s
    unfolding logging_rx_def rx_alt.simps rx_seq.simps rx_ends.simps(4) set_append Un_iff using middle_char by blast
  then show "CHR 0x5C \<notin> set content \<Longrightarrow> \<not> rx_test logging_rx content"
    unfolding rx_test_def using found_needs by blast
qed

section \<open>The commands as a shell reads them\<close>

text \<open>The name of the last command of a pipe, with the backslashes a shell removes.\<close>

definition last_command :: "string \<Rightarrow> string" where
  "last_command cmd = filter (\<lambda>c. c \<noteq> CHR 0x5C) (takeWhile (\<lambda>c. \<not> is_ws c) (last (js_split cmd ''|'')))"

definition unquoted :: "string \<Rightarrow> bool" where
  "unquoted cmd \<longleftrightarrow> list_all (\<lambda>c. c \<notin> set [CHR 0x22, CHR 0x27, CHR ''`'', CHR ''$'', CHR '';'', CHR ''&'']) cmd"

text \<open>A pipe whose last command is not known ends with the code 127.\<close>

definition pipes_fail :: "(string \<Rightarrow> ShResult) \<Rightarrow> string list \<Rightarrow> bool" where
  "pipes_fail sh known \<longleftrightarrow> (\<forall>cmd. CHR ''|'' \<in> set cmd \<longrightarrow> unquoted cmd \<longrightarrow> last_command cmd \<notin> set known \<longrightarrow> (\<exists>m. sh cmd = ExitCode 127 m))"

text \<open>The first guard, on such a shell, ends with the error of the shell: no run of the guards passes.\<close>

theorem guards_never_pass:
  assumes "pipes_fail (ge_sh g) known" "''bro_deterministicb'' \<notin> set known"
  shows "\<not> is_ok (guards_main g)"
proof -
  let ?cmd = "rg_command legacy_pattern guard_roots []"
  have "CHR ''|'' \<in> set ?cmd" "unquoted ?cmd" "last_command ?cmd = ''bro_deterministicb''" by code_simp+
  then obtain m where "ge_sh g ?cmd = ExitCode 127 m" using assms unfolding pipes_fail_def by metis
  then show ?thesis by (simp add: guards_main_def checkLegacyTables_def runRg_def run_cmd_def)
qed

end
