(* ===== verification/AppUi.thy ===== *)
theory AppUi
  imports JsNumber
begin

text \<open>
  http/app-ui/app.js, the chat page, as a state machine: the variables of the script together with what it writes to the
  page, one operation per function and one event per listener. The server is a record of functions on a state of its own,
  one for each request; a reply is what \<open>fetch\<close> gives, its JSON decoded to the form the routes answer with. The handler of
  an event runs to its end before the next event. Of the page the model has the texts, lists and flags the script sets;
  creating elements, scrolling and focus are left out.

  \<open>loadConversations\<close> and \<open>selectConversation\<close> call each other, without end if the server names a conversation by the empty
  text; the calls therefore take fuel and give None if it runs out.
\<close>

section \<open>Replies\<close>

datatype 'a JsonBody = NotJson | BadJson string | Parsed 'a "string option"   \<comment> \<open>the value and its message\<close>
datatype 'a HttpReply = NetworkFail string | Http nat string "'a JsonBody"       \<comment> \<open>status and text\<close>

record ChatMessage =
  ms_role :: string
  ms_content :: string
  ms_sources :: "string option list option"   \<comment> \<open>the order numbers\<close>

record Convo =
  cv_id :: string
  cv_title :: "string option"
  cv_last :: string

record PostReply =
  pr_conversation :: "string option"
  pr_answer :: "string option"
  pr_sources :: "string option list option"

record MeReply =
  me_role :: string
  me_tenantId :: "string option"

record 's AppServer =
  sv_me :: "'s \<Rightarrow> 's \<times> MeReply HttpReply"
  sv_conversations :: "'s \<Rightarrow> 's \<times> Convo list option HttpReply"
  sv_messages :: "string \<Rightarrow> 's \<Rightarrow> 's \<times> ChatMessage list option HttpReply"
  sv_create :: "'s \<Rightarrow> 's \<times> Convo option HttpReply"
  sv_post :: "string \<Rightarrow> string option \<Rightarrow> 's \<Rightarrow> 's \<times> PostReply HttpReply"
  sv_tenants :: "'s \<Rightarrow> 's \<times> (string \<times> string) list option HttpReply"
  sv_groups :: "'s \<Rightarrow> 's \<times> (string \<times> string) list option HttpReply"
  sv_logout :: "'s \<Rightarrow> 's \<times> unit HttpReply"
  sv_locale :: "string \<Rightarrow> string"   \<comment> \<open>\<open>new Date(x).toLocaleString()\<close>\<close>

section \<open>The page\<close>

datatype MessageNode = EmptyNote | Bubble string string "string option"   \<comment> \<open>class, text, sources\<close>

record ChatItem =
  ci_id :: string
  ci_title :: "string option"
  ci_text :: string
  ci_meta :: string
  ci_active :: bool

record 's AppPage =
  ap_server :: 's
  ap_requests :: "(string \<times> string) list"   \<comment> \<open>method and path, the last one first\<close>
  ap_role :: "string option"
  ap_current :: "string option"
  ap_scopeMode :: string
  ap_tenants :: "(string \<times> string) list"
  ap_groups :: "(string \<times> string) list"
  ap_messages :: "ChatMessage list"
  ap_chatList :: "ChatItem list"
  ap_messageList :: "MessageNode list"
  ap_chatTitle :: string
  ap_scopeStatus :: string
  ap_scopeValue :: string
  ap_options :: "(string \<times> string) list"
  ap_copyDisabled :: bool
  ap_copyLabel :: string
  ap_timers :: "string list"   \<comment> \<open>labels to be restored\<close>
  ap_clipboard :: "string option"
  ap_input :: string
  ap_account :: "(string \<times> string) option"   \<comment> \<open>the role and the start of the tenant's id, shown with a bullet between them\<close>
  ap_adminLink :: bool
  ap_scopePanel :: bool
  ap_location :: "string option"

type_synonym ('s, 'a) page = "'s AppPage \<Rightarrow> ('s AppPage \<times> 'a res) option"

definition pg_ret :: "'a \<Rightarrow> ('s, 'a) page" where "pg_ret x p = Some (p, Inr x)"

definition pg_do :: "('s AppPage \<Rightarrow> 's AppPage) \<Rightarrow> ('s, unit) page" where "pg_do f p = Some (f p, Inr ())"

definition pg_bind :: "('s, 'a) page \<Rightarrow> ('a \<Rightarrow> ('s, 'b) page) \<Rightarrow> ('s, 'b) page" where
  "pg_bind m f p = (case m p of None \<Rightarrow> None | Some (p', Inl e) \<Rightarrow> Some (p', Inl e) | Some (p', Inr x) \<Rightarrow> f x p')"

definition pg_catch :: "('s, 'a) page \<Rightarrow> (err \<Rightarrow> ('s, 'a) page) \<Rightarrow> ('s, 'a) page" where
  "pg_catch m h p = (case m p of Some (p', Inl e) \<Rightarrow> h e p' | r \<Rightarrow> r)"

definition err_message :: "err \<Rightarrow> string" where
  "err_message e = (case e of Js m \<Rightarrow> m | App a \<Rightarrow> ae_message a | Pg _ \<Rightarrow> [])"

section \<open>Requests\<close>

definition http_message :: "nat \<Rightarrow> string \<Rightarrow> 'a JsonBody \<Rightarrow> string" where
  "http_message status text body =
     (case body of
        Parsed _ (Some m) \<Rightarrow> if m \<noteq> [] then m else if text \<noteq> [] then text else ''Request failed ('' @ digits_of (int status) @ '')''
      | _ \<Rightarrow> if text \<noteq> [] then text else ''Request failed ('' @ digits_of (int status) @ '')'')"

text \<open>\<open>apiFetch\<close> on a reply: None is the empty object.\<close>

definition take_reply :: "'a HttpReply \<Rightarrow> ('s, 'a option) page" where
  "take_reply r p =
     (case r of
        NetworkFail m \<Rightarrow> Some (p, Inl (Js m))
      | Http status text body \<Rightarrow>
          (case body of
             BadJson m \<Rightarrow> Some (p, Inl (Js m))
           | _ \<Rightarrow>
             if 200 \<le> status \<and> status \<le> 299 then Some (p, Inr (case body of Parsed v _ \<Rightarrow> Some v | _ \<Rightarrow> None))
             else if status = 401 then Some (p\<lparr>ap_location := Some ''/login?redirect=/app''\<rparr>, Inr None)
             else Some (p, Inl (Js (http_message status text body)))))"

definition apiFetch :: "string \<Rightarrow> string \<Rightarrow> ('s \<Rightarrow> 's \<times> 'a HttpReply) \<Rightarrow> ('s, 'a option) page" where
  "apiFetch verb path f p =
     (case f (ap_server p) of (s, r) \<Rightarrow> take_reply r (p\<lparr>ap_server := s, ap_requests := (verb, path) # ap_requests p\<rparr>))"

section \<open>Rendering\<close>

definition setEmptyState :: "'s AppPage \<Rightarrow> 's AppPage" where
  "setEmptyState p = p\<lparr>ap_messages := [], ap_copyDisabled := True, ap_messageList := [EmptyNote]\<rparr>"

definition chat_item :: "'s AppServer \<Rightarrow> string option \<Rightarrow> Convo \<Rightarrow> ChatItem" where
  "chat_item sv current c =
     \<lparr>ci_id = cv_id c, ci_title = cv_title c, ci_text = (if truthy (cv_title c) then the (cv_title c) else ''New chat''),
      ci_meta = sv_locale sv (cv_last c), ci_active = (Some (cv_id c) = current)\<rparr>"

definition renderConversations :: "'s AppServer \<Rightarrow> Convo list \<Rightarrow> 's AppPage \<Rightarrow> 's AppPage" where
  "renderConversations sv cs p = p\<lparr>ap_chatList := map (chat_item sv (ap_current p)) cs\<rparr>"

definition source_labels :: "string option list \<Rightarrow> string list" where
  "source_labels sources = filter (\<lambda>l. l \<noteq> []) (map (\<lambda>s. if truthy s then ''RO '' @ the s else ''RO'') sources)"

definition message_node :: "ChatMessage \<Rightarrow> MessageNode" where
  "message_node m =
     Bubble (''message '' @ toLowerCase (ms_role m)) (ms_content m)
       (case ms_sources m of
          None \<Rightarrow> None
        | Some [] \<Rightarrow> None
        | Some sources \<Rightarrow>
            Some (let labels = source_labels sources
                  in if labels \<noteq> [] then ''Sources: '' @ js_join '', '' labels else ''Sources available''))"

definition appendMessage :: "ChatMessage \<Rightarrow> 's AppPage \<Rightarrow> 's AppPage" where
  "appendMessage m p =
     p\<lparr>ap_messages := ap_messages p @ [m], ap_copyDisabled := (ap_messages p @ [m] = []),
       ap_messageList := ap_messageList p @ [message_node m]\<rparr>"

definition renderMessages :: "ChatMessage list \<Rightarrow> 's AppPage \<Rightarrow> 's AppPage" where
  "renderMessages ms p =
     (if ms = [] then setEmptyState (p\<lparr>ap_messageList := []\<rparr>)
      else fold appendMessage ms (p\<lparr>ap_messageList := [], ap_messages := ms, ap_copyDisabled := (ms = [])\<rparr>))"

definition scope_items :: "'s AppPage \<Rightarrow> (string \<times> string) list" where
  "scope_items p = (if ap_scopeMode p = ''group'' then ap_groups p else ap_tenants p)"

definition updateScopeStatus :: "'s AppPage \<Rightarrow> 's AppPage" where
  "updateScopeStatus p =
     (if ap_role p \<noteq> Some ''DEVELOPER'' then p\<lparr>ap_scopeStatus := ''Tenant scope''\<rparr>
      else if ap_scopeValue p = [] then
        p\<lparr>ap_scopeStatus := (if ap_scopeMode p = ''group'' then ''Group scope (select a group)'' else ''Tenant scope'')\<rparr>
      else
        let label = (case find (\<lambda>i. fst i = ap_scopeValue p) (scope_items p) of Some i \<Rightarrow> snd i | None \<Rightarrow> ap_scopeValue p)
        in p\<lparr>ap_scopeStatus := (if ap_scopeMode p = ''group'' then ''Group'' else ''Tenant'') @ '': '' @ label\<rparr>)"

text \<open>Replacing the options of the selection selects the first of them.\<close>

definition renderScopeOptions :: "'s AppPage \<Rightarrow> 's AppPage" where
  "renderScopeOptions p =
     updateScopeStatus
       (p\<lparr>ap_options := ([], if ap_scopeMode p = ''group'' then ''Select group'' else ''Use my tenant'') # scope_items p,
          ap_scopeValue := []\<rparr>)"

section \<open>Conversations\<close>

definition load_with :: "'s AppServer \<Rightarrow> (string \<Rightarrow> string option \<Rightarrow> ('s, unit) page) \<Rightarrow> ('s, unit) page" where
  "load_with sv select =
     pg_bind (apiFetch ''GET'' ''/chat/conversations?limit=100'' (sv_conversations sv)) (\<lambda>data.
       let conversations = (case data of Some (Some cs) \<Rightarrow> cs | _ \<Rightarrow> [])
       in pg_bind (pg_do (renderConversations sv conversations)) (\<lambda>_ p.
            case conversations of
              c # _ \<Rightarrow> if truthy (ap_current p) then pg_ret () p else select (cv_id c) (cv_title c) p
            | [] \<Rightarrow> pg_ret () p))"

definition select_with :: "'s AppServer \<Rightarrow> ('s, unit) page \<Rightarrow> string \<Rightarrow> string option \<Rightarrow> ('s, unit) page" where
  "select_with sv load i title =
     pg_bind (pg_do (\<lambda>p. p\<lparr>ap_current := Some i, ap_chatTitle := (if truthy title then the title else ''Conversation'')\<rparr>)) (\<lambda>_.
     pg_bind (apiFetch ''GET'' (''/chat/conversations/'' @ i @ ''/messages'') (sv_messages sv i)) (\<lambda>data.
     pg_bind (pg_do (renderMessages (case data of Some (Some ms) \<Rightarrow> ms | _ \<Rightarrow> []))) (\<lambda>_. load)))"

fun loadConversations :: "nat \<Rightarrow> 's AppServer \<Rightarrow> ('s, unit) page" where
  "loadConversations 0 sv = (\<lambda>_. None)"
| "loadConversations (Suc n) sv = load_with sv (select_with sv (loadConversations n sv))"

definition selectConversation :: "nat \<Rightarrow> 's AppServer \<Rightarrow> string \<Rightarrow> string option \<Rightarrow> ('s, unit) page" where
  "selectConversation n sv = select_with sv (loadConversations n sv)"

definition createConversation_ui :: "nat \<Rightarrow> 's AppServer \<Rightarrow> ('s, unit) page" where
  "createConversation_ui n sv =
     pg_bind (apiFetch ''POST'' ''/chat/conversations'' (sv_create sv)) (\<lambda>data.
       case data of
         Some (Some c) \<Rightarrow>
           if cv_id c = [] then pg_ret ()
           else pg_bind (pg_do (\<lambda>p. p\<lparr>ap_current := Some (cv_id c),
                    ap_chatTitle := (if truthy (cv_title c) then the (cv_title c) else ''New chat'')\<rparr>)) (\<lambda>_.
                pg_bind (loadConversations n sv) (\<lambda>_. pg_do setEmptyState))
       | _ \<Rightarrow> pg_ret ())"

definition sendMessage :: "nat \<Rightarrow> 's AppServer \<Rightarrow> string \<Rightarrow> ('s, unit) page" where
  "sendMessage n sv message =
     pg_bind (pg_do (\<lambda>p. (appendMessage \<lparr>ms_role = ''USER'', ms_content = message, ms_sources = None\<rparr> p)\<lparr>ap_input := []\<rparr>)) (\<lambda>_.
     pg_bind (\<lambda>p. apiFetch ''POST'' ''/chat/messages'' (sv_post sv message (if truthy (ap_current p) then ap_current p else None)) p) (\<lambda>response.
     pg_bind (pg_do (\<lambda>p.
         let c = (case response of None \<Rightarrow> None | Some r \<Rightarrow> pr_conversation r);
             answer = (case response of None \<Rightarrow> None | Some r \<Rightarrow> pr_answer r);
             sources = (case response of None \<Rightarrow> None | Some r \<Rightarrow> pr_sources r)
         in appendMessage \<lparr>ms_role = ''ASSISTANT'', ms_content = (if truthy answer then the answer else ''No response.''), ms_sources = sources\<rparr>
              (if \<not> truthy (ap_current p) \<and> truthy c then p\<lparr>ap_current := c\<rparr> else p))) (\<lambda>_.
     loadConversations n sv)))"

definition handleSubmit :: "nat \<Rightarrow> 's AppServer \<Rightarrow> ('s, unit) page" where
  "handleSubmit n sv p =
     (let message = js_trim (ap_input p)
      in if message = [] then pg_ret () p
         else pg_catch (sendMessage n sv message)
                (\<lambda>e. pg_do (appendMessage \<lparr>ms_role = ''ASSISTANT'',
                       ms_content = (if err_message e \<noteq> [] then err_message e else ''Failed to send.''), ms_sources = None\<rparr>)) p)"

section \<open>Copying\<close>

definition message_lines :: "ChatMessage \<Rightarrow> string list" where
  "message_lines m =
     [ms_role m @ '': '' @ ms_content m] @
     (case ms_sources m of
        None \<Rightarrow> []
      | Some sources \<Rightarrow> if source_labels sources \<noteq> [] then [''Sources: '' @ js_join '', '' (source_labels sources)] else []) @
     [[]]"

definition formatConversationText :: "'s AppPage \<Rightarrow> string" where
  "formatConversationText p =
     js_trim (js_join [CHR 0x0A]
       ([''Conversation: '' @ (if ap_chatTitle p \<noteq> [] then ap_chatTitle p else ''Conversation''), []] @
        concat (map message_lines (ap_messages p))))"

text \<open>Both ways of copying put the text on the clipboard. The timer restores the label the button had.\<close>

definition copyConversation :: "'s AppPage \<Rightarrow> 's AppPage" where
  "copyConversation p =
     (if ap_messages p = [] then p
      else p\<lparr>ap_clipboard := Some (formatConversationText p), ap_timers := ap_timers p @ [ap_copyLabel p], ap_copyLabel := ''Copied''\<rparr>)"

definition copy_timer :: "'s AppPage \<Rightarrow> 's AppPage" where
  "copy_timer p = (case ap_timers p of [] \<Rightarrow> p | l # ls \<Rightarrow> p\<lparr>ap_copyLabel := l, ap_timers := ls\<rparr>)"

section \<open>Scope\<close>

definition scope_entry :: "string \<times> string \<Rightarrow> string \<times> string" where
  "scope_entry t = (fst t, snd t @ '' ('' @ take 8 (fst t) @ '')'')"

text \<open>Both requests are made; the first failure is the one reported.\<close>

definition loadScopeOptions :: "'s AppServer \<Rightarrow> ('s, unit) page" where
  "loadScopeOptions sv p =
     (if ap_role p \<noteq> Some ''DEVELOPER'' then pg_ret () p
      else (case apiFetch ''GET'' ''/admin/api/tenants'' (sv_tenants sv) p of
          None \<Rightarrow> None
        | Some (p1, tenants) \<Rightarrow>
            (case apiFetch ''GET'' ''/admin/api/groups'' (sv_groups sv) p1 of
               None \<Rightarrow> None
             | Some (p2, groups) \<Rightarrow>
                 (case (tenants, groups) of
                    (Inl e, _) \<Rightarrow> Some (p2, Inl e)
                  | (Inr _, Inl e) \<Rightarrow> Some (p2, Inl e)
                  | (Inr ts, Inr gs) \<Rightarrow>
                      pg_do (\<lambda>p. renderScopeOptions
                        (p\<lparr>ap_tenants := map scope_entry (case ts of Some (Some xs) \<Rightarrow> xs | _ \<Rightarrow> []),
                           ap_groups := map scope_entry (case gs of Some (Some xs) \<Rightarrow> xs | _ \<Rightarrow> [])\<rparr>)) p2))))"

section \<open>Start and events\<close>

definition bootstrap_body :: "nat \<Rightarrow> 's AppServer \<Rightarrow> ('s, unit) page" where
  "bootstrap_body n sv =
     pg_bind (apiFetch ''GET'' ''/auth/me'' (sv_me sv)) (\<lambda>me.
     pg_bind (pg_do (\<lambda>p. p\<lparr>ap_role := map_option me_role me\<rparr>)) (\<lambda>_.
       case (map_option me_role me, case me of None \<Rightarrow> None | Some r \<Rightarrow> me_tenantId r) of
         (Some role, Some tenantId) \<Rightarrow>
           pg_bind (pg_do (\<lambda>p. p\<lparr>ap_account := Some (role, take 8 tenantId), ap_adminLink := (ap_adminLink p \<or> role \<noteq> ''USER'')\<rparr>)) (\<lambda>_.
           pg_bind (if role = ''DEVELOPER''
                    then pg_bind (pg_do (\<lambda>p. p\<lparr>ap_scopePanel := True\<rparr>)) (\<lambda>_.
                           pg_catch (loadScopeOptions sv) (\<lambda>_. pg_do (\<lambda>p. p\<lparr>ap_scopeStatus := ''Tenant scope''\<rparr>)))
                    else pg_ret ()) (\<lambda>_.
           pg_bind (loadConversations n sv) (\<lambda>_.
             pg_do (\<lambda>p. if truthy (ap_current p) then p else setEmptyState p))))
       | _ \<Rightarrow> (\<lambda>p. Some (p, Inl (Js ''Cannot read properties of a tenant that is missing'')))))"

definition bootstrap :: "nat \<Rightarrow> 's AppServer \<Rightarrow> ('s, unit) page" where
  "bootstrap n sv = pg_catch (bootstrap_body n sv) (\<lambda>_. pg_do setEmptyState)"

datatype AppEvent =
    Type string | Submit | OpenItem nat | NewChat | CopyChat | CopyTimer | PickMode string | PickScope string | Logout

text \<open>An error no handler catches leaves the page as it is at that moment.\<close>

definition app_event :: "nat \<Rightarrow> 's AppServer \<Rightarrow> AppEvent \<Rightarrow> ('s, unit) page" where
  "app_event n sv e p =
     (case e of
        Type s \<Rightarrow> pg_do (\<lambda>p. p\<lparr>ap_input := s\<rparr>) p
      | Submit \<Rightarrow> handleSubmit n sv p
      | OpenItem i \<Rightarrow>
          if i < length (ap_chatList p) then selectConversation n sv (ci_id (ap_chatList p ! i)) (ci_title (ap_chatList p ! i)) p
          else pg_ret () p
      | NewChat \<Rightarrow> createConversation_ui n sv p
      | CopyChat \<Rightarrow> pg_do (\<lambda>p. if ap_copyDisabled p then p else copyConversation p) p
      | CopyTimer \<Rightarrow> pg_do copy_timer p
      | PickMode m \<Rightarrow> pg_do (\<lambda>p. renderScopeOptions (p\<lparr>ap_scopeMode := m\<rparr>)) p
      | PickScope v \<Rightarrow> pg_do (\<lambda>p. updateScopeStatus (p\<lparr>ap_scopeValue := v\<rparr>)) p
      | Logout \<Rightarrow> pg_bind (apiFetch ''POST'' ''/auth/logout'' (sv_logout sv)) (\<lambda>_. pg_do (\<lambda>p. p\<lparr>ap_location := Some ''/login?redirect=/app''\<rparr>)) p)"

fun app_run :: "nat \<Rightarrow> 's AppServer \<Rightarrow> AppEvent list \<Rightarrow> 's AppPage \<Rightarrow> 's AppPage option" where
  "app_run n sv [] p = Some p"
| "app_run n sv (e # es) p = (case app_event n sv e p of None \<Rightarrow> None | Some (p', _) \<Rightarrow> app_run n sv es p')"

end
