(* ===== verification/AdminUi.thy ===== *)
theory AdminUi
  imports AppUi
begin

text \<open>
  http/admin-ui/app.js, the administration page, as a state machine: what the script keeps and writes to the page, one
  operation per function and one event per listener. Replies are as on the chat page. A row of a table has its HTML text, the
  values of its fields and the buttons of its template in their order; the script finds a button with \<open>querySelector\<close> and
  attaches a handler to it, and pressing a button runs the handlers attached to it in their order. The handler of an event
  runs to its end before the next event, and the requests of a refresh are made one after the other. The em dash and the
  bullet, which are no Latin-1 characters, and the text of a time are arguments.
\<close>

section \<open>Replies and requests\<close>

record TenantInfo =
  ti_id :: string
  ti_name :: string
  ti_active :: bool
  ti_pii :: bool
  ti_group :: "string option"
  ti_sftpEnabled :: bool
  ti_sftpError :: "string option"
  ti_sftpHome :: "string option"

record AuditInfo =
  ai_at :: string
  ai_action :: string
  ai_object :: string
  ai_user :: "string option"

record GroupInfo =
  gi_id :: string
  gi_name :: string
  gi_at :: string

record UserInfo =
  ui_id :: string
  ui_email :: string
  ui_role :: string
  ui_active :: bool

record ChatInfo =
  hi_id :: string
  hi_title :: string
  hi_email :: string
  hi_tenant :: string
  hi_at :: string

record Onboarding =
  ob_host :: string
  ob_user :: string
  ob_path :: string

datatype BodyVal = BText string | BBool bool | BNull

type_synonym Body = "(string \<times> BodyVal) list"
type_synonym AdminRequest = "string \<times> string \<times> Body"

record 's AdminServer =
  as_me :: "'s \<Rightarrow> 's \<times> string HttpReply"
  as_tenants :: "'s \<Rightarrow> 's \<times> TenantInfo list option HttpReply"
  as_audit :: "string \<Rightarrow> 's \<Rightarrow> 's \<times> AuditInfo list option HttpReply"
  as_groups :: "'s \<Rightarrow> 's \<times> GroupInfo list option HttpReply"
  as_users :: "'s \<Rightarrow> 's \<times> UserInfo list option HttpReply"
  as_chats :: "string \<Rightarrow> 's \<Rightarrow> 's \<times> ChatInfo list option HttpReply"
  as_messages :: "string \<Rightarrow> 's \<Rightarrow> 's \<times> (string \<times> string) list option HttpReply"
  as_change :: "AdminRequest \<Rightarrow> 's \<Rightarrow> 's \<times> Onboarding option HttpReply"
  as_locale :: "string \<Rightarrow> string"
  as_encode :: "string \<Rightarrow> string"   \<comment> \<open>of a query parameter\<close>
  as_dash :: string
  as_bullet :: string

section \<open>The page\<close>

record TenantRow =
  tr_tenant :: TenantInfo
  tr_html :: string
  tr_active :: bool
  tr_pii :: bool
  tr_groupName :: string
  tr_sftpDisabled :: bool

record UserRow =
  ur_user :: UserInfo
  ur_html :: string
  ur_role :: string
  ur_active :: bool
  ur_disabled :: bool
  ur_title :: string

record 's AdminPage =
  dp_server :: 's
  dp_requests :: "AdminRequest list"   \<comment> \<open>the last one first\<close>
  dp_role :: "string option"
  dp_section :: string
  dp_title :: string
  dp_subtitle :: string
  dp_hidden :: "string list"           \<comment> \<open>sections taken away\<close>
  dp_stored :: "string option"
  dp_picker :: "(string \<times> string) list"
  dp_picked :: string
  dp_pickerShown :: bool
  dp_tenantRows :: "TenantRow list"
  dp_auditRows :: "string list"
  dp_groupRows :: "string list"
  dp_userRows :: "UserRow list"
  dp_chatRows :: "(string \<times> string) list"
  dp_chatMessages :: "string list"
  dp_tenantSummary :: string
  dp_userSummary :: string
  dp_auditSummary :: string
  dp_chatSummary :: string
  dp_auditAction :: string
  dp_groupName :: string
  dp_userEmail :: string
  dp_userPassword :: string
  dp_userRole :: string
  dp_userTenant :: string
  dp_userTenantHint :: string
  dp_roleOptions :: "(string \<times> bool) list"   \<comment> \<open>hidden if true\<close>
  dp_createUserDisabled :: bool
  dp_tenantName :: string
  dp_tenantGroup :: string
  dp_tenantKey :: string
  dp_tenantStatus :: string
  dp_createTenantShown :: bool
  dp_createGroupShown :: bool
  dp_onboarding :: "string option"     \<comment> \<open>its text if it is shown\<close>
  dp_alerts :: "string list"
  dp_location :: "string option"
  dp_refreshing :: bool

type_synonym ('s, 'a) admin = "'s AdminPage \<Rightarrow> 's AdminPage \<times> 'a res"

definition ad_ret :: "'a \<Rightarrow> ('s, 'a) admin" where "ad_ret x p = (p, Inr x)"

definition ad_do :: "('s AdminPage \<Rightarrow> 's AdminPage) \<Rightarrow> ('s, unit) admin" where "ad_do f p = (f p, Inr ())"

definition ad_fail :: "string \<Rightarrow> ('s, 'a) admin" where "ad_fail m p = (p, Inl (Js m))"

definition ad_bind :: "('s, 'a) admin \<Rightarrow> ('a \<Rightarrow> ('s, 'b) admin) \<Rightarrow> ('s, 'b) admin" where
  "ad_bind m f p = (case m p of (p', Inl e) \<Rightarrow> (p', Inl e) | (p', Inr x) \<Rightarrow> f x p')"

definition ad_catch :: "('s, unit) admin \<Rightarrow> (err \<Rightarrow> 's AdminPage \<Rightarrow> 's AdminPage) \<Rightarrow> ('s, unit) admin" where
  "ad_catch m h p = (case m p of (p', Inl e) \<Rightarrow> (h e p', Inr ()) | (p', Inr x) \<Rightarrow> (p', Inr x))"

definition alert :: "err \<Rightarrow> 's AdminPage \<Rightarrow> 's AdminPage" where "alert e p = p\<lparr>dp_alerts := dp_alerts p @ [err_message e]\<rparr>"

section \<open>Requests\<close>

definition admin_reply :: "'a HttpReply \<Rightarrow> ('s, 'a option) admin" where
  "admin_reply r p =
     (case r of
        NetworkFail m \<Rightarrow> (p, Inl (Js m))
      | Http status text body \<Rightarrow>
          (case body of
             BadJson m \<Rightarrow> (p, Inl (Js m))
           | _ \<Rightarrow>
             if 200 \<le> status \<and> status \<le> 299 then (p, Inr (case body of Parsed v _ \<Rightarrow> Some v | _ \<Rightarrow> None))
             else ((if status = 401 then p\<lparr>dp_location := Some ''/login?redirect=/admin''\<rparr> else p), Inl (Js (http_message status text body)))))"

definition adminFetch :: "AdminRequest \<Rightarrow> ('s \<Rightarrow> 's \<times> 'a HttpReply) \<Rightarrow> ('s, 'a option) admin" where
  "adminFetch q f p = (case f (dp_server p) of (s, r) \<Rightarrow> admin_reply r (p\<lparr>dp_server := s, dp_requests := q # dp_requests p\<rparr>))"

definition change :: "'s AdminServer \<Rightarrow> string \<Rightarrow> string \<Rightarrow> Body \<Rightarrow> ('s, Onboarding option) admin" where
  "change sv verb path body =
     ad_bind (adminFetch (verb, path, body) (as_change sv (verb, path, body))) (\<lambda>d. ad_ret (case d of None \<Rightarrow> None | Some x \<Rightarrow> x))"

text \<open>The list under \<open>data\<close>, or the error of its absence.\<close>

definition listed :: "string \<Rightarrow> ('s, 'a list option option) admin \<Rightarrow> ('s, 'a list) admin" where
  "listed message m = ad_bind m (\<lambda>d. case d of Some (Some xs) \<Rightarrow> ad_ret xs | _ \<Rightarrow> ad_fail message)"

definition getAllowedRolesForCreator :: "string option \<Rightarrow> string list" where
  "getAllowedRolesForCreator role =
     (if role = Some ''DEVELOPER'' then [''USER'', ''ADMIN'', ''DEALERADMIN'', ''DEVELOPER'']
      else if role = Some ''DEALERADMIN'' then [''USER'', ''ADMIN'']
      else if role = Some ''ADMIN'' then [''USER'']
      else [])"

section \<open>Tables\<close>

text \<open>The text of a template: its lines, and the indentation before the closing quote.\<close>

definition template :: "string list \<Rightarrow> string" where
  "template ls = concat (map (\<lambda>l. [CHR 0x0A] @ l) ls) @ [CHR 0x0A] @ ''    ''"

definition or_empty :: "string option \<Rightarrow> string" where "or_empty v = (case v of None \<Rightarrow> [] | Some x \<Rightarrow> x)"

definition checked :: "bool \<Rightarrow> string" where "checked b = (if b then ''checked'' else [])"

definition statusLabel :: "TenantInfo \<Rightarrow> string" where
  "statusLabel t =
     (if ti_sftpEnabled t then ''Enabled''
      else if truthy (ti_sftpError t) then ''Failed ('' @ the (ti_sftpError t) @ '')''
      else ''Not provisioned'')"

definition tenant_html :: "'s AdminServer \<Rightarrow> TenantInfo \<Rightarrow> string" where
  "tenant_html sv t = template
     [''      <td>'' @ ti_id t @ ''</td>'',
      ''      <td>'' @ ti_name t @ ''</td>'',
      ''      <td><input type=\"checkbox\" data-field=\"is_active\" '' @ checked (ti_active t) @ ''></td>'',
      ''      <td><input type=\"checkbox\" data-field=\"pii_enabled\" '' @ checked (ti_pii t) @ ''></td>'',
      ''      <td><input type=\"text\" data-field=\"group_id\" value=\"'' @ or_empty (ti_group t) @ ''\" placeholder=\"Group name\"></td>'',
      ''      <td>'' @ statusLabel t @ ''</td>'',
      ''      <td>'' @ (case ti_sftpHome t of None \<Rightarrow> as_dash sv | Some u \<Rightarrow> u) @ ''</td>'',
      ''      <td>'',
      ''        <div class=\"tenant-actions\">'',
      ''          <button data-sftp-retry=\"'' @ ti_id t @ ''\">Retry</button>'',
      ''          <button data-sftp-rotate=\"'' @ ti_id t @ ''\">Rotate Key</button>'',
      ''          <button class=\"danger\" data-sftp-delete=\"'' @ ti_id t @ ''\">Deprovision</button>'',
      ''        </div>'',
      ''      </td>'',
      ''      <td><button data-save-tenant=\"'' @ ti_id t @ ''\">Save</button></td>'']"

definition tenant_row :: "'s AdminServer \<Rightarrow> bool \<Rightarrow> TenantInfo \<Rightarrow> TenantRow" where
  "tenant_row sv canManageSftp t =
     \<lparr>tr_tenant = t, tr_html = tenant_html sv t, tr_active = ti_active t, tr_pii = ti_pii t, tr_groupName = or_empty (ti_group t),
      tr_sftpDisabled = (\<not> canManageSftp)\<rparr>"

definition picker_options :: "TenantInfo list \<Rightarrow> (string \<times> string) list" where
  "picker_options ts = ([], ''No tenant selected'') # map (\<lambda>t. (ti_id t, ti_name t @ '' ('' @ ti_id t @ '')'')) ts"

definition show_picker :: "TenantInfo list \<Rightarrow> 's AdminPage \<Rightarrow> 's AdminPage" where
  "show_picker ts p =
     (if dp_role p = Some ''DEVELOPER''
      then p\<lparr>dp_picker := picker_options ts,
             dp_picked := (case find (\<lambda>t. ti_id t = or_empty (dp_stored p)) ts of Some t \<Rightarrow> ti_id t | None \<Rightarrow> [])\<rparr>
      else p)"

definition tenant_summary :: "'s AdminServer \<Rightarrow> TenantInfo list \<Rightarrow> string" where
  "tenant_summary sv ts =
     (case ts of
        t # _ \<Rightarrow> ti_name t @ '' ('' @ ti_id t @ '') '' @ as_bullet sv @ '' '' @ (if ti_active t then ''Active'' else ''Inactive'') @
          '' '' @ as_bullet sv @ '' PII '' @ (if ti_pii t then ''Enabled'' else ''Disabled'')
      | [] \<Rightarrow> ''No tenants available.'')"

definition loadTenants :: "'s AdminServer \<Rightarrow> ('s, unit) admin" where
  "loadTenants sv =
     ad_bind (listed ''Tenant data unavailable. Check admin token.'' (adminFetch (''GET'', ''/admin/api/tenants'', []) (as_tenants sv)))
       (\<lambda>ts. ad_do (\<lambda>p. (show_picker ts p)
          \<lparr>dp_tenantRows := map (tenant_row sv (dp_role p = Some ''DEVELOPER'')) ts, dp_tenantSummary := tenant_summary sv ts\<rparr>))"

definition audit_path :: "'s AdminServer \<Rightarrow> string \<Rightarrow> string" where
  "audit_path sv action = ''/audit?limit=25'' @ (if action \<noteq> [] then ''&action='' @ as_encode sv action else [])"

definition audit_html :: "'s AdminServer \<Rightarrow> AuditInfo \<Rightarrow> string" where
  "audit_html sv a = template
     [''      <td>'' @ as_locale sv (ai_at a) @ ''</td>'',
      ''      <td>'' @ ai_action a @ ''</td>'',
      ''      <td>'' @ ai_object a @ ''</td>'',
      ''      <td>'' @ or_empty (ai_user a) @ ''</td>'']"

definition loadAudit :: "'s AdminServer \<Rightarrow> ('s, unit) admin" where
  "loadAudit sv p =
     (let path = audit_path sv (js_trim (dp_auditAction p))
      in ad_bind (listed ''Audit data unavailable. Check admin token.'' (adminFetch (''GET'', path, []) (as_audit sv path)))
           (\<lambda>rows. ad_do (\<lambda>p. p\<lparr>dp_auditRows := map (audit_html sv) rows,
                                dp_auditSummary := digits_of (int (length rows)) @ '' recent audit entries.''\<rparr>)) p)"

definition chat_summary :: "'a list \<Rightarrow> string" where
  "chat_summary rows = digits_of (int (length rows)) @ '' recent conversations.''"

definition loadChatSummary :: "'s AdminServer \<Rightarrow> ('s, unit) admin" where
  "loadChatSummary sv =
     ad_bind (listed ''Chat data unavailable.'' (adminFetch (''GET'', ''/admin/api/chats?limit=50'', []) (as_chats sv ''/admin/api/chats?limit=50'')))
       (\<lambda>rows. ad_do (\<lambda>p. p\<lparr>dp_chatSummary := chat_summary rows\<rparr>))"

definition group_html :: "'s AdminServer \<Rightarrow> GroupInfo \<Rightarrow> string" where
  "group_html sv g = template
     [''      <td>'' @ gi_id g @ ''</td>'',
      ''      <td>'' @ gi_name g @ ''</td>'',
      ''      <td>'' @ as_locale sv (gi_at g) @ ''</td>'']"

definition loadGroups :: "'s AdminServer \<Rightarrow> ('s, unit) admin" where
  "loadGroups sv =
     ad_bind (listed ''Group data unavailable.'' (adminFetch (''GET'', ''/admin/api/groups'', []) (as_groups sv)))
       (\<lambda>rows. ad_do (\<lambda>p. p\<lparr>dp_groupRows := map (group_html sv) rows\<rparr>))"

definition role_option :: "string \<Rightarrow> string \<Rightarrow> string" where
  "role_option chosen role =
     ''<option value=\"'' @ role @ ''\" '' @ (if chosen = role then ''selected'' else []) @ ''>'' @ role @ ''</option>''"

definition user_html :: "string list \<Rightarrow> UserInfo \<Rightarrow> string" where
  "user_html allowedRoles u = template
     [''      <td>'' @ ui_id u @ ''</td>'',
      ''      <td>'' @ ui_email u @ ''</td>'',
      ''      <td>'',
      ''        <select data-user=\"'' @ ui_id u @ ''\">'',
      ''          '' @ concat (map (role_option (ui_role u)) allowedRoles),
      ''        </select>'',
      ''      </td>'',
      ''      <td><input type=\"checkbox\" data-active=\"'' @ ui_id u @ ''\" '' @ checked (ui_active u) @ ''></td>'',
      ''      <td><button data-save-user=\"'' @ ui_id u @ ''\">Save</button></td>'',
      ''      <td><button class=\"danger\" data-delete-user=\"'' @ ui_id u @ ''\">Delete</button></td>'']"

text \<open>A selection without a selected option has its first one, if it has any.\<close>

definition user_row :: "string list \<Rightarrow> UserInfo \<Rightarrow> UserRow" where
  "user_row allowedRoles u =
     (let ok = ui_role u \<in> set allowedRoles
      in \<lparr>ur_user = u, ur_html = user_html allowedRoles u,
          ur_role = (if ok then ui_role u else case allowedRoles of [] \<Rightarrow> [] | r # _ \<Rightarrow> r),
          ur_active = ui_active u, ur_disabled = (\<not> ok),
          ur_title = (if ok then [] else ''Insufficient role to modify this user.'')\<rparr>)"

definition user_summary :: "string option \<Rightarrow> string \<Rightarrow> 'a list \<Rightarrow> string" where
  "user_summary role picked rows =
     digits_of (int (length rows)) @
     (if role = Some ''DEVELOPER'' then (if js_trim picked \<noteq> [] then '' users (selected tenant).'' else '' users (no tenant selected).'')
      else '' users (current tenant).'')"

definition loadUsers :: "'s AdminServer \<Rightarrow> ('s, unit) admin" where
  "loadUsers sv =
     ad_bind (listed ''User data unavailable.'' (adminFetch (''GET'', ''/admin/api/users'', []) (as_users sv)))
       (\<lambda>rows. ad_do (\<lambda>p. p\<lparr>dp_userSummary := user_summary (dp_role p) (dp_picked p) rows,
                            dp_userRows := map (user_row (getAllowedRolesForCreator (dp_role p))) rows\<rparr>))"

definition chat_html :: "'s AdminServer \<Rightarrow> ChatInfo \<Rightarrow> string" where
  "chat_html sv c = template
     [''      <td>'' @ hi_title c @ ''</td>'',
      ''      <td>'' @ hi_email c @ ''</td>'',
      ''      <td>'' @ hi_tenant c @ ''</td>'',
      ''      <td>'' @ as_locale sv (hi_at c) @ ''</td>'',
      ''      <td><button data-chat=\"'' @ hi_id c @ ''\">View</button></td>'']"

definition loadChats :: "'s AdminServer \<Rightarrow> ('s, unit) admin" where
  "loadChats sv =
     ad_bind (listed ''Chat data unavailable.'' (adminFetch (''GET'', ''/admin/api/chats?limit=100'', []) (as_chats sv ''/admin/api/chats?limit=100'')))
       (\<lambda>rows. ad_do (\<lambda>p. p\<lparr>dp_chatRows := map (\<lambda>c. (hi_id c, chat_html sv c)) rows, dp_chatSummary := chat_summary rows\<rparr>))"

definition loadChatMessages :: "'s AdminServer \<Rightarrow> string \<Rightarrow> ('s, unit) admin" where
  "loadChatMessages sv i =
     (let path = ''/admin/api/chats/'' @ i @ ''/messages''
      in ad_bind (listed ''Chat message data unavailable.'' (adminFetch (''GET'', path, []) (as_messages sv i)))
           (\<lambda>rows. ad_do (\<lambda>p. p\<lparr>dp_chatMessages := (if rows = [] then [''No messages yet.''] else map (\<lambda>(role, content). role @ '': '' @ content) rows)\<rparr>)))"

text \<open>All four are made, whatever becomes of the others.\<close>

definition refreshDashboard :: "'s AdminServer \<Rightarrow> 's AdminPage \<Rightarrow> 's AdminPage" where
  "refreshDashboard sv p = fst (loadAudit sv (fst (loadChatSummary sv (fst (loadUsers sv (fst (loadTenants sv p)))))))"

section \<open>The buttons of a tenant\<close>

text \<open>The buttons of a row in the order of its template.\<close>

datatype TenantButton = RetryButton | RotateButton | DeprovisionButton | SaveButton

definition tenant_buttons :: "TenantButton list" where
  "tenant_buttons = [RetryButton, RotateButton, DeprovisionButton, SaveButton]"

definition querySelector :: "('b \<Rightarrow> bool) \<Rightarrow> 'b list \<Rightarrow> 'b option" where "querySelector P bs = find P bs"

text \<open>What the user answers when asked for a key or a confirmation.\<close>

record Answer =
  an_key :: "string option"
  an_confirm :: bool

definition save_tenant :: "'s AdminServer \<Rightarrow> TenantRow \<Rightarrow> ('s, unit) admin" where
  "save_tenant sv row =
     (let path = ''/admin/api/tenants/'' @ ti_id (tr_tenant row); groupName = js_trim (tr_groupName row)
      in ad_catch
           (ad_bind (change sv ''PATCH'' path [(''is_active'', BBool (tr_active row)), (''pii_enabled'', BBool (tr_pii row))]) (\<lambda>_.
            ad_bind (change sv ''PATCH'' (path @ ''/group'') [(''group_id'', if groupName = [] then BNull else BText groupName)]) (\<lambda>_.
              loadTenants sv))) alert)"

definition sftp_change :: "'s AdminServer \<Rightarrow> string \<Rightarrow> string \<Rightarrow> Body \<Rightarrow> string \<Rightarrow> ('s, unit) admin" where
  "sftp_change sv verb path body done_text =
     ad_catch
       (ad_bind (change sv verb path body) (\<lambda>_. ad_bind (loadTenants sv) (\<lambda>_. ad_do (\<lambda>p. p\<lparr>dp_tenantStatus := done_text\<rparr>)))) alert"

definition retry_tenant :: "'s AdminServer \<Rightarrow> Answer \<Rightarrow> TenantRow \<Rightarrow> ('s, unit) admin" where
  "retry_tenant sv an row =
     (if \<not> truthy (an_key an) then ad_ret ()
      else sftp_change sv ''POST'' (''/admin/api/tenants/'' @ ti_id (tr_tenant row) @ ''/provision-sftp'')
             [(''tenant_sftp_public_key'', BText (the (an_key an)))] ''SFTP provisioning triggered.'')"

definition rotate_tenant :: "'s AdminServer \<Rightarrow> Answer \<Rightarrow> TenantRow \<Rightarrow> ('s, unit) admin" where
  "rotate_tenant sv an row =
     (if \<not> truthy (an_key an) then ad_ret ()
      else sftp_change sv ''POST'' (''/admin/api/tenants/'' @ ti_id (tr_tenant row) @ ''/rotate-sftp-key'')
             [(''tenant_sftp_public_key'', BText (the (an_key an)))] ''SFTP key rotated.'')"

definition deprovision_tenant :: "'s AdminServer \<Rightarrow> Answer \<Rightarrow> TenantRow \<Rightarrow> ('s, unit) admin" where
  "deprovision_tenant sv an row =
     (if \<not> an_confirm an then ad_ret ()
      else sftp_change sv ''DELETE'' (''/admin/api/tenants/'' @ ti_id (tr_tenant row) @ ''/sftp'') [] ''SFTP deprovisioned.'')"

text \<open>The handlers of a button, in the order they are attached: the first goes to the first button of the row.\<close>

definition tenant_handlers :: "'s AdminServer \<Rightarrow> Answer \<Rightarrow> TenantRow \<Rightarrow> TenantButton \<Rightarrow> ('s, unit) admin list" where
  "tenant_handlers sv an row b =
     (if querySelector (\<lambda>_. True) tenant_buttons = Some b then [save_tenant sv row] else []) @
     (if querySelector (\<lambda>b. b = RetryButton) tenant_buttons = Some b then [retry_tenant sv an row] else []) @
     (if querySelector (\<lambda>b. b = RotateButton) tenant_buttons = Some b then [rotate_tenant sv an row] else []) @
     (if querySelector (\<lambda>b. b = DeprovisionButton) tenant_buttons = Some b then [deprovision_tenant sv an row] else [])"

definition press_tenant :: "'s AdminServer \<Rightarrow> Answer \<Rightarrow> TenantRow \<Rightarrow> TenantButton \<Rightarrow> 's AdminPage \<Rightarrow> 's AdminPage" where
  "press_tenant sv an row b p =
     (if tr_sftpDisabled row \<and> b \<in> {RetryButton, RotateButton, DeprovisionButton} then p
      else fold (\<lambda>h p. fst (h p)) (tenant_handlers sv an row b) p)"

section \<open>The buttons of a user\<close>

definition save_user :: "'s AdminServer \<Rightarrow> UserRow \<Rightarrow> ('s, unit) admin" where
  "save_user sv row =
     ad_catch (ad_bind (change sv ''PATCH'' (''/admin/api/users/'' @ ui_id (ur_user row))
                 [(''role'', BText (ur_role row)), (''is_active'', BBool (ur_active row))]) (\<lambda>_. loadUsers sv)) alert"

definition delete_user :: "'s AdminServer \<Rightarrow> Answer \<Rightarrow> UserRow \<Rightarrow> ('s, unit) admin" where
  "delete_user sv an row =
     (if \<not> an_confirm an then ad_ret ()
      else ad_catch (ad_bind (change sv ''DELETE'' (''/admin/api/users/'' @ ui_id (ur_user row)) []) (\<lambda>_. loadUsers sv)) alert)"

section \<open>Creating\<close>

definition create_group :: "'s AdminServer \<Rightarrow> ('s, unit) admin" where
  "create_group sv p =
     (let name = js_trim (dp_groupName p)
      in if name = [] then ad_ret () p
         else ad_catch
           (ad_bind (change sv ''POST'' ''/admin/api/groups'' [(''name'', BText name)]) (\<lambda>_.
            ad_bind (ad_do (\<lambda>p. p\<lparr>dp_groupName := []\<rparr>)) (\<lambda>_.
            ad_bind (loadGroups sv) (\<lambda>_. ad_bind (loadTenants sv) (\<lambda>_. ad_do (refreshDashboard sv)))))) alert p)"

definition create_user :: "'s AdminServer \<Rightarrow> ('s, unit) admin" where
  "create_user sv p =
     (let email = js_trim (dp_userEmail p); password = js_trim (dp_userPassword p); role = dp_userRole p; tenantValue = js_trim (dp_userTenant p)
      in if email = [] \<or> password = [] \<or> (role \<noteq> ''DEVELOPER'' \<and> tenantValue = [])
         then ad_do (alert (Js ''Email, password, and tenant ID or name required.'')) p
         else ad_catch
           (ad_bind (change sv ''POST'' ''/admin/api/users''
               ([(''email'', BText email), (''password'', BText password), (''role'', BText role)] @
                (if tenantValue \<noteq> [] then [(''tenant_name'', BText tenantValue)] else []))) (\<lambda>_.
            ad_bind (ad_do (\<lambda>p. p\<lparr>dp_userEmail := [], dp_userPassword := []\<rparr>)) (\<lambda>_.
            ad_bind (loadUsers sv) (\<lambda>_. ad_do (refreshDashboard sv))))) alert p)"

definition onboarding_text :: "Onboarding \<Rightarrow> string" where
  "onboarding_text ob =
     concat (map (\<lambda>l. [CHR 0x0A] @ l)
       [''        <div><strong>Host:</strong> '' @ ob_host ob @ ''</div>'',
        ''        <div><strong>Username:</strong> '' @ ob_user ob @ ''</div>'',
        ''        <div><strong>Remote Path:</strong> '' @ ob_path ob @ ''</div>'',
        ''        <div><strong>Auth:</strong> SSH key only</div>'']) @ [CHR 0x0A] @ ''      ''"

definition create_tenant_click :: "'s AdminServer \<Rightarrow> ('s, unit) admin" where
  "create_tenant_click sv p0 =
     (let p = p0\<lparr>dp_tenantStatus := [], dp_onboarding := None\<rparr>;
          name = js_trim (dp_tenantName p); groupId = js_trim (dp_tenantGroup p); sftpKey = js_trim (dp_tenantKey p)
      in if name = [] \<or> sftpKey = [] then ad_do (\<lambda>p. p\<lparr>dp_tenantStatus := ''Tenant name and SSH public key required.''\<rparr>) p
         else ad_catch
           (ad_bind (change sv ''POST'' ''/admin/api/tenants''
               [(''tenant_name'', BText name), (''group_id'', if groupId = [] then BNull else BText groupId),
                (''tenant_sftp_public_key'', BText sftpKey)]) (\<lambda>onboarding.
            ad_bind (ad_do (\<lambda>p. p\<lparr>dp_tenantName := [], dp_tenantGroup := [], dp_tenantKey := []\<rparr>)) (\<lambda>_.
            ad_bind (loadTenants sv) (\<lambda>_.
            ad_bind (ad_do (refreshDashboard sv)) (\<lambda>_.
            ad_do (\<lambda>p. p\<lparr>dp_onboarding := (case onboarding of None \<Rightarrow> dp_onboarding p | Some ob \<Rightarrow> Some (onboarding_text ob)),
                         dp_tenantStatus := ''Tenant created and SFTP provisioned.''\<rparr>))))))
           (\<lambda>e p. p\<lparr>dp_tenantStatus := (if err_message e \<noteq> [] then err_message e else ''Failed to create tenant.'')\<rparr>) p)"

definition user_role_changed :: "'s AdminPage \<Rightarrow> 's AdminPage" where
  "user_role_changed p =
     p\<lparr>dp_userTenantHint := (if dp_userRole p = ''DEVELOPER'' then ''Tenant ID or name (optional)'' else ''Tenant ID or name'')\<rparr>"

section \<open>Sections\<close>

definition section_meta :: "string \<Rightarrow> string" where
  "section_meta i =
     (if i = ''dashboard'' then ''System overview and recent activity.''
      else if i = ''tenants'' then ''Tenant configuration and flags.''
      else if i = ''groups'' then ''Dealer group roster and creation.''
      else if i = ''users'' then ''Create and manage users per tenant.''
      else if i = ''chats'' then ''Customer chat history within scope.''
      else if i = ''audit'' then ''Security and workflow audit trail.''
      else [])"

definition setActiveSection :: "'s AdminServer \<Rightarrow> string \<Rightarrow> 's AdminPage \<Rightarrow> 's AdminPage" where
  "setActiveSection sv i p0 =
     (let p = p0\<lparr>dp_section := i, dp_title := (if i = ''tenants'' then ''Tenant'' else toUpperCase (take 1 i) @ drop 1 i),
                 dp_subtitle := section_meta i\<rparr>
      in if i = ''dashboard'' then refreshDashboard sv p
         else if i = ''tenants'' then fst (loadTenants sv p)
         else if i = ''groups'' then fst (loadGroups sv p)
         else if i = ''users'' then fst (loadUsers sv p)
         else if i = ''chats'' then fst (loadChats sv p)
         else if i = ''audit'' then fst (loadAudit sv p)
         else p)"

definition disableSection :: "string \<Rightarrow> 's AdminPage \<Rightarrow> 's AdminPage" where
  "disableSection i p = p\<lparr>dp_section := (if dp_section p = i then [] else dp_section p), dp_hidden := dp_hidden p @ [i]\<rparr>"

section \<open>Start and events\<close>

definition show_role :: "'s AdminPage \<Rightarrow> 's AdminPage" where
  "show_role p0 =
     (let allowedRoles = getAllowedRolesForCreator (dp_role p0);
          p = p0\<lparr>dp_roleOptions := map (\<lambda>(r, _). (r, r \<notin> set allowedRoles)) (dp_roleOptions p0),
                 dp_userRole := (if dp_userRole p0 \<in> set allowedRoles then dp_userRole p0 else case allowedRoles of [] \<Rightarrow> [] | r # _ \<Rightarrow> r),
                 dp_createUserDisabled := (dp_createUserDisabled p0 \<or> allowedRoles = [])\<rparr>
      in if dp_role p \<noteq> Some ''DEVELOPER''
         then p\<lparr>dp_createTenantShown := False, dp_onboarding := None, dp_createGroupShown := False, dp_pickerShown := False,
                dp_userTenantHint := ''Tenant ID or name''\<rparr>
         else p\<lparr>dp_pickerShown := True,
                dp_picked := (if or_empty (dp_stored p) \<in> fst ` set (dp_picker p) then or_empty (dp_stored p) else []),
                dp_userTenantHint := ''Tenant ID or name (optional)''\<rparr>)"

definition loadAuthMe :: "'s AdminServer \<Rightarrow> ('s, unit) admin" where
  "loadAuthMe sv =
     ad_bind (adminFetch (''GET'', ''/auth/me'', []) (as_me sv)) (\<lambda>me.
       ad_do (\<lambda>p0. let p = p0\<lparr>dp_role := me\<rparr>
                   in if me = Some ''USER'' then p\<lparr>dp_location := Some ''/login?redirect=/admin''\<rparr> else show_role p))"

text \<open>The script calls \<open>loadIngestSummary\<close>, which it does not define.\<close>

definition loadIngestSummary :: "('s, unit) admin" where
  "loadIngestSummary = ad_fail ''loadIngestSummary is not defined''"

definition admin_bootstrap :: "'s AdminServer \<Rightarrow> ('s, unit) admin" where
  "admin_bootstrap sv =
     ad_catch
       (ad_bind (loadAuthMe sv) (\<lambda>_. ad_bind (loadTenants sv) (\<lambda>_. ad_bind loadIngestSummary (\<lambda>_. ad_bind (loadChatSummary sv) (\<lambda>_.
        ad_bind (ad_catch (loadGroups sv) (\<lambda>_. disableSection ''groups'')) (\<lambda>_.
        ad_bind (ad_catch (loadUsers sv) (\<lambda>_. disableSection ''users'')) (\<lambda>_.
        ad_bind (loadAudit sv) (\<lambda>_. ad_do (\<lambda>p. p\<lparr>dp_refreshing := True\<rparr>)))))))))
       (\<lambda>e p. p\<lparr>dp_tenantSummary := err_message e\<rparr>)"

datatype AdminEvent =
    Section string | Pick string | EditTenant nat bool bool string | PressTenant nat TenantButton Answer
  | EditUser nat string bool | SaveUser nat | DeleteUser nat Answer | ViewChat nat | AuditRefresh string
  | CreateGroup string | CreateUser string string string | PickUserRole string | CreateTenant string string string
  | Timer | LogoutClick

text \<open>A role the page hides cannot be picked; a button the page disables cannot be pressed.\<close>

definition admin_event :: "'s AdminServer \<Rightarrow> AdminEvent \<Rightarrow> 's AdminPage \<Rightarrow> 's AdminPage" where
  "admin_event sv e p =
     (case e of
        Section i \<Rightarrow> if i \<in> set (dp_hidden p) then p else setActiveSection sv i p
      | Pick t \<Rightarrow> refreshDashboard sv (p\<lparr>dp_picked := t, dp_stored := Some t\<rparr>)
      | EditTenant i active pii groupName \<Rightarrow>
          if i < length (dp_tenantRows p)
          then p\<lparr>dp_tenantRows := (dp_tenantRows p)[i := (dp_tenantRows p ! i)\<lparr>tr_active := active, tr_pii := pii, tr_groupName := groupName\<rparr>]\<rparr>
          else p
      | PressTenant i b an \<Rightarrow> if i < length (dp_tenantRows p) then press_tenant sv an (dp_tenantRows p ! i) b p else p
      | EditUser i role active \<Rightarrow>
          if i < length (dp_userRows p) \<and> \<not> ur_disabled (dp_userRows p ! i) \<and> role \<in> set (getAllowedRolesForCreator (dp_role p))
          then p\<lparr>dp_userRows := (dp_userRows p)[i := (dp_userRows p ! i)\<lparr>ur_role := role, ur_active := active\<rparr>]\<rparr>
          else p
      | SaveUser i \<Rightarrow>
          if i < length (dp_userRows p) \<and> \<not> ur_disabled (dp_userRows p ! i) then fst (save_user sv (dp_userRows p ! i) p) else p
      | DeleteUser i an \<Rightarrow>
          if i < length (dp_userRows p) \<and> \<not> ur_disabled (dp_userRows p ! i) then fst (delete_user sv an (dp_userRows p ! i) p) else p
      | ViewChat i \<Rightarrow> if i < length (dp_chatRows p) then fst (loadChatMessages sv (fst (dp_chatRows p ! i)) p) else p
      | AuditRefresh action \<Rightarrow>
          fst (ad_catch (loadAudit sv) (\<lambda>e p. p\<lparr>dp_auditSummary := err_message e\<rparr>) (p\<lparr>dp_auditAction := action\<rparr>))
      | CreateGroup name \<Rightarrow> if dp_createGroupShown p then fst (create_group sv (p\<lparr>dp_groupName := name\<rparr>)) else p
      | CreateUser email password tenant \<Rightarrow>
          if dp_createUserDisabled p then p
          else fst (create_user sv (p\<lparr>dp_userEmail := email, dp_userPassword := password, dp_userTenant := tenant\<rparr>))
      | PickUserRole r \<Rightarrow> if (r, False) \<in> set (dp_roleOptions p) then user_role_changed (p\<lparr>dp_userRole := r\<rparr>) else p
      | CreateTenant name groupId key \<Rightarrow>
          if dp_createTenantShown p
          then fst (create_tenant_click sv (p\<lparr>dp_tenantName := name, dp_tenantGroup := groupId, dp_tenantKey := key\<rparr>)) else p
      | Timer \<Rightarrow> if dp_refreshing p then refreshDashboard sv p else p
      | LogoutClick \<Rightarrow> (case adminFetch (''POST'', ''/auth/logout'', []) (as_change sv (''POST'', ''/auth/logout'', [])) p of
                        (p', _) \<Rightarrow> p'\<lparr>dp_location := Some ''/login?redirect=/admin''\<rparr>))"

definition admin_run :: "'s AdminServer \<Rightarrow> AdminEvent list \<Rightarrow> 's AdminPage \<Rightarrow> 's AdminPage" where
  "admin_run sv es p = fold (admin_event sv) es p"

end
