(* ===== verification/AppUiFacts.thy ===== *)
theory AppUiFacts
  imports AppUi
begin

text \<open>
  Facts about the chat page: every handler comes to an end if no conversation is named by the empty text; the page shows the
  messages it keeps, those of an opened conversation being kept twice; the scope a developer picks changes no request.
\<close>

section \<open>Ways of working through a handler\<close>

text \<open>A property of pages every result of a handler keeps.\<close>

definition keeps :: "('s AppPage \<Rightarrow> bool) \<Rightarrow> ('s, 'a) page \<Rightarrow> bool" where
  "keeps P m \<longleftrightarrow> (\<forall>p p' r. P p \<longrightarrow> m p = Some (p', r) \<longrightarrow> P p')"

lemma bind_cases:
  "pg_bind m f p = Some (p', r) \<Longrightarrow>
     (\<exists>e. m p = Some (p', Inl e) \<and> r = Inl e) \<or> (\<exists>p1 x. m p = Some (p1, Inr x) \<and> f x p1 = Some (p', r))"
  by (auto simp: pg_bind_def split: option.splits prod.splits sum.splits)

lemma page_bind_ok: "pg_bind m f p = Some (p', Inr x) \<Longrightarrow> \<exists>p1 y. m p = Some (p1, Inr y) \<and> f y p1 = Some (p', Inr x)"
  using bind_cases by blast

lemma catch_cases:
  "pg_catch m h p = Some (p', r) \<Longrightarrow> m p = Some (p', r) \<or> (\<exists>p1 e. m p = Some (p1, Inl e) \<and> h e p1 = Some (p', r))"
  by (auto simp: pg_catch_def split: option.splits prod.splits sum.splits)

lemma keeps_bind: "keeps P m \<Longrightarrow> (\<And>x. keeps P (f x)) \<Longrightarrow> keeps P (pg_bind m f)"
  unfolding keeps_def by (metis bind_cases)

lemma keeps_catch: "keeps P m \<Longrightarrow> (\<And>e. keeps P (h e)) \<Longrightarrow> keeps P (pg_catch m h)"
  unfolding keeps_def by (metis catch_cases)

lemma keeps_do: "(\<And>p. P p \<Longrightarrow> P (f p)) \<Longrightarrow> keeps P (pg_do f)"
  by (simp add: keeps_def pg_do_def)

lemma keeps_ret: "keeps P (pg_ret x)"
  by (simp add: keeps_def pg_ret_def)

lemma keeps_at: "(\<And>q. keeps P (f q)) \<Longrightarrow> keeps P (\<lambda>p. f p p)"
  unfolding keeps_def by blast

lemma keeps_choice: "(\<And>q. keeps P (f q)) \<Longrightarrow> (\<And>p. m p = f p p) \<Longrightarrow> keeps P m"
  unfolding keeps_def by metis

lemma take_reply_page: "\<exists>l r'. take_reply r p = Some (p\<lparr>ap_location := l\<rparr>, r')"
proof -
  have "\<exists>l. p = p\<lparr>ap_location := l\<rparr>" by (rule exI [of _ "ap_location p"]) simp
  then show ?thesis unfolding take_reply_def by (cases r) (auto split: JsonBody.splits)
qed

lemma take_reply_some: "take_reply r p = Some (p', Inr (Some b)) \<Longrightarrow> \<exists>st tx m. r = Http st tx (Parsed b m)"
  by (auto simp: take_reply_def split: HttpReply.splits JsonBody.splits if_splits)

lemma fetch_page:
  "\<exists>s l r. apiFetch verb path f p = Some (p\<lparr>ap_server := s, ap_requests := (verb, path) # ap_requests p, ap_location := l\<rparr>, r)"
proof (cases "f (ap_server p)")
  case (Pair s r)
  then show ?thesis
    using take_reply_page [of r "p\<lparr>ap_server := s, ap_requests := (verb, path) # ap_requests p\<rparr>"] by (auto simp: apiFetch_def)
qed

lemma fetch_current: "apiFetch verb path f p = Some (p', r) \<Longrightarrow> ap_current p' = ap_current p"
  using fetch_page [of verb path f p] by auto

lemma keeps_fetch: "(\<And>p s q l. P p \<Longrightarrow> P (p\<lparr>ap_server := s, ap_requests := q, ap_location := l\<rparr>)) \<Longrightarrow> keeps P (apiFetch verb path f)"
  unfolding keeps_def using fetch_page by (metis option.inject prod.inject)

text \<open>A handler comes to its end from every page with \<open>P\<close>, and where it throws no error with \<open>Q\<close>.\<close>

definition ends :: "('s AppPage \<Rightarrow> bool) \<Rightarrow> ('s, 'a) page \<Rightarrow> ('a \<Rightarrow> 's AppPage \<Rightarrow> bool) \<Rightarrow> bool" where
  "ends P m Q \<longleftrightarrow> (\<forall>p. P p \<longrightarrow> (\<exists>p' r. m p = Some (p', r) \<and> (\<forall>x. r = Inr x \<longrightarrow> Q x p')))"

lemma ends_bind: "ends P m Q \<Longrightarrow> (\<And>x. ends (Q x) (f x) R) \<Longrightarrow> ends P (pg_bind m f) R"
  unfolding ends_def pg_bind_def by (fastforce split: option.splits prod.splits sum.splits)

lemma ends_catch: "ends P m Q \<Longrightarrow> (\<And>e. ends (\<lambda>_. True) (h e) Q) \<Longrightarrow> ends P (pg_catch m h) Q"
  unfolding ends_def pg_catch_def by (fastforce split: option.splits prod.splits sum.splits)

lemma ends_do: "(\<And>p. P p \<Longrightarrow> Q () (f p)) \<Longrightarrow> ends P (pg_do f) Q"
  by (simp add: ends_def pg_do_def)

lemma ends_ret: "(\<And>p. P p \<Longrightarrow> Q x p) \<Longrightarrow> ends P (pg_ret x) Q"
  by (simp add: ends_def pg_ret_def)

lemma ends_fetch: "(\<And>p s q l. P p \<Longrightarrow> P (p\<lparr>ap_server := s, ap_requests := q, ap_location := l\<rparr>)) \<Longrightarrow> ends P (apiFetch verb path f) (\<lambda>_. P)"
  unfolding ends_def using fetch_page by metis

lemma ends_at: "(\<And>q. P q \<Longrightarrow> ends (\<lambda>p. p = q) (f q) Q) \<Longrightarrow> ends P (\<lambda>p. f p p) Q"
  by (simp add: ends_def)

lemma ends_pre: "ends P m Q \<Longrightarrow> (\<And>p. P' p \<Longrightarrow> P p) \<Longrightarrow> ends P' m Q"
  by (simp add: ends_def)

lemma ends_post: "ends P m Q \<Longrightarrow> (\<And>x p. Q x p \<Longrightarrow> Q' x p) \<Longrightarrow> ends P m Q'"
  unfolding ends_def by blast

lemma ends_some: "ends P m Q \<Longrightarrow> P p \<Longrightarrow> m p \<noteq> None"
  unfolding ends_def by fastforce

section \<open>The handlers end\<close>

abbreviation anywhere :: "'s AppPage \<Rightarrow> bool" where "anywhere \<equiv> \<lambda>_. True"
abbreviation opened :: "'s AppPage \<Rightarrow> bool" where "opened \<equiv> \<lambda>p. truthy (ap_current p)"

definition names_all :: "'s AppServer \<Rightarrow> bool" where
  "names_all sv \<longleftrightarrow> (\<forall>s s' st t cs m. sv_conversations sv s = (s', Http st t (Parsed (Some cs) m)) \<longrightarrow> (\<forall>c \<in> set cs. cv_id c \<noteq> []))"

lemma render_keeps [simp]:
  fixes p :: "'a AppPage"
  shows "ap_current (renderMessages ms p) = ap_current p" "ap_current (renderConversations sv cs p) = ap_current p"
proof -
  have "ap_current (fold appendMessage xs q) = ap_current q" for xs and q :: "'a AppPage"
    by (induction xs arbitrary: q) (simp_all add: appendMessage_def)
  then show "ap_current (renderMessages ms p) = ap_current p" by (simp add: renderMessages_def setEmptyState_def)
qed (simp add: renderConversations_def)

text \<open>The listing, given that opening the first conversation ends, if it comes to that.\<close>

lemma load_ends:
  assumes "\<And>(c :: Convo) q. P q \<Longrightarrow> \<not> opened q \<Longrightarrow> (names_all sv \<longrightarrow> cv_id c \<noteq> []) \<Longrightarrow> ends (\<lambda>p. p = q) (select (cv_id c) (cv_title c)) (\<lambda>_. anywhere)"
    and "\<And>p s q l. P p \<Longrightarrow> P (p\<lparr>ap_server := s, ap_requests := q, ap_location := l\<rparr>)"
    and "\<And>p cs. P p \<Longrightarrow> P (renderConversations sv cs p)"
  shows "ends P (load_with sv select) (\<lambda>_. anywhere)"
proof -
  let ?cs = "\<lambda>data :: Convo list option option. case data of Some (Some cs) \<Rightarrow> cs | _ \<Rightarrow> []"
  let ?Q = "\<lambda>data p. P p \<and> (names_all sv \<longrightarrow> (\<forall>c \<in> set (?cs data). cv_id c \<noteq> []))"
  have f: "ends P (apiFetch ''GET'' ''/chat/conversations?limit=100'' (sv_conversations sv)) ?Q"
    unfolding ends_def
  proof (intro allI impI)
    fix p assume p: "P p"
    obtain s r where s: "sv_conversations sv (ap_server p) = (s, r)" by (cases "sv_conversations sv (ap_server p)")
    let ?p = "p\<lparr>ap_server := s, ap_requests := (''GET'', ''/chat/conversations?limit=100'') # ap_requests p\<rparr>"
    obtain l r' where t: "take_reply r ?p = Some (?p\<lparr>ap_location := l\<rparr>, r')" using take_reply_page by blast
    have "\<forall>c \<in> set (?cs data). cv_id c \<noteq> []" if d: "r' = Inr data" and n: "names_all sv" for data
    proof (cases data)
      case (Some b)
      have "take_reply r ?p = Some (?p\<lparr>ap_location := l\<rparr>, Inr (Some b))" using t unfolding d Some .
      from take_reply_some [OF this] obtain st tx m where r: "r = Http st tx (Parsed b m)" by blast
      show ?thesis
      proof (cases b)
        case (Some cs)
        then have "\<forall>c \<in> set cs. cv_id c \<noteq> []" using n s r unfolding names_all_def by blast
        then show ?thesis using \<open>data = Some b\<close> Some by simp
      qed (use \<open>data = Some b\<close> in simp)
    qed simp
    then have "\<forall>x. r' = Inr x \<longrightarrow> ?Q x (?p\<lparr>ap_location := l\<rparr>)" using assms(2) [OF p] by simp
    moreover have "apiFetch ''GET'' ''/chat/conversations?limit=100'' (sv_conversations sv) p = Some (?p\<lparr>ap_location := l\<rparr>, r')"
      unfolding apiFetch_def s using t by simp
    ultimately show "\<exists>p' r. apiFetch ''GET'' ''/chat/conversations?limit=100'' (sv_conversations sv) p = Some (p', r) \<and> (\<forall>x. r = Inr x \<longrightarrow> ?Q x p')"
      by blast
  qed
  have "ends (?Q data) (\<lambda>p. case ?cs data of c # _ \<Rightarrow> if opened p then pg_ret () p else select (cv_id c) (cv_title c) p | [] \<Rightarrow> pg_ret () p)
      (\<lambda>_. anywhere)" for data
  proof (cases "?cs data")
    case Nil
    then show ?thesis by (simp add: ends_def pg_ret_def)
  next
    case (Cons c cs)
    have "\<exists>p' r. select (cv_id c) (cv_title c) p = Some (p', r)" if "?Q data p" "\<not> opened p" for p
      using assms(1) [of p c] that Cons by (auto simp: ends_def)
    then show ?thesis unfolding Cons by (simp add: ends_def pg_ret_def)
  qed
  moreover have "ends (?Q data) (pg_do (renderConversations sv (?cs data))) (\<lambda>_. ?Q data)" for data
    using assms(3) by (intro ends_do) blast
  ultimately show ?thesis
    unfolding load_with_def Let_def by (intro ends_bind [OF f] ends_bind)
qed

lemma select_ends:
  assumes "ends (\<lambda>p. ap_current p = Some i) load (\<lambda>_. anywhere)"
  shows "ends P (select_with sv load i title) (\<lambda>_. anywhere)"
  unfolding select_with_def
  by (intro ends_bind [where Q = "\<lambda>_ p. ap_current p = Some i"] ends_do ends_fetch assms) simp_all

lemma load_opened: "ends opened (loadConversations (Suc n) sv) (\<lambda>_. anywhere)"
  unfolding loadConversations.simps by (rule load_ends [where P = opened]) simp_all

lemma load_anywhere:
  assumes "names_all sv" "2 \<le> n"
  shows "ends P (loadConversations n sv) (\<lambda>_. anywhere)"
proof -
  obtain k where n: "n = Suc (Suc k)" using assms(2) by (metis add_2_eq_Suc le_Suc_ex)
  have "ends anywhere (loadConversations n sv) (\<lambda>_. anywhere)"
    unfolding n loadConversations.simps(2) [of "Suc k"]
  proof (rule load_ends)
    fix c :: Convo and q assume "names_all sv \<longrightarrow> cv_id c \<noteq> []"
    then have "ends (\<lambda>p. ap_current p = Some (cv_id c)) (loadConversations (Suc k) sv) (\<lambda>_. anywhere)"
      using assms(1) by (intro ends_pre [OF load_opened]) simp
    then show "ends (\<lambda>p. p = q) (select_with sv (loadConversations (Suc k) sv) (cv_id c) (cv_title c)) (\<lambda>_. anywhere)"
      by (rule select_ends)
  qed simp_all
  then show ?thesis by (rule ends_pre) simp
qed

text \<open>A handler that ends from every page.\<close>

definition halts :: "('s, 'a) page \<Rightarrow> bool" where "halts m \<longleftrightarrow> (\<forall>p. m p \<noteq> None)"

lemma halts_intros:
  "halts (pg_do f)" "halts (pg_ret x)" "halts (apiFetch verb path g)" "halts (\<lambda>p. Some (p, r))" "halts (\<lambda>p. apiFetch verb path (G p) p)"
  "halts m \<Longrightarrow> (\<And>x. halts (k x)) \<Longrightarrow> halts (pg_bind m k)"
  "halts m \<Longrightarrow> (\<And>e. halts (h e)) \<Longrightarrow> halts (pg_catch m h)"
proof -
  show "halts (apiFetch verb path g)" unfolding halts_def using fetch_page by (metis option.distinct(1))
  show "halts (\<lambda>p. apiFetch verb path (G p) p)" unfolding halts_def using fetch_page by (metis option.distinct(1))
  show "halts m \<Longrightarrow> (\<And>x. halts (k x)) \<Longrightarrow> halts (pg_bind m k)"
    by (auto simp: halts_def pg_bind_def split: option.split sum.split)
  show "halts m \<Longrightarrow> (\<And>e. halts (h e)) \<Longrightarrow> halts (pg_catch m h)"
    unfolding halts_def pg_catch_def by (auto split: option.splits sum.splits)
qed (simp_all add: halts_def pg_do_def pg_ret_def)

lemma halts_scope: "halts (loadScopeOptions sv)"
  unfolding halts_def
proof
  fix q
  obtain q1 r1 where 1: "apiFetch ''GET'' ''/admin/api/tenants'' (sv_tenants sv) q = Some (q1, r1)" using fetch_page by metis
  obtain q2 r2 where 2: "apiFetch ''GET'' ''/admin/api/groups'' (sv_groups sv) q1 = Some (q2, r2)" using fetch_page by metis
  show "loadScopeOptions sv q \<noteq> None"
    unfolding loadScopeOptions_def 1 using 2 by (cases r1; cases r2) (simp_all add: pg_ret_def pg_do_def)
qed

text \<open>With a fuel of two every event of the page is handled to its end, and so is its start, if the server never
  names a conversation by the empty text.\<close>

theorem page_handlers_end:
  assumes "names_all sv" "2 \<le> n"
  shows "app_event n sv e p \<noteq> None \<and> bootstrap n sv p \<noteq> None"
proof
  have load: "halts (loadConversations n sv)"
    using ends_some [OF load_anywhere [OF assms, where P = anywhere]] by (simp add: halts_def)
  note h = halts_intros load halts_scope
  have "halts (bootstrap n sv)"
    unfolding bootstrap_def bootstrap_body_def by (intro h) (auto intro!: h split: option.split)
  then show "bootstrap n sv p \<noteq> None" by (simp add: halts_def)
  have "halts (createConversation_ui n sv)"
    unfolding createConversation_ui_def by (intro h) (auto intro!: h split: option.split)
  moreover have "halts (sendMessage n sv message)" for message
    unfolding sendMessage_def by (intro h)
  then have "halts (pg_catch (sendMessage n sv message) (\<lambda>e. pg_do (f e)))" for message f by (intro h)
  then have "handleSubmit n sv p \<noteq> None"
    unfolding handleSubmit_def Let_def halts_def by (simp add: pg_ret_def del: not_None_eq)
  moreover have "halts (selectConversation n sv i t)" for i t
    unfolding selectConversation_def select_with_def by (intro h)
  moreover have "halts (pg_bind (apiFetch ''POST'' ''/auth/logout'' (sv_logout sv)) (\<lambda>_. pg_do f))" for f by (intro h)
  ultimately show "app_event n sv e p \<noteq> None"
    unfolding app_event_def halts_def by (cases e) (simp_all add: pg_do_def pg_ret_def)
qed

lemma app_event_eq:
  "app_event n sv e = (case e of
        Type s \<Rightarrow> pg_do (\<lambda>p. p\<lparr>ap_input := s\<rparr>)
      | Submit \<Rightarrow> handleSubmit n sv
      | OpenItem i \<Rightarrow> (\<lambda>p. if i < length (ap_chatList p) then selectConversation n sv (ci_id (ap_chatList p ! i)) (ci_title (ap_chatList p ! i)) p
          else pg_ret () p)
      | NewChat \<Rightarrow> createConversation_ui n sv
      | CopyChat \<Rightarrow> pg_do (\<lambda>p. if ap_copyDisabled p then p else copyConversation p)
      | CopyTimer \<Rightarrow> pg_do copy_timer
      | PickMode m \<Rightarrow> pg_do (\<lambda>p. renderScopeOptions (p\<lparr>ap_scopeMode := m\<rparr>))
      | PickScope v \<Rightarrow> pg_do (\<lambda>p. updateScopeStatus (p\<lparr>ap_scopeValue := v\<rparr>))
      | Logout \<Rightarrow> pg_bind (apiFetch ''POST'' ''/auth/logout'' (sv_logout sv)) (\<lambda>_. pg_do (\<lambda>p. p\<lparr>ap_location := Some ''/login?redirect=/app''\<rparr>)))"
  by (rule ext) (cases e, simp_all add: app_event_def)

section \<open>What the page shows and what it keeps\<close>

definition bubbles :: "MessageNode list \<Rightarrow> MessageNode list" where "bubbles = filter (\<lambda>n. n \<noteq> EmptyNote)"

text \<open>The page shows the messages it keeps, after leaving out a first part that is repeated.\<close>

definition in_step :: "'s AppPage \<Rightarrow> bool" where
  "in_step p \<longleftrightarrow> (\<exists>pre post. ap_messages p = pre @ post \<and> bubbles (ap_messageList p) = map message_node post \<and> prefix pre post)"

lemma bubbles_nodes [simp]: "bubbles (map message_node ms) = map message_node ms"
  by (induction ms) (simp_all add: bubbles_def message_node_def)

lemma fold_append:
  "ap_messages (fold appendMessage ms p) = ap_messages p @ ms \<and> ap_messageList (fold appendMessage ms p) = ap_messageList p @ map message_node ms"
  by (induction ms arbitrary: p) (simp_all add: appendMessage_def)

lemma rendered:
  "ap_messages (renderMessages ms p) = ms @ ms"
  "ap_messageList (renderMessages ms p) = (if ms = [] then [EmptyNote] else map message_node ms)"
  by (simp_all add: renderMessages_def setEmptyState_def fold_append)

lemma in_step_render: "in_step (renderMessages ms p)"
proof -
  have "bubbles (ap_messageList (renderMessages ms p)) = map message_node ms"
    unfolding rendered using bubbles_nodes [of ms] by (auto simp: bubbles_def)
  then show ?thesis unfolding in_step_def rendered(1) by blast
qed

lemma in_step_append:
  assumes "in_step p"
  shows "in_step (appendMessage m p)"
proof -
  obtain pre post where p: "ap_messages p = pre @ post" "bubbles (ap_messageList p) = map message_node post" "prefix pre post"
    using assms unfolding in_step_def by blast
  have "bubbles (ap_messageList (appendMessage m p)) = map message_node (post @ [m])"
    using p(2) bubbles_nodes [of "[m]"] by (simp add: appendMessage_def bubbles_def)
  moreover have "ap_messages (appendMessage m p) = pre @ (post @ [m])" by (simp add: appendMessage_def p(1))
  moreover have "prefix pre (post @ [m])" using p(3) by simp
  ultimately show ?thesis unfolding in_step_def by blast
qed

lemma in_step_empty: "in_step (setEmptyState p)"
  by (simp add: in_step_def setEmptyState_def bubbles_def)

lemma in_step_other [simp]:
  "in_step (p\<lparr>ap_server := s\<rparr>) = in_step p" "in_step (p\<lparr>ap_requests := rs\<rparr>) = in_step p" "in_step (p\<lparr>ap_location := l\<rparr>) = in_step p"
  "in_step (p\<lparr>ap_input := i\<rparr>) = in_step p" "in_step (p\<lparr>ap_current := c\<rparr>) = in_step p" "in_step (p\<lparr>ap_chatTitle := t\<rparr>) = in_step p"
  "in_step (p\<lparr>ap_chatList := cl\<rparr>) = in_step p" "in_step (p\<lparr>ap_clipboard := cb\<rparr>) = in_step p" "in_step (p\<lparr>ap_timers := ts\<rparr>) = in_step p"
  "in_step (p\<lparr>ap_copyLabel := b\<rparr>) = in_step p" "in_step (p\<lparr>ap_scopeMode := m\<rparr>) = in_step p" "in_step (p\<lparr>ap_scopeValue := v\<rparr>) = in_step p"
  "in_step (p\<lparr>ap_options := os\<rparr>) = in_step p" "in_step (p\<lparr>ap_scopeStatus := ss\<rparr>) = in_step p"
  by (simp_all add: in_step_def)

lemma in_step_pure [simp]:
  "in_step (renderConversations sv cs p) = in_step p" "in_step (copyConversation p) = in_step p" "in_step (copy_timer p) = in_step p"
  "in_step (updateScopeStatus p) = in_step p" "in_step (renderScopeOptions p) = in_step p"
  by (simp_all add: renderConversations_def copyConversation_def copy_timer_def updateScopeStatus_def renderScopeOptions_def Let_def split: list.split)

lemma in_step_fetch: "keeps in_step (apiFetch verb path f)" "keeps in_step (\<lambda>p. apiFetch verb path (G p) p)"
proof -
  show f: "keeps in_step (apiFetch verb path f)" for f by (rule keeps_fetch) simp
  show "keeps in_step (\<lambda>p. apiFetch verb path (G p) p)" using f unfolding keeps_def by blast
qed

lemma keeps_load_in_step: "keeps in_step (loadConversations n sv)"
proof (induction n)
  case 0
  then show ?case by (simp add: keeps_def)
next
  case (Suc n)
  have select: "keeps in_step (select_with sv (loadConversations n sv) i t)" for i t
    unfolding select_with_def by (intro keeps_bind in_step_fetch keeps_do Suc in_step_render) simp
  have "keeps in_step (\<lambda>p. case cs of c # _ \<Rightarrow> if opened p then pg_ret () p else select_with sv (loadConversations n sv) (cv_id c) (cv_title c) p
      | [] \<Rightarrow> pg_ret () p)" for cs :: "Convo list"
    using select unfolding keeps_def by (auto simp: pg_ret_def split: list.splits if_splits)
  then show ?case
    unfolding loadConversations.simps load_with_def Let_def by (intro keeps_bind in_step_fetch keeps_do) simp_all
qed

lemma keeps_event_in_step: "keeps in_step (app_event n sv e)"
proof -
  note k = keeps_bind in_step_fetch keeps_load_in_step keeps_do keeps_catch keeps_ret
  have send: "keeps in_step (sendMessage n sv message)" for message
    unfolding sendMessage_def by (intro k) (auto simp: Let_def intro!: in_step_append)
  then have submit: "keeps in_step (pg_catch (sendMessage n sv message) (\<lambda>e. pg_do (appendMessage (f e))))" for message f
    by (intro k in_step_append)
  have select: "keeps in_step (selectConversation n sv i t)" for i t
    unfolding selectConversation_def select_with_def by (intro k in_step_render) simp
  have new: "keeps in_step (createConversation_ui n sv)"
    unfolding createConversation_ui_def by (intro k) (auto split: option.split intro!: k in_step_empty)
  have logout: "keeps in_step (pg_bind (apiFetch ''POST'' ''/auth/logout'' (sv_logout sv)) (\<lambda>_. pg_do (\<lambda>p. p\<lparr>ap_location := l\<rparr>)))" for l
    by (intro k) simp
  have hs: "keeps in_step (handleSubmit n sv)"
    by (rule keeps_choice [where f = "\<lambda>q. if js_trim (ap_input q) = [] then pg_ret () else
        pg_catch (sendMessage n sv (js_trim (ap_input q))) (\<lambda>e. pg_do (appendMessage \<lparr>ms_role = ''ASSISTANT'',
          ms_content = (if err_message e \<noteq> [] then err_message e else ''Failed to send.''), ms_sources = None\<rparr>))"])
      (simp_all add: keeps_ret submit handleSubmit_def)
  have open_item: "keeps in_step (\<lambda>p. if i < length (ap_chatList p) then selectConversation n sv (ci_id (ap_chatList p ! i)) (ci_title (ap_chatList p ! i)) p
      else pg_ret () p)" for i
    by (rule keeps_choice [where f = "\<lambda>q. if i < length (ap_chatList q)
        then selectConversation n sv (ci_id (ap_chatList q ! i)) (ci_title (ap_chatList q ! i)) else pg_ret ()"]) (simp_all add: keeps_ret select)
  show ?thesis
    unfolding app_event_eq by (cases e) (auto intro!: keeps_do hs open_item new logout)
qed

text \<open>C36: at every moment the page shows the messages it keeps, in their order; what it keeps besides is a repetition of the
  first ones.\<close>

theorem page_shows_its_messages:
  assumes "in_step p" "app_run n sv es p = Some p'"
  shows "\<exists>pre post. ap_messages p' = pre @ post \<and> prefix pre post \<and> bubbles (ap_messageList p') = map message_node post"
  using assms
proof (induction es arbitrary: p)
  case Nil
  then show ?case by (auto simp: in_step_def)
next
  case (Cons e es)
  then obtain p1 r where "app_event n sv e p = Some (p1, r)" "app_run n sv es p1 = Some p'"
    by (auto split: option.splits prod.splits)
  then show ?case using Cons.IH Cons.prems(1) keeps_event_in_step unfolding keeps_def by blast
qed

text \<open>Listing the conversations while one is open leaves the messages alone.\<close>

lemma load_keeps_messages:
  "keeps (\<lambda>p. opened p \<and> ap_messages p = ms \<and> ap_messageList p = ns) (loadConversations n sv)"
proof (cases n)
  case 0
  then show ?thesis by (simp add: keeps_def)
next
  case (Suc k)
  have "keeps (\<lambda>p. opened p \<and> ap_messages p = ms \<and> ap_messageList p = ns)
      (\<lambda>p. case cs of c # _ \<Rightarrow> if opened p then pg_ret () p else f c p | [] \<Rightarrow> pg_ret () p)" for cs :: "Convo list" and f
    by (auto simp: keeps_def pg_ret_def split: list.splits)
  then show ?thesis
    unfolding Suc loadConversations.simps load_with_def Let_def
    by (intro keeps_bind keeps_fetch keeps_do) (simp_all add: renderConversations_def)
qed

text \<open>After a conversation was opened the page shows each of its messages once and keeps each twice, so that the copied
  text has them twice.\<close>

theorem opened_messages_are_kept_twice:
  assumes "selectConversation n sv i title p = Some (p', Inr ())" "i \<noteq> []"
  shows "\<exists>ms. bubbles (ap_messageList p') = map message_node ms \<and> ap_messages p' = ms @ ms"
proof -
  let ?p = "p\<lparr>ap_current := Some i, ap_chatTitle := (if truthy title then the title else ''Conversation'')\<rparr>"
  obtain q data where f: "apiFetch ''GET'' (''/chat/conversations/'' @ i @ ''/messages'') (sv_messages sv i) ?p = Some (q, Inr data)"
    and "loadConversations n sv (renderMessages (case data of Some (Some ms) \<Rightarrow> ms | _ \<Rightarrow> []) q) = Some (p', Inr ())"
    using assms(1) unfolding selectConversation_def select_with_def by (auto dest!: page_bind_ok simp: pg_do_def)
  then obtain ms where q: "ap_current q = Some i" "loadConversations n sv (renderMessages ms q) = Some (p', Inr ())"
    using fetch_current [OF f] by fastforce
  let ?q = "renderMessages ms q"
  have "opened ?q \<and> ap_messages ?q = ap_messages ?q \<and> ap_messageList ?q = ap_messageList ?q" using assms(2) by (simp add: q(1))
  then have "ap_messages p' = ap_messages ?q" "ap_messageList p' = ap_messageList ?q"
    using load_keeps_messages q(2) unfolding keeps_def by blast+
  then have "bubbles (ap_messageList p') = map message_node ms" "ap_messages p' = ms @ ms"
    unfolding rendered using bubbles_nodes [of ms] by (auto simp: rendered bubbles_def)
  then show ?thesis by blast
qed

text \<open>Copying twice before the first timer leaves the label of the button as it is for the moment after copying.\<close>

theorem copy_label_stays:
  assumes "ap_messages p \<noteq> []" "\<not> ap_copyDisabled p" "ap_timers p = []"
  shows "map_option ap_copyLabel (app_run n sv [CopyChat, CopyChat, CopyTimer, CopyTimer] p) = Some ''Copied''"
  using assms by (simp add: app_event_def pg_do_def copyConversation_def copy_timer_def)

section \<open>The scope\<close>

text \<open>A page without the choice of a scope.\<close>

definition unscoped :: "'s AppPage \<Rightarrow> 's AppPage" where
  "unscoped p = p\<lparr>ap_scopeMode := [], ap_scopeValue := [], ap_options := [], ap_scopeStatus := []\<rparr>"

text \<open>A handler whose result, but for the choice of the scope, does not depend on it.\<close>

definition result_of :: "('s AppPage \<times> 'a res) option \<Rightarrow> ('s AppPage \<times> 'a res) option" where
  "result_of = map_option (map_prod unscoped id)"

definition scope_blind :: "('s, 'a) page \<Rightarrow> bool" where
  "scope_blind m \<longleftrightarrow> (\<forall>p q. unscoped p = unscoped q \<longrightarrow> result_of (m p) = result_of (m q))"

lemma blindI: "(\<And>p q. unscoped p = unscoped q \<Longrightarrow> result_of (m p) = result_of (m q)) \<Longrightarrow> scope_blind m"
  unfolding scope_blind_def by blast

lemma blindD: "scope_blind m \<Longrightarrow> unscoped p = unscoped q \<Longrightarrow> result_of (m p) = result_of (m q)"
  unfolding scope_blind_def by blast

lemma result_cases:
  assumes "result_of (m p) = result_of (m q)"
  obtains "m p = None" "m q = None" | p1 q1 r where "m p = Some (p1, r)" "m q = Some (q1, r)" "unscoped p1 = unscoped q1"
  using assms by (cases "m p"; cases "m q") (auto simp: result_of_def)

lemma blind_bind:
  assumes "scope_blind m" "\<And>x. scope_blind (f x)"
  shows "scope_blind (pg_bind m f)"
proof (rule blindI)
  fix p q :: "'a AppPage" assume "unscoped p = unscoped q"
  from blindD [OF assms(1) this] show "result_of (pg_bind m f p) = result_of (pg_bind m f q)"
  proof (cases rule: result_cases)
    case (2 p1 q1 r)
    then show ?thesis using blindD [OF assms(2) 2(3)] by (cases r) (simp_all add: pg_bind_def, simp add: result_of_def)
  qed (simp add: pg_bind_def)
qed

lemma blind_catch:
  assumes "scope_blind m" "\<And>e. scope_blind (h e)"
  shows "scope_blind (pg_catch m h)"
proof (rule blindI)
  fix p q :: "'a AppPage" assume "unscoped p = unscoped q"
  from blindD [OF assms(1) this] show "result_of (pg_catch m h p) = result_of (pg_catch m h q)"
  proof (cases rule: result_cases)
    case (2 p1 q1 r)
    then show ?thesis using blindD [OF assms(2) 2(3)] by (cases r) (simp_all add: pg_catch_def, simp add: result_of_def)
  qed (simp add: pg_catch_def)
qed

lemma blind_do:
  assumes "\<And>p q. unscoped p = unscoped q \<Longrightarrow> unscoped (f p) = unscoped (f q)"
  shows "scope_blind (pg_do f)"
proof (rule blindI)
  fix p q :: "'a AppPage" assume "unscoped p = unscoped q"
  from assms [OF this] show "result_of (pg_do f p) = result_of (pg_do f q)" by (simp add: pg_do_def result_of_def)
qed

lemma blind_ret: "scope_blind (pg_ret x)"
  by (rule blindI) (simp add: pg_ret_def result_of_def)

text \<open>All a page says but for the scope.\<close>

lemma unscoped_iff:
  fixes p q :: "'s AppPage"
  shows "unscoped p = unscoped q \<longleftrightarrow>
     ap_server p = ap_server q \<and> ap_requests p = ap_requests q \<and> ap_role p = ap_role q \<and> ap_current p = ap_current q \<and>
     ap_tenants p = ap_tenants q \<and> ap_groups p = ap_groups q \<and> ap_messages p = ap_messages q \<and> ap_chatList p = ap_chatList q \<and>
     ap_messageList p = ap_messageList q \<and> ap_chatTitle p = ap_chatTitle q \<and> ap_copyDisabled p = ap_copyDisabled q \<and>
     ap_copyLabel p = ap_copyLabel q \<and> ap_timers p = ap_timers q \<and> ap_clipboard p = ap_clipboard q \<and> ap_input p = ap_input q \<and>
     ap_account p = ap_account q \<and> ap_adminLink p = ap_adminLink q \<and> ap_scopePanel p = ap_scopePanel q \<and> ap_location p = ap_location q"
  by (cases p; cases q) (simp add: unscoped_def)

lemma take_reply_blind:
  assumes "unscoped p = unscoped q"
  shows "result_of (take_reply r p) = result_of (take_reply r q)"
proof -
  have "unscoped (p\<lparr>ap_location := l\<rparr>) = unscoped (q\<lparr>ap_location := l\<rparr>)" for l using assms by (simp add: unscoped_iff)
  then show ?thesis using assms by (auto simp: take_reply_def result_of_def split: HttpReply.split JsonBody.split)
qed

lemma fetch_blind:
  assumes "unscoped p = unscoped q"
  shows "result_of (apiFetch verb path f p) = result_of (apiFetch verb path f q)"
proof (cases "f (ap_server q)")
  case (Pair s r)
  have "ap_server p = ap_server q" using assms by (simp add: unscoped_iff)
  moreover have "unscoped (p\<lparr>ap_server := s, ap_requests := (verb, path) # ap_requests p\<rparr>) =
      unscoped (q\<lparr>ap_server := s, ap_requests := (verb, path) # ap_requests q\<rparr>)" using assms by (simp add: unscoped_iff)
  ultimately show ?thesis using take_reply_blind Pair by (simp add: apiFetch_def)
qed

lemma blind_fetch: "scope_blind (apiFetch verb path f)"
  by (rule blindI) (rule fetch_blind)

lemma blind_choice:
  assumes "\<And>q. scope_blind (f q)" "\<And>p q. unscoped p = unscoped q \<Longrightarrow> f p = f q" "\<And>p. m p = f p p"
  shows "scope_blind m"
proof (rule blindI)
  fix p q :: "'a AppPage" assume u: "unscoped p = unscoped q"
  show "result_of (m p) = result_of (m q)" unfolding assms(3) assms(2) [OF u] by (rule blindD [OF assms(1) u])
qed

lemma unscoped_append: "unscoped p = unscoped q \<Longrightarrow> unscoped (appendMessage m p) = unscoped (appendMessage m q)"
  by (simp add: unscoped_iff appendMessage_def)

lemma unscoped_fold: "unscoped p = unscoped q \<Longrightarrow> unscoped (fold appendMessage ms p) = unscoped (fold appendMessage ms q)"
proof (induction ms arbitrary: p q)
  case (Cons m ms)
  from Cons.IH [OF unscoped_append [OF Cons.prems]] show ?case by simp
qed simp

lemma unscoped_render: "unscoped p = unscoped q \<Longrightarrow> unscoped (renderMessages ms p) = unscoped (renderMessages ms q)"
  by (cases "ms = []") (simp_all add: renderMessages_def setEmptyState_def unscoped_iff unscoped_fold [unfolded unscoped_iff])

lemma blind_load: "scope_blind (loadConversations n sv)"
proof (induction n)
  case 0
  then show ?case by (simp add: scope_blind_def)
next
  case (Suc n)
  have select: "scope_blind (select_with sv (loadConversations n sv) i t)" for i t
    unfolding select_with_def
  proof (intro blind_bind blind_fetch blind_do Suc unscoped_render)
    fix p q :: "'a AppPage" assume "unscoped p = unscoped q"
    then show "unscoped (p\<lparr>ap_current := Some i, ap_chatTitle := if truthy t then the t else ''Conversation''\<rparr>) =
        unscoped (q\<lparr>ap_current := Some i, ap_chatTitle := if truthy t then the t else ''Conversation''\<rparr>)" by (simp add: unscoped_iff)
  qed
  have "scope_blind (\<lambda>p. case cs of c # _ \<Rightarrow> if opened p then pg_ret () p else select_with sv (loadConversations n sv) (cv_id c) (cv_title c) p
      | [] \<Rightarrow> pg_ret () p)" for cs :: "Convo list"
    by (rule blind_choice [where f = "\<lambda>q. case cs of c # _ \<Rightarrow> if opened q then pg_ret () else select_with sv (loadConversations n sv) (cv_id c) (cv_title c)
      | [] \<Rightarrow> pg_ret ()"]) (auto simp: blind_ret select unscoped_iff split: list.split)
  moreover have "scope_blind (pg_do (renderConversations sv cs))" for cs
    by (rule blind_do) (simp add: unscoped_iff renderConversations_def)
  ultimately show ?case
    unfolding loadConversations.simps load_with_def Let_def by (intro blind_bind blind_fetch)
qed

definition scope_event :: "AppEvent \<Rightarrow> bool" where
  "scope_event e \<longleftrightarrow> (case e of PickMode _ \<Rightarrow> True | PickScope _ \<Rightarrow> True | _ \<Rightarrow> False)"

lemma blind_send: "scope_blind (sendMessage n sv message)"
proof -
  have post: "scope_blind (\<lambda>p. apiFetch ''POST'' ''/chat/messages'' (sv_post sv message (if opened p then ap_current p else None)) p)"
    by (rule blind_choice [where f = "\<lambda>q. apiFetch ''POST'' ''/chat/messages'' (sv_post sv message (if opened q then ap_current q else None))"])
      (simp_all add: blind_fetch unscoped_iff)
  show ?thesis
    unfolding sendMessage_def
    by (intro blind_bind post blind_load blind_do) (simp_all add: unscoped_iff appendMessage_def Let_def)
qed

lemma blind_event: "scope_blind (app_event n sv e)" if "\<not> scope_event e"
proof -
  note b = blind_bind blind_fetch blind_load blind_ret
  have catch: "scope_blind (pg_catch (sendMessage n sv message) (\<lambda>e. pg_do (appendMessage (f e))))" for message f
    by (intro blind_catch blind_send blind_do unscoped_append)
  have hs: "scope_blind (handleSubmit n sv)"
    by (rule blind_choice [where f = "\<lambda>q. if js_trim (ap_input q) = [] then pg_ret () else
        pg_catch (sendMessage n sv (js_trim (ap_input q))) (\<lambda>e. pg_do (appendMessage \<lparr>ms_role = ''ASSISTANT'',
          ms_content = (if err_message e \<noteq> [] then err_message e else ''Failed to send.''), ms_sources = None\<rparr>))"])
      (simp_all add: blind_ret catch handleSubmit_def unscoped_iff)
  have select: "scope_blind (selectConversation n sv i t)" for i t
    unfolding selectConversation_def select_with_def
    by (intro b blind_do unscoped_render) (simp_all add: unscoped_iff)
  have open_item: "scope_blind (\<lambda>p. if i < length (ap_chatList p) then selectConversation n sv (ci_id (ap_chatList p ! i)) (ci_title (ap_chatList p ! i)) p
      else pg_ret () p)" for i
    by (rule blind_choice [where f = "\<lambda>q. if i < length (ap_chatList q)
        then selectConversation n sv (ci_id (ap_chatList q ! i)) (ci_title (ap_chatList q ! i)) else pg_ret ()"])
      (simp_all add: blind_ret select unscoped_iff)
  have do: "scope_blind (pg_do (\<lambda>p. p\<lparr>ap_current := c, ap_chatTitle := t\<rparr>))" "scope_blind (pg_do setEmptyState)"
    "scope_blind (pg_do (\<lambda>p. p\<lparr>ap_input := s\<rparr>))" "scope_blind (pg_do copy_timer)" "scope_blind (pg_do (\<lambda>p. p\<lparr>ap_location := l\<rparr>))"
    "scope_blind (pg_do (\<lambda>p. if ap_copyDisabled p then p else copyConversation p))" for c t s l
    by (rule blind_do, simp add: unscoped_iff setEmptyState_def copy_timer_def copyConversation_def formatConversationText_def split: list.split)+
  have new: "scope_blind (createConversation_ui n sv)"
    unfolding createConversation_ui_def by (intro b) (auto split: option.split intro!: b do)
  show ?thesis
    using that unfolding app_event_eq by (cases e) (auto simp: scope_event_def intro!: hs open_item new do b)
qed

text \<open>C35: the scope a developer picks is shown and nothing else: leaving out every choice of a scope changes no request of
  any run of the page.\<close>

theorem scope_changes_no_request:
  "map_option ap_requests (app_run n sv es p) = map_option ap_requests (app_run n sv (filter (\<lambda>e. \<not> scope_event e) es) p)"
proof -
  have "map_option ap_requests (app_run n sv es p) = map_option ap_requests (app_run n sv (filter (\<lambda>e. \<not> scope_event e) es) q)"
    if "unscoped p = unscoped q" for p q
    using that
  proof (induction es arbitrary: p q)
    case (Cons e es)
    show ?case
    proof (cases "scope_event e")
      case True
      have "\<exists>p1 r. app_event n sv e p = Some (p1, r) \<and> unscoped p1 = unscoped p"
        using True by (cases e) (auto simp: scope_event_def app_event_def pg_do_def unscoped_iff renderScopeOptions_def updateScopeStatus_def Let_def)
      then obtain p1 r where "app_event n sv e p = Some (p1, r)" "unscoped p1 = unscoped q" using Cons.prems by auto
      then show ?thesis using Cons.IH True by simp
    next
      case False
      from blindD [OF blind_event [OF False, of n sv] Cons.prems] show ?thesis
      proof (cases rule: result_cases)
        case (2 p1 q1 r)
        then show ?thesis using Cons.IH [OF 2(3)] False by simp
      qed (use False in simp)
    qed
  qed (simp add: unscoped_iff)
  then show ?thesis by blast
qed

section \<open>A server with one conversation\<close>

definition reply_ok :: "'a \<Rightarrow> unit \<Rightarrow> unit \<times> 'a HttpReply" where "reply_ok x s = (s, Http 200 ''{}'' (Parsed x None))"

definition sample_convo :: Convo where "sample_convo = \<lparr>cv_id = ''c1'', cv_title = None, cv_last = ''d''\<rparr>"
definition sample_message :: ChatMessage where "sample_message = \<lparr>ms_role = ''USER'', ms_content = ''hi'', ms_sources = None\<rparr>"

definition sample_app_server :: "unit AppServer" where
  "sample_app_server =
     \<lparr>sv_me = reply_ok \<lparr>me_role = ''USER'', me_tenantId = Some ''t''\<rparr>, sv_conversations = reply_ok (Some [sample_convo]),
      sv_messages = (\<lambda>_. reply_ok (Some [sample_message])), sv_create = reply_ok (Some sample_convo),
      sv_post = (\<lambda>_ _. reply_ok \<lparr>pr_conversation = Some ''c1'', pr_answer = Some ''ok'', pr_sources = None\<rparr>),
      sv_tenants = reply_ok None, sv_groups = reply_ok None, sv_logout = reply_ok (), sv_locale = id\<rparr>"

definition sample_page :: "unit AppPage" where
  "sample_page = \<lparr>ap_server = (), ap_requests = [], ap_role = None, ap_current = None, ap_scopeMode = ''tenant'', ap_tenants = [],
     ap_groups = [], ap_messages = [], ap_chatList = [], ap_messageList = [], ap_chatTitle = [], ap_scopeStatus = [], ap_scopeValue = [],
     ap_options = [], ap_copyDisabled = True, ap_copyLabel = ''Copy'', ap_timers = [], ap_clipboard = None, ap_input = [], ap_account = None,
     ap_adminLink = False, ap_scopePanel = False, ap_location = None\<rparr>"

theorem page_handlers_witness:
  "app_event 2 sample_app_server NewChat sample_page \<noteq> None \<and> bootstrap 2 sample_app_server sample_page \<noteq> None"
proof -
  have "names_all sample_app_server" by (auto simp: names_all_def sample_app_server_def reply_ok_def sample_convo_def)
  then show ?thesis by (rule page_handlers_end) simp
qed

theorem page_shows_witness:
  "\<exists>p'. app_run 2 sample_app_server [NewChat, OpenItem 0, Type ''x'', Submit] sample_page = Some p' \<and> length (ap_messages p') = 4 \<and>
     (\<exists>pre post. ap_messages p' = pre @ post \<and> prefix pre post \<and> bubbles (ap_messageList p') = map message_node post)"
proof -
  have "(case app_run 2 sample_app_server [NewChat, OpenItem 0, Type ''x'', Submit] sample_page of None \<Rightarrow> False
      | Some p' \<Rightarrow> length (ap_messages p') = 4)" by code_simp
  then obtain p' where p': "app_run 2 sample_app_server [NewChat, OpenItem 0, Type ''x'', Submit] sample_page = Some p'"
    "length (ap_messages p') = 4" by (auto split: option.splits)
  have "in_step sample_page" by (simp add: in_step_def sample_page_def bubbles_def)
  from page_shows_its_messages [OF this p'(1)] show ?thesis using p' by blast
qed

theorem opened_messages_witness:
  "\<exists>p' ms. selectConversation 2 sample_app_server ''c1'' None sample_page = Some (p', Inr ()) \<and> ms \<noteq> [] \<and>
     bubbles (ap_messageList p') = map message_node ms \<and> ap_messages p' = ms @ ms"
proof -
  have "(case selectConversation 2 sample_app_server ''c1'' None sample_page of Some (p', r) \<Rightarrow> is_ok r \<and> ap_messages p' \<noteq> [] | None \<Rightarrow> False)"
    by code_simp
  then obtain p' where p': "selectConversation 2 sample_app_server ''c1'' None sample_page = Some (p', Inr ())" "ap_messages p' \<noteq> []"
    by (auto simp: is_ok_iff split: option.splits)
  from opened_messages_are_kept_twice [OF p'(1)] p' show ?thesis by fastforce
qed

end
