(* ===== verification/AdminUiFacts.thy ===== *)
theory AdminUiFacts
  imports AdminUi AppUiFacts Admin
begin

text \<open>
  Facts about the administration page: it offers, and sends, the roles the server accepts; its start always ends at a function the script
  does not define; the button to save a tenant has no handler, the button to retry its provisioning has two; who is no
  developer changes no tenant with it, whatever the server would let them do.
\<close>

section \<open>The start\<close>

text \<open>What no step but a refresh changes.\<close>

definition unstarted :: "'s AdminPage \<Rightarrow> 's AdminPage \<Rightarrow> bool" where
  "unstarted p q \<longleftrightarrow> dp_refreshing q = dp_refreshing p \<and> dp_userRows q = dp_userRows p \<and> dp_groupRows q = dp_groupRows p \<and>
     dp_auditRows q = dp_auditRows p \<and> dp_chatRows q = dp_chatRows p"

definition ad_keeps :: "('s AdminPage \<Rightarrow> bool) \<Rightarrow> ('s, 'a) admin \<Rightarrow> bool" where
  "ad_keeps P m \<longleftrightarrow> (\<forall>p. P p \<longrightarrow> P (fst (m p)))"

lemma ad_keepsD: "ad_keeps P m \<Longrightarrow> P p \<Longrightarrow> m p = (p', r) \<Longrightarrow> P p'"
  by (metis ad_keeps_def fst_conv)

lemma ad_keepsI: "(\<And>p p' r. P p \<Longrightarrow> m p = (p', r) \<Longrightarrow> P p') \<Longrightarrow> ad_keeps P m"
  by (metis ad_keeps_def prod.collapse)

lemma ad_keeps_bind:
  assumes "ad_keeps P m" "\<And>x. ad_keeps P (f x)"
  shows "ad_keeps P (ad_bind m f)"
proof (rule ad_keepsI)
  fix p p' r assume p: "P p" and b: "ad_bind m f p = (p', r)"
  obtain p1 r1 where m: "m p = (p1, r1)" by (cases "m p")
  then have "P p1" by (rule ad_keepsD [OF assms(1) p])
  then show "P p'" using b m ad_keepsD [OF assms(2)] by (cases r1) (simp_all add: ad_bind_def)
qed

lemma ad_keeps_catch:
  assumes "ad_keeps P m" "\<And>e p. P p \<Longrightarrow> P (h e p)"
  shows "ad_keeps P (ad_catch m h)"
proof (rule ad_keepsI)
  fix p p' r assume p: "P p" and b: "ad_catch m h p = (p', r)"
  obtain p1 r1 where m: "m p = (p1, r1)" by (cases "m p")
  then have "P p1" by (rule ad_keepsD [OF assms(1) p])
  then show "P p'" using b m assms(2) by (cases r1) (auto simp: ad_catch_def)
qed

lemma ad_keeps_choice: "(\<And>q. ad_keeps P (f q)) \<Longrightarrow> (\<And>p. m p = f p p) \<Longrightarrow> ad_keeps P m"
  unfolding ad_keeps_def by simp

lemma ad_keeps_do: "(\<And>p. P p \<Longrightarrow> P (f p)) \<Longrightarrow> ad_keeps P (ad_do f)"
  by (simp add: ad_keeps_def ad_do_def)

lemma ad_keeps_ret: "ad_keeps P (ad_ret x)"
  by (simp add: ad_keeps_def ad_ret_def)

lemma ad_keeps_fail: "ad_keeps P (ad_fail m)"
  by (simp add: ad_keeps_def ad_fail_def)

lemma ad_keeps_fetch:
  assumes "\<And>p s. P p \<Longrightarrow> P (p\<lparr>dp_server := s, dp_requests := q # dp_requests p\<rparr>)" "\<And>p l. P p \<Longrightarrow> P (p\<lparr>dp_location := l\<rparr>)"
  shows "ad_keeps P (adminFetch q f)"
  unfolding ad_keeps_def
proof (intro allI impI)
  fix p assume p: "P p"
  obtain s r where f: "f (dp_server p) = (s, r)" by (cases "f (dp_server p)")
  have "P (fst (admin_reply r p))" if "P p" for p
    using that assms(2) [OF that] by (simp add: admin_reply_def split: HttpReply.split JsonBody.split)
  then show "P (fst (adminFetch q f p))" using assms(1) [OF p] by (simp add: adminFetch_def f)
qed

lemma ad_keeps_listed: "ad_keeps P m \<Longrightarrow> ad_keeps P (listed msg m)"
  unfolding listed_def by (rule ad_keeps_bind) (auto intro: ad_keeps_ret ad_keeps_fail split: option.split)

lemma ingest_summary_fails: "ad_bind loadIngestSummary f = ad_fail ''loadIngestSummary is not defined''"
  by (rule ext) (simp add: ad_bind_def loadIngestSummary_def ad_fail_def)

definition fails :: "('s, 'a) admin \<Rightarrow> bool" where "fails m \<longleftrightarrow> (\<forall>p. \<exists>p' e. m p = (p', Inl e))"

lemma fails_at_once: "fails (ad_fail m)"
  by (simp add: fails_def ad_fail_def)

lemma fails_through:
  assumes "\<And>x. fails (f x)"
  shows "fails (ad_bind m f)"
  unfolding fails_def
proof
  fix p
  obtain p1 r where m: "m p = (p1, r)" by (cases "m p")
  show "\<exists>p' e. ad_bind m f p = (p', Inl e)" using assms m unfolding fails_def by (cases r) (simp_all add: ad_bind_def)
qed

lemma unstarted_steps: "ad_keeps (unstarted p) (loadAuthMe sv)" "ad_keeps (unstarted p) (loadTenants sv)"
proof -
  show "ad_keeps (unstarted p) (loadAuthMe sv)"
    unfolding loadAuthMe_def by (intro ad_keeps_bind ad_keeps_fetch ad_keeps_do) (simp_all add: unstarted_def show_role_def Let_def)
  show "ad_keeps (unstarted p) (loadTenants sv)"
    unfolding loadTenants_def
    by (intro ad_keeps_bind ad_keeps_listed ad_keeps_fetch ad_keeps_do) (simp_all add: unstarted_def show_picker_def)
qed

text \<open>Whatever the server answers, the start of the page ends in an error: it loads no users, groups, chats or audit
  entries and sets no timer, and shows the error in place of the tenant.\<close>

theorem admin_start_fails:
  "unstarted p (fst (admin_bootstrap sv p)) \<and> (\<exists>e. dp_tenantSummary (fst (admin_bootstrap sv p)) = err_message e)"
proof -
  let ?m = "ad_bind (loadAuthMe sv) (\<lambda>_. ad_bind (loadTenants sv) (\<lambda>_. ad_fail ''loadIngestSummary is not defined'' :: ('a, unit) admin))"
  have k: "ad_keeps (unstarted p) ?m" by (intro ad_keeps_bind unstarted_steps ad_keeps_fail)
  have "fails ?m" by (intro fails_through fails_at_once)
  then obtain p' e where m: "?m p = (p', Inl e)" unfolding fails_def by blast
  have "unstarted p p" by (simp add: unstarted_def)
  from ad_keepsD [OF k this m] have "unstarted p (p'\<lparr>dp_tenantSummary := x\<rparr>)" for x by (simp add: unstarted_def)
  moreover have "fst (admin_bootstrap sv p) = p'\<lparr>dp_tenantSummary := err_message e\<rparr>"
    unfolding admin_bootstrap_def ingest_summary_fails ad_catch_def m by simp
  ultimately show ?thesis by auto
qed

section \<open>The buttons of a tenant\<close>

text \<open>Pressing Save does nothing; its handler is attached to Retry, the first button of the row, so that pressing Retry
  and giving no key saves the tenant.\<close>

theorem save_button_is_retry:
  "press_tenant sv an row SaveButton p = p \<and>
   press_tenant sv \<lparr>an_key = None, an_confirm = c\<rparr> row RetryButton p = (if tr_sftpDisabled row then p else fst (save_tenant sv row p))"
  by (simp add: press_tenant_def tenant_handlers_def tenant_buttons_def querySelector_def retry_tenant_def ad_ret_def)

section \<open>What the requests of a page have in common\<close>

text \<open>The parts of the page that decide which requests it makes.\<close>

definition same_powers :: "'s AdminPage \<Rightarrow> 's AdminPage \<Rightarrow> bool" where
  "same_powers p q \<longleftrightarrow> dp_role q = dp_role p \<and> dp_createTenantShown q = dp_createTenantShown p \<and> dp_tenantRows q = dp_tenantRows p \<and>
     dp_requests q = dp_requests p \<and> dp_userRows q = dp_userRows p \<and> dp_userRole q = dp_userRole p \<and>
     dp_roleOptions q = dp_roleOptions p \<and> dp_createUserDisabled q = dp_createUserDisabled p"

text \<open>An invariant of the page under which every request it makes is fine: what it takes for each kind of request and for each
  change of these parts.\<close>

locale page_invariant =
  fixes inv :: "'s AdminPage \<Rightarrow> bool" and fine :: "AdminRequest \<Rightarrow> bool"
  assumes fetched: "inv p \<Longrightarrow> fine c \<Longrightarrow> inv (p\<lparr>dp_server := s, dp_requests := c # dp_requests p\<rparr>)"
    and same: "inv p \<Longrightarrow> same_powers p q \<Longrightarrow> inv q"
    and tenants_listed: "inv p \<Longrightarrow> inv (p\<lparr>dp_tenantRows := map (tenant_row (sv :: 's AdminServer) (dp_role p = Some ''DEVELOPER'')) ts\<rparr>)"
    and users_listed: "inv p \<Longrightarrow> inv (p\<lparr>dp_userRows := map (user_row (getAllowedRolesForCreator (dp_role p))) us\<rparr>)"
    and tenant_edited: "inv p \<Longrightarrow> i < length (dp_tenantRows p) \<Longrightarrow>
      inv (p\<lparr>dp_tenantRows := (dp_tenantRows p)[i := (dp_tenantRows p ! i)\<lparr>tr_active := a, tr_pii := b, tr_groupName := n\<rparr>]\<rparr>)"
    and user_edited: "inv p \<Longrightarrow> i < length (dp_userRows p) \<Longrightarrow> r \<in> set (getAllowedRolesForCreator (dp_role p)) \<Longrightarrow>
      inv (p\<lparr>dp_userRows := (dp_userRows p)[i := (dp_userRows p ! i)\<lparr>ur_role := r, ur_active := a\<rparr>]\<rparr>)"
    and role_picked: "inv p \<Longrightarrow> (r, False) \<in> set (dp_roleOptions p) \<Longrightarrow> inv (p\<lparr>dp_userRole := r\<rparr>)"
    and reads: "fine (''GET'', path, [])"
    and logout: "fine (''POST'', ''/auth/logout'', [])"
    and group_created: "fine (''POST'', ''/admin/api/groups'', [(''name'', BText n)])"
    and user_deleted: "fine (''DELETE'', ''/admin/api/users/'' @ u, [])"
    and user_saved: "inv p \<Longrightarrow> i < length (dp_userRows p) \<Longrightarrow> \<not> ur_disabled (dp_userRows p ! i) \<Longrightarrow>
      fine (''PATCH'', ''/admin/api/users/'' @ u, [(''role'', BText (ur_role (dp_userRows p ! i))), (''is_active'', BBool a)])"
    and user_created: "inv p \<Longrightarrow> \<not> dp_createUserDisabled p \<Longrightarrow>
      fine (''POST'', ''/admin/api/users'', [(''email'', BText m), (''password'', BText w), (''role'', BText (dp_userRole p))] @
        (if t \<noteq> [] then [(''tenant_name'', BText t)] else []))"
    and tenant_changed: "inv p \<Longrightarrow> i < length (dp_tenantRows p) \<Longrightarrow> \<not> tr_sftpDisabled (dp_tenantRows p ! i) \<Longrightarrow> ''role'' \<notin> fst ` set body \<Longrightarrow>
      fine (verb, ''/admin/api/tenants/'' @ t, body)"
    and tenant_created: "inv p \<Longrightarrow> dp_createTenantShown p \<Longrightarrow> ''role'' \<notin> fst ` set body \<Longrightarrow> fine (''POST'', ''/admin/api/tenants'', body)"
begin

lemma fetch:
  assumes "fine c"
  shows "ad_keeps inv (adminFetch c f)"
proof (rule ad_keeps_fetch)
  show "inv (p\<lparr>dp_location := l\<rparr>)" if "inv p" for p l by (rule same [OF that]) (simp add: same_powers_def)
qed (rule fetched [OF _ assms])

lemma change: "fine (verb, path, body) \<Longrightarrow> ad_keeps inv (change sv verb path body)"
  unfolding change_def by (intro ad_keeps_bind fetch ad_keeps_ret)

lemma cosmetic: "(\<And>p. same_powers p (f p)) \<Longrightarrow> ad_keeps inv (ad_do f)"
  by (rule ad_keeps_do) (rule same)

lemma list_tenants: "ad_keeps inv (loadTenants sv)"
proof -
  have "inv ((show_picker ts p)\<lparr>dp_tenantRows := map (tenant_row sv (dp_role p = Some ''DEVELOPER'')) ts, dp_tenantSummary := x\<rparr>)" if "inv p" for p ts x
    by (rule same [OF tenants_listed [OF that, of sv ts]]) (simp add: same_powers_def show_picker_def)
  then show ?thesis unfolding loadTenants_def by (intro ad_keeps_bind ad_keeps_listed fetch reads ad_keeps_do)
qed

lemma list_users: "ad_keeps inv (loadUsers sv)"
proof -
  have "inv (p\<lparr>dp_userSummary := x, dp_userRows := map (user_row (getAllowedRolesForCreator (dp_role p))) us\<rparr>)" if "inv p" for p us x
    by (rule same [OF users_listed [OF that, of us]]) (simp add: same_powers_def)
  then show ?thesis unfolding loadUsers_def by (intro ad_keeps_bind ad_keeps_listed fetch reads ad_keeps_do)
qed

lemma list_audit: "ad_keeps inv (loadAudit sv)"
proof (rule ad_keeps_choice [where m = "loadAudit sv" and f = "\<lambda>q. let path = audit_path sv (js_trim (dp_auditAction q))
      in ad_bind (listed ''Audit data unavailable. Check admin token.'' (adminFetch (''GET'', path, []) (as_audit sv path)))
           (\<lambda>rows. ad_do (\<lambda>p. p\<lparr>dp_auditRows := map (audit_html sv) rows,
                                dp_auditSummary := digits_of (int (length rows)) @ '' recent audit entries.''\<rparr>))"])
  show "ad_keeps inv (let path = audit_path sv (js_trim (dp_auditAction q))
      in ad_bind (listed ''Audit data unavailable. Check admin token.'' (adminFetch (''GET'', path, []) (as_audit sv path)))
           (\<lambda>rows. ad_do (\<lambda>p. p\<lparr>dp_auditRows := map (audit_html sv) rows,
                                dp_auditSummary := digits_of (int (length rows)) @ '' recent audit entries.''\<rparr>)))" for q
    unfolding Let_def by (intro ad_keeps_bind ad_keeps_listed fetch reads cosmetic) (simp add: same_powers_def)
qed (simp add: loadAudit_def Let_def)

lemma loads:
  "ad_keeps inv (loadTenants sv)" "ad_keeps inv (loadUsers sv)" "ad_keeps inv (loadAudit sv)" "ad_keeps inv (loadChatSummary sv)"
  "ad_keeps inv (loadGroups sv)" "ad_keeps inv (loadChats sv)" "ad_keeps inv (loadChatMessages sv i)"
  unfolding loadChatSummary_def loadGroups_def loadChats_def loadChatMessages_def Let_def
  by (rule list_tenants list_users list_audit | (intro ad_keeps_bind ad_keeps_listed fetch reads cosmetic; simp add: same_powers_def))+

lemmas loaded = loads [unfolded ad_keeps_def, rule_format]

lemma refreshed: "inv p \<Longrightarrow> inv (refreshDashboard sv p)"
  unfolding refreshDashboard_def by (intro loaded)

lemma alerted: "inv p \<Longrightarrow> inv (alert e p)"
  by (rule same) (simp_all add: alert_def same_powers_def)

lemma refreshes: "ad_keeps inv (ad_do (refreshDashboard sv))"
  by (rule ad_keeps_do) (rule refreshed)

lemmas keeps = ad_keeps_bind change loads ad_keeps_catch ad_keeps_ret alerted refreshes

lemma saves_user: "fine (''PATCH'', ''/admin/api/users/'' @ ui_id (ur_user row), [(''role'', BText (ur_role row)), (''is_active'', BBool (ur_active row))]) \<Longrightarrow>
    ad_keeps inv (save_user sv row)"
  unfolding save_user_def by (intro keeps)

lemma deletes_user: "ad_keeps inv (delete_user sv an row)"
proof -
  have "ad_keeps inv (ad_catch (ad_bind (change sv ''DELETE'' (''/admin/api/users/'' @ ui_id (ur_user row)) []) (\<lambda>_. loadUsers sv)) alert)"
    by (intro keeps user_deleted)
  then show ?thesis by (simp add: delete_user_def ad_keeps_ret)
qed

lemma creates_group: "ad_keeps inv (create_group sv)"
proof -
  have "ad_keeps inv (ad_catch
           (ad_bind (change sv ''POST'' ''/admin/api/groups'' [(''name'', BText n)]) (\<lambda>_.
            ad_bind (ad_do (\<lambda>p. p\<lparr>dp_groupName := []\<rparr>)) (\<lambda>_.
            ad_bind (loadGroups sv) (\<lambda>_. ad_bind (loadTenants sv) (\<lambda>_. ad_do (refreshDashboard sv)))))) alert)" for n
    by (intro keeps group_created cosmetic) (simp add: same_powers_def)
  then show ?thesis
    by (intro ad_keeps_choice [where m = "create_group sv" and f = "\<lambda>q. if js_trim (dp_groupName q) = [] then ad_ret () else ad_catch
           (ad_bind (change sv ''POST'' ''/admin/api/groups'' [(''name'', BText (js_trim (dp_groupName q)))]) (\<lambda>_.
            ad_bind (ad_do (\<lambda>p. p\<lparr>dp_groupName := []\<rparr>)) (\<lambda>_.
            ad_bind (loadGroups sv) (\<lambda>_. ad_bind (loadTenants sv) (\<lambda>_. ad_do (refreshDashboard sv)))))) alert"])
      (simp_all add: create_group_def ad_keeps_ret)
qed

lemma creates_user:
  assumes "inv p" "\<not> dp_createUserDisabled p"
  shows "inv (fst (create_user sv p))"
proof -
  have "ad_keeps inv (ad_catch
           (ad_bind (change sv ''POST'' ''/admin/api/users'' ([(''email'', BText m), (''password'', BText w), (''role'', BText (dp_userRole p))] @
              (if t \<noteq> [] then [(''tenant_name'', BText t)] else []))) (\<lambda>_.
            ad_bind (ad_do (\<lambda>p. p\<lparr>dp_userEmail := [], dp_userPassword := []\<rparr>)) (\<lambda>_.
            ad_bind (loadUsers sv) (\<lambda>_. ad_do (refreshDashboard sv))))) alert)" for m w t
    by (intro keeps user_created [OF assms] cosmetic) (simp add: same_powers_def)
  note c = this [unfolded ad_keeps_def, rule_format, OF assms(1)]
  show ?thesis
    unfolding create_user_def Let_def using c alerted [OF assms(1)] by (simp only: ad_do_def fst_conv split: if_split) simp
qed

lemma creates_tenant:
  assumes "inv p" "dp_createTenantShown p"
  shows "inv (fst (create_tenant_click sv p))"
proof -
  define q where "q = p\<lparr>dp_tenantStatus := [], dp_onboarding := None\<rparr>"
  have q: "inv q" by (rule same [OF assms(1)]) (simp add: q_def same_powers_def)
  define body where "body = [(''tenant_name'', BText (js_trim (dp_tenantName q))),
      (''group_id'', if js_trim (dp_tenantGroup q) = [] then BNull else BText (js_trim (dp_tenantGroup q))),
      (''tenant_sftp_public_key'', BText (js_trim (dp_tenantKey q)))]"
  have f: "fine (''POST'', ''/admin/api/tenants'', body)" by (rule tenant_created [OF assms]) (simp add: body_def)
  have "ad_keeps inv (ad_catch
           (ad_bind (change sv ''POST'' ''/admin/api/tenants'' body) (\<lambda>onboarding.
            ad_bind (ad_do (\<lambda>p. p\<lparr>dp_tenantName := [], dp_tenantGroup := [], dp_tenantKey := []\<rparr>)) (\<lambda>_.
            ad_bind (loadTenants sv) (\<lambda>_.
            ad_bind (ad_do (refreshDashboard sv)) (\<lambda>_.
            ad_do (\<lambda>p. p\<lparr>dp_onboarding := (case onboarding of None \<Rightarrow> dp_onboarding p | Some ob \<Rightarrow> Some (onboarding_text ob)),
                         dp_tenantStatus := ''Tenant created and SFTP provisioned.''\<rparr>))))))
           (\<lambda>e p. p\<lparr>dp_tenantStatus := (if err_message e \<noteq> [] then err_message e else ''Failed to create tenant.'')\<rparr>))"
    by (intro keeps f cosmetic) (auto simp: same_powers_def elim!: same)
  then have c: "inv (fst (ad_catch
           (ad_bind (change sv ''POST'' ''/admin/api/tenants'' body) (\<lambda>onboarding.
            ad_bind (ad_do (\<lambda>p. p\<lparr>dp_tenantName := [], dp_tenantGroup := [], dp_tenantKey := []\<rparr>)) (\<lambda>_.
            ad_bind (loadTenants sv) (\<lambda>_.
            ad_bind (ad_do (refreshDashboard sv)) (\<lambda>_.
            ad_do (\<lambda>p. p\<lparr>dp_onboarding := (case onboarding of None \<Rightarrow> dp_onboarding p | Some ob \<Rightarrow> Some (onboarding_text ob)),
                         dp_tenantStatus := ''Tenant created and SFTP provisioned.''\<rparr>))))))
           (\<lambda>e p. p\<lparr>dp_tenantStatus := (if err_message e \<noteq> [] then err_message e else ''Failed to create tenant.'')\<rparr>) q))"
    using q unfolding ad_keeps_def by blast
  have "inv (q\<lparr>dp_tenantStatus := x\<rparr>)" for x by (rule same [OF q]) (simp add: same_powers_def)
  with c show ?thesis unfolding create_tenant_click_def Let_def q_def [symmetric] body_def [symmetric] by (simp add: ad_do_def)
qed

lemma pressed:
  assumes "inv p" "i < length (dp_tenantRows p)"
  shows "inv (press_tenant sv an (dp_tenantRows p ! i) b p)"
proof (cases "tr_sftpDisabled (dp_tenantRows p ! i)")
  case True
  then show ?thesis using assms(1) by (cases b) (simp_all add: press_tenant_def tenant_handlers_def tenant_buttons_def querySelector_def)
next
  case False
  let ?row = "dp_tenantRows p ! i"
  note f = tenant_changed [OF assms False]
  have s: "ad_keeps inv (save_tenant sv ?row)"
    unfolding save_tenant_def Let_def by (intro keeps) (use f in \<open>simp_all\<close>)
  have ch: "ad_keeps inv (sftp_change sv verb (''/admin/api/tenants/'' @ x) body d)" if "''role'' \<notin> fst ` set body" for verb x body d
    unfolding sftp_change_def by (intro keeps f that cosmetic) (simp add: same_powers_def)
  have "ad_keeps inv (retry_tenant sv an ?row)" "ad_keeps inv (rotate_tenant sv an ?row)" "ad_keeps inv (deprovision_tenant sv an ?row)"
    unfolding retry_tenant_def rotate_tenant_def deprovision_tenant_def using ch by (simp_all add: ad_keeps_ret)
  then show ?thesis
    using s assms(1) unfolding ad_keeps_def
    by (cases b) (simp_all add: press_tenant_def tenant_handlers_def tenant_buttons_def querySelector_def)
qed

lemma after_event:
  assumes "inv p"
  shows "inv (admin_event sv e p)"
proof (cases e)
  case (Section s)
  have q: "inv (p\<lparr>dp_section := s, dp_title := t, dp_subtitle := x\<rparr>)" for t x
    by (rule same [OF assms]) (simp add: same_powers_def)
  have "inv (setActiveSection sv s p)"
    unfolding setActiveSection_def Let_def using loaded [OF q] refreshed [OF q] q by (simp only: split: if_split) blast
  then show ?thesis using assms by (simp add: Section admin_event_def)
next
  case (Pick t)
  have "inv (p\<lparr>dp_picked := t, dp_stored := Some t\<rparr>)" by (rule same [OF assms]) (simp add: same_powers_def)
  then show ?thesis by (simp add: Pick admin_event_def refreshed)
next
  case (SaveUser i)
  show ?thesis
  proof (cases "i < length (dp_userRows p) \<and> \<not> ur_disabled (dp_userRows p ! i)")
    case True
    then have "ad_keeps inv (save_user sv (dp_userRows p ! i))" by (intro saves_user user_saved [OF assms]) simp_all
    then show ?thesis using assms True by (simp add: SaveUser admin_event_def ad_keeps_def)
  qed (use assms in \<open>auto simp: SaveUser admin_event_def\<close>)
next
  case (AuditRefresh a)
  have "ad_keeps inv (ad_catch (loadAudit sv) (\<lambda>e p. p\<lparr>dp_auditSummary := err_message e\<rparr>))"
    by (intro ad_keeps_catch loads) (auto simp: same_powers_def elim!: same)
  moreover have "inv (p\<lparr>dp_auditAction := a\<rparr>)" by (rule same [OF assms]) (simp add: same_powers_def)
  ultimately show ?thesis by (simp add: AuditRefresh admin_event_def ad_keeps_def)
next
  case LogoutClick
  have "ad_keeps inv (adminFetch (''POST'', ''/auth/logout'', []) (as_change sv (''POST'', ''/auth/logout'', [])))" by (rule fetch [OF logout])
  then have q: "inv (fst (adminFetch (''POST'', ''/auth/logout'', []) (as_change sv (''POST'', ''/auth/logout'', [])) p))"
    using assms unfolding ad_keeps_def by blast
  have "inv ((fst (adminFetch (''POST'', ''/auth/logout'', []) (as_change sv (''POST'', ''/auth/logout'', [])) p))\<lparr>dp_location := l\<rparr>)" for l
    by (rule same [OF q]) (simp add: same_powers_def)
  then show ?thesis by (simp add: LogoutClick admin_event_def case_prod_beta)
next
  case (CreateGroup n)
  have "inv (p\<lparr>dp_groupName := n\<rparr>)" by (rule same [OF assms]) (simp add: same_powers_def)
  then show ?thesis using assms creates_group by (simp add: CreateGroup admin_event_def ad_keeps_def)
next
  case (CreateUser m w t)
  have "inv (p\<lparr>dp_userEmail := m, dp_userPassword := w, dp_userTenant := t\<rparr>)" by (rule same [OF assms]) (simp add: same_powers_def)
  then show ?thesis using assms creates_user by (simp add: CreateUser admin_event_def)
next
  case (PickUserRole r)
  have "inv (user_role_changed q)" if "inv q" for q by (rule same [OF that]) (simp add: user_role_changed_def same_powers_def)
  then show ?thesis using assms role_picked [OF assms] by (simp add: PickUserRole admin_event_def)
next
  case (CreateTenant n g k)
  have "inv (p\<lparr>dp_tenantName := n, dp_tenantGroup := g, dp_tenantKey := k\<rparr>)" by (rule same [OF assms]) (simp add: same_powers_def)
  then show ?thesis using assms creates_tenant by (simp add: CreateTenant admin_event_def)
qed (use assms in \<open>simp_all add: admin_event_def loaded refreshed pressed tenant_edited user_edited deletes_user [unfolded ad_keeps_def, rule_format]\<close>)

lemma after_run: "inv p \<Longrightarrow> inv (admin_run sv es p)"
  unfolding admin_run_def by (induction es arbitrary: p) (simp_all add: after_event)

end

section \<open>Tenants\<close>

text \<open>A request that changes no tenant.\<close>

definition spares_tenants :: "AdminRequest \<Rightarrow> bool" where
  "spares_tenants q \<longleftrightarrow> fst q = ''GET'' \<or> \<not> startsWith (fst (snd q)) ''/admin/api/tenants''"

text \<open>The page has made only fine requests since it had made \<open>qs\<close>.\<close>

definition made_only :: "(AdminRequest \<Rightarrow> bool) \<Rightarrow> AdminRequest list \<Rightarrow> 's AdminPage \<Rightarrow> bool" where
  "made_only fine qs p \<longleftrightarrow> (\<exists>new. dp_requests p = new @ qs \<and> list_all fine new)"

lemma made_one_more:
  assumes "made_only fine qs p" "fine q" "dp_requests p' = q # dp_requests p"
  shows "made_only fine qs p'"
proof -
  obtain new where "dp_requests p = new @ qs" "list_all fine new" using assms(1) by (auto simp: made_only_def)
  then have "dp_requests p' = (q # new) @ qs \<and> list_all fine (q # new)" using assms(2,3) by simp
  then show ?thesis unfolding made_only_def by blast
qed

lemma made_none: "made_only fine (dp_requests p) p"
  unfolding made_only_def by (rule exI [of _ "[]"]) simp

text \<open>The page of one who is no developer.\<close>

definition bystander :: "AdminRequest list \<Rightarrow> 's AdminPage \<Rightarrow> bool" where
  "bystander qs p \<longleftrightarrow> dp_role p \<noteq> Some ''DEVELOPER'' \<and> \<not> dp_createTenantShown p \<and> list_all tr_sftpDisabled (dp_tenantRows p) \<and>
     made_only spares_tenants qs p"

interpretation bystanders: page_invariant "bystander qs" spares_tenants for qs
proof (unfold_locales, goal_cases)
  case (1 p c s)
  then have "made_only spares_tenants qs p" by (simp add: bystander_def)
  then have "made_only spares_tenants qs (p\<lparr>dp_server := s, dp_requests := c # dp_requests p\<rparr>)"
    by (rule made_one_more) (use 1 in simp_all)
  then show ?case using 1 by (simp add: bystander_def)
next
  case (3 p sv ts)
  then show ?case by (simp add: bystander_def made_only_def list_all_iff tenant_row_def)
next
  case (5 p i a b n)
  then show ?case by (simp add: bystander_def made_only_def list_all_length nth_list_update)
next
  case (14 p i body verb t)
  then show ?case by (simp add: bystander_def list_all_length)
qed (simp_all add: bystander_def same_powers_def made_only_def spares_tenants_def startsWith_def)

text \<open>With the page, one who is no developer changes no tenant: whatever is pressed and answered, every request that is not
  a read is for something else, although the server accepts changes of their tenants from administrators.\<close>

theorem others_change_no_tenant:
  assumes "dp_role p \<noteq> Some ''DEVELOPER''" "\<not> dp_createTenantShown p" "list_all tr_sftpDisabled (dp_tenantRows p)"
  shows "\<exists>new. dp_requests (admin_run sv es p) = new @ dp_requests p \<and> list_all spares_tenants new"
proof -
  have "bystander (dp_requests p) p" using assms by (simp add: bystander_def made_none)
  then have "bystander (dp_requests p) (admin_run sv es p)" by (rule bystanders.after_run)
  then show ?thesis by (simp add: bystander_def made_only_def)
qed

section \<open>Roles\<close>

text \<open>A request that gives a user no role but one of these.\<close>

definition gives_one_of :: "string list \<Rightarrow> AdminRequest \<Rightarrow> bool" where
  "gives_one_of roles c \<longleftrightarrow> (case map_of (snd (snd c)) ''role'' of None \<Rightarrow> True | Some v \<Rightarrow> v \<in> BText ` set roles)"

text \<open>The page of one with the role: the roles it offers, and has chosen, are those one with the role may give.\<close>

definition role_bound :: "string option \<Rightarrow> AdminRequest list \<Rightarrow> 's AdminPage \<Rightarrow> bool" where
  "role_bound role qs p \<longleftrightarrow>
     (let roles = getAllowedRolesForCreator role
      in dp_role p = role \<and> made_only (gives_one_of roles) qs p \<and>
         list_all (\<lambda>u. ur_disabled u \<or> ur_role u \<in> set roles) (dp_userRows p) \<and>
         (dp_createUserDisabled p \<or> dp_userRole p \<in> set roles) \<and>
         (\<forall>r. (r, False) \<in> set (dp_roleOptions p) \<longrightarrow> r \<in> set roles))"

lemma no_role: "''role'' \<notin> fst ` set (snd (snd c)) \<Longrightarrow> gives_one_of roles c"
  by (simp add: gives_one_of_def map_of_eq_None_iff [THEN iffD2])

interpretation role_bounds: page_invariant "role_bound role qs" "gives_one_of (getAllowedRolesForCreator role)" for role qs
proof (unfold_locales, goal_cases)
  case (1 p c s)
  then have "made_only (gives_one_of (getAllowedRolesForCreator role)) qs p" by (simp add: role_bound_def Let_def)
  then have "made_only (gives_one_of (getAllowedRolesForCreator role)) qs (p\<lparr>dp_server := s, dp_requests := c # dp_requests p\<rparr>)"
    by (rule made_one_more) (use 1 in simp_all)
  then show ?case using 1 by (simp add: role_bound_def Let_def)
next
  case (4 p us)
  then show ?case by (simp add: role_bound_def Let_def made_only_def list_all_iff user_row_def)
next
  case (6 p i r a)
  then show ?case by (simp add: role_bound_def Let_def made_only_def list_all_length nth_list_update)
next
  case (12 p i u a)
  then have "ur_role (dp_userRows p ! i) \<in> set (getAllowedRolesForCreator role)" by (auto simp: role_bound_def Let_def list_all_length)
  then show ?case by (simp add: gives_one_of_def)
next
  case (14 p i body verb t)
  then show ?case by (intro no_role) simp
next
  case (15 p body)
  then show ?case by (intro no_role) simp
qed (simp_all add: role_bound_def Let_def same_powers_def made_only_def no_role gives_one_of_def)

text \<open>The roles the server accepts are those the page computes.\<close>

lemma same_roles: "role_allowed ctx x \<longleftrightarrow> x \<in> set (getAllowedRolesForCreator (map_option role_name (cx_role ctx)))"
proof (cases "cx_role ctx")
  case (Some r)
  then show ?thesis
    by (cases r) (simp_all add: role_allowed_def allowedRolesForCreator_def getAllowedRolesForCreator_def role_name_def)
qed (simp add: role_allowed_def getAllowedRolesForCreator_def)

text \<open>The options of index.html.\<close>

definition html_roles :: "(string \<times> bool) list" where
  "html_roles = map (\<lambda>r. (r, False)) [''USER'', ''ADMIN'', ''DEALERADMIN'', ''DEVELOPER'']"

lemma offered:
  assumes "dp_roleOptions p = html_roles" "dp_role p = Some r"
  shows "(x, False) \<in> set (dp_roleOptions (show_role p)) \<longleftrightarrow> x \<in> set (getAllowedRolesForCreator (Some r))"
  by (auto simp: show_role_def Let_def assms html_roles_def getAllowedRolesForCreator_def)

lemma shown_bound:
  assumes "dp_roleOptions p = html_roles" "dp_role p = Some r" "dp_userRows p = []"
  shows "role_bound (Some r) (dp_requests p) (show_role p)"
proof -
  have "dp_role (show_role p) = Some r" "dp_requests (show_role p) = dp_requests p" "dp_userRows (show_role p) = []"
    "dp_userRole (show_role p) \<in> set (getAllowedRolesForCreator (Some r)) \<or> dp_createUserDisabled (show_role p)"
    using assms(2,3) by (auto simp: show_role_def Let_def split: list.split)
  moreover have "made_only f (dp_requests p) (show_role p)" for f
    using made_none [of f "show_role p"] calculation(2) by (simp only:)
  ultimately show ?thesis using offered [OF assms(1,2)] by (auto simp: role_bound_def Let_def)
qed

text \<open>The start of the page, if the server names the role.\<close>

lemma started:
  assumes "as_me sv (dp_server p) = (s, Http status text (Parsed r m))" "200 \<le> status" "status \<le> 299" "r \<noteq> ''USER''"
    "dp_roleOptions p = html_roles" "dp_userRows p = []"
  shows "role_bound (Some r) ((''GET'', ''/auth/me'', []) # dp_requests p) (fst (admin_bootstrap sv p)) \<and>
    dp_roleOptions (fst (admin_bootstrap sv p)) = dp_roleOptions (show_role (p\<lparr>dp_role := Some r\<rparr>))"
proof -
  let ?q = "p\<lparr>dp_server := s, dp_requests := (''GET'', ''/auth/me'', []) # dp_requests p, dp_role := Some r\<rparr>"
  have me: "loadAuthMe sv p = (show_role ?q, Inr ())"
    using assms(1-4) by (simp add: loadAuthMe_def ad_bind_def adminFetch_def admin_reply_def ad_do_def)
  have q: "dp_roleOptions ?q = html_roles" "dp_role ?q = Some r" "dp_userRows ?q = []" using assms(5,6) by simp_all
  have b: "role_bound (Some r) ((''GET'', ''/auth/me'', []) # dp_requests p) (show_role ?q)"
    using shown_bound [OF q] by simp
  obtain p' x where t: "loadTenants sv (show_role ?q) = (p', x)" by (cases "loadTenants sv (show_role ?q)")
  have k: "role_bound (Some r) ((''GET'', ''/auth/me'', []) # dp_requests p) p'"
    using ad_keepsD [OF role_bounds.list_tenants b t] .
  have "ad_keeps (\<lambda>p. dp_roleOptions p = dp_roleOptions (show_role ?q)) (loadTenants sv)"
    unfolding loadTenants_def by (intro ad_keeps_bind ad_keeps_listed ad_keeps_fetch ad_keeps_do) (simp_all add: show_picker_def)
  from this [unfolded ad_keeps_def, rule_format, of "show_role ?q"] have o: "dp_roleOptions p' = dp_roleOptions (show_role ?q)"
    by (simp only: t fst_conv)
  obtain e where e: "fst (admin_bootstrap sv p) = p'\<lparr>dp_tenantSummary := err_message e\<rparr>"
  proof (cases x)
    case (Inl e)
    then have "fst (admin_bootstrap sv p) = p'\<lparr>dp_tenantSummary := err_message e\<rparr>"
      unfolding admin_bootstrap_def ingest_summary_fails by (simp add: ad_catch_def ad_bind_def me t)
    then show ?thesis by (rule that)
  next
    case (Inr u)
    then have "fst (admin_bootstrap sv p) = p'\<lparr>dp_tenantSummary := err_message (Js ''loadIngestSummary is not defined'')\<rparr>"
      unfolding admin_bootstrap_def ingest_summary_fails by (simp add: ad_catch_def ad_bind_def ad_fail_def me t)
    then show ?thesis by (rule that)
  qed
  have "role_bound (Some r) ((''GET'', ''/auth/me'', []) # dp_requests p) (p'\<lparr>dp_tenantSummary := y\<rparr>)" for y
    by (rule role_bounds.same [OF k]) (simp add: same_powers_def)
  moreover have "dp_roleOptions (show_role ?q) = dp_roleOptions (show_role (p\<lparr>dp_role := Some r\<rparr>))"
    by (simp add: show_role_def Let_def)
  ultimately show ?thesis by (simp add: e o)
qed

text \<open>C37: when the session of the page has a role, and is not that of a plain user, the page offers for a new user exactly the roles
  the server accepts from this session; and whatever is pressed, chosen and answered from then on, every request to create
  or change a user that names a role names one the server accepts, so that none is refused for its role.\<close>

theorem page_sends_roles_the_server_accepts:
  assumes "as_me sv (dp_server p) = (s, Http status text (Parsed (role_name role) m))" "200 \<le> status" "status \<le> 299" "role \<noteq> USER"
    and "dp_roleOptions p = html_roles" "dp_userRows p = []" "cx_role ctx = Some role"
  shows "((x, False) \<in> set (dp_roleOptions (fst (admin_bootstrap sv p))) \<longleftrightarrow> role_allowed ctx x) \<and>
    (\<exists>new. dp_requests (admin_run sv es (fst (admin_bootstrap sv p))) = new @ (''GET'', ''/auth/me'', []) # dp_requests p \<and>
       list_all (\<lambda>(verb, path, body). case map_of body ''role'' of Some v \<Rightarrow> \<exists>y. v = BText y \<and> role_allowed ctx y | None \<Rightarrow> True) new)"
proof -
  have "role_name role \<noteq> ''USER''" using assms(4) by (cases role) (simp_all add: role_name_def)
  note st = started [OF assms(1-3) this assms(5,6)]
  have r: "role_allowed ctx y \<longleftrightarrow> y \<in> set (getAllowedRolesForCreator (Some (role_name role)))" for y
    using same_roles [of ctx y] assms(7) by simp
  have "(x, False) \<in> set (dp_roleOptions (fst (admin_bootstrap sv p))) \<longleftrightarrow> role_allowed ctx x"
    using st offered [of "p\<lparr>dp_role := Some (role_name role)\<rparr>" "role_name role" x] assms(5) r by simp
  moreover obtain new where n: "dp_requests (admin_run sv es (fst (admin_bootstrap sv p))) = new @ (''GET'', ''/auth/me'', []) # dp_requests p"
    "list_all (gives_one_of (getAllowedRolesForCreator (Some (role_name role)))) new"
    using role_bounds.after_run [OF conjunct1 [OF st], of sv es] unfolding role_bound_def Let_def made_only_def by blast
  moreover have "list_all (\<lambda>(verb, path, body). case map_of body ''role'' of Some v \<Rightarrow> \<exists>y. v = BText y \<and> role_allowed ctx y | None \<Rightarrow> True) new"
    using n(2) unfolding list_all_iff gives_one_of_def r by (fastforce split: option.splits)
  ultimately show ?thesis by blast
qed

section \<open>A server with one tenant and one user\<close>

definition sample_tenant :: TenantInfo where
  "sample_tenant = \<lparr>ti_id = ''t1'', ti_name = ''N'', ti_active = True, ti_pii = True, ti_group = None, ti_sftpEnabled = False,
     ti_sftpError = None, ti_sftpHome = None\<rparr>"

definition sample_admin_server :: "unit AdminServer" where
  "sample_admin_server =
     \<lparr>as_me = reply_ok ''ADMIN'', as_tenants = reply_ok (Some [sample_tenant]), as_audit = (\<lambda>_. reply_ok (Some [])),
      as_groups = reply_ok (Some []),
      as_users = reply_ok (Some [\<lparr>ui_id = ''u1'', ui_email = ''e'', ui_role = ''USER'', ui_active = True\<rparr>]),
      as_chats = (\<lambda>_. reply_ok (Some [])), as_messages = (\<lambda>_. reply_ok (Some [])), as_change = (\<lambda>_. reply_ok None), as_locale = id,
      as_encode = id, as_dash = ''-'', as_bullet = ''*''\<rparr>"

definition admin_page :: "string \<Rightarrow> unit AdminPage" where
  "admin_page role =
     \<lparr>dp_server = (), dp_requests = [], dp_role = Some role, dp_section = [], dp_title = [], dp_subtitle = [], dp_hidden = [],
      dp_stored = None, dp_picker = [], dp_picked = [], dp_pickerShown = False, dp_tenantRows = [], dp_auditRows = [],
      dp_groupRows = [], dp_userRows = [], dp_chatRows = [], dp_chatMessages = [], dp_tenantSummary = [], dp_userSummary = [],
      dp_auditSummary = [], dp_chatSummary = [], dp_auditAction = [], dp_groupName = [], dp_userEmail = [], dp_userPassword = [],
      dp_userRole = [], dp_userTenant = [], dp_userTenantHint = [], dp_roleOptions = [], dp_createUserDisabled = False,
      dp_tenantName = [], dp_tenantGroup = [], dp_tenantKey = [], dp_tenantStatus = [], dp_createTenantShown = (role = ''DEVELOPER''),
      dp_createGroupShown = (role = ''DEVELOPER''), dp_onboarding = None, dp_alerts = [], dp_location = None, dp_refreshing = False\<rparr>"

definition sample_presses :: "AdminEvent list" where
  "sample_presses = [Section ''tenants'', EditTenant 0 False True [], PressTenant 0 SaveButton \<lparr>an_key = None, an_confirm = True\<rparr>,
     PressTenant 0 RetryButton \<lparr>an_key = None, an_confirm = True\<rparr>, Section ''users'', SaveUser 0]"

text \<open>The same presses on the page of an administrator and of a developer: the first changes the user and not the tenant, the
  second saves the tenant, by the button to retry.\<close>

theorem others_change_no_tenant_witness:
  "(\<exists>new. dp_requests (admin_run sample_admin_server sample_presses (admin_page ''ADMIN'')) = new @ dp_requests (admin_page ''ADMIN'') \<and>
      list_all spares_tenants new) \<and>
   ''PATCH'' \<in> set (map fst (dp_requests (admin_run sample_admin_server sample_presses (admin_page ''ADMIN'')))) \<and>
   \<not> list_all spares_tenants (dp_requests (admin_run sample_admin_server sample_presses (admin_page ''DEVELOPER'')))"
proof (intro conjI)
  show "\<exists>new. dp_requests (admin_run sample_admin_server sample_presses (admin_page ''ADMIN'')) = new @ dp_requests (admin_page ''ADMIN'') \<and>
      list_all spares_tenants new"
    by (rule others_change_no_tenant) (simp_all add: admin_page_def)
  show "''PATCH'' \<in> set (map fst (dp_requests (admin_run sample_admin_server sample_presses (admin_page ''ADMIN''))))" by code_simp
  show "\<not> list_all spares_tenants (dp_requests (admin_run sample_admin_server sample_presses (admin_page ''DEVELOPER'')))" by code_simp
qed

text \<open>An administrator who opens the section of the users, chooses a role the page hides, then creates a user and saves another.\<close>

theorem page_sends_roles_witness:
  "(''DEVELOPER'', False) \<notin> set (dp_roleOptions (fst (admin_bootstrap sample_admin_server (admin_page ''ADMIN''\<lparr>dp_roleOptions := html_roles\<rparr>)))) \<and>
   (\<exists>new. dp_requests (admin_run sample_admin_server [Section ''users'', PickUserRole ''DEVELOPER'', CreateUser ''e'' ''w'' ''t'', SaveUser 0]
        (fst (admin_bootstrap sample_admin_server (admin_page ''ADMIN''\<lparr>dp_roleOptions := html_roles\<rparr>)))) = new @ [(''GET'', ''/auth/me'', [])] \<and>
      list_all (\<lambda>(verb, path, body). case map_of body ''role'' of Some v \<Rightarrow> v = BText ''USER'' | None \<Rightarrow> True) new \<and>
      {''POST'', ''PATCH''} \<subseteq> set (map fst new))"
proof -
  let ?p = "admin_page ''ADMIN''\<lparr>dp_roleOptions := html_roles\<rparr>" and ?ctx = "\<lparr>cx_requestId = None, cx_userId = None, cx_tenantId = None,
    cx_role = Some ADMIN, cx_ip = None, cx_userAgent = None\<rparr>"
  let ?es = "[Section ''users'', PickUserRole ''DEVELOPER'', CreateUser ''e'' ''w'' ''t'', SaveUser 0]"
  have me: "as_me sample_admin_server (dp_server ?p) = ((), Http 200 ''{}'' (Parsed (role_name ADMIN) None))" by code_simp
  have h: "dp_roleOptions ?p = html_roles" "dp_userRows ?p = []" "cx_role ?ctx = Some ADMIN" "dp_requests ?p = []" by (simp_all add: admin_page_def)
  have a: "role_allowed ?ctx y \<longleftrightarrow> y = ''USER''" for y by (simp add: role_allowed_def allowedRolesForCreator_def role_name_def)
  have b: "(\<exists>y. v = BText y \<and> y = ''USER'') \<longleftrightarrow> v = BText ''USER''" for v by simp
  have i: "(200 :: nat) \<le> 200" "(200 :: nat) \<le> 299" "ADMIN \<noteq> USER" by simp_all
  note u = page_sends_roles_the_server_accepts [OF me i h(1-3), unfolded a b h(4)]
  have sent: "{''POST'', ''PATCH''} \<subseteq> set (map fst (butlast (dp_requests (admin_run sample_admin_server ?es (fst (admin_bootstrap sample_admin_server ?p))))))"
    by code_simp
  have o: "(''DEVELOPER'', False) \<notin> set (dp_roleOptions (fst (admin_bootstrap sample_admin_server ?p)))" using u [of "''DEVELOPER''"] by simp
  obtain new where n: "dp_requests (admin_run sample_admin_server ?es (fst (admin_bootstrap sample_admin_server ?p))) = new @ [(''GET'', ''/auth/me'', [])]"
    "list_all (\<lambda>(verb, path, body). case map_of body ''role'' of Some v \<Rightarrow> v = BText ''USER'' | None \<Rightarrow> True) new"
    using conjunct2 [OF u [of "''USER''" ?es]] by blast
  have "{''POST'', ''PATCH''} \<subseteq> set (map fst new)" using sent unfolding n(1) by simp
  then show ?thesis using o n by blast
qed

end
