(* ===== verification/LoginUi.thy ===== *)
theory LoginUi
  imports AppUi
begin

text \<open>
  http/app-ui/login.js and http/admin-ui/login.js, which differ in the place they go to by default: the click on the button of
  the login page. The reply to the login and the parameter \<open>redirect\<close> of the page's address are arguments.
\<close>

record LoginPage =
  lp_status :: string
  lp_requests :: "(string \<times> string) list"   \<comment> \<open>e-mail address and password, the last one first\<close>
  lp_location :: "string option"

definition login_reply :: "'a HttpReply \<Rightarrow> 'a option res" where
  "login_reply r =
     (case r of
        NetworkFail m \<Rightarrow> Inl (Js m)
      | Http status text body \<Rightarrow>
          (case body of
             BadJson m \<Rightarrow> Inl (Js m)
           | _ \<Rightarrow>
             if 200 \<le> status \<and> status \<le> 299 then Inr (case body of Parsed v _ \<Rightarrow> Some v | _ \<Rightarrow> None)
             else Inl (Js (http_message status text body))))"

definition login_click ::
  "string \<Rightarrow> string option \<Rightarrow> (string \<Rightarrow> string \<Rightarrow> 'a HttpReply) \<Rightarrow> string \<Rightarrow> string \<Rightarrow> LoginPage \<Rightarrow> LoginPage" where
  "login_click home redirect server emailInput password p0 =
     (let p = p0\<lparr>lp_status := []\<rparr>; email = js_trim emailInput
      in if email = [] \<or> password = [] then p\<lparr>lp_status := ''Email and password required.''\<rparr>
         else
           let p = p\<lparr>lp_requests := (email, password) # lp_requests p\<rparr>
           in (case login_reply (server email password) of
                 Inr _ \<Rightarrow> p\<lparr>lp_location := Some (if truthy redirect then the redirect else home)\<rparr>
               | Inl e \<Rightarrow> p\<lparr>lp_status := err_message e\<rparr>))"

definition app_login :: "string option \<Rightarrow> (string \<Rightarrow> string \<Rightarrow> 'a HttpReply) \<Rightarrow> string \<Rightarrow> string \<Rightarrow> LoginPage \<Rightarrow> LoginPage" where
  "app_login = login_click ''/app''"

definition admin_login :: "string option \<Rightarrow> (string \<Rightarrow> string \<Rightarrow> 'a HttpReply) \<Rightarrow> string \<Rightarrow> string \<Rightarrow> LoginPage \<Rightarrow> LoginPage" where
  "admin_login = login_click ''/admin''"

text \<open>The page is left only after a reply with a status between 200 and 299 to a request with both inputs.\<close>

lemma left_only_after_login:
  assumes "lp_location p = None" "lp_location (login_click home redirect server email password p) = Some l"
  shows "(\<exists>st t b. server (js_trim email) password = Http st t b \<and> 200 \<le> st \<and> st \<le> 299) \<and>
    l = (if truthy redirect then the redirect else home)"
  using assms
  by (auto simp: login_click_def login_reply_def Let_def split: if_splits sum.splits HttpReply.splits JsonBody.splits)

text \<open>Where the page then goes is up to who made the link to it.\<close>

lemma redirect_is_taken:
  assumes "server (js_trim email) password = Http 200 t NotJson" "js_trim email \<noteq> []" "password \<noteq> []" "url \<noteq> []"
  shows "lp_location (login_click home (Some url) server email password p) = Some url"
  using assms by (simp add: login_click_def login_reply_def Let_def)

end
