(* ===== verification/Spec2Isabelle.thy ===== *)
theory Spec2Isabelle
  imports VaultFacts IntakeFacts AnswerFacts SessionFacts ResetFacts PlanFacts DataSetFacts
          WatcherFacts MaintenanceFacts GuardsFacts AdminUiFacts LoginUi
begin

text \<open>
  STRO Pilot: verification of the ingest, retrieval and administration of repair orders.

  The program. XML files of repair orders reach the system through a storage account; a worker (ops/intake-worker) takes each
  file once and posts it to the gateway (platform/gateway), which checks the caller and runs the ingest pipeline of the
  workload (workloads/ro-assistant): the XML is parsed into fields, each field is routed to the PII payload, the deterministic
  payload or the semantic payload, the customer is found again by hashes, the PII is sealed in a vault, the rest is stored in
  tables under row level security, the redacted text is cut in chunks and embedded. Users log in at the gateway and ask
  questions, which are answered from exact lookups and vector search; administrators keep tenants, users, groups and SFTP
  accesses. Two browser pages, scripts for the operation and a generator of synthetic orders go with it.

  The theories, by part (code under src/; a definition has the name of the function it models, or the manifest names it):

  \<^item> prelude: JsBase (errors and the result type, strings, ordered maps, stable sort), JsNumber (doubles as rationals with
    the rounding of IEEE 754, parsing and printing of numbers), JsRegex (backtracking regular expressions) with RegexFacts
    (their languages), JsDate (ISO texts of times);
  \<^item> XML and redaction (workloads/ro-assistant/src/services/ingest): LineItems, Levenshtein, XmlRouting, XmlValidate,
    Redaction; facts in XmlRoutingFacts, XmlValidateFacts, RedactionFacts, FieldRegexFacts;
  \<^item> database (platform/gateway/src/db, core/audit): Db has the tables, the session with its settings, transactions, row
    level security and each kind of statement, and withRequestContext, runWithTransaction and auditLog on top; DbFacts and
    TenantFacts say what a transaction of one tenant may read and change;
  \<^item> ingest pipeline: PiiVault (services/pii, services/tenant, customer identity), Store (store.ts, chunk.ts, embed.ts),
    Pipeline (ingestPipeline.ts, routes/ingestFromStorage.ts); facts in PipelineFacts and VaultFacts;
  \<^item> intake worker (ops/intake-worker): Intake, IntakeQueue; IntakeFacts has several workers as a step relation whose
    interleavings keep an invariant, and the proof that the worker's code is a run of that relation;
  \<^item> retrieval: Retrieval (classification, strategy, contexts, prompts), Lookups (queries), Answering (routes search, answer
    and ro); AnswerFacts;
  \<^item> gateway: Gateway (environment, tokens, all middleware with their state, both chains), Admin and AdminApi (tenants, users,
    groups, SFTP), Chat, Sessions (login, session, health, audit trail, secrets); GatewayFacts, AdminFacts, ChatFacts,
    SessionFacts;
  \<^item> pages (platform/gateway/src/http/app-ui, admin-ui): AppUi, AdminUi, LoginUi as state machines, one event for each
    listener; AppUiFacts, AdminUiFacts;
  \<^item> operation: Reset (ops/reset), Watcher, Maintenance and Guards (scripts); ResetFacts, WatcherFacts, MaintenanceFacts,
    GuardsFacts;
  \<^item> synthetic data (ops/synthetic-data): SynthRng, SynthData, SynthBuild, SynthGen (version 2 of the generator), DataSet
    (the older data set and its check); SynthRngFacts, SynthFacts, PlanFacts, DataSetFacts.

  How the code is rendered. A function that can throw gives an \<open>err + 'a\<close>; one that talks to the database is a function from
  the world to a world and such a result, so that what an error leaves behind is visible. Objects are records, unions are
  datatypes, insertion-ordered maps are association lists. Code outside of the repository is an argument: cryptography,
  the embedding and chat endpoints, HTTP, blob and queue services, JSON and base64 of the platform, clock and UUIDs, the
  shell. What a theorem needs of them (opening undoes sealing, UUIDs are distinct) is among its hypotheses.

  What the lemmas show:

  \<^item> data flow: PII text stays out of the deterministic and semantic payloads, redacted texts pass the leak
    check, the sealed payload opens again, a returning customer is found, the vault is written before everything else;
  \<^item> parsing: validation accepts exactly the documents that meet its limits, field names and generated documents read back,
    the edit distance is the least number of edits, the tag check accepts exactly a grammar;
  \<^item> tenants and access: a transaction neither reads nor changes another tenant, protected requests are authorised, the
    ingest caller is on the list, the rate limit bounds every interval of a window's length, users are created in the
    creator's scope, the login cookie authenticates, the administration page offers and sends only roles
    the server accepts, a path in upper case gets past the role rules;
  \<^item> workers and queues: ingest is called at most once for a file under every interleaving, the worker's code refines that step
    relation, a settled file is not tried again, metrics are conserved, the redrive loses no message whichever of its calls fail;
  \<^item> operation and data: a reset deletes with every consent or not at all and succeeds when consented, generated plans have
    the shares they should, pages show what they keep and their handlers end;
  \<^item> errors: statements no run gets past, sessions that see no rows, requests that escape a check or have no effect.

  Locales state the contracts between parts and are interpreted on the model: the expiring store of answer contexts, the
  orders a stable sort is called with, the properties of database steps that carry over to loops of them, and the
  invariants of the administration page under which its requests are all of a kind.

  Bounds and fuel. The star of an expression is given the length of the text as fuel, and an iteration is never empty, so it
  never runs out. The retry loops and the draws of the generator are structural. The two functions of the chat page that call
  each other take fuel; two are enough if no conversation has an empty name (\<open>page_handlers_end\<close>). The plan is
  proved for 10 to \<open>2^40\<close> orders, the draws below \<open>2^50\<close>: up to there no rounding crosses a whole number.

  Assumed throughout: the connection pool is configured, as loadEnv demands; strings have code units below 256; the database role is subject to row level security, which is forced;
  one operation reads the clock once; writing a file succeeds unless the model says otherwise; handlers of one page and scans
  of the watcher follow one another. Numbers are doubles far from the largest one.

  Not modelled: starting the server, static files and the routers that only answer 501 or mount others, the logger and the
  wrapper of the hash (no logic of their own); the test harnesses; style and markup of the pages. Requests of the gateway are
  interleaved only by whole statements where a theorem says so. SQL is modelled statement by statement as the code sends it;
  what a migration does to the schema enters as the list of tables, keys and constraints the statements meet.
\<close>

end
